(* ===== verification/Go_Base.thy ===== *)
theory Go_Base
  imports Main "HOL-Library.Char_ord" "HOL-Library.List_Lexorder"
begin

text \<open>
  The prelude of the development: the parts of the Go language and of its
  standard library that the modelled packages use, and the generic lemmas the
  component theories share.

  \<^item> A Go \<^verbatim>\<open>string\<close> or \<^verbatim>\<open>[]byte\<close> is a \<^typ>\<open>string\<close>: a list of bytes. The order of
    strings is the lexicographic order on bytes.
  \<^item> A Go \<^verbatim>\<open>map[string]V\<close> is an association list. Its order stands for the
    order in which one \<^verbatim>\<open>range\<close> loop happens to visit the map; \<open>go_map\<close>
    says that no key occurs twice, which every Go map satisfies.
  \<^item> A \<^verbatim>\<open>time.Time\<close> is its number of nanoseconds after Go's zero time, a
    \<^verbatim>\<open>time.Duration\<close> a number of nanoseconds. The difference of two times
    saturates at the bounds of a 64-bit integer, as \<^verbatim>\<open>Time.Sub\<close> does.
  \<^item> A function with an \<^verbatim>\<open>error\<close> result is a function into a sum type with
    the error on the left, or into an \<open>option\<close> when the error is the only
    result.
\<close>

named_theorems go_simps \<open>evaluation rules for the standard library\<close>
named_theorems go_consts \<open>defining equations of named string constants\<close>

text \<open>
  A chain of early returns succeeds when every guard fails. Rewriting with these
  rules, without splitting the guards, turns a validator into the condition it
  checks.
\<close>

named_theorems guards \<open>validators as conditions\<close>

lemma if_Some_None [guards]: "(if b then Some e else x) = None \<longleftrightarrow> \<not> b \<and> x = None"
  by simp

lemma if_Inl_Inr [guards]: "(if b then Inl e else x) = Inr y \<longleftrightarrow> \<not> b \<and> x = Inr y"
  by simp

lemma case_error_None [guards]:
  "(case x of None \<Rightarrow> y | Some e \<Rightarrow> Some (f e)) = None \<longleftrightarrow> x = None \<and> y = None"
  by (cases x) simp_all

lemma case_lookup_None [guards]:
  "(case x of None \<Rightarrow> Some e | Some v \<Rightarrow> f v) = None \<longleftrightarrow> (\<exists>v. x = Some v \<and> f v = None)"
  by (cases x) simp_all

lemma case_error_Inr [guards]:
  "(case x of None \<Rightarrow> y | Some e \<Rightarrow> Inl (f e)) = Inr z \<longleftrightarrow> x = None \<and> y = Inr z"
  by (cases x) simp_all

lemma case_sum_Inr [guards]:
  "(case x of Inl e \<Rightarrow> Inl (g e) | Inr v \<Rightarrow> f v) = Inr z \<longleftrightarrow> (\<exists>v. x = Inr v \<and> f v = Inr z)"
  by (cases x) simp_all

lemma find_SomeD: "find P xs = Some x \<Longrightarrow> x \<in> set xs \<and> P x"
  by (induction xs) (auto split: if_splits)

text \<open>A \<^verbatim>\<open>for\<close> loop that returns the first error its body finds.\<close>

fun first_error :: "('a \<Rightarrow> 'e option) \<Rightarrow> 'a list \<Rightarrow> 'e option" where
  "first_error f [] = None"
| "first_error f (x # xs) = (case f x of None \<Rightarrow> first_error f xs | Some e \<Rightarrow> Some e)"

lemma first_error_None [guards]: "first_error f xs = None \<longleftrightarrow> (\<forall>x \<in> set xs. f x = None)"
  by (induction xs) (auto split: option.splits)

subsection \<open>Maps\<close>

type_synonym ('k, 'v) gomap = "('k \<times> 'v) list"

definition go_map :: "('k, 'v) gomap \<Rightarrow> bool" where
  "go_map m \<longleftrightarrow> distinct (map fst m)"

fun map_put :: "'k \<Rightarrow> 'v \<Rightarrow> ('k, 'v) gomap \<Rightarrow> ('k, 'v) gomap" where
  "map_put k v [] = [(k, v)]"
| "map_put k v ((k', v') # m) = (if k = k' then (k, v) # m else (k', v') # map_put k v m)"

lemma map_of_map_put [simp]: "map_of (map_put k v m) = (map_of m)(k \<mapsto> v)"
  by (induction k v m rule: map_put.induct) (auto simp: fun_eq_iff)

lemma fst_set_map_put [simp]: "fst ` set (map_put k v m) = insert k (fst ` set m)"
  by (induction k v m rule: map_put.induct) auto

lemma go_map_Nil [simp]: "go_map []"
  by (simp add: go_map_def)

lemma go_map_Cons [simp]: "go_map ((k, v) # m) \<longleftrightarrow> k \<notin> fst ` set m \<and> go_map m"
  by (auto simp: go_map_def)

lemma go_map_put [simp]: "go_map m \<Longrightarrow> go_map (map_put k v m)"
  by (induction k v m rule: map_put.induct) auto

lemma go_map_lookup: "go_map m \<Longrightarrow> map_of m k = Some v \<longleftrightarrow> (k, v) \<in> set m"
  by (simp add: go_map_def)

lemma map_put_fresh: "k \<notin> fst ` set m \<Longrightarrow> map_put k v m = m @ [(k, v)]"
  by (induction k v m rule: map_put.induct) auto

lemma go_map_perm_lookup:
  assumes "go_map m" and "go_map m'" and "set m = set m'"
  shows "map_of m = map_of m'"
proof
  fix k
  show "map_of m k = map_of m' k"
  proof (cases "map_of m k")
    case None
    then have "k \<notin> fst ` set m'"
      using assms(3) by (simp add: map_of_eq_None_iff)
    then have "map_of m' k = None"
      by (simp add: map_of_eq_None_iff)
    with None show ?thesis by simp
  next
    case (Some v)
    then have "(k, v) \<in> set m'"
      using assms(1,3) by (simp add: go_map_lookup)
    then have "map_of m' k = Some v"
      using assms(2) by (simp add: go_map_lookup)
    with Some show ?thesis by simp
  qed
qed

subsection \<open>Times and durations\<close>

type_synonym gotime = int
type_synonym duration = int

definition maxDuration :: duration where "maxDuration = 9223372036854775807"
definition minDuration :: duration where "minDuration = - 9223372036854775808"
definition Second :: duration where "Second = 1000000000"
definition Minute :: duration where "Minute = 60 * Second"
definition Hour :: duration where "Hour = 60 * Minute"

lemmas duration_defs = maxDuration_def minDuration_def Second_def Minute_def Hour_def

definition IsZero :: "gotime \<Rightarrow> bool" where
  "IsZero t \<longleftrightarrow> t = 0"

definition time_Add :: "gotime \<Rightarrow> duration \<Rightarrow> gotime" where
  "time_Add t d = t + d"

definition time_Sub :: "gotime \<Rightarrow> gotime \<Rightarrow> duration" where
  "time_Sub t u = max minDuration (min maxDuration (t - u))"

lemma time_Sub_geD: "w \<le> time_Sub t u \<Longrightarrow> minDuration < w \<Longrightarrow> w \<le> t - u"
  by (auto simp: time_Sub_def)

lemma time_Sub_le_iff:
  "d < maxDuration \<Longrightarrow> minDuration \<le> d \<Longrightarrow> time_Sub t u \<le> d \<longleftrightarrow> t - u \<le> d"
  by (auto simp: time_Sub_def duration_defs)

text \<open>Two's complement wrap-around of the 64-bit product \<^verbatim>\<open>time.Duration(n) * d\<close>.\<close>

definition int64 :: "int \<Rightarrow> int" where
  "int64 x = (x + 2 ^ 63) mod 2 ^ 64 - 2 ^ 63"

lemma int64_id: "- (2 ^ 63) \<le> x \<Longrightarrow> x < 2 ^ 63 \<Longrightarrow> int64 x = x"
  by (simp add: int64_def)

text \<open>Integer division of the source truncates towards zero.\<close>

definition go_quot :: "int \<Rightarrow> int \<Rightarrow> int" where
  "go_quot a b = (if (a < 0) = (b < 0) then \<bar>a\<bar> div \<bar>b\<bar> else - (\<bar>a\<bar> div \<bar>b\<bar>))"

lemma int_le_div_iff:
  fixes a b n :: int
  assumes "0 < b"
  shows "n \<le> a div b \<longleftrightarrow> n * b \<le> a"
proof
  assume "n \<le> a div b"
  then have "n * b \<le> a div b * b" using assms by (intro mult_right_mono) auto
  also have "a div b * b \<le> a"
    using assms pos_mod_sign [of b a] by (simp add: minus_mod_eq_div_mult [symmetric])
  finally show "n * b \<le> a" .
next
  assume "n * b \<le> a"
  then have "n * b div b \<le> a div b" using assms by (intro zdiv_mono1) auto
  with assms show "n \<le> a div b" by simp
qed

lemma go_quot_pos: "0 \<le> a \<Longrightarrow> 0 < b \<Longrightarrow> go_quot a b = a div b"
  by (simp add: go_quot_def)

end
