(* ===== verification/Go_Strings.thy ===== *)
theory Go_Strings
  imports Go_Base
begin

text \<open>
  Byte strings as the modelled packages use them: \<^verbatim>\<open>strings.TrimSpace\<close>,
  \<^verbatim>\<open>strings.Contains\<close>, \<^verbatim>\<open>strings.HasPrefix\<close>, the anchored regular expressions
  that consist of one character class per position, and
  \<^verbatim>\<open>encoding/hex\<close>.
\<close>

subsection \<open>White space\<close>

text \<open>
  The UTF-8 encodings of the characters with Unicode property White\_Space, which
  are the ones \<^verbatim>\<open>strings.TrimSpace\<close> cuts off. No encoding is a proper suffix or
  prefix of another, so cutting encodings off the byte string is cutting the
  characters off.
\<close>

definition unicode_spaces :: "string list" where
  "unicode_spaces =
     [[CHR 0x20], [CHR 0x09], [CHR 0x0A], [CHR 0x0B], [CHR 0x0C], [CHR 0x0D],
      [CHR 0xC2, CHR 0x85], [CHR 0xC2, CHR 0xA0], [CHR 0xE1, CHR 0x9A, CHR 0x80],
      [CHR 0xE2, CHR 0x80, CHR 0x80], [CHR 0xE2, CHR 0x80, CHR 0x81],
      [CHR 0xE2, CHR 0x80, CHR 0x82], [CHR 0xE2, CHR 0x80, CHR 0x83],
      [CHR 0xE2, CHR 0x80, CHR 0x84], [CHR 0xE2, CHR 0x80, CHR 0x85],
      [CHR 0xE2, CHR 0x80, CHR 0x86], [CHR 0xE2, CHR 0x80, CHR 0x87],
      [CHR 0xE2, CHR 0x80, CHR 0x88], [CHR 0xE2, CHR 0x80, CHR 0x89],
      [CHR 0xE2, CHR 0x80, CHR 0x8A], [CHR 0xE2, CHR 0x80, CHR 0xA8],
      [CHR 0xE2, CHR 0x80, CHR 0xA9], [CHR 0xE2, CHR 0x80, CHR 0xAF],
      [CHR 0xE2, CHR 0x81, CHR 0x9F], [CHR 0xE3, CHR 0x80, CHR 0x80]]"

definition has_prefix :: "string \<Rightarrow> string \<Rightarrow> bool" where
  "has_prefix p s \<longleftrightarrow> take (length p) s = p"

function strip_left :: "string list \<Rightarrow> string \<Rightarrow> string" where
  "strip_left ps s =
     (case find (\<lambda>p. p \<noteq> [] \<and> has_prefix p s) ps of
        None \<Rightarrow> s
      | Some p \<Rightarrow> strip_left ps (drop (length p) s))"
  by pat_completeness auto
termination
proof (relation "measure (\<lambda>(ps, s). length s)")
  show "wf (measure (\<lambda>(ps::string list, s::string). length s))" by simp
next
  fix ps :: "string list" and s p
  assume "find (\<lambda>p. p \<noteq> [] \<and> has_prefix p s) ps = Some p"
  then have "p \<noteq> []" and "has_prefix p s" by (auto simp: find_Some_iff)
  then have "s \<noteq> []" and "0 < length p" by (auto simp: has_prefix_def)
  then show "((ps, drop (length p) s), (ps, s)) \<in> measure (\<lambda>(ps, s). length s)" by simp
qed

declare strip_left.simps [simp del]

definition TrimSpace :: "string \<Rightarrow> string" where
  "TrimSpace s = rev (strip_left (map rev unicode_spaces) (rev (strip_left unicode_spaces s)))"

lemma strip_left_cases:
  assumes "\<And>p. p \<in> set ps \<Longrightarrow> p \<noteq> [] \<Longrightarrow> \<not> has_prefix p s"
  shows "strip_left ps s = s"
proof -
  have "find (\<lambda>p. p \<noteq> [] \<and> has_prefix p s) ps = None"
    using assms by (auto simp: find_None_iff)
  then show ?thesis by (subst strip_left.simps) simp
qed

lemma strip_left_Nil [simp]: "strip_left ps [] = []"
  by (rule strip_left_cases) (simp add: has_prefix_def)

lemma TrimSpace_Nil [simp]: "TrimSpace [] = []"
  by (simp add: TrimSpace_def)

text \<open>The bytes that can start, and those that can end, the encoding of a space.\<close>

definition space_byte :: "char \<Rightarrow> bool" where
  "space_byte c \<longleftrightarrow> c \<in> hd ` set unicode_spaces \<union> last ` set unicode_spaces"

lemma space_byte_hd: "p \<in> set unicode_spaces \<Longrightarrow> space_byte (hd p)"
  by (simp add: space_byte_def)

lemma space_byte_last: "p \<in> set unicode_spaces \<Longrightarrow> space_byte (last p)"
  by (simp add: space_byte_def)

lemma strip_left_no_space:
  assumes "s \<noteq> []" and "\<not> space_byte (hd s)"
  shows "strip_left unicode_spaces s = s"
proof (rule strip_left_cases)
  fix p assume p: "p \<in> set unicode_spaces" "p \<noteq> []"
  then have "hd p \<noteq> hd s" using assms(2) by (metis space_byte_hd)
  then show "\<not> has_prefix p s"
    using p(2) assms(1) by (cases p; cases s) (auto simp: has_prefix_def)
qed

lemma strip_right_no_space:
  assumes "s \<noteq> []" and "\<not> space_byte (last s)"
  shows "strip_left (map rev unicode_spaces) (rev s) = rev s"
proof (rule strip_left_cases)
  fix p assume p: "p \<in> set (map rev unicode_spaces)" "p \<noteq> []"
  then have "hd p \<noteq> hd (rev s)"
    using assms by (auto simp: hd_rev dest: space_byte_last)
  then show "\<not> has_prefix p (rev s)"
    using p(2) assms(1) by (cases p; cases "rev s") (auto simp: has_prefix_def)
qed

lemma TrimSpace_id:
  assumes "s \<noteq> []" and "\<not> space_byte (hd s)" and "\<not> space_byte (last s)"
  shows "TrimSpace s = s"
  using strip_left_no_space [OF assms(1,2)] strip_right_no_space [OF assms(1,3)]
  by (simp add: TrimSpace_def)

text \<open>A space encoding never ends in an ASCII byte other than an ASCII space.\<close>

lemma TrimSpace_nonempty:
  assumes "s \<noteq> []" and "\<not> space_byte (hd s)"
  shows "TrimSpace s \<noteq> []"
proof
  assume "TrimSpace s = []"
  moreover have "strip_left unicode_spaces s = s"
    by (rule strip_left_no_space) fact+
  ultimately have stripped: "strip_left (map rev unicode_spaces) (rev s) = []"
    by (simp add: TrimSpace_def)
  have suffix: "strip_left (map rev unicode_spaces) (u @ [c]) \<noteq> []" if "\<not> space_byte c" for u c
  proof (induction "length u" arbitrary: u rule: less_induct)
    case less
    show ?case
    proof (cases "find (\<lambda>p. p \<noteq> [] \<and> has_prefix p (u @ [c])) (map rev unicode_spaces)")
      case None
      then show ?thesis by (subst strip_left.simps) simp
    next
      case (Some p)
      then have p: "p \<in> set (map rev unicode_spaces)" "p \<noteq> []" "has_prefix p (u @ [c])"
        by (auto dest: find_SomeD)
      then have "last p \<noteq> c"
        using that by (auto simp: last_rev dest: space_byte_hd)
      with p(2,3) have len: "length p \<le> length u"
        by (cases "length p = Suc (length u)")
           (auto simp: has_prefix_def min_def dest: arg_cong [where f = length] split: if_splits)
      then have "strip_left (map rev unicode_spaces) (u @ [c]) =
                 strip_left (map rev unicode_spaces) (drop (length p) u @ [c])"
        by (subst strip_left.simps) (simp add: Some)
      moreover have "length (drop (length p) u) < length u"
        using p(2) len by (cases p; cases u) auto
      ultimately show ?thesis using less by simp
    qed
  qed
  obtain c t where "s = c # t" using assms(1) by (cases s) auto
  with suffix [of c "rev t"] assms(2) stripped show False by simp
qed

text \<open>ASCII bytes other than the six ASCII spaces are no part of a space.\<close>

definition graphic :: "char \<Rightarrow> bool" where
  "graphic c \<longleftrightarrow> CHR 0x21 \<le> c \<and> c \<le> CHR 0x7E"

lemma graphic_not_space: "graphic c \<Longrightarrow> \<not> space_byte c"
  by (auto simp: graphic_def space_byte_def unicode_spaces_def)

subsection \<open>Substrings, prefixes and suffixes\<close>

fun Contains :: "string \<Rightarrow> string \<Rightarrow> bool" where
  "Contains [] p \<longleftrightarrow> p = []"
| "Contains (c # s) p \<longleftrightarrow> has_prefix p (c # s) \<or> Contains s p"

lemma has_prefix_iff: "has_prefix p s \<longleftrightarrow> (\<exists>t. s = p @ t)"
  by (metis append_eq_conv_conj append_take_drop_id has_prefix_def)

lemma Contains_iff: "Contains s p \<longleftrightarrow> (\<exists>u v. s = u @ p @ v)"
proof (induction s)
  case Nil
  show ?case by auto
next
  case (Cons c s)
  note IH = Cons.IH
  show ?case
  proof
    assume "Contains (c # s) p"
    then show "\<exists>u v. c # s = u @ p @ v"
      using Cons by (auto simp: has_prefix_iff) (metis append_Cons append_Nil)+
  next
    assume "\<exists>u v. c # s = u @ p @ v"
    then obtain u v where uv: "c # s = u @ p @ v" by blast
    show "Contains (c # s) p"
    proof (cases u)
      case Nil
      with uv have "has_prefix p (c # s)" by (auto simp: has_prefix_iff)
      then show ?thesis by simp
    next
      case (Cons d u')
      with uv have "\<exists>u v. s = u @ p @ v" by auto
      with IH show ?thesis by simp
    qed
  qed
qed

definition ContainsAny :: "string \<Rightarrow> string \<Rightarrow> bool" where
  "ContainsAny s cs \<longleftrightarrow> list_ex (\<lambda>c. c \<in> set cs) s"

subsection \<open>Character classes\<close>

definition is_lower :: "char \<Rightarrow> bool" where
  "is_lower c \<longleftrightarrow> CHR ''a'' \<le> c \<and> c \<le> CHR ''z''"

definition is_upper :: "char \<Rightarrow> bool" where
  "is_upper c \<longleftrightarrow> CHR ''A'' \<le> c \<and> c \<le> CHR ''Z''"

definition is_digit :: "char \<Rightarrow> bool" where
  "is_digit c \<longleftrightarrow> CHR ''0'' \<le> c \<and> c \<le> CHR ''9''"

definition is_hex :: "char \<Rightarrow> bool" where
  "is_hex c \<longleftrightarrow> is_digit c \<or> (CHR ''a'' \<le> c \<and> c \<le> CHR ''f'')"

lemmas class_defs = is_lower_def is_upper_def is_digit_def is_hex_def

lemma hex_cases: "is_hex c \<Longrightarrow> is_lower c \<or> is_digit c"
  using order_trans [of c "CHR ''f''" "CHR ''z''"] by (auto simp: class_defs)

lemma char_not_zero: "is_lower c \<or> is_upper c \<or> is_digit c \<Longrightarrow> c \<noteq> CHR 0x00"
  by (auto simp: class_defs)

subsection \<open>Hexadecimal encoding\<close>

definition hex_digit :: "nat \<Rightarrow> char" where
  "hex_digit n = ''0123456789abcdef'' ! n"

fun hex_EncodeToString :: "string \<Rightarrow> string" where
  "hex_EncodeToString [] = []"
| "hex_EncodeToString (c # s) =
     hex_digit (of_char c div 16) # hex_digit (of_char c mod 16) # hex_EncodeToString s"

lemma length_hex [simp]: "length (hex_EncodeToString s) = 2 * length s"
  by (induction s) auto

lemma is_hex_digit: "n < 16 \<Longrightarrow> is_hex (hex_digit n)"
proof -
  assume "n < 16"
  then have "n \<in> set [0..<16]" by simp
  moreover have "list_all (\<lambda>n. is_hex (hex_digit n)) [0..<16]"
    by code_simp
  ultimately show ?thesis by (auto simp: list_all_iff)
qed

lemma of_char_div_16: "(of_char c :: nat) div 16 < 16"
  by (rule less_mult_imp_div_less) simp

lemma is_hex_encode: "list_all is_hex (hex_EncodeToString s)"
  by (induction s) (simp_all add: is_hex_digit of_char_div_16)

lemma hex_digit_inj: "m < 16 \<Longrightarrow> n < 16 \<Longrightarrow> hex_digit m = hex_digit n \<longleftrightarrow> m = n"
proof -
  assume "m < 16" "n < 16"
  moreover have "distinct ''0123456789abcdef''" by code_simp
  ultimately show ?thesis by (simp add: hex_digit_def nth_eq_iff_index_eq)
qed

lemma hex_EncodeToString_inj: "hex_EncodeToString s = hex_EncodeToString t \<longleftrightarrow> s = t"
proof (induction s arbitrary: t)
  case Nil
  show ?case by (cases t) auto
next
  case (Cons c s)
  show ?case
  proof (cases t)
    case (Cons d t')
    have "(of_char c :: nat) div 16 = of_char d div 16 \<and> (of_char c :: nat) mod 16 = of_char d mod 16
          \<longleftrightarrow> (of_char c :: nat) = of_char d"
      by (metis div_mult_mod_eq)
    then show ?thesis
      using Cons Cons.IH by (auto simp: hex_digit_inj of_char_div_16 of_char_eq_iff)
  qed simp
qed

end
