(* ===== verification/Iam_Types.thy ===== *)
theory Iam_Types
  imports Go_Strings
begin

text \<open>
  The data of package \<^verbatim>\<open>pkg/iam\<close> (\<^verbatim>\<open>types.go\<close>, the event types of
  \<^verbatim>\<open>audit.go\<close>). String-valued enumerations of the source stay strings, because
  the code compares them with values that need not be one of the constants; the
  constants are definitions collected in \<open>go_consts\<close>, and their pairwise
  distinctness is proved once here.
\<close>

subsection \<open>Errors\<close>

datatype iam_error =
    ErrUnknownPrincipal | ErrUnknownAction | ErrUnknownTenant | ErrUnknownProject
  | ErrCrossTenant | ErrObjectScope | ErrTenantSuspended | ErrTenantDeleting
  | ErrTenantState | ErrLastOwner | ErrReasonRequired | ErrTicketRequired
  | ErrAuditRequired | ErrTokenExpired | ErrTokenRevoked | ErrTokenScope
  | ErrSupportGrant | ErrRoleDenied | ErrAuthentication | ErrMFARequired
  | ErrSessionAssurance | ErrBreakGlass | ErrTargetPrincipal
  | PlainError string
  | WrapError string iam_error

fun iam_error_text :: "iam_error \<Rightarrow> string" where
  "iam_error_text ErrUnknownPrincipal = ''iam: unknown principal''"
| "iam_error_text ErrUnknownAction = ''iam: unknown action''"
| "iam_error_text ErrUnknownTenant = ''iam: unknown tenant''"
| "iam_error_text ErrUnknownProject = ''iam: unknown project''"
| "iam_error_text ErrCrossTenant = ''iam: cross-tenant access denied''"
| "iam_error_text ErrObjectScope = ''iam: object scope denied''"
| "iam_error_text ErrTenantSuspended = ''iam: tenant suspended''"
| "iam_error_text ErrTenantDeleting = ''iam: tenant deleting''"
| "iam_error_text ErrTenantState = ''iam: invalid tenant lifecycle state''"
| "iam_error_text ErrLastOwner = ''iam: last owner removal denied''"
| "iam_error_text ErrReasonRequired = ''iam: explicit reason required''"
| "iam_error_text ErrTicketRequired = ''iam: support ticket reference required''"
| "iam_error_text ErrAuditRequired = ''iam: durable audit required''"
| "iam_error_text ErrTokenExpired = ''iam: api token expired''"
| "iam_error_text ErrTokenRevoked = ''iam: api token revoked''"
| "iam_error_text ErrTokenScope = ''iam: api token scope denied''"
| "iam_error_text ErrSupportGrant = ''iam: support grant denied''"
| "iam_error_text ErrRoleDenied = ''iam: role denied''"
| "iam_error_text ErrAuthentication = ''iam: trusted authentication evidence required''"
| "iam_error_text ErrMFARequired = ''iam: multi-factor assurance required''"
| "iam_error_text ErrSessionAssurance = ''iam: fresh session assurance required''"
| "iam_error_text ErrBreakGlass = ''iam: break-glass context required''"
| "iam_error_text ErrTargetPrincipal = ''iam: target principal is not an owner of the project''"
| "iam_error_text (PlainError t) = t"
| "iam_error_text (WrapError t e) = t @ '': '' @ iam_error_text e"

text \<open>\<^verbatim>\<open>errors.Is\<close>: the error or one it wraps.\<close>

fun iam_error_Is :: "iam_error \<Rightarrow> iam_error \<Rightarrow> bool" where
  "iam_error_Is (WrapError t e) target \<longleftrightarrow> WrapError t e = target \<or> iam_error_Is e target"
| "iam_error_Is e target \<longleftrightarrow> e = target"

subsection \<open>Enumerations\<close>

type_synonym Action = string
type_synonym Role = string
type_synonym TenantState = string
type_synonym AuditResult = string
type_synonym CredentialClass = string
type_synonym MFAMethodClass = string
type_synonym SessionState = string

definition ActionProjectRead :: Action where [go_consts]: "ActionProjectRead = ''project.read''"
definition ActionProjectWrite :: Action where [go_consts]: "ActionProjectWrite = ''project.write''"
definition ActionProjectManage :: Action where [go_consts]: "ActionProjectManage = ''project.manage''"
definition ActionOwnerRemove :: Action where [go_consts]: "ActionOwnerRemove = ''owner.remove''"
definition ActionTenantExport :: Action where [go_consts]: "ActionTenantExport = ''tenant.export''"
definition ActionTenantRecover :: Action where [go_consts]: "ActionTenantRecover = ''tenant.recover''"

definition RoleOwner :: Role where [go_consts]: "RoleOwner = ''owner''"
definition RoleTenantAdmin :: Role where [go_consts]: "RoleTenantAdmin = ''tenant_admin''"
definition RoleTenantViewer :: Role where [go_consts]: "RoleTenantViewer = ''tenant_viewer''"
definition RoleSupport :: Role where [go_consts]: "RoleSupport = ''support''"
definition RolePlatformAdmin :: Role where [go_consts]: "RolePlatformAdmin = ''platform_admin''"

definition TenantStateActive :: TenantState where [go_consts]: "TenantStateActive = ''active''"
definition TenantStateSuspended :: TenantState where [go_consts]: "TenantStateSuspended = ''suspended''"
definition TenantStateDeleting :: TenantState where [go_consts]: "TenantStateDeleting = ''deleting''"
definition TenantStateRecovering :: TenantState where [go_consts]: "TenantStateRecovering = ''recovering''"
definition TenantStateExporting :: TenantState where [go_consts]: "TenantStateExporting = ''exporting''"

definition AuditResultAllow :: AuditResult where [go_consts]: "AuditResultAllow = ''allow''"
definition AuditResultDeny :: AuditResult where [go_consts]: "AuditResultDeny = ''deny''"

definition CredentialClassInteractiveSession :: CredentialClass where
  [go_consts]: "CredentialClassInteractiveSession = ''interactive_session''"
definition CredentialClassShortLivedAPIToken :: CredentialClass where
  [go_consts]: "CredentialClassShortLivedAPIToken = ''short_lived_api_token''"
definition CredentialClassSupportGrant :: CredentialClass where
  [go_consts]: "CredentialClassSupportGrant = ''support_grant''"
definition CredentialClassBreakGlass :: CredentialClass where
  [go_consts]: "CredentialClassBreakGlass = ''break_glass''"

definition MFAMethodNone :: MFAMethodClass where [go_consts]: "MFAMethodNone = ''none''"
definition MFAMethodTOTP :: MFAMethodClass where [go_consts]: "MFAMethodTOTP = ''totp''"
definition MFAMethodWebAuthn :: MFAMethodClass where [go_consts]: "MFAMethodWebAuthn = ''webauthn''"
definition MFAMethodHardwareKey :: MFAMethodClass where [go_consts]: "MFAMethodHardwareKey = ''hardware_key''"
definition MFAMethodExternalIDP :: MFAMethodClass where [go_consts]: "MFAMethodExternalIDP = ''external_idp''"

definition SessionStateFresh :: SessionState where [go_consts]: "SessionStateFresh = ''fresh''"
definition SessionStateStale :: SessionState where [go_consts]: "SessionStateStale = ''stale''"
definition SessionStateAbsent :: SessionState where [go_consts]: "SessionStateAbsent = ''absent''"
definition SessionStateRevoked :: SessionState where [go_consts]: "SessionStateRevoked = ''revoked''"

lemma action_distinct:
  "distinct [ActionProjectRead, ActionProjectWrite, ActionProjectManage, ActionOwnerRemove,
     ActionTenantExport, ActionTenantRecover]"
  "distinct [ActionTenantRecover, ActionTenantExport, ActionOwnerRemove, ActionProjectManage,
     ActionProjectWrite, ActionProjectRead]"
  by (simp_all add: go_consts)

lemma role_distinct:
  "distinct [RoleOwner, RoleTenantAdmin, RoleTenantViewer, RoleSupport, RolePlatformAdmin]"
  "distinct [RolePlatformAdmin, RoleSupport, RoleTenantViewer, RoleTenantAdmin, RoleOwner]"
  by (simp_all add: go_consts)

lemma tenant_state_distinct:
  "distinct [TenantStateActive, TenantStateSuspended, TenantStateDeleting, TenantStateRecovering,
     TenantStateExporting]"
  "distinct [TenantStateExporting, TenantStateRecovering, TenantStateDeleting,
     TenantStateSuspended, TenantStateActive]"
  by (simp_all add: go_consts)

lemma credential_distinct:
  "distinct [CredentialClassInteractiveSession, CredentialClassShortLivedAPIToken,
     CredentialClassSupportGrant, CredentialClassBreakGlass]"
  "distinct [CredentialClassBreakGlass, CredentialClassSupportGrant,
     CredentialClassShortLivedAPIToken, CredentialClassInteractiveSession]"
  by (simp_all add: go_consts)

lemma audit_result_distinct [simp]:
  "AuditResultAllow \<noteq> AuditResultDeny" "AuditResultDeny \<noteq> AuditResultAllow"
  by (simp_all add: go_consts)

lemma session_state_distinct [simp]:
  "SessionStateAbsent \<noteq> SessionStateFresh" "SessionStateFresh \<noteq> SessionStateAbsent"
  by (simp_all add: go_consts)

lemmas enum_distinct [simp] =
  action_distinct [simplified] role_distinct [simplified]
  tenant_state_distinct [simplified] credential_distinct [simplified]

subsection \<open>Authentication evidence\<close>

record MFAAssurance =
  MFA_Required :: bool
  MFA_Satisfied :: bool
  MFA_MethodClass :: MFAMethodClass

record SessionAssurance =
  Session_State :: SessionState
  Session_MaxAgeSeconds :: int
  Session_ReauthenticationRequired :: bool

record AuthenticationProof =
  Proof_VerifiedAt :: gotime
  Proof_ExpiresAt :: gotime

record AuthenticationResult =
  Authn_SubjectID :: string
  Authn_APITokenRef :: string
  Authn_CredentialClass :: CredentialClass
  Authn_MFA :: MFAAssurance
  Authn_Session :: SessionAssurance
  Authn_Proof :: AuthenticationProof

text \<open>The zero values Go gives to declared but unset structures.\<close>

definition zero_MFA :: MFAAssurance where
  "zero_MFA = \<lparr>MFA_Required = False, MFA_Satisfied = False, MFA_MethodClass = []\<rparr>"

definition zero_Session :: SessionAssurance where
  "zero_Session = \<lparr>Session_State = [], Session_MaxAgeSeconds = 0,
     Session_ReauthenticationRequired = False\<rparr>"

definition zero_Proof :: AuthenticationProof where
  "zero_Proof = \<lparr>Proof_VerifiedAt = 0, Proof_ExpiresAt = 0\<rparr>"

definition zero_AuthenticationResult :: AuthenticationResult where
  "zero_AuthenticationResult = \<lparr>Authn_SubjectID = [], Authn_APITokenRef = [],
     Authn_CredentialClass = [], Authn_MFA = zero_MFA, Authn_Session = zero_Session,
     Authn_Proof = zero_Proof\<rparr>"

subsection \<open>The role and scope directory\<close>

record Organization =
  Org_ID :: string
  Org_Name :: string

record Quotas =
  Quotas_Projects :: int
  Quotas_CPU :: int
  Quotas_MemoryGB :: int

record Tenant =
  Tenant_ID :: string
  Tenant_OrgID :: string
  Tenant_State :: TenantState
  Tenant_Quotas :: Quotas

record NamespaceScope =
  Scope_Namespace :: string
  Scope_Actions :: "Action list"

record Project =
  Project_ID :: string
  Project_TenantID :: string
  Project_OrgID :: string
  Project_Namespace :: string
  Project_Scopes :: "NamespaceScope list"

record Membership =
  Member_OrgID :: string
  Member_TenantID :: string
  Member_ProjectID :: string
  Member_Role :: Role

record Principal =
  Principal_ID :: string
  Principal_Groups :: "string list"
  Principal_Memberships :: "Membership list"
  Principal_Support :: bool

record APIToken =
  Token_Reference :: string
  Token_SubjectID :: string
  Token_SecretHashRef :: string
  Token_TenantID :: string
  Token_ProjectID :: string
  Token_Scopes :: "Action list"
  Token_ExpiresAt :: gotime
  Token_RevokedAt :: gotime

record SupportGrant =
  Grant_Reference :: string
  Grant_SubjectID :: string
  Grant_TenantID :: string
  Grant_ProjectID :: string
  Grant_Actions :: "Action list"
  Grant_TicketRef :: string
  Grant_Reason :: string
  Grant_ExpiresAt :: gotime

definition zero_Principal :: Principal where
  "zero_Principal = \<lparr>Principal_ID = [], Principal_Groups = [], Principal_Memberships = [],
     Principal_Support = False\<rparr>"

definition zero_APIToken :: APIToken where
  "zero_APIToken = \<lparr>Token_Reference = [], Token_SubjectID = [], Token_SecretHashRef = [],
     Token_TenantID = [], Token_ProjectID = [], Token_Scopes = [], Token_ExpiresAt = 0,
     Token_RevokedAt = 0\<rparr>"

subsection \<open>Requests, decisions and audit events\<close>

record PrincipalRef =
  Ref_ID :: string
  Ref_APITokenRef :: string

record TargetRef =
  Target_OrgID :: string
  Target_TenantID :: string
  Target_ProjectID :: string
  Target_Namespace :: string
  Target_Resource :: string
  Target_Name :: string

record RequestContext =
  Context_TicketRef :: string
  Context_CorrelationID :: string
  Context_Reason :: string
  Context_Now :: gotime
  Context_TargetPrincipal :: string

record AuthorizationRequest =
  Req_Subject :: PrincipalRef
  Req_Action :: Action
  Req_Target :: TargetRef
  Req_Context :: RequestContext
  Req_SupportGrantRef :: string
  Req_BreakGlass :: bool

record Decision =
  Dec_Allowed :: bool
  Dec_Err :: "iam_error option"
  Dec_PolicyRule :: string
  Dec_CredentialClass :: CredentialClass
  Dec_MFA :: MFAAssurance
  Dec_Session :: SessionAssurance
  Dec_Proof :: AuthenticationProof

definition zero_Decision :: Decision where
  "zero_Decision = \<lparr>Dec_Allowed = False, Dec_Err = None, Dec_PolicyRule = [],
     Dec_CredentialClass = [], Dec_MFA = zero_MFA, Dec_Session = zero_Session,
     Dec_Proof = zero_Proof\<rparr>"

record AuditEvent =
  Event_Actor :: string
  Event_RepresentedSubject :: string
  Event_Action :: Action
  Event_Target :: TargetRef
  Event_Reason :: string
  Event_TicketRef :: string
  Event_CorrelationID :: string
  Event_Result :: AuditResult
  Event_PolicyRule :: string
  Event_Timestamp :: gotime
  Event_Error :: string
  Event_BreakGlass :: bool
  Event_SupportGrantRef :: string
  Event_APITokenRef :: string
  Event_TargetPrincipal :: string
  Event_TargetLifecycle :: TenantState
  Event_TargetNamespace :: string
  Event_TargetResource :: string
  Event_TargetResourceName :: string
  Event_TargetOrganization :: string
  Event_TargetTenant :: string
  Event_TargetProject :: string
  Event_CredentialClass :: CredentialClass
  Event_MFA :: MFAAssurance
  Event_Session :: SessionAssurance
  Event_Proof :: AuthenticationProof

record SecurityEvent =
  SecEvent_Type :: string
  SecEvent_Actor :: string
  SecEvent_Subject :: string
  SecEvent_Result :: AuditResult
  SecEvent_Reason :: string
  SecEvent_CorrelationID :: string
  SecEvent_Timestamp :: gotime

subsection \<open>Clocks and contexts\<close>

text \<open>
  The two clocks of the package. The reading of the operating system's clock is an
  argument; \<^verbatim>\<open>UTC()\<close> changes the location of a time, not the instant.
\<close>

datatype Clock = FixedClock gotime | systemClock

fun clock_Now :: "Clock \<Rightarrow> gotime \<Rightarrow> gotime" where
  "clock_Now (FixedClock at) sys = at"
| "clock_Now systemClock sys = sys"

text \<open>
  A \<^verbatim>\<open>context.Context\<close>: the background context or one that carries transport
  data of type \<^typ>\<open>'c\<close>. A nil context is \<^term>\<open>None\<close> where the code tests for it.
\<close>

datatype 'c Context = Background | WithValues 'c

end
