(* ===== verification/Iam_Rules.thy ===== *)
theory Iam_Rules
  imports Iam_Types
begin

text \<open>
  The decision rules of \<^verbatim>\<open>pkg/iam/rules.go\<close>, the resolved subject and the two
  decision constructors of \<^verbatim>\<open>policy.go\<close>. Each loop over memberships, scopes or
  actions is a structural recursion in the order of the source; the lemmas give
  what the loop decides.
\<close>

subsection \<open>Definitions\<close>

record resolvedSubject =
  Subj_principal :: Principal
  Subj_actor :: string
  Subj_represented :: string
  Subj_apiGrant :: APIToken
  Subj_authnClass :: CredentialClass
  Subj_mfa :: MFAAssurance
  Subj_session :: SessionAssurance
  Subj_proof :: AuthenticationProof

definition allow :: "string \<Rightarrow> Decision" where
  "allow rule = zero_Decision\<lparr>Dec_Allowed := True, Dec_PolicyRule := rule\<rparr>"

definition deny :: "iam_error \<Rightarrow> string \<Rightarrow> Decision" where
  "deny err rule = zero_Decision\<lparr>Dec_Err := Some err, Dec_PolicyRule := rule\<rparr>"

definition knownSatisfiedMFAMethod :: "MFAMethodClass \<Rightarrow> bool" where
  "knownSatisfiedMFAMethod method \<longleftrightarrow>
     method = MFAMethodTOTP \<or> method = MFAMethodWebAuthn \<or>
     method = MFAMethodHardwareKey \<or> method = MFAMethodExternalIDP"

definition normalizedMFA ::
  "AuthorizationRequest \<Rightarrow> CredentialClass \<Rightarrow> MFAAssurance \<Rightarrow> MFAAssurance" where
  "normalizedMFA request credential mfa =
     (if credential \<noteq> CredentialClassShortLivedAPIToken \<and>
         (Req_Action request \<noteq> ActionProjectRead \<or> Req_SupportGrantRef request \<noteq> [] \<or>
          Req_BreakGlass request)
      then mfa\<lparr>MFA_Required := True\<rparr> else mfa)"

definition evaluateAssurance :: "AuthorizationRequest \<Rightarrow> resolvedSubject \<Rightarrow> Decision" where
  "evaluateAssurance request subject =
     (let mfa = normalizedMFA request (Subj_authnClass subject) (Subj_mfa subject);
          session = Subj_session subject in
      if MFA_Required mfa \<and>
         (\<not> MFA_Satisfied mfa \<or> \<not> knownSatisfiedMFAMethod (MFA_MethodClass mfa))
      then deny ErrMFARequired ''mfa_required''
      else if Subj_authnClass subject = CredentialClassShortLivedAPIToken then
        (if Session_State session \<noteq> SessionStateAbsent \<or> Session_MaxAgeSeconds session \<noteq> 0 \<or>
            Session_ReauthenticationRequired session
         then deny ErrSessionAssurance ''session_assurance_denied''
         else zero_Decision)
      else if Session_State session \<noteq> SessionStateFresh \<or> Session_MaxAgeSeconds session \<le> 0 \<or>
              Session_ReauthenticationRequired session
      then deny ErrSessionAssurance ''session_assurance_denied''
      else zero_Decision)"

fun anyPlatformAdmin :: "Membership list \<Rightarrow> bool" where
  "anyPlatformAdmin [] = False"
| "anyPlatformAdmin (m # ms) = (if Member_Role m = RolePlatformAdmin then True else anyPlatformAdmin ms)"

definition principalRequiresMFA :: "Principal \<Rightarrow> bool" where
  "principalRequiresMFA subj =
     (if Principal_Support subj then True
      else anyPlatformAdmin (Principal_Memberships subj))"

definition knownAction :: "Action \<Rightarrow> bool" where
  "knownAction action \<longleftrightarrow>
     action = ActionProjectRead \<or> action = ActionProjectWrite \<or> action = ActionProjectManage \<or>
     action = ActionOwnerRemove \<or> action = ActionTenantExport \<or> action = ActionTenantRecover"

definition lifecycleAllows :: "TenantState \<Rightarrow> Action \<Rightarrow> iam_error option" where
  "lifecycleAllows state action =
     (if state = TenantStateActive then None
      else if state = TenantStateSuspended then
        (if action = ActionTenantExport \<or> action = ActionTenantRecover \<or> action = ActionProjectRead
         then None else Some ErrTenantSuspended)
      else if state = TenantStateDeleting then
        (if action = ActionTenantExport \<or> action = ActionProjectRead
         then None else Some ErrTenantDeleting)
      else if state = TenantStateRecovering then
        (if action = ActionTenantRecover \<or> action = ActionProjectRead
         then None else Some ErrTenantSuspended)
      else if state = TenantStateExporting then
        (if action = ActionTenantExport \<or> action = ActionProjectRead
         then None else Some ErrTenantSuspended)
      else Some ErrTenantState)"

fun tenantAccessLoop :: "Membership list \<Rightarrow> TargetRef \<Rightarrow> bool" where
  "tenantAccessLoop [] target = False"
| "tenantAccessLoop (m # ms) target =
     (if Member_Role m = RolePlatformAdmin then True
      else if Member_OrgID m = Target_OrgID target \<and> Member_TenantID m = Target_TenantID target \<and>
              (Member_ProjectID m = [] \<or> Member_ProjectID m = Target_ProjectID target)
      then True
      else tenantAccessLoop ms target)"

definition hasTenantAccess :: "Principal \<Rightarrow> TargetRef \<Rightarrow> bool" where
  "hasTenantAccess subj target = tenantAccessLoop (Principal_Memberships subj) target"

definition membershipRoleAllows :: "Role \<Rightarrow> Action \<Rightarrow> bool" where
  "membershipRoleAllows role action =
     (if role = RoleOwner then
        action = ActionProjectRead \<or> action = ActionProjectWrite \<or>
        action = ActionProjectManage \<or> action = ActionOwnerRemove
      else if role = RoleTenantAdmin then
        action = ActionProjectRead \<or> action = ActionProjectWrite \<or> action = ActionProjectManage
      else if role = RoleTenantViewer then action = ActionProjectRead
      else if role = RoleSupport then action = ActionProjectRead
      else if role = RolePlatformAdmin then True
      else False)"

fun roleAllowsLoop :: "Membership list \<Rightarrow> Action \<Rightarrow> TargetRef \<Rightarrow> bool" where
  "roleAllowsLoop [] action target = False"
| "roleAllowsLoop (m # ms) action target =
     (if Member_Role m = RolePlatformAdmin then True
      else if Member_OrgID m \<noteq> Target_OrgID target \<or> Member_TenantID m \<noteq> Target_TenantID target
      then roleAllowsLoop ms action target
      else if Member_ProjectID m \<noteq> [] \<and> Member_ProjectID m \<noteq> Target_ProjectID target
      then roleAllowsLoop ms action target
      else if membershipRoleAllows (Member_Role m) action then True
      else roleAllowsLoop ms action target)"

definition roleAllows :: "Principal \<Rightarrow> Action \<Rightarrow> TargetRef \<Rightarrow> bool" where
  "roleAllows subj action target =
     roleAllowsLoop (Principal_Memberships subj) action target"

fun ruleForRoleLoop :: "Membership list \<Rightarrow> Action \<Rightarrow> TargetRef \<Rightarrow> string" where
  "ruleForRoleLoop [] action target = ''role_denied''"
| "ruleForRoleLoop (m # ms) action target =
     (if Member_Role m = RolePlatformAdmin then ''platform_admin_lifecycle''
      else if Member_OrgID m \<noteq> Target_OrgID target \<or> Member_TenantID m \<noteq> Target_TenantID target
      then ruleForRoleLoop ms action target
      else if Member_ProjectID m \<noteq> [] \<and> Member_ProjectID m \<noteq> Target_ProjectID target
      then ruleForRoleLoop ms action target
      else if Member_Role m = RoleTenantAdmin \<and> action = ActionProjectManage
      then ''tenant_admin_project_manage''
      else if membershipRoleAllows (Member_Role m) action then Member_Role m
      else ruleForRoleLoop ms action target)"

definition ruleForRole :: "Principal \<Rightarrow> Action \<Rightarrow> TargetRef \<Rightarrow> string" where
  "ruleForRole subj action target =
     ruleForRoleLoop (Principal_Memberships subj) action target"

fun actionAllowed :: "Action list \<Rightarrow> Action \<Rightarrow> bool" where
  "actionAllowed [] want = False"
| "actionAllowed (a # as) want = (if a = want then True else actionAllowed as want)"

fun scopeLoop :: "NamespaceScope list \<Rightarrow> string \<Rightarrow> Action \<Rightarrow> bool" where
  "scopeLoop [] namespace action = False"
| "scopeLoop (s # ss) namespace action =
     (if Scope_Namespace s = namespace \<and> actionAllowed (Scope_Actions s) action then True
      else scopeLoop ss namespace action)"

definition targetWithinProjectScope :: "TargetRef \<Rightarrow> Project \<Rightarrow> Action \<Rightarrow> bool" where
  "targetWithinProjectScope target project action =
     (if Target_Namespace target = [] then False
      else if Project_Namespace project \<noteq> [] \<and> Target_Namespace target = Project_Namespace project
      then True
      else scopeLoop (Project_Scopes project) (Target_Namespace target) action)"

definition sameProject :: "Membership \<Rightarrow> Project \<Rightarrow> bool" where
  "sameProject m project \<longleftrightarrow>
     Member_OrgID m = Project_OrgID project \<and> Member_TenantID m = Project_TenantID project \<and>
     Member_ProjectID m = Project_ID project"

fun ownsLoop :: "Membership list \<Rightarrow> Project \<Rightarrow> bool" where
  "ownsLoop [] project = False"
| "ownsLoop (m # ms) project =
     (if Member_Role m = RoleOwner \<and> sameProject m project then True else ownsLoop ms project)"

definition principalOwns :: "Principal \<Rightarrow> Project \<Rightarrow> bool" where
  "principalOwns subj project = ownsLoop (Principal_Memberships subj) project"

subsection \<open>What the loops decide\<close>

lemma allow_sel [simp]:
  "Dec_Allowed (allow r)" "Dec_Err (allow r) = None" "Dec_PolicyRule (allow r) = r"
  by (simp_all add: allow_def zero_Decision_def)

lemma deny_sel [simp]:
  "\<not> Dec_Allowed (deny e r)" "Dec_Err (deny e r) = Some e" "Dec_PolicyRule (deny e r) = r"
  by (simp_all add: deny_def zero_Decision_def)

lemma zero_Decision_sel [simp]: "\<not> Dec_Allowed zero_Decision" "Dec_Err zero_Decision = None"
  by (simp_all add: zero_Decision_def)

lemma decision_distinct [simp]:
  "deny e r \<noteq> zero_Decision" "zero_Decision \<noteq> deny e r"
  "allow r' \<noteq> zero_Decision" "allow r' \<noteq> deny e r" "deny e r \<noteq> allow r'"
  by (metis deny_sel(2) option.distinct(1) zero_Decision_sel(2))
     (metis deny_sel(2) option.distinct(1) zero_Decision_sel(2),
      metis allow_sel(1) zero_Decision_sel(1), metis allow_sel(1) deny_sel(1),
      metis allow_sel(1) deny_sel(1))

lemma actionAllowed_iff [simp]: "actionAllowed as a \<longleftrightarrow> a \<in> set as"
  by (induction as) auto

lemma scopeLoop_iff [simp]:
  "scopeLoop ss ns a \<longleftrightarrow> (\<exists>s \<in> set ss. Scope_Namespace s = ns \<and> a \<in> set (Scope_Actions s))"
  by (induction ss) auto

lemma anyPlatformAdmin_iff [simp]:
  "anyPlatformAdmin ms \<longleftrightarrow> (\<exists>m \<in> set ms. Member_Role m = RolePlatformAdmin)"
  by (induction ms) auto

text \<open>A membership reaches a target when it is in its tenant and either tenant-wide or for its project.\<close>

definition covers :: "Membership \<Rightarrow> TargetRef \<Rightarrow> bool" where
  "covers m t \<longleftrightarrow>
     Member_OrgID m = Target_OrgID t \<and> Member_TenantID m = Target_TenantID t \<and>
     (Member_ProjectID m = [] \<or> Member_ProjectID m = Target_ProjectID t)"

lemma hasTenantAccess_iff:
  "hasTenantAccess p t \<longleftrightarrow>
     (\<exists>m \<in> set (Principal_Memberships p). Member_Role m = RolePlatformAdmin \<or> covers m t)"
proof -
  have "tenantAccessLoop ms t \<longleftrightarrow> (\<exists>m \<in> set ms. Member_Role m = RolePlatformAdmin \<or> covers m t)" for ms
    by (induction ms) (auto simp: covers_def)
  then show ?thesis by (simp add: hasTenantAccess_def)
qed

lemma roleAllowsLoop_iff:
  "roleAllowsLoop ms a t \<longleftrightarrow>
     (\<exists>m \<in> set ms. Member_Role m = RolePlatformAdmin \<or>
        covers m t \<and> membershipRoleAllows (Member_Role m) a)"
  by (induction ms) (auto simp: covers_def)

lemma roleAllows_iff:
  "roleAllows p a t \<longleftrightarrow>
     (\<exists>m \<in> set (Principal_Memberships p). Member_Role m = RolePlatformAdmin \<or>
        covers m t \<and> membershipRoleAllows (Member_Role m) a)"
  by (simp add: roleAllows_def roleAllowsLoop_iff)

lemma roleAllows_hasTenantAccess: "roleAllows p a t \<Longrightarrow> hasTenantAccess p t"
  by (auto simp: roleAllows_iff hasTenantAccess_iff)

lemma membershipRoleAllows_known_role:
  "membershipRoleAllows role a \<Longrightarrow>
     role \<in> {RoleOwner, RoleTenantAdmin, RoleTenantViewer, RoleSupport, RolePlatformAdmin}"
  by (auto simp: membershipRoleAllows_def split: if_splits)

lemma ruleForRoleLoop_denied_iff:
  "ruleForRoleLoop ms a t = ''role_denied'' \<longleftrightarrow> \<not> roleAllowsLoop ms a t"
proof (induction ms)
  case Nil
  show ?case by simp
next
  case (Cons m ms)
  have "Member_Role m \<noteq> ''role_denied''" if "membershipRoleAllows (Member_Role m) a"
    using membershipRoleAllows_known_role [OF that] by (auto simp: go_consts)
  moreover have "membershipRoleAllows RoleTenantAdmin ActionProjectManage"
    by (simp add: membershipRoleAllows_def)
  ultimately show ?case using Cons by auto
qed

lemma ruleForRole_denied_iff: "ruleForRole p a t = ''role_denied'' \<longleftrightarrow> \<not> roleAllows p a t"
  by (simp add: ruleForRole_def roleAllows_def ruleForRoleLoop_denied_iff)

lemma principalOwns_iff:
  "principalOwns p j \<longleftrightarrow>
     (\<exists>m \<in> set (Principal_Memberships p). Member_Role m = RoleOwner \<and> sameProject m j)"
proof -
  have "ownsLoop ms j \<longleftrightarrow> (\<exists>m \<in> set ms. Member_Role m = RoleOwner \<and> sameProject m j)" for ms
    by (induction ms) auto
  then show ?thesis by (simp add: principalOwns_def)
qed

lemma targetWithinProjectScope_iff:
  "targetWithinProjectScope t j a \<longleftrightarrow>
     Target_Namespace t \<noteq> [] \<and>
     (Target_Namespace t = Project_Namespace j \<or>
      (\<exists>s \<in> set (Project_Scopes j). Scope_Namespace s = Target_Namespace t \<and> a \<in> set (Scope_Actions s)))"
  by (auto simp: targetWithinProjectScope_def)

lemma evaluateAssurance_ok:
  "Dec_Err (evaluateAssurance r s) = None \<longleftrightarrow> evaluateAssurance r s = zero_Decision"
  by (auto simp: evaluateAssurance_def Let_def)

lemma evaluateAssurance_mfa:
  assumes "evaluateAssurance r s = zero_Decision"
    and "MFA_Required (normalizedMFA r (Subj_authnClass s) (Subj_mfa s))"
  shows "MFA_Satisfied (Subj_mfa s) \<and> knownSatisfiedMFAMethod (MFA_MethodClass (Subj_mfa s))"
  using assms
  by (auto simp: evaluateAssurance_def Let_def normalizedMFA_def split: if_splits)

text \<open>Every state other than active keeps writes, management and owner removal out.\<close>

lemma lifecycleAllows_write:
  assumes "lifecycleAllows state a = None"
    and "a \<in> {ActionProjectWrite, ActionProjectManage, ActionOwnerRemove}"
  shows "state = TenantStateActive"
  using assms by (auto simp: lifecycleAllows_def split: if_splits)

lemma lifecycleAllows_read:
  "lifecycleAllows state ActionProjectRead = None \<longleftrightarrow>
     state \<in> {TenantStateActive, TenantStateSuspended, TenantStateDeleting,
       TenantStateRecovering, TenantStateExporting}"
  by (auto simp: lifecycleAllows_def)

end
