(* ===== verification/Iam_Audit.thy ===== *)
theory Iam_Audit
  imports Iam_Types
begin

text \<open>
  The audit sinks of \<^verbatim>\<open>pkg/iam/audit.go\<close>. An audit sink is an interface value: its
  operations are a record, and the optional interfaces a type assertion can
  discover (\<^verbatim>\<open>AuditEventReader\<close>, \<^verbatim>\<open>AuditReadiness\<close>, \<^verbatim>\<open>Durable\<close>) are optional
  fields. The state of the sink is passed explicitly; each operation of the source
  runs under the sink's mutex, so it is one step. The locale \<open>audit_log\<close> is the
  contract a sink offers its clients, and the two sinks of the package are its
  interpretations.
\<close>

subsection \<open>Interfaces\<close>

record ('c, 's) AuditSink =
  Sink_Append :: "AuditEvent \<Rightarrow> 's \<Rightarrow> iam_error option \<times> 's"
  Sink_Events :: "('s \<Rightarrow> AuditEvent list) option"
  Sink_Ready :: "('c Context \<Rightarrow> 's \<Rightarrow> iam_error option) option"
  Sink_Durable :: "('s \<Rightarrow> bool) option"

text \<open>The type assertion \<^verbatim>\<open>sink.(DurableAuditSink)\<close>, which also fails on a nil sink.\<close>

fun asDurableAuditSink ::
  "('c, 's) AuditSink option \<Rightarrow> (('c Context \<Rightarrow> 's \<Rightarrow> iam_error option) \<times> ('s \<Rightarrow> bool)) option" where
  "asDurableAuditSink None = None"
| "asDurableAuditSink (Some sink) =
     (case (Sink_Ready sink, Sink_Durable sink) of
        (Some ready, Some durable) \<Rightarrow> Some (ready, durable)
      | _ \<Rightarrow> None)"

record ('c, 's) SecurityAuditSink =
  SecSink_Ready :: "'c Context \<Rightarrow> 's \<Rightarrow> iam_error option"
  SecSink_Durable :: "'s \<Rightarrow> bool"
  SecSink_Append :: "'c Context \<Rightarrow> SecurityEvent \<Rightarrow> 's \<Rightarrow> iam_error option \<times> 's"

definition AppendDurableSecurityEvent ::
  "'c Context option \<Rightarrow> ('c, 's) SecurityAuditSink option \<Rightarrow> SecurityEvent \<Rightarrow> 's \<Rightarrow>
   iam_error option \<times> 's" where
  "AppendDurableSecurityEvent ctx sink event s =
     (case (ctx, sink) of
        (Some c, Some k) \<Rightarrow>
          (if \<not> SecSink_Durable k s then (Some ErrAuditRequired, s)
           else if TrimSpace (SecEvent_Type event) = [] \<or> length (SecEvent_Type event) > 128 \<or>
             TrimSpace (SecEvent_CorrelationID event) = [] \<or>
             length (SecEvent_CorrelationID event) > 256 \<or> IsZero (SecEvent_Timestamp event) \<or>
             (SecEvent_Result event \<noteq> AuditResultAllow \<and> SecEvent_Result event \<noteq> AuditResultDeny)
           then (Some (WrapError ''security audit event is invalid'' ErrAuditRequired), s)
           else (case SecSink_Ready k c s of
             Some _ \<Rightarrow> (Some (WrapError ''security audit dependency is unavailable'' ErrAuditRequired), s)
           | None \<Rightarrow>
               (case SecSink_Append k c event s of
                  (Some _, s') \<Rightarrow> (Some (WrapError ''append security audit event'' ErrAuditRequired), s')
                | (None, s') \<Rightarrow> (None, s'))))
      | _ \<Rightarrow> (Some ErrAuditRequired, s))"

subsection \<open>The bounded in-memory sink\<close>

record MemoryAuditSink =
  Mem_events :: "AuditEvent list"
  Mem_securityEvents :: "SecurityEvent list"
  Mem_maxEvents :: int

definition NewBoundedMemoryAuditSink :: "int \<Rightarrow> MemoryAuditSink" where
  "NewBoundedMemoryAuditSink maxEvents =
     \<lparr>Mem_events = [], Mem_securityEvents = [],
      Mem_maxEvents = (if maxEvents \<le> 0 \<or> maxEvents > 4096 then 1024 else maxEvents)\<rparr>"

definition NewMemoryAuditSink :: MemoryAuditSink where
  "NewMemoryAuditSink = NewBoundedMemoryAuditSink 1024"

definition Memory_Append :: "AuditEvent \<Rightarrow> MemoryAuditSink \<Rightarrow> iam_error option \<times> MemoryAuditSink" where
  "Memory_Append event sink =
     (if int (length (Mem_events sink)) + int (length (Mem_securityEvents sink)) \<ge> Mem_maxEvents sink
      then (Some (PlainError ''iam: ephemeral audit capacity reached''), sink)
      else (None, sink\<lparr>Mem_events := Mem_events sink @ [event]\<rparr>))"

definition Memory_Events :: "MemoryAuditSink \<Rightarrow> AuditEvent list" where
  "Memory_Events sink = Mem_events sink"

definition Memory_SecurityEvents :: "MemoryAuditSink \<Rightarrow> SecurityEvent list" where
  "Memory_SecurityEvents sink = Mem_securityEvents sink"

definition Memory_AppendSecurityEvent ::
  "'c Context \<Rightarrow> SecurityEvent \<Rightarrow> MemoryAuditSink \<Rightarrow> iam_error option \<times> MemoryAuditSink" where
  "Memory_AppendSecurityEvent ctx event sink =
     (if int (length (Mem_events sink)) + int (length (Mem_securityEvents sink)) \<ge> Mem_maxEvents sink
      then (Some (PlainError ''iam: ephemeral audit capacity reached''), sink)
      else (None, sink\<lparr>Mem_securityEvents := Mem_securityEvents sink @ [event]\<rparr>))"

definition Memory_Ready :: "'c Context \<Rightarrow> MemoryAuditSink \<Rightarrow> iam_error option" where
  "Memory_Ready ctx sink = None"

definition Memory_Durable :: "MemoryAuditSink \<Rightarrow> bool" where
  "Memory_Durable sink = False"

definition memorySink :: "('c, MemoryAuditSink) AuditSink" where
  "memorySink = \<lparr>Sink_Append = Memory_Append, Sink_Events = Some Memory_Events,
     Sink_Ready = Some Memory_Ready, Sink_Durable = Some Memory_Durable\<rparr>"

definition memorySecuritySink :: "('c, MemoryAuditSink) SecurityAuditSink" where
  "memorySecuritySink = \<lparr>SecSink_Ready = Memory_Ready, SecSink_Durable = Memory_Durable,
     SecSink_Append = Memory_AppendSecurityEvent\<rparr>"

subsection \<open>The failing sink\<close>

definition Failing_Append :: "AuditEvent \<Rightarrow> unit \<Rightarrow> iam_error option \<times> unit" where
  "Failing_Append event sink = (Some ErrAuditRequired, sink)"

definition Failing_Events :: "unit \<Rightarrow> AuditEvent list" where
  "Failing_Events sink = []"

definition Failing_Ready :: "'c Context \<Rightarrow> unit \<Rightarrow> iam_error option" where
  "Failing_Ready ctx sink = None"

definition Failing_Durable :: "unit \<Rightarrow> bool" where
  "Failing_Durable sink = True"

definition failingSink :: "('c, unit) AuditSink" where
  "failingSink = \<lparr>Sink_Append = Failing_Append, Sink_Events = Some Failing_Events,
     Sink_Ready = Some Failing_Ready, Sink_Durable = Some Failing_Durable\<rparr>"

subsection \<open>The contract of an audit sink\<close>

text \<open>
  What a client of a sink relies on: a successful append extends the log by exactly
  the event, a failed one leaves the log alone.
\<close>

locale audit_log =
  fixes append :: "AuditEvent \<Rightarrow> 's \<Rightarrow> iam_error option \<times> 's"
    and log :: "'s \<Rightarrow> AuditEvent list"
  assumes append_ok: "append e s = (None, s') \<Longrightarrow> log s' = log s @ [e]"
    and append_error: "append e s = (Some x, s') \<Longrightarrow> log s' = log s"
begin

fun append_all :: "AuditEvent list \<Rightarrow> 's \<Rightarrow> 's" where
  "append_all [] s = s"
| "append_all (e # es) s = append_all es (snd (append e s))"

lemma append_extends: "\<exists>es. log (snd (append e s)) = log s @ es \<and> set es \<subseteq> {e}"
  using append_ok [of e s] append_error [of e s]
  by (cases "append e s"; cases "fst (append e s)") auto

lemma append_all_extends: "\<exists>kept. log (append_all es s) = log s @ kept \<and> set kept \<subseteq> set es"
proof (induction es arbitrary: s)
  case Nil
  show ?case by simp
next
  case (Cons e es)
  obtain k where k: "log (snd (append e s)) = log s @ k" "set k \<subseteq> {e}"
    using append_extends by blast
  obtain ks where ks: "log (append_all es (snd (append e s))) = log (snd (append e s)) @ ks"
    "set ks \<subseteq> set es"
    using Cons by blast
  have "log (append_all (e # es) s) = log s @ (k @ ks)" "set (k @ ks) \<subseteq> set (e # es)"
    using k ks by auto
  then show ?case by blast
qed

end

interpretation mem: audit_log Memory_Append Memory_Events
  by unfold_locales (auto simp: Memory_Append_def Memory_Events_def split: if_splits)

interpretation failing: audit_log Failing_Append Failing_Events
  by unfold_locales (simp_all add: Failing_Append_def Failing_Events_def)

text \<open>The sink never holds more than its capacity.\<close>

definition Mem_size :: "MemoryAuditSink \<Rightarrow> int" where
  "Mem_size sink = int (length (Mem_events sink)) + int (length (Mem_securityEvents sink))"

lemma Memory_Append_bounded:
  "Mem_size sink \<le> Mem_maxEvents sink \<Longrightarrow>
   Mem_size (snd (Memory_Append e sink)) \<le> Mem_maxEvents (snd (Memory_Append e sink))"
  by (auto simp: Memory_Append_def Mem_size_def)

lemma Memory_AppendSecurityEvent_bounded:
  "Mem_size sink \<le> Mem_maxEvents sink \<Longrightarrow>
   Mem_size (snd (Memory_AppendSecurityEvent c e sink)) \<le>
     Mem_maxEvents (snd (Memory_AppendSecurityEvent c e sink))"
  by (auto simp: Memory_AppendSecurityEvent_def Mem_size_def)

lemma NewBoundedMemoryAuditSink_bounds:
  "1 \<le> Mem_maxEvents (NewBoundedMemoryAuditSink n) \<and>
   Mem_maxEvents (NewBoundedMemoryAuditSink n) \<le> 4096 \<and>
   Mem_size (NewBoundedMemoryAuditSink n) = 0"
  by (auto simp: NewBoundedMemoryAuditSink_def Mem_size_def)

end
