(* ===== verification/Iam_Policy.thy ===== *)
theory Iam_Policy
  imports Iam_Rules Iam_Audit
begin

text \<open>
  The policy engine of \<^verbatim>\<open>pkg/iam/policy.go\<close> and \<^verbatim>\<open>audit_event.go\<close>: authentication
  of the caller, resolution of subject and target, the ordered checks of
  \<^verbatim>\<open>evaluate\<close>, and the audit record without which no decision is an allow. The
  authentication verifier and the audit sink are interface values and so are fields
  of the policy; the reading of the system clock and the sink's state are arguments.
\<close>

subsection \<open>State\<close>

type_synonym 'c AuthenticationVerifier =
  "'c Context \<Rightarrow> AuthorizationRequest \<Rightarrow> gotime \<Rightarrow> iam_error + AuthenticationResult"

record ('c, 's) PolicyConfig =
  Config_Clock :: "Clock option"
  Config_AuditSink :: "('c, 's) AuditSink option"
  Config_AuthenticationVerifier :: "'c AuthenticationVerifier option"
  Config_AuthenticationProofMaxAge :: duration
  Config_AuthenticationProofFutureSkew :: duration
  Config_AllowEphemeralAudit :: bool

record ('c, 's) Policy =
  Policy_Organizations :: "(string, Organization) gomap"
  Policy_Tenants :: "(string, Tenant) gomap"
  Policy_Projects :: "(string, Project) gomap"
  Policy_Principals :: "(string, Principal) gomap"
  Policy_APITokens :: "(string, APIToken) gomap"
  Policy_SupportGrants :: "(string, SupportGrant) gomap"
  Policy_clock :: Clock
  Policy_AuditSink :: "('c, 's) AuditSink option"
  Policy_authenticator :: "'c AuthenticationVerifier option"
  Policy_proofMaxAge :: duration
  Policy_proofSkew :: duration
  Policy_allowEphemeralAudit :: bool

definition NewPolicy :: "('c, 's) PolicyConfig \<Rightarrow> ('c, 's) Policy" where
  "NewPolicy config =
     \<lparr>Policy_Organizations = [], Policy_Tenants = [], Policy_Projects = [],
      Policy_Principals = [], Policy_APITokens = [], Policy_SupportGrants = [],
      Policy_clock = (case Config_Clock config of None \<Rightarrow> systemClock | Some clock \<Rightarrow> clock),
      Policy_AuditSink = Config_AuditSink config,
      Policy_authenticator = Config_AuthenticationVerifier config,
      Policy_proofMaxAge = Config_AuthenticationProofMaxAge config,
      Policy_proofSkew = Config_AuthenticationProofFutureSkew config,
      Policy_allowEphemeralAudit = Config_AllowEphemeralAudit config\<rparr>"

text \<open>The adapter from a possibly nil function to a verifier.\<close>

definition AuthenticationFunc :: "'c AuthenticationVerifier option \<Rightarrow> 'c AuthenticationVerifier" where
  "AuthenticationFunc verify ctx request at =
     (case verify of None \<Rightarrow> Inl ErrAuthentication | Some f \<Rightarrow> f ctx request at)"

definition AuditEvents :: "('c, 's) Policy \<Rightarrow> 's \<Rightarrow> AuditEvent list" where
  "AuditEvents policy s =
     (case Policy_AuditSink policy of
        None \<Rightarrow> []
      | Some sink \<Rightarrow> (case Sink_Events sink of None \<Rightarrow> [] | Some events \<Rightarrow> events s))"

definition requestTime :: "('c, 's) Policy \<Rightarrow> gotime \<Rightarrow> gotime" where
  "requestTime policy sys = clock_Now (Policy_clock policy) sys"

subsection \<open>Authentication\<close>

definition maxConfiguredProofAge :: duration where "maxConfiguredProofAge = 24 * Hour"
definition maxConfiguredProofSkew :: duration where "maxConfiguredProofSkew = 5 * Minute"

definition validateAuthenticationProof ::
  "('c, 's) Policy \<Rightarrow> AuthenticationResult \<Rightarrow> gotime \<Rightarrow> iam_error option" where
  "validateAuthenticationProof policy result now =
     (let maxAge = Policy_proofMaxAge policy; skew = Policy_proofSkew policy;
          proof = Authn_Proof result in
      if maxAge \<le> 0 \<or> maxAge > maxConfiguredProofAge \<or> skew < 0 \<or> skew > maxConfiguredProofSkew
      then Some ErrAuthentication
      else if IsZero (Proof_VerifiedAt proof) \<or> IsZero (Proof_ExpiresAt proof) \<or>
              \<not> Proof_ExpiresAt proof > Proof_VerifiedAt proof \<or> \<not> now < Proof_ExpiresAt proof \<or>
              Proof_VerifiedAt proof > time_Add now skew
      then Some ErrAuthentication
      else
        (let age0 = time_Sub now (Proof_VerifiedAt proof); age = (if age0 < 0 then 0 else age0) in
         if age > maxAge then Some ErrAuthentication
         else if Authn_CredentialClass result \<noteq> CredentialClassShortLivedAPIToken then
           (let maxSessionSeconds = go_quot maxAge Second;
                seconds = Session_MaxAgeSeconds (Authn_Session result) in
            if seconds \<le> 0 \<or> seconds > maxSessionSeconds \<or> age > int64 (seconds * Second)
            then Some ErrAuthentication else None)
         else None))"

definition authenticate ::
  "('c, 's) Policy \<Rightarrow> 'c Context option \<Rightarrow> AuthorizationRequest \<Rightarrow> gotime \<Rightarrow>
   iam_error + AuthenticationResult" where
  "authenticate policy ctx request now =
     (case (ctx, Policy_authenticator policy) of
        (Some c, Some verifier) \<Rightarrow>
          (case verifier c request now of
             Inl _ \<Rightarrow> Inl ErrAuthentication
           | Inr result \<Rightarrow>
               (case validateAuthenticationProof policy result now of
                  Some _ \<Rightarrow> Inl ErrAuthentication
                | None \<Rightarrow> Inr result))
      | _ \<Rightarrow> Inl ErrAuthentication)"

subsection \<open>Resolution of subject and target\<close>

text \<open>
  The authentication result and error of the source are one sum: where the source
  passes an error it passes the zero result beside it.
\<close>

definition resolveSubject ::
  "('c, 's) Policy \<Rightarrow> AuthorizationRequest \<Rightarrow> iam_error + AuthenticationResult \<Rightarrow> gotime \<Rightarrow>
   resolvedSubject \<times> Decision" where
  "resolveSubject policy request outcome now =
     (let authentication = (case outcome of Inl _ \<Rightarrow> zero_AuthenticationResult | Inr r \<Rightarrow> r);
          class = Authn_CredentialClass authentication;
          tokenRef = Ref_APITokenRef (Req_Subject request);
          subject = \<lparr>Subj_principal = zero_Principal, Subj_actor = Ref_ID (Req_Subject request),
            Subj_represented = [], Subj_apiGrant = zero_APIToken, Subj_authnClass = class,
            Subj_mfa = Authn_MFA authentication, Subj_session = Authn_Session authentication,
            Subj_proof = Authn_Proof authentication\<rparr> in
      if isl outcome \<or> Authn_SubjectID authentication = [] \<or>
         Authn_SubjectID authentication \<noteq> Ref_ID (Req_Subject request)
      then (subject, deny ErrAuthentication ''authentication_required'')
      else if (if Req_BreakGlass request then class \<noteq> CredentialClassBreakGlass
               else if Req_SupportGrantRef request \<noteq> [] then class \<noteq> CredentialClassSupportGrant
               else tokenRef = [] \<and> class \<noteq> CredentialClassInteractiveSession)
      then (subject, deny ErrAuthentication ''authentication_class_denied'')
      else if tokenRef \<noteq> [] then
        (if class \<noteq> CredentialClassShortLivedAPIToken \<or> Authn_APITokenRef authentication \<noteq> tokenRef
         then (subject, deny ErrAuthentication ''authentication_class_denied'')
         else
           (case map_of (Policy_APITokens policy) tokenRef of
              None \<Rightarrow> (subject\<lparr>Subj_actor := ''api-token-'' @ tokenRef\<rparr>,
                       deny ErrUnknownPrincipal ''fail_closed'')
            | Some apiGrant \<Rightarrow>
                if Token_Reference apiGrant \<noteq> tokenRef \<or>
                   Token_SubjectID apiGrant \<noteq> Authn_SubjectID authentication
                then (subject\<lparr>Subj_actor := ''api-token-'' @ tokenRef\<rparr>,
                      deny ErrUnknownPrincipal ''fail_closed'')
                else
                  (case map_of (Policy_Principals policy) (Token_SubjectID apiGrant) of
                     None \<Rightarrow> (subject\<lparr>Subj_actor := ''api-grant:'' @ Token_Reference apiGrant\<rparr>,
                              deny ErrUnknownPrincipal ''fail_closed'')
                   | Some prin \<Rightarrow>
                       if Principal_ID prin \<noteq> Token_SubjectID apiGrant
                       then (subject\<lparr>Subj_actor := ''api-grant:'' @ Token_Reference apiGrant\<rparr>,
                             deny ErrUnknownPrincipal ''fail_closed'')
                       else
                         (let resolved =
                            \<lparr>Subj_principal = prin,
                             Subj_actor = ''api-grant:'' @ Token_Reference apiGrant,
                             Subj_represented = Token_SubjectID apiGrant,
                             Subj_apiGrant = apiGrant, Subj_authnClass = class,
                             Subj_mfa = Authn_MFA authentication,
                             Subj_session = Authn_Session authentication,
                             Subj_proof = Authn_Proof authentication\<rparr> in
                          if \<not> IsZero (Token_RevokedAt apiGrant)
                          then (resolved, deny ErrTokenRevoked ''api_token_denied'')
                          else if IsZero (Token_ExpiresAt apiGrant) \<or>
                                  \<not> now < Token_ExpiresAt apiGrant
                          then (resolved, deny ErrTokenExpired ''api_token_denied'')
                          else (resolved, zero_Decision)))))
      else
        (case map_of (Policy_Principals policy) (Ref_ID (Req_Subject request)) of
           None \<Rightarrow> (subject, deny ErrUnknownPrincipal ''fail_closed'')
         | Some prin \<Rightarrow>
             if Principal_ID prin \<noteq> Ref_ID (Req_Subject request)
             then (subject\<lparr>Subj_principal := prin\<rparr>, deny ErrUnknownPrincipal ''fail_closed'')
             else (subject\<lparr>Subj_principal := prin\<rparr>, zero_Decision)))"

definition resolveTarget ::
  "('c, 's) Policy \<Rightarrow> TargetRef \<Rightarrow> iam_error + (Tenant \<times> Project)" where
  "resolveTarget policy target =
     (case map_of (Policy_Organizations policy) (Target_OrgID target) of
        None \<Rightarrow> Inl ErrUnknownTenant
      | Some organization \<Rightarrow>
          if Org_ID organization \<noteq> Target_OrgID target then Inl ErrUnknownTenant
          else
            (case map_of (Policy_Tenants policy) (Target_TenantID target) of
               None \<Rightarrow> Inl ErrUnknownTenant
             | Some tenant \<Rightarrow>
                 if Tenant_ID tenant \<noteq> Target_TenantID target \<or>
                    Tenant_OrgID tenant \<noteq> Target_OrgID target
                 then Inl ErrUnknownTenant
                 else
                   (case map_of (Policy_Projects policy) (Target_ProjectID target) of
                      None \<Rightarrow> Inl ErrUnknownProject
                    | Some project \<Rightarrow>
                        if Project_ID project \<noteq> Target_ProjectID target \<or>
                           Project_TenantID project \<noteq> Target_TenantID target \<or>
                           Project_OrgID project \<noteq> Target_OrgID target
                        then Inl ErrUnknownProject
                        else Inr (tenant, project))))"

subsection \<open>Evaluation\<close>

definition evaluateBreakGlass :: "AuthorizationRequest \<Rightarrow> resolvedSubject \<Rightarrow> Decision" where
  "evaluateBreakGlass request subject =
     (if TrimSpace (Context_Reason (Req_Context request)) = []
      then deny ErrReasonRequired ''break_glass_reason_required''
      else if TrimSpace (Context_TicketRef (Req_Context request)) = []
      then deny ErrTicketRequired ''break_glass_ticket_required''
      else if \<not> roleAllows (Subj_principal subject) ActionTenantRecover (Req_Target request)
      then deny ErrRoleDenied ''role_denied''
      else allow ''break_glass'')"

definition evaluateSupportGrant ::
  "('c, 's) Policy \<Rightarrow> AuthorizationRequest \<Rightarrow> resolvedSubject \<Rightarrow> gotime \<Rightarrow> Decision" where
  "evaluateSupportGrant policy request subject now =
     (case map_of (Policy_SupportGrants policy) (Req_SupportGrantRef request) of
        None \<Rightarrow> deny ErrSupportGrant ''support_grant_denied''
      | Some grant \<Rightarrow>
          if Grant_Reference grant \<noteq> Req_SupportGrantRef request \<or>
             Grant_SubjectID grant \<noteq> Principal_ID (Subj_principal subject)
          then deny ErrSupportGrant ''support_grant_denied''
          else if \<not> Principal_Support (Subj_principal subject)
          then deny ErrSupportGrant ''support_grant_denied''
          else if TrimSpace (Context_TicketRef (Req_Context request)) = [] \<or>
                  Context_TicketRef (Req_Context request) \<noteq> Grant_TicketRef grant
          then deny ErrTicketRequired ''support_ticket_required''
          else if TrimSpace (Context_Reason (Req_Context request)) = [] \<or>
                  TrimSpace (Grant_Reason grant) = []
          then deny ErrReasonRequired ''support_reason_required''
          else if IsZero (Grant_ExpiresAt grant) \<or> \<not> now < Grant_ExpiresAt grant
          then deny ErrSupportGrant ''support_grant_denied''
          else if Grant_TenantID grant \<noteq> Target_TenantID (Req_Target request) \<or>
                  Grant_ProjectID grant \<noteq> Target_ProjectID (Req_Target request)
          then deny ErrCrossTenant ''cross_tenant_denied''
          else if \<not> actionAllowed (Grant_Actions grant) (Req_Action request)
          then deny ErrSupportGrant ''support_grant_denied''
          else allow ''support_grant'')"

definition evaluateAPIToken ::
  "AuthorizationRequest \<Rightarrow> APIToken \<Rightarrow> gotime \<Rightarrow> iam_error option" where
  "evaluateAPIToken request token now =
     (if IsZero (Token_RevokedAt token) \<and> \<not> IsZero (Token_ExpiresAt token) \<and>
         now < Token_ExpiresAt token
      then
        (if Token_TenantID token \<noteq> Target_TenantID (Req_Target request) \<or>
            Token_ProjectID token \<noteq> Target_ProjectID (Req_Target request)
         then Some ErrCrossTenant
         else if Token_SecretHashRef token = [] \<or>
                 \<not> actionAllowed (Token_Scopes token) (Req_Action request)
         then Some ErrTokenScope
         else None)
      else if \<not> IsZero (Token_RevokedAt token) then Some ErrTokenRevoked
      else Some ErrTokenExpired)"

text \<open>
  The loop of \<^verbatim>\<open>removingLastOwner\<close>: \<^term>\<open>None\<close> is the early return for a directory
  in which an identity is malformed or duplicated; otherwise the set of owners, as a
  list without repetitions.
\<close>

fun ownerLoop ::
  "(string, Principal) gomap \<Rightarrow> Project \<Rightarrow> string list \<Rightarrow> string list \<Rightarrow> string list option" where
  "ownerLoop [] project identities owners = Some owners"
| "ownerLoop ((reference, p) # ps) project identities owners =
     (if reference = [] \<or> Principal_ID p = [] \<or> reference \<noteq> Principal_ID p then None
      else if Principal_ID p \<in> set identities then None
      else ownerLoop ps project (Principal_ID p # identities)
             (if principalOwns p project then List.insert (Principal_ID p) owners else owners))"

definition removingLastOwner :: "('c, 's) Policy \<Rightarrow> string \<Rightarrow> Project \<Rightarrow> bool" where
  "removingLastOwner policy targetPrincipal project =
     (if targetPrincipal = [] then True
      else case ownerLoop (Policy_Principals policy) project [] [] of
        None \<Rightarrow> True
      | Some owners \<Rightarrow> targetPrincipal \<notin> set owners \<or> length owners \<le> 1)"

definition evaluate ::
  "('c, 's) Policy \<Rightarrow> AuthorizationRequest \<Rightarrow> resolvedSubject \<Rightarrow> gotime \<Rightarrow> Decision" where
  "evaluate policy request subject now =
     (let action = Req_Action request; target = Req_Target request;
          assurance = evaluateAssurance request subject;
          targetPrincipal = Context_TargetPrincipal (Req_Context request) in
      if \<not> knownAction action then deny ErrUnknownAction ''fail_closed''
      else if Dec_Err assurance \<noteq> None then assurance
      else if action = ActionTenantRecover \<and> \<not> Req_BreakGlass request
      then deny ErrBreakGlass ''break_glass_required''
      else case resolveTarget policy target of
        Inl err \<Rightarrow> deny err ''fail_closed''
      | Inr (tenant, project) \<Rightarrow>
          if \<not> targetWithinProjectScope target project action
          then deny ErrObjectScope ''object_scope_denied''
          else case lifecycleAllows (Tenant_State tenant) action of
            Some err \<Rightarrow> deny err ''tenant_lifecycle_write_denied''
          | None \<Rightarrow>
              if action = ActionOwnerRemove \<and>
                 (case map_of (Policy_Principals policy) targetPrincipal of
                    None \<Rightarrow> True
                  | Some owner \<Rightarrow>
                      Principal_ID owner \<noteq> targetPrincipal \<or> \<not> principalOwns owner project)
              then deny ErrTargetPrincipal ''owner_target_denied''
              else if action = ActionOwnerRemove \<and> removingLastOwner policy targetPrincipal project
              then deny ErrLastOwner ''last_owner_guard''
              else if Req_BreakGlass request then evaluateBreakGlass request subject
              else if Req_SupportGrantRef request \<noteq> []
              then evaluateSupportGrant policy request subject now
              else if Ref_APITokenRef (Req_Subject request) \<noteq> [] then
                (case evaluateAPIToken request (Subj_apiGrant subject) now of
                   Some err \<Rightarrow> deny err ''api_token_denied''
                 | None \<Rightarrow> allow ''api_token_scope'')
              else if \<not> hasTenantAccess (Subj_principal subject) target
              then deny ErrCrossTenant ''cross_tenant_denied''
              else if \<not> roleAllows (Subj_principal subject) action target
              then deny ErrRoleDenied ''role_denied''
              else allow (ruleForRole (Subj_principal subject) action target))"

subsection \<open>Audit and the entry points\<close>

definition auditDenied :: "Decision \<Rightarrow> iam_error \<Rightarrow> Decision" where
  "auditDenied decision err =
     decision\<lparr>Dec_Allowed := False, Dec_Err := Some err, Dec_PolicyRule := ''audit_required''\<rparr>"

definition auditEvent ::
  "('c, 's) Policy \<Rightarrow> AuthorizationRequest \<Rightarrow> resolvedSubject \<Rightarrow> Decision \<Rightarrow> gotime \<Rightarrow> AuditEvent" where
  "auditEvent policy request subject decision now =
     (let target = Req_Target request; context = Req_Context request in
      \<lparr>Event_Actor = (if Subj_actor subject = [] then Ref_ID (Req_Subject request)
                      else Subj_actor subject),
       Event_RepresentedSubject = Subj_represented subject,
       Event_Action = Req_Action request,
       Event_Target = target,
       Event_Reason = Context_Reason context,
       Event_TicketRef = Context_TicketRef context,
       Event_CorrelationID = Context_CorrelationID context,
       Event_Result = (if Dec_Allowed decision then AuditResultAllow else AuditResultDeny),
       Event_PolicyRule = Dec_PolicyRule decision,
       Event_Timestamp = now,
       Event_Error = (case Dec_Err decision of None \<Rightarrow> [] | Some e \<Rightarrow> iam_error_text e),
       Event_BreakGlass = Req_BreakGlass request,
       Event_SupportGrantRef = Req_SupportGrantRef request,
       Event_APITokenRef = Ref_APITokenRef (Req_Subject request),
       Event_TargetPrincipal = Context_TargetPrincipal context,
       Event_TargetLifecycle =
         (case map_of (Policy_Tenants policy) (Target_TenantID target) of
            None \<Rightarrow> [] | Some tenant \<Rightarrow> Tenant_State tenant),
       Event_TargetNamespace = Target_Namespace target,
       Event_TargetResource = Target_Resource target,
       Event_TargetResourceName = Target_Name target,
       Event_TargetOrganization = Target_OrgID target,
       Event_TargetTenant = Target_TenantID target,
       Event_TargetProject = Target_ProjectID target,
       Event_CredentialClass = Dec_CredentialClass decision,
       Event_MFA = Dec_MFA decision,
       Event_Session = Dec_Session decision,
       Event_Proof = Dec_Proof decision\<rparr>)"

definition audit ::
  "('c, 's) Policy \<Rightarrow> 'c Context \<Rightarrow> AuthorizationRequest \<Rightarrow> resolvedSubject \<Rightarrow> Decision \<Rightarrow>
   gotime \<Rightarrow> 's \<Rightarrow> Decision \<times> 's" where
  "audit policy ctx request subject decision now s =
     (case (asDurableAuditSink (Policy_AuditSink policy), Policy_AuditSink policy) of
        (Some (ready, durable), Some sink) \<Rightarrow>
          (if \<not> Policy_allowEphemeralAudit policy \<and> \<not> durable s
           then (auditDenied decision ErrAuditRequired, s)
           else case ready ctx s of
             Some _ \<Rightarrow> (auditDenied decision ErrAuditRequired, s)
           | None \<Rightarrow>
               (case Sink_Append sink (auditEvent policy request subject decision now) s of
                  (Some _, s') \<Rightarrow>
                    (auditDenied decision (WrapError ''append audit event'' ErrAuditRequired), s')
                | (None, s') \<Rightarrow> (decision, s')))
      | _ \<Rightarrow> (auditDenied decision ErrAuditRequired, s))"

text \<open>Everything \<^verbatim>\<open>AuthorizeContext\<close> does before the audit: the subject and the decision.\<close>

definition decide ::
  "('c, 's) Policy \<Rightarrow> 'c Context \<Rightarrow> AuthorizationRequest \<Rightarrow> gotime \<Rightarrow> resolvedSubject \<times> Decision" where
  "decide policy ctx request now =
     (let outcome = authenticate policy (Some ctx) request now;
          (subject0, decision0) = resolveSubject policy request outcome now;
          mfa0 = normalizedMFA request (Subj_authnClass subject0) (Subj_mfa subject0);
          mfa = (if principalRequiresMFA (Subj_principal subject0)
                 then mfa0\<lparr>MFA_Required := True\<rparr> else mfa0);
          subject = subject0\<lparr>Subj_mfa := mfa\<rparr>;
          decision = (if Dec_Err decision0 = None then evaluate policy request subject now
                      else decision0) in
      (subject, decision\<lparr>Dec_CredentialClass := Subj_authnClass subject, Dec_MFA := Subj_mfa subject,
         Dec_Session := Subj_session subject, Dec_Proof := Subj_proof subject\<rparr>))"

definition AuthorizeContext ::
  "('c, 's) Policy \<Rightarrow> 'c Context option \<Rightarrow> AuthorizationRequest \<Rightarrow> gotime \<Rightarrow> 's \<Rightarrow> Decision \<times> 's" where
  "AuthorizeContext policy ctx request sys s =
     (let c = (case ctx of None \<Rightarrow> Background | Some c \<Rightarrow> c);
          now = requestTime policy sys;
          (subject, decision) = decide policy c request now in
      audit policy c request subject decision now s)"

definition Authorize ::
  "('c, 's) Policy \<Rightarrow> AuthorizationRequest \<Rightarrow> gotime \<Rightarrow> 's \<Rightarrow> Decision \<times> 's" where
  "Authorize policy request sys s = AuthorizeContext policy (Some Background) request sys s"

end
