(* ===== verification/Iam_Authorize.thy ===== *)
theory Iam_Authorize
  imports Iam_Policy
begin

text \<open>
  The specification of the policy engine and the proof that the engine implements it.
  \<open>permitted\<close> says what a request needs, component by component and with no order
  among the checks: an accepted authentication result, a registered subject, a target
  that the directory holds, an admissible tenant state, the owner rule, and one of four
  routes of authority. \<open>decide_allowed_iff\<close> shows that the ordered, early-returning
  code allows exactly those requests.
\<close>

subsection \<open>What is permitted, stated without the order of the checks\<close>

definition class_ok :: "AuthorizationRequest \<Rightarrow> AuthenticationResult \<Rightarrow> bool" where
  "class_ok req r \<longleftrightarrow>
     (if Req_BreakGlass req then Authn_CredentialClass r = CredentialClassBreakGlass
      else if Req_SupportGrantRef req \<noteq> [] then Authn_CredentialClass r = CredentialClassSupportGrant
      else if Ref_APITokenRef (Req_Subject req) = []
      then Authn_CredentialClass r = CredentialClassInteractiveSession
      else True) \<and>
     (Ref_APITokenRef (Req_Subject req) \<noteq> [] \<longrightarrow>
        Authn_CredentialClass r = CredentialClassShortLivedAPIToken \<and>
        Authn_APITokenRef r = Ref_APITokenRef (Req_Subject req))"

definition live_token :: "('c, 's) Policy \<Rightarrow> AuthorizationRequest \<Rightarrow> gotime \<Rightarrow> APIToken \<Rightarrow> bool" where
  "live_token policy req now tok \<longleftrightarrow>
     map_of (Policy_APITokens policy) (Ref_APITokenRef (Req_Subject req)) = Some tok \<and>
     Token_Reference tok = Ref_APITokenRef (Req_Subject req) \<and>
     Token_SubjectID tok = Ref_ID (Req_Subject req) \<and>
     IsZero (Token_RevokedAt tok) \<and> \<not> IsZero (Token_ExpiresAt tok) \<and> now < Token_ExpiresAt tok"

definition subject_ok ::
  "('c, 's) Policy \<Rightarrow> AuthorizationRequest \<Rightarrow> AuthenticationResult \<Rightarrow> Principal \<Rightarrow> gotime \<Rightarrow> bool" where
  "subject_ok policy req r p now \<longleftrightarrow>
     Authn_SubjectID r = Ref_ID (Req_Subject req) \<and> Ref_ID (Req_Subject req) \<noteq> [] \<and>
     map_of (Policy_Principals policy) (Ref_ID (Req_Subject req)) = Some p \<and>
     Principal_ID p = Ref_ID (Req_Subject req) \<and> class_ok req r \<and>
     (Ref_APITokenRef (Req_Subject req) \<noteq> [] \<longrightarrow> (\<exists>tok. live_token policy req now tok))"

definition subject_of ::
  "('c, 's) Policy \<Rightarrow> AuthorizationRequest \<Rightarrow> AuthenticationResult \<Rightarrow> Principal \<Rightarrow> resolvedSubject" where
  "subject_of policy req r p =
     (let ref = Ref_APITokenRef (Req_Subject req) in
      \<lparr>Subj_principal = p,
       Subj_actor = (if ref = [] then Ref_ID (Req_Subject req) else ''api-grant:'' @ ref),
       Subj_represented = (if ref = [] then [] else Ref_ID (Req_Subject req)),
       Subj_apiGrant =
         (if ref = [] then zero_APIToken
          else case map_of (Policy_APITokens policy) ref of None \<Rightarrow> zero_APIToken | Some tok \<Rightarrow> tok),
       Subj_authnClass = Authn_CredentialClass r, Subj_mfa = Authn_MFA r,
       Subj_session = Authn_Session r, Subj_proof = Authn_Proof r\<rparr>)"

lemma resolveSubject_ok:
  assumes "subject_ok policy req r p now"
  shows "resolveSubject policy req (Inr r) now = (subject_of policy req r p, zero_Decision)"
  using assms
  by (cases "Ref_APITokenRef (Req_Subject req) = []")
     (auto simp: subject_ok_def class_ok_def live_token_def subject_of_def resolveSubject_def Let_def
       split: if_splits)

lemma resolveSubject_error:
  assumes "Dec_Err (snd (resolveSubject policy req outcome now)) = None"
  shows "\<exists>r p. outcome = Inr r \<and> subject_ok policy req r p now"
proof (cases outcome)
  case (Inl e)
  with assms show ?thesis by (simp add: resolveSubject_def Let_def)
next
  case (Inr r)
  have "\<exists>p. subject_ok policy req r p now"
    using assms
    by (auto simp: Inr resolveSubject_def Let_def subject_ok_def class_ok_def live_token_def
      split: if_splits option.splits)
  with Inr show ?thesis by blast
qed

subsection \<open>Targets, owners and routes\<close>

definition target_ok ::
  "('c, 's) Policy \<Rightarrow> TargetRef \<Rightarrow> Tenant \<Rightarrow> Project \<Rightarrow> bool" where
  "target_ok policy t tenant project \<longleftrightarrow>
     (\<exists>org. map_of (Policy_Organizations policy) (Target_OrgID t) = Some org \<and>
        Org_ID org = Target_OrgID t) \<and>
     map_of (Policy_Tenants policy) (Target_TenantID t) = Some tenant \<and>
     Tenant_ID tenant = Target_TenantID t \<and> Tenant_OrgID tenant = Target_OrgID t \<and>
     map_of (Policy_Projects policy) (Target_ProjectID t) = Some project \<and>
     Project_ID project = Target_ProjectID t \<and> Project_TenantID project = Target_TenantID t \<and>
     Project_OrgID project = Target_OrgID t"

lemma resolveTarget_iff:
  "resolveTarget policy t = Inr (tenant, project) \<longleftrightarrow> target_ok policy t tenant project"
  by (auto simp: resolveTarget_def target_ok_def split: option.splits)

text \<open>
  Removing an owner is safe when the target is a registered owner of the project, the
  directory identifies every principal by its own key, and another owner remains.
\<close>

definition owners :: "(string, Principal) gomap \<Rightarrow> Project \<Rightarrow> string set" where
  "owners ps j = {Principal_ID p |ref p. (ref, p) \<in> set ps \<and> principalOwns p j}"

definition directory_sound :: "(string, Principal) gomap \<Rightarrow> bool" where
  "directory_sound ps \<longleftrightarrow> go_map ps \<and> (\<forall>(ref, p) \<in> set ps. ref \<noteq> [] \<and> Principal_ID p = ref)"

lemma ownerLoop_Some:
  "ownerLoop ps j ids acc = Some os \<Longrightarrow> distinct acc \<Longrightarrow>
     (\<forall>(ref, p) \<in> set ps. ref \<noteq> [] \<and> Principal_ID p = ref) \<and> distinct (map fst ps) \<and>
     fst ` set ps \<inter> set ids = {} \<and> distinct os \<and> set os = set acc \<union> owners ps j"
proof (induction ps j ids acc arbitrary: os rule: ownerLoop.induct)
  case (1 j ids acc)
  then show ?case by (auto simp: owners_def)
next
  case (2 ref p ps j ids acc)
  let ?acc = "if principalOwns p j then List.insert (Principal_ID p) acc else acc"
  have ref: "ref \<noteq> []" "Principal_ID p = ref" "ref \<notin> set ids"
    and rec: "ownerLoop ps j (Principal_ID p # ids) ?acc = Some os"
    using 2(2) by (auto split: if_splits)
  have IH: "(\<forall>(ref, p) \<in> set ps. ref \<noteq> [] \<and> Principal_ID p = ref) \<and> distinct (map fst ps) \<and>
     fst ` set ps \<inter> set (Principal_ID p # ids) = {} \<and> distinct os \<and> set os = set ?acc \<union> owners ps j"
    using 2(1) [OF _ _ rec] ref 2(3) by auto
  have "owners ((ref, p) # ps) j = owners ps j \<union> (if principalOwns p j then {ref} else {})"
    using ref(2) by (auto simp: owners_def)
  with IH ref show ?case by (auto split: if_splits)
qed

lemma ownerLoop_None:
  "(\<forall>(ref, p) \<in> set ps. ref \<noteq> [] \<and> Principal_ID p = ref) \<Longrightarrow> distinct (map fst ps) \<Longrightarrow>
   fst ` set ps \<inter> set ids = {} \<Longrightarrow> ownerLoop ps j ids acc \<noteq> None"
  by (induction ps j ids acc rule: ownerLoop.induct) (auto split: if_splits)

lemma removingLastOwner_iff:
  "\<not> removingLastOwner policy tp j \<longleftrightarrow>
     tp \<noteq> [] \<and> directory_sound (Policy_Principals policy) \<and>
     tp \<in> owners (Policy_Principals policy) j \<and>
     (\<exists>other \<in> owners (Policy_Principals policy) j. other \<noteq> tp)"
proof (cases "ownerLoop (Policy_Principals policy) j [] []")
  case None
  then have "\<not> directory_sound (Policy_Principals policy)"
    using ownerLoop_None [of "Policy_Principals policy" "[]" j "[]"]
    by (auto simp: directory_sound_def go_map_def)
  with None show ?thesis by (auto simp: removingLastOwner_def)
next
  case (Some os)
  have os: "directory_sound (Policy_Principals policy)" "distinct os"
    "set os = owners (Policy_Principals policy) j"
    using ownerLoop_Some [OF Some] by (auto simp: directory_sound_def go_map_def)
  have "length os \<le> 1 \<longleftrightarrow> \<not> (\<exists>other \<in> set os. other \<noteq> tp)" if "tp \<in> set os"
  proof
    assume "length os \<le> 1"
    with that have "os = [tp]" by (cases os; cases "tl os") auto
    then show "\<not> (\<exists>other \<in> set os. other \<noteq> tp)" by simp
  next
    assume "\<not> (\<exists>other \<in> set os. other \<noteq> tp)"
    then have "set os \<subseteq> {tp}" by auto
    then have "card (set os) \<le> 1" using card_mono [of "{tp}" "set os"] by simp
    with os(2) show "length os \<le> 1" by (simp add: distinct_card)
  qed
  with os show ?thesis by (auto simp: removingLastOwner_def Some)
qed

definition owner_removal_ok :: "('c, 's) Policy \<Rightarrow> string \<Rightarrow> Project \<Rightarrow> bool" where
  "owner_removal_ok policy tp j \<longleftrightarrow>
     tp \<noteq> [] \<and> directory_sound (Policy_Principals policy) \<and>
     tp \<in> owners (Policy_Principals policy) j \<and>
     (\<exists>other \<in> owners (Policy_Principals policy) j. other \<noteq> tp)"

lemma owner_checks_iff:
  "\<not> (case map_of (Policy_Principals policy) tp of
        None \<Rightarrow> True
      | Some owner \<Rightarrow> Principal_ID owner \<noteq> tp \<or> \<not> principalOwns owner j) \<and>
   \<not> removingLastOwner policy tp j \<longleftrightarrow> owner_removal_ok policy tp j"
proof -
  have "\<exists>owner. map_of (Policy_Principals policy) tp = Some owner \<and> Principal_ID owner = tp \<and>
          principalOwns owner j"
    if sound: "directory_sound (Policy_Principals policy)"
      and own: "tp \<in> owners (Policy_Principals policy) j"
  proof -
    from own obtain ref p where p: "(ref, p) \<in> set (Policy_Principals policy)"
      "principalOwns p j" "Principal_ID p = tp"
      by (auto simp: owners_def)
    with sound have "ref = tp" "map_of (Policy_Principals policy) ref = Some p"
      by (auto simp: directory_sound_def go_map_lookup)
    with p show ?thesis by auto
  qed
  then show ?thesis
    by (auto simp: owner_removal_ok_def removingLastOwner_iff split: option.splits)
qed

text \<open>
  A chain of guards that deny is a conjunction of their negations. Rewriting with
  these rules, and not splitting the guards, turns a decision procedure into the
  condition under which it allows.
\<close>

named_theorems guard_simps \<open>decision procedures as conditions\<close>

lemma allowed_if [guard_simps]:
  "Dec_Allowed (if b then deny e r else d) \<longleftrightarrow> \<not> b \<and> Dec_Allowed d"
  by simp

lemma allowed_lookup [guard_simps]:
  "Dec_Allowed (case x of None \<Rightarrow> deny e r | Some v \<Rightarrow> f v) \<longleftrightarrow> (\<exists>v. x = Some v \<and> Dec_Allowed (f v))"
  by (cases x) simp_all

lemma allowed_error [guard_simps]:
  "Dec_Allowed (case x of None \<Rightarrow> d | Some e \<Rightarrow> deny e r) \<longleftrightarrow> x = None \<and> Dec_Allowed d"
  by (cases x) simp_all

lemma allowed_sum [guard_simps]:
  "Dec_Allowed (case x of Inl e \<Rightarrow> deny e r | Inr v \<Rightarrow> f v) \<longleftrightarrow> (\<exists>v. x = Inr v \<and> Dec_Allowed (f v))"
  by (cases x) simp_all

text \<open>The four ways to hold the authority for an action.\<close>

definition break_glass_ok :: "AuthorizationRequest \<Rightarrow> Principal \<Rightarrow> bool" where
  "break_glass_ok req p \<longleftrightarrow>
     TrimSpace (Context_Reason (Req_Context req)) \<noteq> [] \<and>
     TrimSpace (Context_TicketRef (Req_Context req)) \<noteq> [] \<and>
     roleAllows p ActionTenantRecover (Req_Target req)"

definition support_grant_ok ::
  "('c, 's) Policy \<Rightarrow> AuthorizationRequest \<Rightarrow> Principal \<Rightarrow> gotime \<Rightarrow> bool" where
  "support_grant_ok policy req p now \<longleftrightarrow>
     (\<exists>g. map_of (Policy_SupportGrants policy) (Req_SupportGrantRef req) = Some g \<and>
        Grant_Reference g = Req_SupportGrantRef req \<and> Grant_SubjectID g = Principal_ID p \<and>
        Principal_Support p \<and>
        TrimSpace (Context_TicketRef (Req_Context req)) \<noteq> [] \<and>
        Context_TicketRef (Req_Context req) = Grant_TicketRef g \<and>
        TrimSpace (Context_Reason (Req_Context req)) \<noteq> [] \<and> TrimSpace (Grant_Reason g) \<noteq> [] \<and>
        \<not> IsZero (Grant_ExpiresAt g) \<and> now < Grant_ExpiresAt g \<and>
        Grant_TenantID g = Target_TenantID (Req_Target req) \<and>
        Grant_ProjectID g = Target_ProjectID (Req_Target req) \<and>
        Req_Action req \<in> set (Grant_Actions g))"

definition token_ok :: "AuthorizationRequest \<Rightarrow> APIToken \<Rightarrow> gotime \<Rightarrow> bool" where
  "token_ok req tok now \<longleftrightarrow>
     IsZero (Token_RevokedAt tok) \<and> \<not> IsZero (Token_ExpiresAt tok) \<and> now < Token_ExpiresAt tok \<and>
     Token_TenantID tok = Target_TenantID (Req_Target req) \<and>
     Token_ProjectID tok = Target_ProjectID (Req_Target req) \<and>
     Token_SecretHashRef tok \<noteq> [] \<and> Req_Action req \<in> set (Token_Scopes tok)"

lemma evaluateBreakGlass_allowed [simp]:
  "Dec_Allowed (evaluateBreakGlass req s) \<longleftrightarrow> break_glass_ok req (Subj_principal s)"
  by (simp add: evaluateBreakGlass_def break_glass_ok_def guard_simps split del: if_split)

lemma evaluateSupportGrant_allowed [simp]:
  "Dec_Allowed (evaluateSupportGrant policy req s now) \<longleftrightarrow>
     support_grant_ok policy req (Subj_principal s) now"
  by (simp add: evaluateSupportGrant_def support_grant_ok_def guard_simps split del: if_split)

lemma evaluateAPIToken_None [simp]: "evaluateAPIToken req tok now = None \<longleftrightarrow> token_ok req tok now"
  by (auto simp: evaluateAPIToken_def token_ok_def)

definition route_ok ::
  "('c, 's) Policy \<Rightarrow> AuthorizationRequest \<Rightarrow> Principal \<Rightarrow> APIToken \<Rightarrow> gotime \<Rightarrow> bool" where
  "route_ok policy req p tok now \<longleftrightarrow>
     (if Req_BreakGlass req then break_glass_ok req p
      else if Req_SupportGrantRef req \<noteq> [] then support_grant_ok policy req p now
      else if Ref_APITokenRef (Req_Subject req) \<noteq> [] then token_ok req tok now
      else roleAllows p (Req_Action req) (Req_Target req))"

definition action_ok ::
  "('c, 's) Policy \<Rightarrow> AuthorizationRequest \<Rightarrow> bool" where
  "action_ok policy req \<longleftrightarrow>
     knownAction (Req_Action req) \<and>
     (Req_Action req = ActionTenantRecover \<longrightarrow> Req_BreakGlass req) \<and>
     (\<exists>tenant project. target_ok policy (Req_Target req) tenant project \<and>
        targetWithinProjectScope (Req_Target req) project (Req_Action req) \<and>
        lifecycleAllows (Tenant_State tenant) (Req_Action req) = None \<and>
        (Req_Action req = ActionOwnerRemove \<longrightarrow>
           owner_removal_ok policy (Context_TargetPrincipal (Req_Context req)) project))"

lemma evaluateAssurance_not_allowed: "\<not> Dec_Allowed (evaluateAssurance req s)"
  by (simp add: evaluateAssurance_def Let_def)

lemma allowed_assurance [guard_simps]:
  "Dec_Allowed (if Dec_Err (evaluateAssurance req s) \<noteq> None then evaluateAssurance req s else d) \<longleftrightarrow>
     evaluateAssurance req s = zero_Decision \<and> Dec_Allowed d"
  using evaluateAssurance_not_allowed [of req s] by (simp add: evaluateAssurance_ok)

lemma allowed_authority [guard_simps]:
  "Dec_Allowed
     (if Req_BreakGlass req then evaluateBreakGlass req s
      else if Req_SupportGrantRef req \<noteq> [] then evaluateSupportGrant policy req s now
      else if Ref_APITokenRef (Req_Subject req) \<noteq> [] then
        (case evaluateAPIToken req (Subj_apiGrant s) now of
           None \<Rightarrow> allow ''api_token_scope'' | Some err \<Rightarrow> deny err ''api_token_denied'')
      else if \<not> hasTenantAccess (Subj_principal s) (Req_Target req)
      then deny ErrCrossTenant ''cross_tenant_denied''
      else if \<not> roleAllows (Subj_principal s) (Req_Action req) (Req_Target req)
      then deny ErrRoleDenied ''role_denied''
      else allow (ruleForRole (Subj_principal s) (Req_Action req) (Req_Target req)))
   \<longleftrightarrow> route_ok policy req (Subj_principal s) (Subj_apiGrant s) now"
  using roleAllows_hasTenantAccess [of "Subj_principal s" "Req_Action req" "Req_Target req"]
  by (simp add: route_ok_def allowed_error)

lemma evaluate_allowed_iff:
  "Dec_Allowed (evaluate policy req s now) \<longleftrightarrow>
     evaluateAssurance req s = zero_Decision \<and> action_ok policy req \<and>
     route_ok policy req (Subj_principal s) (Subj_apiGrant s) now"
  unfolding evaluate_def Let_def action_ok_def guard_simps
    resolveTarget_iff [symmetric] owner_checks_iff [symmetric] split_paired_Ex prod.case
  by blast

subsection \<open>Assurance and freshness\<close>

definition mfa_required :: "AuthorizationRequest \<Rightarrow> Principal \<Rightarrow> AuthenticationResult \<Rightarrow> bool" where
  "mfa_required req p r \<longleftrightarrow>
     MFA_Required (Authn_MFA r) \<or> principalRequiresMFA p \<or>
     Authn_CredentialClass r \<noteq> CredentialClassShortLivedAPIToken \<and>
       (Req_Action req \<noteq> ActionProjectRead \<or> Req_SupportGrantRef req \<noteq> [] \<or> Req_BreakGlass req)"

definition assured :: "AuthorizationRequest \<Rightarrow> Principal \<Rightarrow> AuthenticationResult \<Rightarrow> bool" where
  "assured req p r \<longleftrightarrow>
     (mfa_required req p r \<longrightarrow>
        MFA_Satisfied (Authn_MFA r) \<and> knownSatisfiedMFAMethod (MFA_MethodClass (Authn_MFA r))) \<and>
     \<not> Session_ReauthenticationRequired (Authn_Session r) \<and>
     (if Authn_CredentialClass r = CredentialClassShortLivedAPIToken
      then Session_State (Authn_Session r) = SessionStateAbsent \<and>
           Session_MaxAgeSeconds (Authn_Session r) = 0
      else Session_State (Authn_Session r) = SessionStateFresh \<and>
           Session_MaxAgeSeconds (Authn_Session r) > 0)"

text \<open>The subject as \<^verbatim>\<open>AuthorizeContext\<close> hands it to \<^verbatim>\<open>evaluate\<close>.\<close>

definition effective_mfa ::
  "AuthorizationRequest \<Rightarrow> resolvedSubject \<Rightarrow> MFAAssurance" where
  "effective_mfa req s =
     (let mfa = normalizedMFA req (Subj_authnClass s) (Subj_mfa s) in
      if principalRequiresMFA (Subj_principal s) then mfa\<lparr>MFA_Required := True\<rparr> else mfa)"

definition effective_subject :: "AuthorizationRequest \<Rightarrow> resolvedSubject \<Rightarrow> resolvedSubject" where
  "effective_subject req s = s\<lparr>Subj_mfa := effective_mfa req s\<rparr>"

lemma effective_subject_sel [simp]:
  "Subj_principal (effective_subject req s) = Subj_principal s"
  "Subj_apiGrant (effective_subject req s) = Subj_apiGrant s"
  "Subj_authnClass (effective_subject req s) = Subj_authnClass s"
  "Subj_session (effective_subject req s) = Subj_session s"
  "Subj_mfa (effective_subject req s) = effective_mfa req s"
  by (simp_all add: effective_subject_def)

lemma subject_of_sel [simp]:
  "Subj_principal (subject_of policy req r p) = p"
  "Subj_authnClass (subject_of policy req r p) = Authn_CredentialClass r"
  "Subj_mfa (subject_of policy req r p) = Authn_MFA r"
  "Subj_session (subject_of policy req r p) = Authn_Session r"
  "Subj_proof (subject_of policy req r p) = Authn_Proof r"
  by (simp_all add: subject_of_def Let_def)

lemma effective_mfa_sel:
  "MFA_Required (normalizedMFA req (Authn_CredentialClass r)
       (effective_mfa req (subject_of policy req r p))) \<longleftrightarrow> mfa_required req p r"
  "MFA_Satisfied (normalizedMFA req c (effective_mfa req (subject_of policy req r p))) =
     MFA_Satisfied (Authn_MFA r)"
  "MFA_MethodClass (normalizedMFA req c (effective_mfa req (subject_of policy req r p))) =
     MFA_MethodClass (Authn_MFA r)"
  by (auto simp: effective_mfa_def normalizedMFA_def mfa_required_def Let_def)

lemma evaluateAssurance_iff:
  "evaluateAssurance req (effective_subject req (subject_of policy req r p)) = zero_Decision \<longleftrightarrow>
     assured req p r"
  unfolding evaluateAssurance_def Let_def assured_def effective_subject_sel subject_of_sel
    effective_mfa_sel
  by auto

definition fresh_proof :: "('c, 's) Policy \<Rightarrow> AuthenticationResult \<Rightarrow> gotime \<Rightarrow> bool" where
  "fresh_proof policy r now \<longleftrightarrow>
     (let verified = Proof_VerifiedAt (Authn_Proof r); expires = Proof_ExpiresAt (Authn_Proof r);
          seconds = Session_MaxAgeSeconds (Authn_Session r) in
      0 < Policy_proofMaxAge policy \<and> Policy_proofMaxAge policy \<le> 24 * Hour \<and>
      0 \<le> Policy_proofSkew policy \<and> Policy_proofSkew policy \<le> 5 * Minute \<and>
      verified \<noteq> 0 \<and> expires \<noteq> 0 \<and> verified < expires \<and> now < expires \<and>
      verified \<le> now + Policy_proofSkew policy \<and>
      now - verified \<le> Policy_proofMaxAge policy \<and>
      (Authn_CredentialClass r \<noteq> CredentialClassShortLivedAPIToken \<longrightarrow>
         0 < seconds \<and> seconds * Second \<le> Policy_proofMaxAge policy \<and>
         now - verified \<le> seconds * Second))"

lemma session_seconds:
  assumes "0 < maxAge" "maxAge \<le> 24 * Hour" "0 < n"
  shows "n \<le> go_quot maxAge Second \<longleftrightarrow> n * Second \<le> maxAge"
    and "n * Second \<le> maxAge \<Longrightarrow> int64 (n * Second) = n * Second"
proof -
  have "go_quot maxAge Second = maxAge div Second"
    using assms by (simp add: go_quot_pos duration_defs)
  moreover have "n \<le> maxAge div Second \<longleftrightarrow> n * Second \<le> maxAge"
    by (rule int_le_div_iff) (simp add: duration_defs)
  ultimately show "n \<le> go_quot maxAge Second \<longleftrightarrow> n * Second \<le> maxAge" by simp
  show "n * Second \<le> maxAge \<Longrightarrow> int64 (n * Second) = n * Second"
    using assms by (intro int64_id) (auto simp: duration_defs)
qed

lemma clamped_age:
  assumes "0 \<le> d" "d \<le> 24 * Hour"
  shows "\<not> (if time_Sub now v < 0 then 0 else time_Sub now v) > d \<longleftrightarrow> now - v \<le> d"
  using assms by (auto simp: time_Sub_def duration_defs)

lemma session_age:
  assumes "0 < m" and "m \<le> 24 * Hour"
  shows "\<not> (n \<le> 0 \<or> n > go_quot m Second \<or> (if time_Sub now v < 0 then 0 else time_Sub now v) > int64 (n * Second)) \<longleftrightarrow>
    0 < n \<and> n * Second \<le> m \<and> now - v \<le> n * Second"
proof (cases "0 < n \<and> n * Second \<le> m")
  case True
  then have "0 \<le> n * Second" "n * Second \<le> 24 * Hour"
    using assms by (auto simp: duration_defs)
  then have clamp: "\<not> (if time_Sub now v < 0 then 0 else time_Sub now v) > n * Second \<longleftrightarrow> now - v \<le> n * Second"
    by (rule clamped_age)
  have "n \<le> go_quot m Second" "int64 (n * Second) = n * Second"
    using True assms session_seconds [of m n] by blast+
  with True clamp show ?thesis by (simp only: not_le not_less de_Morgan_disj simp_thms)
next
  case False
  then have "n \<le> 0 \<or> n > go_quot m Second"
    using assms session_seconds(1) [of m n] by (meson not_le)
  with False show ?thesis by blast
qed

lemma validateAuthenticationProof_iff:
  "validateAuthenticationProof policy r now = None \<longleftrightarrow> fresh_proof policy r now"
proof (cases "0 < Policy_proofMaxAge policy \<and> Policy_proofMaxAge policy \<le> 24 * Hour")
  case False
  then show ?thesis
    by (auto simp: validateAuthenticationProof_def fresh_proof_def Let_def maxConfiguredProofAge_def)
next
  case True
  let ?n = "Session_MaxAgeSeconds (Authn_Session r)"
  let ?v = "Proof_VerifiedAt (Authn_Proof r)"
  let ?m = "Policy_proofMaxAge policy"
  have age: "\<not> (if time_Sub now ?v < 0 then 0 else time_Sub now ?v) > ?m \<longleftrightarrow> now - ?v \<le> ?m"
    using True by (intro clamped_age) auto
  note session = session_age [OF conjunct1 [OF True] conjunct2 [OF True], of ?n now ?v]
  let ?age = "if time_Sub now ?v < 0 then 0 else time_Sub now ?v"
  have "validateAuthenticationProof policy r now = None \<longleftrightarrow>
      0 \<le> Policy_proofSkew policy \<and> Policy_proofSkew policy \<le> 5 * Minute \<and>
      ?v \<noteq> 0 \<and> Proof_ExpiresAt (Authn_Proof r) \<noteq> 0 \<and> ?v < Proof_ExpiresAt (Authn_Proof r) \<and>
      now < Proof_ExpiresAt (Authn_Proof r) \<and> ?v \<le> now + Policy_proofSkew policy \<and>
      \<not> ?age > ?m \<and>
      (Authn_CredentialClass r \<noteq> CredentialClassShortLivedAPIToken \<longrightarrow>
        \<not> (?n \<le> 0 \<or> ?n > go_quot ?m Second \<or> ?age > int64 (?n * Second)))"
    using True
    unfolding validateAuthenticationProof_def Let_def maxConfiguredProofAge_def
      maxConfiguredProofSkew_def IsZero_def time_Add_def guards
    by (cases "Authn_CredentialClass r = CredentialClassShortLivedAPIToken")
       (simp_all add: guards not_less not_le split del: if_split)
  then show ?thesis
    using True by (simp only: age session fresh_proof_def Let_def simp_thms)
qed


subsection \<open>The decision as a specification\<close>

definition granted_token :: "('c, 's) Policy \<Rightarrow> AuthorizationRequest \<Rightarrow> APIToken" where
  "granted_token policy req =
     (case map_of (Policy_APITokens policy) (Ref_APITokenRef (Req_Subject req)) of
        None \<Rightarrow> zero_APIToken | Some tok \<Rightarrow> tok)"

definition authenticated ::
  "('c, 's) Policy \<Rightarrow> 'c Context \<Rightarrow> AuthorizationRequest \<Rightarrow> gotime \<Rightarrow> AuthenticationResult \<Rightarrow> bool" where
  "authenticated policy ctx req now r \<longleftrightarrow>
     (\<exists>verifier. Policy_authenticator policy = Some verifier \<and> verifier ctx req now = Inr r) \<and>
     fresh_proof policy r now"

definition permitted ::
  "('c, 's) Policy \<Rightarrow> 'c Context \<Rightarrow> AuthorizationRequest \<Rightarrow> gotime \<Rightarrow> bool" where
  "permitted policy ctx req now \<longleftrightarrow>
     (\<exists>r p. authenticated policy ctx req now r \<and> subject_ok policy req r p now \<and> assured req p r \<and>
        action_ok policy req \<and> route_ok policy req p (granted_token policy req) now)"

lemma authenticate_iff:
  "authenticate policy (Some ctx) req now = Inr r \<longleftrightarrow> authenticated policy ctx req now r"
  by (auto simp: authenticate_def authenticated_def validateAuthenticationProof_iff [symmetric]
      split: option.splits sum.splits)

lemma route_ok_token:
  "route_ok policy req p (Subj_apiGrant (subject_of policy req r p)) now \<longleftrightarrow>
     route_ok policy req p (granted_token policy req) now"
  by (simp add: route_ok_def subject_of_def granted_token_def Let_def)

lemma subject_ok_unique:
  "subject_ok policy req r p now \<Longrightarrow> subject_ok policy req r p' now \<Longrightarrow> p = p'"
  by (simp add: subject_ok_def)

lemma authenticated_unique:
  "authenticated policy ctx req now r \<Longrightarrow> authenticated policy ctx req now r' \<Longrightarrow> r = r'"
  by (metis Inr_inject authenticate_iff)

lemma decide_unfold:
  "decide policy ctx req now =
     (let (s, d) = resolveSubject policy req (authenticate policy (Some ctx) req now) now;
          s' = effective_subject req s;
          d' = (if Dec_Err d = None then evaluate policy req s' now else d) in
      (s', d'\<lparr>Dec_CredentialClass := Subj_authnClass s', Dec_MFA := Subj_mfa s',
         Dec_Session := Subj_session s', Dec_Proof := Subj_proof s'\<rparr>))"
  by (simp add: decide_def effective_subject_def effective_mfa_def Let_def split_beta)

lemma resolveSubject_err_denies:
  "Dec_Allowed (snd (resolveSubject policy req outcome now)) = False"
  by (simp add: resolveSubject_def Let_def split: option.splits)

lemma decide_allowed_iff:
  "Dec_Allowed (snd (decide policy ctx req now)) \<longleftrightarrow> permitted policy ctx req now"
proof (cases "\<exists>r p. authenticated policy ctx req now r \<and> subject_ok policy req r p now")
  case True
  then obtain r p where r: "authenticated policy ctx req now r" "subject_ok policy req r p now"
    by blast
  then have "resolveSubject policy req (authenticate policy (Some ctx) req now) now =
      (subject_of policy req r p, zero_Decision)"
    using resolveSubject_ok by (simp add: authenticate_iff [THEN iffD2])
  then have "Dec_Allowed (snd (decide policy ctx req now)) \<longleftrightarrow>
      assured req p r \<and> action_ok policy req \<and> route_ok policy req p (granted_token policy req) now"
    by (simp add: decide_unfold evaluate_allowed_iff evaluateAssurance_iff route_ok_token Let_def)
  moreover have "permitted policy ctx req now \<longleftrightarrow>
      assured req p r \<and> action_ok policy req \<and> route_ok policy req p (granted_token policy req) now"
    unfolding permitted_def using r by (metis authenticated_unique subject_ok_unique)
  ultimately show ?thesis by simp
next
  case False
  let ?res = "resolveSubject policy req (authenticate policy (Some ctx) req now) now"
  have "Dec_Err (snd ?res) \<noteq> None"
    using False resolveSubject_error by (metis authenticate_iff)
  then have "\<not> Dec_Allowed (snd (decide policy ctx req now))"
    by (auto simp: decide_unfold split_beta resolveSubject_err_denies Let_def)
  with False show ?thesis by (auto simp: permitted_def)
qed

subsection \<open>The audit gate\<close>

definition audit_accepts ::
  "('c, 's) Policy \<Rightarrow> 'c Context \<Rightarrow> AuditEvent \<Rightarrow> 's \<Rightarrow> 's \<Rightarrow> bool" where
  "audit_accepts policy ctx event s s' \<longleftrightarrow>
     (\<exists>sink ready durable. Policy_AuditSink policy = Some sink \<and>
        Sink_Ready sink = Some ready \<and> Sink_Durable sink = Some durable \<and>
        (Policy_allowEphemeralAudit policy \<or> durable s) \<and> ready ctx s = None \<and>
        Sink_Append sink event s = (None, s'))"

lemma auditEvent_sel:
  "Event_Result (auditEvent policy req subj d now) =
     (if Dec_Allowed d then AuditResultAllow else AuditResultDeny)"
  "Event_Action (auditEvent policy req subj d now) = Req_Action req"
  "Event_Target (auditEvent policy req subj d now) = Req_Target req"
  "Event_Timestamp (auditEvent policy req subj d now) = now"
  "Event_PolicyRule (auditEvent policy req subj d now) = Dec_PolicyRule d"
  "Event_CorrelationID (auditEvent policy req subj d now) = Context_CorrelationID (Req_Context req)"
  "Dec_Err d = None \<Longrightarrow> Event_Error (auditEvent policy req subj d now) = []"
  by (simp_all add: auditEvent_def Let_def)

lemma audit_cases:
  assumes "audit policy ctx req subj d now s = (d', s')"
  obtains
    (recorded) "d' = d" "audit_accepts policy ctx (auditEvent policy req subj d now) s s'"
  | (refused) "\<not> audit_accepts policy ctx (auditEvent policy req subj d now) s s'"
      "\<not> Dec_Allowed d'" "Dec_PolicyRule d' = ''audit_required''"
      "\<exists>e. Dec_Err d' = Some e \<and> iam_error_Is e ErrAuditRequired"
proof (cases "audit_accepts policy ctx (auditEvent policy req subj d now) s s'")
  case True
  then have "d' = d"
    using assms by (auto simp: audit_accepts_def audit_def)
  with True recorded show ?thesis by blast
next
  case False
  have "d' = auditDenied d ErrAuditRequired \<or>
        d' = auditDenied d (WrapError ''append audit event'' ErrAuditRequired)"
  proof (cases "asDurableAuditSink (Policy_AuditSink policy)")
    case None
    with assms show ?thesis by (simp add: audit_def)
  next
    case (Some rd)
    then obtain sink ready durable where sink: "Policy_AuditSink policy = Some sink"
      "rd = (ready, durable)" "Sink_Ready sink = Some ready" "Sink_Durable sink = Some durable"
      by (cases "Policy_AuditSink policy") (auto split: option.splits)
    let ?ev = "auditEvent policy req subj d now"
    show ?thesis
    proof (cases "(Policy_allowEphemeralAudit policy \<or> durable s) \<and> ready ctx s = None")
      case True
      moreover obtain e s'' where app: "Sink_Append sink ?ev s = (e, s'')" by fastforce
      ultimately show ?thesis
        using assms False Some sink
        by (cases e) (auto simp: audit_def audit_accepts_def)
    next
      case False
      with assms Some sink show ?thesis by (auto simp: audit_def split: option.splits)
    qed
  qed
  with False refused show ?thesis by (auto simp: auditDenied_def)
qed

subsection \<open>Consequences for the caller\<close>

definition effective_context :: "'c Context option \<Rightarrow> 'c Context" where
  "effective_context ctx = (case ctx of None \<Rightarrow> Background | Some c \<Rightarrow> c)"

lemma AuthorizeContext_unfold:
  "AuthorizeContext policy ctx req sys s =
     (let now = requestTime policy sys; c = effective_context ctx;
          (subj, d) = decide policy c req now in
      audit policy c req subj d now s)"
  by (simp add: AuthorizeContext_def effective_context_def Let_def)

definition decision_consistent :: "Decision \<Rightarrow> bool" where
  "decision_consistent d \<longleftrightarrow> (Dec_Allowed d \<longleftrightarrow> Dec_Err d = None)"

lemma consistent_allow_deny [simp]:
  "decision_consistent (allow r)" "decision_consistent (deny e r)"
  by (simp_all add: decision_consistent_def)

lemma consistent_if [intro]:
  "decision_consistent d \<Longrightarrow> decision_consistent d' \<Longrightarrow> decision_consistent (if b then d else d')"
  by simp

lemma consistent_cases:
  "decision_consistent d \<Longrightarrow> (\<And>v. decision_consistent (f v)) \<Longrightarrow>
     decision_consistent (case x of None \<Rightarrow> d | Some v \<Rightarrow> f v)"
  "(\<And>e. decision_consistent (g e)) \<Longrightarrow> (\<And>t j. decision_consistent (h t j)) \<Longrightarrow>
     decision_consistent (case y of Inl e \<Rightarrow> g e | Inr (t, j) \<Rightarrow> h t j)"
  by (cases x; simp) (cases y; auto)

lemmas consistent_intros = consistent_if consistent_cases consistent_allow_deny

lemma evaluate_consistent: "decision_consistent (evaluate policy req s now)"
proof -
  have route: "decision_consistent (evaluateBreakGlass req s)"
    "decision_consistent (evaluateSupportGrant policy req s now)"
    unfolding evaluateBreakGlass_def evaluateSupportGrant_def by (intro consistent_intros)+
  have assurance: "decision_consistent
      (if Dec_Err (evaluateAssurance req s) \<noteq> None then evaluateAssurance req s else d)"
    if "decision_consistent d" for d
    using that evaluateAssurance_not_allowed [of req s] by (simp add: decision_consistent_def)
  show ?thesis
    unfolding evaluate_def Let_def
    by (intro assurance route consistent_intros)
qed

lemma decide_consistent: "decision_consistent (snd (decide policy ctx req now))"
proof -
  let ?res = "resolveSubject policy req (authenticate policy (Some ctx) req now) now"
  have "decision_consistent (if Dec_Err (snd ?res) = None
      then evaluate policy req (effective_subject req (fst ?res)) now else snd ?res)"
    using evaluate_consistent [of policy req "effective_subject req (fst ?res)" now]
    by (simp add: decision_consistent_def resolveSubject_err_denies)
  then show ?thesis
    by (simp add: decide_unfold split_beta Let_def decision_consistent_def)
qed

lemma AuthorizeContext_cases:
  assumes "AuthorizeContext policy ctx req sys s = (d, s')"
  obtains subj d0 where
    "decide policy (effective_context ctx) req (requestTime policy sys) = (subj, d0)"
    "audit policy (effective_context ctx) req subj d0 (requestTime policy sys) s = (d, s')"
  using assms by (auto simp: AuthorizeContext_unfold Let_def split: prod.splits)

lemma AuthorizeContext_allowed:
  assumes "AuthorizeContext policy ctx req sys s = (d, s')" and "Dec_Allowed d"
  shows "permitted policy (effective_context ctx) req (requestTime policy sys)"
    and "\<exists>subj. decide policy (effective_context ctx) req (requestTime policy sys) = (subj, d) \<and>
           audit_accepts policy (effective_context ctx)
             (auditEvent policy req subj d (requestTime policy sys)) s s'"
proof -
  obtain subj d0 where d0:
    "decide policy (effective_context ctx) req (requestTime policy sys) = (subj, d0)"
    "audit policy (effective_context ctx) req subj d0 (requestTime policy sys) s = (d, s')"
    using AuthorizeContext_cases [OF assms(1)] .
  from d0(2) have *: "d = d0 \<and> audit_accepts policy (effective_context ctx)
      (auditEvent policy req subj d0 (requestTime policy sys)) s s'"
    by (cases rule: audit_cases) (use assms(2) in auto)
  with d0(1) show "\<exists>subj. decide policy (effective_context ctx) req (requestTime policy sys) = (subj, d) \<and>
      audit_accepts policy (effective_context ctx)
        (auditEvent policy req subj d (requestTime policy sys)) s s'"
    by blast
  show "permitted policy (effective_context ctx) req (requestTime policy sys)"
    using d0(1) * assms(2)
      decide_allowed_iff [of policy "effective_context ctx" req "requestTime policy sys"] by simp
qed

text \<open>Only platform administrators may recover a tenant.\<close>

lemma recover_role: "membershipRoleAllows role ActionTenantRecover \<longleftrightarrow> role = RolePlatformAdmin"
  by (auto simp: membershipRoleAllows_def)

lemma roleAllows_recover: "roleAllows p ActionTenantRecover t \<longleftrightarrow> anyPlatformAdmin (Principal_Memberships p)"
  by (auto simp: roleAllows_iff recover_role)

text \<open>What a permitted request has, in the form the properties need.\<close>

lemma permittedE:
  assumes "permitted policy ctx req now"
  obtains r p tenant project where
    "authenticated policy ctx req now r" "subject_ok policy req r p now" "assured req p r"
    "knownAction (Req_Action req)" "Req_Action req = ActionTenantRecover \<Longrightarrow> Req_BreakGlass req"
    "target_ok policy (Req_Target req) tenant project"
    "targetWithinProjectScope (Req_Target req) project (Req_Action req)"
    "lifecycleAllows (Tenant_State tenant) (Req_Action req) = None"
    "Req_Action req = ActionOwnerRemove \<Longrightarrow>
       owner_removal_ok policy (Context_TargetPrincipal (Req_Context req)) project"
    "route_ok policy req p (granted_token policy req) now"
  using assms unfolding permitted_def action_ok_def by blast

subsection \<open>Sequences of requests and the log\<close>

text \<open>A refused audit leaves the sink as it was, or is an append that failed.\<close>

lemma audit_state:
  assumes "audit policy ctx req subj d now s = (d', s')"
  obtains
    (recorded) sink where "Policy_AuditSink policy = Some sink" "d' = d"
      "Sink_Append sink (auditEvent policy req subj d now) s = (None, s')"
  | (failed) sink e where "Policy_AuditSink policy = Some sink" "\<not> Dec_Allowed d'"
      "Sink_Append sink (auditEvent policy req subj d now) s = (Some e, s')"
  | (unusable) "s' = s" "\<not> Dec_Allowed d'"
  using assms that
  by (fastforce simp: audit_def auditDenied_def split: option.splits prod.splits if_splits)

fun AuthorizeSequence ::
  "('c, 's) Policy \<Rightarrow> ('c Context option \<times> AuthorizationRequest \<times> gotime) list \<Rightarrow> 's \<Rightarrow>
   Decision list \<times> 's" where
  "AuthorizeSequence policy [] s = ([], s)"
| "AuthorizeSequence policy ((ctx, req, sys) # calls) s =
     (let (d, s1) = AuthorizeContext policy ctx req sys s;
          (ds, s2) = AuthorizeSequence policy calls s1 in (d # ds, s2))"

definition event_summary :: "AuditEvent \<Rightarrow> Action \<times> TargetRef \<times> string" where
  "event_summary e = (Event_Action e, Event_Target e, Event_PolicyRule e)"

definition allow_events :: "AuditEvent list \<Rightarrow> (Action \<times> TargetRef \<times> string) list" where
  "allow_events es = map event_summary (filter (\<lambda>e. Event_Result e = AuditResultAllow) es)"

definition allowed_calls ::
  "('c Context option \<times> AuthorizationRequest \<times> gotime) list \<Rightarrow> Decision list \<Rightarrow>
   (Action \<times> TargetRef \<times> string) list" where
  "allowed_calls calls ds =
     map (\<lambda>((_, req, _), d). (Req_Action req, Req_Target req, Dec_PolicyRule d))
       (filter (\<lambda>(_, d). Dec_Allowed d) (zip calls ds))"

lemma allow_events_append [simp]: "allow_events (es @ es') = allow_events es @ allow_events es'"
  by (simp add: allow_events_def)

lemma allow_events_audit:
  "allow_events [auditEvent policy req subj d now] =
     (if Dec_Allowed d then [(Req_Action req, Req_Target req, Dec_PolicyRule d)] else [])"
  by (simp add: allow_events_def event_summary_def auditEvent_sel)

context audit_log
begin

lemma authorize_logs:
  assumes "Policy_AuditSink policy = Some sink" "Sink_Append sink = append"
    and "AuthorizeContext policy ctx req sys s = (d, s')"
  shows "\<exists>es. log s' = log s @ es \<and> length es \<le> 1 \<and>
    allow_events es = (if Dec_Allowed d then [(Req_Action req, Req_Target req, Dec_PolicyRule d)] else [])"
proof -
  obtain subj d0 where "audit policy (effective_context ctx) req subj d0 (requestTime policy sys) s = (d, s')"
    using AuthorizeContext_cases [OF assms(3)] by blast
  then show ?thesis
  proof (cases rule: audit_state)
    case (recorded sink')
    then have "log s' = log s @ [auditEvent policy req subj d0 (requestTime policy sys)]"
      using assms(1,2) append_ok by simp
    with recorded show ?thesis by (intro exI conjI) (auto simp: allow_events_audit)
  next
    case (failed sink' e)
    then have "log s' = log s" using assms(1,2) append_error by simp
    with failed show ?thesis by (auto simp: allow_events_def)
  qed (auto simp: allow_events_def)
qed

lemma sequence_logs:
  assumes "Policy_AuditSink policy = Some sink" "Sink_Append sink = append"
    and "AuthorizeSequence policy calls s = (ds, s')"
  shows "\<exists>es. log s' = log s @ es \<and> length es \<le> length calls \<and>
    allow_events es = allowed_calls calls ds"
  using assms(3)
proof (induction calls arbitrary: s ds)
  case Nil
  then show ?case by (simp add: allow_events_def allowed_calls_def)
next
  case (Cons call calls)
  obtain ctx req sys where call: "call = (ctx, req, sys)" by (cases call)
  obtain d s1 where step: "AuthorizeContext policy ctx req sys s = (d, s1)" by fastforce
  obtain ds' where rest: "AuthorizeSequence policy calls s1 = (ds', s')" "ds = d # ds'"
    using Cons.prems by (auto simp: call step Let_def split: prod.splits)
  obtain es where "log s1 = log s @ es" "length es \<le> 1"
    "allow_events es = (if Dec_Allowed d then [(Req_Action req, Req_Target req, Dec_PolicyRule d)] else [])"
    using authorize_logs [OF assms(1,2) step] by blast
  moreover obtain es' where "log s' = log s1 @ es'" "length es' \<le> length calls"
    "allow_events es' = allowed_calls calls ds'"
    using Cons.IH [OF rest(1)] by blast
  ultimately show ?case
    by (intro exI [of _ "es @ es'"]) (simp add: call rest(2) allowed_calls_def)
qed

end

subsection \<open>Iteration order\<close>

text \<open>
  A Go \<^verbatim>\<open>range\<close> visits a map in any order. Two association lists are the same map
  when they hold the same entries under distinct keys.
\<close>

definition same_map :: "('k, 'v) gomap \<Rightarrow> ('k, 'v) gomap \<Rightarrow> bool" where
  "same_map m m' \<longleftrightarrow> go_map m \<and> go_map m' \<and> set m = set m'"

lemma same_map_lookup: "same_map m m' \<Longrightarrow> map_of m = map_of m'"
  by (auto simp: same_map_def intro: go_map_perm_lookup)

lemma removingLastOwner_same_map:
  assumes "same_map (Policy_Principals policy) ps"
  shows "removingLastOwner (policy\<lparr>Policy_Principals := ps\<rparr>) tp j = removingLastOwner policy tp j"
proof -
  have "directory_sound ps = directory_sound (Policy_Principals policy)"
    "owners ps j = owners (Policy_Principals policy) j"
    using assms by (auto simp: same_map_def directory_sound_def owners_def)
  then show ?thesis
    using removingLastOwner_iff [of policy tp j]
      removingLastOwner_iff [of "policy\<lparr>Policy_Principals := ps\<rparr>" tp j] by auto
qed

lemma AuthorizeContext_same_map:
  assumes "same_map (Policy_Principals policy) ps"
  shows "AuthorizeContext (policy\<lparr>Policy_Principals := ps\<rparr>) ctx req sys s =
    AuthorizeContext policy ctx req sys s"
proof -
  let ?policy = "policy\<lparr>Policy_Principals := ps\<rparr>"
  have fields: "map_of (Policy_Principals ?policy) = map_of (Policy_Principals policy)"
    "Policy_Organizations ?policy = Policy_Organizations policy"
    "Policy_Tenants ?policy = Policy_Tenants policy" "Policy_Projects ?policy = Policy_Projects policy"
    "Policy_APITokens ?policy = Policy_APITokens policy"
    "Policy_SupportGrants ?policy = Policy_SupportGrants policy"
    "Policy_clock ?policy = Policy_clock policy" "Policy_AuditSink ?policy = Policy_AuditSink policy"
    "Policy_authenticator ?policy = Policy_authenticator policy"
    "Policy_proofMaxAge ?policy = Policy_proofMaxAge policy"
    "Policy_proofSkew ?policy = Policy_proofSkew policy"
    "Policy_allowEphemeralAudit ?policy = Policy_allowEphemeralAudit policy"
    using same_map_lookup [OF assms] by simp_all
  have steps:
    "authenticate ?policy = authenticate policy"
    "resolveSubject ?policy = resolveSubject policy"
    "evaluate ?policy = evaluate policy"
    "audit ?policy = audit policy"
    unfolding fun_eq_iff authenticate_def validateAuthenticationProof_def resolveSubject_def
      evaluate_def resolveTarget_def evaluateSupportGrant_def audit_def auditEvent_def fields
      removingLastOwner_same_map [OF assms] by (rule allI refl)+
  show ?thesis
    unfolding AuthorizeContext_def decide_def requestTime_def steps fields ..
qed

text \<open>The time a caller writes into the request is read by no step after authentication.\<close>

lemma AuthorizeContext_ignores_Now:
  fixes policy :: "('c, 's) Policy" and t :: gotime
  defines "claimed \<equiv> \<lambda>req. req\<lparr>Req_Context := (Req_Context req)\<lparr>Context_Now := t\<rparr>\<rparr>"
  assumes "\<And>verifier c now. Policy_authenticator policy = Some verifier \<Longrightarrow>
    verifier c (claimed req) now = verifier c req now"
  shows "AuthorizeContext policy ctx (claimed req) sys s = AuthorizeContext policy ctx req sys s"
proof -
  have fields: "Req_Subject (claimed req) = Req_Subject req" "Req_Action (claimed req) = Req_Action req"
    "Req_Target (claimed req) = Req_Target req"
    "Req_SupportGrantRef (claimed req) = Req_SupportGrantRef req"
    "Req_BreakGlass (claimed req) = Req_BreakGlass req"
    "Context_TicketRef (Req_Context (claimed req)) = Context_TicketRef (Req_Context req)"
    "Context_CorrelationID (Req_Context (claimed req)) = Context_CorrelationID (Req_Context req)"
    "Context_Reason (Req_Context (claimed req)) = Context_Reason (Req_Context req)"
    "Context_TargetPrincipal (Req_Context (claimed req)) = Context_TargetPrincipal (Req_Context req)"
    by (simp_all add: claimed_def)
  have authn: "authenticate policy c (claimed req) now = authenticate policy c req now" for c now
  proof (cases "Policy_authenticator policy")
    case (Some verifier)
    then show ?thesis by (simp add: authenticate_def assms(2) [OF Some] split: option.split)
  qed (simp add: authenticate_def split: option.split)
  have rules: "normalizedMFA (claimed req) = normalizedMFA req"
    unfolding fun_eq_iff normalizedMFA_def fields by (rule allI refl)+
  have steps:
    "resolveSubject policy (claimed req) = resolveSubject policy req"
    "evaluate policy (claimed req) = evaluate policy req"
    "auditEvent policy (claimed req) = auditEvent policy req"
    unfolding fun_eq_iff resolveSubject_def evaluate_def evaluateAssurance_def evaluateBreakGlass_def
      evaluateSupportGrant_def evaluateAPIToken_def auditEvent_def Let_def fields rules
    by (rule allI refl)+
  show ?thesis
    unfolding AuthorizeContext_def decide_def audit_def authn rules steps ..
qed

end
