(* ===== verification/Iam_State.thy ===== *)
theory Iam_State
  imports Iam_Authorize
begin

text \<open>
  Construction of a policy from loaded state (\<^verbatim>\<open>pkg/iam/state_loader.go\<close>): the
  validation of the directory and the requirements on the trusted dependencies. The
  loader is an interface value, so a record of its two operations.
\<close>

record PolicyState =
  State_Organizations :: "(string, Organization) gomap"
  State_Tenants :: "(string, Tenant) gomap"
  State_Projects :: "(string, Project) gomap"
  State_Principals :: "(string, Principal) gomap"
  State_APITokens :: "(string, APIToken) gomap"
  State_SupportGrants :: "(string, SupportGrant) gomap"

record 'c PolicyStateLoader =
  Loader_Ready :: "'c Context \<Rightarrow> iam_error option"
  Loader_LoadPolicyState :: "'c Context \<Rightarrow> iam_error + PolicyState"

definition knownTenantState :: "TenantState \<Rightarrow> bool" where
  "knownTenantState state \<longleftrightarrow>
     state \<in> {TenantStateActive, TenantStateSuspended, TenantStateDeleting,
       TenantStateRecovering, TenantStateExporting}"

definition knownRole :: "Role \<Rightarrow> bool" where
  "knownRole role \<longleftrightarrow>
     role \<in> {RoleOwner, RoleTenantAdmin, RoleTenantViewer, RoleSupport, RolePlatformAdmin}"

definition knownActions :: "string \<Rightarrow> Action list \<Rightarrow> iam_error option" where
  "knownActions message =
     first_error (\<lambda>action. if \<not> knownAction action then Some (PlainError message) else None)"

text \<open>The bodies of the six loops of \<^verbatim>\<open>validatePolicyState\<close>, in their order.\<close>

fun validateOrganizationEntry :: "string \<times> Organization \<Rightarrow> iam_error option" where
  "validateOrganizationEntry (reference, organization) =
     (if reference = [] \<or> Org_ID organization \<noteq> reference
      then Some (PlainError ''iam: organization reference mismatch'') else None)"

fun validateTenantEntry :: "PolicyState \<Rightarrow> string \<times> Tenant \<Rightarrow> iam_error option" where
  "validateTenantEntry state (reference, tenant) =
     (if reference = [] \<or> Tenant_ID tenant \<noteq> reference \<or> Tenant_OrgID tenant = []
      then Some (PlainError ''iam: tenant reference mismatch'')
      else if map_of (State_Organizations state) (Tenant_OrgID tenant) = None \<or>
        \<not> knownTenantState (Tenant_State tenant)
      then Some (PlainError ''iam: tenant organization or lifecycle is invalid'')
      else None)"

definition validateScope :: "NamespaceScope \<Rightarrow> iam_error option" where
  "validateScope scope =
     (if Scope_Namespace scope = [] \<or> Scope_Actions scope = []
      then Some (PlainError ''iam: project namespace scope is invalid'')
      else knownActions ''iam: project namespace scope contains an unknown action'' (Scope_Actions scope))"

fun validateProjectEntry :: "PolicyState \<Rightarrow> string \<times> Project \<Rightarrow> iam_error option" where
  "validateProjectEntry state (reference, project) =
     (if reference = [] \<or> Project_ID project \<noteq> reference \<or>
        (case map_of (State_Tenants state) (Project_TenantID project) of
           None \<Rightarrow> True
         | Some tenant \<Rightarrow> Project_OrgID project = [] \<or> Tenant_OrgID tenant \<noteq> Project_OrgID project) \<or>
        Project_Namespace project = []
      then Some (PlainError ''iam: project reference or tenant boundary is invalid'')
      else first_error validateScope (Project_Scopes project))"

definition validateMembership :: "PolicyState \<Rightarrow> Membership \<Rightarrow> iam_error option" where
  "validateMembership state membership =
     (if (case map_of (State_Tenants state) (Member_TenantID membership) of
            None \<Rightarrow> True
          | Some tenant \<Rightarrow> Tenant_OrgID tenant \<noteq> Member_OrgID membership) \<or>
        \<not> knownRole (Member_Role membership)
      then Some (PlainError ''iam: principal membership boundary is invalid'')
      else if Member_ProjectID membership \<noteq> [] \<and>
        (case map_of (State_Projects state) (Member_ProjectID membership) of
           None \<Rightarrow> True
         | Some project \<Rightarrow> Project_TenantID project \<noteq> Member_TenantID membership \<or>
             Project_OrgID project \<noteq> Member_OrgID membership)
      then Some (PlainError ''iam: principal project membership is invalid'')
      else None)"

fun validatePrincipalEntry :: "PolicyState \<Rightarrow> string \<times> Principal \<Rightarrow> iam_error option" where
  "validatePrincipalEntry state (reference, p) =
     (if reference = [] \<or> Principal_ID p \<noteq> reference
      then Some (PlainError ''iam: principal reference mismatch'')
      else first_error (validateMembership state) (Principal_Memberships p))"

text \<open>A lookup of an absent key yields the zero principal, whose identifier is empty.\<close>

definition principalOrZero :: "PolicyState \<Rightarrow> string \<Rightarrow> Principal" where
  "principalOrZero state subject =
     (case map_of (State_Principals state) subject of None \<Rightarrow> zero_Principal | Some p \<Rightarrow> p)"

fun validateTokenEntry :: "PolicyState \<Rightarrow> string \<times> APIToken \<Rightarrow> iam_error option" where
  "validateTokenEntry state (reference, apiGrant) =
     (if reference = [] \<or> Token_Reference apiGrant \<noteq> reference \<or>
        Token_SecretHashRef apiGrant = [] \<or>
        Principal_ID (principalOrZero state (Token_SubjectID apiGrant)) \<noteq> Token_SubjectID apiGrant \<or>
        (case map_of (State_Projects state) (Token_ProjectID apiGrant) of
           None \<Rightarrow> True
         | Some project \<Rightarrow> Project_TenantID project \<noteq> Token_TenantID apiGrant) \<or>
        Token_Scopes apiGrant = []
      then Some (PlainError ''iam: api token reference or scope is invalid'')
      else knownActions ''iam: api token contains an unknown action'' (Token_Scopes apiGrant))"

fun validateGrantEntry :: "PolicyState \<Rightarrow> string \<times> SupportGrant \<Rightarrow> iam_error option" where
  "validateGrantEntry state (reference, grant) =
     (if reference = [] \<or> Grant_Reference grant \<noteq> reference \<or>
        Principal_ID (principalOrZero state (Grant_SubjectID grant)) \<noteq> Grant_SubjectID grant \<or>
        (case map_of (State_Projects state) (Grant_ProjectID grant) of
           None \<Rightarrow> True
         | Some project \<Rightarrow> Project_TenantID project \<noteq> Grant_TenantID grant) \<or>
        Grant_Actions grant = []
      then Some (PlainError ''iam: support grant reference or scope is invalid'')
      else knownActions ''iam: support grant contains an unknown action'' (Grant_Actions grant))"

definition validatePolicyState :: "PolicyState \<Rightarrow> iam_error option" where
  "validatePolicyState state =
     (if State_Organizations state = [] \<or> State_Tenants state = [] \<or>
        State_Projects state = [] \<or> State_Principals state = []
      then Some (PlainError
        ''iam: policy state requires organizations, tenants, projects, and principals'')
      else case first_error validateOrganizationEntry (State_Organizations state) of
        Some e \<Rightarrow> Some e
      | None \<Rightarrow> (case first_error (validateTenantEntry state) (State_Tenants state) of
          Some e \<Rightarrow> Some e
        | None \<Rightarrow> (case first_error (validateProjectEntry state) (State_Projects state) of
            Some e \<Rightarrow> Some e
          | None \<Rightarrow> (case first_error (validatePrincipalEntry state) (State_Principals state) of
              Some e \<Rightarrow> Some e
            | None \<Rightarrow> (case first_error (validateTokenEntry state) (State_APITokens state) of
                Some e \<Rightarrow> Some e
              | None \<Rightarrow> first_error (validateGrantEntry state) (State_SupportGrants state))))))"

text \<open>
  The clone functions copy each entry into a fresh map. Values are immutable here, so
  the copies are what the loops compute, entry by entry.
\<close>

definition cloneMap :: "('v \<Rightarrow> 'v) \<Rightarrow> (string, 'v) gomap \<Rightarrow> (string, 'v) gomap" where
  "cloneMap copy values = foldl (\<lambda>cloned (reference, v). map_put reference (copy v) cloned) [] values"

definition cloneOrganizations :: "(string, Organization) gomap \<Rightarrow> (string, Organization) gomap" where
  "cloneOrganizations = cloneMap (\<lambda>v. v)"

definition cloneTenants :: "(string, Tenant) gomap \<Rightarrow> (string, Tenant) gomap" where
  "cloneTenants = cloneMap (\<lambda>v. v)"

definition cloneProjects :: "(string, Project) gomap \<Rightarrow> (string, Project) gomap" where
  "cloneProjects = cloneMap (\<lambda>v. v\<lparr>Project_Scopes :=
     map (\<lambda>scope. scope\<lparr>Scope_Actions := [] @ Scope_Actions scope\<rparr>) ([] @ Project_Scopes v)\<rparr>)"

definition clonePrincipals :: "(string, Principal) gomap \<Rightarrow> (string, Principal) gomap" where
  "clonePrincipals = cloneMap (\<lambda>v. v\<lparr>Principal_Groups := [] @ Principal_Groups v,
     Principal_Memberships := [] @ Principal_Memberships v\<rparr>)"

definition cloneAPITokens :: "(string, APIToken) gomap \<Rightarrow> (string, APIToken) gomap" where
  "cloneAPITokens = cloneMap (\<lambda>v. v\<lparr>Token_Scopes := [] @ Token_Scopes v\<rparr>)"

definition cloneSupportGrants :: "(string, SupportGrant) gomap \<Rightarrow> (string, SupportGrant) gomap" where
  "cloneSupportGrants = cloneMap (\<lambda>v. v\<lparr>Grant_Actions := [] @ Grant_Actions v\<rparr>)"

definition NewPolicyFromState ::
  "'c Context option \<Rightarrow> ('c, 's) PolicyConfig \<Rightarrow> 'c PolicyStateLoader option \<Rightarrow> 's \<Rightarrow>
   iam_error + ('c, 's) Policy" where
  "NewPolicyFromState ctx config loader s =
     (case (ctx, loader) of
        (Some c, Some load) \<Rightarrow>
          if Config_AuthenticationVerifier config = None
          then Inl (PlainError ''iam: authentication verifier is required'')
          else if Config_AuthenticationProofMaxAge config \<le> 0 \<or>
            Config_AuthenticationProofMaxAge config > 24 * Hour \<or>
            Config_AuthenticationProofFutureSkew config < 0 \<or>
            Config_AuthenticationProofFutureSkew config > 5 * Minute
          then Inl (PlainError ''iam: authentication proof bounds are invalid'')
          else (case asDurableAuditSink (Config_AuditSink config) of
            None \<Rightarrow> Inl ErrAuditRequired
          | Some (ready, durable) \<Rightarrow>
              if \<not> durable s \<or> Config_AllowEphemeralAudit config then Inl ErrAuditRequired
              else (case ready c s of
                Some _ \<Rightarrow> Inl (WrapError ''iam: audit dependency is unavailable'' ErrAuditRequired)
              | None \<Rightarrow> (case Loader_Ready load c of
                  Some e \<Rightarrow> Inl (WrapError ''iam: policy state dependency is unavailable'' e)
                | None \<Rightarrow> (case Loader_LoadPolicyState load c of
                    Inl e \<Rightarrow> Inl (WrapError ''iam: load policy state'' e)
                  | Inr state \<Rightarrow> (case validatePolicyState state of
                      Some e \<Rightarrow> Inl e
                    | None \<Rightarrow> Inr ((NewPolicy config)
                        \<lparr>Policy_Organizations := cloneOrganizations (State_Organizations state),
                         Policy_Tenants := cloneTenants (State_Tenants state),
                         Policy_Projects := cloneProjects (State_Projects state),
                         Policy_Principals := clonePrincipals (State_Principals state),
                         Policy_APITokens := cloneAPITokens (State_APITokens state),
                         Policy_SupportGrants := cloneSupportGrants (State_SupportGrants state)\<rparr>))))))
      | _ \<Rightarrow> Inl (PlainError ''iam: policy state loader is required''))"

subsection \<open>The validated directory\<close>

text \<open>The referential integrity of a directory, without the order of the loops.\<close>

definition organizations_wf :: "PolicyState \<Rightarrow> bool" where
  "organizations_wf state \<longleftrightarrow> State_Organizations state \<noteq> [] \<and>
     (\<forall>(ref, org) \<in> set (State_Organizations state). ref \<noteq> [] \<and> Org_ID org = ref)"

definition tenants_wf :: "PolicyState \<Rightarrow> bool" where
  "tenants_wf state \<longleftrightarrow> State_Tenants state \<noteq> [] \<and>
     (\<forall>(ref, tenant) \<in> set (State_Tenants state).
        ref \<noteq> [] \<and> Tenant_ID tenant = ref \<and> Tenant_OrgID tenant \<noteq> [] \<and>
        map_of (State_Organizations state) (Tenant_OrgID tenant) \<noteq> None \<and>
        knownTenantState (Tenant_State tenant))"

definition projects_wf :: "PolicyState \<Rightarrow> bool" where
  "projects_wf state \<longleftrightarrow> State_Projects state \<noteq> [] \<and>
     (\<forall>(ref, project) \<in> set (State_Projects state).
        ref \<noteq> [] \<and> Project_ID project = ref \<and> Project_Namespace project \<noteq> [] \<and>
        Project_OrgID project \<noteq> [] \<and>
        (\<exists>tenant. map_of (State_Tenants state) (Project_TenantID project) = Some tenant \<and>
           Tenant_OrgID tenant = Project_OrgID project) \<and>
        (\<forall>scope \<in> set (Project_Scopes project).
           Scope_Namespace scope \<noteq> [] \<and> Scope_Actions scope \<noteq> [] \<and>
           (\<forall>action \<in> set (Scope_Actions scope). knownAction action)))"

definition membership_wf :: "PolicyState \<Rightarrow> Membership \<Rightarrow> bool" where
  "membership_wf state m \<longleftrightarrow> knownRole (Member_Role m) \<and>
     (\<exists>tenant. map_of (State_Tenants state) (Member_TenantID m) = Some tenant \<and>
        Tenant_OrgID tenant = Member_OrgID m) \<and>
     (Member_ProjectID m \<noteq> [] \<longrightarrow>
        (\<exists>project. map_of (State_Projects state) (Member_ProjectID m) = Some project \<and>
           Project_TenantID project = Member_TenantID m \<and> Project_OrgID project = Member_OrgID m))"

definition principals_wf :: "PolicyState \<Rightarrow> bool" where
  "principals_wf state \<longleftrightarrow> State_Principals state \<noteq> [] \<and>
     (\<forall>(ref, p) \<in> set (State_Principals state). ref \<noteq> [] \<and> Principal_ID p = ref \<and>
        (\<forall>m \<in> set (Principal_Memberships p). membership_wf state m))"

definition subject_wf :: "PolicyState \<Rightarrow> string \<Rightarrow> bool" where
  "subject_wf state subject \<longleftrightarrow>
     subject = [] \<and> map_of (State_Principals state) subject = None \<or>
     (\<exists>p. map_of (State_Principals state) subject = Some p \<and> Principal_ID p = subject)"

definition bound_wf :: "PolicyState \<Rightarrow> string \<Rightarrow> string \<Rightarrow> Action list \<Rightarrow> bool" where
  "bound_wf state tenant projectID actions \<longleftrightarrow>
     (\<exists>project. map_of (State_Projects state) projectID = Some project \<and>
        Project_TenantID project = tenant) \<and>
     actions \<noteq> [] \<and> (\<forall>action \<in> set actions. knownAction action)"

definition credentials_wf :: "PolicyState \<Rightarrow> bool" where
  "credentials_wf state \<longleftrightarrow>
     (\<forall>(ref, tok) \<in> set (State_APITokens state). ref \<noteq> [] \<and> Token_Reference tok = ref \<and>
        Token_SecretHashRef tok \<noteq> [] \<and> subject_wf state (Token_SubjectID tok) \<and>
        bound_wf state (Token_TenantID tok) (Token_ProjectID tok) (Token_Scopes tok)) \<and>
     (\<forall>(ref, g) \<in> set (State_SupportGrants state). ref \<noteq> [] \<and> Grant_Reference g = ref \<and>
        subject_wf state (Grant_SubjectID g) \<and>
        bound_wf state (Grant_TenantID g) (Grant_ProjectID g) (Grant_Actions g))"

definition directory_wf :: "PolicyState \<Rightarrow> bool" where
  "directory_wf state \<longleftrightarrow> organizations_wf state \<and> tenants_wf state \<and> projects_wf state \<and>
     principals_wf state \<and> credentials_wf state"

lemma knownActions_None: "knownActions message actions = None \<longleftrightarrow> (\<forall>a \<in> set actions. knownAction a)"
  by (simp add: knownActions_def guards)

lemma case_absent: "(case x of None \<Rightarrow> True | Some v \<Rightarrow> f v) \<longleftrightarrow> \<not> (\<exists>v. x = Some v \<and> \<not> f v)"
  by (cases x) simp_all

lemma principalOrZero_iff:
  "Principal_ID (principalOrZero state subject) = subject \<longleftrightarrow> subject_wf state subject"
  by (auto simp: principalOrZero_def subject_wf_def zero_Principal_def split: option.splits)

lemma validateScope_None:
  "validateScope scope = None \<longleftrightarrow> Scope_Namespace scope \<noteq> [] \<and> Scope_Actions scope \<noteq> [] \<and>
     (\<forall>action \<in> set (Scope_Actions scope). knownAction action)"
  by (simp add: validateScope_def guards knownActions_None)

lemma validateMembership_None: "validateMembership state m = None \<longleftrightarrow> membership_wf state m"
  unfolding validateMembership_def membership_wf_def guards case_absent by auto

lemmas entry_simps = guards knownActions_None case_absent principalOrZero_iff validateScope_None
  validateMembership_None

lemma validatePolicyState_iff: "validatePolicyState state = None \<longleftrightarrow> directory_wf state"
proof -
  have "(\<forall>x \<in> set (State_Organizations state). validateOrganizationEntry x = None) \<and>
        State_Organizations state \<noteq> [] \<longleftrightarrow> organizations_wf state"
    unfolding organizations_wf_def by (fastforce simp: entry_simps)
  moreover have "(\<forall>x \<in> set (State_Tenants state). validateTenantEntry state x = None) \<and>
        State_Tenants state \<noteq> [] \<longleftrightarrow> tenants_wf state"
    unfolding tenants_wf_def by (fastforce simp: entry_simps)
  moreover have "(\<forall>x \<in> set (State_Projects state). validateProjectEntry state x = None) \<and>
        State_Projects state \<noteq> [] \<longleftrightarrow> projects_wf state"
    unfolding projects_wf_def by (fastforce simp: entry_simps)
  moreover have "(\<forall>x \<in> set (State_Principals state). validatePrincipalEntry state x = None) \<and>
        State_Principals state \<noteq> [] \<longleftrightarrow> principals_wf state"
    unfolding principals_wf_def by (fastforce simp: entry_simps)
  moreover have "(\<forall>x \<in> set (State_APITokens state). validateTokenEntry state x = None) \<and>
        (\<forall>x \<in> set (State_SupportGrants state). validateGrantEntry state x = None) \<longleftrightarrow>
        credentials_wf state"
    unfolding credentials_wf_def bound_wf_def by (fastforce simp: entry_simps)
  ultimately show ?thesis
    unfolding validatePolicyState_def guards case_error_None [where f = "\<lambda>e. e"] directory_wf_def
    by blast
qed

subsection \<open>Clones and construction\<close>

lemma foldl_map_put:
  "go_map m \<Longrightarrow> fst ` set acc \<inter> fst ` set m = {} \<Longrightarrow>
   foldl (\<lambda>cloned (reference, v). map_put reference (copy v) cloned) acc m =
     acc @ map (\<lambda>(k, v). (k, copy v)) m"
proof (induction m arbitrary: acc)
  case (Cons kv m)
  obtain k v where "kv = (k, v)" by fastforce
  with Cons show ?case by (force simp: map_put_fresh)
qed simp

lemma cloneMap_id: "go_map m \<Longrightarrow> (\<And>v. copy v = v) \<Longrightarrow> cloneMap copy m = m"
  unfolding cloneMap_def by (simp add: foldl_map_put [where acc = "[]", simplified] case_prod_eta)

lemma clone_ids:
  "go_map m1 \<Longrightarrow> cloneOrganizations m1 = m1"
  "go_map m2 \<Longrightarrow> cloneTenants m2 = m2"
  "go_map m3 \<Longrightarrow> cloneProjects m3 = m3"
  "go_map m4 \<Longrightarrow> clonePrincipals m4 = m4"
  "go_map m5 \<Longrightarrow> cloneAPITokens m5 = m5"
  "go_map m6 \<Longrightarrow> cloneSupportGrants m6 = m6"
  unfolding cloneOrganizations_def cloneTenants_def cloneProjects_def clonePrincipals_def
    cloneAPITokens_def cloneSupportGrants_def
  by (simp_all add: cloneMap_id)

definition state_maps :: "PolicyState \<Rightarrow> bool" where
  "state_maps state \<longleftrightarrow> go_map (State_Organizations state) \<and> go_map (State_Tenants state) \<and>
     go_map (State_Projects state) \<and> go_map (State_Principals state) \<and>
     go_map (State_APITokens state) \<and> go_map (State_SupportGrants state)"

definition policy_state :: "('c, 's) Policy \<Rightarrow> PolicyState" where
  "policy_state policy =
     \<lparr>State_Organizations = Policy_Organizations policy, State_Tenants = Policy_Tenants policy,
      State_Projects = Policy_Projects policy, State_Principals = Policy_Principals policy,
      State_APITokens = Policy_APITokens policy, State_SupportGrants = Policy_SupportGrants policy\<rparr>"

text \<open>A policy built from loaded state holds that state, validated, and trusts only durable audit.\<close>

lemma NewPolicyFromState_built:
  assumes "NewPolicyFromState (Some c) config (Some load) s = Inr policy"
    and "\<And>state. Loader_LoadPolicyState load c = Inr state \<Longrightarrow> state_maps state"
  shows "Loader_LoadPolicyState load c = Inr (policy_state policy)"
    and "state_maps (policy_state policy)" and "directory_wf (policy_state policy)"
    and "\<not> Policy_allowEphemeralAudit policy" and "Policy_authenticator policy \<noteq> None"
    and "0 < Policy_proofMaxAge policy \<and> Policy_proofMaxAge policy \<le> maxConfiguredProofAge"
    and "0 \<le> Policy_proofSkew policy \<and> Policy_proofSkew policy \<le> maxConfiguredProofSkew"
proof -
  obtain state where state: "Loader_LoadPolicyState load c = Inr state" "validatePolicyState state = None"
    "\<not> Config_AllowEphemeralAudit config" "Config_AuthenticationVerifier config \<noteq> None"
    "0 < Config_AuthenticationProofMaxAge config" "Config_AuthenticationProofMaxAge config \<le> 24 * Hour"
    "0 \<le> Config_AuthenticationProofFutureSkew config"
    "Config_AuthenticationProofFutureSkew config \<le> 5 * Minute"
    and policy: "policy = (NewPolicy config)
       \<lparr>Policy_Organizations := cloneOrganizations (State_Organizations state),
        Policy_Tenants := cloneTenants (State_Tenants state),
        Policy_Projects := cloneProjects (State_Projects state),
        Policy_Principals := clonePrincipals (State_Principals state),
        Policy_APITokens := cloneAPITokens (State_APITokens state),
        Policy_SupportGrants := cloneSupportGrants (State_SupportGrants state)\<rparr>"
    using assms(1) by (auto simp: NewPolicyFromState_def split: if_splits option.splits sum.splits)
  have maps: "state_maps state" by (rule assms(2) [OF state(1)])
  have "policy_state policy = state"
    using maps by (simp add: policy policy_state_def state_maps_def clone_ids)
  with state maps show "Loader_LoadPolicyState load c = Inr (policy_state policy)"
    "state_maps (policy_state policy)" "directory_wf (policy_state policy)"
    by (simp_all add: validatePolicyState_iff)
  show "\<not> Policy_allowEphemeralAudit policy" "Policy_authenticator policy \<noteq> None"
    "0 < Policy_proofMaxAge policy \<and> Policy_proofMaxAge policy \<le> maxConfiguredProofAge"
    "0 \<le> Policy_proofSkew policy \<and> Policy_proofSkew policy \<le> maxConfiguredProofSkew"
    using state by (simp_all add: policy NewPolicy_def maxConfiguredProofAge_def maxConfiguredProofSkew_def)
qed

lemma directory_wf_sound: "directory_wf (policy_state policy) \<Longrightarrow> state_maps (policy_state policy) \<Longrightarrow>
  directory_sound (Policy_Principals policy)"
  by (auto simp: directory_wf_def principals_wf_def state_maps_def directory_sound_def policy_state_def)

text \<open>In a well-formed directory every project resolves, and its tenant has a known state.\<close>

lemma directory_wf_resolves:
  assumes "directory_wf (policy_state policy)" and "state_maps (policy_state policy)"
    and "(ref, project) \<in> set (Policy_Projects policy)"
    and "Target_ProjectID t = ref" "Target_TenantID t = Project_TenantID project"
      "Target_OrgID t = Project_OrgID project"
  shows "\<exists>tenant. resolveTarget policy t = Inr (tenant, project) \<and> knownTenantState (Tenant_State tenant)"
proof -
  have wf: "Project_ID project = ref" "\<exists>tenant. map_of (Policy_Tenants policy) (Project_TenantID project) = Some tenant \<and>
      Tenant_OrgID tenant = Project_OrgID project"
    using assms(1,3) by (auto simp: directory_wf_def projects_wf_def policy_state_def)
  then obtain tenant where tenant: "map_of (Policy_Tenants policy) (Project_TenantID project) = Some tenant"
    "Tenant_OrgID tenant = Project_OrgID project" by blast
  have "(Project_TenantID project, tenant) \<in> set (Policy_Tenants policy)"
    using tenant(1) by (rule map_of_SomeD)
  then have t: "Tenant_ID tenant = Project_TenantID project" "knownTenantState (Tenant_State tenant)"
    "map_of (Policy_Organizations policy) (Tenant_OrgID tenant) \<noteq> None"
    using assms(1) by (auto simp: directory_wf_def tenants_wf_def policy_state_def)
  then obtain org where org: "map_of (Policy_Organizations policy) (Project_OrgID project) = Some org"
    using tenant(2) by auto
  then have "Org_ID org = Project_OrgID project"
    using assms(1) map_of_SomeD [OF org]
    by (auto simp: directory_wf_def organizations_wf_def policy_state_def)
  moreover have "map_of (Policy_Projects policy) ref = Some project"
    using assms(2,3) by (simp add: state_maps_def policy_state_def go_map_lookup)
  ultimately have "target_ok policy t tenant project"
    using assms(4-6) wf(1) tenant org t by (simp add: target_ok_def)
  with t(2) show ?thesis by (auto simp: resolveTarget_iff)
qed

end
