(* ===== verification/Iam_Properties.thy ===== *)
theory Iam_Properties
  imports Iam_State
begin

text \<open>
  The properties of package \<^verbatim>\<open>pkg/iam\<close>, over the engine as the code composes it
  (\<^verbatim>\<open>AuthorizeContext\<close>, \<^verbatim>\<open>NewPolicyFromState\<close>), with a small directory on which
  each of them is exercised.
\<close>

subsection \<open>A directory\<close>

definition ex_now :: gotime where "ex_now = 1000 * Hour"

definition ex_member :: "string \<Rightarrow> Role \<Rightarrow> Membership" where
  "ex_member projectID role = \<lparr>Member_OrgID = ''org'', Member_TenantID = ''acme'',
     Member_ProjectID = projectID, Member_Role = role\<rparr>"

definition ex_principal :: "string \<Rightarrow> Membership list \<Rightarrow> bool \<Rightarrow> string \<times> Principal" where
  "ex_principal ref ms support = (ref, \<lparr>Principal_ID = ref, Principal_Groups = [],
     Principal_Memberships = ms, Principal_Support = support\<rparr>)"

definition ex_state :: PolicyState where
  "ex_state =
     \<lparr>State_Organizations = [(''org'', \<lparr>Org_ID = ''org'', Org_Name = ''Org''\<rparr>)],
      State_Tenants = [(''acme'', \<lparr>Tenant_ID = ''acme'', Tenant_OrgID = ''org'',
        Tenant_State = TenantStateActive,
        Tenant_Quotas = \<lparr>Quotas_Projects = 1, Quotas_CPU = 1, Quotas_MemoryGB = 1\<rparr>\<rparr>)],
      State_Projects = [(''web'', \<lparr>Project_ID = ''web'', Project_TenantID = ''acme'',
        Project_OrgID = ''org'', Project_Namespace = ''web-ns'', Project_Scopes = []\<rparr>)],
      State_Principals =
        [ex_principal ''alice'' [ex_member ''web'' RoleOwner] False,
         ex_principal ''bob'' [ex_member ''web'' RoleOwner] False,
         ex_principal ''root'' [ex_member [] RolePlatformAdmin] False,
         ex_principal ''helper'' [] True],
      State_APITokens = [(''tok'', \<lparr>Token_Reference = ''tok'', Token_SubjectID = ''alice'',
        Token_SecretHashRef = ''hash'', Token_TenantID = ''acme'', Token_ProjectID = ''web'',
        Token_Scopes = [ActionProjectWrite], Token_ExpiresAt = ex_now + Hour, Token_RevokedAt = 0\<rparr>)],
      State_SupportGrants = [(''grant'', \<lparr>Grant_Reference = ''grant'', Grant_SubjectID = ''helper'',
        Grant_TenantID = ''acme'', Grant_ProjectID = ''web'', Grant_Actions = [ActionProjectRead],
        Grant_TicketRef = ''T-1'', Grant_Reason = ''incident'', Grant_ExpiresAt = ex_now + Hour\<rparr>)]\<rparr>"

text \<open>A verifier that reports what the request's own credential kind requires.\<close>

definition ex_verifier :: "unit AuthenticationVerifier" where
  "ex_verifier ctx req now =
     (let token = Ref_APITokenRef (Req_Subject req) in
      Inr \<lparr>Authn_SubjectID = Ref_ID (Req_Subject req), Authn_APITokenRef = token,
        Authn_CredentialClass =
          (if Req_BreakGlass req then CredentialClassBreakGlass
           else if Req_SupportGrantRef req \<noteq> [] then CredentialClassSupportGrant
           else if token \<noteq> [] then CredentialClassShortLivedAPIToken
           else CredentialClassInteractiveSession),
        Authn_MFA = \<lparr>MFA_Required = False, MFA_Satisfied = True, MFA_MethodClass = MFAMethodTOTP\<rparr>,
        Authn_Session =
          (if token \<noteq> [] then \<lparr>Session_State = SessionStateAbsent, Session_MaxAgeSeconds = 0,
             Session_ReauthenticationRequired = False\<rparr>
           else \<lparr>Session_State = SessionStateFresh, Session_MaxAgeSeconds = 600,
             Session_ReauthenticationRequired = False\<rparr>),
        Authn_Proof = \<lparr>Proof_VerifiedAt = now - Minute, Proof_ExpiresAt = now + Hour\<rparr>\<rparr>)"

text \<open>The in-memory sink, declared durable: a stand-in for a persistent log.\<close>

definition ex_sink :: "(unit, MemoryAuditSink) AuditSink" where
  "ex_sink = memorySink\<lparr>Sink_Durable := Some (\<lambda>_. True)\<rparr>"

definition ex_config :: "(unit, MemoryAuditSink) PolicyConfig" where
  "ex_config = \<lparr>Config_Clock = Some (FixedClock ex_now), Config_AuditSink = Some ex_sink,
     Config_AuthenticationVerifier = Some ex_verifier, Config_AuthenticationProofMaxAge = Hour,
     Config_AuthenticationProofFutureSkew = 0, Config_AllowEphemeralAudit = False\<rparr>"

definition ex_loader :: "unit PolicyStateLoader" where
  "ex_loader = \<lparr>Loader_Ready = (\<lambda>_. None), Loader_LoadPolicyState = (\<lambda>_. Inr ex_state)\<rparr>"

definition ex_policy :: "(unit, MemoryAuditSink) Policy" where
  "ex_policy = (NewPolicy ex_config)
     \<lparr>Policy_Organizations := State_Organizations ex_state, Policy_Tenants := State_Tenants ex_state,
      Policy_Projects := State_Projects ex_state, Policy_Principals := State_Principals ex_state,
      Policy_APITokens := State_APITokens ex_state, Policy_SupportGrants := State_SupportGrants ex_state\<rparr>"

definition ex_request :: "string \<Rightarrow> string \<Rightarrow> Action \<Rightarrow> AuthorizationRequest" where
  "ex_request subject token action =
     \<lparr>Req_Subject = \<lparr>Ref_ID = subject, Ref_APITokenRef = token\<rparr>, Req_Action = action,
      Req_Target = \<lparr>Target_OrgID = ''org'', Target_TenantID = ''acme'', Target_ProjectID = ''web'',
        Target_Namespace = ''web-ns'', Target_Resource = ''pods'', Target_Name = ''p0''\<rparr>,
      Req_Context = \<lparr>Context_TicketRef = ''T-1'', Context_CorrelationID = ''c-1'',
        Context_Reason = ''incident'', Context_Now = 7, Context_TargetPrincipal = ''bob''\<rparr>,
      Req_SupportGrantRef = [], Req_BreakGlass = False\<rparr>"

definition ex_run :: "AuthorizationRequest \<Rightarrow> Decision \<times> MemoryAuditSink" where
  "ex_run req = AuthorizeContext ex_policy None req 0 NewMemoryAuditSink"

definition ex_break_glass :: AuthorizationRequest where
  "ex_break_glass = (ex_request ''root'' [] ActionTenantRecover)\<lparr>Req_BreakGlass := True\<rparr>"

definition ex_support :: AuthorizationRequest where
  "ex_support = (ex_request ''helper'' [] ActionProjectRead)\<lparr>Req_SupportGrantRef := ''grant''\<rparr>"

lemma ex_allowed:
  "Dec_Allowed (fst (ex_run (ex_request ''alice'' [] ActionOwnerRemove)))"
  "Dec_Allowed (fst (ex_run (ex_request ''alice'' ''tok'' ActionProjectWrite)))"
  "Dec_Allowed (fst (ex_run ex_break_glass))"
  "Dec_Allowed (fst (ex_run ex_support))"
  by code_simp+

lemma ex_run_pair: "AuthorizeContext ex_policy None req 0 NewMemoryAuditSink = (fst (ex_run req), snd (ex_run req))"
  by (simp add: ex_run_def)

subsection \<open>Properties\<close>

text \<open>
  C1. The engine allows a request exactly when the declarative specification permits
  it at the policy's own time and the audit sink accepts the record of the decision;
  the order of the checks in the code plays no role in which requests are allowed.
\<close>

theorem authorize_allowed_iff:
  "Dec_Allowed (fst (AuthorizeContext policy ctx req sys s)) \<longleftrightarrow>
     permitted policy (effective_context ctx) req (requestTime policy sys) \<and>
     (\<exists>s'. audit_accepts policy (effective_context ctx)
        (auditEvent policy req
          (fst (decide policy (effective_context ctx) req (requestTime policy sys)))
          (snd (decide policy (effective_context ctx) req (requestTime policy sys)))
          (requestTime policy sys)) s s')"
proof -
  let ?c = "effective_context ctx" and ?now = "requestTime policy sys"
  obtain subj d0 where d0: "decide policy ?c req ?now = (subj, d0)" by fastforce
  obtain d s' where a: "audit policy ?c req subj d0 ?now s = (d, s')" by fastforce
  have run: "AuthorizeContext policy ctx req sys s = (d, s')"
    by (simp add: AuthorizeContext_unfold Let_def d0 a)
  have allowed: "Dec_Allowed d0 \<longleftrightarrow> permitted policy ?c req ?now"
    using decide_allowed_iff [of policy ?c req ?now] d0 by simp
  from a show ?thesis
  proof (cases rule: audit_cases)
    case recorded
    with run d0 allowed show ?thesis by auto
  next
    case refused
    have "audit_accepts policy ?c (auditEvent policy req subj d0 ?now) s t \<Longrightarrow> t = s'" for t
      using a by (auto simp: audit_accepts_def audit_def)
    with refused run d0 show ?thesis by auto
  qed
qed

text \<open>
  C26. No allow without a record: whenever the engine allows a request, the sink's
  append of an event that names the action, the target, the time, the rule and the
  result \<^verbatim>\<open>allow\<close> has succeeded, and the state the engine leaves is the state after
  that append.
\<close>

theorem allow_is_recorded:
  assumes "AuthorizeContext policy ctx req sys s = (d, s')" and "Dec_Allowed d"
  shows "\<exists>sink event. Policy_AuditSink policy = Some sink \<and> Sink_Append sink event s = (None, s') \<and>
     Event_Result event = AuditResultAllow \<and> Event_Action event = Req_Action req \<and>
     Event_Target event = Req_Target req \<and> Event_Timestamp event = requestTime policy sys \<and>
     Event_PolicyRule event = Dec_PolicyRule d \<and> Event_Error event = [] \<and>
     Event_CorrelationID event = Context_CorrelationID (Req_Context req)"
proof -
  obtain subj where subj:
    "decide policy (effective_context ctx) req (requestTime policy sys) = (subj, d)"
    "audit_accepts policy (effective_context ctx)
       (auditEvent policy req subj d (requestTime policy sys)) s s'"
    using AuthorizeContext_allowed(2) [OF assms] by blast
  have "Dec_Err d = None"
    using decide_consistent [of policy "effective_context ctx" req "requestTime policy sys"]
      assms(2) subj(1) by (simp add: decision_consistent_def)
  with subj(2) assms(2) show ?thesis
    unfolding audit_accepts_def using auditEvent_sel [where policy = policy and req = req and subj = subj and d = d]
    by fastforce
qed

theorem allow_is_recorded_witness:
  "\<exists>event sink. Policy_AuditSink ex_policy = Some sink \<and>
     Sink_Append sink event NewMemoryAuditSink = (None, snd (ex_run (ex_request ''alice'' [] ActionOwnerRemove))) \<and>
     Event_Result event = AuditResultAllow \<and> Event_Action event = ActionOwnerRemove"
  using allow_is_recorded [OF ex_run_pair ex_allowed(1)] by (force simp: ex_request_def)

text \<open>
  Fail closed: a decision the engine returns is an allow exactly when it carries
  no error, on every path through authentication, evaluation and audit.
\<close>

theorem decision_error_iff_denied:
  "Dec_Allowed (fst (AuthorizeContext policy ctx req sys s)) \<longleftrightarrow>
   Dec_Err (fst (AuthorizeContext policy ctx req sys s)) = None"
proof -
  obtain d s' where run: "AuthorizeContext policy ctx req sys s = (d, s')" by fastforce
  obtain subj d0 where d0:
    "decide policy (effective_context ctx) req (requestTime policy sys) = (subj, d0)"
    "audit policy (effective_context ctx) req subj d0 (requestTime policy sys) s = (d, s')"
    using AuthorizeContext_cases [OF run] .
  have "decision_consistent d0"
    using decide_consistent [of policy "effective_context ctx" req "requestTime policy sys"] d0(1)
    by simp
  with d0(2) have "decision_consistent d"
    by (cases rule: audit_cases) (auto simp: decision_consistent_def)
  with run show ?thesis by (simp add: decision_consistent_def)
qed

text \<open>
  C4. Tenant isolation. An allowed request names an organisation, tenant and project
  that the directory holds and that belong to each other, and its subject is a
  registered principal whose authority reaches exactly there: a platform
  administrator, a member whose membership covers the target, or the holder of an
  API token or a support grant issued for that tenant and that project.
\<close>

theorem tenant_isolation:
  assumes "AuthorizeContext policy ctx req sys s = (d, s')" and "Dec_Allowed d"
  shows "\<exists>tenant project p.
     target_ok policy (Req_Target req) tenant project \<and>
     map_of (Policy_Principals policy) (Ref_ID (Req_Subject req)) = Some p \<and>
     ((\<exists>m \<in> set (Principal_Memberships p). Member_Role m = RolePlatformAdmin) \<or>
      (\<exists>m \<in> set (Principal_Memberships p). covers m (Req_Target req) \<and>
         membershipRoleAllows (Member_Role m) (Req_Action req)) \<or>
      (\<exists>tok. map_of (Policy_APITokens policy) (Ref_APITokenRef (Req_Subject req)) = Some tok \<and>
         Token_SubjectID tok = Ref_ID (Req_Subject req) \<and>
         Token_TenantID tok = Tenant_ID tenant \<and> Token_ProjectID tok = Project_ID project \<and>
         Req_Action req \<in> set (Token_Scopes tok)) \<or>
      (\<exists>g. map_of (Policy_SupportGrants policy) (Req_SupportGrantRef req) = Some g \<and>
         Grant_SubjectID g = Ref_ID (Req_Subject req) \<and>
         Grant_TenantID g = Tenant_ID tenant \<and> Grant_ProjectID g = Project_ID project \<and>
         Req_Action req \<in> set (Grant_Actions g)))"
    (is "\<exists>tenant project p. _ \<and> _ \<and> ?authority p tenant project")
proof -
  obtain r p tenant project where *:
    "subject_ok policy req r p (requestTime policy sys)"
    "target_ok policy (Req_Target req) tenant project"
    "route_ok policy req p (granted_token policy req) (requestTime policy sys)"
    using permittedE [OF AuthorizeContext_allowed(1) [OF assms]] by metis
  have p: "map_of (Policy_Principals policy) (Ref_ID (Req_Subject req)) = Some p"
    "Principal_ID p = Ref_ID (Req_Subject req)"
    using *(1) by (auto simp: subject_ok_def)
  have ids: "Tenant_ID tenant = Target_TenantID (Req_Target req)"
    "Project_ID project = Target_ProjectID (Req_Target req)"
    using *(2) by (auto simp: target_ok_def)
  have "(\<exists>m \<in> set (Principal_Memberships p). Member_Role m = RolePlatformAdmin) \<or>
      (\<exists>m \<in> set (Principal_Memberships p). covers m (Req_Target req) \<and>
         membershipRoleAllows (Member_Role m) (Req_Action req)) \<or>
      (Ref_APITokenRef (Req_Subject req) \<noteq> [] \<and>
         token_ok req (granted_token policy req) (requestTime policy sys)) \<or>
      support_grant_ok policy req p (requestTime policy sys)"
    using *(3)
    by (auto simp: route_ok_def break_glass_ok_def roleAllows_iff recover_role split: if_splits)
  moreover have "\<exists>tok. map_of (Policy_APITokens policy) (Ref_APITokenRef (Req_Subject req)) = Some tok \<and>
      Token_SubjectID tok = Ref_ID (Req_Subject req) \<and> granted_token policy req = tok"
    if "Ref_APITokenRef (Req_Subject req) \<noteq> []"
    using that *(1) by (auto simp: subject_ok_def live_token_def granted_token_def)
  ultimately have "?authority p tenant project"
    using p(2) ids unfolding token_ok_def support_grant_ok_def by (elim disjE) auto
  with *(2) p(1) show ?thesis by blast
qed

theorem tenant_isolation_witness:
  "\<exists>tenant project. target_ok ex_policy (Req_Target ex_support) tenant project"
  using tenant_isolation [OF ex_run_pair ex_allowed(4)] by blast

text \<open>
  C18. The last owner stays. Whatever credential is used, an allowed owner removal
  targets a current owner of the resolved project and leaves another one.
\<close>

theorem last_owner_stays:
  assumes "AuthorizeContext policy ctx req sys s = (d, s')" and "Dec_Allowed d"
    and "Req_Action req = ActionOwnerRemove"
  shows "\<exists>project other.
     map_of (Policy_Projects policy) (Target_ProjectID (Req_Target req)) = Some project \<and>
     Context_TargetPrincipal (Req_Context req) \<in> owners (Policy_Principals policy) project \<and>
     other \<in> owners (Policy_Principals policy) project \<and>
     other \<noteq> Context_TargetPrincipal (Req_Context req)"
  using permittedE [OF AuthorizeContext_allowed(1) [OF assms(1,2)]] assms(3)
  unfolding owner_removal_ok_def target_ok_def by metis

theorem last_owner_stays_witness:
  "\<exists>project other. other \<in> owners (Policy_Principals ex_policy) project \<and> other \<noteq> ''bob''"
  using last_owner_stays [OF ex_run_pair ex_allowed(1)] by (force simp: ex_request_def)

text \<open>
  A tenant that is not active admits no write, management or owner removal,
  whatever the caller's role or credential, break-glass included.
\<close>

theorem inactive_tenant_is_read_only:
  assumes "AuthorizeContext policy ctx req sys s = (d, s')" and "Dec_Allowed d"
    and "Req_Action req \<in> {ActionProjectWrite, ActionProjectManage, ActionOwnerRemove}"
  shows "\<exists>tenant. map_of (Policy_Tenants policy) (Target_TenantID (Req_Target req)) = Some tenant \<and>
     Tenant_State tenant = TenantStateActive"
  using permittedE [OF AuthorizeContext_allowed(1) [OF assms(1,2)]]
    lifecycleAllows_write [OF _ assms(3)]
  unfolding target_ok_def by metis

theorem inactive_tenant_is_read_only_witness:
  "\<exists>tenant. map_of (Policy_Tenants ex_policy) ''acme'' = Some tenant \<and>
     Tenant_State tenant = TenantStateActive"
  using inactive_tenant_is_read_only [OF ex_run_pair ex_allowed(2)] by (force simp: ex_request_def)

text \<open>
  C27. Privilege needs a second factor. When the engine allows anything but a plain
  read with a session, or anything at all to a support principal or a platform
  administrator, the trusted verifier has reported a satisfied factor of a known kind.
\<close>

theorem privileged_requests_have_mfa:
  assumes "AuthorizeContext policy ctx req sys s = (d, s')" and "Dec_Allowed d"
    and "Policy_authenticator policy = Some verifier"
    and "verifier (effective_context ctx) req (requestTime policy sys) = Inr r"
    and "map_of (Policy_Principals policy) (Ref_ID (Req_Subject req)) = Some p"
    and "principalRequiresMFA p \<or>
      Req_Action req \<noteq> ActionProjectRead \<and> Ref_APITokenRef (Req_Subject req) = [] \<or>
      Req_SupportGrantRef req \<noteq> [] \<or> Req_BreakGlass req"
  shows "MFA_Satisfied (Authn_MFA r) \<and> knownSatisfiedMFAMethod (MFA_MethodClass (Authn_MFA r))"
proof -
  obtain r' p' where *: "authenticated policy (effective_context ctx) req (requestTime policy sys) r'"
    "subject_ok policy req r' p' (requestTime policy sys)" "assured req p' r'"
    using permittedE [OF AuthorizeContext_allowed(1) [OF assms(1,2)]] by metis
  have "r' = r" "p' = p"
    using *(1,2) assms(3-5) by (auto simp: authenticated_def subject_ok_def)
  with * assms(6) have "mfa_required req p r"
    by (auto simp: mfa_required_def subject_ok_def class_ok_def split: if_splits)
  with *(3) \<open>r' = r\<close> \<open>p' = p\<close> show ?thesis by (simp add: assured_def)
qed

theorem privileged_requests_have_mfa_witness:
  "MFA_Satisfied (Authn_MFA (projr (ex_verifier Background ex_break_glass ex_now)))"
proof -
  have "ex_verifier (effective_context None) ex_break_glass (requestTime ex_policy 0) =
      Inr (projr (ex_verifier Background ex_break_glass ex_now))"
    "Policy_authenticator ex_policy = Some ex_verifier"
    by (simp_all add: ex_verifier_def ex_policy_def NewPolicy_def ex_config_def effective_context_def
        requestTime_def clock_Now.simps Let_def)
  moreover have "map_of (Policy_Principals ex_policy) (Ref_ID (Req_Subject ex_break_glass)) =
      Some (snd (ex_principal ''root'' [ex_member [] RolePlatformAdmin] False))"
    "Req_BreakGlass ex_break_glass"
    by code_simp+
  ultimately show ?thesis
    using privileged_requests_have_mfa [OF ex_run_pair ex_allowed(3)] by blast
qed

text \<open>
  Credentials do not combine: a request that names an API token and is allowed is
  neither a break-glass nor a support request, does not recover a tenant, and the
  token is registered for the subject, unexpired, not revoked, bound to the target's
  tenant and project, and lists the action.
\<close>

theorem api_token_confined:
  assumes "AuthorizeContext policy ctx req sys s = (d, s')" and "Dec_Allowed d"
    and "Ref_APITokenRef (Req_Subject req) \<noteq> []"
  shows "\<not> Req_BreakGlass req \<and> Req_SupportGrantRef req = [] \<and>
     Req_Action req \<noteq> ActionTenantRecover \<and>
     (\<exists>tok. live_token policy req (requestTime policy sys) tok \<and>
        Token_TenantID tok = Target_TenantID (Req_Target req) \<and>
        Token_ProjectID tok = Target_ProjectID (Req_Target req) \<and>
        Req_Action req \<in> set (Token_Scopes tok))"
proof -
  obtain r p where *: "subject_ok policy req r p (requestTime policy sys)"
    "Req_Action req = ActionTenantRecover \<Longrightarrow> Req_BreakGlass req"
    "route_ok policy req p (granted_token policy req) (requestTime policy sys)"
    using permittedE [OF AuthorizeContext_allowed(1) [OF assms(1,2)]] by metis
  obtain tok where tok: "live_token policy req (requestTime policy sys) tok"
    using *(1) assms(3) by (auto simp: subject_ok_def)
  have "\<not> Req_BreakGlass req" "Req_SupportGrantRef req = []"
    using *(1) assms(3) by (auto simp: subject_ok_def class_ok_def split: if_splits)
  moreover from this have "token_ok req tok (requestTime policy sys)"
    using *(3) assms(3) tok by (simp add: route_ok_def granted_token_def live_token_def)
  ultimately show ?thesis
    using *(2) tok by (auto simp: token_ok_def)
qed

theorem api_token_confined_witness:
  "\<exists>tok. live_token ex_policy (ex_request ''alice'' ''tok'' ActionProjectWrite) ex_now tok \<and> Token_TenantID tok = ''acme''"
proof -
  have "Ref_APITokenRef (Req_Subject (ex_request ''alice'' ''tok'' ActionProjectWrite)) \<noteq> []"
    "requestTime ex_policy 0 = ex_now" "Target_TenantID (Req_Target (ex_request ''alice'' ''tok'' ActionProjectWrite)) = ''acme''"
    by code_simp+
  then show ?thesis using api_token_confined [OF ex_run_pair ex_allowed(2)] by auto
qed

text \<open>
  C28. Break-glass is reserved: an allowed break-glass request, and any allowed tenant
  recovery, comes from a registered platform administrator who authenticated with a
  break-glass credential and a second factor and who gave a reason and a ticket.
\<close>

theorem break_glass_confined:
  assumes "AuthorizeContext policy ctx req sys s = (d, s')" and "Dec_Allowed d"
    and "Req_BreakGlass req \<or> Req_Action req = ActionTenantRecover"
  shows "\<exists>r p. authenticated policy (effective_context ctx) req (requestTime policy sys) r \<and>
     Authn_CredentialClass r = CredentialClassBreakGlass \<and> MFA_Satisfied (Authn_MFA r) \<and>
     map_of (Policy_Principals policy) (Ref_ID (Req_Subject req)) = Some p \<and>
     anyPlatformAdmin (Principal_Memberships p) \<and>
     TrimSpace (Context_Reason (Req_Context req)) \<noteq> [] \<and>
     TrimSpace (Context_TicketRef (Req_Context req)) \<noteq> []"
proof -
  obtain r p where *: "authenticated policy (effective_context ctx) req (requestTime policy sys) r"
    "subject_ok policy req r p (requestTime policy sys)" "assured req p r"
    "Req_Action req = ActionTenantRecover \<Longrightarrow> Req_BreakGlass req"
    "route_ok policy req p (granted_token policy req) (requestTime policy sys)"
    using permittedE [OF AuthorizeContext_allowed(1) [OF assms(1,2)]] by metis
  have bg: "Req_BreakGlass req" using *(4) assms(3) by blast
  then have "break_glass_ok req p" using *(5) by (simp add: route_ok_def)
  moreover have "mfa_required req p r" "Authn_CredentialClass r = CredentialClassBreakGlass"
    using *(2) bg by (auto simp: mfa_required_def subject_ok_def class_ok_def)
  ultimately show ?thesis
    using *(1-3) unfolding break_glass_ok_def assured_def subject_ok_def roleAllows_recover by blast
qed

theorem break_glass_confined_witness:
  "\<exists>p. map_of (Policy_Principals ex_policy) ''root'' = Some p \<and> anyPlatformAdmin (Principal_Memberships p)"
proof -
  have "Req_BreakGlass ex_break_glass" "Ref_ID (Req_Subject ex_break_glass) = ''root''" by code_simp+
  then show ?thesis using break_glass_confined [OF ex_run_pair ex_allowed(3)] by auto
qed

text \<open>
  C29. Evidence is fresh: behind every allowed request stands a result of the trusted
  verifier for the same subject that has not expired, was verified at most the
  configured age ago (never more than 24 hours) and at most the configured skew
  (never more than five minutes) in the future, and, for session credentials, within
  the session's own maximum age.
\<close>

theorem evidence_is_fresh:
  assumes "AuthorizeContext policy ctx req sys s = (d, s')" and "Dec_Allowed d"
  shows "\<exists>verifier r. Policy_authenticator policy = Some verifier \<and>
     verifier (effective_context ctx) req (requestTime policy sys) = Inr r \<and>
     Authn_SubjectID r = Ref_ID (Req_Subject req) \<and>
     requestTime policy sys < Proof_ExpiresAt (Authn_Proof r) \<and>
     requestTime policy sys - Proof_VerifiedAt (Authn_Proof r) \<le> Policy_proofMaxAge policy \<and>
     Policy_proofMaxAge policy \<le> 24 * Hour \<and>
     Proof_VerifiedAt (Authn_Proof r) \<le> requestTime policy sys + Policy_proofSkew policy \<and>
     Policy_proofSkew policy \<le> 5 * Minute \<and>
     (Authn_CredentialClass r \<noteq> CredentialClassShortLivedAPIToken \<longrightarrow>
        requestTime policy sys - Proof_VerifiedAt (Authn_Proof r) \<le>
          Session_MaxAgeSeconds (Authn_Session r) * Second)"
  using permittedE [OF AuthorizeContext_allowed(1) [OF assms]]
  unfolding authenticated_def subject_ok_def fresh_proof_def Let_def by metis

theorem evidence_is_fresh_witness:
  "\<exists>r. ex_verifier Background (ex_request ''alice'' [] ActionOwnerRemove) ex_now = Inr r \<and>
     ex_now < Proof_ExpiresAt (Authn_Proof r)"
proof -
  have "Policy_authenticator ex_policy = Some ex_verifier" "requestTime ex_policy 0 = ex_now"
    "effective_context None = (Background :: unit Context)"
    by (simp_all add: ex_policy_def NewPolicy_def ex_config_def effective_context_def
        requestTime_def clock_Now.simps)
  then show ?thesis using evidence_is_fresh [OF ex_run_pair ex_allowed(1)] by auto
qed

text \<open>
  The time a caller writes into a request has no influence: if the verifier does
  not read it, changing it changes neither the decision nor the audit record.
\<close>

theorem caller_time_ignored:
  assumes "\<And>verifier c now. Policy_authenticator policy = Some verifier \<Longrightarrow>
    verifier c (req\<lparr>Req_Context := (Req_Context req)\<lparr>Context_Now := t\<rparr>\<rparr>) now = verifier c req now"
  shows "AuthorizeContext policy ctx (req\<lparr>Req_Context := (Req_Context req)\<lparr>Context_Now := t\<rparr>\<rparr>) sys s =
    AuthorizeContext policy ctx req sys s"
  using assms by (rule AuthorizeContext_ignores_Now)

theorem caller_time_ignored_witness:
  "Dec_Allowed (fst (ex_run (ex_break_glass\<lparr>Req_Context :=
     (Req_Context ex_break_glass)\<lparr>Context_Now := 99\<rparr>\<rparr>)))"
proof -
  have "verifier c (ex_break_glass\<lparr>Req_Context := (Req_Context ex_break_glass)\<lparr>Context_Now := 99\<rparr>\<rparr>) now =
      verifier c ex_break_glass now"
    if "Policy_authenticator ex_policy = Some verifier" for verifier c now
    using that by (auto simp: ex_policy_def NewPolicy_def ex_config_def ex_verifier_def Let_def)
  then show ?thesis
    using caller_time_ignored [where policy = ex_policy and req = ex_break_glass and t = 99] ex_allowed(3)
    by (simp add: ex_run_def)
qed

text \<open>
  C30. Map iteration order has no influence: the owner scan visits the principals in
  whatever order the runtime chooses, and the decision and the audit record are the same.
\<close>

theorem principal_order_irrelevant:
  assumes "same_map (Policy_Principals policy) ps"
  shows "AuthorizeContext (policy\<lparr>Policy_Principals := ps\<rparr>) ctx req sys s =
    AuthorizeContext policy ctx req sys s"
  using assms by (rule AuthorizeContext_same_map)

theorem principal_order_irrelevant_witness:
  "Dec_Allowed (fst (AuthorizeContext
     (ex_policy\<lparr>Policy_Principals := rev (Policy_Principals ex_policy)\<rparr>) None
     (ex_request ''alice'' [] ActionOwnerRemove) 0 NewMemoryAuditSink))"
proof -
  have "distinct (map fst (Policy_Principals ex_policy))" by code_simp
  then have "same_map (Policy_Principals ex_policy) (rev (Policy_Principals ex_policy))"
    by (simp add: same_map_def go_map_def rev_map [symmetric])
  from principal_order_irrelevant [OF this] show ?thesis
    using ex_allowed(1) by (simp add: ex_run_def)
qed

text \<open>
  C12. The log accounts for every allow: over any sequence of requests with the
  in-memory sink, the log only grows, by at most one event per request, and its allow
  events are, in order, exactly the requests that were allowed, with the rule each was
  allowed under.
\<close>

theorem log_accounts_for_allows:
  assumes "Policy_AuditSink policy = Some sink" and "Sink_Append sink = Memory_Append"
    and "AuthorizeSequence policy calls s = (ds, s')"
  shows "\<exists>es. Memory_Events s' = Memory_Events s @ es \<and> length es \<le> length calls \<and>
    allow_events es = allowed_calls calls ds"
  using assms by (rule mem.sequence_logs)

theorem log_accounts_for_allows_witness:
  "\<exists>es. Memory_Events (snd (AuthorizeSequence ex_policy
      [(None, ex_support, 0), (None, ex_request ''helper'' [] ActionProjectWrite, 0)]
      NewMemoryAuditSink)) = es \<and> length es \<le> 2"
proof -
  have sink: "Policy_AuditSink ex_policy = Some ex_sink" "Sink_Append ex_sink = Memory_Append"
    by (simp_all add: ex_policy_def NewPolicy_def ex_config_def ex_sink_def memorySink_def)
  have empty: "Memory_Events NewMemoryAuditSink = []" by code_simp
  show ?thesis
    using log_accounts_for_allows [OF sink prod.collapse [symmetric], of
      "[(None, ex_support, 0), (None, ex_request ''helper'' [] ActionProjectWrite, 0)]"
      NewMemoryAuditSink]
    by (simp add: empty del: AuthorizeSequence.simps)
qed

text \<open>
  C31. A policy built from loaded state is sound by construction: the directory it
  holds is the loaded one and is well formed, it never accepts ephemeral audit, it has
  a verifier, and its proof bounds are within the limits authentication enforces.
\<close>

theorem loaded_policy_is_sound:
  assumes "NewPolicyFromState (Some c) config (Some load) s = Inr policy"
    and "\<And>state. Loader_LoadPolicyState load c = Inr state \<Longrightarrow> state_maps state"
  shows "Loader_LoadPolicyState load c = Inr (policy_state policy) \<and>
     directory_wf (policy_state policy) \<and> directory_sound (Policy_Principals policy) \<and>
     \<not> Policy_allowEphemeralAudit policy \<and> Policy_authenticator policy \<noteq> None \<and>
     Policy_proofMaxAge policy \<in> {0 <.. maxConfiguredProofAge} \<and>
     Policy_proofSkew policy \<in> {0 .. maxConfiguredProofSkew}"
  using NewPolicyFromState_built [OF assms] directory_wf_sound [of policy] by auto

lemma ex_built: "NewPolicyFromState (Some Background) ex_config (Some ex_loader) NewMemoryAuditSink = Inr ex_policy"
proof -
  have "asDurableAuditSink (Config_AuditSink ex_config) = Some (Memory_Ready, \<lambda>_. True)"
    "Loader_Ready ex_loader Background = None" "Loader_LoadPolicyState ex_loader Background = Inr ex_state"
    "\<not> Config_AllowEphemeralAudit ex_config" "Config_AuthenticationVerifier ex_config \<noteq> None"
    "Memory_Ready (Background :: unit Context) NewMemoryAuditSink = None"
    by (simp_all add: ex_config_def ex_sink_def memorySink_def ex_loader_def
        Memory_Ready_def)
  moreover have "validatePolicyState ex_state = None" by code_simp
  moreover have "state_maps ex_state" by (simp add: state_maps_def ex_state_def ex_principal_def)
  moreover have "\<not> (Config_AuthenticationProofMaxAge ex_config \<le> 0 \<or>
      Config_AuthenticationProofMaxAge ex_config > 24 * Hour \<or>
      Config_AuthenticationProofFutureSkew ex_config < 0 \<or>
      Config_AuthenticationProofFutureSkew ex_config > 5 * Minute)"
    by (simp add: ex_config_def duration_defs)
  ultimately show ?thesis
    by (simp add: NewPolicyFromState_def clone_ids state_maps_def ex_policy_def
        del: asDurableAuditSink.simps)
qed

lemma ex_loader_maps: "Loader_LoadPolicyState ex_loader Background = Inr state \<Longrightarrow> state_maps state"
  by (auto simp: ex_loader_def state_maps_def ex_state_def ex_principal_def)

theorem loaded_policy_is_sound_witness: "directory_wf (policy_state ex_policy)"
  using loaded_policy_is_sound [OF ex_built ex_loader_maps] by blast

text \<open>
  Every project of a loaded policy is reachable: a target that names the
  project's own coordinates resolves to that project and to a tenant in a known
  lifecycle state, so no request on it fails as unknown.
\<close>

theorem loaded_projects_resolve:
  assumes "NewPolicyFromState (Some c) config (Some load) s = Inr policy"
    and "\<And>state. Loader_LoadPolicyState load c = Inr state \<Longrightarrow> state_maps state"
    and "(ref, project) \<in> set (Policy_Projects policy)"
    and "Target_ProjectID t = ref" and "Target_TenantID t = Project_TenantID project"
    and "Target_OrgID t = Project_OrgID project"
  shows "\<exists>tenant. resolveTarget policy t = Inr (tenant, project) \<and>
     knownTenantState (Tenant_State tenant) \<and>
     lifecycleAllows (Tenant_State tenant) ActionProjectRead = None"
proof -
  obtain tenant where "resolveTarget policy t = Inr (tenant, project)" "knownTenantState (Tenant_State tenant)"
    using directory_wf_resolves [OF NewPolicyFromState_built(3,2) [OF assms(1,2)] assms(3-6)] by blast
  then show ?thesis by (auto simp: knownTenantState_def lifecycleAllows_def)
qed

theorem loaded_projects_resolve_witness:
  "\<exists>tenant project. resolveTarget ex_policy (Req_Target ex_support) = Inr (tenant, project)"
proof -
  have "(''web'', \<lparr>Project_ID = ''web'', Project_TenantID = ''acme'', Project_OrgID = ''org'',
      Project_Namespace = ''web-ns'', Project_Scopes = []\<rparr>) \<in> set (Policy_Projects ex_policy)"
    by (simp add: ex_policy_def ex_state_def)
  from loaded_projects_resolve [OF ex_built ex_loader_maps this, of "Req_Target ex_support"]
  show ?thesis by (auto simp: ex_support_def ex_request_def)
qed

text \<open>
  In a loaded policy the owner guard is exact: it stops a removal when, and only
  when, the target is not an owner of the project or is its only owner.
\<close>

theorem owner_guard_exact:
  assumes "NewPolicyFromState (Some c) config (Some load) s = Inr policy"
    and "\<And>state. Loader_LoadPolicyState load c = Inr state \<Longrightarrow> state_maps state"
  shows "removingLastOwner policy tp project \<longleftrightarrow>
     tp \<notin> owners (Policy_Principals policy) project \<or> owners (Policy_Principals policy) project = {tp}"
proof -
  have sound: "directory_sound (Policy_Principals policy)"
    using NewPolicyFromState_built(2,3) [OF assms] directory_wf_sound by blast
  then have "[] \<notin> owners (Policy_Principals policy) project"
    by (auto simp: owners_def directory_sound_def)
  with sound removingLastOwner_iff [of policy tp project] show ?thesis by blast
qed

theorem owner_guard_exact_witness:
  "removingLastOwner ex_policy ''root'' (snd (hd (Policy_Projects ex_policy))) \<longleftrightarrow>
     ''root'' \<notin> owners (Policy_Principals ex_policy) (snd (hd (Policy_Projects ex_policy))) \<or>
     owners (Policy_Principals ex_policy) (snd (hd (Policy_Projects ex_policy))) = {''root''}"
  by (rule owner_guard_exact [OF ex_built ex_loader_maps])

text \<open>
  A gap in the validation of loaded state: the lookup of an absent subject yields the
  zero principal, whose identifier equals an empty subject identifier, so a token that
  names no subject passes. No request can use it, because an empty subject never
  authenticates.
\<close>

lemma empty_subject_token_accepted:
  "validatePolicyState (ex_state\<lparr>State_APITokens := [(''t0'', \<lparr>Token_Reference = ''t0'',
     Token_SubjectID = [], Token_SecretHashRef = ''hash'', Token_TenantID = ''acme'',
     Token_ProjectID = ''web'', Token_Scopes = [ActionProjectWrite], Token_ExpiresAt = ex_now + Hour,
     Token_RevokedAt = 0\<rparr>)]\<rparr>) = None \<and> map_of (State_Principals ex_state) [] = None"
  by code_simp

end
