(* ===== verification/Go_Sha256.thy ===== *)
theory Go_Sha256
  imports Go_Strings "HOL-Library.Word"
begin

unbundle bit_operations_syntax

text \<open>
  \<^verbatim>\<open>crypto/sha256\<close> on byte strings: padding, message schedule, compression and
  output, on 32-bit words whose additions wrap. The properties of the packages that
  hash use the length of a digest and, where they speak of two inputs, the absence of
  a collision between these two as an explicit hypothesis.
\<close>

type_synonym u32 = "32 word"

definition rotateRight :: "nat \<Rightarrow> u32 \<Rightarrow> u32" where
  "rotateRight n w = drop_bit n w OR push_bit (32 - n) w"

text \<open>The round constants of the standard, in decimal.\<close>

definition sha256_constants :: "int list" where
  "sha256_constants =
    [1116352408, 1899447441, 3049323471, 3921009573, 961987163, 1508970993, 2453635748, 2870763221,
     3624381080, 310598401, 607225278, 1426881987, 1925078388, 2162078206, 2614888103, 3248222580,
     3835390401, 4022224774, 264347078, 604807628, 770255983, 1249150122, 1555081692, 1996064986,
     2554220882, 2821834349, 2952996808, 3210313671, 3336571891, 3584528711, 113926993, 338241895,
     666307205, 773529912, 1294757372, 1396182291, 1695183700, 1986661051, 2177026350, 2456956037,
     2730485921, 2820302411, 3259730800, 3345764771, 3516065817, 3600352804, 4094571909, 275423344,
     430227734, 506948616, 659060556, 883997877, 958139571, 1322822218, 1537002063, 1747873779,
     1955562222, 2024104815, 2227730452, 2361852424, 2428436474, 2756734187, 3204031479, 3329325298]"

definition sha256_K :: "u32 list" where
  "sha256_K = map word_of_int sha256_constants"

record sha_state =
  Sha_a :: u32  Sha_b :: u32  Sha_c :: u32  Sha_d :: u32
  Sha_e :: u32  Sha_f :: u32  Sha_g :: u32  Sha_h :: u32

definition sha256_init :: sha_state where
  "sha256_init = \<lparr>Sha_a = 1779033703, Sha_b = 3144134277, Sha_c = 1013904242, Sha_d = 2773480762,
     Sha_e = 1359893119, Sha_f = 2600822924, Sha_g = 528734635, Sha_h = 1541459225\<rparr>"

definition sha256_pad :: "string \<Rightarrow> string" where
  "sha256_pad m =
     (let n = length m; zeros = (119 - n mod 64) mod 64 in
      m @ [CHR 0x80] @ replicate zeros (CHR 0x00) @
      map (\<lambda>i. char_of (8 * int n div 256 ^ i)) [7, 6, 5, 4, 3, 2, 1, 0])"

fun sha256_words :: "string \<Rightarrow> u32 list" where
  "sha256_words (a # b # c # d # m) =
     (((of_char a * 256 + of_char b) * 256 + of_char c) * 256 + of_char d) # sha256_words m"
| "sha256_words _ = []"

text \<open>The schedule is kept with the latest word first.\<close>

fun sha256_extend :: "nat \<Rightarrow> u32 list \<Rightarrow> u32 list" where
  "sha256_extend 0 w = w"
| "sha256_extend (Suc n) w =
     (let x = w ! 14; y = w ! 1;
          s0 = rotateRight 7 x XOR rotateRight 18 x XOR drop_bit 3 x;
          s1 = rotateRight 17 y XOR rotateRight 19 y XOR drop_bit 10 y in
      sha256_extend n ((w ! 15 + s0 + w ! 6 + s1) # w))"

definition sha256_round :: "sha_state \<Rightarrow> u32 \<Rightarrow> u32 \<Rightarrow> sha_state" where
  "sha256_round s k w =
     (let a = Sha_a s; b = Sha_b s; c = Sha_c s; e = Sha_e s; f = Sha_f s; g = Sha_g s;
          s1 = rotateRight 6 e XOR rotateRight 11 e XOR rotateRight 25 e;
          ch = (e AND f) XOR (NOT e AND g);
          t1 = Sha_h s + s1 + ch + k + w;
          s0 = rotateRight 2 a XOR rotateRight 13 a XOR rotateRight 22 a;
          maj = (a AND b) XOR (a AND c) XOR (b AND c);
          t2 = s0 + maj in
      \<lparr>Sha_a = t1 + t2, Sha_b = a, Sha_c = b, Sha_d = c,
       Sha_e = Sha_d s + t1, Sha_f = e, Sha_g = f, Sha_h = g\<rparr>)"

fun sha256_rounds :: "u32 list \<Rightarrow> u32 list \<Rightarrow> sha_state \<Rightarrow> sha_state" where
  "sha256_rounds (k # ks) (w # ws) s = sha256_rounds ks ws (sha256_round s k w)"
| "sha256_rounds _ _ s = s"

definition sha256_block :: "sha_state \<Rightarrow> string \<Rightarrow> sha_state" where
  "sha256_block s block =
     (let t = sha256_rounds sha256_K (rev (sha256_extend 48 (rev (sha256_words block)))) s in
      \<lparr>Sha_a = Sha_a s + Sha_a t, Sha_b = Sha_b s + Sha_b t, Sha_c = Sha_c s + Sha_c t,
       Sha_d = Sha_d s + Sha_d t, Sha_e = Sha_e s + Sha_e t, Sha_f = Sha_f s + Sha_f t,
       Sha_g = Sha_g s + Sha_g t, Sha_h = Sha_h s + Sha_h t\<rparr>)"

fun sha256_blocks :: "nat \<Rightarrow> string \<Rightarrow> sha_state \<Rightarrow> sha_state" where
  "sha256_blocks 0 m s = s"
| "sha256_blocks (Suc n) m s = sha256_blocks n (drop 64 m) (sha256_block s (take 64 m))"

definition word_bytes :: "u32 \<Rightarrow> string" where
  "word_bytes w = map (\<lambda>i. char_of (uint (drop_bit i w))) [24, 16, 8, 0]"

definition sha256_digest :: "sha_state \<Rightarrow> string" where
  "sha256_digest s = word_bytes (Sha_a s) @ word_bytes (Sha_b s) @ word_bytes (Sha_c s) @
     word_bytes (Sha_d s) @ word_bytes (Sha_e s) @ word_bytes (Sha_f s) @ word_bytes (Sha_g s) @
     word_bytes (Sha_h s)"

definition Sum256 :: "string \<Rightarrow> string" where
  "Sum256 m =
     (let p = sha256_pad m in sha256_digest (sha256_blocks (length p div 64) p sha256_init))"

lemma length_word_bytes [simp]: "length (word_bytes w) = 4"
  by (simp add: word_bytes_def)

lemma length_Sum256 [simp]: "length (Sum256 m) = 32"
  by (simp add: Sum256_def sha256_digest_def Let_def)

text \<open>The padded message is a whole number of blocks, so no byte of it is dropped.\<close>

lemma sha256_pad_length: "(n + (119 - n mod 64) mod 64 + 9) mod 64 = (0 :: nat)"
proof -
  let ?r = "n mod 64"
  have "(n + k mod 64) mod 64 = (?r + k) mod 64" for k
    by (simp only: mod_add_left_eq mod_add_right_eq)
  then have "(n + k mod 64 + 9) mod 64 = (?r + k + 9) mod 64" for k
    by (rule mod_add_cong [OF _ refl])
  from this [of "119 - ?r"]
  have "(n + (119 - ?r) mod 64 + 9) mod 64 = (?r + (119 - ?r) + 9) mod 64" .
  also have "?r + (119 - ?r) + 9 = 128"
    using mod_less_divisor [of 64 n] by linarith
  finally show ?thesis by simp
qed

lemma sha256_pad_blocks: "length (sha256_pad m) mod 64 = 0"
  using sha256_pad_length [of "length m"] by (simp add: sha256_pad_def Let_def ac_simps)

definition SHA256Hex :: "string \<Rightarrow> string" where
  "SHA256Hex m = hex_EncodeToString (Sum256 m)"

lemma length_SHA256Hex [simp]: "length (SHA256Hex m) = 64"
  by (simp add: SHA256Hex_def)

end
