(* ===== verification/Go_Regexp.thy ===== *)
theory Go_Regexp
  imports Go_Strings
begin

text \<open>
  Anchored regular expressions of the form the packages use to check identifiers: a
  sequence of character classes, each with bounds on its repetition. \<^verbatim>\<open>^\<close> and
  \<^verbatim>\<open>$\<close> without the multi-line flag match the ends of the text only.
\<close>

datatype rep = Rep "char \<Rightarrow> bool" nat "nat option"

definition rep_max :: "nat option \<Rightarrow> string \<Rightarrow> nat" where
  "rep_max hi s = (case hi of None \<Rightarrow> length s | Some h \<Rightarrow> min h (length s))"

fun MatchString :: "rep list \<Rightarrow> string \<Rightarrow> bool" where
  "MatchString [] s \<longleftrightarrow> s = []"
| "MatchString (Rep P lo hi # r) s \<longleftrightarrow>
     list_ex (\<lambda>n. list_all P (take n s) \<and> MatchString r (drop n s)) [lo ..< Suc (rep_max hi s)]"

fun rep_chars :: "rep \<Rightarrow> char \<Rightarrow> bool" where "rep_chars (Rep P lo hi) = P"

lemma MatchString_Cons:
  "MatchString (Rep P lo hi # r) s \<longleftrightarrow>
     (\<exists>a b. s = a @ b \<and> lo \<le> length a \<and> (\<forall>h. hi = Some h \<longrightarrow> length a \<le> h) \<and>
        list_all P a \<and> MatchString r b)"
proof
  assume "MatchString (Rep P lo hi # r) s"
  then obtain n where n: "lo \<le> n" "n \<le> rep_max hi s" "list_all P (take n s)" "MatchString r (drop n s)"
    by (auto simp: list_ex_iff)
  then have "s = take n s @ drop n s" "length (take n s) = n" "\<forall>h. hi = Some h \<longrightarrow> n \<le> h"
    by (auto simp: rep_max_def split: option.splits)
  with n show "\<exists>a b. s = a @ b \<and> lo \<le> length a \<and> (\<forall>h. hi = Some h \<longrightarrow> length a \<le> h) \<and>
      list_all P a \<and> MatchString r b" by metis
next
  assume "\<exists>a b. s = a @ b \<and> lo \<le> length a \<and> (\<forall>h. hi = Some h \<longrightarrow> length a \<le> h) \<and>
      list_all P a \<and> MatchString r b"
  then obtain a b where ab: "s = a @ b" "lo \<le> length a" "\<forall>h. hi = Some h \<longrightarrow> length a \<le> h"
    "list_all P a" "MatchString r b" by blast
  then have "length a \<in> set [lo ..< Suc (rep_max hi s)]"
    by (auto simp: rep_max_def split: option.splits)
  moreover have "list_all P (take (length a) s) \<and> MatchString r (drop (length a) s)"
    using ab by simp
  ultimately show "MatchString (Rep P lo hi # r) s"
    by (auto simp only: MatchString.simps list_ex_iff)
qed

declare MatchString.simps(2) [simp del]

lemma MatchString_one:
  "MatchString [Rep P lo hi] s \<longleftrightarrow>
     lo \<le> length s \<and> (\<forall>h. hi = Some h \<longrightarrow> length s \<le> h) \<and> list_all P s"
  by (auto simp: MatchString_Cons)

lemma MatchString_exact:
  "MatchString (Rep P 1 (Some 1) # r) s \<longleftrightarrow> (\<exists>c t. s = c # t \<and> P c \<and> MatchString r t)"
proof
  assume "MatchString (Rep P 1 (Some 1) # r) s"
  then obtain a b where ab: "s = a @ b" "length a = 1" "list_all P a" "MatchString r b"
    by (auto simp: MatchString_Cons)
  then obtain c where "a = [c]" by (cases a) auto
  with ab show "\<exists>c t. s = c # t \<and> P c \<and> MatchString r t" by auto
next
  assume "\<exists>c t. s = c # t \<and> P c \<and> MatchString r t"
  then obtain c t where "s = c # t" "P c" "MatchString r t" by blast
  then show "MatchString (Rep P 1 (Some 1) # r) s"
    unfolding MatchString_Cons by (intro exI [of _ "[c]"] exI [of _ t]) simp
qed

lemma MatchString_chars:
  "MatchString r s \<Longrightarrow> c \<in> set s \<Longrightarrow> \<exists>x \<in> set r. rep_chars x c"
proof (induction r arbitrary: s)
  case (Cons x r)
  obtain P lo hi where x: "x = Rep P lo hi" by (cases x)
  obtain a b where "s = a @ b" "list_all P a" "MatchString r b"
    using Cons.prems(1) by (auto simp only: x MatchString_Cons)
  with Cons x show ?case by (auto simp: list_all_iff)
qed simp

text \<open>A first and a last character around a repetition, as in most identifier patterns.\<close>

lemma MatchString_ends:
  assumes "\<And>c. P c \<Longrightarrow> Q c"
  shows "MatchString [Rep P 1 (Some 1), Rep Q lo (Some hi), Rep P 1 (Some 1)] s \<longleftrightarrow>
    lo + 2 \<le> length s \<and> length s \<le> hi + 2 \<and> P (hd s) \<and> P (last s) \<and> list_all Q s"
proof
  assume "MatchString [Rep P 1 (Some 1), Rep Q lo (Some hi), Rep P 1 (Some 1)] s"
  then obtain c t where c: "s = c # t" "P c" "MatchString [Rep Q lo (Some hi), Rep P 1 (Some 1)] t"
    unfolding MatchString_exact by blast
  then obtain a b where ab: "t = a @ b" "lo \<le> length a" "length a \<le> hi" "list_all Q a"
    "MatchString [Rep P 1 (Some 1)] b"
    unfolding MatchString_Cons [of Q] by auto
  then obtain d where "b = [d]" "P d"
    unfolding MatchString_exact by auto
  with c ab assms show "lo + 2 \<le> length s \<and> length s \<le> hi + 2 \<and> P (hd s) \<and> P (last s) \<and> list_all Q s"
    by auto
next
  assume s: "lo + 2 \<le> length s \<and> length s \<le> hi + 2 \<and> P (hd s) \<and> P (last s) \<and> list_all Q s"
  then obtain c t where c: "s = c # t" by (cases s) auto
  with s have "t \<noteq> []" by auto
  then obtain a d where t: "t = a @ [d]" by (metis rev_exhaust)
  have "MatchString [Rep P 1 (Some 1)] [d]"
    using s c t by (simp add: MatchString_one)
  moreover have "lo \<le> length a" "length a \<le> hi" "list_all Q a" using s c t by auto
  ultimately have "MatchString [Rep Q lo (Some hi), Rep P 1 (Some 1)] t"
    unfolding MatchString_Cons [of Q] t by blast
  then show "MatchString [Rep P 1 (Some 1), Rep Q lo (Some hi), Rep P 1 (Some 1)] s"
    unfolding MatchString_exact [of _ "[Rep Q lo (Some hi), Rep P 1 (Some 1)]"] using s c by simp
qed

end
