(* ===== verification/Provider_Ports.thy ===== *)
theory Provider_Ports
  imports Go_Sha256 Go_Regexp "HOL-Library.Product_Lexorder"
begin

text \<open>
  Package \<^verbatim>\<open>pkg/providerports\<close>: requests and receipts that cross the seam between
  the domain kernel and the infrastructure adapters, their canonical digests, the
  adapter registry, and the in-memory reference adapter with its idempotency log. A
  port is an interface value, so a record of its operations over an adapter state;
  its three getters are constants of the record.
\<close>

subsection \<open>Constants and enumerations\<close>

type_synonym ServiceCategory = string
type_synonym BackendFamily = string
type_synonym LifecycleVerb = string
type_synonym ResourceState = string
type_synonym HealthStatus = string

definition ProvisionRequestSchemaVersion :: string where [go_consts]:
  "ProvisionRequestSchemaVersion = ''cloudring.provider-ports.provision-request/v1''"
definition ProvisionReceiptSchemaVersion :: string where [go_consts]:
  "ProvisionReceiptSchemaVersion = ''cloudring.provider-ports.provision-receipt/v1''"
definition commitmentDomainPrefix :: string where [go_consts]:
  "commitmentDomainPrefix = ''cloudring/provider-ports/commitment/v1''"
definition MaxParametersCount :: nat where "MaxParametersCount = 64"
definition MaxParameterValue :: nat where "MaxParameterValue = 1024"

definition ServiceCompute :: ServiceCategory where [go_consts]: "ServiceCompute = ''compute''"
definition ServiceVolume :: ServiceCategory where [go_consts]: "ServiceVolume = ''volume''"
definition ServiceNetwork :: ServiceCategory where [go_consts]: "ServiceNetwork = ''network''"
definition ServiceKubernetes :: ServiceCategory where [go_consts]: "ServiceKubernetes = ''kubernetes''"
definition ServiceObjectStorage :: ServiceCategory where [go_consts]: "ServiceObjectStorage = ''object-storage''"
definition ServiceBackup :: ServiceCategory where [go_consts]: "ServiceBackup = ''backup''"
definition ServiceAccessControl :: ServiceCategory where [go_consts]: "ServiceAccessControl = ''access-control''"
definition ServiceSupport :: ServiceCategory where [go_consts]: "ServiceSupport = ''support''"
definition ServiceExternalIntegration :: ServiceCategory where [go_consts]:
  "ServiceExternalIntegration = ''external-integration''"

definition BackendKubeVirt :: BackendFamily where [go_consts]: "BackendKubeVirt = ''kubevirt''"
definition BackendOpenStack :: BackendFamily where [go_consts]: "BackendOpenStack = ''openstack''"
definition BackendProxmox :: BackendFamily where [go_consts]: "BackendProxmox = ''proxmox''"
definition BackendBareMetal :: BackendFamily where [go_consts]: "BackendBareMetal = ''bare-metal''"

definition VerbProvision :: LifecycleVerb where [go_consts]: "VerbProvision = ''provision''"
definition VerbResume :: LifecycleVerb where [go_consts]: "VerbResume = ''resume''"
definition VerbResize :: LifecycleVerb where [go_consts]: "VerbResize = ''resize''"
definition VerbHold :: LifecycleVerb where [go_consts]: "VerbHold = ''hold''"
definition VerbSuspend :: LifecycleVerb where [go_consts]: "VerbSuspend = ''suspend''"
definition VerbDeprovision :: LifecycleVerb where [go_consts]: "VerbDeprovision = ''deprovision''"

definition StatePending :: ResourceState where [go_consts]: "StatePending = ''pending''"
definition StateProvisioning :: ResourceState where [go_consts]: "StateProvisioning = ''provisioning''"
definition StateReady :: ResourceState where [go_consts]: "StateReady = ''ready''"
definition StateDegraded :: ResourceState where [go_consts]: "StateDegraded = ''degraded''"
definition StateSuspended :: ResourceState where [go_consts]: "StateSuspended = ''suspended''"
definition StateDeprovisioning :: ResourceState where [go_consts]: "StateDeprovisioning = ''deprovisioning''"
definition StateDeleted :: ResourceState where [go_consts]: "StateDeleted = ''deleted''"
definition StateFailed :: ResourceState where [go_consts]: "StateFailed = ''failed''"
definition StateDenied :: ResourceState where [go_consts]: "StateDenied = ''denied''"
definition StateBlocked :: ResourceState where [go_consts]: "StateBlocked = ''blocked''"
definition StateRetryable :: ResourceState where [go_consts]: "StateRetryable = ''retryable''"

definition HealthReady :: HealthStatus where [go_consts]: "HealthReady = ''ready''"
definition HealthDegraded :: HealthStatus where [go_consts]: "HealthDegraded = ''degraded''"
definition HealthUnavailable :: HealthStatus where [go_consts]: "HealthUnavailable = ''unavailable''"

datatype port_error =
    ErrInvalidRequest | ErrInvalidReceipt | ErrInvalidHealthStatus | ErrInvalidAdapterDescriptor
  | ErrAdapterAlreadyRegistered | ErrAdapterNotFound | ErrIdempotencyConflict
  | ErrTenantIsolationViolation | ErrResourceNotFound | ErrContextCanceled
  | PlainPortError string
  | WrapPortError string port_error

fun port_error_Is :: "port_error \<Rightarrow> port_error \<Rightarrow> bool" where
  "port_error_Is (WrapPortError t e) target \<longleftrightarrow> WrapPortError t e = target \<or> port_error_Is e target"
| "port_error_Is e target \<longleftrightarrow> e = target"

definition id_edge :: "char \<Rightarrow> bool" where "id_edge c \<longleftrightarrow> is_lower c \<or> is_digit c"
definition id_inner :: "char \<Rightarrow> bool" where
  "id_inner c \<longleftrightarrow> is_lower c \<or> is_digit c \<or> c \<in> set ''._-''"

definition identifierPattern :: "rep list" where
  "identifierPattern = [Rep id_edge 1 (Some 1), Rep id_inner 1 (Some 62), Rep id_edge 1 (Some 1)]"
definition paramKeyPattern :: "rep list" where
  "paramKeyPattern = [Rep is_lower 1 (Some 1), Rep id_inner 0 (Some 62)]"
definition digestPattern :: "rep list" where
  "digestPattern = [Rep is_hex 64 (Some 64)]"

definition allServiceCategories :: "ServiceCategory list" where
  "allServiceCategories = [ServiceCompute, ServiceVolume, ServiceNetwork, ServiceKubernetes,
     ServiceObjectStorage, ServiceBackup, ServiceAccessControl, ServiceSupport,
     ServiceExternalIntegration]"
definition allBackendFamilies :: "BackendFamily list" where
  "allBackendFamilies = [BackendKubeVirt, BackendOpenStack, BackendProxmox, BackendBareMetal]"
definition allLifecycleVerbs :: "LifecycleVerb list" where
  "allLifecycleVerbs = [VerbProvision, VerbResume, VerbResize, VerbHold, VerbSuspend, VerbDeprovision]"
definition allResourceStates :: "ResourceState list" where
  "allResourceStates = [StatePending, StateProvisioning, StateReady, StateDegraded, StateSuspended,
     StateDeprovisioning, StateDeleted, StateFailed, StateDenied, StateBlocked, StateRetryable]"
definition allHealthStatuses :: "HealthStatus list" where
  "allHealthStatuses = [HealthReady, HealthDegraded, HealthUnavailable]"

definition ValidServiceCategory :: "ServiceCategory \<Rightarrow> bool" where
  "ValidServiceCategory category \<longleftrightarrow> category \<in> set allServiceCategories"
definition ValidBackendFamily :: "BackendFamily \<Rightarrow> bool" where
  "ValidBackendFamily family \<longleftrightarrow> family \<in> set allBackendFamilies"
definition ValidLifecycleVerb :: "LifecycleVerb \<Rightarrow> bool" where
  "ValidLifecycleVerb verb \<longleftrightarrow> verb \<in> set allLifecycleVerbs"
definition ValidResourceState :: "ResourceState \<Rightarrow> bool" where
  "ValidResourceState state \<longleftrightarrow> state \<in> set allResourceStates"
definition ValidHealthStatus :: "HealthStatus \<Rightarrow> bool" where
  "ValidHealthStatus status \<longleftrightarrow> status \<in> set allHealthStatuses"

definition validIdentifier :: "string \<Rightarrow> bool" where
  "validIdentifier s \<longleftrightarrow> MatchString identifierPattern s \<and> \<not> Contains s ''..''"

subsection \<open>Requests and receipts\<close>

record Parameter =
  Param_Key :: string
  Param_Value :: string

record ProvisionRequest =
  PReq_SchemaVersion :: string
  PReq_ServiceCategory :: ServiceCategory
  PReq_AdapterID :: string
  PReq_TenantID :: string
  PReq_ProjectID :: string
  PReq_ResourceID :: string
  PReq_IdempotencyKey :: string
  PReq_Verb :: LifecycleVerb
  PReq_Parameters :: "Parameter list"

record ProvisionReceipt =
  Rcpt_SchemaVersion :: string
  Rcpt_RequestSHA256 :: string
  Rcpt_CommitmentSHA256 :: string
  Rcpt_OperationID :: string
  Rcpt_ProviderHandle :: string
  Rcpt_AdapterID :: string
  Rcpt_ServiceCategory :: ServiceCategory
  Rcpt_TenantID :: string
  Rcpt_ProjectID :: string
  Rcpt_ResourceID :: string
  Rcpt_State :: ResourceState
  Rcpt_BlockerCode :: string

record HealthReport =
  Health_AdapterID :: string
  Health_ServiceCategory :: ServiceCategory
  Health_BackendFamily :: BackendFamily
  Health_Status :: HealthStatus
  Health_Reason :: string

definition zero_ProvisionRequest :: ProvisionRequest where
  "zero_ProvisionRequest = \<lparr>PReq_SchemaVersion = [], PReq_ServiceCategory = [], PReq_AdapterID = [],
     PReq_TenantID = [], PReq_ProjectID = [], PReq_ResourceID = [], PReq_IdempotencyKey = [],
     PReq_Verb = [], PReq_Parameters = []\<rparr>"

definition zero_ProvisionReceipt :: ProvisionReceipt where
  "zero_ProvisionReceipt = \<lparr>Rcpt_SchemaVersion = [], Rcpt_RequestSHA256 = [],
     Rcpt_CommitmentSHA256 = [], Rcpt_OperationID = [], Rcpt_ProviderHandle = [],
     Rcpt_AdapterID = [], Rcpt_ServiceCategory = [], Rcpt_TenantID = [], Rcpt_ProjectID = [],
     Rcpt_ResourceID = [], Rcpt_State = [], Rcpt_BlockerCode = []\<rparr>"

definition ValidateHealthReport :: "HealthReport \<Rightarrow> port_error option" where
  "ValidateHealthReport report =
     (if \<not> validIdentifier (Health_AdapterID report) \<or>
        \<not> ValidServiceCategory (Health_ServiceCategory report) \<or>
        \<not> ValidBackendFamily (Health_BackendFamily report) \<or>
        \<not> ValidHealthStatus (Health_Status report) \<or>
        (Health_Status report \<noteq> HealthReady \<and> TrimSpace (Health_Reason report) = [])
      then Some ErrInvalidHealthStatus else None)"

text \<open>The parameter loop; the argument \<open>prev\<close> is the key of the previous iteration.\<close>

fun validateParameters :: "string option \<Rightarrow> Parameter list \<Rightarrow> port_error option" where
  "validateParameters prev [] = None"
| "validateParameters prev (param # params) =
     (if \<not> MatchString paramKeyPattern (Param_Key param) \<or> TrimSpace (Param_Value param) = [] \<or>
        length (Param_Value param) > MaxParameterValue \<or> CHR 0x00 \<in> set (Param_Value param)
      then Some ErrInvalidRequest
      else if (case prev of None \<Rightarrow> False | Some k \<Rightarrow> k \<ge> Param_Key param)
      then Some ErrInvalidRequest
      else validateParameters (Some (Param_Key param)) params)"

definition ValidateProvisionRequest :: "ProvisionRequest \<Rightarrow> port_error option" where
  "ValidateProvisionRequest req =
     (if PReq_SchemaVersion req \<noteq> ProvisionRequestSchemaVersion \<or>
        \<not> ValidServiceCategory (PReq_ServiceCategory req) \<or>
        \<not> validIdentifier (PReq_AdapterID req) \<or>
        \<not> validIdentifier (PReq_TenantID req) \<or>
        \<not> validIdentifier (PReq_ProjectID req) \<or>
        \<not> validIdentifier (PReq_ResourceID req) \<or>
        \<not> validIdentifier (PReq_IdempotencyKey req) \<or>
        \<not> ValidLifecycleVerb (PReq_Verb req) \<or>
        length (PReq_Parameters req) > MaxParametersCount
      then Some ErrInvalidRequest
      else validateParameters None (PReq_Parameters req))"

definition NewProvisionRequest ::
  "ServiceCategory \<Rightarrow> string \<Rightarrow> string \<Rightarrow> string \<Rightarrow> string \<Rightarrow> string \<Rightarrow> LifecycleVerb \<Rightarrow>
   (string, string) gomap \<Rightarrow> port_error + ProvisionRequest" where
  "NewProvisionRequest category adapterID tenantID projectID resourceID idempotencyKey verb params =
     (let sortedParams = sort_key Param_Key (map (\<lambda>(k, v). \<lparr>Param_Key = k, Param_Value = v\<rparr>) params);
          req = \<lparr>PReq_SchemaVersion = ProvisionRequestSchemaVersion, PReq_ServiceCategory = category,
            PReq_AdapterID = adapterID, PReq_TenantID = tenantID, PReq_ProjectID = projectID,
            PReq_ResourceID = resourceID, PReq_IdempotencyKey = idempotencyKey, PReq_Verb = verb,
            PReq_Parameters = sortedParams\<rparr> in
      case ValidateProvisionRequest req of Some e \<Rightarrow> Inl e | None \<Rightarrow> Inr req)"

definition writeField :: "string \<Rightarrow> string" where
  "writeField v = v @ [CHR 0x00]"

definition request_fields :: "ProvisionRequest \<Rightarrow> string list" where
  "request_fields req =
     [PReq_SchemaVersion req, PReq_ServiceCategory req, PReq_AdapterID req, PReq_TenantID req,
      PReq_ProjectID req, PReq_ResourceID req, PReq_IdempotencyKey req, PReq_Verb req] @
     concat (map (\<lambda>p. [Param_Key p, Param_Value p]) (PReq_Parameters req))"

definition request_preimage :: "ProvisionRequest \<Rightarrow> string" where
  "request_preimage req = concat (map writeField (request_fields req))"

definition RequestSHA256 :: "ProvisionRequest \<Rightarrow> port_error + string" where
  "RequestSHA256 req =
     (case ValidateProvisionRequest req of
        Some e \<Rightarrow> Inl e
      | None \<Rightarrow> Inr (SHA256Hex (request_preimage req)))"

definition commitment_preimage :: "string \<Rightarrow> ResourceState \<Rightarrow> string \<Rightarrow> string" where
  "commitment_preimage reqDigest state providerHandle =
     commitmentDomainPrefix @ [CHR 0x00] @ reqDigest @ [CHR 0x00] @ state @ [CHR 0x00] @ providerHandle"

definition ReceiptCommitmentSHA256 ::
  "ProvisionRequest \<Rightarrow> ResourceState \<Rightarrow> string \<Rightarrow> port_error + string" where
  "ReceiptCommitmentSHA256 req state providerHandle =
     (case RequestSHA256 req of
        Inl e \<Rightarrow> Inl e
      | Inr reqDigest \<Rightarrow>
          if \<not> ValidResourceState state \<or> \<not> validIdentifier providerHandle then Inl ErrInvalidReceipt
          else Inr (SHA256Hex (commitment_preimage reqDigest state providerHandle)))"

definition requiresBlocker :: "ResourceState \<Rightarrow> bool" where
  "requiresBlocker state \<longleftrightarrow> state \<in> {StateBlocked, StateDenied, StateFailed, StateRetryable}"

definition ValidateProvisionReceipt :: "ProvisionRequest \<Rightarrow> ProvisionReceipt \<Rightarrow> port_error option" where
  "ValidateProvisionReceipt req receipt =
     (case RequestSHA256 req of
        Inl _ \<Rightarrow> Some ErrInvalidReceipt
      | Inr reqDigest \<Rightarrow>
          (case ReceiptCommitmentSHA256 req (Rcpt_State receipt) (Rcpt_ProviderHandle receipt) of
             Inl _ \<Rightarrow> Some ErrInvalidReceipt
           | Inr expectedCommitment \<Rightarrow>
               if Rcpt_SchemaVersion receipt \<noteq> ProvisionReceiptSchemaVersion \<or>
                 Rcpt_RequestSHA256 receipt \<noteq> reqDigest \<or>
                 \<not> MatchString digestPattern (Rcpt_CommitmentSHA256 receipt) \<or>
                 Rcpt_CommitmentSHA256 receipt \<noteq> expectedCommitment \<or>
                 \<not> validIdentifier (Rcpt_OperationID receipt) \<or>
                 Rcpt_AdapterID receipt \<noteq> PReq_AdapterID req \<or>
                 Rcpt_ServiceCategory receipt \<noteq> PReq_ServiceCategory req \<or>
                 Rcpt_TenantID receipt \<noteq> PReq_TenantID req \<or>
                 Rcpt_ProjectID receipt \<noteq> PReq_ProjectID req \<or>
                 Rcpt_ResourceID receipt \<noteq> PReq_ResourceID req
               then Some ErrInvalidReceipt
               else if requiresBlocker (Rcpt_State receipt) \<and>
                 \<not> validIdentifier (Rcpt_BlockerCode receipt)
               then Some ErrInvalidReceipt
               else if \<not> requiresBlocker (Rcpt_State receipt) \<and> Rcpt_BlockerCode receipt \<noteq> []
               then Some ErrInvalidReceipt
               else None))"

definition NewProvisionReceipt ::
  "ProvisionRequest \<Rightarrow> string \<Rightarrow> ResourceState \<Rightarrow> string \<Rightarrow> string \<Rightarrow> port_error + ProvisionReceipt" where
  "NewProvisionReceipt req operationID state providerHandle blockerCode =
     (case RequestSHA256 req of
        Inl _ \<Rightarrow> Inl ErrInvalidReceipt
      | Inr reqDigest \<Rightarrow>
          (case ReceiptCommitmentSHA256 req state providerHandle of
             Inl _ \<Rightarrow> Inl ErrInvalidReceipt
           | Inr commitment \<Rightarrow>
               (let receipt = \<lparr>Rcpt_SchemaVersion = ProvisionReceiptSchemaVersion,
                      Rcpt_RequestSHA256 = reqDigest, Rcpt_CommitmentSHA256 = commitment,
                      Rcpt_OperationID = operationID, Rcpt_ProviderHandle = providerHandle,
                      Rcpt_AdapterID = PReq_AdapterID req,
                      Rcpt_ServiceCategory = PReq_ServiceCategory req,
                      Rcpt_TenantID = PReq_TenantID req, Rcpt_ProjectID = PReq_ProjectID req,
                      Rcpt_ResourceID = PReq_ResourceID req, Rcpt_State = state,
                      Rcpt_BlockerCode = blockerCode\<rparr> in
                case ValidateProvisionReceipt req receipt of Some e \<Rightarrow> Inl e | None \<Rightarrow> Inr receipt)))"

subsection \<open>Identifiers\<close>

lemma validIdentifier_iff:
  "validIdentifier s \<longleftrightarrow> 3 \<le> length s \<and> length s \<le> 64 \<and> id_edge (hd s) \<and> id_edge (last s) \<and>
     list_all id_inner s \<and> \<not> Contains s ''..''"
proof -
  have "id_edge c \<Longrightarrow> id_inner c" for c by (auto simp: id_edge_def id_inner_def)
  then show ?thesis
    unfolding validIdentifier_def identifierPattern_def
    by (subst MatchString_ends) auto
qed

lemma id_inner_not_nul: "id_inner c \<Longrightarrow> c \<noteq> CHR 0x00"
  by (auto simp: id_inner_def char_not_zero class_defs)

lemma validIdentifier_no_nul: "validIdentifier s \<Longrightarrow> CHR 0x00 \<notin> set s"
  by (auto simp: validIdentifier_iff list_all_iff dest: id_inner_not_nul)

lemma paramKey_no_nul: "MatchString paramKeyPattern s \<Longrightarrow> CHR 0x00 \<notin> set s"
  using MatchString_chars [of paramKeyPattern s "CHR 0x00"]
  by (auto simp: paramKeyPattern_def class_defs dest: id_inner_not_nul)

lemma enum_no_nul:
  "ValidServiceCategory c \<Longrightarrow> CHR 0x00 \<notin> set c"
  "ValidLifecycleVerb v \<Longrightarrow> CHR 0x00 \<notin> set v"
  "ValidResourceState r \<Longrightarrow> CHR 0x00 \<notin> set r"
  "CHR 0x00 \<notin> set ProvisionRequestSchemaVersion"
  by (auto simp: ValidServiceCategory_def allServiceCategories_def ValidLifecycleVerb_def
      allLifecycleVerbs_def ValidResourceState_def allResourceStates_def go_consts)

text \<open>A letter or digit first, a hexadecimal tail, and no dot: the identifiers adapters make.\<close>

lemma validIdentifier_hex_tail:
  assumes "id_edge c" and "list_all id_inner s" and "CHR ''.'' \<notin> set (c # s)"
    and "list_all is_hex h" and "h \<noteq> []"
    and "2 \<le> length s + length h" and "length s + length h \<le> 63"
  shows "validIdentifier (c # s @ h)"
proof -
  have hex: "id_edge d" "id_inner d" "d \<noteq> CHR ''.''" if "d \<in> set h" for d
    using assms(4) that hex_cases by (auto simp: list_all_iff id_edge_def id_inner_def class_defs)
  then have "CHR ''.'' \<notin> set (c # s @ h)" using assms(3) by auto
  then have "\<not> Contains (c # s @ h) ''..''"
    unfolding Contains_iff by (metis append_Cons in_set_conv_decomp)
  then show ?thesis
    using assms hex by (auto simp: validIdentifier_iff list_all_iff id_edge_def id_inner_def)
qed

subsection \<open>Canonical encoding\<close>

lemma writeField_split:
  assumes "CHR 0x00 \<notin> set x" and "CHR 0x00 \<notin> set y"
  shows "writeField x @ s = writeField y @ t \<longleftrightarrow> x = y \<and> s = t"
proof -
  have "takeWhile (\<lambda>c. c \<noteq> CHR 0x00) (writeField z @ u) = z"
    "dropWhile (\<lambda>c. c \<noteq> CHR 0x00) (writeField z @ u) = CHR 0x00 # u"
    if "CHR 0x00 \<notin> set z" for z u
    using that by (induction z) (auto simp: writeField_def)
  then show ?thesis using assms by (metis list.inject)
qed

lemma fields_inj:
  "\<forall>f \<in> set fs. CHR 0x00 \<notin> set f \<Longrightarrow> \<forall>g \<in> set gs. CHR 0x00 \<notin> set g \<Longrightarrow>
   concat (map writeField fs) = concat (map writeField gs) \<longleftrightarrow> fs = gs"
proof (induction fs arbitrary: gs)
  case Nil
  show ?case by (cases gs) (auto simp: writeField_def)
next
  case (Cons f fs)
  show ?case
  proof (cases gs)
    case Nil
    then show ?thesis by (simp add: writeField_def)
  next
    case (Cons g gs')
    with Cons.prems Cons.IH [of gs'] show ?thesis
      by (auto simp: writeField_split)
  qed
qed

lemma params_flat_inj:
  "concat (map (\<lambda>p. [Param_Key p, Param_Value p]) ps) =
   concat (map (\<lambda>p. [Param_Key p, Param_Value p]) qs) \<longleftrightarrow> ps = (qs :: Parameter list)"
proof (induction ps arbitrary: qs)
  case Nil
  show ?case by (cases qs) simp_all
next
  case (Cons p ps)
  have eq: "x = y \<longleftrightarrow> Param_Key x = Param_Key y \<and> Param_Value x = Param_Value y" for x y :: Parameter
    by (cases x; cases y) simp
  show ?case by (cases qs) (simp_all add: Cons.IH eq [of p])
qed

definition param_ok :: "Parameter \<Rightarrow> bool" where
  "param_ok p \<longleftrightarrow> MatchString paramKeyPattern (Param_Key p) \<and> TrimSpace (Param_Value p) \<noteq> [] \<and>
     length (Param_Value p) \<le> MaxParameterValue \<and> CHR 0x00 \<notin> set (Param_Value p)"

lemma validateParameters_iff:
  "validateParameters prev ps = None \<longleftrightarrow>
     (\<forall>p \<in> set ps. param_ok p) \<and> sorted_wrt (<) (map Param_Key ps) \<and>
     (\<forall>k. prev = Some k \<longrightarrow> (\<forall>p \<in> set ps. k < Param_Key p))"
proof (induction ps arbitrary: prev)
  case (Cons p ps)
  have step: "validateParameters prev (p # ps) = None \<longleftrightarrow>
      param_ok p \<and> (\<forall>k. prev = Some k \<longrightarrow> k < Param_Key p) \<and>
      validateParameters (Some (Param_Key p)) ps = None"
    by (cases prev) (auto simp: param_ok_def not_le)
  have "\<forall>q \<in> set ps. k < Param_Key q" if "k < Param_Key p" "\<forall>q \<in> set ps. Param_Key p < Param_Key q" for k
    using that less_trans by blast
  then show ?case unfolding step Cons.IH by simp blast
qed simp

definition request_ok :: "ProvisionRequest \<Rightarrow> bool" where
  "request_ok req \<longleftrightarrow> PReq_SchemaVersion req = ProvisionRequestSchemaVersion \<and>
     ValidServiceCategory (PReq_ServiceCategory req) \<and> ValidLifecycleVerb (PReq_Verb req) \<and>
     validIdentifier (PReq_AdapterID req) \<and> validIdentifier (PReq_TenantID req) \<and>
     validIdentifier (PReq_ProjectID req) \<and> validIdentifier (PReq_ResourceID req) \<and>
     validIdentifier (PReq_IdempotencyKey req) \<and>
     length (PReq_Parameters req) \<le> MaxParametersCount \<and>
     (\<forall>p \<in> set (PReq_Parameters req). param_ok p) \<and>
     sorted_wrt (<) (map Param_Key (PReq_Parameters req))"

lemma ValidateProvisionRequest_iff: "ValidateProvisionRequest req = None \<longleftrightarrow> request_ok req"
  unfolding ValidateProvisionRequest_def request_ok_def guards validateParameters_iff by auto

lemma request_fields_no_nul: "request_ok req \<Longrightarrow> \<forall>f \<in> set (request_fields req). CHR 0x00 \<notin> set f"
  by (auto simp: request_ok_def request_fields_def param_ok_def enum_no_nul validIdentifier_no_nul
      paramKey_no_nul)

lemma request_preimage_inj:
  assumes "request_ok req" and "request_ok req'"
  shows "request_preimage req = request_preimage req' \<longleftrightarrow> req = req'"
proof -
  have "request_preimage req = request_preimage req' \<longleftrightarrow> request_fields req = request_fields req'"
    unfolding request_preimage_def
    by (rule fields_inj) (use assms request_fields_no_nul in auto)
  also have "\<dots> \<longleftrightarrow> req = req'"
    by (auto simp: request_fields_def params_flat_inj intro!: ProvisionRequest.equality)
  finally show ?thesis .
qed

lemma RequestSHA256_ok: "RequestSHA256 req = Inr d \<longleftrightarrow> request_ok req \<and> d = SHA256Hex (request_preimage req)"
  by (auto simp: RequestSHA256_def ValidateProvisionRequest_iff [symmetric] split: option.splits)

lemma commitment_preimage_inj:
  assumes "CHR 0x00 \<notin> set d" "CHR 0x00 \<notin> set d'" "CHR 0x00 \<notin> set r" "CHR 0x00 \<notin> set r'"
  shows "commitment_preimage d r h = commitment_preimage d' r' h' \<longleftrightarrow> d = d' \<and> r = r' \<and> h = h'"
proof -
  have "commitment_preimage x y z = writeField commitmentDomainPrefix @ writeField x @ writeField y @ z" for x y z
    by (simp add: commitment_preimage_def writeField_def)
  moreover have "CHR 0x00 \<notin> set commitmentDomainPrefix" by (simp add: go_consts)
  ultimately show ?thesis using assms by (simp add: writeField_split)
qed

end
