(* ===== verification/Provider_Adapter.thy ===== *)
theory Provider_Adapter
  imports Provider_Ports
begin

text \<open>
  The adapter side of \<^verbatim>\<open>pkg/providerports\<close>: the port interface, the registry, the
  in-memory adapter and the conformance suite. The \<^verbatim>\<open>context.Context\<close> argument is
  absent (nil), live or cancelled.
\<close>

subsection \<open>Ports and registry\<close>

datatype GoContext = Live | Canceled

definition checkContext :: "GoContext option \<Rightarrow> port_error option" where
  "checkContext ctx =
     (case ctx of
        None \<Rightarrow> Some ErrContextCanceled
      | Some Canceled \<Rightarrow> Some ErrContextCanceled
      | Some Live \<Rightarrow> None)"

record 's ProviderPort =
  Port_AdapterID :: string
  Port_ServiceCategory :: ServiceCategory
  Port_BackendFamily :: BackendFamily
  Port_ExecuteLifecycle ::
    "GoContext option \<Rightarrow> ProvisionRequest \<Rightarrow> 's \<Rightarrow> (port_error + ProvisionReceipt) \<times> 's"
  Port_InspectResource ::
    "GoContext option \<Rightarrow> string \<Rightarrow> string \<Rightarrow> string \<Rightarrow> 's \<Rightarrow> (port_error + ProvisionReceipt) \<times> 's"
  Port_Health :: "GoContext option \<Rightarrow> 's \<Rightarrow> (port_error + HealthReport) \<times> 's"

record AdapterDescriptor =
  Desc_AdapterID :: string
  Desc_ServiceCategory :: ServiceCategory
  Desc_BackendFamily :: BackendFamily

record 's ProviderRegistry =
  Registry_adapters :: "(string, 's ProviderPort) gomap"

definition NewProviderRegistry :: "'s ProviderRegistry" where
  "NewProviderRegistry = \<lparr>Registry_adapters = []\<rparr>"

definition registryKey :: "ServiceCategory \<Rightarrow> string \<Rightarrow> string" where
  "registryKey category adapterID = category @ [CHR 0x00] @ adapterID"

definition Registry_Register ::
  "'s ProviderPort option \<Rightarrow> 's ProviderRegistry \<Rightarrow> port_error option \<times> 's ProviderRegistry" where
  "Registry_Register portRef r =
     (case portRef of
        None \<Rightarrow> (Some ErrInvalidAdapterDescriptor, r)
      | Some port \<Rightarrow>
          if \<not> validIdentifier (Port_AdapterID port) \<or>
            \<not> ValidServiceCategory (Port_ServiceCategory port) \<or>
            \<not> ValidBackendFamily (Port_BackendFamily port)
          then (Some ErrInvalidAdapterDescriptor, r)
          else let key = registryKey (Port_ServiceCategory port) (Port_AdapterID port) in
            if map_of (Registry_adapters r) key \<noteq> None then (Some ErrAdapterAlreadyRegistered, r)
            else (None, r\<lparr>Registry_adapters := map_put key port (Registry_adapters r)\<rparr>))"

definition Registry_Lookup ::
  "ServiceCategory \<Rightarrow> string \<Rightarrow> 's ProviderRegistry \<Rightarrow> port_error + 's ProviderPort" where
  "Registry_Lookup category adapterID r =
     (if \<not> ValidServiceCategory category \<or> \<not> validIdentifier adapterID
      then Inl ErrInvalidAdapterDescriptor
      else case map_of (Registry_adapters r) (registryKey category adapterID) of
        None \<Rightarrow> Inl ErrAdapterNotFound | Some port \<Rightarrow> Inr port)"

definition descriptor :: "'s ProviderPort \<Rightarrow> AdapterDescriptor" where
  "descriptor port = \<lparr>Desc_AdapterID = Port_AdapterID port,
     Desc_ServiceCategory = Port_ServiceCategory port, Desc_BackendFamily = Port_BackendFamily port\<rparr>"

definition Registry_List :: "'s ProviderRegistry \<Rightarrow> AdapterDescriptor list" where
  "Registry_List r = sort_key (\<lambda>d. (Desc_ServiceCategory d, Desc_AdapterID d))
     (map (\<lambda>(_, port). descriptor port) (Registry_adapters r))"

subsection \<open>The in-memory adapter\<close>

record idempotencyEntry =
  Idem_requestSHA256 :: string
  Idem_receipt :: ProvisionReceipt

record storedResource =
  Stored_tenantID :: string
  Stored_projectID :: string
  Stored_receipt :: ProvisionReceipt

record InMemoryAdapter =
  IMA_adapterID :: string
  IMA_serviceCategory :: ServiceCategory
  IMA_backendFamily :: BackendFamily
  IMA_healthStatus :: HealthStatus
  IMA_healthReason :: string
  IMA_idempotencyLog :: "(string, idempotencyEntry) gomap"
  IMA_resources :: "(string, storedResource) gomap"

definition NewInMemoryAdapter ::
  "string \<Rightarrow> ServiceCategory \<Rightarrow> BackendFamily \<Rightarrow> port_error + InMemoryAdapter" where
  "NewInMemoryAdapter adapterID category family =
     (if \<not> validIdentifier adapterID \<or> \<not> ValidServiceCategory category \<or> \<not> ValidBackendFamily family
      then Inl ErrInvalidAdapterDescriptor
      else Inr \<lparr>IMA_adapterID = adapterID, IMA_serviceCategory = category, IMA_backendFamily = family,
        IMA_healthStatus = HealthReady, IMA_healthReason = [], IMA_idempotencyLog = [],
        IMA_resources = []\<rparr>)"

definition health_report :: "InMemoryAdapter \<Rightarrow> HealthStatus \<Rightarrow> string \<Rightarrow> HealthReport" where
  "health_report a status reason = \<lparr>Health_AdapterID = IMA_adapterID a,
     Health_ServiceCategory = IMA_serviceCategory a, Health_BackendFamily = IMA_backendFamily a,
     Health_Status = status, Health_Reason = reason\<rparr>"

definition SetHealth :: "HealthStatus \<Rightarrow> string \<Rightarrow> InMemoryAdapter \<Rightarrow> port_error option \<times> InMemoryAdapter" where
  "SetHealth status reason a =
     (case ValidateHealthReport (health_report a status reason) of
        Some e \<Rightarrow> (Some e, a)
      | None \<Rightarrow> (None, a\<lparr>IMA_healthStatus := status, IMA_healthReason := reason\<rparr>))"

definition InMemory_Health :: "GoContext option \<Rightarrow> InMemoryAdapter \<Rightarrow> (port_error + HealthReport) \<times> InMemoryAdapter" where
  "InMemory_Health ctx a =
     (case checkContext ctx of
        Some e \<Rightarrow> (Inl e, a)
      | None \<Rightarrow> (Inr (health_report a (IMA_healthStatus a) (IMA_healthReason a)), a))"

definition stateForVerb :: "LifecycleVerb \<Rightarrow> ResourceState" where
  "stateForVerb verb =
     (if verb = VerbHold \<or> verb = VerbSuspend then StateSuspended
      else if verb = VerbDeprovision then StateDeleted
      else StateReady)"

definition idemKey :: "ProvisionRequest \<Rightarrow> string" where
  "idemKey req = PReq_TenantID req @ [CHR 0x00] @ PReq_ProjectID req @ [CHR 0x00] @
     PReq_ResourceID req @ [CHR 0x00] @ PReq_IdempotencyKey req"

definition provider_handle :: "InMemoryAdapter \<Rightarrow> ProvisionRequest \<Rightarrow> string" where
  "provider_handle a req =
     (let handleSum = Sum256 (IMA_backendFamily a @ [CHR 0x00] @ PReq_TenantID req @ [CHR 0x00] @
            PReq_ProjectID req @ [CHR 0x00] @ PReq_ResourceID req) in
      ''hdl-'' @ IMA_backendFamily a @ ''-'' @ hex_EncodeToString (take 10 handleSum))"

definition InMemory_ExecuteLifecycle ::
  "GoContext option \<Rightarrow> ProvisionRequest \<Rightarrow> InMemoryAdapter \<Rightarrow>
   (port_error + ProvisionReceipt) \<times> InMemoryAdapter" where
  "InMemory_ExecuteLifecycle ctx req a =
     (case checkContext ctx of
        Some e \<Rightarrow> (Inl e, a)
      | None \<Rightarrow> (case ValidateProvisionRequest req of
          Some e \<Rightarrow> (Inl e, a)
        | None \<Rightarrow>
            if PReq_AdapterID req \<noteq> IMA_adapterID a \<or> PReq_ServiceCategory req \<noteq> IMA_serviceCategory a
            then (Inl ErrInvalidRequest, a)
            else let reqDigest = (case RequestSHA256 req of Inl _ \<Rightarrow> [] | Inr d \<Rightarrow> d) in
              if (case map_of (IMA_resources a) (PReq_ResourceID req) of
                    None \<Rightarrow> False
                  | Some existing \<Rightarrow> Stored_tenantID existing \<noteq> PReq_TenantID req \<or>
                      Stored_projectID existing \<noteq> PReq_ProjectID req)
              then (Inl ErrTenantIsolationViolation, a)
              else if map_of (IMA_resources a) (PReq_ResourceID req) = None \<and>
                PReq_Verb req \<noteq> VerbProvision
              then (Inl ErrResourceNotFound, a)
              else case map_of (IMA_idempotencyLog a) (idemKey req) of
                Some prior \<Rightarrow>
                  if Idem_requestSHA256 prior \<noteq> reqDigest then (Inl ErrIdempotencyConflict, a)
                  else (Inr (Idem_receipt prior), a)
              | None \<Rightarrow>
                  (let targetState = stateForVerb (PReq_Verb req);
                       opID = ''op-'' @ take 24 reqDigest;
                       handle = provider_handle a req;
                       receipt = (case NewProvisionReceipt req opID targetState handle [] of
                         Inl _ \<Rightarrow> zero_ProvisionReceipt | Inr receipt \<Rightarrow> receipt) in
                   (Inr receipt,
                    a\<lparr>IMA_idempotencyLog := map_put (idemKey req)
                        \<lparr>Idem_requestSHA256 = reqDigest, Idem_receipt = receipt\<rparr> (IMA_idempotencyLog a),
                      IMA_resources := map_put (PReq_ResourceID req)
                        \<lparr>Stored_tenantID = PReq_TenantID req, Stored_projectID = PReq_ProjectID req,
                         Stored_receipt = receipt\<rparr> (IMA_resources a)\<rparr>))))"

definition InMemory_InspectResource ::
  "GoContext option \<Rightarrow> string \<Rightarrow> string \<Rightarrow> string \<Rightarrow> InMemoryAdapter \<Rightarrow>
   (port_error + ProvisionReceipt) \<times> InMemoryAdapter" where
  "InMemory_InspectResource ctx tenantID projectID resourceID a =
     (case checkContext ctx of
        Some e \<Rightarrow> (Inl e, a)
      | None \<Rightarrow>
          if \<not> validIdentifier tenantID \<or> \<not> validIdentifier projectID \<or> \<not> validIdentifier resourceID
          then (Inl ErrInvalidRequest, a)
          else case map_of (IMA_resources a) resourceID of
            None \<Rightarrow> (Inl ErrResourceNotFound, a)
          | Some stored \<Rightarrow>
              if Stored_tenantID stored \<noteq> tenantID \<or> Stored_projectID stored \<noteq> projectID
              then (Inl ErrTenantIsolationViolation, a)
              else (Inr (Stored_receipt stored), a))"

text \<open>The nine category methods are the same call.\<close>

definition ProvisionInstance ::
  "GoContext option \<Rightarrow> ProvisionRequest \<Rightarrow> InMemoryAdapter \<Rightarrow>
   (port_error + ProvisionReceipt) \<times> InMemoryAdapter" where
  "ProvisionInstance ctx req a = InMemory_ExecuteLifecycle ctx req a"

definition ProvisionVolume ::
  "GoContext option \<Rightarrow> ProvisionRequest \<Rightarrow> InMemoryAdapter \<Rightarrow>
   (port_error + ProvisionReceipt) \<times> InMemoryAdapter" where
  "ProvisionVolume ctx req a = InMemory_ExecuteLifecycle ctx req a"

definition ProvisionNetwork ::
  "GoContext option \<Rightarrow> ProvisionRequest \<Rightarrow> InMemoryAdapter \<Rightarrow>
   (port_error + ProvisionReceipt) \<times> InMemoryAdapter" where
  "ProvisionNetwork ctx req a = InMemory_ExecuteLifecycle ctx req a"

definition ProvisionCluster ::
  "GoContext option \<Rightarrow> ProvisionRequest \<Rightarrow> InMemoryAdapter \<Rightarrow>
   (port_error + ProvisionReceipt) \<times> InMemoryAdapter" where
  "ProvisionCluster ctx req a = InMemory_ExecuteLifecycle ctx req a"

definition ProvisionBucket ::
  "GoContext option \<Rightarrow> ProvisionRequest \<Rightarrow> InMemoryAdapter \<Rightarrow>
   (port_error + ProvisionReceipt) \<times> InMemoryAdapter" where
  "ProvisionBucket ctx req a = InMemory_ExecuteLifecycle ctx req a"

definition ProvisionBackupPlan ::
  "GoContext option \<Rightarrow> ProvisionRequest \<Rightarrow> InMemoryAdapter \<Rightarrow>
   (port_error + ProvisionReceipt) \<times> InMemoryAdapter" where
  "ProvisionBackupPlan ctx req a = InMemory_ExecuteLifecycle ctx req a"

definition ProvisionAccessPolicy ::
  "GoContext option \<Rightarrow> ProvisionRequest \<Rightarrow> InMemoryAdapter \<Rightarrow>
   (port_error + ProvisionReceipt) \<times> InMemoryAdapter" where
  "ProvisionAccessPolicy ctx req a = InMemory_ExecuteLifecycle ctx req a"

definition ProvisionSupportSubscription ::
  "GoContext option \<Rightarrow> ProvisionRequest \<Rightarrow> InMemoryAdapter \<Rightarrow>
   (port_error + ProvisionReceipt) \<times> InMemoryAdapter" where
  "ProvisionSupportSubscription ctx req a = InMemory_ExecuteLifecycle ctx req a"

definition ProvisionExternalConnector ::
  "GoContext option \<Rightarrow> ProvisionRequest \<Rightarrow> InMemoryAdapter \<Rightarrow>
   (port_error + ProvisionReceipt) \<times> InMemoryAdapter" where
  "ProvisionExternalConnector ctx req a = InMemory_ExecuteLifecycle ctx req a"


definition inMemoryPort :: "InMemoryAdapter \<Rightarrow> InMemoryAdapter ProviderPort" where
  "inMemoryPort a =
     \<lparr>Port_AdapterID = IMA_adapterID a, Port_ServiceCategory = IMA_serviceCategory a,
      Port_BackendFamily = IMA_backendFamily a, Port_ExecuteLifecycle = InMemory_ExecuteLifecycle,
      Port_InspectResource = InMemory_InspectResource, Port_Health = InMemory_Health\<rparr>"

subsection \<open>The conformance suite\<close>

record ConformanceResult =
  Conf_AdapterID :: string
  Conf_ServiceCategory :: ServiceCategory
  Conf_BackendFamily :: BackendFamily
  Conf_Passed :: bool
  Conf_VerifiedChecks :: "string list"

definition suite_request ::
  "'s ProviderPort \<Rightarrow> string \<Rightarrow> string \<Rightarrow> LifecycleVerb \<Rightarrow> (string, string) gomap \<Rightarrow>
   port_error + ProvisionRequest" where
  "suite_request port tenantID key verb params =
     NewProvisionRequest (Port_ServiceCategory port) (Port_AdapterID port) tenantID
       ''project-core'' ''res-conformance-01'' key verb params"

definition request_or_zero :: "port_error + ProvisionRequest \<Rightarrow> ProvisionRequest" where
  "request_or_zero r = (case r of Inl _ \<Rightarrow> zero_ProvisionRequest | Inr req \<Rightarrow> req)"

definition suite_transitions :: "(string \<times> LifecycleVerb \<times> ResourceState) list" where
  "suite_transitions =
     [(''idem-resize-01'', VerbResize, StateReady), (''idem-hold-01'', VerbHold, StateSuspended),
      (''idem-resume-01'', VerbResume, StateReady), (''idem-suspend-01'', VerbSuspend, StateSuspended),
      (''idem-deprov-01'', VerbDeprovision, StateDeleted)]"

fun run_transitions ::
  "'s ProviderPort \<Rightarrow> (string \<times> LifecycleVerb \<times> ResourceState) list \<Rightarrow> 's \<Rightarrow> port_error option \<times> 's" where
  "run_transitions port [] s = (None, s)"
| "run_transitions port ((key, verb, expected) # steps) s =
     (let stepReq = request_or_zero (suite_request port ''tenant-alpha'' key verb []) in
      case Port_ExecuteLifecycle port (Some Live) stepReq s of
        (Inl e, s') \<Rightarrow> (Some e, s')
      | (Inr stepReceipt, s') \<Rightarrow>
          if ValidateProvisionReceipt stepReq stepReceipt \<noteq> None \<or> Rcpt_State stepReceipt \<noteq> expected
          then (Some ErrInvalidReceipt, s')
          else run_transitions port steps s')"

text \<open>A call whose only acceptable outcome is the given error.\<close>

definition rejects :: "port_error \<Rightarrow> port_error + 'a \<Rightarrow> bool" where
  "rejects target outcome = (case outcome of Inl e \<Rightarrow> port_error_Is e target | Inr _ \<Rightarrow> False)"

definition suite_checks :: "string list" where
  "suite_checks = [''health_report_schema'', ''provision_receipt_commitment'',
     ''idempotent_replay_determinism'', ''idempotency_conflict_rejection'',
     ''tenant_and_project_isolation'', ''lifecycle_state_transitions'',
     ''context_cancellation_propagation'']"

definition suite_result :: "'s ProviderPort \<Rightarrow> ConformanceResult" where
  "suite_result port = \<lparr>Conf_AdapterID = Port_AdapterID port,
     Conf_ServiceCategory = Port_ServiceCategory port, Conf_BackendFamily = Port_BackendFamily port,
     Conf_Passed = True, Conf_VerifiedChecks = suite_checks\<rparr>"

text \<open>The suite from the replay on, given the first request and its receipt.\<close>

definition suite_after_create ::
  "'s ProviderPort \<Rightarrow> ProvisionRequest \<Rightarrow> ProvisionReceipt \<Rightarrow> 's \<Rightarrow>
   (port_error + ConformanceResult) \<times> 's" where
  "suite_after_create port req firstReceipt s0 =
     (case Port_ExecuteLifecycle port (Some Live) req s0 of
        (Inl e, s1) \<Rightarrow> (Inl e, s1)
      | (Inr replayReceipt, s1) \<Rightarrow>
          if replayReceipt \<noteq> firstReceipt then (Inl ErrIdempotencyConflict, s1) else
          let conflictingReq = request_or_zero (suite_request port ''tenant-alpha'' ''idem-create-01''
                VerbProvision [(''profile'', ''mutated-v2'')]);
              (conflict, s2) = Port_ExecuteLifecycle port (Some Live) conflictingReq s1 in
          if \<not> rejects ErrIdempotencyConflict conflict then (Inl ErrIdempotencyConflict, s2) else
          let (inspected, s3) = Port_InspectResource port (Some Live) ''tenant-bravo'' ''project-core''
                ''res-conformance-01'' s2 in
          if \<not> rejects ErrTenantIsolationViolation inspected then (Inl ErrTenantIsolationViolation, s3) else
          let crossTenantMutate = request_or_zero (suite_request port ''tenant-bravo'' ''idem-bravo-01''
                VerbDeprovision []);
              (crossed, s4) = Port_ExecuteLifecycle port (Some Live) crossTenantMutate s3 in
          if \<not> rejects ErrTenantIsolationViolation crossed then (Inl ErrTenantIsolationViolation, s4) else
          (case run_transitions port suite_transitions s4 of
             (Some e, s5) \<Rightarrow> (Inl e, s5)
           | (None, s5) \<Rightarrow>
               let (canceled, s6) = Port_ExecuteLifecycle port (Some Canceled) req s5 in
               if \<not> rejects ErrContextCanceled canceled then (Inl ErrContextCanceled, s6)
               else (Inr (suite_result port), s6)))"

definition RunConformanceSuite ::
  "'s ProviderPort option \<Rightarrow> 's \<Rightarrow> (port_error + ConformanceResult) \<times> 's" where
  "RunConformanceSuite portRef s0 =
     (case portRef of
        None \<Rightarrow> (Inl ErrInvalidAdapterDescriptor, s0)
      | Some port \<Rightarrow>
          (case Port_Health port (Some Live) s0 of
             (Inl e, s1) \<Rightarrow> (Inl e, s1)
           | (Inr health, s1) \<Rightarrow>
               (case ValidateHealthReport health of
                  Some e \<Rightarrow> (Inl e, s1)
                | None \<Rightarrow>
                    (case suite_request port ''tenant-alpha'' ''idem-create-01'' VerbProvision
                        [(''profile'', ''standard-v1'')] of
                       Inl e \<Rightarrow> (Inl e, s1)
                     | Inr req \<Rightarrow>
                         (case Port_ExecuteLifecycle port (Some Live) req s1 of
                            (Inl e, s2) \<Rightarrow> (Inl e, s2)
                          | (Inr firstReceipt, s2) \<Rightarrow>
                              if ValidateProvisionReceipt req firstReceipt \<noteq> None \<or>
                                Rcpt_State firstReceipt \<noteq> StateReady
                              then (Inl ErrInvalidReceipt, s2)
                              else suite_after_create port req firstReceipt s2)))))"

subsection \<open>What the in-memory adapter keeps\<close>

text \<open>The receipt the adapter issues for a valid request.\<close>

definition receipt_for :: "InMemoryAdapter \<Rightarrow> ProvisionRequest \<Rightarrow> ProvisionReceipt" where
  "receipt_for a req =
     (let digest = SHA256Hex (request_preimage req); state = stateForVerb (PReq_Verb req);
          handle = provider_handle a req in
      \<lparr>Rcpt_SchemaVersion = ProvisionReceiptSchemaVersion, Rcpt_RequestSHA256 = digest,
       Rcpt_CommitmentSHA256 = SHA256Hex (commitment_preimage digest state handle),
       Rcpt_OperationID = ''op-'' @ take 24 digest, Rcpt_ProviderHandle = handle,
       Rcpt_AdapterID = PReq_AdapterID req, Rcpt_ServiceCategory = PReq_ServiceCategory req,
       Rcpt_TenantID = PReq_TenantID req, Rcpt_ProjectID = PReq_ProjectID req,
       Rcpt_ResourceID = PReq_ResourceID req, Rcpt_State = state, Rcpt_BlockerCode = []\<rparr>)"

lemma list_all_take_hex: "list_all is_hex (take n (SHA256Hex m))" "list_all is_hex (SHA256Hex m)"
  using is_hex_encode [of "Sum256 m"] by (auto simp: SHA256Hex_def list_all_iff dest: in_set_takeD)

lemma operation_id_valid: "validIdentifier (''op-'' @ take 24 (SHA256Hex m))"
  using validIdentifier_hex_tail [of "CHR ''o''" "''p-''" "take 24 (SHA256Hex m)"] list_all_take_hex(1) [of 24 m]
  by (auto simp: id_edge_def id_inner_def class_defs simp flip: length_greater_0_conv)

lemma family_chars:
  assumes "ValidBackendFamily f"
  shows "list_all id_inner f" "CHR ''.'' \<notin> set f" "length f \<le> 10"
  using assms
  by (auto simp: ValidBackendFamily_def allBackendFamilies_def go_consts id_inner_def class_defs)

lemma provider_handle_valid:
  assumes "ValidBackendFamily (IMA_backendFamily a)"
  shows "validIdentifier (provider_handle a req)"
proof -
  let ?h = "hex_EncodeToString (take 10 (Sum256 (IMA_backendFamily a @ [CHR 0x00] @ PReq_TenantID req @
    [CHR 0x00] @ PReq_ProjectID req @ [CHR 0x00] @ PReq_ResourceID req)))"
  have "length ?h = 20" by simp
  then have "?h \<noteq> []" by (metis length_0_conv zero_neq_numeral)
  moreover have "list_all is_hex ?h" by (rule is_hex_encode)
  ultimately have "validIdentifier (CHR ''h'' # (''dl-'' @ IMA_backendFamily a @ ''-'') @ ?h)"
    using family_chars [OF assms] \<open>length ?h = 20\<close>
    by (intro validIdentifier_hex_tail) (auto simp: id_edge_def id_inner_def class_defs)
  then show ?thesis by (simp add: provider_handle_def Let_def)
qed

lemma stateForVerb_valid: "ValidResourceState (stateForVerb v)" "\<not> requiresBlocker (stateForVerb v)"
  by (simp_all add: stateForVerb_def ValidResourceState_def allResourceStates_def requiresBlocker_def go_consts)

lemma digestPattern_hex: "MatchString digestPattern (SHA256Hex m)"
  by (simp add: digestPattern_def MatchString_one list_all_take_hex)

text \<open>A receipt fits every valid request with the same digest and the same coordinates.\<close>

lemma receipt_for_validates:
  assumes "request_ok req" and "request_ok req'" and "ValidBackendFamily (IMA_backendFamily a)"
    and "SHA256Hex (request_preimage req') = SHA256Hex (request_preimage req)"
    and "PReq_AdapterID req' = PReq_AdapterID req" "PReq_ServiceCategory req' = PReq_ServiceCategory req"
      "PReq_TenantID req' = PReq_TenantID req" "PReq_ProjectID req' = PReq_ProjectID req"
      "PReq_ResourceID req' = PReq_ResourceID req"
  shows "ValidateProvisionReceipt req (receipt_for a req') = None"
proof -
  have digest: "RequestSHA256 req = Inr (SHA256Hex (request_preimage req))"
    using assms(1) by (simp add: RequestSHA256_ok)
  have "ReceiptCommitmentSHA256 req (stateForVerb (PReq_Verb req')) (provider_handle a req') =
      Inr (SHA256Hex (commitment_preimage (SHA256Hex (request_preimage req))
        (stateForVerb (PReq_Verb req')) (provider_handle a req')))"
    using provider_handle_valid [OF assms(3)] by (simp add: ReceiptCommitmentSHA256_def digest stateForVerb_valid)
  then show ?thesis
    unfolding ValidateProvisionReceipt_def digest
    using assms operation_id_valid
    by (simp add: receipt_for_def Let_def digestPattern_hex stateForVerb_valid)
qed

lemma NewProvisionReceipt_adapter:
  assumes "request_ok req" and "ValidBackendFamily (IMA_backendFamily a)"
  shows "NewProvisionReceipt req (''op-'' @ take 24 (SHA256Hex (request_preimage req)))
    (stateForVerb (PReq_Verb req)) (provider_handle a req) [] = Inr (receipt_for a req)"
proof -
  have digest: "RequestSHA256 req = Inr (SHA256Hex (request_preimage req))"
    using assms(1) by (simp add: RequestSHA256_ok)
  have "ReceiptCommitmentSHA256 req (stateForVerb (PReq_Verb req)) (provider_handle a req) =
      Inr (SHA256Hex (commitment_preimage (SHA256Hex (request_preimage req))
        (stateForVerb (PReq_Verb req)) (provider_handle a req)))"
    using provider_handle_valid [OF assms(2)] by (simp add: ReceiptCommitmentSHA256_def digest stateForVerb_valid)
  moreover have "ValidateProvisionReceipt req (receipt_for a req) = None"
    using assms by (simp add: receipt_for_validates)
  ultimately show ?thesis
    unfolding NewProvisionReceipt_def digest by (simp add: Let_def receipt_for_def)
qed

subsection \<open>Execution\<close>

definition foreign :: "InMemoryAdapter \<Rightarrow> string \<Rightarrow> string \<Rightarrow> string \<Rightarrow> bool" where
  "foreign a tenantID projectID resourceID \<longleftrightarrow>
     (\<exists>st. map_of (IMA_resources a) resourceID = Some st \<and>
        (Stored_tenantID st \<noteq> tenantID \<or> Stored_projectID st \<noteq> projectID))"

definition recorded :: "InMemoryAdapter \<Rightarrow> ProvisionRequest \<Rightarrow> InMemoryAdapter" where
  "recorded a req =
     a\<lparr>IMA_idempotencyLog := map_put (idemKey req)
         \<lparr>Idem_requestSHA256 = SHA256Hex (request_preimage req), Idem_receipt = receipt_for a req\<rparr>
         (IMA_idempotencyLog a),
       IMA_resources := map_put (PReq_ResourceID req)
         \<lparr>Stored_tenantID = PReq_TenantID req, Stored_projectID = PReq_ProjectID req,
          Stored_receipt = receipt_for a req\<rparr> (IMA_resources a)\<rparr>"

definition addressed :: "InMemoryAdapter \<Rightarrow> ProvisionRequest \<Rightarrow> bool" where
  "addressed a req \<longleftrightarrow> request_ok req \<and> PReq_AdapterID req = IMA_adapterID a \<and>
     PReq_ServiceCategory req = IMA_serviceCategory a"

lemma validateParameters_error: "validateParameters prev ps = Some e \<Longrightarrow> e = ErrInvalidRequest"
  by (induction prev ps rule: validateParameters.induct) (auto split: if_splits)

lemma ValidateProvisionRequest_error: "ValidateProvisionRequest req = Some e \<Longrightarrow> e = ErrInvalidRequest"
  by (auto simp: ValidateProvisionRequest_def validateParameters_error split: if_splits)

lemma exec_unfold:
  assumes "ValidBackendFamily (IMA_backendFamily a)"
  shows "InMemory_ExecuteLifecycle (Some Live) req a =
    (if \<not> addressed a req then (Inl ErrInvalidRequest, a)
     else if foreign a (PReq_TenantID req) (PReq_ProjectID req) (PReq_ResourceID req)
     then (Inl ErrTenantIsolationViolation, a)
     else if map_of (IMA_resources a) (PReq_ResourceID req) = None \<and> PReq_Verb req \<noteq> VerbProvision
     then (Inl ErrResourceNotFound, a)
     else case map_of (IMA_idempotencyLog a) (idemKey req) of
       Some prior \<Rightarrow>
         if Idem_requestSHA256 prior \<noteq> SHA256Hex (request_preimage req)
         then (Inl ErrIdempotencyConflict, a) else (Inr (Idem_receipt prior), a)
     | None \<Rightarrow> (Inr (receipt_for a req), recorded a req))"
proof (cases "ValidateProvisionRequest req")
  case (Some e)
  then have "\<not> request_ok req" by (simp add: ValidateProvisionRequest_iff [symmetric])
  with Some show ?thesis
    by (simp add: InMemory_ExecuteLifecycle_def checkContext_def addressed_def
        ValidateProvisionRequest_error)
next
  case None
  then have ok: "request_ok req" by (simp add: ValidateProvisionRequest_iff)
  then have digest: "RequestSHA256 req = Inr (SHA256Hex (request_preimage req))"
    by (simp add: RequestSHA256_ok)
  have foreign: "(case map_of (IMA_resources a) (PReq_ResourceID req) of
        None \<Rightarrow> False
      | Some existing \<Rightarrow> Stored_tenantID existing \<noteq> PReq_TenantID req \<or>
          Stored_projectID existing \<noteq> PReq_ProjectID req) \<longleftrightarrow>
      foreign a (PReq_TenantID req) (PReq_ProjectID req) (PReq_ResourceID req)"
    by (auto simp: foreign_def split: option.split)
  have addr: "(PReq_AdapterID req \<noteq> IMA_adapterID a \<or> PReq_ServiceCategory req \<noteq> IMA_serviceCategory a) =
      (\<not> addressed a req)"
    using ok by (simp add: addressed_def)
  show ?thesis
    unfolding InMemory_ExecuteLifecycle_def None digest foreign addr checkContext_def Let_def
      sum.case option.case GoContext.case NewProvisionReceipt_adapter [OF ok assms]
      recorded_def [symmetric] ..
qed

text \<open>Success is a replay of a recorded request or a new record.\<close>

lemma exec_okE:
  assumes "InMemory_ExecuteLifecycle (Some Live) req a = (Inr r, a')"
    and "ValidBackendFamily (IMA_backendFamily a)"
  obtains (replay) prior where "addressed a req" "a' = a" "r = Idem_receipt prior"
      "\<not> foreign a (PReq_TenantID req) (PReq_ProjectID req) (PReq_ResourceID req)"
      "map_of (IMA_idempotencyLog a) (idemKey req) = Some prior"
      "Idem_requestSHA256 prior = SHA256Hex (request_preimage req)"
  | (fresh) "addressed a req" "a' = recorded a req" "r = receipt_for a req"
      "\<not> foreign a (PReq_TenantID req) (PReq_ProjectID req) (PReq_ResourceID req)"
      "map_of (IMA_idempotencyLog a) (idemKey req) = None"
  using assms(1) that unfolding exec_unfold [OF assms(2)]
  by (auto split: if_splits option.splits)

lemma exec_state:
  assumes "ValidBackendFamily (IMA_backendFamily a)"
  shows "snd (InMemory_ExecuteLifecycle ctx req a) = a \<or>
    (addressed a req \<and> map_of (IMA_idempotencyLog a) (idemKey req) = None \<and>
     \<not> foreign a (PReq_TenantID req) (PReq_ProjectID req) (PReq_ResourceID req) \<and>
     snd (InMemory_ExecuteLifecycle ctx req a) = recorded a req)"
proof (cases "ctx = Some Live")
  case True
  then show ?thesis by (auto simp: exec_unfold [OF assms] split: option.splits)
next
  case False
  then show ?thesis
    by (auto simp: InMemory_ExecuteLifecycle_def checkContext_def split: option.splits GoContext.splits)
qed

subsection \<open>Steps, invariant and history\<close>

inductive adapter_step :: "InMemoryAdapter \<Rightarrow> InMemoryAdapter \<Rightarrow> bool" where
  execute: "adapter_step a (snd (InMemory_ExecuteLifecycle ctx req a))"
| inspect: "adapter_step a (snd (InMemory_InspectResource ctx t p rid a))"
| health: "adapter_step a (snd (InMemory_Health ctx a))"
| set_health: "adapter_step a (snd (SetHealth status reason a))"

definition adapter_reach :: "InMemoryAdapter \<Rightarrow> InMemoryAdapter \<Rightarrow> bool" where
  "adapter_reach = adapter_step\<^sup>*\<^sup>*"

text \<open>
  Every log entry is the outcome of a valid request to this adapter whose resource is
  still owned by the same tenant and project, and every stored receipt was issued for
  a valid request on that resource.
\<close>

definition entry_ok :: "InMemoryAdapter \<Rightarrow> string \<Rightarrow> idempotencyEntry \<Rightarrow> bool" where
  "entry_ok a key entry \<longleftrightarrow>
     (\<exists>req. addressed a req \<and> key = idemKey req \<and> Idem_receipt entry = receipt_for a req \<and>
        Idem_requestSHA256 entry = SHA256Hex (request_preimage req) \<and>
        map_of (IMA_resources a) (PReq_ResourceID req) \<noteq> None \<and>
        \<not> foreign a (PReq_TenantID req) (PReq_ProjectID req) (PReq_ResourceID req))"

definition resource_ok :: "InMemoryAdapter \<Rightarrow> string \<Rightarrow> storedResource \<Rightarrow> bool" where
  "resource_ok a rid st \<longleftrightarrow>
     (\<exists>req. addressed a req \<and> PReq_ResourceID req = rid \<and> PReq_TenantID req = Stored_tenantID st \<and>
        PReq_ProjectID req = Stored_projectID st \<and> Stored_receipt st = receipt_for a req)"

definition adapter_wf :: "InMemoryAdapter \<Rightarrow> bool" where
  "adapter_wf a \<longleftrightarrow> validIdentifier (IMA_adapterID a) \<and> ValidServiceCategory (IMA_serviceCategory a) \<and>
     ValidBackendFamily (IMA_backendFamily a) \<and> ValidHealthStatus (IMA_healthStatus a) \<and>
     (IMA_healthStatus a \<noteq> HealthReady \<longrightarrow> TrimSpace (IMA_healthReason a) \<noteq> []) \<and>
     (\<forall>key entry. map_of (IMA_idempotencyLog a) key = Some entry \<longrightarrow> entry_ok a key entry) \<and>
     (\<forall>rid st. map_of (IMA_resources a) rid = Some st \<longrightarrow> resource_ok a rid st)"

lemma recorded_sel [simp]:
  "IMA_adapterID (recorded a req) = IMA_adapterID a"
  "IMA_serviceCategory (recorded a req) = IMA_serviceCategory a"
  "IMA_backendFamily (recorded a req) = IMA_backendFamily a"
  "IMA_healthStatus (recorded a req) = IMA_healthStatus a"
  "IMA_healthReason (recorded a req) = IMA_healthReason a"
  "receipt_for (recorded a req) = receipt_for a"
  "addressed (recorded a req) = addressed a"
  by (simp_all add: recorded_def fun_eq_iff receipt_for_def provider_handle_def addressed_def)

lemma recorded_lookup:
  "map_of (IMA_idempotencyLog (recorded a req)) = (map_of (IMA_idempotencyLog a))(idemKey req \<mapsto>
     \<lparr>Idem_requestSHA256 = SHA256Hex (request_preimage req), Idem_receipt = receipt_for a req\<rparr>)"
  "map_of (IMA_resources (recorded a req)) = (map_of (IMA_resources a))(PReq_ResourceID req \<mapsto>
     \<lparr>Stored_tenantID = PReq_TenantID req, Stored_projectID = PReq_ProjectID req,
      Stored_receipt = receipt_for a req\<rparr>)"
  by (simp_all add: recorded_def)

text \<open>Recording a request for a resource one owns changes nobody's ownership.\<close>

lemma recorded_foreign:
  assumes "\<not> foreign a (PReq_TenantID req) (PReq_ProjectID req) (PReq_ResourceID req)"
  shows "foreign a t p rid \<Longrightarrow> foreign (recorded a req) t p rid"
    and "map_of (IMA_resources a) rid \<noteq> None \<Longrightarrow>
      foreign (recorded a req) t p rid \<longleftrightarrow> foreign a t p rid"
  using assms by (auto simp: foreign_def recorded_lookup)

lemma recorded_wf:
  assumes "adapter_wf a" and "addressed a req"
    and "\<not> foreign a (PReq_TenantID req) (PReq_ProjectID req) (PReq_ResourceID req)"
  shows "adapter_wf (recorded a req)"
proof -
  have "entry_ok (recorded a req) key entry"
    if "map_of (IMA_idempotencyLog (recorded a req)) key = Some entry" for key entry
  proof (cases "key = idemKey req")
    case True
    with that assms(2,3) show ?thesis
      unfolding entry_ok_def by (intro exI [of _ req]) (auto simp: recorded_lookup foreign_def)
  next
    case False
    with that have "entry_ok a key entry" using assms(1) by (simp add: adapter_wf_def recorded_lookup)
    then show ?thesis
      unfolding entry_ok_def using recorded_foreign(2) [OF assms(3)]
      by (metis recorded_lookup(2) recorded_sel(6,7) fun_upd_apply option.distinct(1))
  qed
  moreover have "resource_ok (recorded a req) rid st"
    if "map_of (IMA_resources (recorded a req)) rid = Some st" for rid st
    using that assms(1,2)
    by (cases "rid = PReq_ResourceID req") (auto simp: recorded_lookup adapter_wf_def resource_ok_def)
  ultimately show ?thesis using assms(1) by (simp add: adapter_wf_def)
qed

lemma set_health_wf: "adapter_wf a \<Longrightarrow> adapter_wf (snd (SetHealth status reason a))"
  by (auto simp: SetHealth_def ValidateHealthReport_def health_report_def adapter_wf_def entry_ok_def
      resource_ok_def addressed_def foreign_def receipt_for_def provider_handle_def)

lemma read_only_steps [simp]:
  "snd (InMemory_InspectResource ctx t p rid a) = a" "snd (InMemory_Health ctx a) = a"
  by (auto simp: InMemory_InspectResource_def InMemory_Health_def split: option.splits)

text \<open>A step either records one request of the resource's owner or only touches the health.\<close>

lemma adapter_step_cases:
  assumes "adapter_step a a'" and "adapter_wf a"
  obtains (stored) req where "addressed a req" "a' = recorded a req"
      "\<not> foreign a (PReq_TenantID req) (PReq_ProjectID req) (PReq_ResourceID req)"
      "map_of (IMA_idempotencyLog a) (idemKey req) = None"
  | (same) "IMA_idempotencyLog a' = IMA_idempotencyLog a" "IMA_resources a' = IMA_resources a"
      "IMA_adapterID a' = IMA_adapterID a" "IMA_serviceCategory a' = IMA_serviceCategory a"
      "IMA_backendFamily a' = IMA_backendFamily a" "adapter_wf a'"
proof -
  have family: "ValidBackendFamily (IMA_backendFamily a)" using assms(2) by (simp add: adapter_wf_def)
  from assms(1) show ?thesis
  proof (cases rule: adapter_step.cases)
    case (execute ctx req)
    with exec_state [OF family, of ctx req] stored same assms(2) show ?thesis by metis
  next
    case (set_health status reason)
    with set_health_wf [OF assms(2), of status reason] same show ?thesis
      by (auto simp: SetHealth_def split: option.splits)
  qed (use same assms(2) in simp_all)
qed

lemma adapter_step_wf: "adapter_step a a' \<Longrightarrow> adapter_wf a \<Longrightarrow> adapter_wf a'"
  by (erule adapter_step_cases) (auto intro: recorded_wf)

lemma adapter_reach_wf: "adapter_reach a a' \<Longrightarrow> adapter_wf a \<Longrightarrow> adapter_wf a'"
  unfolding adapter_reach_def by (induction rule: rtranclp_induct) (auto intro: adapter_step_wf)

text \<open>History is kept: log entries stay as they are, and resources stay with their owner.\<close>

definition keeps_history :: "InMemoryAdapter \<Rightarrow> InMemoryAdapter \<Rightarrow> bool" where
  "keeps_history a a' \<longleftrightarrow> IMA_adapterID a' = IMA_adapterID a \<and>
     IMA_serviceCategory a' = IMA_serviceCategory a \<and> IMA_backendFamily a' = IMA_backendFamily a \<and>
     (\<forall>key entry. map_of (IMA_idempotencyLog a) key = Some entry \<longrightarrow>
        map_of (IMA_idempotencyLog a') key = Some entry) \<and>
     (\<forall>rid st. map_of (IMA_resources a) rid = Some st \<longrightarrow>
        (\<exists>st'. map_of (IMA_resources a') rid = Some st' \<and>
           Stored_tenantID st' = Stored_tenantID st \<and> Stored_projectID st' = Stored_projectID st))"

lemma adapter_step_keeps_history: "adapter_step a a' \<Longrightarrow> adapter_wf a \<Longrightarrow> keeps_history a a'"
proof (erule adapter_step_cases, assumption)
  fix req
  assume "a' = recorded a req" "map_of (IMA_idempotencyLog a) (idemKey req) = None"
    "\<not> foreign a (PReq_TenantID req) (PReq_ProjectID req) (PReq_ResourceID req)"
  then show "keeps_history a a'"
    by (auto simp: keeps_history_def recorded_lookup foreign_def)
qed (simp add: keeps_history_def)

lemma keeps_history_trans: "keeps_history a b \<Longrightarrow> keeps_history b c \<Longrightarrow> keeps_history a c"
  unfolding keeps_history_def by metis

lemma adapter_reach_keeps_history:
  assumes "adapter_reach a a'" and "adapter_wf a"
  shows "keeps_history a a'"
  using assms(1) unfolding adapter_reach_def
proof (induction rule: rtranclp_induct)
  case base
  show ?case by (simp add: keeps_history_def)
next
  case (step b c)
  then have "adapter_wf b" using assms(2) adapter_reach_wf by (simp add: adapter_reach_def)
  with step adapter_step_keeps_history keeps_history_trans show ?case by blast
qed

lemma keeps_history_foreign: "keeps_history a a' \<Longrightarrow> foreign a t p rid \<Longrightarrow> foreign a' t p rid"
  unfolding keeps_history_def foreign_def by metis

lemma NewInMemoryAdapter_wf: "NewInMemoryAdapter adapterID category family = Inr a \<Longrightarrow> adapter_wf a"
  by (auto simp: NewInMemoryAdapter_def adapter_wf_def ValidHealthStatus_def allHealthStatuses_def
      split: if_splits)

lemma idemKey_inj:
  assumes "request_ok req" and "request_ok req'" and "idemKey req = idemKey req'"
  shows "PReq_TenantID req = PReq_TenantID req'" "PReq_ProjectID req = PReq_ProjectID req'"
    "PReq_ResourceID req = PReq_ResourceID req'" "PReq_IdempotencyKey req = PReq_IdempotencyKey req'"
proof -
  have "idemKey r = writeField (PReq_TenantID r) @ writeField (PReq_ProjectID r) @
      writeField (PReq_ResourceID r) @ PReq_IdempotencyKey r" for r
    by (simp add: idemKey_def writeField_def)
  with assms show "PReq_TenantID req = PReq_TenantID req'" "PReq_ProjectID req = PReq_ProjectID req'"
    "PReq_ResourceID req = PReq_ResourceID req'" "PReq_IdempotencyKey req = PReq_IdempotencyKey req'"
    by (auto simp: writeField_split validIdentifier_no_nul request_ok_def)
qed

end
