(* ===== verification/Provider_Conformance.thy ===== *)
theory Provider_Conformance
  imports Provider_Adapter
begin

text \<open>
  The contract a port has to meet, as a locale over its operations and an abstract
  view of its state: who owns a resource, and which request a key was used for. The
  conformance suite of the package passes on every port that meets the contract and
  has not seen the suite's resource and keys; the in-memory adapter meets it.
\<close>

definition addressed_to :: "'s ProviderPort \<Rightarrow> ProvisionRequest \<Rightarrow> bool" where
  "addressed_to port req \<longleftrightarrow> request_ok req \<and> PReq_AdapterID req = Port_AdapterID port \<and>
     PReq_ServiceCategory req = Port_ServiceCategory port"

locale provider_contract =
  fixes port :: "'s ProviderPort"
    and inv :: "'s \<Rightarrow> bool"
    and owner :: "'s \<Rightarrow> string \<Rightarrow> (string \<times> string) option"
    and seen :: "'s \<Rightarrow> string \<Rightarrow> (string \<times> ProvisionReceipt) option"
    and issue :: "ProvisionRequest \<Rightarrow> ProvisionReceipt"
    and store :: "'s \<Rightarrow> ProvisionRequest \<Rightarrow> 's"
  assumes named: "inv s \<Longrightarrow> validIdentifier (Port_AdapterID port) \<and>
      ValidServiceCategory (Port_ServiceCategory port)"
    and health: "inv s \<Longrightarrow> \<exists>h. Port_Health port (Some Live) s = (Inr h, s) \<and> ValidateHealthReport h = None"
    and cancelled: "Port_ExecuteLifecycle port (Some Canceled) req s = (Inl ErrContextCanceled, s)"
    and execute: "inv s \<Longrightarrow> addressed_to port req \<Longrightarrow>
      Port_ExecuteLifecycle port (Some Live) req s =
        (case owner s (PReq_ResourceID req) of
           Some who \<Rightarrow>
             if who \<noteq> (PReq_TenantID req, PReq_ProjectID req) then (Inl ErrTenantIsolationViolation, s)
             else (case seen s (idemKey req) of
               Some (digest, r) \<Rightarrow>
                 if digest \<noteq> SHA256Hex (request_preimage req) then (Inl ErrIdempotencyConflict, s)
                 else (Inr r, s)
             | None \<Rightarrow> (Inr (issue req), store s req))
         | None \<Rightarrow>
             if PReq_Verb req \<noteq> VerbProvision then (Inl ErrResourceNotFound, s)
             else (case seen s (idemKey req) of
               Some (digest, r) \<Rightarrow>
                 if digest \<noteq> SHA256Hex (request_preimage req) then (Inl ErrIdempotencyConflict, s)
                 else (Inr r, s)
             | None \<Rightarrow> (Inr (issue req), store s req)))"
    and inspect: "inv s \<Longrightarrow> validIdentifier t \<Longrightarrow> validIdentifier p \<Longrightarrow> validIdentifier rid \<Longrightarrow>
      owner s rid = Some who \<Longrightarrow> who \<noteq> (t, p) \<Longrightarrow>
      Port_InspectResource port (Some Live) t p rid s = (Inl ErrTenantIsolationViolation, s)"
    and store_inv: "inv s \<Longrightarrow> addressed_to port req \<Longrightarrow>
      owner s (PReq_ResourceID req) \<in> {None, Some (PReq_TenantID req, PReq_ProjectID req)} \<Longrightarrow> inv (store s req)"
    and store_owner: "owner (store s req) =
      (owner s)(PReq_ResourceID req \<mapsto> (PReq_TenantID req, PReq_ProjectID req))"
    and store_seen: "seen (store s req) =
      (seen s)(idemKey req \<mapsto> (SHA256Hex (request_preimage req), issue req))"
    and issue_valid: "inv s \<Longrightarrow> addressed_to port req \<Longrightarrow> ValidateProvisionReceipt req (issue req) = None"
    and issue_state: "Rcpt_State (issue req) = stateForVerb (PReq_Verb req)"
begin

text \<open>The requests of the suite.\<close>

definition suite_req :: "string \<Rightarrow> string \<Rightarrow> LifecycleVerb \<Rightarrow> Parameter list \<Rightarrow> ProvisionRequest" where
  "suite_req t key verb params =
     \<lparr>PReq_SchemaVersion = ProvisionRequestSchemaVersion,
      PReq_ServiceCategory = Port_ServiceCategory port, PReq_AdapterID = Port_AdapterID port,
      PReq_TenantID = t, PReq_ProjectID = ''project-core'', PReq_ResourceID = ''res-conformance-01'',
      PReq_IdempotencyKey = key, PReq_Verb = verb, PReq_Parameters = params\<rparr>"

lemma suite_req_sel [simp]:
  "PReq_TenantID (suite_req t key verb params) = t"
  "PReq_ProjectID (suite_req t key verb params) = ''project-core''"
  "PReq_ResourceID (suite_req t key verb params) = ''res-conformance-01''"
  "PReq_Verb (suite_req t key verb params) = verb"
  by (simp_all add: suite_req_def)

lemma suite_req_addressed:
  assumes "inv s" and "validIdentifier t" "validIdentifier key" "ValidLifecycleVerb verb"
    and "params = [] \<or> (\<exists>v. params = [\<lparr>Param_Key = ''profile'', Param_Value = v\<rparr>] \<and>
      v \<in> {''standard-v1'', ''mutated-v2''})"
  shows "addressed_to port (suite_req t key verb params)"
proof -
  have "validIdentifier ''project-core''" "validIdentifier ''res-conformance-01''"
    "param_ok \<lparr>Param_Key = ''profile'', Param_Value = ''standard-v1''\<rparr>"
    "param_ok \<lparr>Param_Key = ''profile'', Param_Value = ''mutated-v2''\<rparr>"
    by code_simp+
  with assms named [OF assms(1)] show ?thesis
    by (auto simp: addressed_to_def request_ok_def suite_req_def MaxParametersCount_def)
qed

lemma suite_request_eq:
  assumes "addressed_to port (suite_req t key verb (map (\<lambda>(k, v). \<lparr>Param_Key = k, Param_Value = v\<rparr>) ps))"
    and "length ps \<le> 1"
  shows "suite_request port t key verb ps =
    Inr (suite_req t key verb (map (\<lambda>(k, v). \<lparr>Param_Key = k, Param_Value = v\<rparr>) ps))"
proof -
  have "sort_key Param_Key (map (\<lambda>(k, v). \<lparr>Param_Key = k, Param_Value = v\<rparr>) ps) =
      map (\<lambda>(k, v). \<lparr>Param_Key = k, Param_Value = v\<rparr>) ps"
    using assms(2) by (cases ps) auto
  moreover have "ValidateProvisionRequest (suite_req t key verb (map (\<lambda>(k, v). \<lparr>Param_Key = k, Param_Value = v\<rparr>) ps)) = None"
    using assms(1) by (simp add: addressed_to_def ValidateProvisionRequest_iff)
  ultimately show ?thesis
    unfolding suite_request_def NewProvisionRequest_def Let_def by (simp add: suite_req_def)
qed

definition created :: ProvisionRequest where
  "created = suite_req ''tenant-alpha'' ''idem-create-01'' VerbProvision
     [\<lparr>Param_Key = ''profile'', Param_Value = ''standard-v1''\<rparr>]"

definition conflicting :: ProvisionRequest where
  "conflicting = suite_req ''tenant-alpha'' ''idem-create-01'' VerbProvision
     [\<lparr>Param_Key = ''profile'', Param_Value = ''mutated-v2''\<rparr>]"

text \<open>The suite's resource is owned by the suite's tenant and the keys still to come are unused.\<close>

definition ready_for :: "(string \<times> LifecycleVerb \<times> ResourceState) list \<Rightarrow> 's \<Rightarrow> bool" where
  "ready_for steps s \<longleftrightarrow> inv s \<and>
     owner s ''res-conformance-01'' = Some (''tenant-alpha'', ''project-core'') \<and>
     (\<forall>(key, verb, expected) \<in> set steps. seen s (idemKey (suite_req ''tenant-alpha'' key verb [])) = None)"

lemma idemKey_suite:
  "idemKey (suite_req t key verb params) = idemKey (suite_req t key' verb' params') \<longleftrightarrow> key = key'"
  by (simp add: idemKey_def suite_req_def)

lemma transitions_pass:
  assumes "ready_for steps s" and "distinct (map fst steps)"
    and "\<forall>(key, verb, expected) \<in> set steps. validIdentifier key \<and> ValidLifecycleVerb verb \<and>
      expected = stateForVerb verb"
  shows "\<exists>s'. run_transitions port steps s = (None, s') \<and> inv s'"
  using assms
proof (induction steps arbitrary: s)
  case Nil
  then show ?case by (simp add: ready_for_def)
next
  case (Cons step steps)
  obtain key verb expected where step: "step = (key, verb, expected)" by (cases step)
  let ?req = "suite_req ''tenant-alpha'' key verb []"
  have s: "inv s" "owner s ''res-conformance-01'' = Some (''tenant-alpha'', ''project-core'')"
    "seen s (idemKey ?req) = None"
    using Cons.prems(1) by (auto simp: ready_for_def step)
  have tenant: "validIdentifier ''tenant-alpha''" by code_simp
  have req: "addressed_to port ?req"
    using Cons.prems(3) tenant by (intro suite_req_addressed [OF s(1)]) (auto simp: step)
  have "suite_request port ''tenant-alpha'' key verb [] = Inr ?req"
    using suite_request_eq [where ps = "[]"] req by simp
  moreover have "Port_ExecuteLifecycle port (Some Live) ?req s = (Inr (issue ?req), store s ?req)"
    using s by (simp add: execute req)
  moreover have "seen s (idemKey (suite_req ''tenant-alpha'' k v [])) = None" "k \<noteq> key"
    if "(k, v, e) \<in> set steps" for k v e
    using Cons.prems(1,2) that by (force simp: ready_for_def step)+
  then have "ready_for steps (store s ?req)"
    using s req by (auto simp: ready_for_def store_owner store_seen idemKey_suite store_inv)
  ultimately show ?case
    using Cons.IH [of "store s ?req"] Cons.prems(2,3) issue_valid [OF s(1) req]
    by (auto simp: step request_or_zero_def issue_state)
qed

lemma suite_transitions_ok:
  "distinct (map fst suite_transitions)"
  "\<forall>(key, verb, expected) \<in> set suite_transitions. validIdentifier key \<and> ValidLifecycleVerb verb \<and>
     expected = stateForVerb verb"
  by code_simp+

lemma fixed_identifiers:
  "validIdentifier ''tenant-alpha''" "validIdentifier ''tenant-bravo''" "validIdentifier ''project-core''"
  "validIdentifier ''res-conformance-01''" "validIdentifier ''idem-create-01''"
  "validIdentifier ''idem-bravo-01''" "ValidLifecycleVerb VerbProvision" "ValidLifecycleVerb VerbDeprovision"
  "stateForVerb VerbProvision = StateReady"
  by code_simp+

lemma suite_requests:
  assumes "inv s"
  shows "addressed_to port created" "addressed_to port conflicting"
    "addressed_to port (suite_req ''tenant-bravo'' ''idem-bravo-01'' VerbDeprovision [])"
    "suite_request port ''tenant-alpha'' ''idem-create-01'' VerbProvision [(''profile'', ''standard-v1'')] = Inr created"
    "suite_request port ''tenant-alpha'' ''idem-create-01'' VerbProvision [(''profile'', ''mutated-v2'')] = Inr conflicting"
    "suite_request port ''tenant-bravo'' ''idem-bravo-01'' VerbDeprovision [] =
       Inr (suite_req ''tenant-bravo'' ''idem-bravo-01'' VerbDeprovision [])"
proof -
  show ad: "addressed_to port created" "addressed_to port conflicting"
    "addressed_to port (suite_req ''tenant-bravo'' ''idem-bravo-01'' VerbDeprovision [])"
    unfolding created_def conflicting_def
    by (rule suite_req_addressed [OF assms]; simp add: fixed_identifiers)+
  show "suite_request port ''tenant-alpha'' ''idem-create-01'' VerbProvision [(''profile'', ''standard-v1'')] = Inr created"
    "suite_request port ''tenant-alpha'' ''idem-create-01'' VerbProvision [(''profile'', ''mutated-v2'')] = Inr conflicting"
    "suite_request port ''tenant-bravo'' ''idem-bravo-01'' VerbDeprovision [] =
       Inr (suite_req ''tenant-bravo'' ''idem-bravo-01'' VerbDeprovision [])"
    using ad suite_request_eq [where ps = "[(''profile'', ''standard-v1'')]"]
      suite_request_eq [where ps = "[(''profile'', ''mutated-v2'')]"] suite_request_eq [where ps = "[]"]
    by (simp_all add: created_def conflicting_def)
qed

text \<open>From the first receipt on: replay, conflict, isolation, transitions, cancellation.\<close>

lemma suite_after_create_passes:
  assumes "ready_for suite_transitions s" and "seen s (idemKey created) = Some (SHA256Hex (request_preimage created), r)"
    and "SHA256Hex (request_preimage created) \<noteq> SHA256Hex (request_preimage conflicting)"
  shows "fst (suite_after_create port created r s) = Inr (suite_result port)"
proof -
  let ?bravo = "suite_req ''tenant-bravo'' ''idem-bravo-01'' VerbDeprovision []"
  have s: "inv s" "owner s ''res-conformance-01'' = Some (''tenant-alpha'', ''project-core'')"
    using assms(1) by (simp_all add: ready_for_def)
  note reqs = suite_requests [OF s(1)]
  have key: "idemKey conflicting = idemKey created"
    by (simp add: created_def conflicting_def idemKey_suite)
  have sel: "PReq_ResourceID created = ''res-conformance-01''" "PReq_TenantID created = ''tenant-alpha''"
    "PReq_ProjectID created = ''project-core''" "PReq_ResourceID conflicting = ''res-conformance-01''"
    "PReq_TenantID conflicting = ''tenant-alpha''" "PReq_ProjectID conflicting = ''project-core''"
    by (simp_all add: created_def conflicting_def)
  have "Port_ExecuteLifecycle port (Some Live) created s = (Inr r, s)"
    using s assms(2) by (simp add: execute reqs sel)
  moreover have "Port_ExecuteLifecycle port (Some Live) conflicting s = (Inl ErrIdempotencyConflict, s)"
    using s assms(2,3) by (simp add: execute reqs sel key)
  moreover have "Port_InspectResource port (Some Live) ''tenant-bravo'' ''project-core'' ''res-conformance-01'' s =
      (Inl ErrTenantIsolationViolation, s)"
    by (rule inspect [OF s(1) _ _ _ s(2)]) (simp_all add: fixed_identifiers)
  moreover have "Port_ExecuteLifecycle port (Some Live) ?bravo s = (Inl ErrTenantIsolationViolation, s)"
    using s by (simp add: execute reqs)
  moreover obtain s' where "run_transitions port suite_transitions s = (None, s')"
    using transitions_pass [OF assms(1) suite_transitions_ok] by blast
  ultimately show ?thesis
    unfolding suite_after_create_def
    by (simp add: reqs request_or_zero_def rejects_def cancelled Let_def)
qed

theorem suite_passes:
  assumes "inv s" and "owner s ''res-conformance-01'' = None" and "seen s = (\<lambda>_. None)"
    and "SHA256Hex (request_preimage created) \<noteq> SHA256Hex (request_preimage conflicting)"
  shows "fst (RunConformanceSuite (Some port) s) = Inr (suite_result port)"
proof -
  note reqs = suite_requests [OF assms(1)]
  obtain h where h: "Port_Health port (Some Live) s = (Inr h, s)" "ValidateHealthReport h = None"
    using health [OF assms(1)] by blast
  have sel: "PReq_ResourceID created = ''res-conformance-01''" "PReq_TenantID created = ''tenant-alpha''"
    "PReq_ProjectID created = ''project-core''" "PReq_Verb created = VerbProvision"
    by (simp_all add: created_def)
  have run: "Port_ExecuteLifecycle port (Some Live) created s = (Inr (issue created), store s created)"
    using assms by (simp add: execute reqs sel)
  have "ready_for suite_transitions (store s created)"
    unfolding ready_for_def
  proof (intro conjI)
    show "inv (store s created)" using assms(1,2) reqs by (simp add: store_inv sel)
    show "owner (store s created) ''res-conformance-01'' = Some (''tenant-alpha'', ''project-core'')"
      by (simp add: store_owner sel)
    show "\<forall>(key, verb, expected) \<in> set suite_transitions.
        seen (store s created) (idemKey (suite_req ''tenant-alpha'' key verb [])) = None"
      by (simp add: store_seen assms(3) created_def idemKey_suite suite_transitions_def)
  qed
  moreover have "seen (store s created) (idemKey created) =
      Some (SHA256Hex (request_preimage created), issue created)"
    by (simp add: store_seen)
  ultimately have "fst (suite_after_create port created (issue created) (store s created)) =
      Inr (suite_result port)"
    using assms(4) by (rule suite_after_create_passes)
  then show ?thesis
    unfolding RunConformanceSuite_def
    by (simp add: h reqs run issue_valid [OF assms(1) reqs(1)] issue_state sel fixed_identifiers)
qed

end

subsection \<open>The in-memory adapter meets the contract\<close>

definition same_port :: "InMemoryAdapter \<Rightarrow> InMemoryAdapter \<Rightarrow> bool" where
  "same_port a s \<longleftrightarrow> adapter_wf s \<and> IMA_adapterID s = IMA_adapterID a \<and>
     IMA_serviceCategory s = IMA_serviceCategory a \<and> IMA_backendFamily s = IMA_backendFamily a"

definition resource_owner :: "InMemoryAdapter \<Rightarrow> string \<Rightarrow> (string \<times> string) option" where
  "resource_owner s rid =
     map_option (\<lambda>st. (Stored_tenantID st, Stored_projectID st)) (map_of (IMA_resources s) rid)"

definition key_seen :: "InMemoryAdapter \<Rightarrow> string \<Rightarrow> (string \<times> ProvisionReceipt) option" where
  "key_seen s key =
     map_option (\<lambda>e. (Idem_requestSHA256 e, Idem_receipt e)) (map_of (IMA_idempotencyLog s) key)"

text \<open>The state a new record leads to, with the receipt of the port's own backend family.\<close>

definition record_for :: "InMemoryAdapter \<Rightarrow> InMemoryAdapter \<Rightarrow> ProvisionRequest \<Rightarrow> InMemoryAdapter" where
  "record_for a s req =
     s\<lparr>IMA_idempotencyLog := map_put (idemKey req)
         \<lparr>Idem_requestSHA256 = SHA256Hex (request_preimage req), Idem_receipt = receipt_for a req\<rparr>
         (IMA_idempotencyLog s),
       IMA_resources := map_put (PReq_ResourceID req)
         \<lparr>Stored_tenantID = PReq_TenantID req, Stored_projectID = PReq_ProjectID req,
          Stored_receipt = receipt_for a req\<rparr> (IMA_resources s)\<rparr>"

lemma record_for_same:
  assumes "IMA_backendFamily s = IMA_backendFamily a"
  shows "record_for a s req = recorded s req" "receipt_for a req = receipt_for s req"
  using assms by (simp_all add: record_for_def recorded_def receipt_for_def provider_handle_def)

lemma inMemoryPort_sel [simp]:
  "Port_AdapterID (inMemoryPort a) = IMA_adapterID a"
  "Port_ServiceCategory (inMemoryPort a) = IMA_serviceCategory a"
  "Port_BackendFamily (inMemoryPort a) = IMA_backendFamily a"
  "Port_ExecuteLifecycle (inMemoryPort a) = InMemory_ExecuteLifecycle"
  "Port_InspectResource (inMemoryPort a) = InMemory_InspectResource"
  "Port_Health (inMemoryPort a) = InMemory_Health"
  by (simp_all add: inMemoryPort_def)

lemma foreign_owner:
  "foreign s t p rid \<longleftrightarrow> (\<exists>who. resource_owner s rid = Some who \<and> who \<noteq> (t, p))"
  by (auto simp: foreign_def resource_owner_def)

interpretation ima: provider_contract "inMemoryPort a" "same_port a" resource_owner key_seen
  "receipt_for a" "record_for a" for a
proof
  fix s req
  assume inv: "same_port a s" and req: "addressed_to (inMemoryPort a) req"
  have family: "ValidBackendFamily (IMA_backendFamily s)" and same: "IMA_backendFamily s = IMA_backendFamily a"
    and addr: "addressed s req"
    using inv req by (auto simp: same_port_def adapter_wf_def addressed_to_def addressed_def)
  show "ValidateProvisionReceipt req (receipt_for a req) = None"
    using req family same by (simp add: receipt_for_validates addressed_to_def)
  show "resource_owner s (PReq_ResourceID req) \<in> {None, Some (PReq_TenantID req, PReq_ProjectID req)} \<Longrightarrow>
      same_port a (record_for a s req)"
    using recorded_wf [of s req] inv addr
    by (auto simp: record_for_same [OF same] same_port_def foreign_owner)
  show "Port_ExecuteLifecycle (inMemoryPort a) (Some Live) req s =
      (case resource_owner s (PReq_ResourceID req) of
         Some who \<Rightarrow>
           if who \<noteq> (PReq_TenantID req, PReq_ProjectID req) then (Inl ErrTenantIsolationViolation, s)
           else (case key_seen s (idemKey req) of
             Some (digest, r) \<Rightarrow>
               if digest \<noteq> SHA256Hex (request_preimage req) then (Inl ErrIdempotencyConflict, s)
               else (Inr r, s)
           | None \<Rightarrow> (Inr (receipt_for a req), record_for a s req))
       | None \<Rightarrow>
           if PReq_Verb req \<noteq> VerbProvision then (Inl ErrResourceNotFound, s)
           else (case key_seen s (idemKey req) of
             Some (digest, r) \<Rightarrow>
               if digest \<noteq> SHA256Hex (request_preimage req) then (Inl ErrIdempotencyConflict, s)
               else (Inr r, s)
           | None \<Rightarrow> (Inr (receipt_for a req), record_for a s req)))"
    unfolding inMemoryPort_sel exec_unfold [OF family] record_for_same [OF same]
    using addr by (auto simp: foreign_def resource_owner_def key_seen_def split: option.splits)
next
  fix s
  assume inv: "same_port a s"
  show "validIdentifier (Port_AdapterID (inMemoryPort a)) \<and> ValidServiceCategory (Port_ServiceCategory (inMemoryPort a))"
    using inv by (auto simp: same_port_def adapter_wf_def)
  show "\<exists>h. Port_Health (inMemoryPort a) (Some Live) s = (Inr h, s) \<and> ValidateHealthReport h = None"
    using inv by (auto simp: InMemory_Health_def checkContext_def same_port_def adapter_wf_def
        ValidateHealthReport_def health_report_def)
  show "Port_InspectResource (inMemoryPort a) (Some Live) t p rid s = (Inl ErrTenantIsolationViolation, s)"
    if "validIdentifier t" "validIdentifier p" "validIdentifier rid" "resource_owner s rid = Some who" "who \<noteq> (t, p)"
    for t p rid who
    using that by (auto simp: InMemory_InspectResource_def checkContext_def resource_owner_def split: if_splits)
next
  show "Port_ExecuteLifecycle (inMemoryPort a) (Some Canceled) req s = (Inl ErrContextCanceled, s)" for req s
    by (simp add: InMemory_ExecuteLifecycle_def checkContext_def)
  show "resource_owner (record_for a s req) =
      (resource_owner s)(PReq_ResourceID req \<mapsto> (PReq_TenantID req, PReq_ProjectID req))" for s req
    by (auto simp: resource_owner_def record_for_def)
  show "key_seen (record_for a s req) =
      (key_seen s)(idemKey req \<mapsto> (SHA256Hex (request_preimage req), receipt_for a req))" for s req
    by (auto simp: key_seen_def record_for_def)
  show "Rcpt_State (receipt_for a req) = stateForVerb (PReq_Verb req)" for req
    by (simp add: receipt_for_def Let_def)
qed

end
