(* ===== verification/Provider_Properties.thy ===== *)
theory Provider_Properties
  imports Provider_Conformance "HOL-Library.Multiset"
begin

text \<open>
  The properties of package \<^verbatim>\<open>pkg/providerports\<close>, over the functions as the code
  composes them, with one adapter and its requests as the concrete case. SHA-256 is
  the concrete function, which is not injective; where a property rests on two
  different inputs having different digests it offers the collision as the alternative.
\<close>

subsection \<open>Lemmas on sorting and the registry\<close>

lemma sort_params_order:
  assumes "go_map ps" and "go_map qs" and "set ps = set qs"
  shows "sort_key Param_Key (map (\<lambda>(k, v). \<lparr>Param_Key = k, Param_Value = v\<rparr>) ps) =
    sort_key Param_Key (map (\<lambda>(k, v). \<lparr>Param_Key = k, Param_Value = v\<rparr>) qs)"
proof (rule sort_key_inj_key_eq)
  have "mset ps = mset qs"
    using assms by (simp add: go_map_def distinct_map set_eq_iff_mset_eq_distinct [symmetric])
  then show "mset (map (\<lambda>(k, v). \<lparr>Param_Key = k, Param_Value = v\<rparr>) ps) =
      mset (sort_key Param_Key (map (\<lambda>(k, v). \<lparr>Param_Key = k, Param_Value = v\<rparr>) qs))"
    by simp
  have "inj_on fst (set ps)" using assms(1) by (simp add: go_map_def distinct_map)
  then show "inj_on Param_Key (set (map (\<lambda>(k, v). \<lparr>Param_Key = k, Param_Value = v\<rparr>) ps))"
    by (fastforce simp: inj_on_def)
qed simp

definition registry_wf :: "'s ProviderRegistry \<Rightarrow> bool" where
  "registry_wf r \<longleftrightarrow> go_map (Registry_adapters r) \<and>
     (\<forall>(key, port) \<in> set (Registry_adapters r).
        key = registryKey (Port_ServiceCategory port) (Port_AdapterID port) \<and>
        ValidServiceCategory (Port_ServiceCategory port) \<and> validIdentifier (Port_AdapterID port))"

lemma registryKey_inj:
  assumes "ValidServiceCategory c" and "ValidServiceCategory c'"
  shows "registryKey c i = registryKey c' i' \<longleftrightarrow> c = c' \<and> i = i'"
  using writeField_split [OF enum_no_nul(1) [OF assms(1)] enum_no_nul(1) [OF assms(2)], of i i']
  by (simp add: registryKey_def writeField_def)

lemma set_map_put_subset: "set (map_put k v m) \<subseteq> insert (k, v) (set m)"
  by (induction k v m rule: map_put.induct) auto

lemma Registry_Register_ok:
  "Registry_Register (Some port) r = (None, r') \<longleftrightarrow>
     validIdentifier (Port_AdapterID port) \<and> ValidServiceCategory (Port_ServiceCategory port) \<and>
     ValidBackendFamily (Port_BackendFamily port) \<and>
     map_of (Registry_adapters r) (registryKey (Port_ServiceCategory port) (Port_AdapterID port)) = None \<and>
     r' = r\<lparr>Registry_adapters := map_put (registryKey (Port_ServiceCategory port) (Port_AdapterID port)) port
       (Registry_adapters r)\<rparr>"
  by (auto simp: Registry_Register_def Let_def)

lemma Registry_Register_wf:
  assumes "registry_wf r" and "Registry_Register portRef r = (e, r')"
  shows "registry_wf r'"
proof (cases e)
  case (Some err)
  then have "r' = r" using assms(2)
    by (auto simp: Registry_Register_def Let_def split: option.splits if_splits)
  with assms(1) show ?thesis by simp
next
  case None
  then obtain port where "portRef = Some port"
    using assms(2) by (auto simp: Registry_Register_def split: option.splits)
  then show ?thesis
    using assms None set_map_put_subset by (fastforce simp: Registry_Register_ok registry_wf_def)
qed

text \<open>Registering ports one after another, ignoring refusals.\<close>

fun RegisterAll :: "'s ProviderPort option list \<Rightarrow> 's ProviderRegistry \<Rightarrow> 's ProviderRegistry" where
  "RegisterAll [] r = r"
| "RegisterAll (p # ps) r = RegisterAll ps (snd (Registry_Register p r))"

lemma RegisterAll_wf: "registry_wf r \<Longrightarrow> registry_wf (RegisterAll ps r)"
  by (induction ps r rule: RegisterAll.induct) (auto intro: Registry_Register_wf [OF _ prod.collapse [symmetric]])

lemma distinct_map_sort_key: "distinct (map f (sort_key f xs)) \<longleftrightarrow> distinct (map f xs)"
  by (simp add: distinct_map)

lemma Registry_List_strict:
  assumes "registry_wf r"
  shows "sorted_wrt (<) (map (\<lambda>d. (Desc_ServiceCategory d, Desc_AdapterID d)) (Registry_List r))"
proof -
  let ?k = "\<lambda>d. (Desc_ServiceCategory d, Desc_AdapterID d)"
  let ?ds = "map (\<lambda>(_, port). descriptor port) (Registry_adapters r)"
  have "inj_on (\<lambda>(_, port). ?k (descriptor port)) (set (Registry_adapters r))"
  proof (rule inj_onI)
    fix x y assume xy: "x \<in> set (Registry_adapters r)" "y \<in> set (Registry_adapters r)"
      "(\<lambda>(_, port). ?k (descriptor port)) x = (\<lambda>(_, port). ?k (descriptor port)) y"
    have key: "fst z = registryKey (Port_ServiceCategory (snd z)) (Port_AdapterID (snd z))"
      if "z \<in> set (Registry_adapters r)" for z
      using assms that by (auto simp: registry_wf_def)
    have "fst x = fst y"
      using key [OF xy(1)] key [OF xy(2)] xy(3) by (simp add: case_prod_beta descriptor_def)
    moreover have "inj_on fst (set (Registry_adapters r))"
      using assms by (simp add: registry_wf_def go_map_def distinct_map)
    ultimately show "x = y" using xy(1,2) by (simp add: inj_on_eq_iff)
  qed
  moreover have "distinct (Registry_adapters r)"
    using assms by (simp add: registry_wf_def go_map_def distinct_map)
  ultimately have "distinct (map ?k ?ds)"
    by (simp add: distinct_map comp_def case_prod_beta')
  then have "distinct (map ?k (Registry_List r))"
    unfolding Registry_List_def distinct_map_sort_key .
  moreover have "sorted (map ?k (Registry_List r))"
    unfolding Registry_List_def by (rule sorted_sort_key)
  ultimately show ?thesis by (simp add: strict_sorted_iff)
qed

lemma SHA256Hex_no_nul: "CHR 0x00 \<notin> set (SHA256Hex m)"
  using list_all_take_hex(2) [of m] hex_cases char_not_zero by (auto simp: list_all_iff)

text \<open>What a validated receipt contains.\<close>

lemma receipt_parts:
  assumes "ValidateProvisionReceipt req r = None"
  shows "request_ok req \<and> ValidResourceState (Rcpt_State r) \<and>
    Rcpt_RequestSHA256 r = SHA256Hex (request_preimage req) \<and>
    Rcpt_CommitmentSHA256 r = SHA256Hex (commitment_preimage (SHA256Hex (request_preimage req))
      (Rcpt_State r) (Rcpt_ProviderHandle r))"
proof -
  obtain d c where d: "RequestSHA256 req = Inr d"
    and c: "ReceiptCommitmentSHA256 req (Rcpt_State r) (Rcpt_ProviderHandle r) = Inr c"
    and eq: "Rcpt_RequestSHA256 r = d" "Rcpt_CommitmentSHA256 r = c"
    using assms by (auto simp: ValidateProvisionReceipt_def split: sum.splits if_splits)
  have "ValidResourceState (Rcpt_State r)"
    "c = SHA256Hex (commitment_preimage d (Rcpt_State r) (Rcpt_ProviderHandle r))"
    using c by (auto simp: ReceiptCommitmentSHA256_def d split: if_splits)
  with d eq show ?thesis by (simp add: RequestSHA256_ok)
qed

subsection \<open>An adapter and its requests\<close>

definition ex_adapter :: InMemoryAdapter where
  "ex_adapter = \<lparr>IMA_adapterID = ''adapter-one'', IMA_serviceCategory = ServiceCompute,
     IMA_backendFamily = BackendKubeVirt, IMA_healthStatus = HealthReady, IMA_healthReason = [],
     IMA_idempotencyLog = [], IMA_resources = []\<rparr>"

definition ex_provision :: "string \<Rightarrow> string \<Rightarrow> LifecycleVerb \<Rightarrow> ProvisionRequest" where
  "ex_provision tenant key verb = \<lparr>PReq_SchemaVersion = ProvisionRequestSchemaVersion,
     PReq_ServiceCategory = ServiceCompute, PReq_AdapterID = ''adapter-one'', PReq_TenantID = tenant,
     PReq_ProjectID = ''project-one'', PReq_ResourceID = ''vm-01'', PReq_IdempotencyKey = key,
     PReq_Verb = verb, PReq_Parameters = [\<lparr>Param_Key = ''size'', Param_Value = ''small''\<rparr>]\<rparr>"

lemma ex_adapter_new: "NewInMemoryAdapter ''adapter-one'' ServiceCompute BackendKubeVirt = Inr ex_adapter"
  by code_simp

lemma ex_adapter_wf: "adapter_wf ex_adapter"
  using ex_adapter_new by (rule NewInMemoryAdapter_wf)

lemma ex_requests_ok:
  "ValidateProvisionRequest (ex_provision ''tenant-a'' ''key-01'' VerbProvision) = None"
  "ValidateProvisionRequest (ex_provision ''tenant-b'' ''key-02'' VerbResize) = None"
  by code_simp+

lemma ex_create:
  "InMemory_ExecuteLifecycle (Some Live) (ex_provision ''tenant-a'' ''key-01'' VerbProvision) ex_adapter =
     (Inr (receipt_for ex_adapter (ex_provision ''tenant-a'' ''key-01'' VerbProvision)),
      recorded ex_adapter (ex_provision ''tenant-a'' ''key-01'' VerbProvision))"
proof -
  have "addressed ex_adapter (ex_provision ''tenant-a'' ''key-01'' VerbProvision)"
    using ex_requests_ok(1)
    by (simp add: addressed_def ValidateProvisionRequest_iff ex_provision_def ex_adapter_def)
  moreover have "ValidBackendFamily (IMA_backendFamily ex_adapter)" by code_simp
  ultimately show ?thesis
    by (simp add: exec_unfold foreign_def ex_adapter_def ex_provision_def)
qed

subsection \<open>Properties\<close>

text \<open>
  The canonical digest identifies a request: two requests that pass validation and
  have the same digest are the same request, unless their encodings are a collision of
  SHA-256. The NUL-terminated encoding itself never confuses two valid requests.
\<close>

theorem request_digest_identifies:
  assumes "RequestSHA256 req = Inr d" and "RequestSHA256 req' = Inr d"
  shows "req = req' \<or>
    (request_preimage req \<noteq> request_preimage req' \<and>
     Sum256 (request_preimage req) = Sum256 (request_preimage req'))"
proof -
  have "request_ok req" "request_ok req'"
    "SHA256Hex (request_preimage req) = SHA256Hex (request_preimage req')"
    using assms by (auto simp: RequestSHA256_ok)
  then show ?thesis
    using request_preimage_inj by (auto simp: SHA256Hex_def hex_EncodeToString_inj)
qed

theorem request_digest_identifies_witness:
  "\<exists>d. RequestSHA256 (ex_provision ''tenant-a'' ''key-01'' VerbProvision) = Inr d"
proof -
  have "RequestSHA256 (ex_provision ''tenant-a'' ''key-01'' VerbProvision) =
      Inr (SHA256Hex (request_preimage (ex_provision ''tenant-a'' ''key-01'' VerbProvision)))"
    using ex_requests_ok(1) by (simp add: RequestSHA256_def)
  with request_digest_identifies [OF this this] show ?thesis by blast
qed

text \<open>
  C33. A receipt binds what it certifies: a receipt that validates against a request,
  and another one with the same commitment that validates against a second request,
  certify the same request, state and provider handle, unless the encodings of the two
  requests, or those of the two commitments, are a collision of SHA-256.
\<close>

theorem receipt_binds:
  assumes "ValidateProvisionReceipt req r = None" and "ValidateProvisionReceipt req' r' = None"
    and "Rcpt_CommitmentSHA256 r = Rcpt_CommitmentSHA256 r'"
  shows "(req = req' \<and> Rcpt_State r = Rcpt_State r' \<and> Rcpt_ProviderHandle r = Rcpt_ProviderHandle r') \<or>
    (req \<noteq> req' \<and> Sum256 (request_preimage req) = Sum256 (request_preimage req')) \<or>
    (let x = commitment_preimage (Rcpt_RequestSHA256 r) (Rcpt_State r) (Rcpt_ProviderHandle r);
         y = commitment_preimage (Rcpt_RequestSHA256 r') (Rcpt_State r') (Rcpt_ProviderHandle r') in
     x \<noteq> y \<and> Sum256 x = Sum256 y)"
proof -
  note p = receipt_parts [OF assms(1)] and p' = receipt_parts [OF assms(2)]
  let ?x = "commitment_preimage (Rcpt_RequestSHA256 r) (Rcpt_State r) (Rcpt_ProviderHandle r)"
  let ?y = "commitment_preimage (Rcpt_RequestSHA256 r') (Rcpt_State r') (Rcpt_ProviderHandle r')"
  have same: "Sum256 ?x = Sum256 ?y"
    using p p' assms(3) by (simp add: SHA256Hex_def hex_EncodeToString_inj)
  show ?thesis
  proof (cases "?x = ?y")
    case True
    then have "Rcpt_RequestSHA256 r = Rcpt_RequestSHA256 r'" "Rcpt_State r = Rcpt_State r'"
      "Rcpt_ProviderHandle r = Rcpt_ProviderHandle r'"
      using p p' SHA256Hex_no_nul enum_no_nul(3) by (auto simp: commitment_preimage_inj)
    with p p' show ?thesis by (auto simp: SHA256Hex_def hex_EncodeToString_inj)
  qed (simp add: same)
qed

theorem receipt_binds_witness:
  "ValidateProvisionReceipt (ex_provision ''tenant-a'' ''key-01'' VerbProvision)
     (receipt_for ex_adapter (ex_provision ''tenant-a'' ''key-01'' VerbProvision)) = None"
proof -
  have "ValidBackendFamily (IMA_backendFamily ex_adapter)" by code_simp
  then have ok: "ValidateProvisionReceipt (ex_provision ''tenant-a'' ''key-01'' VerbProvision)
     (receipt_for ex_adapter (ex_provision ''tenant-a'' ''key-01'' VerbProvision)) = None"
    using ex_requests_ok(1) by (simp add: receipt_for_validates ValidateProvisionRequest_iff)
  with receipt_binds [OF this this refl] show ?thesis by blast
qed

text \<open>
  C13. Replays are stable: once a request has succeeded, the same request returns the
  same receipt and changes nothing, whatever other operations the adapter has performed
  in between.
\<close>

theorem replay_is_stable:
  assumes "NewInMemoryAdapter adapterID category family = Inr a0" and "adapter_reach a0 a"
    and "InMemory_ExecuteLifecycle (Some Live) req a = (Inr r, a1)" and "adapter_reach a1 a2"
  shows "InMemory_ExecuteLifecycle (Some Live) req a2 = (Inr r, a2)"
proof -
  have wf: "adapter_wf a" using adapter_reach_wf assms(1,2) NewInMemoryAdapter_wf by blast
  then have family: "ValidBackendFamily (IMA_backendFamily a)" by (simp add: adapter_wf_def)
  have "adapter_step a a1" using adapter_step.execute [of a "Some Live" req] assms(3) by simp
  then have wf1: "adapter_wf a1" and keep1: "keeps_history a a1"
    using wf adapter_step_wf adapter_step_keeps_history by blast+
  have keep2: "keeps_history a1 a2" using adapter_reach_keeps_history assms(4) wf1 by blast
  have now: "addressed a1 req \<and> (\<exists>prior. map_of (IMA_idempotencyLog a1) (idemKey req) = Some prior \<and>
      Idem_receipt prior = r \<and> Idem_requestSHA256 prior = SHA256Hex (request_preimage req)) \<and>
      resource_owner a1 (PReq_ResourceID req) = Some (PReq_TenantID req, PReq_ProjectID req)"
    using assms(3) family
  proof (cases rule: exec_okE)
    case (replay prior)
    then have "entry_ok a (idemKey req) prior" using wf by (simp add: adapter_wf_def)
    then obtain req0 where req0: "addressed a req0" "idemKey req = idemKey req0"
      "map_of (IMA_resources a) (PReq_ResourceID req0) \<noteq> None"
      "\<not> foreign a (PReq_TenantID req0) (PReq_ProjectID req0) (PReq_ResourceID req0)"
      by (auto simp: entry_ok_def)
    have "PReq_ResourceID req = PReq_ResourceID req0"
      using idemKey_inj(3) [of req req0] replay(1) req0(1,2) by (simp add: addressed_def)
    with req0(3) have "map_of (IMA_resources a) (PReq_ResourceID req) \<noteq> None" by simp
    with replay show ?thesis by (auto simp: foreign_def resource_owner_def)
  next
    case fresh
    then show ?thesis by (auto simp: recorded_lookup resource_owner_def)
  qed
  obtain prior where "map_of (IMA_idempotencyLog a2) (idemKey req) = Some prior" "Idem_receipt prior = r"
    "Idem_requestSHA256 prior = SHA256Hex (request_preimage req)"
    using now keep2 unfolding keeps_history_def by metis
  moreover have "addressed a2 req" using now keep2 by (simp add: addressed_def keeps_history_def)
  moreover have "resource_owner a2 (PReq_ResourceID req) = Some (PReq_TenantID req, PReq_ProjectID req)"
    using now keep2 unfolding resource_owner_def keeps_history_def by fastforce
  moreover have "ValidBackendFamily (IMA_backendFamily a2)"
    using family keep1 keep2 by (simp add: keeps_history_def)
  ultimately show ?thesis
    by (auto simp: exec_unfold foreign_owner resource_owner_def)
qed

theorem replay_is_stable_witness:
  "InMemory_ExecuteLifecycle (Some Live) (ex_provision ''tenant-a'' ''key-01'' VerbProvision)
     (recorded ex_adapter (ex_provision ''tenant-a'' ''key-01'' VerbProvision)) =
   (Inr (receipt_for ex_adapter (ex_provision ''tenant-a'' ''key-01'' VerbProvision)),
    recorded ex_adapter (ex_provision ''tenant-a'' ''key-01'' VerbProvision))"
  by (rule replay_is_stable [OF ex_adapter_new _ ex_create]) (simp_all add: adapter_reach_def)

text \<open>
  C16. Tenants are isolated for good: once a resource belongs to a tenant and project,
  no later sequence of operations lets another tenant or project act on it or inspect
  it. Both calls fail with the isolation error and leave the adapter as it is.
\<close>

theorem tenants_stay_isolated:
  assumes "NewInMemoryAdapter adapterID category family = Inr a0" and "adapter_reach a0 a"
    and "map_of (IMA_resources a) (PReq_ResourceID req) = Some st"
    and "(Stored_tenantID st, Stored_projectID st) \<noteq> (PReq_TenantID req, PReq_ProjectID req)"
    and "adapter_reach a a2" and "ValidateProvisionRequest req = None"
    and "PReq_AdapterID req = IMA_adapterID a2" and "PReq_ServiceCategory req = IMA_serviceCategory a2"
  shows "InMemory_ExecuteLifecycle (Some Live) req a2 = (Inl ErrTenantIsolationViolation, a2) \<and>
    InMemory_InspectResource (Some Live) (PReq_TenantID req) (PReq_ProjectID req) (PReq_ResourceID req) a2 =
      (Inl ErrTenantIsolationViolation, a2)"
proof -
  have wf: "adapter_wf a" using adapter_reach_wf assms(1,2) NewInMemoryAdapter_wf by blast
  then have wf2: "adapter_wf a2" using adapter_reach_wf assms(5) by blast
  then have family: "ValidBackendFamily (IMA_backendFamily a2)" by (simp add: adapter_wf_def)
  have "foreign a (PReq_TenantID req) (PReq_ProjectID req) (PReq_ResourceID req)"
    using assms(3,4) by (auto simp: foreign_def)
  then have foreign: "foreign a2 (PReq_TenantID req) (PReq_ProjectID req) (PReq_ResourceID req)"
    using keeps_history_foreign adapter_reach_keeps_history [OF assms(5) wf] by blast
  have ok: "request_ok req" using assms(6) by (simp add: ValidateProvisionRequest_iff)
  with assms(7,8) have "addressed a2 req" by (simp add: addressed_def)
  with foreign have "InMemory_ExecuteLifecycle (Some Live) req a2 = (Inl ErrTenantIsolationViolation, a2)"
    by (simp add: exec_unfold [OF family])
  moreover obtain st2 where "map_of (IMA_resources a2) (PReq_ResourceID req) = Some st2"
    "Stored_tenantID st2 \<noteq> PReq_TenantID req \<or> Stored_projectID st2 \<noteq> PReq_ProjectID req"
    using foreign by (auto simp: foreign_def)
  ultimately show ?thesis
    using ok by (auto simp: InMemory_InspectResource_def checkContext_def request_ok_def)
qed

theorem tenants_stay_isolated_witness:
  "fst (InMemory_ExecuteLifecycle (Some Live) (ex_provision ''tenant-b'' ''key-02'' VerbResize)
     (recorded ex_adapter (ex_provision ''tenant-a'' ''key-01'' VerbProvision))) =
   Inl ErrTenantIsolationViolation"
proof -
  let ?a = "recorded ex_adapter (ex_provision ''tenant-a'' ''key-01'' VerbProvision)"
  have "adapter_step ex_adapter ?a"
    using adapter_step.execute [of ex_adapter "Some Live" "ex_provision ''tenant-a'' ''key-01'' VerbProvision"]
    by (simp add: ex_create)
  then have reach: "adapter_reach ex_adapter ?a" by (simp add: adapter_reach_def r_into_rtranclp)
  have stored: "map_of (IMA_resources ?a) (PReq_ResourceID (ex_provision ''tenant-b'' ''key-02'' VerbResize)) =
      Some \<lparr>Stored_tenantID = ''tenant-a'', Stored_projectID = ''project-one'',
        Stored_receipt = receipt_for ex_adapter (ex_provision ''tenant-a'' ''key-01'' VerbProvision)\<rparr>"
    by (simp add: recorded_lookup) (simp add: ex_provision_def)
  have "adapter_reach ?a ?a" by (simp add: adapter_reach_def)
  from tenants_stay_isolated [OF ex_adapter_new reach stored _ this ex_requests_ok(2)] show ?thesis
    by (simp add: ex_provision_def ex_adapter_def)
qed

text \<open>
  C32. Every receipt the adapter hands out validates against the request it answers,
  a replayed one included: the error that the code drops when it builds the receipt
  cannot occur, and the empty receipt is never returned.
\<close>

theorem receipts_validate:
  assumes "NewInMemoryAdapter adapterID category family = Inr a0" and "adapter_reach a0 a"
    and "InMemory_ExecuteLifecycle ctx req a = (Inr r, a')"
  shows "ValidateProvisionReceipt req r = None \<and> r \<noteq> zero_ProvisionReceipt"
proof -
  have wf: "adapter_wf a" using adapter_reach_wf assms(1,2) NewInMemoryAdapter_wf by blast
  then have family: "ValidBackendFamily (IMA_backendFamily a)" by (simp add: adapter_wf_def)
  have "ctx = Some Live"
    using assms(3) by (auto simp: InMemory_ExecuteLifecycle_def checkContext_def split: option.splits GoContext.splits)
  with assms(3) have run: "InMemory_ExecuteLifecycle (Some Live) req a = (Inr r, a')" by simp
  have "ValidateProvisionReceipt req r = None"
    using run family
  proof (cases rule: exec_okE)
    case (replay prior)
    then have "entry_ok a (idemKey req) prior" using wf by (simp add: adapter_wf_def)
    then obtain req0 where req0: "addressed a req0" "idemKey req = idemKey req0"
      "Idem_receipt prior = receipt_for a req0"
      "Idem_requestSHA256 prior = SHA256Hex (request_preimage req0)"
      by (auto simp: entry_ok_def)
    have ok: "request_ok req" "request_ok req0" using replay(1) req0(1) by (simp_all add: addressed_def)
    show ?thesis
      unfolding replay(3) req0(3)
      using receipt_for_validates [OF ok family] replay(1,6) req0(1,4) idemKey_inj [OF ok req0(2)]
      by (simp add: addressed_def)
  next
    case fresh
    then show ?thesis using family by (simp add: receipt_for_validates addressed_def)
  qed
  moreover have "ValidateProvisionReceipt req zero_ProvisionReceipt \<noteq> None"
    by (auto simp: ValidateProvisionReceipt_def zero_ProvisionReceipt_def ProvisionReceiptSchemaVersion_def
        split: sum.splits)
  ultimately show ?thesis by auto
qed

theorem receipts_validate_witness:
  "ValidateProvisionReceipt (ex_provision ''tenant-a'' ''key-01'' VerbProvision)
     (receipt_for ex_adapter (ex_provision ''tenant-a'' ''key-01'' VerbProvision)) = None \<and>
   receipt_for ex_adapter (ex_provision ''tenant-a'' ''key-01'' VerbProvision) \<noteq> zero_ProvisionReceipt"
  by (rule receipts_validate [OF ex_adapter_new _ ex_create]) (simp add: adapter_reach_def)

text \<open>
  C7. The in-memory adapter passes the package's own conformance suite from its
  initial state, for every valid adapter identity, unless the suite's two requests that
  share an idempotency key collide under SHA-256.
\<close>

theorem in_memory_adapter_conforms:
  assumes "NewInMemoryAdapter adapterID category family = Inr a"
  shows "fst (RunConformanceSuite (Some (inMemoryPort a)) a) = Inr (suite_result (inMemoryPort a)) \<or>
    (\<exists>r1 r2. suite_request (inMemoryPort a) ''tenant-alpha'' ''idem-create-01'' VerbProvision
         [(''profile'', ''standard-v1'')] = Inr r1 \<and>
       suite_request (inMemoryPort a) ''tenant-alpha'' ''idem-create-01'' VerbProvision
         [(''profile'', ''mutated-v2'')] = Inr r2 \<and>
       r1 \<noteq> r2 \<and> Sum256 (request_preimage r1) = Sum256 (request_preimage r2))"
proof -
  have port: "same_port a a" using NewInMemoryAdapter_wf [OF assms] by (simp add: same_port_def)
  have empty: "resource_owner a = (\<lambda>_. None)" "key_seen a = (\<lambda>_. None)"
    using assms by (auto simp: NewInMemoryAdapter_def resource_owner_def key_seen_def split: if_splits)
  have differ: "ima.created a \<noteq> ima.conflicting a"
    by (simp add: ima.created_def ima.conflicting_def ima.suite_req_def)
  show ?thesis
  proof (cases "Sum256 (request_preimage (ima.created a)) = Sum256 (request_preimage (ima.conflicting a))")
    case True
    with differ ima.suite_requests(4,5) [OF port] show ?thesis by blast
  next
    case False
    then have "SHA256Hex (request_preimage (ima.created a)) \<noteq> SHA256Hex (request_preimage (ima.conflicting a))"
      by (simp add: SHA256Hex_def hex_EncodeToString_inj)
    with ima.suite_passes [of a a] port empty show ?thesis by simp
  qed
qed

theorem in_memory_adapter_conforms_witness:
  "fst (RunConformanceSuite (Some (inMemoryPort ex_adapter)) ex_adapter) =
     Inr (suite_result (inMemoryPort ex_adapter)) \<or>
   (\<exists>r1 r2. r1 \<noteq> r2 \<and> Sum256 (request_preimage r1) = Sum256 (request_preimage r2) \<and>
      PReq_AdapterID r1 = ''adapter-one'')"
proof -
  have "PReq_AdapterID r1 = ''adapter-one''"
    if "suite_request (inMemoryPort ex_adapter) t k v ps = Inr r1" for t k v ps r1
    using that by (auto simp: suite_request_def NewProvisionRequest_def Let_def ex_adapter_def split: option.splits)
  with in_memory_adapter_conforms [OF ex_adapter_new] show ?thesis by blast
qed

text \<open>
  C35. Failed operations have no effect: an error of \<^verbatim>\<open>ExecuteLifecycle\<close>, whatever
  its cause, leaves the adapter exactly as it was.
\<close>

theorem failures_have_no_effect:
  assumes "InMemory_ExecuteLifecycle ctx req a = (Inl e, a')"
  shows "a' = a"
  using assms
  by (auto simp: InMemory_ExecuteLifecycle_def Let_def split: option.splits if_splits)

theorem failures_have_no_effect_witness:
  "snd (InMemory_ExecuteLifecycle None (ex_provision ''tenant-a'' ''key-01'' VerbProvision) ex_adapter) = ex_adapter"
proof -
  have "InMemory_ExecuteLifecycle None req a = (Inl ErrContextCanceled, a)" for req a
    by (simp add: InMemory_ExecuteLifecycle_def checkContext_def)
  from failures_have_no_effect [OF this] this show ?thesis by simp
qed

text \<open>
  C34. The registry is a finite map with canonical listing: over any sequence of
  registrations into a new registry, a port whose registration succeeds is found under
  its category and identity, all other lookups are as before, registering the same
  identity again is refused, and the listing is strictly ordered by category and identity.
\<close>

theorem registry_register_lookup:
  assumes "r = RegisterAll ports NewProviderRegistry" and "Registry_Register (Some port) r = (None, r')"
  shows "Registry_Lookup (Port_ServiceCategory port) (Port_AdapterID port) r' = Inr port \<and>
    (\<forall>c i. (c, i) \<noteq> (Port_ServiceCategory port, Port_AdapterID port) \<longrightarrow>
       Registry_Lookup c i r' = Registry_Lookup c i r) \<and>
    (\<forall>port'. registryKey (Port_ServiceCategory port') (Port_AdapterID port') =
       registryKey (Port_ServiceCategory port) (Port_AdapterID port) \<longrightarrow>
       fst (Registry_Register (Some port') r') \<noteq> None) \<and>
    sorted_wrt (<) (map (\<lambda>d. (Desc_ServiceCategory d, Desc_AdapterID d)) (Registry_List r'))"
proof -
  have "registry_wf (NewProviderRegistry :: 'a ProviderRegistry)"
    by (simp add: registry_wf_def NewProviderRegistry_def)
  then have "registry_wf r'" using Registry_Register_wf RegisterAll_wf assms by metis
  moreover have port: "validIdentifier (Port_AdapterID port)" "ValidServiceCategory (Port_ServiceCategory port)"
    and r': "Registry_adapters r' = map_put (registryKey (Port_ServiceCategory port) (Port_AdapterID port)) port
      (Registry_adapters r)"
    using assms(2) by (auto simp: Registry_Register_ok)
  moreover have "Registry_Lookup c i r' = Registry_Lookup c i r"
    if "(c, i) \<noteq> (Port_ServiceCategory port, Port_AdapterID port)" for c i
    using that registryKey_inj [OF _ port(2), of c i "Port_AdapterID port"] by (auto simp: Registry_Lookup_def r')
  ultimately show ?thesis
    using Registry_List_strict by (auto simp: Registry_Lookup_def Registry_Register_def Let_def)
qed

theorem registry_register_lookup_witness:
  "Registry_Lookup ServiceCompute ''adapter-one''
     (snd (Registry_Register (Some (inMemoryPort ex_adapter)) NewProviderRegistry)) = Inr (inMemoryPort ex_adapter)"
proof -
  have port: "Port_AdapterID (inMemoryPort ex_adapter) = ''adapter-one''"
    "Port_ServiceCategory (inMemoryPort ex_adapter) = ServiceCompute"
    "Port_BackendFamily (inMemoryPort ex_adapter) = BackendKubeVirt"
    by (simp_all add: ex_adapter_def)
  have "validIdentifier ''adapter-one''" "ValidServiceCategory ServiceCompute" "ValidBackendFamily BackendKubeVirt"
    by code_simp+
  then have run: "Registry_Register (Some (inMemoryPort ex_adapter)) NewProviderRegistry =
      (None, snd (Registry_Register (Some (inMemoryPort ex_adapter)) NewProviderRegistry))"
    unfolding Registry_Register_def option.case port by (simp add: NewProviderRegistry_def Let_def)
  have "NewProviderRegistry = RegisterAll [] (NewProviderRegistry :: InMemoryAdapter ProviderRegistry)" by simp
  from registry_register_lookup [OF this run] show ?thesis unfolding port by blast
qed

text \<open>
  Requests are canonical: the parameters of a built request are strictly ordered by
  key, and the order in which the runtime iterates the parameter map has no influence
  on the request or on the error.
\<close>

theorem request_building_is_canonical:
  assumes "go_map params" and "go_map params'" and "set params = set params'"
  shows "NewProvisionRequest category adapterID tenantID projectID resourceID key verb params =
      NewProvisionRequest category adapterID tenantID projectID resourceID key verb params' \<and>
    (\<forall>req. NewProvisionRequest category adapterID tenantID projectID resourceID key verb params = Inr req \<longrightarrow>
       sorted_wrt (<) (map Param_Key (PReq_Parameters req)) \<and> ValidateProvisionRequest req = None)"
proof -
  have "NewProvisionRequest category adapterID tenantID projectID resourceID key verb params =
      NewProvisionRequest category adapterID tenantID projectID resourceID key verb params'"
    unfolding NewProvisionRequest_def sort_params_order [OF assms] ..
  moreover have "sorted_wrt (<) (map Param_Key (PReq_Parameters req)) \<and> ValidateProvisionRequest req = None"
    if "NewProvisionRequest category adapterID tenantID projectID resourceID key verb params = Inr req" for req
  proof -
    have "ValidateProvisionRequest req = None"
      using that by (auto simp: NewProvisionRequest_def Let_def split: option.splits)
    then show ?thesis by (simp add: ValidateProvisionRequest_iff request_ok_def)
  qed
  ultimately show ?thesis by blast
qed

theorem request_building_is_canonical_witness:
  "NewProvisionRequest ServiceCompute ''adapter-one'' ''tenant-a'' ''project-one'' ''vm-01'' ''key-01''
     VerbProvision [(''size'', ''small''), (''image'', ''base'')] =
   NewProvisionRequest ServiceCompute ''adapter-one'' ''tenant-a'' ''project-one'' ''vm-01'' ''key-01''
     VerbProvision [(''image'', ''base''), (''size'', ''small'')]"
proof -
  have "go_map [(''size'', ''small''), (''image'', ''base'')]" "go_map [(''image'', ''base''), (''size'', ''small'')]"
    "set [(''size'', ''small''), (''image'', ''base'')] = set [(''image'', ''base''), (''size'', ''small'')]"
    by (auto simp: go_map_def)
  from request_building_is_canonical [OF this] show ?thesis by blast
qed

end
