(* ===== verification/Go_Path.thy ===== *)
theory Go_Path
  imports Go_Strings
begin

text \<open>
  Decimal rendering of integers (\<^verbatim>\<open>fmt.Sprintf("%d")\<close>) and lexical path cleaning
  (\<^verbatim>\<open>path.Clean\<close>), the latter as the standard library writes it: one pass over the
  bytes with an output buffer and the position up to which \<open>..\<close> may not backtrack.
\<close>

subsection \<open>Decimal numbers\<close>

function itoa :: "nat \<Rightarrow> string" where
  "itoa n = (if n < 10 then [char_of (48 + n)] else itoa (n div 10) @ [char_of (48 + n mod 10)])"
  by auto
termination by (relation "measure (\<lambda>n. n)") auto

declare itoa.simps [simp del]

subsection \<open>Path cleaning\<close>

definition path_IsAbs :: "string \<Rightarrow> bool" where
  "path_IsAbs s \<longleftrightarrow> s \<noteq> [] \<and> hd s = CHR ''/''"

text \<open>The new length of the output when its last element is removed.\<close>

fun backtrack :: "string \<Rightarrow> nat \<Rightarrow> nat \<Rightarrow> nat" where
  "backtrack out dotdot 0 = 0"
| "backtrack out dotdot (Suc w) =
     (if Suc w > dotdot \<and> out ! Suc w \<noteq> CHR ''/'' then backtrack out dotdot w else Suc w)"

function clean_loop :: "bool \<Rightarrow> string \<Rightarrow> string \<Rightarrow> nat \<Rightarrow> string" where
  "clean_loop rooted rest out dotdot =
     (case rest of
        [] \<Rightarrow> out
      | c # cs \<Rightarrow>
          if c = CHR ''/'' then clean_loop rooted cs out dotdot
          else if c = CHR ''.'' \<and> (cs = [] \<or> hd cs = CHR ''/'') then clean_loop rooted cs out dotdot
          else if c = CHR ''.'' \<and> cs \<noteq> [] \<and> hd cs = CHR ''.'' \<and>
            (tl cs = [] \<or> hd (tl cs) = CHR ''/'')
          then
            (if length out > dotdot
             then clean_loop rooted (tl cs) (take (backtrack out dotdot (length out - 1)) out) dotdot
             else if \<not> rooted
             then let out' = (if out \<noteq> [] then out @ ''/'' else out) @ ''..'' in
               clean_loop rooted (tl cs) out' (length out')
             else clean_loop rooted (tl cs) out dotdot)
          else
            clean_loop rooted (dropWhile (\<lambda>d. d \<noteq> CHR ''/'') rest)
              ((if rooted \<and> length out \<noteq> 1 \<or> \<not> rooted \<and> length out \<noteq> 0 then out @ ''/'' else out) @
               takeWhile (\<lambda>d. d \<noteq> CHR ''/'') rest) dotdot)"
  by pat_completeness auto
termination
  by (relation "measure (\<lambda>(rooted, rest, out, dotdot). length rest)")
     (auto simp: less_Suc_eq_le length_dropWhile_le)

declare clean_loop.simps [simp del]

definition path_Clean :: "string \<Rightarrow> string" where
  "path_Clean s =
     (if s = [] then ''.''
      else let rooted = (hd s = CHR ''/'');
               out = (if rooted then clean_loop True (tl s) ''/'' 1 else clean_loop False s [] 0) in
        if out = [] then ''.'' else out)"

subsection \<open>Cleaned relative paths\<close>

fun slash_join :: "string list \<Rightarrow> string" where
  "slash_join [] = []"
| "slash_join [x] = x"
| "slash_join (x # y # xs) = x @ CHR ''/'' # slash_join (y # xs)"

lemma slash_join_snoc: "xs \<noteq> [] \<Longrightarrow> slash_join (xs @ [x]) = slash_join xs @ CHR ''/'' # x"
  by (induction xs rule: slash_join.induct) auto

definition plain_element :: "string \<Rightarrow> bool" where
  "plain_element x \<longleftrightarrow> x \<noteq> [] \<and> x \<noteq> ''.'' \<and> x \<noteq> ''..'' \<and> CHR ''/'' \<notin> set x"

lemma slash_join_eq_Nil: "\<forall>x \<in> set xs. x \<noteq> [] \<Longrightarrow> slash_join xs = [] \<longleftrightarrow> xs = []"
  by (induction xs rule: slash_join.induct) auto

lemma backtrack_to_slash:
  assumes "dotdot \<le> length p" and "CHR ''/'' \<notin> set x"
  shows "n \<le> length x \<Longrightarrow> backtrack (p @ CHR ''/'' # x) dotdot (length p + n) = length p"
proof (induction n)
  case 0
  show ?case using assms(1) by (cases "length p") (auto simp: nth_append)
next
  case (Suc n)
  then have "(p @ CHR ''/'' # x) ! Suc (length p + n) = x ! n" "x ! n \<in> set x"
    by (auto simp: nth_append)
  then have "(p @ CHR ''/'' # x) ! Suc (length p + n) \<noteq> CHR ''/''" using assms(2) by metis
  with Suc assms(1) show ?case by simp
qed

lemma backtrack_all:
  assumes "CHR ''/'' \<notin> set x"
  shows "n < length x \<Longrightarrow> backtrack x 0 n = 0"
proof (induction n)
  case (Suc n)
  then have "x ! Suc n \<in> set x" by auto
  then have "x ! Suc n \<noteq> CHR ''/''" using assms by metis
  with Suc show ?case by simp
qed simp

text \<open>The output is a number of leading parent elements and then plain elements.\<close>

definition clean_state :: "string \<Rightarrow> nat \<Rightarrow> bool" where
  "clean_state out dotdot \<longleftrightarrow>
     (\<exists>k xs. out = slash_join (replicate k ''..'' @ xs) \<and>
        dotdot = length (slash_join (replicate k ''..'')) \<and> (\<forall>x \<in> set xs. plain_element x))"

lemma elements_nonempty:
  "\<forall>x \<in> set xs. plain_element x \<Longrightarrow> \<forall>x \<in> set (replicate k ''..'' @ xs). x \<noteq> []"
  unfolding plain_element_def set_append ball_Un by (metis in_set_replicate list.distinct(1))

lemma clean_state_plain:
  assumes "clean_state out dotdot" and "plain_element x"
  shows "clean_state ((if length out \<noteq> 0 then out @ ''/'' else out) @ x) dotdot"
proof -
  obtain k xs where out: "out = slash_join (replicate k ''..'' @ xs)"
    "dotdot = length (slash_join (replicate k ''..''))" "\<forall>x \<in> set xs. plain_element x"
    using assms(1) by (auto simp: clean_state_def)
  have "(if length out \<noteq> 0 then out @ ''/'' else out) @ x = slash_join (replicate k ''..'' @ xs @ [x])"
    using slash_join_eq_Nil [OF elements_nonempty [OF out(3)], of k]
      slash_join_snoc [of "replicate k ''..'' @ xs" x]
    by (cases "replicate k ''..'' @ xs = []") (auto simp: out(1))
  then show ?thesis
    unfolding clean_state_def using out(2,3) assms(2)
    by (intro exI [of _ k] exI [of _ "xs @ [x]"]) auto
qed

lemma slash_join_longer:
  "ys \<noteq> [] \<Longrightarrow> \<forall>y \<in> set ys. y \<noteq> [] \<Longrightarrow> length (slash_join xs) < length (slash_join (xs @ ys))"
proof (induction xs rule: slash_join.induct)
  case 1
  then show ?case using slash_join_eq_Nil [of ys] by auto
next
  case (2 x)
  then show ?case by (cases ys) auto
qed auto

lemma clean_state_longer:
  assumes "dotdot = length (slash_join (replicate k ''..''))" and "\<forall>x \<in> set xs. plain_element x"
  shows "xs \<noteq> [] \<longleftrightarrow> length (slash_join (replicate k ''..'' @ xs)) > dotdot"
proof -
  have "\<forall>x \<in> set xs. x \<noteq> []" using assms(2) unfolding plain_element_def by blast
  from slash_join_longer [OF _ this, of "replicate k ''..''"] show ?thesis
    by (cases "xs = []") (simp_all add: assms(1))
qed

lemma clean_state_pop:
  assumes "clean_state out dotdot" and "length out > dotdot"
  shows "clean_state (take (backtrack out dotdot (length out - 1)) out) dotdot"
proof -
  obtain k xs where out: "out = slash_join (replicate k ''..'' @ xs)"
    "dotdot = length (slash_join (replicate k ''..''))" "\<forall>x \<in> set xs. plain_element x"
    using assms by (auto simp: clean_state_def)
  then obtain ys y where xs: "xs = ys @ [y]"
    using clean_state_longer [OF out(2,3)] assms(2) by (metis rev_exhaust)
  have y: "CHR ''/'' \<notin> set y" "y \<noteq> []" and ys: "\<forall>x \<in> set ys. plain_element x"
    using out(3) unfolding xs plain_element_def by simp_all
  let ?p = "slash_join (replicate k ''..'' @ ys)"
  have "take (backtrack out dotdot (length out - 1)) out = ?p"
  proof (cases "replicate k ''..'' @ ys = []")
    case True
    then have "out = y" "dotdot = 0" "?p = []" by (auto simp: out xs)
    then show ?thesis using backtrack_all [of y "length y - 1"] y by simp
  next
    case False
    then have o: "out = ?p @ CHR ''/'' # y"
      using slash_join_snoc [OF False, of y] by (simp add: out(1) xs)
    have "dotdot \<le> length ?p"
      using clean_state_longer [OF out(2) ys] by (cases "ys = []") (simp_all add: out(2))
    from backtrack_to_slash [OF this y(1), of "length y"] show ?thesis by (simp add: o)
  qed
  then show ?thesis
    unfolding clean_state_def using out by (intro exI [of _ k] exI [of _ ys]) (auto simp: xs)
qed

lemma clean_state_push:
  assumes "clean_state out dotdot" and "\<not> length out > dotdot"
    and "out' = (if out \<noteq> [] then out @ ''/'' else out) @ ''..''"
  shows "clean_state out' (length out')"
proof -
  obtain k xs where out: "out = slash_join (replicate k ''..'' @ xs)"
    "dotdot = length (slash_join (replicate k ''..''))" "\<forall>x \<in> set xs. plain_element x"
    using assms(1) by (auto simp: clean_state_def)
  then have o: "out = slash_join (replicate k ''..'')"
    using clean_state_longer [OF out(2,3)] assms(2) by auto
  have "out' = slash_join (replicate (Suc k) ''..'')"
  proof (cases k)
    case (Suc j)
    then have "out \<noteq> []" using slash_join_eq_Nil [of "replicate k ''..''"] o by auto
    then show ?thesis
      using slash_join_snoc [of "replicate k ''..''" "''..''"] assms(3) o Suc
      by (simp add: replicate_append_same)
  qed (use assms(3) o in simp)
  then show ?thesis
    unfolding clean_state_def by (intro exI [of _ "Suc k"] exI [of _ "[]"]) simp
qed

lemma takeWhile_plain:
  assumes "c \<noteq> CHR ''/''" and "\<not> (c = CHR ''.'' \<and> (cs = [] \<or> hd cs = CHR ''/''))"
    and "\<not> (c = CHR ''.'' \<and> cs \<noteq> [] \<and> hd cs = CHR ''.'' \<and> (tl cs = [] \<or> hd (tl cs) = CHR ''/''))"
  shows "plain_element (takeWhile (\<lambda>d. d \<noteq> CHR ''/'') (c # cs))"
  unfolding plain_element_def
proof (intro conjI)
  let ?x = "takeWhile (\<lambda>d. d \<noteq> CHR ''/'') (c # cs)"
  show "?x \<noteq> []" using assms by simp
  show "?x \<noteq> ''.''" using assms by (cases cs) (auto split: if_splits)
  show "?x \<noteq> ''..''" using assms by (cases cs; cases "tl cs") (auto split: if_splits)
  show "CHR ''/'' \<notin> set ?x" by (auto dest: set_takeWhileD)
qed

lemma clean_loop_relative:
  "clean_state out dotdot \<Longrightarrow> \<exists>d. clean_state (clean_loop False rest out dotdot) d"
proof (induction "length rest" arbitrary: rest out dotdot rule: less_induct)
  case less
  show ?case
  proof (cases rest)
    case Nil
    with less.prems show ?thesis by (auto simp: clean_loop.simps)
  next
    case (Cons c cs)
    let ?dot = "c = CHR ''.'' \<and> (cs = [] \<or> hd cs = CHR ''/'')"
    let ?dd = "c = CHR ''.'' \<and> cs \<noteq> [] \<and> hd cs = CHR ''.'' \<and> (tl cs = [] \<or> hd (tl cs) = CHR ''/'')"
    have tl: "length (tl cs) < length rest" "length cs < length rest" by (auto simp: Cons)
    consider (skip) "c = CHR ''/'' \<or> ?dot" | (parent) "c \<noteq> CHR ''/''" "\<not> ?dot" "?dd"
      | (plain) "c \<noteq> CHR ''/''" "\<not> ?dot" "\<not> ?dd" by blast
    then show ?thesis
    proof cases
      case skip
      then have "clean_loop False rest out dotdot = clean_loop False cs out dotdot"
        by (subst clean_loop.simps) (auto simp: Cons)
      with less tl show ?thesis by simp
    next
      case parent
      let ?out = "(if out \<noteq> [] then out @ ''/'' else out) @ ''..''"
      have "clean_loop False rest out dotdot =
          (if length out > dotdot
           then clean_loop False (tl cs) (take (backtrack out dotdot (length out - 1)) out) dotdot
           else clean_loop False (tl cs) ?out (length ?out))"
        using parent by (subst clean_loop.simps) (simp add: Cons Let_def)
      with less tl clean_state_pop [OF less.prems] clean_state_push [OF less.prems] show ?thesis by simp
    next
      case plain
      let ?x = "takeWhile (\<lambda>d. d \<noteq> CHR ''/'') rest"
      have "clean_loop False rest out dotdot =
          clean_loop False (dropWhile (\<lambda>d. d \<noteq> CHR ''/'') rest)
            ((if length out \<noteq> 0 then out @ ''/'' else out) @ ?x) dotdot"
        unfolding Cons
        by (subst clean_loop.simps)
           (simp only: list.case if_not_P [OF plain(1)] if_not_P [OF plain(2)] if_not_P [OF plain(3)] simp_thms)
      moreover have "length (dropWhile (\<lambda>d. d \<noteq> CHR ''/'') rest) < length rest"
        using plain by (simp add: Cons less_Suc_eq_le length_dropWhile_le)
      moreover have "plain_element ?x" unfolding Cons by (rule takeWhile_plain [OF plain])
      ultimately show ?thesis using less clean_state_plain [OF less.prems] by simp
    qed
  qed
qed

text \<open>A cleaned relative path that does not climb is a join of plain elements, or is \<open>..\<close> itself.\<close>

lemma path_Clean_fixpoint:
  assumes "path_Clean s = s" and "\<not> path_IsAbs s" and "s \<noteq> ''.''" and "\<not> has_prefix ''../'' s"
  shows "s = ''..'' \<or> (\<exists>xs. xs \<noteq> [] \<and> s = slash_join xs \<and> (\<forall>x \<in> set xs. plain_element x))"
proof -
  have s: "s \<noteq> []" "hd s \<noteq> CHR ''/''" using assms(1,2) by (auto simp: path_Clean_def path_IsAbs_def)
  have start: "clean_state [] 0"
    unfolding clean_state_def by (intro exI [of _ 0] exI [of _ "[]"]) simp
  have "s = clean_loop False s [] 0"
    using assms(1,3) s by (auto simp: path_Clean_def Let_def split: if_splits)
  then obtain k xs where s': "s = slash_join (replicate k ''..'' @ xs)" "\<forall>x \<in> set xs. plain_element x"
    using clean_loop_relative [OF start, of s] by (auto simp: clean_state_def)
  show ?thesis
  proof (cases k)
    case 0
    then have "xs \<noteq> []" "s = slash_join xs" using s s'(1) by auto
    with s'(2) show ?thesis by blast
  next
    case (Suc j)
    show ?thesis
    proof (cases "replicate j ''..'' @ xs")
      case Nil
      with s'(1) Suc show ?thesis by simp
    next
      case (Cons y ys)
      then have "s = ''../'' @ slash_join (y # ys)" using s'(1) Suc by simp
      with assms(4) show ?thesis by (simp add: has_prefix_def)
    qed
  qed
qed

end
