(* ===== verification/Module_Registry.thy ===== *)
theory Module_Registry
  imports Go_Path Go_Regexp
begin

text \<open>
  Package \<^verbatim>\<open>pkg/registry\<close>: the validation of a module registry document. Every check
  is modelled with the path, code and message of its error, in the order of the code.
  The cycle check is the depth-first search of \<^verbatim>\<open>validateDependencies\<close>; its map of
  modules being visited is an argument, because the code removes the module it added
  before it returns without error and stops at the first error.
\<close>

subsection \<open>Documents\<close>

definition RegistrySchemaVersion :: string where [go_consts]:
  "RegistrySchemaVersion = ''cloudring.module-registry/v1''"

definition module_id_char :: "char \<Rightarrow> bool" where
  "module_id_char c \<longleftrightarrow> is_lower c \<or> is_digit c \<or> c = CHR ''-''"

definition moduleIdentifierPattern :: "rep list" where
  "moduleIdentifierPattern = [Rep is_lower 1 (Some 1), Rep module_id_char 0 None]"

record SourceSafety =
  Safety_SyntheticFixture :: bool
  Safety_ContainsServiceImplementationRefs :: bool
  Safety_ContainsProviderEndpoints :: bool
  Safety_ContainsSecrets :: bool
  Safety_MutatesServices :: bool

record DependencyResolution =
  Resol_Strategy :: string
  Resol_CyclePolicy :: string
  Resol_MissingDependencyPolicy :: string
  Resol_EvidenceRef :: string

record Dependency =
  Dep_ModuleID :: string
  Dep_State :: string

record Operation =
  Op_Action :: string
  Op_OperationID :: string
  Op_Idempotent :: bool
  Op_IdempotencyKey :: string
  Op_PolicyAware :: bool
  Op_AuditReceiptRef :: string
  Op_EvidenceReceiptRef :: string
  Op_RollbackRequired :: bool
  Op_RollbackHookRef :: string
  Op_NextAction :: string

record Operations =
  Ops_Install :: Operation
  Ops_Update :: Operation
  Ops_Remove :: Operation
  Ops_Suspend :: Operation
  Ops_Deprecate :: Operation

record Module =
  Mod_ID :: string
  Mod_DisplayName :: string
  Mod_PackageRef :: string
  Mod_Channel :: string
  Mod_Version :: string
  Mod_State :: string
  Mod_LifecycleStates :: "string list"
  Mod_Dependencies :: "Dependency list"
  Mod_EntitlementScope :: string
  Mod_Operations :: Operations
  Mod_ServiceImplementationRefs :: "string list option"

record PlanRequest =
  Plan_Name :: string
  Plan_ModuleID :: string
  Plan_Action :: string
  Plan_CurrentState :: string
  Plan_TargetVersion :: string

record Registry =
  Reg_SchemaVersion :: string
  Reg_RegistryID :: string
  Reg_ModelVersion :: string
  Reg_SourceSafety :: SourceSafety
  Reg_DependencyResolution :: DependencyResolution
  Reg_Modules :: "Module list"
  Reg_PlanRequests :: "PlanRequest list"

record ValidationError =
  VErr_Path :: string
  VErr_Code :: string
  VErr_Message :: string

definition ValidationError_Error :: "ValidationError \<Rightarrow> string" where
  "ValidationError_Error e =
     ''path='' @ VErr_Path e @ '' code='' @ VErr_Code e @ '' message='' @ VErr_Message e"

definition invalid :: "string \<Rightarrow> string \<Rightarrow> string \<Rightarrow> ValidationError" where
  "invalid path code message = \<lparr>VErr_Path = path, VErr_Code = code, VErr_Message = message\<rparr>"

subsection \<open>Checks\<close>

definition validModuleState :: "string \<Rightarrow> bool" where
  "validModuleState v \<longleftrightarrow>
     v \<in> {''installable'', ''installed'', ''suspended'', ''deprecated'', ''not-installed''}"

definition validOperation :: "string \<Rightarrow> bool" where
  "validOperation v \<longleftrightarrow> v \<in> {''install'', ''update'', ''remove'', ''suspend'', ''deprecate''}"

definition validPackageRef :: "string \<Rightarrow> bool" where
  "validPackageRef v \<longleftrightarrow>
     \<not> (TrimSpace v = [] \<or> TrimSpace v \<noteq> v \<or> Contains v ''://'' \<or> CHR 0x5C \<in> set v) \<and>
     (let clean = path_Clean v in
      clean = v \<and> \<not> path_IsAbs v \<and> clean \<noteq> ''.'' \<and> \<not> has_prefix ''../'' clean)"

definition validateSourceSafety :: "SourceSafety \<Rightarrow> ValidationError option" where
  "validateSourceSafety s =
     (if \<not> Safety_SyntheticFixture s
      then Some (invalid ''sourceSafety.syntheticFixture'' ''source-safety.synthetic''
        ''must be true for a public contract fixture'')
      else if Safety_ContainsServiceImplementationRefs s
      then Some (invalid ''sourceSafety.containsServiceImplementationReferences''
        ''source-safety.implementation-reference'' ''must be false'')
      else if Safety_ContainsProviderEndpoints s
      then Some (invalid ''sourceSafety.containsProviderEndpoints'' ''source-safety.provider-endpoint''
        ''must be false'')
      else if Safety_ContainsSecrets s
      then Some (invalid ''sourceSafety.containsSecrets'' ''source-safety.secret'' ''must be false'')
      else if Safety_MutatesServices s
      then Some (invalid ''sourceSafety.mutatesServices'' ''source-safety.mutation'' ''must be false'')
      else None)"

definition validateResolution :: "DependencyResolution \<Rightarrow> ValidationError option" where
  "validateResolution d =
     (if Resol_Strategy d \<noteq> ''topological''
      then Some (invalid ''dependencyResolution.strategy'' ''dependencies.strategy'' ''must be topological'')
      else if Resol_CyclePolicy d \<noteq> ''block''
      then Some (invalid ''dependencyResolution.cyclePolicy'' ''dependencies.cycle-policy'' ''must be block'')
      else if Resol_MissingDependencyPolicy d \<noteq> ''block''
      then Some (invalid ''dependencyResolution.missingDependencyPolicy'' ''dependencies.missing-policy''
        ''must be block'')
      else if TrimSpace (Resol_EvidenceRef d) = []
      then Some (invalid ''dependencyResolution.evidenceRef'' ''dependencies.evidence'' ''must not be empty'')
      else None)"

text \<open>A loop over named fields that must not be blank.\<close>

definition requireFields :: "string \<Rightarrow> string \<Rightarrow> (string \<times> string) list \<Rightarrow> ValidationError option" where
  "requireFields prefix code =
     first_error (\<lambda>(name, v). if TrimSpace v = []
       then Some (invalid (prefix @ ''.'' @ name) code ''must not be empty'') else None)"

fun validateLifecycleLoop ::
  "string \<Rightarrow> nat \<Rightarrow> string list \<Rightarrow> string list \<Rightarrow> ValidationError + string list" where
  "validateLifecycleLoop prefix index [] seen = Inr seen"
| "validateLifecycleLoop prefix index (state # states) seen =
     (if \<not> validModuleState state
      then Inl (invalid (prefix @ ''.lifecycleStates['' @ itoa index @ '']'') ''module.lifecycle-state''
        ''is not supported'')
      else if state \<in> set seen
      then Inl (invalid (prefix @ ''.lifecycleStates['' @ itoa index @ '']'')
        ''module.lifecycle-state.duplicate'' ''lifecycle states must be unique'')
      else validateLifecycleLoop prefix (index + 1) states (state # seen))"

definition validateLifecycleStates :: "string \<Rightarrow> string list \<Rightarrow> ValidationError option" where
  "validateLifecycleStates prefix states =
     (case validateLifecycleLoop prefix 0 states [] of
        Inl e \<Rightarrow> Some e
      | Inr seen \<Rightarrow>
          if length seen \<noteq> 5
          then Some (invalid (prefix @ ''.lifecycleStates'') ''module.lifecycle-state.missing''
            ''all v1 lifecycle states are required'')
          else None)"

definition validateOperation :: "string \<Rightarrow> string \<times> Operation \<Rightarrow> ValidationError option" where
  "validateOperation prefix item =
     (let (name, v) = item; path = prefix @ ''.'' @ name in
      if Op_Action v \<noteq> name
      then Some (invalid (path @ ''.action'') ''operation.action'' ''must match the operation key'')
      else case requireFields path ''operation.required''
          [(''operationId'', Op_OperationID v), (''idempotencyKey'', Op_IdempotencyKey v),
           (''auditReceiptRef'', Op_AuditReceiptRef v), (''evidenceReceiptRef'', Op_EvidenceReceiptRef v),
           (''rollbackHookRef'', Op_RollbackHookRef v), (''nextAction'', Op_NextAction v)] of
        Some e \<Rightarrow> Some e
      | None \<Rightarrow>
          if \<not> Op_Idempotent v \<or> \<not> Op_PolicyAware v \<or> \<not> Op_RollbackRequired v
          then Some (invalid path ''operation.safety-flags''
            ''idempotent, policyAware, and rollbackRequired must all be true'')
          else None)"

definition validateOperations :: "string \<Rightarrow> Operations \<Rightarrow> ValidationError option" where
  "validateOperations prefix ops =
     first_error (validateOperation prefix)
       [(''install'', Ops_Install ops), (''update'', Ops_Update ops), (''remove'', Ops_Remove ops),
        (''suspend'', Ops_Suspend ops), (''deprecate'', Ops_Deprecate ops)]"

definition validateDependency :: "string \<Rightarrow> Module \<Rightarrow> nat \<times> Dependency \<Rightarrow> ValidationError option" where
  "validateDependency prefix m item =
     (let (index, dep) = item; path = prefix @ ''.dependencies['' @ itoa index @ '']'' in
      if \<not> MatchString moduleIdentifierPattern (Dep_ModuleID dep)
      then Some (invalid (path @ ''.moduleId'') ''dependency.module-id'' ''must be a lowercase stable identifier'')
      else if Dep_ModuleID dep = Mod_ID m
      then Some (invalid (path @ ''.moduleId'') ''dependency.self'' ''a module cannot depend on itself'')
      else if Dep_State dep \<noteq> ''installed'' \<and> Dep_State dep \<noteq> ''installable''
      then Some (invalid (path @ ''.state'') ''dependency.state'' ''must be installed or installable'')
      else None)"

definition validateModule :: "nat \<Rightarrow> Module \<Rightarrow> (string, Module) gomap \<Rightarrow> ValidationError option" where
  "validateModule index m known =
     (let prefix = ''modules['' @ itoa index @ '']'' in
      if \<not> MatchString moduleIdentifierPattern (Mod_ID m)
      then Some (invalid (prefix @ ''.id'') ''module.id'' ''must be a lowercase stable identifier'')
      else if map_of known (Mod_ID m) \<noteq> None
      then Some (invalid (prefix @ ''.id'') ''module.id.duplicate'' ''module IDs must be unique'')
      else case requireFields prefix ''module.required''
          [(''displayName'', Mod_DisplayName m), (''channel'', Mod_Channel m),
           (''version'', Mod_Version m), (''entitlementScope'', Mod_EntitlementScope m)] of
        Some e \<Rightarrow> Some e
      | None \<Rightarrow>
      if \<not> validPackageRef (Mod_PackageRef m)
      then Some (invalid (prefix @ ''.packageRef'') ''module.package-reference''
        ''must be a relative provider-neutral package path'')
      else if \<not> validModuleState (Mod_State m)
      then Some (invalid (prefix @ ''.state'') ''module.state'' ''is not a supported lifecycle state'')
      else case validateLifecycleStates prefix (Mod_LifecycleStates m) of
        Some e \<Rightarrow> Some e
      | None \<Rightarrow>
      if Mod_ServiceImplementationRefs m \<noteq> None
      then Some (invalid (prefix @ ''.serviceImplementationRefs'') ''module.implementation-reference''
        ''public registry records must not carry service implementation references'')
      else case first_error (validateDependency prefix m) (enumerate 0 (Mod_Dependencies m)) of
        Some e \<Rightarrow> Some e
      | None \<Rightarrow> validateOperations (prefix @ ''.operations'') (Mod_Operations m))"

fun indexModules ::
  "nat \<Rightarrow> Module list \<Rightarrow> (string, Module) gomap \<Rightarrow> ValidationError + (string, Module) gomap" where
  "indexModules index [] known = Inr known"
| "indexModules index (m # ms) known =
     (case validateModule index m known of
        Some e \<Rightarrow> Inl e
      | None \<Rightarrow> indexModules (index + 1) ms (map_put (Mod_ID m) m known))"

subsection \<open>Dependencies\<close>

definition moduleDependencies :: "(string, Module) gomap \<Rightarrow> string \<Rightarrow> string list" where
  "moduleDependencies known i =
     (case map_of known i of None \<Rightarrow> [] | Some m \<Rightarrow> map Dep_ModuleID (Mod_Dependencies m))"

definition dependencyCycle :: ValidationError where
  "dependencyCycle = invalid ''modules.dependencies'' ''dependency.cycle'' ''dependency graph must be acyclic''"

text \<open>
  Each level of the search adds a declared module to those being visited, or looks at a
  module without dependencies.
\<close>

definition unvisited :: "(string, Module) gomap \<Rightarrow> string list \<Rightarrow> nat" where
  "unvisited known visiting = card (fst ` set known - set visiting)"

lemma moduleDependencies_known: "moduleDependencies known i \<noteq> [] \<Longrightarrow> i \<in> fst ` set known"
  by (cases "map_of known i") (auto simp: moduleDependencies_def dest: map_of_SomeD intro: rev_image_eqI)

lemma unvisited_Cons:
  assumes "i \<notin> set visiting" and "moduleDependencies known i \<noteq> []"
  shows "unvisited known (i # visiting) < unvisited known visiting"
proof -
  have "i \<in> fst ` set known"
    using assms(2) by (rule moduleDependencies_known)
  with assms(1) show ?thesis
    unfolding unvisited_def by (intro psubset_card_mono) auto
qed

lemma unvisited_le: "unvisited known (i # visiting) \<le> unvisited known visiting"
  unfolding unvisited_def by (intro card_mono) auto

text \<open>
  \<open>visit\<close> returns the visited modules, or the cycle error; \<open>visitAll\<close> is the loop over
  the dependencies of one module.
\<close>

function visit :: "(string, Module) gomap \<Rightarrow> string \<Rightarrow> string list \<Rightarrow> string list \<Rightarrow> ValidationError + string list"
  and visitAll :: "(string, Module) gomap \<Rightarrow> string list \<Rightarrow> string list \<Rightarrow> string list \<Rightarrow> ValidationError + string list"
where
  "visit known i visiting visited =
     (if i \<in> set visiting then Inl dependencyCycle
      else if i \<in> set visited then Inr visited
      else case visitAll known (moduleDependencies known i) (i # visiting) visited of
        Inl e \<Rightarrow> Inl e
      | Inr visited' \<Rightarrow> Inr (i # visited'))"
| "visitAll known [] visiting visited = Inr visited"
| "visitAll known (d # ds) visiting visited =
     (case visit known d visiting visited of
        Inl e \<Rightarrow> Inl e
      | Inr visited' \<Rightarrow> visitAll known ds visiting visited')"
  by pat_completeness auto

termination
proof (relation "measures [\<lambda>x. case x of Inl (known, i, visiting, visited) \<Rightarrow> unvisited known visiting
        | Inr (known, ds, visiting, visited) \<Rightarrow> unvisited known visiting,
      \<lambda>x. case x of Inl _ \<Rightarrow> 1 | Inr (known, ds, visiting, visited) \<Rightarrow> 2 * length ds]"; simp)
  fix known i and visiting visited :: "string list"
  assume "i \<notin> set visiting"
  then show "unvisited known (i # visiting) < unvisited known visiting \<or>
      unvisited known (i # visiting) = unvisited known visiting \<and> moduleDependencies known i = []"
    using unvisited_Cons [of i visiting known] unvisited_le [of known i visiting]
    by (cases "moduleDependencies known i = []") auto
qed

declare visit.simps [simp del]

definition missingDependency ::
  "(string, Module) gomap \<Rightarrow> nat \<times> Module \<Rightarrow> ValidationError option" where
  "missingDependency known item =
     (let (index, m) = item in
      first_error (\<lambda>(dependencyIndex, dep).
        if map_of known (Dep_ModuleID dep) = None
        then Some (invalid (''modules['' @ itoa index @ ''].dependencies['' @ itoa dependencyIndex @
          ''].moduleId'') ''dependency.missing'' ''dependency module is not declared'')
        else None) (enumerate 0 (Mod_Dependencies m)))"

definition validateDependencies :: "Module list \<Rightarrow> (string, Module) gomap \<Rightarrow> ValidationError option" where
  "validateDependencies modules known =
     (case first_error (missingDependency known) (enumerate 0 modules) of
        Some e \<Rightarrow> Some e
      | None \<Rightarrow>
          (case visitAll known (map Mod_ID modules) [] [] of Inl e \<Rightarrow> Some e | Inr _ \<Rightarrow> None))"

subsection \<open>Plans and the document\<close>

definition validatePlan ::
  "nat \<Rightarrow> PlanRequest \<Rightarrow> (string, Module) gomap \<Rightarrow> string list \<Rightarrow> ValidationError + string list" where
  "validatePlan index plan modules seen =
     (let prefix = ''planRequests['' @ itoa index @ '']'' in
      if \<not> MatchString moduleIdentifierPattern (Plan_Name plan)
      then Inl (invalid (prefix @ ''.name'') ''plan.name'' ''must be a lowercase stable identifier'')
      else if Plan_Name plan \<in> set seen
      then Inl (invalid (prefix @ ''.name'') ''plan.name.duplicate'' ''plan names must be unique'')
      else case map_of modules (Plan_ModuleID plan) of
        None \<Rightarrow> Inl (invalid (prefix @ ''.moduleId'') ''plan.module-missing'' ''plan module is not declared'')
      | Some m \<Rightarrow>
          if \<not> validOperation (Plan_Action plan)
          then Inl (invalid (prefix @ ''.action'') ''plan.action'' ''is not a supported operation'')
          else if \<not> validModuleState (Plan_CurrentState plan) \<or> TrimSpace (Plan_CurrentState plan) = []
          then Inl (invalid (prefix @ ''.currentState'') ''plan.current-state''
            ''must be a supported lifecycle state'')
          else if TrimSpace (Plan_TargetVersion plan) = [] \<or> Plan_TargetVersion plan \<noteq> Mod_Version m
          then Inl (invalid (prefix @ ''.targetVersion'') ''plan.target-version''
            ''must match the declared module version'')
          else Inr (Plan_Name plan # seen))"

fun validatePlans ::
  "nat \<Rightarrow> PlanRequest list \<Rightarrow> (string, Module) gomap \<Rightarrow> string list \<Rightarrow> ValidationError option" where
  "validatePlans index [] modules seen = None"
| "validatePlans index (plan # plans) modules seen =
     (case validatePlan index plan modules seen of
        Inl e \<Rightarrow> Some e
      | Inr seen' \<Rightarrow> validatePlans (index + 1) plans modules seen')"

definition Registry_Validate :: "Registry \<Rightarrow> ValidationError option" where
  "Registry_Validate r =
     (if Reg_SchemaVersion r \<noteq> RegistrySchemaVersion
      then Some (invalid ''schemaVersion'' ''schema.version'' ''must be the CloudRING module registry v1 contract'')
      else if \<not> MatchString moduleIdentifierPattern (Reg_RegistryID r)
      then Some (invalid ''registryId'' ''registry.id'' ''must be a lowercase stable identifier'')
      else if TrimSpace (Reg_ModelVersion r) = []
      then Some (invalid ''modelVersion'' ''registry.model-version'' ''must not be empty'')
      else case validateSourceSafety (Reg_SourceSafety r) of
        Some e \<Rightarrow> Some e
      | None \<Rightarrow> (case validateResolution (Reg_DependencyResolution r) of
          Some e \<Rightarrow> Some e
        | None \<Rightarrow>
            if Reg_Modules r = []
            then Some (invalid ''modules'' ''modules.empty'' ''at least one module is required'')
            else (case indexModules 0 (Reg_Modules r) [] of
              Inl e \<Rightarrow> Some e
            | Inr moduleIndex \<Rightarrow> (case validateDependencies (Reg_Modules r) moduleIndex of
                Some e \<Rightarrow> Some e
              | None \<Rightarrow>
                  if Reg_PlanRequests r = []
                  then Some (invalid ''planRequests'' ''plans.empty'' ''at least one plan request is required'')
                  else validatePlans 0 (Reg_PlanRequests r) moduleIndex []))))"

subsection \<open>The search finds the cycles\<close>

definition depends :: "(string, Module) gomap \<Rightarrow> (string \<times> string) set" where
  "depends known = {(i, d). d \<in> set (moduleDependencies known i)}"

text \<open>A list in which the dependencies of every module come after it.\<close>

fun topological :: "(string, Module) gomap \<Rightarrow> string list \<Rightarrow> bool" where
  "topological known [] \<longleftrightarrow> True"
| "topological known (i # is) \<longleftrightarrow>
     i \<notin> set is \<and> set (moduleDependencies known i) \<subseteq> set is \<and> topological known is"

lemma visit_sound:
  "topological known visited \<Longrightarrow> set visiting \<inter> set visited = {} \<Longrightarrow>
     visit known i visiting visited = Inr fin \<Longrightarrow>
     topological known fin \<and> insert i (set visited) \<subseteq> set fin \<and> set visiting \<inter> set fin = {}"
  "topological known visited \<Longrightarrow> set visiting \<inter> set visited = {} \<Longrightarrow>
     visitAll known ds visiting visited = Inr fin \<Longrightarrow>
     topological known fin \<and> set ds \<union> set visited \<subseteq> set fin \<and> set visiting \<inter> set fin = {}"
proof (induction known i visiting visited and known ds visiting visited arbitrary: fin and fin
    rule: visit_visitAll.induct)
  case (1 known i visiting visited)
  show ?case
  proof (cases "i \<in> set visited")
    case True
    with 1 show ?thesis by (auto simp: visit.simps split: if_splits)
  next
    case False
    then obtain rest where i: "i \<notin> set visiting" "fin = i # rest"
      and rest: "visitAll known (moduleDependencies known i) (i # visiting) visited = Inr rest"
      using 1(4) by (auto simp: visit.simps [of known i] split: if_splits sum.splits)
    from 1(1) [OF i(1) False 1(2) _ rest] 1(3) False i(1)
    show ?thesis by (auto simp: i(2))
  qed
next
  case (3 known d ds visiting visited)
  then obtain mid where mid: "visit known d visiting visited = Inr mid"
    "visitAll known ds visiting mid = Inr fin" by (auto split: sum.splits)
  from 3(1) [OF 3(3,4) mid(1)] 3(2) [OF mid(1) _ _ mid(2)] show ?case by auto
qed simp

lemma topological_acyclic:
  "topological known is \<Longrightarrow> (x, y) \<in> (depends known)\<^sup>+ \<Longrightarrow> x \<in> set is \<Longrightarrow>
     \<exists>us vs. is = us @ x # vs \<and> y \<in> set vs"
proof (induction "is")
  case (Cons i "is")
  have closed: "b \<in> set is" if "a \<in> set (i # is)" "(a, b) \<in> depends known" for a b
    using Cons.prems(1) that
  proof (induction "is" arbitrary: i)
    case (Cons j js)
    then show ?case by (cases "a = i") (auto simp: depends_def)
  qed (auto simp: depends_def)
  have later: "b \<in> set is" if "(a, b) \<in> (depends known)\<^sup>+" "a \<in> set (i # is)" for a b
    using that by (induction rule: trancl_induct) (auto intro: closed)
  show ?case
  proof (cases "x = i")
    case True
    then show ?thesis using later [OF Cons.prems(2,3)] by (intro exI [of _ "[]"] exI [of _ "is"]) auto
  next
    case False
    with Cons obtain us vs where "is = us @ x # vs" "y \<in> set vs" by auto
    then show ?thesis by (intro exI [of _ "i # us"] exI [of _ vs]) auto
  qed
qed simp

lemma topological_distinct: "topological known is \<Longrightarrow> distinct is"
  by (induction "is") auto

text \<open>When the search fails, the module under visit is reachable from itself.\<close>

lemma visit_complete:
  "visit known i visiting visited = Inl e \<Longrightarrow> \<forall>v \<in> set visiting. (v, i) \<in> (depends known)\<^sup>+ \<Longrightarrow>
     e = dependencyCycle \<and> \<not> acyclic (depends known)"
  "visitAll known ds visiting visited = Inl e \<Longrightarrow>
     \<forall>v \<in> set visiting. \<forall>d \<in> set ds. (v, d) \<in> (depends known)\<^sup>+ \<Longrightarrow>
     e = dependencyCycle \<and> \<not> acyclic (depends known)"
proof (induction known i visiting visited and known ds visiting visited arbitrary: e and e
    rule: visit_visitAll.induct)
  case (1 known i visiting visited)
  show ?case
  proof (cases "i \<in> set visiting")
    case True
    with 1(2,3) show ?thesis by (auto simp: visit.simps acyclic_def)
  next
    case False
    then have new: "i \<notin> set visited"
      and rest: "visitAll known (moduleDependencies known i) (i # visiting) visited = Inl e"
      using 1(2) by (auto simp: visit.simps [of known i] split: if_splits sum.splits)
    have "(v, d) \<in> (depends known)\<^sup>+" if "v \<in> set (i # visiting)" "d \<in> set (moduleDependencies known i)" for v d
    proof -
      have "(i, d) \<in> depends known" using that(2) by (simp add: depends_def)
      with that(1) 1(3) show ?thesis by (auto intro: trancl_into_trancl)
    qed
    with 1(1) [OF False new rest] show ?thesis by blast
  qed
next
  case (3 known d ds visiting visited)
  show ?case
  proof (cases "visit known d visiting visited")
    case (Inl x)
    with 3 show ?thesis by auto
  next
    case (Inr mid)
    with 3(2) [OF Inr] 3(3,4) show ?thesis by auto
  qed
qed simp

lemma visitAll_iff:
  assumes "fst ` set known \<subseteq> set ids"
  shows "(\<exists>visited. visitAll known ids [] [] = Inr visited) \<longleftrightarrow> acyclic (depends known)"
proof
  assume "\<exists>visited. visitAll known ids [] [] = Inr visited"
  then obtain visited where "visitAll known ids [] [] = Inr visited" by blast
  from visit_sound(2) [OF _ _ this]
  have topo: "topological known visited" "set ids \<subseteq> set visited" by auto
  show "acyclic (depends known)"
    unfolding acyclic_def
  proof (intro allI notI)
    fix x assume x: "(x, x) \<in> (depends known)\<^sup>+"
    then obtain y where "(x, y) \<in> depends known" by (meson tranclD)
    then have "x \<in> fst ` set known"
      using moduleDependencies_known [of known x] by (cases "moduleDependencies known x") (auto simp: depends_def)
    then have "x \<in> set visited" using assms topo(2) by blast
    with topological_acyclic [OF topo(1) x] topological_distinct [OF topo(1)] show False by auto
  qed
next
  assume "acyclic (depends known)"
  then show "\<exists>visited. visitAll known ids [] [] = Inr visited"
    using visit_complete(2) [of known ids "[]" "[]"] by (cases "visitAll known ids [] []") auto
qed

subsection \<open>What a valid document has\<close>

lemma indexModules_result:
  "indexModules n ms known = Inr known' \<Longrightarrow> go_map known \<Longrightarrow>
     known' = known @ map (\<lambda>m. (Mod_ID m, m)) ms \<and> go_map known' \<and>
     (\<forall>m \<in> set ms. \<exists>index known. validateModule index m known = None)"
proof (induction n ms known rule: indexModules.induct)
  case (2 n m ms known)
  then have ok: "validateModule n m known = None"
    and rest: "indexModules (n + 1) ms (map_put (Mod_ID m) m known) = Inr known'"
    by (auto split: option.splits)
  have "Mod_ID m \<notin> fst ` set known"
    using ok by (auto simp: validateModule_def Let_def map_of_eq_None_iff split: if_splits)
  then have "map_put (Mod_ID m) m known = known @ [(Mod_ID m, m)]" by (rule map_put_fresh)
  moreover have "go_map (map_put (Mod_ID m) m known)" using 2(3) by simp
  ultimately show ?case using 2(1) [OF ok rest] ok by auto
qed simp

lemma go_map_indexed:
  assumes "go_map (map (\<lambda>m. (Mod_ID m, m)) ms)"
  shows "distinct (map Mod_ID ms)" and "map_of (map (\<lambda>m. (Mod_ID m, m)) ms) i = None \<longleftrightarrow> i \<notin> Mod_ID ` set ms"
    and "depends (map (\<lambda>m. (Mod_ID m, m)) ms) = {(Mod_ID m, Dep_ModuleID d) |m d. m \<in> set ms \<and> d \<in> set (Mod_Dependencies m)}"
proof -
  show "distinct (map Mod_ID ms)" using assms by (simp add: go_map_def comp_def)
  show "map_of (map (\<lambda>m. (Mod_ID m, m)) ms) i = None \<longleftrightarrow> i \<notin> Mod_ID ` set ms"
    by (force simp: map_of_eq_None_iff)
  have look: "map_of (map (\<lambda>m. (Mod_ID m, m)) ms) i = Some m \<longleftrightarrow> m \<in> set ms \<and> i = Mod_ID m" for i m
    using go_map_lookup [OF assms] by auto
  show "depends (map (\<lambda>m. (Mod_ID m, m)) ms) = {(Mod_ID m, Dep_ModuleID d) |m d. m \<in> set ms \<and> d \<in> set (Mod_Dependencies m)}"
    unfolding depends_def moduleDependencies_def
    by (auto simp: look eq_commute [of "Some _"] split: option.splits)
qed

lemma enumerate_ball: "(\<forall>x \<in> set (enumerate n xs). P (snd x)) \<longleftrightarrow> (\<forall>x \<in> set xs. P x)"
  by (metis (no_types, lifting) image_iff list.set_map map_snd_enumerate)

lemma missing_iff:
  "first_error (missingDependency known) (enumerate 0 ms) = None \<longleftrightarrow>
     (\<forall>m \<in> set ms. \<forall>d \<in> set (Mod_Dependencies m). map_of known (Dep_ModuleID d) \<noteq> None)"
proof -
  have "missingDependency known x = None \<longleftrightarrow>
      (\<forall>d \<in> set (Mod_Dependencies (snd x)). map_of known (Dep_ModuleID d) \<noteq> None)" for x
    unfolding missingDependency_def case_prod_beta Let_def guards
    using enumerate_ball [where P = "\<lambda>d. map_of known (Dep_ModuleID d) \<noteq> None"] by simp
  then show ?thesis unfolding guards
    using enumerate_ball [where P = "\<lambda>m. \<forall>d \<in> set (Mod_Dependencies m). map_of known (Dep_ModuleID d) \<noteq> None"]
    by simp
qed

lemma validateDependencies_iff:
  assumes "known = map (\<lambda>m. (Mod_ID m, m)) ms"
  shows "validateDependencies ms known = None \<longleftrightarrow>
    (\<forall>m \<in> set ms. \<forall>d \<in> set (Mod_Dependencies m). map_of known (Dep_ModuleID d) \<noteq> None) \<and>
    acyclic (depends known)"
proof -
  have "(case visitAll known (map Mod_ID ms) [] [] of Inl e \<Rightarrow> Some e | Inr _ \<Rightarrow> None) = None \<longleftrightarrow>
      (\<exists>visited. visitAll known (map Mod_ID ms) [] [] = Inr visited)"
    by (cases "visitAll known (map Mod_ID ms) [] []") auto
  also have "\<dots> \<longleftrightarrow> acyclic (depends known)"
    by (rule visitAll_iff) (simp add: assms image_image)
  finally show ?thesis
    unfolding validateDependencies_def missing_iff [symmetric]
    by (cases "first_error (missingDependency known) (enumerate 0 ms)") auto
qed

lemma Registry_Validate_parts:
  assumes "Registry_Validate r = None"
  obtains known where "indexModules 0 (Reg_Modules r) [] = Inr known"
    "validateDependencies (Reg_Modules r) known = None" "validatePlans 0 (Reg_PlanRequests r) known [] = None"
    "validateSourceSafety (Reg_SourceSafety r) = None" "Reg_Modules r \<noteq> []"
  using assms that by (auto simp: Registry_Validate_def split: if_splits option.splits sum.splits)

lemma validatePlans_ok:
  "validatePlans n plans known seen = None \<Longrightarrow>
     \<forall>p \<in> set plans. \<exists>m. map_of known (Plan_ModuleID p) = Some m \<and> Plan_TargetVersion p = Mod_Version m \<and>
       validOperation (Plan_Action p) \<and> validModuleState (Plan_CurrentState p)"
  "validatePlans n plans known seen = None \<Longrightarrow> distinct (map Plan_Name plans) \<and> Plan_Name ` set plans \<inter> set seen = {}"
proof (induction n plans known seen rule: validatePlans.induct)
  case (2 n plan plans known seen)
  {
    case 1
    then obtain seen' where "validatePlan n plan known seen = Inr seen'" "validatePlans (n + 1) plans known seen' = None"
      by (auto split: sum.splits)
    with 2(1) show ?case
      by (auto simp: validatePlan_def Let_def split: if_splits option.splits)
  next
    case 2
    then obtain seen' where "validatePlan n plan known seen = Inr seen'" "validatePlans (n + 1) plans known seen' = None"
      by (auto split: sum.splits)
    with 2(1) \<open>\<And>x. validatePlan n plan known seen = Inr x \<Longrightarrow> validatePlans (n + 1) plans known x = None \<Longrightarrow>
      distinct (map Plan_Name plans) \<and> Plan_Name ` set plans \<inter> set x = {}\<close>
    show ?case
      by (auto simp: validatePlan_def Let_def split: if_splits option.splits)
  }
qed simp_all

lemma validateModule_ok:
  assumes "validateModule index m known = None"
  shows "validPackageRef (Mod_PackageRef m)" "Mod_ServiceImplementationRefs m = None"
    "\<forall>op \<in> {Ops_Install (Mod_Operations m), Ops_Update (Mod_Operations m), Ops_Remove (Mod_Operations m),
       Ops_Suspend (Mod_Operations m), Ops_Deprecate (Mod_Operations m)}.
       Op_Idempotent op \<and> Op_PolicyAware op \<and> Op_RollbackRequired op"
proof -
  have parts: "validPackageRef (Mod_PackageRef m)" "Mod_ServiceImplementationRefs m = None"
    "\<exists>prefix. validateOperations prefix (Mod_Operations m) = None"
    using assms by (auto simp: validateModule_def Let_def split: if_splits option.splits)
  then show "validPackageRef (Mod_PackageRef m)" "Mod_ServiceImplementationRefs m = None" by simp_all
  have "Op_Idempotent v \<and> Op_PolicyAware v \<and> Op_RollbackRequired v" if "validateOperation prefix (name, v) = None"
    for prefix name v
    using that by (auto simp: validateOperation_def Let_def split: if_splits option.splits)
  with parts(3) show "\<forall>op \<in> {Ops_Install (Mod_Operations m), Ops_Update (Mod_Operations m), Ops_Remove (Mod_Operations m),
       Ops_Suspend (Mod_Operations m), Ops_Deprecate (Mod_Operations m)}.
       Op_Idempotent op \<and> Op_PolicyAware op \<and> Op_RollbackRequired op"
    unfolding validateOperations_def guards by auto
qed

end
