(* ===== verification/Registry_Properties.thy ===== *)
theory Registry_Properties
  imports Module_Registry
begin

text \<open>
  Properties of module registry documents: what a document that passes validation
  guarantees, that the dependency check is exact, and which package references are
  accepted.
\<close>

subsection \<open>A document for the witnesses\<close>

definition ex_op :: "string \<Rightarrow> Operation" where
  "ex_op name = \<lparr>Op_Action = name, Op_OperationID = ''o'', Op_Idempotent = True, Op_IdempotencyKey = ''k'',
     Op_PolicyAware = True, Op_AuditReceiptRef = ''a'', Op_EvidenceReceiptRef = ''e'',
     Op_RollbackRequired = True, Op_RollbackHookRef = ''h'', Op_NextAction = ''n''\<rparr>"

definition ex_module :: "string \<Rightarrow> Dependency list \<Rightarrow> Module" where
  "ex_module i deps = \<lparr>Mod_ID = i, Mod_DisplayName = ''M'', Mod_PackageRef = ''m/p'',
     Mod_Channel = ''s'', Mod_Version = ''1'', Mod_State = ''installable'',
     Mod_LifecycleStates = [''installable'', ''installed'', ''suspended'', ''deprecated'', ''not-installed''],
     Mod_Dependencies = deps, Mod_EntitlementScope = ''t'',
     Mod_Operations = \<lparr>Ops_Install = ex_op ''install'', Ops_Update = ex_op ''update'', Ops_Remove = ex_op ''remove'',
       Ops_Suspend = ex_op ''suspend'', Ops_Deprecate = ex_op ''deprecate''\<rparr>,
     Mod_ServiceImplementationRefs = None\<rparr>"

definition ex_modules :: "Module list" where
  "ex_modules = [ex_module ''app'' [\<lparr>Dep_ModuleID = ''core'', Dep_State = ''installed''\<rparr>], ex_module ''core'' []]"

definition ex_registry :: Registry where
  "ex_registry = \<lparr>Reg_SchemaVersion = RegistrySchemaVersion, Reg_RegistryID = ''registry'', Reg_ModelVersion = ''v1'',
     Reg_SourceSafety = \<lparr>Safety_SyntheticFixture = True, Safety_ContainsServiceImplementationRefs = False,
       Safety_ContainsProviderEndpoints = False, Safety_ContainsSecrets = False, Safety_MutatesServices = False\<rparr>,
     Reg_DependencyResolution = \<lparr>Resol_Strategy = ''topological'', Resol_CyclePolicy = ''block'',
       Resol_MissingDependencyPolicy = ''block'', Resol_EvidenceRef = ''ref''\<rparr>,
     Reg_Modules = ex_modules,
     Reg_PlanRequests = [\<lparr>Plan_Name = ''plan'', Plan_ModuleID = ''app'', Plan_Action = ''install'',
       Plan_CurrentState = ''not-installed'', Plan_TargetVersion = ''1''\<rparr>]\<rparr>"

lemma ex_registry_valid: "Registry_Validate ex_registry = None"
  by code_simp

lemma ex_modules_indexed:
  "indexModules 0 ex_modules [] = Inr (map (\<lambda>m. (Mod_ID m, m)) ex_modules)"
proof -
  obtain known where "indexModules 0 (Reg_Modules ex_registry) [] = Inr known"
    using ex_registry_valid by (rule Registry_Validate_parts)
  with indexModules_result [OF this go_map_Nil] show ?thesis by (simp add: ex_registry_def)
qed

subsection \<open>Properties\<close>

text \<open>
  C9. Once the modules of a document are indexed, the dependency check (its recursive
  search included) accepts exactly the documents in which every dependency is declared
  and the dependency relation has no cycle: no cycle is missed and none is reported in
  vain.
\<close>

theorem dependency_check_exact:
  assumes "indexModules 0 ms [] = Inr known"
  shows "validateDependencies ms known = None \<longleftrightarrow>
    (\<forall>m \<in> set ms. \<forall>d \<in> set (Mod_Dependencies m). Dep_ModuleID d \<in> Mod_ID ` set ms) \<and>
    acyclic {(Mod_ID m, Dep_ModuleID d) |m d. m \<in> set ms \<and> d \<in> set (Mod_Dependencies m)}"
proof -
  have known: "known = map (\<lambda>m. (Mod_ID m, m)) ms" "go_map known"
    using indexModules_result [OF assms go_map_Nil] by auto
  note indexed = go_map_indexed [of ms, folded known(1), OF known(2)]
  show ?thesis
    unfolding validateDependencies_iff [OF known(1)] indexed(3)
    using indexed(2) by simp
qed

theorem dependency_check_exact_witness:
  "validateDependencies ex_modules (map (\<lambda>m. (Mod_ID m, m)) ex_modules) = None \<and>
   acyclic {(Mod_ID m, Dep_ModuleID d) |m d. m \<in> set ex_modules \<and> d \<in> set (Mod_Dependencies m)}"
proof -
  have "validateDependencies ex_modules (map (\<lambda>m. (Mod_ID m, m)) ex_modules) = None" by code_simp
  then show ?thesis using dependency_check_exact [OF ex_modules_indexed] by blast
qed

text \<open>
  C22. The modules of a valid document can be installed one after another: they can be
  arranged in an order without repetition in which every module comes after all modules
  it depends on.
\<close>

theorem valid_registry_has_install_order:
  assumes "Registry_Validate r = None"
  shows "\<exists>order. distinct order \<and> set order = Mod_ID ` set (Reg_Modules r) \<and>
    (\<forall>m \<in> set (Reg_Modules r). \<forall>d \<in> set (Mod_Dependencies m).
       \<exists>before after. order = before @ Mod_ID m # after \<and> Dep_ModuleID d \<in> set before)"
proof -
  let ?ms = "Reg_Modules r"
  obtain known where parts: "indexModules 0 ?ms [] = Inr known" "validateDependencies ?ms known = None"
    using assms by (rule Registry_Validate_parts)
  have known: "known = map (\<lambda>m. (Mod_ID m, m)) ?ms" "go_map known"
    using indexModules_result [OF parts(1) go_map_Nil] by auto
  note indexed = go_map_indexed [of ?ms, folded known(1), OF known(2)]
  from parts(2) have "acyclic (depends known)"
    and declared: "\<forall>m \<in> set ?ms. \<forall>d \<in> set (Mod_Dependencies m). Dep_ModuleID d \<in> Mod_ID ` set ?ms"
    unfolding validateDependencies_iff [OF known(1)] using indexed(2) by simp_all
  moreover have "fst ` set known \<subseteq> set (map Mod_ID ?ms)" using known(1) by auto
  ultimately obtain visited where "visitAll known (map Mod_ID ?ms) [] [] = Inr visited"
    using visitAll_iff by blast
  from visit_sound(2) [OF _ _ this]
  have topo: "topological known visited" "Mod_ID ` set ?ms \<subseteq> set visited" by auto
  let ?order = "rev (filter (\<lambda>i. i \<in> Mod_ID ` set ?ms) visited)"
  have "\<exists>before after. ?order = before @ Mod_ID m # after \<and> Dep_ModuleID d \<in> set before"
    if m: "m \<in> set ?ms" "d \<in> set (Mod_Dependencies m)" for m d
  proof -
    have "(Mod_ID m, Dep_ModuleID d) \<in> (depends known)\<^sup>+" "Mod_ID m \<in> set visited"
      using m topo(2) unfolding indexed(3) by blast+
    from topological_acyclic [OF topo(1) this] obtain us vs
      where "visited = us @ Mod_ID m # vs" "Dep_ModuleID d \<in> set vs" by blast
    with declared m show ?thesis
      by (intro exI [of _ "rev (filter (\<lambda>i. i \<in> Mod_ID ` set ?ms) vs)"]
          exI [of _ "rev (filter (\<lambda>i. i \<in> Mod_ID ` set ?ms) us)"]) simp
  qed
  moreover have "distinct ?order" "set ?order = Mod_ID ` set ?ms"
    using topological_distinct [OF topo(1)] topo(2) by auto
  ultimately show ?thesis by blast
qed

theorem valid_registry_has_install_order_witness:
  "Registry_Validate ex_registry = None \<and>
   (\<exists>order. distinct order \<and> set order = Mod_ID ` set (Reg_Modules ex_registry))"
  using valid_registry_has_install_order [OF ex_registry_valid] ex_registry_valid by blast

text \<open>
  C36. A valid document names every module and every plan once, every plan asks for a
  supported operation on a declared module in its declared version, and no module
  carries an implementation reference or an operation that is not idempotent, policy
  aware and reversible.
\<close>

theorem valid_registry_is_sound:
  assumes "Registry_Validate r = None"
  shows "distinct (map Mod_ID (Reg_Modules r)) \<and> distinct (map Plan_Name (Reg_PlanRequests r)) \<and>
    (\<forall>p \<in> set (Reg_PlanRequests r). validOperation (Plan_Action p) \<and>
       (\<exists>m \<in> set (Reg_Modules r). Mod_ID m = Plan_ModuleID p \<and> Mod_Version m = Plan_TargetVersion p)) \<and>
    (\<forall>m \<in> set (Reg_Modules r). Mod_ServiceImplementationRefs m = None \<and>
       (\<forall>op \<in> {Ops_Install (Mod_Operations m), Ops_Update (Mod_Operations m), Ops_Remove (Mod_Operations m),
          Ops_Suspend (Mod_Operations m), Ops_Deprecate (Mod_Operations m)}.
          Op_Idempotent op \<and> Op_PolicyAware op \<and> Op_RollbackRequired op))"
proof -
  obtain known where parts: "indexModules 0 (Reg_Modules r) [] = Inr known"
    "validatePlans 0 (Reg_PlanRequests r) known [] = None"
    using assms by (rule Registry_Validate_parts)
  have known: "known = map (\<lambda>m. (Mod_ID m, m)) (Reg_Modules r)" "go_map known"
    and modules: "\<forall>m \<in> set (Reg_Modules r). \<exists>index known. validateModule index m known = None"
    using indexModules_result [OF parts(1) go_map_Nil] by auto
  have "distinct (map Mod_ID (Reg_Modules r))"
    using go_map_indexed(1) known by simp
  moreover have "distinct (map Plan_Name (Reg_PlanRequests r))"
    using validatePlans_ok(2) [OF parts(2)] by simp
  moreover have "validOperation (Plan_Action p) \<and>
      (\<exists>m \<in> set (Reg_Modules r). Mod_ID m = Plan_ModuleID p \<and> Mod_Version m = Plan_TargetVersion p)"
    if p: "p \<in> set (Reg_PlanRequests r)" for p
  proof -
    obtain m where m: "map_of known (Plan_ModuleID p) = Some m" "Plan_TargetVersion p = Mod_Version m"
      "validOperation (Plan_Action p)"
      using validatePlans_ok(1) [OF parts(2)] p by auto
    from map_of_SomeD [OF m(1)] have "m \<in> set (Reg_Modules r)" "Mod_ID m = Plan_ModuleID p"
      using known(1) by auto
    with m show ?thesis by auto
  qed
  moreover have "Mod_ServiceImplementationRefs m = None \<and>
       (\<forall>op \<in> {Ops_Install (Mod_Operations m), Ops_Update (Mod_Operations m), Ops_Remove (Mod_Operations m),
          Ops_Suspend (Mod_Operations m), Ops_Deprecate (Mod_Operations m)}.
          Op_Idempotent op \<and> Op_PolicyAware op \<and> Op_RollbackRequired op)"
    if "m \<in> set (Reg_Modules r)" for m
    using modules that validateModule_ok(2,3) by metis
  ultimately show ?thesis by blast
qed

theorem valid_registry_is_sound_witness:
  "Registry_Validate ex_registry = None \<and> distinct (map Mod_ID (Reg_Modules ex_registry))"
  using valid_registry_is_sound [OF ex_registry_valid] ex_registry_valid by blast

text \<open>
  C37. An accepted package reference is a sequence of one or more path elements, none of
  them empty, dot or dot-dot, with one exception: the parent directory itself is accepted
  as well, because the check looks for a leading dot-dot only with a slash behind it.
\<close>

theorem package_ref_elements:
  "validPackageRef ''..'' \<and>
   (validPackageRef v \<longrightarrow> v = ''..'' \<or> (\<exists>es. es \<noteq> [] \<and> list_all plain_element es \<and> v = slash_join es))"
proof (intro conjI impI)
  show "validPackageRef ''..''" by code_simp
  assume "validPackageRef v"
  then have "path_Clean v = v" "\<not> path_IsAbs v" "v \<noteq> ''.''" "\<not> has_prefix ''../'' v"
    by (auto simp: validPackageRef_def Let_def)
  from path_Clean_fixpoint [OF this]
  show "v = ''..'' \<or> (\<exists>es. es \<noteq> [] \<and> list_all plain_element es \<and> v = slash_join es)"
    by (auto simp: list_all_iff)
qed

theorem package_ref_elements_witness:
  "validPackageRef ''modules/pkg'' \<and>
   (\<exists>es. es \<noteq> [] \<and> list_all plain_element es \<and> ''modules/pkg'' = slash_join es)"
proof -
  have "validPackageRef ''modules/pkg''" by code_simp
  with package_ref_elements [of "''modules/pkg''"] show ?thesis by auto
qed

end
