(* ===== verification/Go_Json.thy ===== *)
theory Go_Json
  imports Go_Path
begin

text \<open>
  JSON as \<^verbatim>\<open>encoding/json\<close> writes and reads it. Strings are byte sequences: the writer
  escapes control characters, quotes, the HTML characters and the two Unicode line
  separators, and replaces every byte that is not part of a well-formed UTF-8 sequence;
  the reader undoes the escapes. Numbers are kept as their literals, as a decoder with
  \<^verbatim>\<open>UseNumber\<close> does. The main result is the round trip: reading what was written gives
  the value back, with malformed bytes replaced, so that equal texts come from equal
  values.
\<close>

datatype json =
    JNull
  | JBool bool
  | JNumber string
  | JString string
  | JArray "json list"
  | JObject "(string \<times> json) list"

subsection \<open>UTF-8\<close>

definition between :: "char \<Rightarrow> char \<Rightarrow> char \<Rightarrow> bool" where
  "between lo c hi \<longleftrightarrow> lo \<le> c \<and> c \<le> hi"

definition ascii :: "char \<Rightarrow> bool" where
  "ascii c \<longleftrightarrow> c < CHR 0x80"

definition utf8_cont :: "char \<Rightarrow> bool" where
  "utf8_cont c \<longleftrightarrow> between (CHR 0x80) c (CHR 0xBF)"

text \<open>The second byte of a sequence, which excludes overlong forms and surrogates.\<close>

definition utf8_second :: "char \<Rightarrow> char \<Rightarrow> bool" where
  "utf8_second a b \<longleftrightarrow>
     (if a = CHR 0xE0 then between (CHR 0xA0) b (CHR 0xBF)
      else if a = CHR 0xED then between (CHR 0x80) b (CHR 0x9F)
      else if a = CHR 0xF0 then between (CHR 0x90) b (CHR 0xBF)
      else if a = CHR 0xF4 then between (CHR 0x80) b (CHR 0x8F)
      else utf8_cont b)"

text \<open>The length of the multi-byte sequence at the start of a text, 0 if there is none.\<close>

fun utf8_len :: "string \<Rightarrow> nat" where
  "utf8_len (a # b # s) =
     (if between (CHR 0xC2) a (CHR 0xDF) then (if utf8_cont b then 2 else 0)
      else if between (CHR 0xE0) a (CHR 0xEF) then
        (case s of c # _ \<Rightarrow> if utf8_second a b \<and> utf8_cont c then 3 else 0 | _ \<Rightarrow> 0)
      else if between (CHR 0xF0) a (CHR 0xF4) then
        (case s of c # d # _ \<Rightarrow> if utf8_second a b \<and> utf8_cont c \<and> utf8_cont d then 4 else 0 | _ \<Rightarrow> 0)
      else 0)"
| "utf8_len _ = 0"

lemma utf8_len_cases:
  assumes "utf8_len s \<noteq> 0"
  obtains a b t where "s = [a, b] @ t" "utf8_len s = 2" "\<And>u. utf8_len ([a, b] @ u) = 2"
  | a b c t where "s = [a, b, c] @ t" "utf8_len s = 3" "\<And>u. utf8_len ([a, b, c] @ u) = 3"
  | a b c d t where "s = [a, b, c, d] @ t" "utf8_len s = 4" "\<And>u. utf8_len ([a, b, c, d] @ u) = 4"
proof -
  obtain a b r where s: "s = a # b # r" using assms by (cases s rule: utf8_len.cases) auto
  consider "between (CHR 0xC2) a (CHR 0xDF)"
    | "\<not> between (CHR 0xC2) a (CHR 0xDF)" "between (CHR 0xE0) a (CHR 0xEF)"
    | "\<not> between (CHR 0xC2) a (CHR 0xDF)" "\<not> between (CHR 0xE0) a (CHR 0xEF)" "between (CHR 0xF0) a (CHR 0xF4)"
    using assms s by (auto split: if_splits)
  then show thesis
  proof cases
    case 1
    with assms s show thesis by (intro that(1) [of a b r]) (auto split: if_splits)
  next
    case 2
    with assms s obtain c t where "r = c # t" by (cases r) auto
    with assms s 2 show thesis by (intro that(2) [of a b c t]) (auto split: if_splits)
  next
    case 3
    with assms s obtain c d t where "r = c # d # t" by (auto split: list.splits)
    with assms s 3 show thesis by (intro that(3) [of a b c d t]) (auto split: if_splits)
  qed
qed

lemma utf8_len_le: "utf8_len s \<le> length s"
  by (cases "utf8_len s = 0", simp, erule utf8_len_cases) auto

text \<open>
  A text falls into runes: single ASCII bytes, well-formed sequences, and single bytes
  that belong to no well-formed sequence.
\<close>

function runes :: "string \<Rightarrow> string list" where
  "runes s =
     (if s = [] then []
      else if ascii (hd s) \<or> utf8_len s = 0 then [hd s] # runes (tl s)
      else take (utf8_len s) s # runes (drop (utf8_len s) s))"
  by auto
termination by (relation "measure length") auto

declare runes.simps [simp del]

definition malformed :: "string \<Rightarrow> bool" where
  "malformed r \<longleftrightarrow> length r = 1 \<and> \<not> ascii (hd r)"

definition fix_rune :: "string \<Rightarrow> string" where
  "fix_rune r = (if malformed r then [CHR 0xEF, CHR 0xBF, CHR 0xBD] else r)"

definition utf8_fix :: "string \<Rightarrow> string" where
  "utf8_fix s = concat (map fix_rune (runes s))"

definition utf8_Valid :: "string \<Rightarrow> bool" where
  "utf8_Valid s \<longleftrightarrow> \<not> list_ex malformed (runes s)"

text \<open>What a rune can be.\<close>

definition rune_ok :: "string \<Rightarrow> bool" where
  "rune_ok r \<longleftrightarrow> length r = 1 \<or> (utf8_len r = length r \<and> r \<noteq> [] \<and> \<not> ascii (hd r))"

lemma not_ascii_lead: "utf8_len s \<noteq> 0 \<Longrightarrow> \<not> ascii (hd s)"
proof -
  assume "utf8_len s \<noteq> 0"
  then obtain a b r where "s = a # b # r"
    "between (CHR 0xC2) a (CHR 0xDF) \<or> between (CHR 0xE0) a (CHR 0xEF) \<or> between (CHR 0xF0) a (CHR 0xF4)"
    by (cases s rule: utf8_len.cases) (auto split: if_splits)
  then show ?thesis
    by (auto simp: between_def ascii_def less_eq_char_def less_char_def)
qed

lemma utf8_len_take: "utf8_len s \<noteq> 0 \<Longrightarrow> utf8_len (take (utf8_len s) s @ t) = utf8_len s"
  by (erule utf8_len_cases) auto

lemma concat_runes: "concat (runes s) = s"
  by (induction s rule: runes.induct) (subst runes.simps, auto)

lemma runes_ok: "r \<in> set (runes s) \<Longrightarrow> rune_ok r"
proof (induction s rule: runes.induct)
  case (1 s)
  show ?case
  proof (cases "s = [] \<or> ascii (hd s) \<or> utf8_len s = 0")
    case True
    with 1 show ?thesis by (subst (asm) runes.simps) (auto simp: rune_ok_def split: if_splits)
  next
    case False
    then have "rune_ok (take (utf8_len s) s)"
      using utf8_len_take [of s "[]"] utf8_len_le [of s] by (simp add: rune_ok_def)
    with 1 False show ?thesis by (subst (asm) runes.simps) auto
  qed
qed

lemma utf8_fix_id: "utf8_Valid s \<Longrightarrow> utf8_fix s = s"
  unfolding utf8_Valid_def utf8_fix_def
  by (subst (2) concat_runes [symmetric], rule arg_cong [where f = concat])
     (auto simp: fix_rune_def list_ex_iff intro: map_idI)

lemma utf8_Valid_ascii: "list_all ascii s \<Longrightarrow> utf8_Valid s"
proof (induction s)
  case Nil
  then show ?case by (simp add: utf8_Valid_def runes.simps)
next
  case (Cons c s)
  then show ?case unfolding utf8_Valid_def by (subst runes.simps) (auto simp: malformed_def)
qed


subsection \<open>Writing\<close>

definition escape_ascii :: "char \<Rightarrow> string" where
  "escape_ascii c =
     (if c = CHR 0x22 \<or> c = CHR 0x5C then [CHR 0x5C, c]
      else if c = CHR 0x08 then [CHR 0x5C, CHR ''b'']
      else if c = CHR 0x0C then [CHR 0x5C, CHR ''f'']
      else if c = CHR 0x0A then [CHR 0x5C, CHR ''n'']
      else if c = CHR 0x0D then [CHR 0x5C, CHR ''r'']
      else if c = CHR 0x09 then [CHR 0x5C, CHR ''t'']
      else if c < CHR 0x20 \<or> c = CHR ''<'' \<or> c = CHR ''>'' \<or> c = CHR ''&''
      then CHR 0x5C # ''u00'' @ [hex_digit (of_char c div 16), hex_digit (of_char c mod 16)]
      else [c])"

definition escape_rune :: "string \<Rightarrow> string" where
  "escape_rune r =
     (if malformed r then CHR 0x5C # ''ufffd''
      else if length r = 1 then escape_ascii (hd r)
      else if r = [CHR 0xE2, CHR 0x80, CHR 0xA8] then CHR 0x5C # ''u2028''
      else if r = [CHR 0xE2, CHR 0x80, CHR 0xA9] then CHR 0x5C # ''u2029''
      else r)"

definition json_escape :: "string \<Rightarrow> string" where
  "json_escape s = concat (map escape_rune (runes s))"

definition json_quote :: "string \<Rightarrow> string" where
  "json_quote s = CHR 0x22 # json_escape s @ [CHR 0x22]"

fun commas :: "string list \<Rightarrow> string" where
  "commas [] = []"
| "commas [x] = x"
| "commas (x # y # xs) = x @ CHR '','' # commas (y # xs)"

fun json_Marshal :: "json \<Rightarrow> string" where
  "json_Marshal JNull = ''null''"
| "json_Marshal (JBool b) = (if b then ''true'' else ''false'')"
| "json_Marshal (JNumber n) = n"
| "json_Marshal (JString s) = json_quote s"
| "json_Marshal (JArray vs) = CHR ''['' # commas (map json_Marshal vs) @ [CHR '']'']"
| "json_Marshal (JObject ms) =
     CHR ''{'' # commas (map (\<lambda>(k, v). json_quote k @ CHR '':'' # json_Marshal v) ms) @ [CHR ''}'']"

definition int_text :: "int \<Rightarrow> string" where
  "int_text i = (if i < 0 then CHR ''-'' # itoa (nat (- i)) else itoa (nat i))"

definition JInt :: "int \<Rightarrow> json" where
  "JInt i = JNumber (int_text i)"

text \<open>The members of a structure that are left out when they are empty.\<close>

definition omitempty :: "string \<Rightarrow> string \<Rightarrow> (string \<times> json) list" where
  "omitempty k s = (if s = [] then [] else [(k, JString s)])"

definition omitempty_list :: "string \<Rightarrow> ('a \<Rightarrow> json) \<Rightarrow> 'a list \<Rightarrow> (string \<times> json) list" where
  "omitempty_list k f xs = (if xs = [] then [] else [(k, JArray (map f xs))])"

definition omitempty_option :: "string \<Rightarrow> ('a \<Rightarrow> json) \<Rightarrow> 'a option \<Rightarrow> (string \<times> json) list" where
  "omitempty_option k f x = (case x of None \<Rightarrow> [] | Some v \<Rightarrow> [(k, f v)])"

subsection \<open>Reading\<close>

definition is_ws :: "char \<Rightarrow> bool" where
  "is_ws c \<longleftrightarrow> c = CHR '' '' \<or> c = CHR 0x09 \<or> c = CHR 0x0A \<or> c = CHR 0x0D"

definition skip_ws :: "string \<Rightarrow> string" where
  "skip_ws s = dropWhile is_ws s"

definition hex_value :: "char \<Rightarrow> nat option" where
  "hex_value c =
     (if is_digit c then Some (of_char c - 48)
      else if between (CHR ''a'') c (CHR ''f'') then Some (of_char c - 87)
      else if between (CHR ''A'') c (CHR ''F'') then Some (of_char c - 55)
      else None)"

text \<open>\<^verbatim>\<open>hex.DecodeString\<close> succeeds.\<close>

definition hex_decodes :: "string \<Rightarrow> bool" where
  "hex_decodes v \<longleftrightarrow> even (length v) \<and> list_all (\<lambda>c. hex_value c \<noteq> None) v"

fun hex4 :: "string \<Rightarrow> nat option" where
  "hex4 (a # b # c # d # s) =
     (case (hex_value a, hex_value b, hex_value c, hex_value d) of
        (Some w, Some x, Some y, Some z) \<Rightarrow> Some (((w * 16 + x) * 16 + y) * 16 + z)
      | _ \<Rightarrow> None)"
| "hex4 _ = None"

definition utf8_encode :: "nat \<Rightarrow> string" where
  "utf8_encode n =
     (if n < 0x80 then [char_of n]
      else if n < 0x800 then [char_of (0xC0 + n div 64), char_of (0x80 + n mod 64)]
      else if n < 0x10000
      then [char_of (0xE0 + n div 4096), char_of (0x80 + n div 64 mod 64), char_of (0x80 + n mod 64)]
      else [char_of (0xF0 + n div 262144), char_of (0x80 + n div 4096 mod 64),
            char_of (0x80 + n div 64 mod 64), char_of (0x80 + n mod 64)])"

text \<open>A \<^verbatim>\<open>\u\<close> escape: the rune it stands for and how many more bytes it takes.\<close>

definition unicode_escape :: "nat \<Rightarrow> string \<Rightarrow> string \<times> nat" where
  "unicode_escape n s =
     (if 0xD800 \<le> n \<and> n < 0xE000 then
        (case (if take 2 s = [CHR 0x5C, CHR ''u''] then hex4 (drop 2 s) else None) of
           Some m \<Rightarrow>
             if n < 0xDC00 \<and> 0xDC00 \<le> m \<and> m < 0xE000
             then (utf8_encode ((n - 0xD800) * 1024 + (m - 0xDC00) + 0x10000), 6)
             else ([CHR 0xEF, CHR 0xBF, CHR 0xBD], 0)
         | None \<Rightarrow> ([CHR 0xEF, CHR 0xBF, CHR 0xBD], 0))
      else (utf8_encode n, 0))"

definition simple_escape :: "char \<Rightarrow> char option" where
  "simple_escape c =
     (if c = CHR 0x22 \<or> c = CHR 0x5C \<or> c = CHR ''/'' then Some c
      else if c = CHR ''b'' then Some (CHR 0x08)
      else if c = CHR ''f'' then Some (CHR 0x0C)
      else if c = CHR ''n'' then Some (CHR 0x0A)
      else if c = CHR ''r'' then Some (CHR 0x0D)
      else if c = CHR ''t'' then Some (CHR 0x09)
      else None)"

definition prepend :: "string \<Rightarrow> (string \<times> string) option \<Rightarrow> (string \<times> string) option" where
  "prepend p = map_option (\<lambda>(t, r). (p @ t, r))"

text \<open>The rest of a string literal after its opening quote: its value and what follows it.\<close>

function parse_string :: "string \<Rightarrow> (string \<times> string) option" where
  "parse_string s =
     (if s = [] then None
      else let c = hd s; r = tl s in
        if c = CHR 0x22 then Some ([], r)
        else if c < CHR 0x20 then None
        else if c = CHR 0x5C then
          (if r = [] then None
           else case simple_escape (hd r) of
             Some d \<Rightarrow> prepend [d] (parse_string (tl r))
           | None \<Rightarrow>
             if hd r = CHR ''u'' then
               (case hex4 (tl r) of
                  None \<Rightarrow> None
                | Some n \<Rightarrow>
                    let (u, k) = unicode_escape n (drop 5 r) in
                    prepend u (parse_string (drop (5 + k) r)))
             else None)
        else if ascii c then prepend [c] (parse_string r)
        else if utf8_len s = 0 then prepend [CHR 0xEF, CHR 0xBF, CHR 0xBD] (parse_string r)
        else prepend (take (utf8_len s) s) (parse_string (drop (utf8_len s) s)))"
  by auto
termination by (relation "measure length") auto

declare parse_string.simps [simp del]

text \<open>A number literal at the start of a text.\<close>

definition parse_digits :: "string \<Rightarrow> (string \<times> string) option" where
  "parse_digits s = (let d = takeWhile is_digit s in if d = [] then None else Some (d, dropWhile is_digit s))"

definition parse_int :: "string \<Rightarrow> (string \<times> string) option" where
  "parse_int s = (case s of [] \<Rightarrow> None | c # r \<Rightarrow> if c = CHR ''0'' then Some ([c], r) else parse_digits s)"

definition parse_frac :: "string \<Rightarrow> (string \<times> string) option" where
  "parse_frac s = (case s of [] \<Rightarrow> Some ([], s)
     | c # r \<Rightarrow> if c = CHR ''.'' then prepend [c] (parse_digits r) else Some ([], s))"

definition parse_exp :: "string \<Rightarrow> (string \<times> string) option" where
  "parse_exp s = (case s of [] \<Rightarrow> Some ([], s)
     | c # r \<Rightarrow> if c = CHR ''e'' \<or> c = CHR ''E'' then
         (case r of [] \<Rightarrow> None
          | d # r' \<Rightarrow> if d = CHR ''+'' \<or> d = CHR ''-'' then prepend [c, d] (parse_digits r')
              else prepend [c] (parse_digits r))
       else Some ([], s))"

definition parse_then :: "(string \<Rightarrow> (string \<times> string) option) \<Rightarrow> (string \<times> string) option \<Rightarrow> (string \<times> string) option" where
  "parse_then p x = (case x of None \<Rightarrow> None | Some (t, r) \<Rightarrow> prepend t (p r))"

definition parse_number :: "string \<Rightarrow> (string \<times> string) option" where
  "parse_number s =
     parse_then parse_exp (parse_then parse_frac
       (if s \<noteq> [] \<and> hd s = CHR ''-'' then prepend ''-'' (parse_int (tl s)) else parse_int s))"

text \<open>
  Values. Every call of \<open>parse_elements\<close> or \<open>parse_members\<close> follows a bracket or a comma,
  and every call of \<open>parse_value\<close> follows one of them, so that twice the length of the
  text bounds the nesting of calls.
\<close>

fun parse_value :: "nat \<Rightarrow> string \<Rightarrow> (json \<times> string) option"
  and parse_elements :: "nat \<Rightarrow> string \<Rightarrow> (json list \<times> string) option"
  and parse_members :: "nat \<Rightarrow> string \<Rightarrow> ((string \<times> json) list \<times> string) option"
where
  "parse_value 0 s = None"
| "parse_value (Suc n) s =
     (let t = skip_ws s in
      if t = [] then None
      else if hd t = CHR 0x22 then map_option (\<lambda>(v, r). (JString v, r)) (parse_string (tl t))
      else if hd t = CHR ''['' then
        (let r = skip_ws (tl t) in
         if r \<noteq> [] \<and> hd r = CHR '']'' then Some (JArray [], tl r)
         else map_option (\<lambda>(vs, r). (JArray vs, r)) (parse_elements n r))
      else if hd t = CHR ''{'' then
        (let r = skip_ws (tl t) in
         if r \<noteq> [] \<and> hd r = CHR ''}'' then Some (JObject [], tl r)
         else map_option (\<lambda>(ms, r). (JObject ms, r)) (parse_members n r))
      else if has_prefix ''null'' t then Some (JNull, drop 4 t)
      else if has_prefix ''true'' t then Some (JBool True, drop 4 t)
      else if has_prefix ''false'' t then Some (JBool False, drop 5 t)
      else map_option (\<lambda>(v, r). (JNumber v, r)) (parse_number t))"
| "parse_elements 0 s = None"
| "parse_elements (Suc n) s =
     (case parse_value n s of
        None \<Rightarrow> None
      | Some (v, r) \<Rightarrow>
          let t = skip_ws r in
          if t \<noteq> [] \<and> hd t = CHR '']'' then Some ([v], tl t)
          else if t \<noteq> [] \<and> hd t = CHR '','' then
            map_option (\<lambda>(vs, r). (v # vs, r)) (parse_elements n (tl t))
          else None)"
| "parse_members 0 s = None"
| "parse_members (Suc n) s =
     (let q = skip_ws s in
      if q = [] \<or> hd q \<noteq> CHR 0x22 then None
      else case parse_string (tl q) of
        None \<Rightarrow> None
      | Some (k, r) \<Rightarrow>
          let c = skip_ws r in
          if c = [] \<or> hd c \<noteq> CHR '':'' then None
          else case parse_value n (tl c) of
            None \<Rightarrow> None
          | Some (v, r) \<Rightarrow>
              let t = skip_ws r in
              if t \<noteq> [] \<and> hd t = CHR ''}'' then Some ([(k, v)], tl t)
              else if t \<noteq> [] \<and> hd t = CHR '','' then
                map_option (\<lambda>(ms, r). ((k, v) # ms, r)) (parse_members n (tl t))
              else None)"

text \<open>One document with nothing but white space around it.\<close>

definition json_Parse :: "string \<Rightarrow> json option" where
  "json_Parse s =
     (case parse_value (2 * length s + 1) s of
        Some (v, r) \<Rightarrow> if skip_ws r = [] then Some v else None
      | None \<Rightarrow> None)"


subsection \<open>Reading what was written\<close>

lemma prepend_Some [simp]: "prepend p (Some (t, r)) = Some (p @ t, r)"
  by (simp add: prepend_def)

lemma prepend_prepend: "prepend p (prepend q x) = prepend (p @ q) x"
  by (cases x) (auto simp: prepend_def)

lemma prepend_Nil [simp]: "prepend [] x = x"
  by (cases x) (auto simp: prepend_def)

lemma hex_value_digit: "n < 16 \<Longrightarrow> hex_value (hex_digit n) = Some n"
proof -
  assume "n < 16"
  then have "n \<in> set [0..<16]" by simp
  moreover have "list_all (\<lambda>n. hex_value (hex_digit n) = Some n) [0..<16]"
    by code_simp
  ultimately show ?thesis by (auto simp: list_all_iff)
qed

lemma ascii_of_char: "ascii c \<longleftrightarrow> (of_char c :: nat) < 128"
  by (simp add: ascii_def less_char_def)

lemma utf8_encode_ascii: "ascii c \<Longrightarrow> utf8_encode (of_char c) = [c]"
  by (simp add: ascii_of_char utf8_encode_def)

lemma parse_string_u00:
  assumes "ascii c"
  shows "parse_string (CHR 0x5C # ''u00'' @ [hex_digit (of_char c div 16), hex_digit (of_char c mod 16)] @ t) =
    prepend [c] (parse_string t)"
proof -
  have "hex_value (CHR ''0'') = Some 0" by code_simp
  then have hex: "hex4 (''00'' @ [hex_digit (of_char c div 16), hex_digit (of_char c mod 16)] @ t) = Some (of_char c)"
    using of_char_div_16 [of c] by (simp add: hex_value_digit)
  have "unicode_escape (of_char c) t = ([c], 0)"
    using assms by (simp add: unicode_escape_def utf8_encode_ascii ascii_of_char)
  with hex show ?thesis
    by (subst parse_string.simps) (simp add: simple_escape_def)
qed

lemma parse_string_ascii:
  assumes "ascii c"
  shows "parse_string (escape_ascii c @ t) = prepend [c] (parse_string t)"
proof (cases "c \<in> {CHR 0x22, CHR 0x5C, CHR 0x08, CHR 0x0C, CHR 0x0A, CHR 0x0D, CHR 0x09}")
  case True
  then show ?thesis
    unfolding escape_ascii_def
    by (elim insertE) (subst parse_string.simps, simp add: simple_escape_def)+
next
  case False
  show ?thesis
  proof (cases "c < CHR 0x20 \<or> c = CHR ''<'' \<or> c = CHR ''>'' \<or> c = CHR ''&''")
    case True
    with False have "escape_ascii c = CHR 0x5C # ''u00'' @ [hex_digit (of_char c div 16), hex_digit (of_char c mod 16)]"
      by (simp add: escape_ascii_def)
    with parse_string_u00 [OF assms, of t] show ?thesis by simp
  next
    case F: False
    with False have "escape_ascii c = [c]" by (simp add: escape_ascii_def)
    with False F assms show ?thesis by (subst parse_string.simps) simp
  qed
qed

lemma not_ascii_plain: "\<not> ascii c \<Longrightarrow> c \<noteq> CHR 0x22 \<and> c \<noteq> CHR 0x5C \<and> \<not> c < CHR 0x20"
  by (auto simp: ascii_def less_char_def)

lemma parse_string_rune:
  assumes "rune_ok r"
  shows "parse_string (escape_rune r @ t) = prepend (fix_rune r) (parse_string t)"
proof -
  have "hex_value (CHR ''f'') = Some 15" "hex_value (CHR ''d'') = Some 13" "hex_value (CHR ''0'') = Some 0"
    "hex_value (CHR ''2'') = Some 2" "hex_value (CHR ''8'') = Some 8" "hex_value (CHR ''9'') = Some 9"
    by code_simp+
  then have hex: "hex4 (''fffd'' @ t) = Some 65533" "hex4 (''2028'' @ t) = Some 8232" "hex4 (''2029'' @ t) = Some 8233"
    by simp_all
  have "utf8_encode 65533 = [CHR 0xEF, CHR 0xBF, CHR 0xBD]" "utf8_encode 8232 = [CHR 0xE2, CHR 0x80, CHR 0xA8]"
    "utf8_encode 8233 = [CHR 0xE2, CHR 0x80, CHR 0xA9]"
    by (simp_all add: utf8_encode_def char_of_eq_iff)
  then have escape: "unicode_escape 65533 t = ([CHR 0xEF, CHR 0xBF, CHR 0xBD], 0)"
    "unicode_escape 8232 t = ([CHR 0xE2, CHR 0x80, CHR 0xA8], 0)"
    "unicode_escape 8233 t = ([CHR 0xE2, CHR 0x80, CHR 0xA9], 0)"
    by (simp_all add: unicode_escape_def)
  have escapes: "parse_string (CHR 0x5C # ''ufffd'' @ t) = prepend [CHR 0xEF, CHR 0xBF, CHR 0xBD] (parse_string t)"
    "parse_string (CHR 0x5C # ''u2028'' @ t) = prepend [CHR 0xE2, CHR 0x80, CHR 0xA8] (parse_string t)"
    "parse_string (CHR 0x5C # ''u2029'' @ t) = prepend [CHR 0xE2, CHR 0x80, CHR 0xA9] (parse_string t)"
    using hex escape by (subst parse_string.simps, simp add: simple_escape_def)+
  consider "malformed r" | "\<not> malformed r" "length r = 1" | "\<not> malformed r" "length r \<noteq> 1" by blast
  then show ?thesis
  proof cases
    case 1
    with escapes(1) show ?thesis by (simp add: escape_rune_def fix_rune_def)
  next
    case 2
    then obtain c where "r = [c]" "ascii c" by (cases r) (auto simp: malformed_def)
    with 2 parse_string_ascii show ?thesis by (simp add: escape_rune_def fix_rune_def)
  next
    case 3
    with assms have r: "utf8_len r = length r" "r \<noteq> []" "\<not> ascii (hd r)" by (auto simp: rune_ok_def)
    consider "r = [CHR 0xE2, CHR 0x80, CHR 0xA8]" | "r = [CHR 0xE2, CHR 0x80, CHR 0xA9]" | "escape_rune r = r"
      using 3 by (cases "r = [CHR 0xE2, CHR 0x80, CHR 0xA8]"; cases "r = [CHR 0xE2, CHR 0x80, CHR 0xA9]")
        (simp_all add: escape_rune_def)
    then show ?thesis
    proof cases
      case 3
      have "utf8_len (r @ t) = length r" using utf8_len_take [of r t] r by simp
      with r 3 \<open>\<not> malformed r\<close> not_ascii_plain [of "hd r"] show ?thesis
        by (subst parse_string.simps) (simp add: fix_rune_def)
    qed (use escapes in \<open>simp_all add: escape_rune_def malformed_def fix_rune_def\<close>)
  qed
qed

lemma parse_string_escape: "parse_string (json_escape s @ CHR 0x22 # t) = Some (utf8_fix s, t)"
proof -
  have "parse_string (concat (map escape_rune rs) @ CHR 0x22 # t) = Some (concat (map fix_rune rs), t)"
    if "\<forall>r \<in> set rs. rune_ok r" for rs
    using that
  proof (induction rs)
    case Nil
    then show ?case by (subst parse_string.simps) simp
  next
    case (Cons r rs)
    then show ?case by (simp add: parse_string_rune)
  qed
  then show ?thesis using runes_ok unfolding json_escape_def utf8_fix_def by blast
qed


lemma is_digit_of_char: "is_digit c \<longleftrightarrow> 48 \<le> (of_char c :: nat) \<and> of_char c \<le> (57 :: nat)"
  by (simp add: is_digit_def less_eq_char_def)

lemma is_digit_itoa: "list_all is_digit (itoa n)"
proof (induction n rule: itoa.induct)
  case (1 n)
  have "is_digit (char_of (48 + k))" if "k < 10" for k :: nat
    using that by (simp add: is_digit_of_char of_char_of)
  with 1 show ?case by (subst itoa.simps) auto
qed

lemma itoa_not_Nil [simp]: "itoa n \<noteq> []"
  by (subst itoa.simps) auto

lemma itoa_hd_zero: "hd (itoa n) = CHR ''0'' \<longleftrightarrow> n = 0"
proof (induction n rule: itoa.induct)
  case (1 n)
  show ?case
  proof (cases "n < 10")
    case True
    then show ?thesis by (subst itoa.simps) (auto simp: char_of_eq_iff take_bit_eq_mod)
  next
    case False
    with 1 show ?thesis by (subst itoa.simps) auto
  qed
qed

text \<open>What may follow a number without changing it.\<close>

definition terminated :: "string \<Rightarrow> bool" where
  "terminated r \<longleftrightarrow> r = [] \<or> (\<not> is_digit (hd r) \<and> hd r \<noteq> CHR ''.'' \<and> hd r \<noteq> CHR ''e'' \<and> hd r \<noteq> CHR ''E'')"

lemma parse_int_itoa:
  assumes "terminated r"
  shows "parse_int (itoa n @ r) = Some (itoa n, r)"
proof (cases "n = 0")
  case True
  moreover have "char_of (48 :: nat) = CHR ''0''" by (simp add: char_of_eq_iff)
  ultimately show ?thesis by (simp add: itoa.simps parse_int_def)
next
  case False
  obtain c t where "itoa n = c # t" by (cases "itoa n") auto
  moreover have "c \<noteq> CHR ''0''" using False itoa_hd_zero [of n] \<open>itoa n = c # t\<close> by simp
  moreover have "takeWhile is_digit (itoa n @ r) = itoa n" "dropWhile is_digit (itoa n @ r) = r"
    using is_digit_itoa [of n] assms by (cases r; force simp: list_all_iff terminated_def)+
  ultimately show ?thesis by (simp add: parse_int_def parse_digits_def Let_def)
qed

lemma parse_number_int:
  assumes "terminated r"
  shows "parse_number (int_text i @ r) = Some (int_text i, r)"
proof -
  have "parse_frac r = Some ([], r)" "parse_exp r = Some ([], r)"
    using assms by (auto simp: parse_frac_def parse_exp_def terminated_def split: list.splits)
  moreover have "hd (itoa n @ r) \<noteq> CHR ''-''" for n
    using is_digit_itoa [of n] by (cases "itoa n") (auto simp: is_digit_def)
  ultimately show ?thesis
    using parse_int_itoa [OF assms] by (simp add: parse_number_def int_text_def parse_then_def)
qed

text \<open>Values whose numbers are integers, and the value a reader makes of one.\<close>

fun json_ints :: "json \<Rightarrow> bool" where
  "json_ints (JNumber n) \<longleftrightarrow> (\<exists>i. n = int_text i)"
| "json_ints (JArray vs) \<longleftrightarrow> (\<forall>v \<in> set vs. json_ints v)"
| "json_ints (JObject ms) \<longleftrightarrow> (\<forall>m \<in> set ms. json_ints (snd m))"
| "json_ints _ \<longleftrightarrow> True"

fun json_fix :: "json \<Rightarrow> json" where
  "json_fix (JString s) = JString (utf8_fix s)"
| "json_fix (JArray vs) = JArray (map json_fix vs)"
| "json_fix (JObject ms) = JObject (map (\<lambda>(k, v). (utf8_fix k, json_fix v)) ms)"
| "json_fix v = v"

lemma skip_ws_id: "s \<noteq> [] \<Longrightarrow> \<not> is_ws (hd s) \<Longrightarrow> skip_ws s = s"
  by (cases s) (auto simp: skip_ws_def)

lemma int_text_hd: "int_text i \<noteq> [] \<and> (hd (int_text i) = CHR ''-'' \<or> is_digit (hd (int_text i)))"
proof -
  have "is_digit (hd (itoa n))" for n
    using is_digit_itoa [of n] itoa_not_Nil [of n] by (cases "itoa n") auto
  then show ?thesis by (auto simp: int_text_def)
qed

lemma json_Marshal_hd:
  assumes "json_ints v"
  shows "json_Marshal v \<noteq> []" "\<not> is_ws (hd (json_Marshal v))" "hd (json_Marshal v) \<notin> set '']},''"
proof -
  have "\<not> is_ws c \<and> c \<notin> set '']},''" if "c = CHR ''-'' \<or> is_digit c" for c
    using that by (auto simp: is_ws_def is_digit_def less_eq_char_def)
  note int = this [OF conjunct2 [OF int_text_hd]] conjunct1 [OF int_text_hd]
  have "json_Marshal v \<noteq> [] \<and> \<not> is_ws (hd (json_Marshal v)) \<and> hd (json_Marshal v) \<notin> set '']},''"
  proof (cases v)
    case (JNumber n)
    with assms int show ?thesis by auto
  qed (auto simp: json_quote_def is_ws_def)
  then show "json_Marshal v \<noteq> []" "\<not> is_ws (hd (json_Marshal v))" "hd (json_Marshal v) \<notin> set '']},''"
    by simp_all
qed

lemma skip_ws_Marshal: "json_ints v \<Longrightarrow> skip_ws (json_Marshal v @ r) = json_Marshal v @ r"
  using json_Marshal_hd [of v] by (intro skip_ws_id) auto

lemma terminated_delim: "c \<in> set '']},'' \<Longrightarrow> terminated (c # r)"
  by (auto simp: terminated_def is_digit_def)

text \<open>The shape of the induction hypothesis for a value, and its consequences for lists.\<close>

definition reads_back :: "json \<Rightarrow> bool" where
  "reads_back v \<longleftrightarrow> (\<forall>n r. terminated r \<longrightarrow> 2 * length (json_Marshal v @ r) + 1 \<le> n \<longrightarrow>
     parse_value n (json_Marshal v @ r) = Some (json_fix v, r))"

lemma reads_backD:
  "reads_back v \<Longrightarrow> terminated r \<Longrightarrow> 2 * length (json_Marshal v @ r) + 1 \<le> n \<Longrightarrow>
     parse_value n (json_Marshal v @ r) = Some (json_fix v, r)"
  by (simp add: reads_back_def)

lemma parse_elements_commas:
  assumes "vs \<noteq> []" and "\<forall>v \<in> set vs. reads_back v"
    and "2 * length (commas (map json_Marshal vs) @ CHR '']'' # r) + 2 \<le> n"
  shows "parse_elements n (commas (map json_Marshal vs) @ CHR '']'' # r) = Some (map json_fix vs, r)"
  using assms
proof (induction vs arbitrary: n rule: list_nonempty_induct)
  case (single v)
  then obtain m where n: "n = Suc m" by (cases n) auto
  have "parse_value m (json_Marshal v @ CHR '']'' # r) = Some (json_fix v, CHR '']'' # r)"
    using single n by (intro reads_backD terminated_delim) auto
  then show ?case by (simp add: n skip_ws_id is_ws_def)
next
  case (cons v vs)
  then obtain m where n: "n = Suc m" by (cases n) auto
  obtain w ws where vs: "vs = w # ws" using cons.hyps by (cases vs) auto
  let ?rest = "commas (map json_Marshal vs) @ CHR '']'' # r"
  have joined: "commas (map json_Marshal (v # vs)) @ CHR '']'' # r = json_Marshal v @ CHR '','' # ?rest"
    by (simp add: vs)
  have "parse_value m (json_Marshal v @ CHR '','' # ?rest) = Some (json_fix v, CHR '','' # ?rest)"
    using cons.prems n unfolding joined by (intro reads_backD terminated_delim) auto
  moreover have "parse_elements m ?rest = Some (map json_fix vs, r)"
    using cons.prems n unfolding joined by (intro cons.IH) auto
  ultimately show ?case unfolding joined by (simp add: n skip_ws_id is_ws_def)
qed

abbreviation member :: "string \<times> json \<Rightarrow> string" where
  "member \<equiv> \<lambda>(k, v). json_quote k @ CHR '':'' # json_Marshal v"

lemma parse_members_commas:
  assumes "ms \<noteq> []" and "\<forall>m \<in> set ms. reads_back (snd m)"
    and "2 * length (commas (map member ms) @ CHR ''}'' # r) + 2 \<le> n"
  shows "parse_members n (commas (map member ms) @ CHR ''}'' # r) =
    Some (map (\<lambda>(k, v). (utf8_fix k, json_fix v)) ms, r)"
  using assms
proof (induction ms arbitrary: n rule: list_nonempty_induct)
  case (single m)
  obtain k v where m: "m = (k, v)" by (cases m)
  from single obtain n' where n: "n = Suc n'" by (cases n) auto
  have "parse_value n' (json_Marshal v @ CHR ''}'' # r) = Some (json_fix v, CHR ''}'' # r)"
    using single n m by (intro reads_backD terminated_delim) auto
  then show ?case
    using parse_string_escape [of k "CHR '':'' # json_Marshal v @ CHR ''}'' # r"]
    by (simp add: n m json_quote_def skip_ws_id is_ws_def)
next
  case (cons m ms)
  obtain k v where m: "m = (k, v)" by (cases m)
  from cons obtain n' where n: "n = Suc n'" by (cases n) auto
  obtain w ws where ms: "ms = w # ws" using cons.hyps by (cases ms) auto
  let ?rest = "commas (map member ms) @ CHR ''}'' # r"
  have joined: "commas (map member (m # ms)) @ CHR ''}'' # r = json_quote k @ CHR '':'' # json_Marshal v @ CHR '','' # ?rest"
    by (simp add: ms m)
  have "parse_value n' (json_Marshal v @ CHR '','' # ?rest) = Some (json_fix v, CHR '','' # ?rest)"
    using cons.prems n m unfolding joined by (intro reads_backD terminated_delim) auto
  moreover have "parse_members n' ?rest = Some (map (\<lambda>(k, v). (utf8_fix k, json_fix v)) ms, r)"
    using cons.prems n unfolding joined by (intro cons.IH) auto
  ultimately show ?case unfolding joined
    using parse_string_escape [of k "CHR '':'' # json_Marshal v @ CHR '','' # ?rest"]
    by (simp add: n m json_quote_def skip_ws_id is_ws_def)
qed

lemma commas_hd: "xs \<noteq> [] \<Longrightarrow> hd xs \<noteq> [] \<Longrightarrow> commas xs \<noteq> [] \<and> hd (commas xs) = hd (hd xs)"
  by (induction xs rule: commas.induct) auto

lemma parse_value_literals:
  "parse_value (Suc n) (''null'' @ r) = Some (JNull, r)"
  "parse_value (Suc n) (''true'' @ r) = Some (JBool True, r)"
  "parse_value (Suc n) (''false'' @ r) = Some (JBool False, r)"
  by (simp_all add: skip_ws_id is_ws_def has_prefix_def)

lemma parse_value_int:
  assumes "terminated r"
  shows "parse_value (Suc n) (int_text i @ r) = Some (JNumber (int_text i), r)"
proof -
  obtain c t where shape: "int_text i = c # t" "c = CHR ''-'' \<or> is_digit c"
    using int_text_hd [of i] by (cases "int_text i") auto
  then have "\<not> is_ws c" "c \<notin> {CHR 0x22, CHR ''['', CHR ''{'', CHR ''n'', CHR ''t'', CHR ''f''}"
    by (auto simp: is_ws_def is_digit_def less_eq_char_def)
  then show ?thesis
    using shape parse_number_int [OF assms, of i] by (simp add: skip_ws_id has_prefix_def)
qed

lemma reads_backI:
  assumes "\<And>m r. terminated r \<Longrightarrow> 2 * length (json_Marshal v @ r) \<le> m \<Longrightarrow>
    parse_value (Suc m) (json_Marshal v @ r) = Some (json_fix v, r)"
  shows "reads_back v"
  unfolding reads_back_def
proof (intro allI impI)
  fix n r assume "terminated r" "2 * length (json_Marshal v @ r) + 1 \<le> n"
  then show "parse_value n (json_Marshal v @ r) = Some (json_fix v, r)"
    using assms [of r "n - 1"] by (cases n) auto
qed

lemma reads_back_JArray:
  assumes "\<And>v. v \<in> set vs \<Longrightarrow> reads_back v" "json_ints (JArray vs)"
  shows "reads_back (JArray vs)"
proof (rule reads_backI)
  fix m r assume m: "terminated r" "2 * length (json_Marshal (JArray vs) @ r) \<le> m"
  show "parse_value (Suc m) (json_Marshal (JArray vs) @ r) = Some (json_fix (JArray vs), r)"
  proof (cases "vs = []")
    case True
    then show ?thesis by (simp add: skip_ws_id is_ws_def)
  next
    case False
    let ?text = "commas (map json_Marshal vs) @ CHR '']'' # r"
    have "hd vs \<in> set vs" using False by simp
    then have "?text \<noteq> []" "\<not> is_ws (hd ?text)" "hd ?text \<noteq> CHR '']''"
      using json_Marshal_hd [of "hd vs"] commas_hd [of "map json_Marshal vs"] assms False by (auto simp: list.map_sel)
    moreover have "parse_elements m ?text = Some (map json_fix vs, r)"
      using assms m False by (intro parse_elements_commas) auto
    ultimately show ?thesis by (simp add: skip_ws_id is_ws_def)
  qed
qed

lemma reads_back_JObject:
  assumes "\<And>k v. (k, v) \<in> set ms \<Longrightarrow> reads_back v" "json_ints (JObject ms)"
  shows "reads_back (JObject ms)"
proof (rule reads_backI)
  fix m r assume m: "terminated r" "2 * length (json_Marshal (JObject ms) @ r) \<le> m"
  show "parse_value (Suc m) (json_Marshal (JObject ms) @ r) = Some (json_fix (JObject ms), r)"
  proof (cases "ms = []")
    case True
    then show ?thesis by (simp add: skip_ws_id is_ws_def)
  next
    case False
    let ?text = "commas (map member ms) @ CHR ''}'' # r"
    obtain k v ms' where ms: "ms = (k, v) # ms'" using False by (cases ms) auto
    have "?text \<noteq> []" "hd ?text = CHR 0x22"
      using commas_hd [of "map member ms"] by (auto simp: ms json_quote_def)
    moreover have "parse_members m ?text = Some (map (\<lambda>(k, v). (utf8_fix k, json_fix v)) ms, r)"
      using assms m False by (intro parse_members_commas) auto
    ultimately show ?thesis by (simp add: skip_ws_id is_ws_def)
  qed
qed

lemma json_reads_back: "json_ints v \<Longrightarrow> reads_back v"
proof (induction v rule: json_Marshal.induct)
  case 1
  show ?case by (rule reads_backI) (simp only: json_Marshal.simps json_fix.simps parse_value_literals)
next
  case (2 b)
  show ?case by (cases b; rule reads_backI) (simp_all only: json_Marshal.simps json_fix.simps parse_value_literals if_True if_False)
next
  case (3 n)
  then obtain i where "n = int_text i" by auto
  then show ?case by (intro reads_backI) (simp only: json_Marshal.simps json_fix.simps parse_value_int)
next
  case (4 s)
  show ?case
    by (rule reads_backI) (simp add: json_quote_def skip_ws_id is_ws_def parse_string_escape)
next
  case (5 vs)
  then show ?case by (intro reads_back_JArray) auto
next
  case (6 ms)
  then show ?case by (intro reads_back_JObject) auto
qed

theorem json_roundtrip: "json_ints v \<Longrightarrow> json_Parse (json_Marshal v) = Some (json_fix v)"
  using reads_backD [OF json_reads_back, of v "[]" "2 * length (json_Marshal v) + 1"]
  by (simp add: json_Parse_def terminated_def skip_ws_def)

lemma hex_ascii: "is_hex c \<Longrightarrow> ascii c"
  by (auto simp: is_hex_def is_digit_def ascii_def less_eq_char_def less_char_def)

lemma utf8_fix_ascii: "list_all ascii s \<Longrightarrow> utf8_fix s = s"
  by (rule utf8_fix_id) (rule utf8_Valid_ascii)

corollary json_Marshal_inj:
  "json_ints v \<Longrightarrow> json_ints w \<Longrightarrow> json_Marshal v = json_Marshal w \<Longrightarrow> json_fix v = json_fix w"
  using json_roundtrip [of v] json_roundtrip [of w] by simp

end
