(* ===== verification/Drill_Types.thy ===== *)
theory Drill_Types
  imports Go_Json Go_Sha256
begin

text \<open>
  Package \<^verbatim>\<open>pkg/backup/drill\<close>, files \<^verbatim>\<open>types.go\<close> and \<^verbatim>\<open>digest.go\<close>: the documents
  of the backup and restore drill, their JSON encodings and the digests over them. The
  encoding of a structure lists its fields in declaration order; a field tagged
  \<^verbatim>\<open>omitempty\<close> is left out when it is empty. An empty list stands for an empty slice.
\<close>

subsection \<open>Constants\<close>

definition PlanSchemaVersion :: string where "PlanSchemaVersion = ''cloudring.backup-drill.plan/v1''"
definition ApprovalSchemaVersion :: string where "ApprovalSchemaVersion = ''cloudring.backup-drill.approval/v1''"
definition AdapterRequestVersion :: string where "AdapterRequestVersion = ''cloudring.backup-drill.adapter-request/v1''"
definition AdapterResponseVersion :: string where "AdapterResponseVersion = ''cloudring.backup-drill.adapter-response/v1''"
definition JournalEntryVersion :: string where "JournalEntryVersion = ''cloudring.backup-drill.journal-entry/v1''"
definition ReceiptSchemaVersion :: string where "ReceiptSchemaVersion = ''cloudring.backup-drill.execution-receipt/v1''"
definition AdapterProtocolVersion :: string where "AdapterProtocolVersion = ''cloudring.backup-drill.adapter/v1''"
definition ApprovalTuplePrefix :: string where "ApprovalTuplePrefix = ''goal01-backup-restore''"

definition TargetKinds :: "string list" where
  "TargetKinds = [''Etcd'', ''VirtualMachineClaim'', ''Volume'', ''Namespace'', ''KubernetesClusterClaim'']"

definition ApplySteps :: "string list" where
  "ApplySteps =
     [''approval-consumed'', ''mutation-started'', ''etcd-offcell-complete'', ''velero-backup-complete'',
      ''restore-watch-create-observe-complete'', ''etcd-sandbox-restored'', ''restore-validation-complete'',
      ''cleanup-ready'', ''isolated-targets-deleted'', ''residual-sweep-1'', ''residual-sweep-2'',
      ''proof-assembled'', ''completed'']"

subsection \<open>Documents\<close>

record ObjectIdentity =
  OI_Kind :: string
  OI_Namespace :: string
  OI_Name :: string
  OI_ScopeSHA256 :: string

record IsolatedNamespace =
  IN_RestoreIndex :: int
  IN_RestoreName :: string
  IN_RestoreScopeSHA256 :: string
  IN_SourceNamespace :: string
  IN_Destination :: ObjectIdentity

record StorageLocation =
  SL_Name :: string
  SL_UIDSHA256 :: string
  SL_Generation :: int
  SL_ConfigSHA256 :: string

record ObjectStore =
  OS_Prefix :: string
  OS_MinimumRetentionDays :: int
  OS_ObjectLockMode :: string

record Baseline =
  BL_Kind :: string
  BL_IdentitySHA256 :: string
  BL_StateSHA256 :: string
  BL_DataSHA256 :: string

record ExecutableIdentity =
  EI_Name :: string
  EI_ExecutableSHA256 :: string

record CleanupTarget =
  CT_Kind :: string
  CT_Namespace :: string
  CT_Name :: string
  CT_PreconditionIdentitySHA256 :: string

record Plan =
  Pl_SchemaVersion :: string
  Pl_OperationID :: string
  Pl_ProofID :: string
  Pl_InstallationID :: string
  Pl_AcceptedPublicSHA :: string
  Pl_AcceptedDownstreamSHA :: string
  Pl_ClusterIdentitySHA256 :: string
  Pl_BackupStorageLocation :: StorageLocation
  Pl_ObjectStore :: ObjectStore
  Pl_SourceBaselines :: "Baseline list"
  Pl_Tool :: ExecutableIdentity
  Pl_Adapter :: ExecutableIdentity
  Pl_Backup :: ObjectIdentity
  Pl_Restores :: "ObjectIdentity list"
  Pl_IsolatedNamespaces :: "IsolatedNamespace list"
  Pl_EtcdSandbox :: ObjectIdentity
  Pl_CleanupTargets :: "CleanupTarget list"
  Pl_AggregateProofPathToken :: string
  Pl_IssuedAt :: string
  Pl_ExpiresAt :: string
  Pl_RunNonceSHA256 :: string

record ApprovalReport =
  AR_SchemaVersion :: string
  AR_OperationID :: string
  AR_PlanSHA256 :: string
  AR_ApprovalScopeSHA256 :: string
  AR_AdapterExecutableSHA256 :: string
  AR_IssuedAt :: string
  AR_ExpiresAt :: string
  AR_ApprovalTuple :: string
  AR_PreflightRequestSHA256 :: string
  AR_PreflightResponseSHA256 :: string
  AR_PreflightEvidenceRef :: string
  AR_PreflightEvidenceSHA256 :: string
  AR_PreflightBindingSHA256 :: string
  AR_ReportSHA256 :: string

record AdapterRequest =
  Rq_SchemaVersion :: string
  Rq_ProtocolVersion :: string
  Rq_OperationID :: string
  Rq_PlanSHA256 :: string
  Rq_ApprovalSHA256 :: string
  Rq_ApprovalScopeSHA256 :: string
  Rq_AdapterExecutableSHA256 :: string
  Rq_Mode :: string
  Rq_Step :: string
  Rq_PreviousJournalSHA256 :: string
  Rq_RequestID :: string
  Rq_Plan :: Plan
  Rq_RetainKinds :: "string list"
  Rq_CleanupTargets :: "CleanupTarget list"
  Rq_RequestSHA256 :: string

record TargetResult =
  TR_Kind :: string
  TR_SourceChecksumSHA256 :: string
  TR_RestoredChecksumSHA256 :: string
  TR_EvidenceRef :: string
  TR_EvidenceSHA256 :: string

record Evidence =
  Ev_Ref :: string
  Ev_SHA256 :: string

record RestoreObservation =
  RO_RestoreName :: string
  RO_RestoreScopeSHA256 :: string
  RO_SourceNamespace :: string
  RO_DestinationNamespace :: string
  RO_DestinationScopeSHA256 :: string
  RO_EvidenceRef :: string
  RO_EvidenceSHA256 :: string

record AdapterResponse =
  Rs_SchemaVersion :: string
  Rs_ProtocolVersion :: string
  Rs_OperationID :: string
  Rs_Step :: string
  Rs_RequestSHA256 :: string
  Rs_AdapterExecutableSHA256 :: string
  Rs_Status :: string
  Rs_Mutated :: bool
  Rs_Evidence :: Evidence
  Rs_RestoreObservations :: "RestoreObservation list"
  Rs_Targets :: "TargetResult list"
  Rs_IsolationEvidence :: "Evidence option"
  Rs_CleanupEvidence :: "Evidence option"
  Rs_ObjectLockDeleteDenialReceiptSHA256 :: string
  Rs_AggregateProofArtifactSHA256 :: string
  Rs_AggregateProofPathToken :: string
  Rs_ResponseSHA256 :: string

record JournalEntry =
  JE_SchemaVersion :: string
  JE_Sequence :: int
  JE_OperationID :: string
  JE_PlanSHA256 :: string
  JE_ApprovalSHA256 :: string
  JE_ApprovalScopeSHA256 :: string
  JE_AdapterExecutableSHA256 :: string
  JE_Step :: string
  JE_RequestSHA256 :: string
  JE_ResponseSHA256 :: string
  JE_Response :: "AdapterResponse option"
  JE_PreviousEntrySHA256 :: string
  JE_RecordedAt :: string
  JE_EntrySHA256 :: string

record ExecutionReceipt =
  ER_SchemaVersion :: string
  ER_OperationID :: string
  ER_ProofID :: string
  ER_InstallationID :: string
  ER_PlanSHA256 :: string
  ER_ApprovalSHA256 :: string
  ER_ApprovalScopeSHA256 :: string
  ER_AdapterExecutableSHA256 :: string
  ER_Status :: string
  ER_CompletedAt :: string
  ER_JournalHeadSHA256 :: string
  ER_ExecutionEvidenceResponseSHA256 :: string
  ER_Targets :: "TargetResult list"
  ER_IsolationEvidence :: Evidence
  ER_CleanupEvidence :: Evidence
  ER_ObjectLockDeleteDenialReceiptSHA256 :: string
  ER_AggregateProofArtifactSHA256 :: string
  ER_AggregateProofPathToken :: string
  ER_ReceiptSHA256 :: string

subsection \<open>Encodings\<close>

definition json_ObjectIdentity :: "ObjectIdentity \<Rightarrow> json" where
  "json_ObjectIdentity v = JObject ([(''kind'', JString (OI_Kind v))] @ omitempty ''namespace'' (OI_Namespace v) @
     [(''name'', JString (OI_Name v)), (''scopeSha256'', JString (OI_ScopeSHA256 v))])"

definition json_IsolatedNamespace :: "IsolatedNamespace \<Rightarrow> json" where
  "json_IsolatedNamespace n = JObject [(''restoreIndex'', JInt (IN_RestoreIndex n)),
     (''restoreName'', JString (IN_RestoreName n)), (''restoreScopeSha256'', JString (IN_RestoreScopeSHA256 n)),
     (''sourceNamespace'', JString (IN_SourceNamespace n)), (''destination'', json_ObjectIdentity (IN_Destination n))]"

definition json_StorageLocation :: "StorageLocation \<Rightarrow> json" where
  "json_StorageLocation l = JObject [(''name'', JString (SL_Name l)), (''uidSha256'', JString (SL_UIDSHA256 l)),
     (''generation'', JInt (SL_Generation l)), (''configSha256'', JString (SL_ConfigSHA256 l))]"

definition json_ObjectStore :: "ObjectStore \<Rightarrow> json" where
  "json_ObjectStore s = JObject [(''prefix'', JString (OS_Prefix s)),
     (''minimumRetentionDays'', JInt (OS_MinimumRetentionDays s)), (''objectLockMode'', JString (OS_ObjectLockMode s))]"

definition json_Baseline :: "Baseline \<Rightarrow> json" where
  "json_Baseline b = JObject [(''kind'', JString (BL_Kind b)), (''identitySha256'', JString (BL_IdentitySHA256 b)),
     (''stateSha256'', JString (BL_StateSHA256 b)), (''dataSha256'', JString (BL_DataSHA256 b))]"

definition json_ExecutableIdentity :: "ExecutableIdentity \<Rightarrow> json" where
  "json_ExecutableIdentity e =
     JObject [(''name'', JString (EI_Name e)), (''executableSha256'', JString (EI_ExecutableSHA256 e))]"

definition json_CleanupTarget :: "CleanupTarget \<Rightarrow> json" where
  "json_CleanupTarget c = JObject ([(''kind'', JString (CT_Kind c))] @ omitempty ''namespace'' (CT_Namespace c) @
     [(''name'', JString (CT_Name c)), (''preconditionIdentitySha256'', JString (CT_PreconditionIdentitySHA256 c))])"

definition json_Plan :: "Plan \<Rightarrow> json" where
  "json_Plan p = JObject
     [(''schemaVersion'', JString (Pl_SchemaVersion p)), (''operationId'', JString (Pl_OperationID p)),
      (''proofId'', JString (Pl_ProofID p)), (''installationId'', JString (Pl_InstallationID p)),
      (''acceptedPublicSha'', JString (Pl_AcceptedPublicSHA p)),
      (''acceptedDownstreamSha'', JString (Pl_AcceptedDownstreamSHA p)),
      (''clusterIdentitySha256'', JString (Pl_ClusterIdentitySHA256 p)),
      (''backupStorageLocation'', json_StorageLocation (Pl_BackupStorageLocation p)),
      (''objectStore'', json_ObjectStore (Pl_ObjectStore p)),
      (''sourceBaselines'', JArray (map json_Baseline (Pl_SourceBaselines p))),
      (''tool'', json_ExecutableIdentity (Pl_Tool p)), (''adapter'', json_ExecutableIdentity (Pl_Adapter p)),
      (''backup'', json_ObjectIdentity (Pl_Backup p)),
      (''restores'', JArray (map json_ObjectIdentity (Pl_Restores p))),
      (''isolatedNamespaces'', JArray (map json_IsolatedNamespace (Pl_IsolatedNamespaces p))),
      (''etcdSandbox'', json_ObjectIdentity (Pl_EtcdSandbox p)),
      (''cleanupTargets'', JArray (map json_CleanupTarget (Pl_CleanupTargets p))),
      (''aggregateProofPathToken'', JString (Pl_AggregateProofPathToken p)),
      (''issuedAt'', JString (Pl_IssuedAt p)), (''expiresAt'', JString (Pl_ExpiresAt p)),
      (''runNonceSha256'', JString (Pl_RunNonceSHA256 p))]"

definition json_ApprovalReport :: "ApprovalReport \<Rightarrow> json" where
  "json_ApprovalReport a = JObject
     [(''schemaVersion'', JString (AR_SchemaVersion a)), (''operationId'', JString (AR_OperationID a)),
      (''planSha256'', JString (AR_PlanSHA256 a)), (''approvalScopeSha256'', JString (AR_ApprovalScopeSHA256 a)),
      (''adapterExecutableSha256'', JString (AR_AdapterExecutableSHA256 a)),
      (''issuedAt'', JString (AR_IssuedAt a)), (''expiresAt'', JString (AR_ExpiresAt a)),
      (''approvalTuple'', JString (AR_ApprovalTuple a)),
      (''preflightRequestSha256'', JString (AR_PreflightRequestSHA256 a)),
      (''preflightResponseSha256'', JString (AR_PreflightResponseSHA256 a)),
      (''preflightEvidenceRef'', JString (AR_PreflightEvidenceRef a)),
      (''preflightEvidenceSha256'', JString (AR_PreflightEvidenceSHA256 a)),
      (''preflightBindingSha256'', JString (AR_PreflightBindingSHA256 a)),
      (''reportSha256'', JString (AR_ReportSHA256 a))]"

definition json_AdapterRequest :: "AdapterRequest \<Rightarrow> json" where
  "json_AdapterRequest r = JObject
     ([(''schemaVersion'', JString (Rq_SchemaVersion r)), (''protocolVersion'', JString (Rq_ProtocolVersion r)),
       (''operationId'', JString (Rq_OperationID r)), (''planSha256'', JString (Rq_PlanSHA256 r))] @
      omitempty ''approvalSha256'' (Rq_ApprovalSHA256 r) @
      [(''approvalScopeSha256'', JString (Rq_ApprovalScopeSHA256 r)),
       (''adapterExecutableSha256'', JString (Rq_AdapterExecutableSHA256 r)),
       (''mode'', JString (Rq_Mode r)), (''step'', JString (Rq_Step r))] @
      omitempty ''previousJournalSha256'' (Rq_PreviousJournalSHA256 r) @
      [(''requestId'', JString (Rq_RequestID r)), (''plan'', json_Plan (Rq_Plan r))] @
      omitempty_list ''retainKinds'' JString (Rq_RetainKinds r) @
      omitempty_list ''cleanupTargets'' json_CleanupTarget (Rq_CleanupTargets r) @
      [(''requestSha256'', JString (Rq_RequestSHA256 r))])"

definition json_TargetResult :: "TargetResult \<Rightarrow> json" where
  "json_TargetResult t = JObject
     [(''kind'', JString (TR_Kind t)), (''sourceChecksumSha256'', JString (TR_SourceChecksumSHA256 t)),
      (''restoredChecksumSha256'', JString (TR_RestoredChecksumSHA256 t)),
      (''evidenceRef'', JString (TR_EvidenceRef t)), (''evidenceSha256'', JString (TR_EvidenceSHA256 t))]"

definition json_Evidence :: "Evidence \<Rightarrow> json" where
  "json_Evidence e = JObject [(''ref'', JString (Ev_Ref e)), (''sha256'', JString (Ev_SHA256 e))]"

definition json_RestoreObservation :: "RestoreObservation \<Rightarrow> json" where
  "json_RestoreObservation r = JObject
     [(''restoreName'', JString (RO_RestoreName r)), (''restoreScopeSha256'', JString (RO_RestoreScopeSHA256 r)),
      (''sourceNamespace'', JString (RO_SourceNamespace r)),
      (''destinationNamespace'', JString (RO_DestinationNamespace r)),
      (''destinationScopeSha256'', JString (RO_DestinationScopeSHA256 r)),
      (''evidenceRef'', JString (RO_EvidenceRef r)), (''evidenceSha256'', JString (RO_EvidenceSHA256 r))]"

definition json_AdapterResponse :: "AdapterResponse \<Rightarrow> json" where
  "json_AdapterResponse r = JObject
     ([(''schemaVersion'', JString (Rs_SchemaVersion r)), (''protocolVersion'', JString (Rs_ProtocolVersion r)),
       (''operationId'', JString (Rs_OperationID r)), (''step'', JString (Rs_Step r)),
       (''requestSha256'', JString (Rs_RequestSHA256 r)),
       (''adapterExecutableSha256'', JString (Rs_AdapterExecutableSHA256 r)),
       (''status'', JString (Rs_Status r)), (''mutated'', JBool (Rs_Mutated r)),
       (''evidence'', json_Evidence (Rs_Evidence r))] @
      omitempty_list ''restoreObservations'' json_RestoreObservation (Rs_RestoreObservations r) @
      omitempty_list ''targets'' json_TargetResult (Rs_Targets r) @
      omitempty_option ''isolationEvidence'' json_Evidence (Rs_IsolationEvidence r) @
      omitempty_option ''cleanupEvidence'' json_Evidence (Rs_CleanupEvidence r) @
      omitempty ''objectLockDeleteDenialReceiptSha256'' (Rs_ObjectLockDeleteDenialReceiptSHA256 r) @
      omitempty ''aggregateProofArtifactSha256'' (Rs_AggregateProofArtifactSHA256 r) @
      omitempty ''aggregateProofPathToken'' (Rs_AggregateProofPathToken r) @
      [(''responseSha256'', JString (Rs_ResponseSHA256 r))])"

definition json_JournalEntry :: "JournalEntry \<Rightarrow> json" where
  "json_JournalEntry e = JObject
     ([(''schemaVersion'', JString (JE_SchemaVersion e)), (''sequence'', JInt (JE_Sequence e)),
       (''operationId'', JString (JE_OperationID e)), (''planSha256'', JString (JE_PlanSHA256 e)),
       (''approvalSha256'', JString (JE_ApprovalSHA256 e)),
       (''approvalScopeSha256'', JString (JE_ApprovalScopeSHA256 e)),
       (''adapterExecutableSha256'', JString (JE_AdapterExecutableSHA256 e)),
       (''step'', JString (JE_Step e)), (''requestSha256'', JString (JE_RequestSHA256 e)),
       (''responseSha256'', JString (JE_ResponseSHA256 e))] @
      omitempty_option ''response'' json_AdapterResponse (JE_Response e) @
      omitempty ''previousEntrySha256'' (JE_PreviousEntrySHA256 e) @
      [(''recordedAt'', JString (JE_RecordedAt e)), (''entrySha256'', JString (JE_EntrySHA256 e))])"

definition json_ExecutionReceipt :: "ExecutionReceipt \<Rightarrow> json" where
  "json_ExecutionReceipt r = JObject
     [(''schemaVersion'', JString (ER_SchemaVersion r)), (''operationId'', JString (ER_OperationID r)),
      (''proofId'', JString (ER_ProofID r)), (''installationId'', JString (ER_InstallationID r)),
      (''planSha256'', JString (ER_PlanSHA256 r)), (''approvalSha256'', JString (ER_ApprovalSHA256 r)),
      (''approvalScopeSha256'', JString (ER_ApprovalScopeSHA256 r)),
      (''adapterExecutableSha256'', JString (ER_AdapterExecutableSHA256 r)),
      (''status'', JString (ER_Status r)), (''completedAt'', JString (ER_CompletedAt r)),
      (''journalHeadSha256'', JString (ER_JournalHeadSHA256 r)),
      (''executionEvidenceResponseSha256'', JString (ER_ExecutionEvidenceResponseSHA256 r)),
      (''targets'', JArray (map json_TargetResult (ER_Targets r))),
      (''isolationEvidence'', json_Evidence (ER_IsolationEvidence r)),
      (''cleanupEvidence'', json_Evidence (ER_CleanupEvidence r)),
      (''objectLockDeleteDenialReceiptSha256'', JString (ER_ObjectLockDeleteDenialReceiptSHA256 r)),
      (''aggregateProofArtifactSha256'', JString (ER_AggregateProofArtifactSHA256 r)),
      (''aggregateProofPathToken'', JString (ER_AggregateProofPathToken r)),
      (''receiptSha256'', JString (ER_ReceiptSHA256 r))]"

subsection \<open>Digests\<close>

definition digest :: "json \<Rightarrow> string" where
  "digest v = SHA256Hex (json_Marshal v)"

definition PlanSHA256 :: "Plan \<Rightarrow> string" where
  "PlanSHA256 p = digest (json_Plan p)"

definition ApprovalScopeSHA256 :: "Plan \<Rightarrow> string" where
  "ApprovalScopeSHA256 p = digest (JObject
     [(''schemaVersion'', JString ''cloudring.backup-drill.approval-scope/v1''),
      (''planSha256'', JString (PlanSHA256 p)), (''operationId'', JString (Pl_OperationID p)),
      (''proofId'', JString (Pl_ProofID p)), (''installationId'', JString (Pl_InstallationID p)),
      (''acceptedPublicSha'', JString (Pl_AcceptedPublicSHA p)),
      (''acceptedDownstreamSha'', JString (Pl_AcceptedDownstreamSHA p)),
      (''clusterSha256'', JString (Pl_ClusterIdentitySHA256 p)),
      (''adapter'', json_ExecutableIdentity (Pl_Adapter p))])"

definition PreflightBindingSHA256 :: "Plan \<Rightarrow> string \<Rightarrow> string \<Rightarrow> string \<Rightarrow> string" where
  "PreflightBindingSHA256 p responseSHA256 evidenceRef evidenceSHA256 = digest (JObject
     [(''schemaVersion'', JString ''cloudring.backup-drill.preflight-binding/v1''),
      (''approvalScopeSha256'', JString (ApprovalScopeSHA256 p)),
      (''adapterExecutableSha256'', JString (EI_ExecutableSHA256 (Pl_Adapter p))),
      (''responseSha256'', JString responseSHA256), (''evidenceRef'', JString evidenceRef),
      (''evidenceSha256'', JString evidenceSHA256)])"

definition ApprovalSHA256 :: "ApprovalReport \<Rightarrow> string" where
  "ApprovalSHA256 a = digest (json_ApprovalReport a)"

definition ApprovalReportSHA256 :: "ApprovalReport \<Rightarrow> string" where
  "ApprovalReportSHA256 a = digest (json_ApprovalReport (a\<lparr>AR_ReportSHA256 := []\<rparr>))"

definition AdapterRequestSHA256 :: "AdapterRequest \<Rightarrow> string" where
  "AdapterRequestSHA256 r = digest (json_AdapterRequest (r\<lparr>Rq_RequestSHA256 := []\<rparr>))"

definition AdapterResponseSHA256 :: "AdapterResponse \<Rightarrow> string" where
  "AdapterResponseSHA256 r = digest (json_AdapterResponse (r\<lparr>Rs_ResponseSHA256 := []\<rparr>))"

definition JournalEntrySHA256 :: "JournalEntry \<Rightarrow> string" where
  "JournalEntrySHA256 e = digest (json_JournalEntry (e\<lparr>JE_EntrySHA256 := []\<rparr>))"

definition ExecutionReceiptSHA256 :: "ExecutionReceipt \<Rightarrow> string" where
  "ExecutionReceiptSHA256 r = digest (json_ExecutionReceipt (r\<lparr>ER_ReceiptSHA256 := []\<rparr>))"

end
