(* ===== verification/Go_Time.thy ===== *)
theory Go_Time
  imports Go_Base Go_Path
begin

text \<open>
  Times as text. An instant is a number of nanoseconds since the start of year 1, UTC.
  \<open>FormatRFC3339Nano\<close> is \<^verbatim>\<open>time.Time.Format(time.RFC3339Nano)\<close> of a UTC time: the
  fraction is written without trailing zeros and left out when it is zero. A text is
  canonical when parsing it and formatting the result gives the text back; since only
  texts of the shape the formatter writes can pass this test, the parser reads just that
  shape.
\<close>

subsection \<open>Calendar\<close>

definition days_before_year :: "int \<Rightarrow> int" where
  "days_before_year y = 365 * (y - 1) + (y - 1) div 4 - (y - 1) div 100 + (y - 1) div 400"

definition leap_year :: "int \<Rightarrow> bool" where
  "leap_year y \<longleftrightarrow> y mod 4 = 0 \<and> (y mod 100 \<noteq> 0 \<or> y mod 400 = 0)"

definition month_lengths :: "int \<Rightarrow> int list" where
  "month_lengths y = [31, if leap_year y then 29 else 28, 31, 30, 31, 30, 31, 31, 30, 31, 30, 31]"

definition year_of_day :: "int \<Rightarrow> int" where
  "year_of_day d =
     (let y = d * 400 div 146097 + 1 in
      if d < days_before_year y then y - 1
      else if days_before_year (y + 1) \<le> d then y + 1
      else y)"

text \<open>The month of a day of the year, both counted from 0, and the day within the month.\<close>

fun month_of_day :: "int list \<Rightarrow> int \<Rightarrow> int \<times> int" where
  "month_of_day [] d = (0, d)"
| "month_of_day (n # ns) d = (if d < n then (0, d) else let (m, r) = month_of_day ns (d - n) in (m + 1, r))"

definition civil_of_day :: "int \<Rightarrow> int \<times> int \<times> int" where
  "civil_of_day d =
     (let y = year_of_day d; (m, r) = month_of_day (month_lengths y) (d - days_before_year y) in (y, m + 1, r + 1))"

definition day_of_civil :: "int \<Rightarrow> int \<Rightarrow> int \<Rightarrow> int" where
  "day_of_civil y m d = days_before_year y + sum_list (take (nat (m - 1)) (month_lengths y)) + d - 1"

lemma days_before_year_bounds:
  "146097 * y - 699 \<le> 400 * days_before_year (y + 1)" "400 * days_before_year (y + 1) \<le> 146097 * y + 396"
proof -
  have "days_before_year (y + 1) = 365 * y + y div 4 - y div 100 + y div 400"
    by (simp add: days_before_year_def)
  moreover have "k * (y div k) \<le> y" "y \<le> k * (y div k) + (k - 1)" if "0 < k" for k
    using mult_div_mod_eq [of k y] pos_mod_sign [OF that, of y] pos_mod_bound [OF that, of y] by linarith+
  from this [of 4] this [of 100] this [of 400]
  have "4 * (y div 4) \<le> y" "y \<le> 4 * (y div 4) + 3" "100 * (y div 100) \<le> y" "y \<le> 100 * (y div 100) + 99"
    "400 * (y div 400) \<le> y" "y \<le> 400 * (y div 400) + 399"
    by simp_all
  ultimately show "146097 * y - 699 \<le> 400 * days_before_year (y + 1)"
    "400 * days_before_year (y + 1) \<le> 146097 * y + 396" by linarith+
qed

lemma year_of_day:
  "days_before_year (year_of_day d) \<le> d" "d < days_before_year (year_of_day d + 1)"
proof -
  define y where "y = d * 400 div 146097 + 1"
  have est: "146097 * (y - 1) \<le> d * 400" "d * 400 < 146097 * y"
    using mult_div_mod_eq [of 146097 "d * 400"] pos_mod_sign [of 146097 "d * 400"] pos_mod_bound [of 146097 "d * 400"]
    unfolding y_def by simp_all
  have "days_before_year (y - 1) \<le> d" "d < days_before_year (y + 2)"
    using est days_before_year_bounds(2) [of "y - 2"] days_before_year_bounds(1) [of "y + 1"]
    by (simp_all add: algebra_simps)
  then show "days_before_year (year_of_day d) \<le> d" "d < days_before_year (year_of_day d + 1)"
    unfolding year_of_day_def Let_def y_def [symmetric] by (auto simp: add.commute)
qed

lemma month_of_day:
  assumes "0 \<le> d" and "d < sum_list ns" and "\<forall>n \<in> set ns. 0 < n" and "month_of_day ns d = (m, r)"
  shows "0 \<le> m \<and> m < int (length ns) \<and> 0 \<le> r \<and> r < ns ! nat m \<and> sum_list (take (nat m) ns) + r = d"
  using assms
proof (induction ns arbitrary: d m r)
  case (Cons n ns)
  show ?case
  proof (cases "d < n")
    case True
    with Cons.prems show ?thesis by auto
  next
    case False
    obtain m' r' where m': "month_of_day ns (d - n) = (m', r')" by (cases "month_of_day ns (d - n)")
    with Cons.prems False have m: "m = m' + 1" "r = r'" by auto
    have IH: "0 \<le> m' \<and> m' < int (length ns) \<and> 0 \<le> r' \<and> r' < ns ! nat m' \<and> sum_list (take (nat m') ns) + r' = d - n"
      using Cons.prems False by (intro Cons.IH [OF _ _ _ m']) auto
    then have "nat m = Suc (nat m')" using m by (simp add: nat_add_distrib)
    then have "(n # ns) ! nat m = ns ! nat m'" "sum_list (take (nat m) (n # ns)) = n + sum_list (take (nat m') ns)"
      by simp_all
    with IH m show ?thesis by simp
  qed
qed simp

lemma div_step:
  fixes y k :: int
  assumes "0 < k"
  shows "y div k = (y - 1) div k + (if y mod k = 0 then 1 else 0)"
proof (cases "y mod k = 0")
  case True
  then have "(y - 1) div k = y div k - 1"
    using assms mult_div_mod_eq [of k y] by (intro int_div_pos_eq [where r = "k - 1"]) (auto simp: algebra_simps)
  with True show ?thesis by simp
next
  case False
  then have "(y - 1) div k = y div k"
    using assms mult_div_mod_eq [of k y] pos_mod_sign [OF assms, of y] pos_mod_bound [OF assms, of y]
    by (intro int_div_pos_eq [where r = "y mod k - 1"]) (auto simp: algebra_simps)
  with False show ?thesis by simp
qed

lemma leap_indicator:
  "(b \<Longrightarrow> a) \<Longrightarrow> (c \<Longrightarrow> b) \<Longrightarrow>
     (if a \<and> (\<not> b \<or> c) then 1 else 0) = (if a then 1 else 0) - (if b then 1 else 0) + (if c then 1 else 0 :: int)"
  by (cases a; cases b; cases c) simp_all

lemma year_length: "days_before_year (y + 1) - days_before_year y = sum_list (month_lengths y)"
proof -
  have "y mod 4 = 0" if "y mod 100 = 0"
    using that dvd_trans [of 4 100 y] by (simp add: mod_eq_0_iff_dvd)
  moreover have "y mod 100 = 0" if "y mod 400 = 0"
    using that dvd_trans [of 100 400 y] by (simp add: mod_eq_0_iff_dvd)
  ultimately have "(if leap_year y then 1 else 0) = (if y mod 4 = 0 then 1 else 0) -
      (if y mod 100 = 0 then 1 else 0) + (if y mod 400 = 0 then 1 else 0 :: int)"
    unfolding leap_year_def by (rule leap_indicator)
  moreover have "sum_list (month_lengths y) = 365 + (if leap_year y then 1 else 0)"
    unfolding month_lengths_def by (cases "leap_year y") (simp_all only: if_True if_False, simp_all)
  moreover have "days_before_year (y + 1) = 365 * y + y div 4 - y div 100 + y div 400"
    by (simp add: days_before_year_def)
  moreover have "y div 4 = (y - 1) div 4 + (if y mod 4 = 0 then 1 else 0)"
    "y div 100 = (y - 1) div 100 + (if y mod 100 = 0 then 1 else 0)"
    "y div 400 = (y - 1) div 400 + (if y mod 400 = 0 then 1 else 0)"
    by (rule div_step, simp)+
  ultimately show ?thesis
    unfolding days_before_year_def [of y] by (simp only:) (simp only: algebra_simps)
qed

lemma civil_of_day:
  assumes "civil_of_day d = (y, m, k)"
  shows "y = year_of_day d" "1 \<le> m" "m \<le> 12" "1 \<le> k" "k \<le> 31" "day_of_civil y m k = d"
proof -
  define e where "e = d - days_before_year (year_of_day d)"
  obtain m' r where month: "month_of_day (month_lengths (year_of_day d)) e = (m', r)"
    by (cases "month_of_day (month_lengths (year_of_day d)) e")
  with assms have eqs: "y = year_of_day d" "m = m' + 1" "k = r + 1"
    by (auto simp: civil_of_day_def Let_def e_def)
  have "0 \<le> e" "e < sum_list (month_lengths y)"
    using year_of_day [of d] year_length [of y] eqs by (auto simp: e_def)
  moreover have pos: "\<forall>n \<in> set (month_lengths y). 0 < n \<and> n \<le> 31" "length (month_lengths y) = 12"
    by (auto simp: month_lengths_def)
  ultimately have *: "0 \<le> m'" "m' < 12" "0 \<le> r" "r < month_lengths y ! nat m'"
    "sum_list (take (nat m') (month_lengths y)) + r = e"
    using month_of_day [OF _ _ _ month] eqs by auto
  moreover have "month_lengths y ! nat m' \<le> 31"
    using pos * by (auto simp: nth_mem)
  ultimately show "y = year_of_day d" "1 \<le> m" "m \<le> 12" "1 \<le> k" "k \<le> 31" "day_of_civil y m k = d"
    using eqs by (auto simp: day_of_civil_def e_def)
qed

subsection \<open>Text\<close>

fun pad :: "nat \<Rightarrow> nat \<Rightarrow> string" where
  "pad 0 n = []"
| "pad (Suc k) n = pad k (n div 10) @ [char_of (48 + n mod 10)]"

definition year_text :: "int \<Rightarrow> string" where
  "year_text y =
     (if 0 \<le> y \<and> y < 10000 then pad 4 (nat y)
      else if y < 0 then CHR ''-'' # (if y > -10000 then pad 4 (nat (- y)) else itoa (nat (- y)))
      else itoa (nat y))"

definition trim_zeros :: "string \<Rightarrow> string" where
  "trim_zeros s = rev (dropWhile (\<lambda>c. c = CHR ''0'') (rev s))"

definition fraction_text :: "nat \<Rightarrow> string" where
  "fraction_text n = (let f = trim_zeros (pad 9 n) in if f = [] then [] else CHR ''.'' # f)"

definition FormatRFC3339Nano :: "gotime \<Rightarrow> string" where
  "FormatRFC3339Nano t =
     (let s = t div 1000000000; r = nat (s mod 86400); (y, m, d) = civil_of_day (s div 86400) in
      year_text y @ [CHR ''-''] @ pad 2 (nat m) @ [CHR ''-''] @ pad 2 (nat d) @ [CHR ''T''] @
      pad 2 (r div 3600) @ [CHR '':''] @ pad 2 (r div 60 mod 60) @ [CHR '':''] @ pad 2 (r mod 60) @
      fraction_text (nat (t mod 1000000000)) @ [CHR ''Z''])"

definition digits_value :: "string \<Rightarrow> nat" where
  "digits_value s = foldl (\<lambda>a c. 10 * a + (of_char c - 48)) 0 s"

definition parse_fraction :: "string \<Rightarrow> int option" where
  "parse_fraction f =
     (if f = [] then Some 0
      else if hd f = CHR ''.'' \<and> list_all is_digit (tl f) \<and> length (tl f) \<le> 9
      then Some (int (digits_value (tl f)) * 10 ^ (9 - length (tl f)))
      else None)"

definition field :: "nat \<Rightarrow> nat \<Rightarrow> string \<Rightarrow> string" where
  "field i n s = take n (drop i s)"

definition parse_civil :: "string \<Rightarrow> gotime option" where
  "parse_civil v =
     (let ds = [field 0 4 v, field 5 2 v, field 8 2 v, field 11 2 v, field 14 2 v, field 17 2 v] in
      if 20 \<le> length v \<and> list_all (list_all is_digit) ds \<and> v ! 4 = CHR ''-'' \<and> v ! 7 = CHR ''-'' \<and>
         v ! 10 = CHR ''T'' \<and> v ! 13 = CHR '':'' \<and> v ! 16 = CHR '':'' \<and> last v = CHR ''Z''
      then case map (int \<circ> digits_value) ds of
          [y, m, d, hh, mm, ss] \<Rightarrow>
            map_option (\<lambda>f. (((day_of_civil y m d * 24 + hh) * 60 + mm) * 60 + ss) * 1000000000 + f)
              (parse_fraction (butlast (drop 19 v)))
        | _ \<Rightarrow> None
      else None)"

text \<open>The check every package of the system applies to a time it reads.\<close>

definition parse_canonical_time :: "string \<Rightarrow> gotime option" where
  "parse_canonical_time v =
     (case parse_civil v of
        Some t \<Rightarrow> if FormatRFC3339Nano t = v then Some t else None
      | None \<Rightarrow> None)"

definition Unix :: "gotime \<Rightarrow> int" where
  "Unix t = t div 1000000000 - 62135596800"

lemma length_pad [simp]: "length (pad k n) = k"
  by (induction k arbitrary: n) auto

lemma is_digit_char: "k < 10 \<Longrightarrow> is_digit (char_of (48 + k :: nat))"
  by (simp add: is_digit_def less_eq_char_def of_char_of)

lemma is_digit_pad: "list_all is_digit (pad k n)"
  by (induction k arbitrary: n) (simp_all add: is_digit_char)

lemma digits_value_snoc: "digits_value (s @ [c]) = 10 * digits_value s + (of_char c - 48)"
  by (simp add: digits_value_def)

lemma digits_value_pad: "n < 10 ^ k \<Longrightarrow> digits_value (pad k n) = n"
proof (induction k arbitrary: n)
  case 0
  then show ?case by (simp add: digits_value_def)
next
  case (Suc k)
  then have "n div 10 < 10 ^ k" by (simp add: less_mult_imp_div_less mult.commute)
  with Suc.IH show ?case by (simp add: digits_value_snoc of_char_of)
qed

lemma trim_zeros_append: "\<exists>j. s = trim_zeros s @ replicate j (CHR ''0'')"
proof -
  have "\<exists>j. s = replicate j (CHR ''0'') @ dropWhile (\<lambda>c. c = CHR ''0'') s" for s
  proof (induction s)
    case (Cons c s)
    then obtain j where "s = replicate j (CHR ''0'') @ dropWhile (\<lambda>c. c = CHR ''0'') s" by blast
    then show ?case by (cases "c = CHR ''0''") (auto intro: exI [of _ "Suc j"] exI [of _ 0])
  qed simp
  from this [of "rev s"] show ?thesis
    unfolding trim_zeros_def by (metis rev_append rev_replicate rev_rev_ident)
qed

lemma digits_value_zeros: "digits_value (s @ replicate j (CHR ''0'')) = digits_value s * 10 ^ j"
proof (induction j)
  case (Suc j)
  have "s @ replicate (Suc j) (CHR ''0'') = (s @ replicate j (CHR ''0'')) @ [CHR ''0'']"
    by (simp add: replicate_append_same)
  with Suc show ?case by (simp only: digits_value_snoc) simp
qed simp

lemma parse_fraction_text:
  assumes "n < 1000000000"
  shows "parse_fraction (fraction_text n) = Some (int n)"
proof -
  obtain j where j: "pad 9 n = trim_zeros (pad 9 n) @ replicate j (CHR ''0'')"
    using trim_zeros_append by blast
  let ?f = "trim_zeros (pad 9 n)"
  have len: "length ?f + j = 9" using arg_cong [OF j, of length] by simp
  have "n = digits_value ?f * 10 ^ j"
    using digits_value_pad [of n 9] digits_value_zeros [of ?f j] assms j by simp
  then have "int n = int (digits_value ?f) * 10 ^ (9 - length ?f)"
    using len by (metis add_diff_cancel_left' of_nat_mult of_nat_power of_nat_numeral)
  moreover have "list_all is_digit ?f"
    using is_digit_pad [of 9 n] j by (metis list_all_append)
  moreover have "digits_value [] = 0" by (simp add: digits_value_def)
  ultimately show ?thesis using len
    by (auto simp: fraction_text_def parse_fraction_def Let_def)
qed

lemma length_2E:
  assumes "length s = 2" obtains a b where "s = [a, b]"
  using assms by (cases s; cases "tl s") auto

lemma parse_civil_fields:
  assumes "length Y = 4" "length M = 2" "length D = 2" "length h = 2" "length mi = 2" "length se = 2"
    and "list_all (list_all is_digit) [Y, M, D, h, mi, se]"
  shows "parse_civil (Y @ [CHR ''-''] @ M @ [CHR ''-''] @ D @ [CHR ''T''] @ h @ [CHR '':''] @ mi @ [CHR '':''] @ se @
      F @ [CHR ''Z'']) =
    map_option (\<lambda>f. (((day_of_civil (int (digits_value Y)) (int (digits_value M)) (int (digits_value D)) * 24 +
      int (digits_value h)) * 60 + int (digits_value mi)) * 60 + int (digits_value se)) * 1000000000 + f)
      (parse_fraction F)"
proof -
  have "length (take 2 Y) = 2" "length (drop 2 Y) = 2" using assms(1) by simp_all
  then obtain a b c d where "take 2 Y = [a, b]" "drop 2 Y = [c, d]" by (elim length_2E)
  then have Y: "Y = [a, b, c, d]" using append_take_drop_id [of 2 Y] by simp
  obtain m1 m2 d1 d2 h1 h2 i1 i2 s1 s2
    where fields: "M = [m1, m2]" "D = [d1, d2]" "h = [h1, h2]" "mi = [i1, i2]" "se = [s1, s2]"
    using assms(2-6) by (elim length_2E)
  show ?thesis
    using assms(7) unfolding Y fields
    by (simp add: parse_civil_def field_def Let_def numeral_eq_Suc butlast_append)
qed

text \<open>The years a text can hold.\<close>

definition time_in_range :: "gotime \<Rightarrow> bool" where
  "time_in_range t \<longleftrightarrow> (let y = year_of_day (t div 1000000000 div 86400) in 0 \<le> y \<and> y < 10000)"

lemma seconds_of_day:
  fixes r :: nat
  shows "((int (r div 3600)) * 60 + int (r div 60 mod 60)) * 60 + int (r mod 60) = int r"
proof -
  have "r div 3600 = r div 60 div 60" by (simp add: div_mult2_eq [symmetric])
  then have "((r div 3600) * 60 + r div 60 mod 60) * 60 + r mod 60 = r" by simp
  then show ?thesis by (metis of_nat_add of_nat_mult of_nat_numeral)
qed

lemma parse_civil_Format:
  assumes "time_in_range t"
  shows "parse_civil (FormatRFC3339Nano t) = Some t"
proof -
  define s where "s = t div 1000000000"
  define r where "r = nat (s mod 86400)"
  obtain y m d where civil: "civil_of_day (s div 86400) = (y, m, d)" by (cases "civil_of_day (s div 86400)") auto
  note date = civil_of_day [OF civil]
  have y: "0 \<le> y" "y < 10000" using assms date(1) by (auto simp: time_in_range_def s_def Let_def)
  have r: "r < 86400" "int r = s mod 86400" by (auto simp: r_def nat_less_iff)
  have two: "digits_value (pad 2 n) = n" if "n < 100" for n using digits_value_pad [of n 2] that by simp
  have parts: "int (digits_value (pad 4 (nat y))) = y" "int (digits_value (pad 2 (nat m))) = m"
    "int (digits_value (pad 2 (nat d))) = d" "digits_value (pad 2 (r div 3600)) = r div 3600"
    "digits_value (pad 2 (r div 60 mod 60)) = r div 60 mod 60" "digits_value (pad 2 (r mod 60)) = r mod 60"
    using y date r digits_value_pad [of "nat y" 4] by (auto simp: two less_mult_imp_div_less)
  have "parse_fraction (fraction_text (nat (t mod 1000000000))) = Some (t mod 1000000000)"
    using parse_fraction_text [of "nat (t mod 1000000000)"] by simp
  moreover have "FormatRFC3339Nano t = pad 4 (nat y) @ [CHR ''-''] @ pad 2 (nat m) @ [CHR ''-''] @ pad 2 (nat d) @ [CHR ''T''] @
      pad 2 (r div 3600) @ [CHR '':''] @ pad 2 (r div 60 mod 60) @ [CHR '':''] @ pad 2 (r mod 60) @
      fraction_text (nat (t mod 1000000000)) @ [CHR ''Z'']"
    using civil y by (simp add: FormatRFC3339Nano_def Let_def s_def r_def year_text_def)
  ultimately have "parse_civil (FormatRFC3339Nano t) =
      Some ((((s div 86400 * 24 + int (r div 3600)) * 60 + int (r div 60 mod 60)) * 60 + int (r mod 60)) * 1000000000 +
        t mod 1000000000)"
    using parse_civil_fields [of "pad 4 (nat y)" "pad 2 (nat m)" "pad 2 (nat d)" "pad 2 (r div 3600)"
        "pad 2 (r div 60 mod 60)" "pad 2 (r mod 60)" "fraction_text (nat (t mod 1000000000))"] parts date(6)
    by (simp add: is_digit_pad)
  also have "((s div 86400 * 24 + int (r div 3600)) * 60 + int (r div 60 mod 60)) * 60 + int (r mod 60) = s"
  proof -
    have "((q * 24 + a) * 60 + b) * 60 + c = s" if "(a * 60 + b) * 60 + c = x" "86400 * q + x = s" for a b c q x :: int
      using that by simp
    from this [OF seconds_of_day] show ?thesis using r(2) mult_div_mod_eq [of 86400 s] by metis
  qed
  finally show ?thesis by (simp add: s_def)
qed

lemma parse_canonical_time_Format:
  "time_in_range t \<Longrightarrow> parse_canonical_time (FormatRFC3339Nano t) = Some t"
  by (simp add: parse_canonical_time_def parse_civil_Format)

lemma parse_canonical_timeD: "parse_canonical_time v = Some t \<Longrightarrow> FormatRFC3339Nano t = v"
  by (auto simp: parse_canonical_time_def split: option.splits if_splits)

end
