(* ===== verification/Drill_Validate.thy ===== *)
theory Drill_Validate
  imports Drill_Types Go_Regexp Go_Time
begin

text \<open>
  Package \<^verbatim>\<open>pkg/backup/drill\<close>, file \<^verbatim>\<open>validate.go\<close> without the receipt, and the
  construction of adapter requests of \<^verbatim>\<open>engine.go\<close>. A check returns the text of its
  error, or nothing.
\<close>

subsection \<open>Patterns\<close>

definition drill_alnum :: "char \<Rightarrow> bool" where
  "drill_alnum c \<longleftrightarrow> is_lower c \<or> is_digit c"

definition idPattern :: "rep list" where
  "idPattern = [Rep drill_alnum 1 (Some 1), Rep (\<lambda>c. drill_alnum c \<or> c \<in> set ''._:-'') 0 (Some 127)]"

definition namePattern_ends :: "rep list" where
  "namePattern_ends = [Rep drill_alnum 1 (Some 1), Rep (\<lambda>c. drill_alnum c \<or> c \<in> set ''.-'') 0 (Some 61),
     Rep drill_alnum 1 (Some 1)]"

definition kindPattern :: "rep list" where
  "kindPattern = [Rep (\<lambda>c. is_upper c \<or> is_lower c) 1 (Some 1),
     Rep (\<lambda>c. is_upper c \<or> is_lower c \<or> is_digit c \<or> c = CHR ''.'') 0 (Some 63)]"

definition shaPattern :: "rep list" where
  "shaPattern = [Rep is_hex 64 (Some 64)]"

definition gitSHAPattern :: "rep list" where
  "gitSHAPattern = [Rep is_hex 40 (Some 40)]"

definition tokenPattern :: "rep list" where
  "tokenPattern = [Rep drill_alnum 1 (Some 1), Rep (\<lambda>c. drill_alnum c \<or> c \<in> set ''._/-'') 0 (Some 228)]"

definition validID :: "string \<Rightarrow> bool" where
  "validID v \<longleftrightarrow> MatchString idPattern v"

definition validName :: "string \<Rightarrow> bool" where
  "validName v \<longleftrightarrow> MatchString [Rep drill_alnum 1 (Some 1)] v \<or> MatchString namePattern_ends v"

definition validSHA :: "string \<Rightarrow> bool" where
  "validSHA v \<longleftrightarrow> MatchString shaPattern v \<and> hex_decodes v"

definition validPathToken :: "string \<Rightarrow> bool" where
  "validPathToken v \<longleftrightarrow> MatchString tokenPattern v \<and> \<not> Contains v ''..'' \<and> \<not> has_prefix ''/'' v \<and>
     \<not> ContainsAny [last v] ''.-/''"

definition validEvidence :: "string \<Rightarrow> string \<Rightarrow> bool" where
  "validEvidence ref sha \<longleftrightarrow> validPathToken ref \<and> validSHA sha"

definition validObject :: "ObjectIdentity \<Rightarrow> bool" where
  "validObject v \<longleftrightarrow> validName (OI_Name v) \<and> (OI_Namespace v = [] \<or> validName (OI_Namespace v)) \<and>
     validSHA (OI_ScopeSHA256 v)"

definition canonicalTime :: "string \<Rightarrow> gotime option" where
  "canonicalTime v = parse_canonical_time v"

definition retainedKind :: "string \<Rightarrow> bool" where
  "retainedKind k \<longleftrightarrow> k \<in> {''Backup'', ''DataUpload'', ''ObjectStoreRecoveryPoint'', ''RestoreAuditCR''}"

subsection \<open>Plans\<close>

definition validWindow :: "string \<Rightarrow> string \<Rightarrow> bool" where
  "validWindow issuedAt expiresAt \<longleftrightarrow>
     (case (canonicalTime issuedAt, canonicalTime expiresAt) of
        (Some issued, Some expires) \<Rightarrow> issued < expires \<and> time_Sub expires issued \<le> 30 * Minute
      | _ \<Rightarrow> False)"

definition validBaseline :: "string \<times> Baseline \<Rightarrow> bool" where
  "validBaseline kb \<longleftrightarrow> (let (kind, b) = kb in
     BL_Kind b = kind \<and> validSHA (BL_IdentitySHA256 b) \<and> validSHA (BL_StateSHA256 b) \<and> validSHA (BL_DataSHA256 b))"

definition restoreKinds :: "string list" where
  "restoreKinds = [''VirtualMachineClaim'', ''Volume'', ''Namespace'', ''KubernetesClusterClaim'']"

definition mappingRestoreIndexes :: "nat list" where
  "mappingRestoreIndexes = [0, 1, 2, 2, 3]"

text \<open>The loop over the namespace mappings, with the three sets of what was seen.\<close>

fun validateMappings :: "Plan \<Rightarrow> nat \<Rightarrow> IsolatedNamespace list \<Rightarrow>
    string list \<Rightarrow> string list \<Rightarrow> string list \<Rightarrow> string option" where
  "validateMappings p index [] seenDestinations seenScopes seenMappings = None"
| "validateMappings p index (m # ms) seenDestinations seenScopes seenMappings =
     (let expected = mappingRestoreIndexes ! index; restore = Pl_Restores p ! expected;
          destination = IN_Destination m; identity = IN_RestoreName m @ ''/'' @ IN_SourceNamespace m in
      if IN_RestoreIndex m \<noteq> int expected
      then Some ''backup drill isolated namespace mapping restore index is invalid''
      else if IN_RestoreName m \<noteq> OI_Name restore \<or> IN_RestoreScopeSHA256 m \<noteq> OI_ScopeSHA256 restore \<or>
        \<not> validName (IN_SourceNamespace m) \<or> OI_Kind destination \<noteq> ''Namespace'' \<or> OI_Namespace destination \<noteq> [] \<or>
        \<not> validObject destination \<or> OI_Name destination \<in> set seenDestinations \<or>
        OI_ScopeSHA256 destination \<in> set seenScopes \<or> identity \<in> set seenMappings
      then Some ''backup drill isolated namespace mapping is invalid, duplicated, or misassigned''
      else if index = 2 \<and> IN_SourceNamespace m \<noteq> ''platform-system'' \<or>
        index = 3 \<and> IN_SourceNamespace m \<noteq> ''flux-system''
      then Some ''backup drill Namespace restore must map platform-system and flux-system''
      else validateMappings p (index + 1) ms (OI_Name destination # seenDestinations)
        (OI_ScopeSHA256 destination # seenScopes) (identity # seenMappings))"

definition cleanup_identity :: "CleanupTarget \<Rightarrow> string" where
  "cleanup_identity t = CT_Kind t @ ''/'' @ CT_Namespace t @ ''/'' @ CT_Name t"

fun validateCleanup :: "Plan \<Rightarrow> nat \<Rightarrow> CleanupTarget list \<Rightarrow> string list \<Rightarrow> string option" where
  "validateCleanup p index [] seen = None"
| "validateCleanup p index (t # ts) seen =
     (let n = length (Pl_IsolatedNamespaces p) in
      if \<not> MatchString kindPattern (CT_Kind t) \<or> \<not> validName (CT_Name t) \<or>
        CT_Namespace t \<noteq> [] \<and> \<not> validName (CT_Namespace t) \<or> \<not> validSHA (CT_PreconditionIdentitySHA256 t) \<or>
        cleanup_identity t \<in> set seen \<or> retainedKind (CT_Kind t)
      then Some ''backup drill cleanup target is unsafe or duplicated''
      else if index < n \<and> (CT_Kind t \<noteq> ''Namespace'' \<or> CT_Namespace t \<noteq> [] \<or>
        CT_Name t \<noteq> OI_Name (IN_Destination (Pl_IsolatedNamespaces p ! index)))
      then Some ''backup drill cleanup targets are not exact isolated namespaces''
      else if index = n \<and> (CT_Kind t \<noteq> ''EtcdSandbox'' \<or> CT_Namespace t \<noteq> [] \<or>
        CT_Name t \<noteq> OI_Name (Pl_EtcdSandbox p))
      then Some ''backup drill cleanup target is not the exact etcd sandbox''
      else validateCleanup p (index + 1) ts (cleanup_identity t # seen))"

definition validPlanHeader :: "Plan \<Rightarrow> bool" where
  "validPlanHeader p \<longleftrightarrow> Pl_SchemaVersion p = PlanSchemaVersion \<and> validID (Pl_OperationID p) \<and>
     validID (Pl_ProofID p) \<and> validID (Pl_InstallationID p) \<and> MatchString gitSHAPattern (Pl_AcceptedPublicSHA p) \<and>
     MatchString gitSHAPattern (Pl_AcceptedDownstreamSHA p) \<and> validSHA (Pl_ClusterIdentitySHA256 p) \<and>
     validWindow (Pl_IssuedAt p) (Pl_ExpiresAt p) \<and> validSHA (Pl_RunNonceSHA256 p)"

definition validStorage :: "StorageLocation \<Rightarrow> ObjectStore \<Rightarrow> bool" where
  "validStorage l s \<longleftrightarrow> validName (SL_Name l) \<and> validSHA (SL_UIDSHA256 l) \<and> 1 \<le> SL_Generation l \<and>
     validSHA (SL_ConfigSHA256 l) \<and> validPathToken (OS_Prefix s) \<and> 30 \<le> OS_MinimumRetentionDays s \<and>
     OS_MinimumRetentionDays s \<le> 36500 \<and> OS_ObjectLockMode s \<in> {''governance'', ''compliance''}"

definition ValidatePlan :: "Plan \<Rightarrow> string option" where
  "ValidatePlan p =
     (if \<not> validPlanHeader p then Some ''backup drill plan identity or validity window is invalid''
      else if \<not> validStorage (Pl_BackupStorageLocation p) (Pl_ObjectStore p)
      then Some ''backup drill storage binding is invalid''
      else if EI_Name (Pl_Tool p) \<noteq> ''cloudring-backup'' \<or> \<not> validSHA (EI_ExecutableSHA256 (Pl_Tool p)) \<or>
        \<not> validID (EI_Name (Pl_Adapter p)) \<or> \<not> validSHA (EI_ExecutableSHA256 (Pl_Adapter p))
      then Some ''backup drill executable binding is invalid''
      else if OI_Kind (Pl_Backup p) \<noteq> ''Backup'' \<or> \<not> validObject (Pl_Backup p) \<or>
        OI_Kind (Pl_EtcdSandbox p) \<noteq> ''EtcdSandbox'' \<or> \<not> validObject (Pl_EtcdSandbox p)
      then Some ''backup drill backup or etcd sandbox identity is invalid''
      else if length (Pl_SourceBaselines p) \<noteq> length TargetKinds
      then Some ''backup drill requires exact source baselines''
      else if \<not> list_all validBaseline (zip TargetKinds (Pl_SourceBaselines p))
      then Some ''backup drill source baselines are invalid or not canonical''
      else if length (Pl_Restores p) \<noteq> length restoreKinds \<or> length (Pl_IsolatedNamespaces p) \<noteq> 5
      then Some ''backup drill requires exact four restores and five isolated namespace mappings''
      else if \<not> list_all (\<lambda>(kind, r). OI_Kind r = kind \<and> validObject r) (zip restoreKinds (Pl_Restores p))
      then Some ''backup drill restore identities are invalid or not canonical''
      else case validateMappings p 0 (Pl_IsolatedNamespaces p) [] [] [] of
        Some e \<Rightarrow> Some e
      | None \<Rightarrow>
          if length (Pl_CleanupTargets p) \<noteq> length (Pl_IsolatedNamespaces p) + 1
          then Some ''backup drill cleanup targets are incomplete''
          else case validateCleanup p 0 (Pl_CleanupTargets p) [] of
            Some e \<Rightarrow> Some e
          | None \<Rightarrow>
              if \<not> validPathToken (Pl_AggregateProofPathToken p)
              then Some ''backup drill aggregate proof path token is invalid''
              else None)"

subsection \<open>Requests\<close>

definition requestIdentity :: "AdapterRequest \<Rightarrow> string" where
  "requestIdentity r = Rq_Mode r @ '':'' @ take 32 (digest (JObject
     [(''OperationID'', JString (Rq_OperationID r)), (''PlanSHA256'', JString (Rq_PlanSHA256 r)),
      (''ApprovalSHA256'', JString (Rq_ApprovalSHA256 r)), (''Step'', JString (Rq_Step r)),
      (''Previous'', JString (Rq_PreviousJournalSHA256 r))]))"

text \<open>The request is built field by field; its identity and digest come last.\<close>

definition sealRequest :: "AdapterRequest \<Rightarrow> AdapterRequest" where
  "sealRequest r = (let r' = r\<lparr>Rq_RequestID := requestIdentity r\<rparr> in r'\<lparr>Rq_RequestSHA256 := AdapterRequestSHA256 r'\<rparr>)"

definition newAdapterRequest :: "Plan \<Rightarrow> ApprovalReport option \<Rightarrow> string \<Rightarrow> string \<Rightarrow> string \<Rightarrow> AdapterRequest" where
  "newAdapterRequest p approval mode step previous = sealRequest
     \<lparr>Rq_SchemaVersion = AdapterRequestVersion, Rq_ProtocolVersion = AdapterProtocolVersion,
      Rq_OperationID = Pl_OperationID p, Rq_PlanSHA256 = PlanSHA256 p,
      Rq_ApprovalSHA256 = (case approval of Some a \<Rightarrow> if AR_SchemaVersion a \<noteq> [] then ApprovalSHA256 a else [] | None \<Rightarrow> []),
      Rq_ApprovalScopeSHA256 = ApprovalScopeSHA256 p, Rq_AdapterExecutableSHA256 = EI_ExecutableSHA256 (Pl_Adapter p),
      Rq_Mode = mode, Rq_Step = step, Rq_PreviousJournalSHA256 = previous, Rq_RequestID = [], Rq_Plan = p,
      Rq_RetainKinds = [], Rq_CleanupTargets = [], Rq_RequestSHA256 = []\<rparr>"

definition newRollbackRequest :: "Plan \<Rightarrow> ApprovalReport \<Rightarrow> string \<Rightarrow> string \<Rightarrow> AdapterRequest" where
  "newRollbackRequest p approval step previous =
     (let r = newAdapterRequest p (Some approval) ''rollback'' step previous in
      if step = ''rollback-cleanup-requested''
      then sealRequest (r\<lparr>Rq_RetainKinds := [''Backup'', ''DataUpload'', ''ObjectStoreRecoveryPoint'', ''RestoreAuditCR''],
        Rq_CleanupTargets := Pl_CleanupTargets p\<rparr>)
      else r)"

subsection \<open>Approvals\<close>

definition ApprovalTuple :: "Plan \<Rightarrow> string \<Rightarrow> string" where
  "ApprovalTuple p binding =
     (case canonicalTime (Pl_IssuedAt p) of
        None \<Rightarrow> []
      | Some issued \<Rightarrow>
          if \<not> validSHA binding then []
          else ApprovalTuplePrefix @ ''@'' @ int_text (Unix issued) @ ''@'' @ Pl_AcceptedDownstreamSHA p @ ''@'' @
            Pl_RunNonceSHA256 p @ ''@'' @ ApprovalScopeSHA256 p @ ''@'' @ binding)"

definition approvalMatches :: "Plan \<Rightarrow> ApprovalReport \<Rightarrow> bool" where
  "approvalMatches p a \<longleftrightarrow> AR_SchemaVersion a = ApprovalSchemaVersion \<and> AR_OperationID a = Pl_OperationID p \<and>
     AR_PlanSHA256 a = PlanSHA256 p \<and> AR_ApprovalScopeSHA256 a = ApprovalScopeSHA256 p \<and>
     AR_AdapterExecutableSHA256 a = EI_ExecutableSHA256 (Pl_Adapter p) \<and>
     AR_IssuedAt a = Pl_IssuedAt p \<and> AR_ExpiresAt a = Pl_ExpiresAt p \<and>
     AR_PreflightRequestSHA256 a = Rq_RequestSHA256 (newAdapterRequest p None ''preflight'' ''preflight'' []) \<and>
     validSHA (AR_PreflightResponseSHA256 a) \<and> validEvidence (AR_PreflightEvidenceRef a) (AR_PreflightEvidenceSHA256 a) \<and>
     AR_PreflightBindingSHA256 a = PreflightBindingSHA256 p (AR_PreflightResponseSHA256 a) (AR_PreflightEvidenceRef a)
       (AR_PreflightEvidenceSHA256 a) \<and>
     AR_ApprovalTuple a = ApprovalTuple p (AR_PreflightBindingSHA256 a) \<and> AR_ReportSHA256 a = ApprovalReportSHA256 a"

definition validateApprovalBinding :: "Plan \<Rightarrow> ApprovalReport \<Rightarrow> string option" where
  "validateApprovalBinding p a =
     (case ValidatePlan p of
        Some e \<Rightarrow> Some e
      | None \<Rightarrow> if \<not> approvalMatches p a then Some ''backup drill approval binding is invalid'' else None)"

definition ValidateApproval :: "Plan \<Rightarrow> ApprovalReport \<Rightarrow> gotime \<Rightarrow> string option" where
  "ValidateApproval p a now =
     (case validateApprovalBinding p a of
        Some e \<Rightarrow> Some e
      | None \<Rightarrow>
          (case (canonicalTime (AR_IssuedAt a), canonicalTime (AR_ExpiresAt a)) of
             (Some issued, Some expires) \<Rightarrow>
               if now < issued \<or> \<not> now < expires then Some ''backup drill approval is stale'' else None
           | _ \<Rightarrow> Some ''backup drill approval is stale''))"

subsection \<open>Responses\<close>

definition validateAdapterResponseBinding :: "AdapterRequest \<Rightarrow> AdapterResponse \<Rightarrow> string option" where
  "validateAdapterResponseBinding q r =
     (if Rq_RequestSHA256 q \<noteq> AdapterRequestSHA256 q \<or> Rs_SchemaVersion r \<noteq> AdapterResponseVersion \<or>
        Rs_ProtocolVersion r \<noteq> AdapterProtocolVersion \<or> Rs_OperationID r \<noteq> Rq_OperationID q \<or>
        Rs_Step r \<noteq> Rq_Step q \<or> Rs_RequestSHA256 r \<noteq> Rq_RequestSHA256 q \<or>
        Rs_AdapterExecutableSHA256 r \<noteq> Rq_AdapterExecutableSHA256 q \<or>
        \<not> validEvidence (Ev_Ref (Rs_Evidence r)) (Ev_SHA256 (Rs_Evidence r)) \<or>
        Rs_ResponseSHA256 r \<noteq> AdapterResponseSHA256 r
      then Some ''backup drill adapter response binding is invalid''
      else None)"

definition mutationSteps :: "string list" where
  "mutationSteps = [''etcd-offcell-complete'', ''velero-backup-complete'', ''restore-watch-create-observe-complete'',
     ''etcd-sandbox-restored'', ''restore-validation-complete'', ''isolated-targets-deleted'']"

definition observationMatches :: "IsolatedNamespace \<times> RestoreObservation \<Rightarrow> bool" where
  "observationMatches mo \<longleftrightarrow> (let (m, obs) = mo in
     RO_RestoreName obs = IN_RestoreName m \<and> RO_RestoreScopeSHA256 obs = IN_RestoreScopeSHA256 m \<and>
     RO_SourceNamespace obs = IN_SourceNamespace m \<and> RO_DestinationNamespace obs = OI_Name (IN_Destination m) \<and>
     RO_DestinationScopeSHA256 obs = OI_ScopeSHA256 (IN_Destination m) \<and>
     validEvidence (RO_EvidenceRef obs) (RO_EvidenceSHA256 obs))"

definition ValidateAdapterResponse :: "AdapterRequest \<Rightarrow> AdapterResponse \<Rightarrow> string option" where
  "ValidateAdapterResponse q r =
     (case validateAdapterResponseBinding q r of
        Some e \<Rightarrow> Some e
      | None \<Rightarrow>
      if Rq_Mode q = ''preflight'' then
        (if Rq_Step q \<noteq> ''preflight'' \<or> Rs_Status r \<noteq> ''ready'' \<or> Rs_Mutated r
         then Some ''backup drill preflight attempted or reported mutation'' else None)
      else if Rq_Mode q = ''apply'' then
        (if Rs_Status r \<noteq> ''completed'' \<or> Rs_Mutated r \<noteq> (Rq_Step q \<in> set mutationSteps)
         then Some ''backup drill apply step is not complete''
         else if Rq_Step q = ''restore-watch-create-observe-complete'' then
           (if length (Rs_RestoreObservations r) \<noteq> length (Pl_IsolatedNamespaces (Rq_Plan q))
            then Some ''backup drill combined restore observation evidence is incomplete''
            else if \<not> list_all observationMatches (zip (Pl_IsolatedNamespaces (Rq_Plan q)) (Rs_RestoreObservations r))
            then Some ''backup drill combined restore observation evidence is not plan-bound''
            else None)
         else if Rs_RestoreObservations r \<noteq> []
         then Some ''backup drill restore observation evidence appeared in the wrong phase''
         else None)
      else if Rq_Mode q = ''rollback'' then
        (if Rq_Step q = ''rollback-safe-stop'' then
           (if Rs_Status r \<noteq> ''safe-stopped'' \<or> Rs_Mutated r
            then Some ''backup drill rollback did not safe-stop'' else None)
         else if Rs_Status r \<noteq> ''completed'' \<or> \<not> Rs_Mutated r
         then Some ''backup drill rollback cleanup failed'' else None)
      else Some ''backup drill adapter mode is invalid'')"

definition targetProven :: "(string \<times> Baseline) \<times> TargetResult \<Rightarrow> bool" where
  "targetProven x \<longleftrightarrow> (let ((kind, b), t) = x in
     TR_Kind t = kind \<and> TR_SourceChecksumSHA256 t = BL_DataSHA256 b \<and>
     TR_SourceChecksumSHA256 t = TR_RestoredChecksumSHA256 t \<and> validEvidence (TR_EvidenceRef t) (TR_EvidenceSHA256 t))"

definition evidencePresent :: "Evidence option \<Rightarrow> bool" where
  "evidencePresent e \<longleftrightarrow> (case e of None \<Rightarrow> False | Some v \<Rightarrow> validEvidence (Ev_Ref v) (Ev_SHA256 v))"

definition validateProofResponse :: "Plan \<Rightarrow> AdapterResponse \<Rightarrow> string option" where
  "validateProofResponse p r =
     (if Rs_Step r \<noteq> ''proof-assembled'' \<or> length (Rs_Targets r) \<noteq> length TargetKinds \<or>
        \<not> evidencePresent (Rs_IsolationEvidence r) \<or> \<not> evidencePresent (Rs_CleanupEvidence r) \<or>
        \<not> validSHA (Rs_ObjectLockDeleteDenialReceiptSHA256 r) \<or> \<not> validSHA (Rs_AggregateProofArtifactSHA256 r) \<or>
        Rs_AggregateProofPathToken r \<noteq> Pl_AggregateProofPathToken p
      then Some ''backup drill proof response is incomplete''
      else if \<not> list_all targetProven (zip (zip TargetKinds (Pl_SourceBaselines p)) (Rs_Targets r))
      then Some ''backup drill proof response target is invalid''
      else None)"

end
