(* ===== verification/Drill_Journal.thy ===== *)
theory Drill_Journal
  imports Drill_Validate
begin

text \<open>
  Package \<^verbatim>\<open>pkg/backup/drill\<close>: the entries of the execution journal
  (\<^verbatim>\<open>journal.go\<close>), their binding to a plan and an approval (\<^verbatim>\<open>engine.go\<close>) and the
  receipt (\<^verbatim>\<open>validate.go\<close>).
\<close>

subsection \<open>Entries\<close>

definition newJournalEntry :: "gotime \<Rightarrow> nat \<Rightarrow> Plan \<Rightarrow> ApprovalReport \<Rightarrow> string \<Rightarrow> string \<Rightarrow> string \<Rightarrow> string \<Rightarrow>
    AdapterResponse option \<Rightarrow> JournalEntry" where
  "newJournalEntry now sequence p a step requestSHA responseSHA previous response =
     (let e = \<lparr>JE_SchemaVersion = JournalEntryVersion, JE_Sequence = int sequence, JE_OperationID = Pl_OperationID p,
        JE_PlanSHA256 = PlanSHA256 p, JE_ApprovalSHA256 = ApprovalSHA256 a, JE_ApprovalScopeSHA256 = ApprovalScopeSHA256 p,
        JE_AdapterExecutableSHA256 = EI_ExecutableSHA256 (Pl_Adapter p), JE_Step = step, JE_RequestSHA256 = requestSHA,
        JE_ResponseSHA256 = responseSHA, JE_Response = response, JE_PreviousEntrySHA256 = previous,
        JE_RecordedAt = FormatRFC3339Nano now, JE_EntrySHA256 = []\<rparr> in
      e\<lparr>JE_EntrySHA256 := JournalEntrySHA256 e\<rparr>)"

definition responseHashBound :: "JournalEntry \<Rightarrow> bool" where
  "responseHashBound e \<longleftrightarrow>
     (case JE_Response e of
        None \<Rightarrow> True
      | Some r \<Rightarrow> Rs_ResponseSHA256 r = JE_ResponseSHA256 e \<and> Rs_ResponseSHA256 r = AdapterResponseSHA256 r)"

definition entryWellFormed :: "JournalEntry \<Rightarrow> bool" where
  "entryWellFormed e \<longleftrightarrow> JE_SchemaVersion e = JournalEntryVersion \<and> 1 \<le> JE_Sequence e \<and> validID (JE_OperationID e) \<and>
     validSHA (JE_PlanSHA256 e) \<and> validSHA (JE_ApprovalSHA256 e) \<and> validSHA (JE_ApprovalScopeSHA256 e) \<and>
     validSHA (JE_AdapterExecutableSHA256 e) \<and> validID (JE_Step e) \<and> validSHA (JE_RequestSHA256 e) \<and>
     validSHA (JE_ResponseSHA256 e) \<and> JE_EntrySHA256 e = JournalEntrySHA256 e"

definition entryFollows :: "JournalEntry \<Rightarrow> JournalEntry \<Rightarrow> bool" where
  "entryFollows e previous \<longleftrightarrow>
     (case (canonicalTime (JE_RecordedAt previous), canonicalTime (JE_RecordedAt e)) of
        (Some previousTime, Some entryTime) \<Rightarrow> previousTime \<le> entryTime
      | _ \<Rightarrow> False) \<and>
     JE_Sequence e = JE_Sequence previous + 1 \<and> JE_PreviousEntrySHA256 e = JE_EntrySHA256 previous \<and>
     JE_OperationID e = JE_OperationID previous \<and> JE_PlanSHA256 e = JE_PlanSHA256 previous \<and>
     JE_ApprovalSHA256 e = JE_ApprovalSHA256 previous \<and> JE_ApprovalScopeSHA256 e = JE_ApprovalScopeSHA256 previous \<and>
     JE_AdapterExecutableSHA256 e = JE_AdapterExecutableSHA256 previous"

definition validateJournalEntry :: "JournalEntry \<Rightarrow> JournalEntry option \<Rightarrow> string option" where
  "validateJournalEntry e previous =
     (if \<not> entryWellFormed e then Some ''backup drill journal entry is invalid''
      else if \<not> responseHashBound e then Some ''backup drill journal response is not hash-bound''
      else if canonicalTime (JE_RecordedAt e) = None then Some ''backup drill journal entry time is invalid''
      else case previous of
        None \<Rightarrow>
          if JE_Sequence e \<noteq> 1 \<or> JE_PreviousEntrySHA256 e \<noteq> []
          then Some ''backup drill journal does not start at sequence one''
          else None
      | Some q \<Rightarrow>
          if \<not> entryFollows e q then Some ''backup drill journal entry changed transaction binding'' else None)"

definition validTransition :: "JournalEntry list \<Rightarrow> string \<Rightarrow> bool" where
  "validTransition entries next \<longleftrightarrow>
     (if entries = [] then next = ApplySteps ! 0
      else if next \<in> JE_Step ` set entries then False
      else let last = JE_Step (last entries) in
        if last = ''rolled-back'' \<or> last = ''rollback-failed'' \<or> last = ''completed'' then False
        else if last = ''rollback-safe-stop''
        then next = ''rollback-cleanup-requested'' \<or> next = ''rollback-failed''
        else if last = ''rollback-cleanup-requested'' then next = ''rolled-back'' \<or> next = ''rollback-failed''
        else if next \<in> {''rolled-back'', ''rollback-failed''} then False
        else if next = ''rollback-safe-stop'' then True
        else length entries < length ApplySteps \<and> next = ApplySteps ! length entries)"

definition last_entry :: "JournalEntry list \<Rightarrow> JournalEntry option" where
  "last_entry es = (if es = [] then None else Some (last es))"

definition entryExtends :: "JournalEntry list \<Rightarrow> JournalEntry \<Rightarrow> bool" where
  "entryExtends es e \<longleftrightarrow> validateJournalEntry e (last_entry es) = None \<and> validTransition es (JE_Step e)"

fun validateChain :: "JournalEntry list \<Rightarrow> JournalEntry list \<Rightarrow> bool" where
  "validateChain validated [] \<longleftrightarrow> True"
| "validateChain validated (e # es) \<longleftrightarrow> entryExtends validated e \<and> validateChain (validated @ [e]) es"

definition validateJournalEntries :: "JournalEntry list \<Rightarrow> string option" where
  "validateJournalEntries es =
     (if es = [] \<or> length es > 32 then Some ''backup drill journal entry count is invalid''
      else if \<not> validateChain [] es then Some ''backup drill journal chain is invalid''
      else None)"

subsection \<open>Binding to a plan and an approval\<close>

definition approvalConsumedDigests :: "Plan \<Rightarrow> ApprovalReport \<Rightarrow> string \<times> string" where
  "approvalConsumedDigests p a =
     (digest (JObject [(''operationId'', JString (Pl_OperationID p)), (''tuple'', JString (AR_ApprovalTuple a))]),
      AR_PreflightResponseSHA256 a)"

definition mutationStartedDigests :: "Plan \<Rightarrow> string \<Rightarrow> string \<times> string" where
  "mutationStartedDigests p previous =
     (digest (JObject [(''Step'', JString ''mutation-started''), (''Previous'', JString previous)]),
      digest (JObject [(''Status'', JString ''mutation-authorized''), (''Scope'', JString (ApprovalScopeSHA256 p))]))"

definition completedDigests :: "string \<Rightarrow> string \<times> string" where
  "completedDigests proof_sha =
     (digest (JObject [(''Step'', JString ''completed''), (''Proof'', JString proof_sha)]), proof_sha)"

definition rollbackTerminalDigests :: "string \<Rightarrow> string \<Rightarrow> string \<Rightarrow> string \<times> string" where
  "rollbackTerminalDigests step previous adapterResponse =
     (digest (JObject [(''Step'', JString step), (''Previous'', JString previous)]),
      digest (JObject [(''Status'', JString step), (''AdapterResponse'', JString adapterResponse)]))"

definition adapterFailureSHA256 :: "string \<Rightarrow> string" where
  "adapterFailureSHA256 reason = digest (JObject [(''failure'', JString reason)])"

text \<open>The request an entry of an adapter step answers.\<close>

definition entryRequest :: "Plan \<Rightarrow> ApprovalReport \<Rightarrow> string \<Rightarrow> string \<Rightarrow> AdapterRequest" where
  "entryRequest p a step previous =
     (if has_prefix ''rollback-'' step then newRollbackRequest p a step previous
      else newAdapterRequest p (Some a) ''apply'' step previous)"

definition derivedEntry :: "JournalEntry \<Rightarrow> string \<times> string \<Rightarrow> bool" where
  "derivedEntry e digests \<longleftrightarrow> JE_Response e = None \<and> JE_RequestSHA256 e = fst digests \<and> JE_ResponseSHA256 e = snd digests"

text \<open>The failure digest an entry without a response has to carry.\<close>

definition expectedFailure :: "string \<Rightarrow> string" where
  "expectedFailure step =
     (if step = ''rollback-safe-stop'' then adapterFailureSHA256 ''safe-stop-failed''
      else if step = ''rollback-cleanup-requested'' then adapterFailureSHA256 ''adapter-execution-failed''
      else [])"

definition verifyAdapterEntry :: "Plan \<Rightarrow> ApprovalReport \<Rightarrow> JournalEntry list \<Rightarrow> nat \<Rightarrow> string option" where
  "verifyAdapterEntry p a es index =
     (let e = es ! index in
      if index = 0 then Some ''backup drill journal begins with an adapter step''
      else let request = entryRequest p a (JE_Step e) (JE_EntrySHA256 (es ! (index - 1)));
          failedTerminal = (index + 1 < length es \<and> JE_Step (es ! (index + 1)) = ''rollback-failed'');
          incompleteRollbackFailure = (index + 1 = length es \<and> has_prefix ''rollback-'' (JE_Step e));
          failureAllowed = (failedTerminal \<or> incompleteRollbackFailure) in
        if JE_RequestSHA256 e \<noteq> Rq_RequestSHA256 request
        then Some ''backup drill journal adapter response is stale or conflicting''
        else case JE_Response e of
          None \<Rightarrow>
            if \<not> failureAllowed \<or> JE_ResponseSHA256 e \<noteq> expectedFailure (JE_Step e)
            then Some ''backup drill journal adapter failure is not exact''
            else None
        | Some r \<Rightarrow>
            if JE_ResponseSHA256 e \<noteq> Rs_ResponseSHA256 r
            then Some ''backup drill journal adapter response digest conflicts''
            else if validateAdapterResponseBinding request r \<noteq> None
            then Some ''backup drill journal adapter response binding is invalid''
            else if ValidateAdapterResponse request r \<noteq> None \<and> \<not> failureAllowed
            then Some ''backup drill journal adapter response is invalid''
            else None)"

definition entryBound :: "Plan \<Rightarrow> ApprovalReport \<Rightarrow> JournalEntry \<Rightarrow> bool" where
  "entryBound p a e \<longleftrightarrow> JE_OperationID e = Pl_OperationID p \<and> JE_PlanSHA256 e = PlanSHA256 p \<and>
     JE_ApprovalSHA256 e = ApprovalSHA256 a \<and> JE_ApprovalScopeSHA256 e = ApprovalScopeSHA256 p \<and>
     JE_AdapterExecutableSHA256 e = EI_ExecutableSHA256 (Pl_Adapter p)"

definition verifyEntry :: "Plan \<Rightarrow> ApprovalReport \<Rightarrow> JournalEntry list \<Rightarrow> nat \<Rightarrow> string option" where
  "verifyEntry p a es index =
     (let e = es ! index; previous = es ! (index - 1) in
      if \<not> entryBound p a e then Some ''backup drill journal transaction binding changed''
      else if JE_Step e = ''approval-consumed'' then
        (if index \<noteq> 0 \<or> \<not> derivedEntry e (approvalConsumedDigests p a)
         then Some ''backup drill approval-consumed journal derivation is invalid'' else None)
      else if JE_Step e = ''mutation-started'' then
        (if index \<noteq> 1 then Some ''backup drill mutation-started journal position is invalid''
         else if \<not> derivedEntry e (mutationStartedDigests p (JE_EntrySHA256 previous))
         then Some ''backup drill mutation-started journal derivation is invalid'' else None)
      else if JE_Step e = ''completed'' then
        (if index = 0 \<or> JE_Step previous \<noteq> ''proof-assembled'' \<or> JE_Response previous = None
         then Some ''backup drill completed journal predecessor is invalid''
         else if \<not> derivedEntry e (completedDigests (JE_ResponseSHA256 previous))
         then Some ''backup drill completed journal derivation is invalid'' else None)
      else if JE_Step e = ''rolled-back'' \<or> JE_Step e = ''rollback-failed'' then
        (if index = 0 then Some ''backup drill rollback terminal predecessor is absent''
         else if \<not> derivedEntry e (rollbackTerminalDigests (JE_Step e) (JE_EntrySHA256 previous) (JE_ResponseSHA256 previous))
         then Some ''backup drill rollback terminal derivation is invalid'' else None)
      else verifyAdapterEntry p a es index)"

definition verifyJournalBinding :: "Plan \<Rightarrow> ApprovalReport \<Rightarrow> JournalEntry list \<Rightarrow> string option" where
  "verifyJournalBinding p a es =
     (case validateJournalEntries es of
        Some e \<Rightarrow> Some e
      | None \<Rightarrow> first_error (verifyEntry p a es) [0..<length es])"

definition rollbackStarted :: "JournalEntry list \<Rightarrow> bool" where
  "rollbackStarted es \<longleftrightarrow> list_ex (\<lambda>e. has_prefix ''rollback-'' (JE_Step e) \<or> JE_Step e = ''rolled-back'') es"

definition rollbackResponseSucceeded :: "Plan \<Rightarrow> ApprovalReport \<Rightarrow> JournalEntry list \<Rightarrow> nat \<Rightarrow> bool" where
  "rollbackResponseSucceeded p a es index \<longleftrightarrow>
     (if index < 1 \<or> length es \<le> index then False
      else let e = es ! index in
        if JE_Step e \<noteq> ''rollback-safe-stop'' \<and> JE_Step e \<noteq> ''rollback-cleanup-requested'' then False
        else case JE_Response e of
          None \<Rightarrow> False
        | Some r \<Rightarrow>
            let request = newRollbackRequest p a (JE_Step e) (JE_EntrySHA256 (es ! (index - 1))) in
            JE_RequestSHA256 e = Rq_RequestSHA256 request \<and> ValidateAdapterResponse request r = None)"

subsection \<open>Receipts\<close>

definition receiptMatches :: "Plan \<Rightarrow> ApprovalReport \<Rightarrow> ExecutionReceipt \<Rightarrow> JournalEntry \<Rightarrow> AdapterResponse \<Rightarrow> bool" where
  "receiptMatches p a r finished evidence \<longleftrightarrow>
     ER_SchemaVersion r = ReceiptSchemaVersion \<and> ER_OperationID r = Pl_OperationID p \<and> ER_ProofID r = Pl_ProofID p \<and>
     ER_InstallationID r = Pl_InstallationID p \<and> ER_PlanSHA256 r = PlanSHA256 p \<and> ER_ApprovalSHA256 r = ApprovalSHA256 a \<and>
     ER_ApprovalScopeSHA256 r = ApprovalScopeSHA256 p \<and>
     ER_AdapterExecutableSHA256 r = EI_ExecutableSHA256 (Pl_Adapter p) \<and> ER_Status r = ''completed'' \<and>
     ER_CompletedAt r = JE_RecordedAt finished \<and> ER_JournalHeadSHA256 r = JE_EntrySHA256 finished \<and>
     ER_ExecutionEvidenceResponseSHA256 r = Rs_ResponseSHA256 evidence \<and> ER_Targets r = Rs_Targets evidence \<and>
     Some (ER_IsolationEvidence r) = Rs_IsolationEvidence evidence \<and>
     Some (ER_CleanupEvidence r) = Rs_CleanupEvidence evidence \<and>
     ER_ObjectLockDeleteDenialReceiptSHA256 r = Rs_ObjectLockDeleteDenialReceiptSHA256 evidence \<and>
     ER_AggregateProofArtifactSHA256 r = Rs_AggregateProofArtifactSHA256 evidence \<and>
     ER_AggregateProofPathToken r = Rs_AggregateProofPathToken evidence \<and> ER_ReceiptSHA256 r = ExecutionReceiptSHA256 r"

definition ValidateReceipt :: "Plan \<Rightarrow> ApprovalReport \<Rightarrow> ExecutionReceipt \<Rightarrow> JournalEntry list \<Rightarrow> string option" where
  "ValidateReceipt p a r es =
     (case ValidatePlan p of Some e \<Rightarrow> Some e | None \<Rightarrow>
      case validateApprovalBinding p a of Some e \<Rightarrow> Some e | None \<Rightarrow>
      if length es \<noteq> length ApplySteps \<or> validateJournalEntries es \<noteq> None \<or> verifyJournalBinding p a es \<noteq> None
      then Some ''backup drill receipt journal binding is invalid''
      else let finished = es ! (length es - 1); proofEntry = es ! (length es - 2) in
      if JE_Step finished \<noteq> ''completed'' \<or> JE_Step proofEntry \<noteq> ''proof-assembled''
      then Some ''backup drill receipt proof journal entries are invalid''
      else case JE_Response proofEntry of
        None \<Rightarrow> Some ''backup drill receipt proof journal entries are invalid''
      | Some evidence \<Rightarrow>
          if validateProofResponse p evidence \<noteq> None
          then Some ''backup drill receipt proof journal entries are invalid''
          else if \<not> receiptMatches p a r finished evidence
          then Some ''backup drill execution receipt binding is invalid''
          else if canonicalTime (ER_CompletedAt r) = None \<or> length (ER_Targets r) \<noteq> length TargetKinds
          then Some ''backup drill execution receipt time or targets are invalid''
          else if \<not> list_all targetProven (zip (zip TargetKinds (Pl_SourceBaselines p)) (ER_Targets r))
          then Some ''backup drill target proof is invalid or not canonical''
          else if map JE_Step es \<noteq> ApplySteps
          then Some ''backup drill receipt journal phases are incomplete''
          else None)"

end
