(* ===== verification/Drill_Engine.thy ===== *)
theory Drill_Engine
  imports Drill_Journal
begin

text \<open>
  Package \<^verbatim>\<open>pkg/backup/drill\<close>: the adapter (\<^verbatim>\<open>adapter.go\<close>), the journal file
  (\<^verbatim>\<open>journal.go\<close>) and the transaction (\<^verbatim>\<open>engine.go\<close>).

  The world of a run is the journal file, the requests sent to the adapter so far, and
  two counters that number the readings of the clock and the accesses to the file
  system. An environment says what the clock shows at each reading and which accesses
  fail and how: before anything is written, in the middle of a write, or after it (when
  a sync fails). The adapter is a separate executable: its answer may depend on all
  requests it has seen, and the model takes from it the two output streams and what the
  strict JSON decoder makes of the first. The file is the list of its decoded lines,
  with a mark when a write stopped in the middle of a line. The file lock is held for a
  whole operation, so operations follow one another.
\<close>

subsection \<open>The adapter\<close>

record RunResult =
  Run_Stdout :: string
  Run_Stderr :: string
  Run_Response :: "AdapterResponse option"

record Adapter =
  Ad_Identity :: string
  Ad_Environment :: "string list"
  Ad_Run :: "AdapterRequest list \<Rightarrow> AdapterRequest \<Rightarrow> RunResult option"

datatype fault = NoFault | FaultBefore | FaultTorn | FaultAfter

record JournalFile =
  JF_Entries :: "JournalEntry list"
  JF_Torn :: bool

record World =
  W_Journal :: "JournalFile option"
  W_Calls :: "AdapterRequest list"
  W_Tick :: nat
  W_Io :: nat

record Environment =
  Env_Clock :: "nat \<Rightarrow> gotime"
  Env_IO :: "nat \<Rightarrow> fault"

datatype InvokeResult = Answered AdapterResponse | Failed "AdapterResponse option" string

text \<open>
  \<^verbatim>\<open>bytes.ToLower\<close>, as far as it can produce ASCII letters: the Kelvin sign and the
  dotted capital I have ASCII lower-case forms.
\<close>

definition lower_rune :: "string \<Rightarrow> string" where
  "lower_rune r =
     (if length r = 1 \<and> is_upper (hd r) then [char_of (of_char (hd r) + 32 :: nat)]
      else if r = [CHR 0xE2, CHR 0x84, CHR 0xAA] then ''k''
      else if r = [CHR 0xC4, CHR 0xB0] then ''i''
      else r)"

definition forbiddenMaterial :: "string list" where
  "forbiddenMaterial =
     [CHR 0x22 # ''password'' @ [CHR 0x22], CHR 0x22 # ''token'' @ [CHR 0x22], CHR 0x22 # ''secret'' @ [CHR 0x22],
      CHR 0x22 # ''authorization'' @ [CHR 0x22], CHR 0x22 # ''cookie'' @ [CHR 0x22],
      ''-----begin private key-----'', ''-----begin rsa private key-----'']"

definition containsSecretLookingMaterial :: "string \<Rightarrow> bool" where
  "containsSecretLookingMaterial v = list_ex (Contains (concat (map lower_rune (runes v)))) forbiddenMaterial"

definition environment_value :: "string \<Rightarrow> string" where
  "environment_value entry = tl (dropWhile (\<lambda>c. c \<noteq> CHR ''='') entry)"

definition containsEnvironmentValue :: "Adapter \<Rightarrow> string \<Rightarrow> bool" where
  "containsEnvironmentValue ad output =
     list_ex (\<lambda>entry. let v = environment_value entry in Contains output v \<or> Contains output (json_escape v))
       (Ad_Environment ad)"

definition Adapter_IdentitySHA256 :: "Adapter option \<Rightarrow> string" where
  "Adapter_IdentitySHA256 adapter = (case adapter of None \<Rightarrow> [] | Some ad \<Rightarrow> Ad_Identity ad)"

text \<open>What \<^verbatim>\<open>invoke\<close> makes of the outcome of a run.\<close>

definition judgeRun :: "Adapter \<Rightarrow> AdapterRequest \<Rightarrow> RunResult option \<Rightarrow> InvokeResult" where
  "judgeRun ad q result =
     (case result of
        None \<Rightarrow> Failed None ''backup drill adapter execution failed''
      | Some run \<Rightarrow>
          if containsEnvironmentValue ad (Run_Stdout run) \<or> containsEnvironmentValue ad (Run_Stderr run) \<or>
            containsSecretLookingMaterial (Run_Stdout run) \<or> containsSecretLookingMaterial (Run_Stderr run)
          then Failed None ''backup drill adapter emitted forbidden credential-like material''
          else case Run_Response run of
            None \<Rightarrow> Failed None ''backup drill adapter response is invalid JSON''
          | Some r \<Rightarrow>
              if containsEnvironmentValue ad (json_Marshal (json_AdapterResponse r))
              then Failed None ''backup drill adapter emitted forbidden credential-like material''
              else case ValidateAdapterResponse q r of
                Some e \<Rightarrow> Failed (Some r) e
              | None \<Rightarrow> Answered r)"

definition invoke :: "Adapter option \<Rightarrow> AdapterRequest \<Rightarrow> World \<Rightarrow> InvokeResult \<times> World" where
  "invoke adapter q w =
     (case adapter of
        None \<Rightarrow> (Failed None ''backup drill adapter request identity is invalid'', w)
      | Some ad \<Rightarrow>
          if Ad_Identity ad \<noteq> Rq_AdapterExecutableSHA256 q \<or> Rq_RequestSHA256 q \<noteq> AdapterRequestSHA256 q
          then (Failed None ''backup drill adapter request identity is invalid'', w)
          else (judgeRun ad q (Ad_Run ad (W_Calls w) q), w\<lparr>W_Calls := W_Calls w @ [q]\<rparr>))"

subsection \<open>The journal file\<close>

definition read_clock :: "Environment \<Rightarrow> World \<Rightarrow> gotime \<times> World" where
  "read_clock env w = (Env_Clock env (W_Tick w), w\<lparr>W_Tick := W_Tick w + 1\<rparr>)"

definition access :: "Environment \<Rightarrow> World \<Rightarrow> fault \<times> World" where
  "access env w = (Env_IO env (W_Io w), w\<lparr>W_Io := W_Io w + 1\<rparr>)"

definition maxJournalBytes :: nat where
  "maxJournalBytes = 2 * 1024 * 1024"

definition entry_size :: "JournalEntry \<Rightarrow> nat" where
  "entry_size e = length (json_Marshal (json_JournalEntry e)) + 1"

definition journal_size :: "JournalEntry list \<Rightarrow> nat" where
  "journal_size es = sum_list (map entry_size es)"

definition decodeJournal :: "JournalFile \<Rightarrow> string + JournalEntry list" where
  "decodeJournal f =
     (if JF_Torn f then Inl ''backup drill journal changed or is truncated''
      else case validateJournalEntries (JF_Entries f) of
        Some e \<Rightarrow> Inl e
      | None \<Rightarrow> Inr (JF_Entries f))"

definition journal_load :: "Environment \<Rightarrow> World \<Rightarrow> (string + JournalEntry list) \<times> World" where
  "journal_load env w =
     (let (f, w') = access env w in
      (case W_Journal w of
         None \<Rightarrow> Inl ''backup drill journal input is invalid''
       | Some file \<Rightarrow>
           if f \<noteq> NoFault \<or> journal_size (JF_Entries file) < 2 \<or> maxJournalBytes < journal_size (JF_Entries file)
           then Inl ''backup drill journal input is invalid''
           else decodeJournal file, w'))"

definition openJournalTransaction :: "Environment \<Rightarrow> World \<Rightarrow> string option \<times> World" where
  "openJournalTransaction env w =
     (let (f, w') = access env w in
      (case W_Journal w of
         None \<Rightarrow> Some ''backup drill journal is not an exact owner-only regular file''
       | Some file \<Rightarrow>
           if journal_size (JF_Entries file) < 1 \<or> maxJournalBytes < journal_size (JF_Entries file)
           then Some ''backup drill journal is not an exact owner-only regular file''
           else if f \<noteq> NoFault then Some ''open backup drill journal transaction''
           else None, w'))"

definition CreateJournal :: "Environment \<Rightarrow> JournalEntry \<Rightarrow> World \<Rightarrow> string option \<times> World" where
  "CreateJournal env e w =
     (if JE_Sequence e \<noteq> 1 \<or> JE_Step e \<noteq> ApplySteps ! 0 \<or> JE_PreviousEntrySHA256 e \<noteq> []
      then (Some ''backup drill initial journal entry is invalid'', w)
      else case validateJournalEntry e None of
        Some err \<Rightarrow> (Some err, w)
      | None \<Rightarrow>
          let (f, w') = access env w; file = \<lparr>JF_Entries = [e], JF_Torn = False\<rparr> in
          if W_Journal w \<noteq> None then (Some ''private artifact destination already exists'', w')
          else case f of
            NoFault \<Rightarrow> (None, w'\<lparr>W_Journal := Some file\<rparr>)
          | FaultAfter \<Rightarrow> (Some ''sync private artifact directory'', w'\<lparr>W_Journal := Some file\<rparr>)
          | _ \<Rightarrow> (Some ''write private artifact'', w'))"

text \<open>The write at the end of an append, after everything was checked.\<close>

definition write_entry :: "Environment \<Rightarrow> JournalEntry list \<Rightarrow> JournalEntry \<Rightarrow> World \<Rightarrow> string option \<times> World" where
  "write_entry env es e w =
     (let (f, w') = access env w in
      case f of
        NoFault \<Rightarrow> (None, w'\<lparr>W_Journal := Some \<lparr>JF_Entries = es @ [e], JF_Torn = False\<rparr>\<rparr>)
      | FaultBefore \<Rightarrow> (Some ''backup drill journal changed before append'', w')
      | FaultTorn \<Rightarrow> (Some ''append backup drill journal'', w'\<lparr>W_Journal := Some \<lparr>JF_Entries = es, JF_Torn = True\<rparr>\<rparr>)
      | FaultAfter \<Rightarrow>
          (Some ''sync backup drill journal'', w'\<lparr>W_Journal := Some \<lparr>JF_Entries = es @ [e], JF_Torn = False\<rparr>\<rparr>))"

definition journal_append :: "Environment \<Rightarrow> JournalEntry \<Rightarrow> World \<Rightarrow> string option \<times> World" where
  "journal_append env e w =
     (case journal_load env w of
        (Inl _, w) \<Rightarrow> (Some ''load backup drill journal before append'', w)
      | (Inr es, w) \<Rightarrow>
          if \<not> entryExtends es e then (Some ''backup drill journal append is not a valid transition'', w)
          else if 128 * 1024 < entry_size e \<or> maxJournalBytes < journal_size es + entry_size e
          then (Some ''backup drill journal entry exceeds limit'', w)
          else write_entry env es e w)"

definition AppendJournal :: "Environment \<Rightarrow> JournalEntry \<Rightarrow> World \<Rightarrow> string option \<times> World" where
  "AppendJournal env e w =
     (case openJournalTransaction env w of
        (Some err, w) \<Rightarrow> (Some err, w)
      | (None, w) \<Rightarrow> journal_append env e w)"

definition LoadJournal :: "Environment \<Rightarrow> World \<Rightarrow> (string + JournalEntry list) \<times> World" where
  "LoadJournal env w =
     (case openJournalTransaction env w of
        (Some err, w) \<Rightarrow> (Inl err, w)
      | (None, w) \<Rightarrow> journal_load env w)"

subsection \<open>Preflight\<close>

definition approvalFor :: "Plan \<Rightarrow> string \<Rightarrow> AdapterRequest \<Rightarrow> AdapterResponse \<Rightarrow> ApprovalReport" where
  "approvalFor p identity q r =
     (let ref = Ev_Ref (Rs_Evidence r); sha = Ev_SHA256 (Rs_Evidence r);
          binding = PreflightBindingSHA256 p (Rs_ResponseSHA256 r) ref sha;
          report = \<lparr>AR_SchemaVersion = ApprovalSchemaVersion, AR_OperationID = Pl_OperationID p,
            AR_PlanSHA256 = PlanSHA256 p, AR_ApprovalScopeSHA256 = ApprovalScopeSHA256 p,
            AR_AdapterExecutableSHA256 = identity, AR_IssuedAt = Pl_IssuedAt p, AR_ExpiresAt = Pl_ExpiresAt p,
            AR_ApprovalTuple = ApprovalTuple p binding, AR_PreflightRequestSHA256 = Rq_RequestSHA256 q,
            AR_PreflightResponseSHA256 = Rs_ResponseSHA256 r, AR_PreflightEvidenceRef = ref,
            AR_PreflightEvidenceSHA256 = sha, AR_PreflightBindingSHA256 = binding, AR_ReportSHA256 = []\<rparr> in
      report\<lparr>AR_ReportSHA256 := ApprovalReportSHA256 report\<rparr>)"

definition planFresh :: "Plan \<Rightarrow> gotime \<Rightarrow> bool" where
  "planFresh p now \<longleftrightarrow>
     (case (canonicalTime (Pl_IssuedAt p), canonicalTime (Pl_ExpiresAt p)) of
        (Some issued, Some expires) \<Rightarrow> issued \<le> now \<and> now < expires
      | _ \<Rightarrow> False)"

definition Preflight :: "Plan \<Rightarrow> Adapter option \<Rightarrow> gotime \<Rightarrow> World \<Rightarrow> (string + ApprovalReport) \<times> World" where
  "Preflight p adapter now w =
     (if adapter = None \<or> Adapter_IdentitySHA256 adapter \<noteq> EI_ExecutableSHA256 (Pl_Adapter p)
      then (Inl ''backup drill preflight input binding is invalid'', w)
      else case ValidatePlan p of
        Some e \<Rightarrow> (Inl e, w)
      | None \<Rightarrow>
          if \<not> planFresh p now then (Inl ''backup drill preflight plan is not fresh'', w)
          else let q = newAdapterRequest p None ''preflight'' ''preflight'' [] in
          case invoke adapter q w of
            (Failed _ e, w) \<Rightarrow> (Inl e, w)
          | (Answered r, w) \<Rightarrow>
              let report = approvalFor p (Adapter_IdentitySHA256 adapter) q r in
              (case ValidateApproval p report now of
                 Some e \<Rightarrow> (Inl e, w)
               | None \<Rightarrow> (Inr report, w)))"

subsection \<open>Applying the plan\<close>

definition validateExecutionInput ::
  "Plan \<Rightarrow> ApprovalReport \<Rightarrow> string \<Rightarrow> Adapter option \<Rightarrow> gotime \<Rightarrow> bool \<Rightarrow> string option" where
  "validateExecutionInput p a confirmation adapter now requireFresh =
     (if adapter = None \<or> Adapter_IdentitySHA256 adapter \<noteq> EI_ExecutableSHA256 (Pl_Adapter p)
      then Some ''backup drill execution adapter binding is invalid''
      else let approvalErr = (if requireFresh then ValidateApproval p a now else validateApprovalBinding p a) in
        if approvalErr \<noteq> None \<or> confirmation \<noteq> AR_ApprovalTuple a
        then Some ''backup drill execution approval, confirmation, or adapter binding is invalid''
        else None)"

text \<open>
  The loop of \<^verbatim>\<open>runApply\<close>: one step per round, until the proof is assembled. The
  mutation-started step is recorded without calling the adapter.
\<close>

definition stepResult :: "Plan \<Rightarrow> string \<Rightarrow> InvokeResult \<Rightarrow> string + AdapterResponse" where
  "stepResult p step result =
     (case result of
        Failed _ e \<Rightarrow> Inl e
      | Answered r \<Rightarrow>
          if step = ''proof-assembled'' then
            (case validateProofResponse p r of Some e \<Rightarrow> Inl e | None \<Rightarrow> Inr r)
          else Inr r)"

definition applyStep :: "Environment \<Rightarrow> Plan \<Rightarrow> ApprovalReport \<Rightarrow> Adapter option \<Rightarrow> JournalEntry list \<Rightarrow> World \<Rightarrow>
    (string + JournalEntry) \<times> World" where
  "applyStep env p a adapter es w =
     (let step = ApplySteps ! length es; previous = JE_EntrySHA256 (last es) in
      if step = ''mutation-started'' then
        (let (requestSHA, responseSHA) = mutationStartedDigests p previous; (now, w) = read_clock env w;
             e = newJournalEntry now (length es + 1) p a step requestSHA responseSHA previous None in
         case journal_append env e w of
           (Some _, w) \<Rightarrow> (Inl ''record backup drill mutation start'', w)
         | (None, w) \<Rightarrow> (Inr e, w))
      else
        (let q = newAdapterRequest p (Some a) ''apply'' step previous; (result, w) = invoke adapter q w in
         case stepResult p step result of
           Inl err \<Rightarrow> (Inl err, w)
         | Inr r \<Rightarrow>
             (let (now, w) = read_clock env w;
                  e = newJournalEntry now (length es + 1) p a step (Rq_RequestSHA256 q) (Rs_ResponseSHA256 r) previous (Some r) in
              case journal_append env e w of
                (Some _, w) \<Rightarrow> (Inl ''append backup drill execution journal'', w)
              | (None, w) \<Rightarrow> (Inr e, w))))"

function applyLoop :: "Environment \<Rightarrow> Plan \<Rightarrow> ApprovalReport \<Rightarrow> Adapter option \<Rightarrow> JournalEntry list \<Rightarrow> World \<Rightarrow>
    (string + JournalEntry list) \<times> World" where
  "applyLoop env p a adapter es w =
     (if length es < length ApplySteps - 1 then
        (case applyStep env p a adapter es w of
           (Inl e, w) \<Rightarrow> (Inl e, w)
         | (Inr e, w) \<Rightarrow> applyLoop env p a adapter (es @ [e]) w)
      else (Inr es, w))"
  by pat_completeness auto
termination by (relation "measure (\<lambda>(env, p, a, adapter, es, w). length ApplySteps - length es)") auto

declare applyLoop.simps [simp del]

definition makeReceipt :: "Plan \<Rightarrow> ApprovalReport \<Rightarrow> JournalEntry \<Rightarrow> AdapterResponse \<Rightarrow> ExecutionReceipt" where
  "makeReceipt p a finished evidence =
     (let r = \<lparr>ER_SchemaVersion = ReceiptSchemaVersion, ER_OperationID = Pl_OperationID p, ER_ProofID = Pl_ProofID p,
        ER_InstallationID = Pl_InstallationID p, ER_PlanSHA256 = PlanSHA256 p, ER_ApprovalSHA256 = ApprovalSHA256 a,
        ER_ApprovalScopeSHA256 = ApprovalScopeSHA256 p,
        ER_AdapterExecutableSHA256 = EI_ExecutableSHA256 (Pl_Adapter p), ER_Status = ''completed'',
        ER_CompletedAt = JE_RecordedAt finished, ER_JournalHeadSHA256 = JE_EntrySHA256 finished,
        ER_ExecutionEvidenceResponseSHA256 = Rs_ResponseSHA256 evidence, ER_Targets = Rs_Targets evidence,
        ER_IsolationEvidence = the (Rs_IsolationEvidence evidence), ER_CleanupEvidence = the (Rs_CleanupEvidence evidence),
        ER_ObjectLockDeleteDenialReceiptSHA256 = Rs_ObjectLockDeleteDenialReceiptSHA256 evidence,
        ER_AggregateProofArtifactSHA256 = Rs_AggregateProofArtifactSHA256 evidence,
        ER_AggregateProofPathToken = Rs_AggregateProofPathToken evidence, ER_ReceiptSHA256 = []\<rparr> in
      r\<lparr>ER_ReceiptSHA256 := ExecutionReceiptSHA256 r\<rparr>)"

text \<open>The response recorded with the proof, when it is a valid proof.\<close>

definition recordedProof :: "Plan \<Rightarrow> JournalEntry \<Rightarrow> AdapterResponse option" where
  "recordedProof p e =
     (case JE_Response e of
        None \<Rightarrow> None
      | Some r \<Rightarrow> if validateProofResponse p r \<noteq> None then None else Some r)"

definition issueReceipt :: "Environment \<Rightarrow> Plan \<Rightarrow> ApprovalReport \<Rightarrow> World \<Rightarrow> (string + ExecutionReceipt) \<times> World" where
  "issueReceipt env p a w =
     (case journal_load env w of
        (Inl _, w) \<Rightarrow> (Inl ''reload completed backup drill journal'', w)
      | (Inr es, w) \<Rightarrow>
          if verifyJournalBinding p a es \<noteq> None \<or> length es \<noteq> length ApplySteps
          then (Inl ''reload completed backup drill journal'', w)
          else case recordedProof p (es ! (length es - 2)) of
            None \<Rightarrow> (Inl ''reloaded backup drill proof response is invalid'', w)
          | Some evidence \<Rightarrow>
              let receipt = makeReceipt p a (es ! (length es - 1)) evidence in
              (case ValidateReceipt p a receipt es of
                 Some e \<Rightarrow> (Inl e, w)
               | None \<Rightarrow> (Inr receipt, w)))"

definition finishApply :: "Environment \<Rightarrow> Plan \<Rightarrow> ApprovalReport \<Rightarrow> JournalEntry list \<Rightarrow> World \<Rightarrow>
    (string + ExecutionReceipt) \<times> World" where
  "finishApply env p a es w =
     (let proofIndex = (if JE_Step (es ! (length es - 1)) = ''completed'' then length es - 2 else length es - 1) in
      case recordedProof p (es ! proofIndex) of
        None \<Rightarrow> (Inl ''backup drill proof response is absent from journal'', w)
      | Some evidence \<Rightarrow>
          if length es = length ApplySteps - 1 then
            (let previous = JE_EntrySHA256 (last es); (requestSHA, responseSHA) = completedDigests (Rs_ResponseSHA256 evidence);
                 (now, w) = read_clock env w;
                 e = newJournalEntry now (length es + 1) p a ''completed'' requestSHA responseSHA previous None in
             case journal_append env e w of
               (Some _, w) \<Rightarrow> (Inl ''record backup drill completion'', w)
             | (None, w) \<Rightarrow> issueReceipt env p a w)
          else issueReceipt env p a w)"

definition runApply :: "Environment \<Rightarrow> Plan \<Rightarrow> ApprovalReport \<Rightarrow> Adapter option \<Rightarrow> World \<Rightarrow>
    (string + ExecutionReceipt) \<times> World" where
  "runApply env p a adapter w =
     (case journal_load env w of
        (Inl _, w) \<Rightarrow> (Inl ''backup drill journal is not recoverable'', w)
      | (Inr es, w) \<Rightarrow>
          if verifyJournalBinding p a es \<noteq> None then (Inl ''backup drill journal is not recoverable'', w)
          else if rollbackStarted es then (Inl ''backup drill apply cannot resume after rollback begins'', w)
          else case applyLoop env p a adapter es w of
            (Inl e, w) \<Rightarrow> (Inl e, w)
          | (Inr es, w) \<Rightarrow> finishApply env p a es w)"

definition Apply :: "Environment \<Rightarrow> Plan \<Rightarrow> ApprovalReport \<Rightarrow> string \<Rightarrow> Adapter option \<Rightarrow> World \<Rightarrow>
    (string + ExecutionReceipt) \<times> World" where
  "Apply env p a confirmation adapter w =
     (let (now, w) = read_clock env w in
      case validateExecutionInput p a confirmation adapter now True of
        Some e \<Rightarrow> (Inl e, w)
      | None \<Rightarrow>
          let (f, w) = access env w in
          if W_Journal w \<noteq> None \<or> f \<noteq> NoFault then (Inl ''backup drill journal destination is unavailable'', w)
          else let (requestSHA, responseSHA) = approvalConsumedDigests p a; (now, w) = read_clock env w;
              e = newJournalEntry now 1 p a (ApplySteps ! 0) requestSHA responseSHA [] None in
            case CreateJournal env e w of
              (Some _, w) \<Rightarrow> (Inl ''create backup drill journal before mutation'', w)
            | (None, w) \<Rightarrow>
                (case openJournalTransaction env w of
                   (Some err, w) \<Rightarrow> (Inl err, w)
                 | (None, w) \<Rightarrow> runApply env p a adapter w))"

text \<open>Opening, loading and checking a journal, the common start of recovery and rollback.\<close>

definition openBound :: "Environment \<Rightarrow> Plan \<Rightarrow> ApprovalReport \<Rightarrow> string \<Rightarrow> World \<Rightarrow> (string + JournalEntry list) \<times> World" where
  "openBound env p a unavailable w =
     (case openJournalTransaction env w of
        (Some err, w) \<Rightarrow> (Inl err, w)
      | (None, w) \<Rightarrow>
          (case journal_load env w of
             (Inl _, w) \<Rightarrow> (Inl unavailable, w)
           | (Inr es, w) \<Rightarrow>
               (case verifyJournalBinding p a es of
                  Some err \<Rightarrow> (Inl err, w)
                | None \<Rightarrow> (Inr es, w))))"

definition Recover :: "Environment \<Rightarrow> Plan \<Rightarrow> ApprovalReport \<Rightarrow> string \<Rightarrow> Adapter option \<Rightarrow> World \<Rightarrow>
    (string + ExecutionReceipt) \<times> World" where
  "Recover env p a confirmation adapter w =
     (let (now, w) = read_clock env w in
      case validateExecutionInput p a confirmation adapter now False of
        Some e \<Rightarrow> (Inl e, w)
      | None \<Rightarrow>
          (case openBound env p a ''backup drill recovery journal is unavailable'' w of
             (Inl err, w) \<Rightarrow> (Inl err, w)
           | (Inr es, w) \<Rightarrow>
               if rollbackStarted es then (Inl ''backup drill recovery rejects a rollback-started run'', w)
               else runApply env p a adapter w))"

subsection \<open>Rolling back\<close>

definition appendRollbackTerminal :: "Environment \<Rightarrow> Plan \<Rightarrow> ApprovalReport \<Rightarrow> JournalEntry list \<Rightarrow> string \<Rightarrow> World \<Rightarrow>
    string option \<times> World" where
  "appendRollbackTerminal env p a es step w =
     (let previous = last es;
          (requestSHA, responseSHA) = rollbackTerminalDigests step (JE_EntrySHA256 previous) (JE_ResponseSHA256 previous);
          (now, w) = read_clock env w;
          e = newJournalEntry now (length es + 1) p a step requestSHA responseSHA (JE_EntrySHA256 previous) None in
      case journal_append env e w of
        (Some _, w) \<Rightarrow> (Some ''record backup drill rollback outcome'', w)
      | (None, w) \<Rightarrow>
          if step = ''rollback-failed'' then (Some ''backup drill rollback cleanup failed'', w) else (None, w))"

text \<open>The response an entry records, and its digest, when the adapter's answer is bound to the request.\<close>

definition recordedResponse :: "AdapterRequest \<Rightarrow> string \<Rightarrow> InvokeResult \<Rightarrow> string \<times> AdapterResponse option" where
  "recordedResponse q failure result =
     (case (case result of Answered r \<Rightarrow> Some r | Failed r _ \<Rightarrow> r) of
        None \<Rightarrow> (adapterFailureSHA256 failure, None)
      | Some r \<Rightarrow>
          if validSHA (Rs_ResponseSHA256 r) \<and> validateAdapterResponseBinding q r = None
          then (Rs_ResponseSHA256 r, Some r)
          else (adapterFailureSHA256 failure, None))"

definition rollbackEntry :: "Environment \<Rightarrow> Plan \<Rightarrow> ApprovalReport \<Rightarrow> Adapter option \<Rightarrow> JournalEntry list \<Rightarrow> string \<Rightarrow>
    string \<Rightarrow> World \<Rightarrow> (InvokeResult \<times> JournalEntry \<times> string option) \<times> World" where
  "rollbackEntry env p a adapter es step failure w =
     (let previous = JE_EntrySHA256 (last es); q = newRollbackRequest p a step previous;
          (result, w) = invoke adapter q w; (responseSHA, response) = recordedResponse q failure result;
          (now, w) = read_clock env w;
          e = newJournalEntry now (length es + 1) p a step (Rq_RequestSHA256 q) responseSHA previous response;
          (err, w) = journal_append env e w in
      ((result, e, err), w))"

definition continueRollbackCleanup :: "Environment \<Rightarrow> Plan \<Rightarrow> ApprovalReport \<Rightarrow> Adapter option \<Rightarrow> JournalEntry list \<Rightarrow>
    World \<Rightarrow> string option \<times> World" where
  "continueRollbackCleanup env p a adapter es w =
     (case rollbackEntry env p a adapter es ''rollback-cleanup-requested'' ''adapter-execution-failed'' w of
        ((result, e, Some _), w) \<Rightarrow> (Some ''record backup drill rollback cleanup request'', w)
      | ((result, e, None), w) \<Rightarrow>
          appendRollbackTerminal env p a (es @ [e])
            (case result of Answered _ \<Rightarrow> ''rolled-back'' | Failed _ _ \<Rightarrow> ''rollback-failed'') w)"

text \<open>What a rollback does depends on the last step in the journal.\<close>

definition rollbackFrom :: "Environment \<Rightarrow> Plan \<Rightarrow> ApprovalReport \<Rightarrow> Adapter option \<Rightarrow> JournalEntry list \<Rightarrow> World \<Rightarrow>
    string option \<times> World" where
  "rollbackFrom env p a adapter es w =
     (let step = JE_Step (last es) in
      if step = ''completed'' then (Some ''backup drill rollback journal is already complete'', w)
      else if step = ''rolled-back'' then (None, w)
      else if step = ''rollback-failed'' then (Some ''backup drill rollback previously failed'', w)
      else if step = ''rollback-safe-stop'' then
        (if \<not> rollbackResponseSucceeded p a es (length es - 1)
         then appendRollbackTerminal env p a es ''rollback-failed'' w
         else continueRollbackCleanup env p a adapter es w)
      else if step = ''rollback-cleanup-requested'' then
        appendRollbackTerminal env p a es
          (if rollbackResponseSucceeded p a es (length es - 1) then ''rolled-back'' else ''rollback-failed'') w
      else
        (case rollbackEntry env p a adapter es ''rollback-safe-stop'' ''safe-stop-failed'' w of
           ((result, e, Some _), w) \<Rightarrow> (Some ''record backup drill rollback safe-stop'', w)
         | ((Failed _ _, e, None), w) \<Rightarrow> appendRollbackTerminal env p a (es @ [e]) ''rollback-failed'' w
         | ((Answered _, e, None), w) \<Rightarrow> continueRollbackCleanup env p a adapter (es @ [e]) w))"

definition Rollback :: "Environment \<Rightarrow> Plan \<Rightarrow> ApprovalReport \<Rightarrow> string \<Rightarrow> Adapter option \<Rightarrow> World \<Rightarrow>
    string option \<times> World" where
  "Rollback env p a confirmation adapter w =
     (let (now, w) = read_clock env w in
      case validateExecutionInput p a confirmation adapter now False of
        Some e \<Rightarrow> (Some e, w)
      | None \<Rightarrow>
          (case openBound env p a ''backup drill rollback journal is unavailable'' w of
             (Inl err, w) \<Rightarrow> (Some err, w)
           | (Inr es, w) \<Rightarrow> rollbackFrom env p a adapter es w))"

end
