(* ===== verification/Hash_Chain.thy ===== *)
theory Hash_Chain
  imports Go_Sha256
begin

text \<open>
  Two interfaces that several operations share: a chain of entries in which each entry
  names the digest of the one before it, and a system whose operations only move its
  state forward in some order.
\<close>

subsection \<open>Hash chains\<close>

text \<open>
  The provider gives the predicate of valid chains, an entry's own digest, the digest it
  names as its predecessor, and the bytes the digest is taken of. An entry without
  predecessor names the empty string.
\<close>

locale hash_chain =
  fixes chain :: "'e list \<Rightarrow> bool" and sha :: "'e \<Rightarrow> string" and previous :: "'e \<Rightarrow> string"
    and preimage :: "'e \<Rightarrow> string"
  assumes chain_butlast: "chain (es @ [e]) \<Longrightarrow> es \<noteq> [] \<Longrightarrow> chain es"
    and chain_first: "chain [e] \<Longrightarrow> previous e = []"
    and chain_link: "chain (es @ [e]) \<Longrightarrow> es \<noteq> [] \<Longrightarrow> previous e = sha (last es) \<and> previous e \<noteq> []"
    and chain_digest: "chain (es @ [e]) \<Longrightarrow> chain (fs @ [f]) \<Longrightarrow> sha e = sha f \<Longrightarrow> Sum256 (preimage e) = Sum256 (preimage f)"
    and preimage_link: "chain (es @ [e]) \<Longrightarrow> chain (fs @ [f]) \<Longrightarrow> preimage e = preimage f \<Longrightarrow> previous e = previous f"
begin

definition collision :: "'e list \<Rightarrow> 'e list \<Rightarrow> bool" where
  "collision es fs \<longleftrightarrow> (\<exists>x \<in> set es. \<exists>y \<in> set fs. preimage x \<noteq> preimage y \<and> Sum256 (preimage x) = Sum256 (preimage y))"

lemma collision_append: "collision es fs \<Longrightarrow> collision (es @ es') (fs @ fs')"
  by (auto simp: collision_def)

lemma collision_last: "chain (es @ [e]) \<Longrightarrow> chain (fs @ [f]) \<Longrightarrow> sha e = sha f \<Longrightarrow> preimage e \<noteq> preimage f \<Longrightarrow>
    collision (es @ [e]) (fs @ [f])"
  unfolding collision_def using chain_digest [of es e fs f] by (intro bexI [of _ e] bexI [of _ f]) simp_all

lemma link_Nil_iff: "chain (es @ [e]) \<Longrightarrow> previous e = [] \<longleftrightarrow> es = []"
  using chain_first [of e] chain_link [of es e] by (cases es) auto

text \<open>Two chains with the same head have the same entries, or two of their encodings collide.\<close>

lemma chains_agree:
  assumes "chain (es @ [e])" and "chain (fs @ [f])" and "sha e = sha f"
  shows "map preimage (es @ [e]) = map preimage (fs @ [f]) \<or> collision (es @ [e]) (fs @ [f])"
  using assms
proof (induction es arbitrary: e fs f rule: rev_induct)
  case Nil
  show ?case
  proof (cases "preimage e = preimage f")
    case True
    then have "fs = []"
      using preimage_link [OF Nil(1,2)] link_Nil_iff [OF Nil(1)] link_Nil_iff [OF Nil(2)] by simp
    with True show ?thesis by simp
  qed (use collision_last [OF Nil] in simp)
next
  case (snoc e' es)
  show ?case
  proof (cases "preimage e = preimage f")
    case True
    have previous: "previous e = previous f" by (rule preimage_link [OF snoc.prems(1,2) True])
    then have "fs \<noteq> []" using link_Nil_iff [OF snoc.prems(1)] link_Nil_iff [OF snoc.prems(2)] by auto
    then obtain fs' f' where fs: "fs = fs' @ [f']" by (cases fs rule: rev_cases) auto
    have "chain (es @ [e'])" "chain (fs' @ [f'])"
      using chain_butlast [OF snoc.prems(1)] chain_butlast [OF snoc.prems(2)] fs by simp_all
    moreover have "sha e' = sha f'"
      using previous chain_link [OF snoc.prems(1)] chain_link [OF snoc.prems(2)] fs by simp
    ultimately have "map preimage (es @ [e']) = map preimage fs \<or> collision (es @ [e']) fs"
      using snoc.IH [of e' fs' f'] fs by simp
    with True collision_append [of "es @ [e']" fs "[e]" "[f]"] show ?thesis by auto
  qed (use collision_last [OF snoc.prems] in simp)
qed

end

subsection \<open>Progress\<close>

text \<open>
  A system of operations and a preorder on its states that every operation follows. What
  holds between the two states of one operation then holds over every sequence of them.
\<close>

locale progress =
  fixes step :: "'o \<Rightarrow> 'w \<Rightarrow> 'w" and le :: "'w \<Rightarrow> 'w \<Rightarrow> bool"
  assumes le_refl: "le w w"
    and le_trans: "le u v \<Longrightarrow> le v w \<Longrightarrow> le u w"
    and step_le: "le w (step op w)"
begin

lemma run_le: "le w (fold step ops w)"
proof (induction ops arbitrary: w)
  case (Cons op ops)
  then show ?case using le_trans [OF step_le [of w op] Cons.IH] by simp
qed (simp add: le_refl)

lemma run_later: "le (fold step ops w) (fold step (ops @ later) w)"
  using run_le by simp

lemma run_keeps:
  assumes "\<And>u v. le u v \<Longrightarrow> P u \<Longrightarrow> P v" "P w"
  shows "P (fold step ops w)"
  using assms run_le by blast

end

end
