(* ===== verification/Drill_History.thy ===== *)
theory Drill_History
  imports Drill_Journal Hash_Chain
begin

text \<open>
  What a valid journal looks like: the phases it can record, and that its head digest
  fixes everything before it.
\<close>

subsection \<open>Digests\<close>

lemma validSHA_iff: "validSHA v \<longleftrightarrow> length v = 64 \<and> list_all is_hex v"
proof -
  have "hex_value c \<noteq> None" if "is_hex c" for c
    using that by (auto simp: hex_value_def is_hex_def between_def)
  then show ?thesis
    by (auto simp: validSHA_def shaPattern_def MatchString_one hex_decodes_def list_all_iff)
qed

lemma validSHA_digest [simp]: "validSHA (digest v)"
  unfolding validSHA_iff digest_def by (simp add: SHA256Hex_def is_hex_encode)

lemma validSHA_Nil [simp]: "\<not> validSHA []"
  by (simp add: validSHA_iff)

lemma utf8_fix_SHA: "validSHA v \<Longrightarrow> utf8_fix v = v"
  by (rule utf8_fix_ascii) (auto simp: validSHA_iff list_all_iff hex_ascii)

lemma digest_eq: "digest v = digest w \<longleftrightarrow> Sum256 (json_Marshal v) = Sum256 (json_Marshal w)"
  by (simp add: digest_def SHA256Hex_def hex_EncodeToString_inj)

subsection \<open>Chains\<close>

lemma validateChain_append:
  "validateChain vs (es @ fs) \<longleftrightarrow> validateChain vs es \<and> validateChain (vs @ es) fs"
  by (induction es arbitrary: vs) auto

lemma validateChain_snoc: "validateChain [] (es @ [e]) \<longleftrightarrow> validateChain [] es \<and> entryExtends es e"
  by (simp add: validateChain_append)

lemma validateChain_prefix: "validateChain [] (es @ fs) \<Longrightarrow> validateChain [] es"
  by (simp add: validateChain_append)

lemma validateJournalEntries_None:
  "validateJournalEntries es = None \<longleftrightarrow> es \<noteq> [] \<and> length es \<le> 32 \<and> validateChain [] es"
  by (auto simp: validateJournalEntries_def)

subsection \<open>Phases\<close>

lemma ApplySteps_length [simp]: "length ApplySteps = 13"
  by (simp add: ApplySteps_def)

lemma ApplySteps_distinct: "distinct ApplySteps"
  by code_simp

lemma ApplySteps_plain:
  assumes "k < 12"
  shows "ApplySteps ! k \<notin> {''rolled-back'', ''rollback-failed'', ''completed'', ''rollback-safe-stop'',
    ''rollback-cleanup-requested''}" "\<not> has_prefix ''rollback-'' (ApplySteps ! k)"
proof -
  have "list_all (\<lambda>k. ApplySteps ! k \<notin> set [''rolled-back'', ''rollback-failed'', ''completed'', ''rollback-safe-stop'',
    ''rollback-cleanup-requested''] \<and> \<not> has_prefix ''rollback-'' (ApplySteps ! k)) [0..<12]"
    by code_simp
  with assms show "ApplySteps ! k \<notin> {''rolled-back'', ''rollback-failed'', ''completed'', ''rollback-safe-stop'',
    ''rollback-cleanup-requested''}" "\<not> has_prefix ''rollback-'' (ApplySteps ! k)"
    by (auto simp: list_all_iff)
qed

lemma ApplySteps_12: "ApplySteps ! 12 = ''completed''"
  by (simp add: ApplySteps_def)

lemma take_Suc_ApplySteps: "k < 13 \<Longrightarrow> take (Suc k) ApplySteps = take k ApplySteps @ [ApplySteps ! k]"
  by (simp add: take_Suc_conv_app_nth)

text \<open>What can follow the apply steps once a rollback was requested.\<close>

definition rollback_tails :: "string list list" where
  "rollback_tails =
     [[''rollback-safe-stop''], [''rollback-safe-stop'', ''rollback-failed''],
      [''rollback-safe-stop'', ''rollback-cleanup-requested''],
      [''rollback-safe-stop'', ''rollback-cleanup-requested'', ''rolled-back''],
      [''rollback-safe-stop'', ''rollback-cleanup-requested'', ''rollback-failed'']]"

definition journal_path :: "string list \<Rightarrow> bool" where
  "journal_path steps \<longleftrightarrow>
     (\<exists>k. 1 \<le> k \<and> k \<le> 13 \<and> steps = take k ApplySteps) \<or>
     (\<exists>k t. 1 \<le> k \<and> k \<le> 12 \<and> t \<in> set rollback_tails \<and> steps = take k ApplySteps @ t)"

lemma last_take_ApplySteps: "1 \<le> k \<Longrightarrow> k \<le> 13 \<Longrightarrow> last (take k ApplySteps) = ApplySteps ! (k - 1)"
  by (cases k) (simp_all add: take_Suc_ApplySteps)

lemma validTransition_from:
  assumes "validTransition es next" and "es \<noteq> []" and "JE_Step (last es) = s"
  shows "s \<notin> {''rolled-back'', ''rollback-failed'', ''completed''}"
    "s = ''rollback-safe-stop'' \<Longrightarrow> next = ''rollback-cleanup-requested'' \<or> next = ''rollback-failed''"
    "s = ''rollback-cleanup-requested'' \<Longrightarrow> next = ''rolled-back'' \<or> next = ''rollback-failed''"
    "s \<notin> {''rollback-safe-stop'', ''rollback-cleanup-requested''} \<Longrightarrow>
       next = ''rollback-safe-stop'' \<or> next = ApplySteps ! length es"
  using assms unfolding validTransition_def Let_def by (simp_all split: if_splits)

lemma rollback_tail_step:
  assumes "t \<in> set rollback_tails" "last t \<notin> {''rolled-back'', ''rollback-failed''}"
    and "last t = ''rollback-safe-stop'' \<Longrightarrow> next = ''rollback-cleanup-requested'' \<or> next = ''rollback-failed''"
    and "last t = ''rollback-cleanup-requested'' \<Longrightarrow> next = ''rolled-back'' \<or> next = ''rollback-failed''"
  shows "t @ [next] \<in> set rollback_tails"
proof -
  consider "t = [''rollback-safe-stop'']" | "t = [''rollback-safe-stop'', ''rollback-cleanup-requested'']"
    using assms(1,2) by (auto simp: rollback_tails_def)
  then show ?thesis using assms(3,4) by cases (auto simp: rollback_tails_def)
qed

lemma journal_path_step:
  assumes "journal_path (map JE_Step es)" and "validTransition es next"
  shows "journal_path (map JE_Step es @ [next])"
proof -
  have es: "es \<noteq> []" using assms(1) by (auto simp: journal_path_def rollback_tails_def ApplySteps_def)
  let ?last = "last (map JE_Step es)"
  note from_last = validTransition_from [OF assms(2) es last_map [OF es, of JE_Step, symmetric]]
  consider k where "1 \<le> k" "k \<le> 13" "map JE_Step es = take k ApplySteps"
    | k t where "1 \<le> k" "k \<le> 12" "t \<in> set rollback_tails" "map JE_Step es = take k ApplySteps @ t"
    using assms(1) unfolding journal_path_def by blast
  then show ?thesis
  proof cases
    case 1
    have "length (map JE_Step es) = k" using 1 by (simp only: length_take ApplySteps_length)
    then have len: "length es = k" by simp
    have last: "?last = ApplySteps ! (k - 1)" using 1 last_take_ApplySteps by simp
    moreover have "k \<noteq> 13" using from_last(1) last by (auto simp: ApplySteps_12)
    ultimately have "?last \<notin> {''rollback-safe-stop'', ''rollback-cleanup-requested''}"
      using ApplySteps_plain(1) [of "k - 1"] 1 by auto
    from from_last(4) [OF this] len consider "next = ''rollback-safe-stop''" | "next = ApplySteps ! k" by auto
    then show ?thesis
    proof cases
      case 1
      with \<open>1 \<le> k\<close> \<open>k \<le> 13\<close> \<open>map JE_Step es = take k ApplySteps\<close> \<open>k \<noteq> 13\<close> show ?thesis unfolding journal_path_def
        by (intro disjI2 exI [of _ k] exI [of _ "[next]"]) (simp add: rollback_tails_def)
    next
      case 2
      with \<open>k \<le> 13\<close> \<open>map JE_Step es = take k ApplySteps\<close> \<open>k \<noteq> 13\<close> show ?thesis unfolding journal_path_def
        by (intro disjI1 exI [of _ "Suc k"]) (simp add: take_Suc_ApplySteps)
    qed
  next
    case 2
    have "t \<noteq> []" using 2(3) by (auto simp: rollback_tails_def)
    then have last: "?last = last t" using 2(4) by simp
    have "t @ [next] \<in> set rollback_tails"
      using from_last(1-3) unfolding last by (intro rollback_tail_step [OF 2(3)]) auto
    with 2 show ?thesis unfolding journal_path_def
      by (intro disjI2 exI [of _ k] exI [of _ "t @ [next]"]) simp
  qed
qed

lemma chain_path: "validateChain [] es \<Longrightarrow> es \<noteq> [] \<Longrightarrow> journal_path (map JE_Step es)"
proof (induction es rule: rev_induct)
  case (snoc e es)
  then have chain: "validateChain [] es" "entryExtends es e" by (simp_all add: validateChain_snoc)
  show ?case
  proof (cases "es = []")
    case True
    with chain have "JE_Step e = ApplySteps ! 0" by (simp add: entryExtends_def validTransition_def)
    with True show ?thesis unfolding journal_path_def
      by (intro disjI1 exI [of _ 1]) (simp add: ApplySteps_def)
  next
    case False
    with snoc.IH chain have "journal_path (map JE_Step es)" by simp
    with chain(2) journal_path_step show ?thesis by (simp add: entryExtends_def)
  qed
qed simp

lemma journal_path_length: "journal_path steps \<Longrightarrow> length steps \<le> 15"
  by (auto simp: journal_path_def rollback_tails_def)

lemma chain_length: "validateChain [] es \<Longrightarrow> length es \<le> 15"
  using chain_path [of es] journal_path_length [of "map JE_Step es"] by (cases "es = []") auto

lemma journal_path_started:
  assumes "journal_path (map JE_Step es)" and "\<not> rollbackStarted es"
  shows "length es \<le> 13" "map JE_Step es = take (length es) ApplySteps"
proof -
  have "\<exists>k. k \<le> 13 \<and> map JE_Step es = take k ApplySteps"
  proof (rule ccontr)
    assume "\<nexists>k. k \<le> 13 \<and> map JE_Step es = take k ApplySteps"
    with assms(1) obtain k t where "t \<in> set rollback_tails" "map JE_Step es = take k ApplySteps @ t"
      unfolding journal_path_def by blast
    then have "''rollback-safe-stop'' \<in> set (map JE_Step es)" by (auto simp: rollback_tails_def)
    then obtain e where "e \<in> set es" "JE_Step e = ''rollback-safe-stop''" by auto
    then have "rollbackStarted es"
      unfolding rollbackStarted_def list_ex_iff by (intro bexI [of _ e]) (simp_all add: has_prefix_def)
    with assms(2) show False by blast
  qed
  then obtain k where k: "k \<le> 13" "map JE_Step es = take k ApplySteps" by blast
  have "length (map JE_Step es) = k" using k by (simp only: length_take ApplySteps_length)
  then have "length es = k" by simp
  with k show "length es \<le> 13" "map JE_Step es = take (length es) ApplySteps" by simp_all
qed

subsection \<open>The head fixes the history\<close>

definition entry_preimage :: "JournalEntry \<Rightarrow> string" where
  "entry_preimage e = json_Marshal (json_JournalEntry (e\<lparr>JE_EntrySHA256 := []\<rparr>))"

lemma entry_digest: "entryWellFormed e \<Longrightarrow> entryWellFormed f \<Longrightarrow> JE_EntrySHA256 e = JE_EntrySHA256 f \<Longrightarrow>
    Sum256 (entry_preimage e) = Sum256 (entry_preimage f)"
  by (simp add: entryWellFormed_def JournalEntrySHA256_def digest_eq entry_preimage_def)

named_theorems json_ints_intro

lemma json_ints_JInt [json_ints_intro]: "json_ints (JInt i)"
  by (auto simp: JInt_def)

lemma json_ints_omitempty [json_ints_intro]:
  "m \<in> set (omitempty k s) \<Longrightarrow> json_ints (snd m)"
  "m \<in> set (omitempty_list k f xs) \<Longrightarrow> (\<And>x. x \<in> set xs \<Longrightarrow> json_ints (f x)) \<Longrightarrow> json_ints (snd m)"
  "m \<in> set (omitempty_option k f y) \<Longrightarrow> (\<And>x. y = Some x \<Longrightarrow> json_ints (f x)) \<Longrightarrow> json_ints (snd m)"
  by (auto simp: omitempty_def omitempty_list_def omitempty_option_def split: if_splits option.splits)

lemma json_ints_parts:
  "json_ints (json_Evidence e)" "json_ints (json_TargetResult t)" "json_ints (json_RestoreObservation r)"
  by (simp_all add: json_Evidence_def json_TargetResult_def json_RestoreObservation_def)

lemma json_ints_AdapterResponse: "json_ints (json_AdapterResponse r)"
  unfolding json_AdapterResponse_def
  by (auto simp: json_ints_parts intro: json_ints_omitempty)

lemma json_ints_JournalEntry: "json_ints (json_JournalEntry e)"
  unfolding json_JournalEntry_def
  by (auto simp: json_ints_parts json_ints_JInt json_ints_AdapterResponse intro: json_ints_omitempty)

text \<open>Reading one member of an encoded object.\<close>

fun jmember :: "string \<Rightarrow> json \<Rightarrow> json option" where
  "jmember k (JObject ms) = map_of ms k"
| "jmember k _ = None"

lemma utf8_fix_keys:
  "utf8_fix ''schemaVersion'' = ''schemaVersion''" "utf8_fix ''sequence'' = ''sequence''"
  "utf8_fix ''operationId'' = ''operationId''" "utf8_fix ''planSha256'' = ''planSha256''"
  "utf8_fix ''approvalSha256'' = ''approvalSha256''" "utf8_fix ''approvalScopeSha256'' = ''approvalScopeSha256''"
  "utf8_fix ''adapterExecutableSha256'' = ''adapterExecutableSha256''" "utf8_fix ''step'' = ''step''"
  "utf8_fix ''requestSha256'' = ''requestSha256''" "utf8_fix ''responseSha256'' = ''responseSha256''"
  "utf8_fix ''response'' = ''response''" "utf8_fix ''previousEntrySha256'' = ''previousEntrySha256''"
  "utf8_fix ''recordedAt'' = ''recordedAt''" "utf8_fix ''entrySha256'' = ''entrySha256''"
  by (rule utf8_fix_ascii, code_simp)+

lemma jmember_previous:
  "jmember ''previousEntrySha256'' (json_fix (json_JournalEntry e)) =
     (if JE_PreviousEntrySHA256 e = [] then None else Some (JString (utf8_fix (JE_PreviousEntrySHA256 e))))"
  by (simp add: json_JournalEntry_def omitempty_def omitempty_option_def utf8_fix_keys split: option.splits)

lemma preimage_previous:
  assumes "entry_preimage e = entry_preimage f"
    and "JE_PreviousEntrySHA256 e = [] \<or> validSHA (JE_PreviousEntrySHA256 e)"
    and "JE_PreviousEntrySHA256 f = [] \<or> validSHA (JE_PreviousEntrySHA256 f)"
  shows "JE_PreviousEntrySHA256 e = JE_PreviousEntrySHA256 f"
proof -
  have "json_fix (json_JournalEntry (e\<lparr>JE_EntrySHA256 := []\<rparr>)) = json_fix (json_JournalEntry (f\<lparr>JE_EntrySHA256 := []\<rparr>))"
    using assms(1) by (intro json_Marshal_inj json_ints_JournalEntry) (simp add: entry_preimage_def)
  from arg_cong [OF this, of "jmember ''previousEntrySha256''"] assms(2,3) show ?thesis
    unfolding jmember_previous by (auto simp: utf8_fix_SHA split: if_splits)
qed

lemma chain_entry:
  assumes "validateChain [] (es @ [e])"
  shows "entryWellFormed e" "es = [] \<Longrightarrow> JE_PreviousEntrySHA256 e = []"
    "es \<noteq> [] \<Longrightarrow> JE_PreviousEntrySHA256 e = JE_EntrySHA256 (last es)"
  using assms by (auto simp: validateChain_snoc entryExtends_def validateJournalEntry_def last_entry_def
      entryFollows_def split: if_splits)

lemma chain_previous:
  assumes "validateChain [] (es @ [e])"
  shows "JE_PreviousEntrySHA256 e = [] \<and> es = [] \<or> validSHA (JE_PreviousEntrySHA256 e) \<and> es \<noteq> []"
proof (cases es rule: rev_cases)
  case Nil
  with chain_entry(2) [OF assms] show ?thesis by simp
next
  case (snoc es' e')
  then have "validateChain [] (es' @ [e'])" using assms by (simp add: validateChain_append)
  from chain_entry(1) [OF this] have "validSHA (JE_EntrySHA256 e')"
    by (simp add: entryWellFormed_def JournalEntrySHA256_def)
  with snoc chain_entry(3) [OF assms] show ?thesis by simp
qed

text \<open>The journal is a hash chain.\<close>

interpretation journal: hash_chain "validateChain []" JE_EntrySHA256 JE_PreviousEntrySHA256 entry_preimage
proof unfold_locales
  fix es fs e f
  assume chains: "validateChain [] (es @ [e])" "validateChain [] (fs @ [f])"
  show "JE_EntrySHA256 e = JE_EntrySHA256 f \<Longrightarrow> Sum256 (entry_preimage e) = Sum256 (entry_preimage f)"
    by (rule entry_digest [OF chain_entry(1) [OF chains(1)] chain_entry(1) [OF chains(2)]])
  show "entry_preimage e = entry_preimage f \<Longrightarrow> JE_PreviousEntrySHA256 e = JE_PreviousEntrySHA256 f"
    by (erule preimage_previous) (use chain_previous [OF chains(1)] chain_previous [OF chains(2)] in auto)
next
  fix es e assume chain: "validateChain [] (es @ [e])"
  show "validateChain [] es" by (rule validateChain_prefix [OF chain])
  assume "es \<noteq> []"
  with chain_entry(3) [OF chain] chain_previous [OF chain]
  show "JE_PreviousEntrySHA256 e = JE_EntrySHA256 (last es) \<and> JE_PreviousEntrySHA256 e \<noteq> []" by auto
next
  fix e assume "validateChain [] [e]"
  then show "JE_PreviousEntrySHA256 e = []" using chain_previous [of "[]" e] by simp
qed

end
