(* ===== verification/Drill_Runs.thy ===== *)
theory Drill_Runs
  imports Drill_Engine Drill_History
begin

text \<open>
  What one operation of the drill does to the world, whatever the adapter answers and
  whichever accesses fail: the journal only grows and stays a valid chain, and every
  request sent to the adapter is justified by what the journal recorded before.
\<close>

subsection \<open>Worlds\<close>

definition entries :: "World \<Rightarrow> JournalEntry list" where
  "entries w = (case W_Journal w of None \<Rightarrow> [] | Some f \<Rightarrow> JF_Entries f)"

definition holds :: "World \<Rightarrow> JournalEntry list \<Rightarrow> bool" where
  "holds w es \<longleftrightarrow> W_Journal w = Some \<lparr>JF_Entries = es, JF_Torn = False\<rparr>"

definition journal_ok :: "World \<Rightarrow> bool" where
  "journal_ok w \<longleftrightarrow> (case W_Journal w of None \<Rightarrow> True | Some f \<Rightarrow> JF_Entries f \<noteq> [] \<and> validateChain [] (JF_Entries f))"

lemma holds_entries [simp]: "holds w es \<Longrightarrow> entries w = es"
  by (simp add: holds_def entries_def)

text \<open>The two counters do not matter for these.\<close>

lemma read_clock_world:
  "read_clock env w = (now, w') \<Longrightarrow> W_Journal w' = W_Journal w \<and> W_Calls w' = W_Calls w"
  by (auto simp: read_clock_def)

lemma access_world: "access env w = (f, w') \<Longrightarrow> W_Journal w' = W_Journal w \<and> W_Calls w' = W_Calls w"
  by (auto simp: access_def)

lemma decodeJournal_Inr:
  "decodeJournal f = Inr es \<longleftrightarrow> \<not> JF_Torn f \<and> JF_Entries f = es \<and> validateJournalEntries es = None"
  by (auto simp: decodeJournal_def split: option.splits)

lemma journal_load_world:
  assumes "journal_load env w = (res, w')"
  shows "W_Journal w' = W_Journal w \<and> W_Calls w' = W_Calls w"
  using assms by (auto simp: journal_load_def access_def)

lemma journal_load_Inr:
  assumes "journal_load env w = (Inr es, w')"
  shows "holds w es" "holds w' es" "validateJournalEntries es = None" "journal_size es \<le> maxJournalBytes"
    "2 \<le> journal_size es"
proof -
  from assms obtain f where f: "W_Journal w = Some f" "decodeJournal f = Inr es"
    "journal_size (JF_Entries f) \<le> maxJournalBytes" "2 \<le> journal_size (JF_Entries f)"
    by (auto simp: journal_load_def access_def split: option.splits if_splits)
  then have "f = \<lparr>JF_Entries = es, JF_Torn = False\<rparr>" "validateJournalEntries es = None"
    by (auto simp: decodeJournal_Inr)
  with f journal_load_world [OF assms] show "holds w es" "holds w' es" "validateJournalEntries es = None"
    "journal_size es \<le> maxJournalBytes" "2 \<le> journal_size es"
    by (auto simp: holds_def)
qed

lemma open_world:
  "openJournalTransaction env w = (res, w') \<Longrightarrow> W_Journal w' = W_Journal w \<and> W_Calls w' = W_Calls w"
  by (auto simp: openJournalTransaction_def access_def)

text \<open>The outcomes of an append.\<close>

lemma journal_append_cases:
  assumes "journal_append env e w = (res, w')"
  obtains (unchanged) "W_Journal w' = W_Journal w" "W_Calls w' = W_Calls w" "res \<noteq> None"
  | (torn) es where "holds w es" "W_Journal w' = Some \<lparr>JF_Entries = es, JF_Torn = True\<rparr>" "W_Calls w' = W_Calls w"
      "res \<noteq> None"
  | (written) es where "holds w es" "holds w' (es @ [e])" "W_Calls w' = W_Calls w" "entryExtends es e"
      "validateJournalEntries es = None" "entry_size e \<le> 128 * 1024"
      "journal_size es + entry_size e \<le> maxJournalBytes"
proof (cases "journal_load env w")
  case (Pair loaded w1)
  note world = journal_load_world [OF Pair]
  show thesis
  proof (cases loaded)
    case (Inl x)
    with Pair assms world show thesis by (intro unchanged) (auto simp: journal_append_def)
  next
    case (Inr es)
    note load = journal_load_Inr [OF Pair [unfolded Inr]]
    show thesis
    proof (cases "entryExtends es e \<and> entry_size e \<le> 128 * 1024 \<and> journal_size es + entry_size e \<le> maxJournalBytes")
      case False
      with Pair Inr assms world show thesis
        by (intro unchanged) (auto simp: journal_append_def split: if_splits)
    next
      case True
      then have "write_entry env es e w1 = (res, w')"
        using Pair Inr assms by (auto simp: journal_append_def)
      then consider "W_Journal w' = W_Journal w1" "W_Calls w' = W_Calls w1" "res \<noteq> None"
        | "W_Journal w' = Some \<lparr>JF_Entries = es, JF_Torn = True\<rparr>" "W_Calls w' = W_Calls w1" "res \<noteq> None"
        | "holds w' (es @ [e])" "W_Calls w' = W_Calls w1"
        by (auto simp: write_entry_def access_def holds_def split: fault.splits)
      then show thesis
      proof cases
        case 1
        with world show thesis by (intro unchanged) auto
      next
        case 2
        with world load(1) show thesis by (intro torn) auto
      next
        case 3
        with world load True show thesis by (intro written) auto
      qed
    qed
  qed
qed

lemma journal_append_None:
  assumes "journal_append env e w = (None, w')" and "holds w es"
  shows "holds w' (es @ [e])" "W_Calls w' = W_Calls w" "entryExtends es e"
proof -
  have "holds w' (es @ [e]) \<and> W_Calls w' = W_Calls w \<and> entryExtends es e"
    using assms(1) by (cases rule: journal_append_cases) (use assms(2) in \<open>auto simp: holds_def\<close>)
  then show "holds w' (es @ [e])" "W_Calls w' = W_Calls w" "entryExtends es e" by simp_all
qed

subsection \<open>Justified requests\<close>

definition apply_request :: "Plan \<Rightarrow> ApprovalReport \<Rightarrow> JournalEntry list \<Rightarrow> AdapterRequest \<Rightarrow> bool" where
  "apply_request p a es q \<longleftrightarrow> 2 \<le> length es \<and> length es \<le> 11 \<and> map JE_Step es = take (length es) ApplySteps \<and>
     (\<forall>e \<in> set es. entryBound p a e) \<and>
     q = newAdapterRequest p (Some a) ''apply'' (ApplySteps ! length es) (JE_EntrySHA256 (last es))"

definition rollback_request :: "Plan \<Rightarrow> ApprovalReport \<Rightarrow> JournalEntry list \<Rightarrow> AdapterRequest \<Rightarrow> bool" where
  "rollback_request p a es q \<longleftrightarrow> es \<noteq> [] \<and> (\<forall>e \<in> set es. entryBound p a e) \<and>
     (map JE_Step es = take (length es) ApplySteps \<and> length es \<le> 12 \<and>
        q = newRollbackRequest p a ''rollback-safe-stop'' (JE_EntrySHA256 (last es)) \<or>
      JE_Step (last es) = ''rollback-safe-stop'' \<and> rollbackResponseSucceeded p a es (length es - 1) \<and>
        q = newRollbackRequest p a ''rollback-cleanup-requested'' (JE_EntrySHA256 (last es)))"

text \<open>A request is justified by a journal when some prefix of it calls for the request.\<close>

definition call_justified :: "JournalEntry list \<Rightarrow> AdapterRequest \<Rightarrow> bool" where
  "call_justified es q \<longleftrightarrow> (\<exists>p a k. k \<le> length es \<and> (apply_request p a (take k es) q \<or> rollback_request p a (take k es) q))"

lemma call_justified_append: "call_justified es q \<Longrightarrow> call_justified (es @ fs) q"
  unfolding call_justified_def by (metis add_leD1 le_add1 length_append take_append append_Nil2 diff_is_0_eq order_trans take_0)

lemma rollbackStarted_append: "rollbackStarted es \<Longrightarrow> rollbackStarted (es @ fs)"
  by (simp add: rollbackStarted_def)

lemma newAdapterRequest_mode [simp]: "Rq_Mode (newAdapterRequest p a m s v) = m"
  "Rq_Step (newAdapterRequest p a m s v) = s" "Rq_PreviousJournalSHA256 (newAdapterRequest p a m s v) = v"
  by (simp_all add: newAdapterRequest_def sealRequest_def Let_def)

lemma newRollbackRequest_mode [simp]: "Rq_Mode (newRollbackRequest p a s v) = ''rollback''"
  "Rq_Step (newRollbackRequest p a s v) = s" "Rq_PreviousJournalSHA256 (newRollbackRequest p a s v) = v"
  by (simp_all add: newRollbackRequest_def sealRequest_def Let_def)

subsection \<open>Progress of the world\<close>

definition advance :: "World \<Rightarrow> World \<Rightarrow> bool" where
  "advance w w' \<longleftrightarrow>
     (\<exists>new. entries w' = entries w @ new) \<and>
     (\<exists>calls. W_Calls w' = W_Calls w @ calls \<and>
        (\<forall>q \<in> set calls. call_justified (entries w') q \<and> (rollbackStarted (entries w) \<longrightarrow> Rq_Mode q = ''rollback''))) \<and>
     (journal_ok w \<longrightarrow> journal_ok w')"

lemma advance_same: "W_Journal w' = W_Journal w \<Longrightarrow> W_Calls w' = W_Calls w \<Longrightarrow> advance w w'"
  by (auto simp: advance_def entries_def journal_ok_def)

lemma advance_refl [simp]: "advance w w"
  by (rule advance_same) simp_all

lemma advance_trans:
  assumes "advance w w1" and "advance w1 w2"
  shows "advance w w2"
proof -
  obtain new1 calls1 where 1: "entries w1 = entries w @ new1" "W_Calls w1 = W_Calls w @ calls1"
    "\<forall>q \<in> set calls1. call_justified (entries w1) q \<and> (rollbackStarted (entries w) \<longrightarrow> Rq_Mode q = ''rollback'')"
    "journal_ok w \<longrightarrow> journal_ok w1"
    using assms(1) unfolding advance_def by blast
  obtain new2 calls2 where 2: "entries w2 = entries w1 @ new2" "W_Calls w2 = W_Calls w1 @ calls2"
    "\<forall>q \<in> set calls2. call_justified (entries w2) q \<and> (rollbackStarted (entries w1) \<longrightarrow> Rq_Mode q = ''rollback'')"
    "journal_ok w1 \<longrightarrow> journal_ok w2"
    using assms(2) unfolding advance_def by blast
  have "call_justified (entries w2) q" if "q \<in> set calls1" for q
    using 1(3) 2(1) call_justified_append [of "entries w1" q new2] that by simp
  moreover have "rollbackStarted (entries w1)" if "rollbackStarted (entries w)"
    using 1(1) rollbackStarted_append [OF that] by simp
  ultimately have "\<forall>q \<in> set (calls1 @ calls2). call_justified (entries w2) q \<and>
      (rollbackStarted (entries w) \<longrightarrow> Rq_Mode q = ''rollback'')"
    using 1(3) 2(3) by auto
  with 1 2 show ?thesis unfolding advance_def
    by (intro conjI exI [of _ "new1 @ new2"] exI [of _ "calls1 @ calls2"]) simp_all
qed

lemma journal_append_advance: "journal_append env e w = (res, w') \<Longrightarrow> advance w w'"
  by (erule journal_append_cases)
     (auto simp: advance_def entries_def journal_ok_def holds_def validateChain_snoc validateJournalEntries_None)

lemma invoke_world:
  assumes "invoke adapter q w = (res, w')"
  shows "W_Journal w' = W_Journal w" "W_Calls w' = W_Calls w \<or> W_Calls w' = W_Calls w @ [q]"
  using assms by (auto simp: invoke_def split: option.splits if_splits)

lemma invoke_advance:
  assumes "invoke adapter q w = (res, w')" and "call_justified (entries w) q"
    and "rollbackStarted (entries w) \<Longrightarrow> Rq_Mode q = ''rollback''"
  shows "advance w w'"
  using invoke_world [OF assms(1)] assms(2,3)
  by (auto simp: advance_def entries_def journal_ok_def)

subsection \<open>Operations\<close>

lemma newJournalEntry_fields [simp]:
  "JE_Step (newJournalEntry now n p a step rq rs prev r) = step"
  "JE_RequestSHA256 (newJournalEntry now n p a step rq rs prev r) = rq"
  "JE_ResponseSHA256 (newJournalEntry now n p a step rq rs prev r) = rs"
  "JE_Response (newJournalEntry now n p a step rq rs prev r) = r"
  "JE_PreviousEntrySHA256 (newJournalEntry now n p a step rq rs prev r) = prev"
  "JE_Sequence (newJournalEntry now n p a step rq rs prev r) = int n"
  "JE_RecordedAt (newJournalEntry now n p a step rq rs prev r) = FormatRFC3339Nano now"
  "entryBound p a (newJournalEntry now n p a step rq rs prev r)"
  by (simp_all add: newJournalEntry_def Let_def entryBound_def)

definition ready :: "Plan \<Rightarrow> ApprovalReport \<Rightarrow> JournalEntry list \<Rightarrow> bool" where
  "ready p a es \<longleftrightarrow> es \<noteq> [] \<and> validateChain [] es \<and> (\<forall>e \<in> set es. entryBound p a e)"

lemma verifyEntry_bound: "verifyEntry p a es i = None \<Longrightarrow> entryBound p a (es ! i)"
  by (rule ccontr) (simp add: verifyEntry_def Let_def)

lemma verifyJournalBinding_ready:
  assumes "verifyJournalBinding p a es = None"
  shows "ready p a es" "validateJournalEntries es = None" "\<forall>i < length es. verifyEntry p a es i = None"
proof -
  have parts: "validateJournalEntries es = None" "\<forall>i < length es. verifyEntry p a es i = None"
    using assms by (auto simp: verifyJournalBinding_def guards split: option.splits)
  have "entryBound p a e" if e: "e \<in> set es" for e
  proof -
    obtain i where "i < length es" "es ! i = e" using e by (auto simp: in_set_conv_nth)
    with parts(2) verifyEntry_bound show ?thesis by blast
  qed
  with parts show "ready p a es" "validateJournalEntries es = None" "\<forall>i < length es. verifyEntry p a es i = None"
    by (auto simp: ready_def validateJournalEntries_None)
qed

lemma ready_steps:
  assumes "ready p a es" and "\<not> rollbackStarted es"
  shows "map JE_Step es = take (length es) ApplySteps" "length es \<le> 13" "1 \<le> length es"
  using journal_path_started [OF chain_path, of es] assms by (auto simp: ready_def Suc_le_eq)

lemma ready_snoc: "ready p a es \<Longrightarrow> entryExtends es e \<Longrightarrow> entryBound p a e \<Longrightarrow> ready p a (es @ [e])"
  by (auto simp: ready_def validateChain_snoc)

lemma rollbackStarted_snoc:
  "k < 12 \<Longrightarrow> JE_Step e = ApplySteps ! k \<Longrightarrow> rollbackStarted (es @ [e]) \<longleftrightarrow> rollbackStarted es"
  using ApplySteps_plain [of k] by (auto simp: rollbackStarted_def)

lemma take_all_justified:
  "apply_request p a es q \<or> rollback_request p a es q \<Longrightarrow> call_justified es q"
  unfolding call_justified_def by (intro exI [of _ p] exI [of _ a] exI [of _ "length es"]) simp

lemma ApplySteps_0_1: "ApplySteps ! 0 = ''approval-consumed''" "ApplySteps ! Suc 0 = ''mutation-started''"
  by (simp_all add: ApplySteps_def)

lemma ApplySteps_later: "2 \<le> k \<Longrightarrow> k < 13 \<Longrightarrow> ApplySteps ! k \<noteq> ''mutation-started''"
  using nth_eq_iff_index_eq [OF ApplySteps_distinct, of k 1] by (auto simp: ApplySteps_0_1)

lemma step_recorded:
  assumes "ready p a es" "\<not> rollbackStarted es" "length es < 12" "journal_append env e w = (None, w')" "holds w es"
    "JE_Step e = ApplySteps ! length es" "entryBound p a e"
  shows "holds w' (es @ [e]) \<and> ready p a (es @ [e]) \<and> \<not> rollbackStarted (es @ [e])"
  using journal_append_None [OF assms(4,5)] assms rollbackStarted_snoc [of "length es" e es]
  by (simp add: ready_snoc)

lemma mutationStep_advance:
  assumes "holds w es" "ready p a es" "\<not> rollbackStarted es" "length es < 12" "ApplySteps ! length es = ''mutation-started''"
    and step: "applyStep env p a adapter es w = (res, w')"
  shows "advance w w' \<and> (\<forall>e. res = Inr e \<longrightarrow> holds w' (es @ [e]) \<and> ready p a (es @ [e]) \<and> \<not> rollbackStarted (es @ [e]))"
proof -
  let ?previous = "JE_EntrySHA256 (last es)"
  obtain requestSHA responseSHA where digests: "mutationStartedDigests p ?previous = (requestSHA, responseSHA)"
    by (cases "mutationStartedDigests p ?previous")
  obtain now w1 where clock: "read_clock env w = (now, w1)" by (cases "read_clock env w")
  let ?e = "newJournalEntry now (length es + 1) p a (ApplySteps ! length es) requestSHA responseSHA ?previous None"
  obtain err w2 where append: "journal_append env ?e w1 = (err, w2)" by (cases "journal_append env ?e w1")
  have "holds w1 es" "advance w w1"
    using assms(1) read_clock_world [OF clock] advance_same by (auto simp: holds_def)
  with journal_append_advance [OF append] have "advance w w2" by (blast intro: advance_trans)
  with step_recorded [OF assms(2-4), of env ?e w1 w2] append step assms(5) digests clock \<open>holds w1 es\<close> show ?thesis
    by (auto simp: applyStep_def Let_def split: option.splits)
qed

lemma adapterStep_advance:
  assumes "holds w es" "ready p a es" "\<not> rollbackStarted es" "length es < 12" "ApplySteps ! length es \<noteq> ''mutation-started''"
    and step: "applyStep env p a adapter es w = (res, w')"
  shows "advance w w' \<and> (\<forall>e. res = Inr e \<longrightarrow> holds w' (es @ [e]) \<and> ready p a (es @ [e]) \<and> \<not> rollbackStarted (es @ [e]))"
proof -
  let ?step = "ApplySteps ! length es" and ?previous = "JE_EntrySHA256 (last es)"
  note steps = ready_steps [OF assms(2,3)]
  let ?q = "newAdapterRequest p (Some a) ''apply'' ?step ?previous"
  obtain result w1 where call: "invoke adapter ?q w = (result, w1)" by (cases "invoke adapter ?q w")
  have "2 \<le> length es" using assms(5) steps(3) by (cases "length es = 1") (auto simp: ApplySteps_0_1)
  then have "apply_request p a es ?q"
    using assms(2,4) steps by (auto simp: apply_request_def ready_def)
  then have adv: "advance w w1"
    using assms(1,3) by (intro invoke_advance [OF call]) (auto intro: take_all_justified)
  have "holds w1 es" using assms(1) invoke_world(1) [OF call] by (simp add: holds_def)
  show ?thesis
  proof (cases "stepResult p ?step result")
    case (Inl err)
    with step assms(5) call adv show ?thesis by (auto simp: applyStep_def Let_def)
  next
    case (Inr r)
    obtain now w2 where clock: "read_clock env w1 = (now, w2)" by (cases "read_clock env w1")
    let ?e = "newJournalEntry now (length es + 1) p a ?step (Rq_RequestSHA256 ?q) (Rs_ResponseSHA256 r) ?previous (Some r)"
    obtain err w3 where append: "journal_append env ?e w2 = (err, w3)" by (cases "journal_append env ?e w2")
    have "holds w2 es" "advance w1 w2"
      using \<open>holds w1 es\<close> read_clock_world [OF clock] advance_same by (auto simp: holds_def)
    with adv journal_append_advance [OF append] have "advance w w3" by (blast intro: advance_trans)
    with step_recorded [OF assms(2-4), of env ?e w2 w3] append step assms(5) call Inr clock \<open>holds w2 es\<close>
    show ?thesis by (auto simp: applyStep_def Let_def split: option.splits)
  qed
qed

lemma applyStep_advance:
  assumes "holds w es" "ready p a es" "\<not> rollbackStarted es" "length es < 12"
    and step: "applyStep env p a adapter es w = (res, w')"
  shows "advance w w'" "res = Inr e \<Longrightarrow> holds w' (es @ [e]) \<and> ready p a (es @ [e]) \<and> \<not> rollbackStarted (es @ [e])"
  using mutationStep_advance [OF assms(1-4) _ step] adapterStep_advance [OF assms(1-4) _ step] by blast+

lemma applyLoop_advance:
  assumes "holds w es" "ready p a es" "\<not> rollbackStarted es" "applyLoop env p a adapter es w = (res, w')"
  shows "advance w w' \<and> (\<forall>es'. res = Inr es' \<longrightarrow> holds w' es' \<and> ready p a es' \<and> \<not> rollbackStarted es' \<and> 12 \<le> length es')"
  using assms
proof (induction env p a adapter es w arbitrary: res w' rule: applyLoop.induct)
  case (1 env p a adapter es w)
  show ?case
  proof (cases "length es < 12")
    case False
    with 1 show ?thesis by (subst (asm) applyLoop.simps) auto
  next
    case True
    obtain outcome w1 where step: "applyStep env p a adapter es w = (outcome, w1)"
      by (cases "applyStep env p a adapter es w")
    note one = applyStep_advance [OF 1(2,3,4) True step]
    show ?thesis
    proof (cases outcome)
      case (Inl err)
      with 1(5) True step one(1) show ?thesis by (subst (asm) applyLoop.simps) auto
    next
      case (Inr e)
      then have "applyLoop env p a adapter (es @ [e]) w1 = (res, w')"
        using 1(5) True step by (subst (asm) applyLoop.simps) auto
      with 1(1) [OF _ step [symmetric] Inr] one(2) [OF Inr] True
      have "advance w1 w' \<and> (\<forall>es'. res = Inr es' \<longrightarrow> holds w' es' \<and> ready p a es' \<and> \<not> rollbackStarted es' \<and> 12 \<le> length es')"
        by simp
      with one(1) show ?thesis by (blast intro: advance_trans)
    qed
  qed
qed

lemma issueReceipt_world:
  "issueReceipt env p a w = (res, w') \<Longrightarrow> W_Journal w' = W_Journal w \<and> W_Calls w' = W_Calls w"
  using journal_load_world [of env w]
  by (auto simp: issueReceipt_def Let_def split: prod.splits sum.splits if_splits option.splits)

lemma finishApply_advance:
  assumes "finishApply env p a es w = (res, w')"
  shows "advance w w'"
proof -
  define i where "i = (if JE_Step (es ! (length es - 1)) = ''completed'' then length es - 2 else length es - 1)"
  consider "recordedProof p (es ! i) = None"
    | evidence where "recordedProof p (es ! i) = Some evidence" "length es \<noteq> 12"
    | evidence where "recordedProof p (es ! i) = Some evidence" "length es = 12"
    by (cases "recordedProof p (es ! i)") auto
  then show ?thesis
  proof cases
    case 1
    with assms show ?thesis by (simp add: finishApply_def i_def Let_def)
  next
    case 2
    then have "issueReceipt env p a w = (res, w')" using assms by (simp add: finishApply_def i_def Let_def)
    from issueReceipt_world [OF this] show ?thesis by (intro advance_same) simp_all
  next
    case 3
    obtain rq rs where digests: "completedDigests (Rs_ResponseSHA256 evidence) = (rq, rs)"
      by (cases "completedDigests (Rs_ResponseSHA256 evidence)")
    obtain now w1 where clock: "read_clock env w = (now, w1)" by (cases "read_clock env w")
    let ?e = "newJournalEntry now (length es + 1) p a ''completed'' rq rs (JE_EntrySHA256 (last es)) None"
    obtain err w2 where append: "journal_append env ?e w1 = (err, w2)" by (cases "journal_append env ?e w1")
    have adv: "advance w w2"
      using advance_same read_clock_world [OF clock] journal_append_advance [OF append] by (blast intro: advance_trans)
    have "w' = w2 \<or> issueReceipt env p a w2 = (res, w')"
      using assms 3 digests clock append by (auto simp: finishApply_def i_def Let_def split: option.splits)
    with adv issueReceipt_world [of env p a w2] advance_same show ?thesis by (blast intro: advance_trans)
  qed
qed

lemma runApply_advance:
  assumes "runApply env p a adapter w = (res, w')"
  shows "advance w w'"
proof -
  obtain loaded w1 where load: "journal_load env w = (loaded, w1)" by (cases "journal_load env w")
  have adv: "advance w w1" using journal_load_world [OF load] by (intro advance_same) simp_all
  show ?thesis
  proof (cases loaded)
    case (Inl err)
    with assms load adv show ?thesis by (simp add: runApply_def)
  next
    case (Inr es)
    show ?thesis
    proof (cases "verifyJournalBinding p a es = None \<and> \<not> rollbackStarted es")
      case False
      with assms load adv Inr show ?thesis by (auto simp: runApply_def split: if_splits)
    next
      case True
      obtain outcome w2 where loop: "applyLoop env p a adapter es w1 = (outcome, w2)"
        by (cases "applyLoop env p a adapter es w1")
      have "advance w1 w2"
        using applyLoop_advance [OF journal_load_Inr(2) [OF load [unfolded Inr]] _ _ loop]
          verifyJournalBinding_ready(1) True by blast
      moreover have "w' = w2 \<or> (\<exists>es'. finishApply env p a es' w2 = (res, w'))"
        using assms load Inr True loop by (cases outcome) (auto simp: runApply_def)
      ultimately show ?thesis using adv finishApply_advance by (blast intro: advance_trans)
    qed
  qed
qed

lemma CreateJournal_advance:
  assumes "CreateJournal env e w = (res, w')" and "W_Journal w = None"
  shows "advance w w'"
proof -
  have chain: "validateChain [] [e]" if "validateJournalEntry e None = None" "JE_Step e = ApplySteps ! 0"
    using that by (simp add: entryExtends_def last_entry_def validTransition_def)
  obtain f w1 where access: "access env w = (f, w1)" by (cases "access env w")
  have "W_Calls w' = W_Calls w" "W_Journal w' = None \<or> (W_Journal w' = Some \<lparr>JF_Entries = [e], JF_Torn = False\<rparr> \<and>
      validateJournalEntry e None = None \<and> JE_Step e = ApplySteps ! 0)"
    using assms access access_world [OF access]
    by (auto simp: CreateJournal_def Let_def split: if_splits option.splits fault.splits)
  with assms(2) chain show ?thesis by (auto simp: advance_def entries_def journal_ok_def)
qed

lemma Apply_advance:
  assumes "Apply env p a confirmation adapter w = (res, w')"
  shows "advance w w'"
proof -
  obtain now w1 where clock: "read_clock env w = (now, w1)" by (cases "read_clock env w")
  obtain f w2 where access: "access env w1 = (f, w2)" by (cases "access env w1")
  obtain rq rs where digests: "approvalConsumedDigests p a = (rq, rs)" by (cases "approvalConsumedDigests p a")
  obtain now' w3 where clock': "read_clock env w2 = (now', w3)" by (cases "read_clock env w2")
  let ?e = "newJournalEntry now' 1 p a (ApplySteps ! 0) rq rs [] None"
  obtain err w4 where create: "CreateJournal env ?e w3 = (err, w4)" by (cases "CreateJournal env ?e w3")
  obtain err' w5 where opened: "openJournalTransaction env w4 = (err', w5)" by (cases "openJournalTransaction env w4")
  have 1: "advance w w1" using read_clock_world [OF clock] by (intro advance_same) simp_all
  have 2: "advance w1 w2" using access_world [OF access] by (intro advance_same) simp_all
  have 3: "advance w2 w3" using read_clock_world [OF clock'] by (intro advance_same) simp_all
  have 5: "advance w4 w5" using open_world [OF opened] by (intro advance_same) simp_all
  have "w' = w1 \<or> w' = w2 \<or> W_Journal w3 = None \<and> (w' = w4 \<or> w' = w5 \<or> runApply env p a adapter w5 = (res, w'))"
    using assms clock access digests clock' create opened read_clock_world [OF clock']
    by (auto simp: Apply_def Let_def split: option.splits if_splits)
  moreover have "advance w w4" if "W_Journal w3 = None"
    using advance_trans [OF advance_trans [OF advance_trans [OF 1 2] 3] CreateJournal_advance [OF create that]] .
  ultimately show ?thesis
    using 1 advance_trans [OF 1 2] advance_trans [OF _ 5] advance_trans [OF _ runApply_advance] by blast
qed

lemma openBound_world:
  assumes "openBound env p a u w = (res, w')"
  shows "W_Journal w' = W_Journal w \<and> W_Calls w' = W_Calls w"
proof -
  obtain err w1 where opened: "openJournalTransaction env w = (err, w1)" by (cases "openJournalTransaction env w")
  obtain loaded w2 where load: "journal_load env w1 = (loaded, w2)" by (cases "journal_load env w1")
  have "w' = w1 \<or> w' = w2"
    using assms opened load by (auto simp: openBound_def split: option.splits sum.splits)
  with open_world [OF opened] journal_load_world [OF load] show ?thesis by auto
qed

lemma openBound_Inr:
  assumes "openBound env p a u w = (Inr es, w')"
  shows "holds w es" "holds w' es" "verifyJournalBinding p a es = None"
proof -
  obtain err w1 where opened: "openJournalTransaction env w = (err, w1)" by (cases "openJournalTransaction env w")
  obtain loaded w2 where load: "journal_load env w1 = (loaded, w2)" by (cases "journal_load env w1")
  have "loaded = Inr es" "verifyJournalBinding p a es = None"
    using assms opened load by (auto simp: openBound_def split: option.splits sum.splits)
  with journal_load_Inr(1) load openBound_world [OF assms] open_world [OF opened]
  show "holds w es" "holds w' es" "verifyJournalBinding p a es = None"
    by (auto simp: holds_def)
qed

lemma Recover_advance:
  assumes "Recover env p a confirmation adapter w = (res, w')"
  shows "advance w w'"
proof -
  obtain now w1 where clock: "read_clock env w = (now, w1)" by (cases "read_clock env w")
  obtain out w2 where opened: "openBound env p a ''backup drill recovery journal is unavailable'' w1 = (out, w2)"
    by (cases "openBound env p a ''backup drill recovery journal is unavailable'' w1")
  have 1: "advance w w1" using read_clock_world [OF clock] by (intro advance_same) simp_all
  have 2: "advance w1 w2" using openBound_world [OF opened] by (intro advance_same) simp_all
  have "w' = w1 \<or> w' = w2 \<or> runApply env p a adapter w2 = (res, w')"
    using assms clock opened by (auto simp: Recover_def Let_def split: option.splits sum.splits if_splits)
  with 1 2 runApply_advance show ?thesis by (blast intro: advance_trans)
qed

lemma appendRollbackTerminal_advance:
  assumes "appendRollbackTerminal env p a es step w = (res, w')"
  shows "advance w w'"
proof -
  obtain rq rs where digests: "rollbackTerminalDigests step (JE_EntrySHA256 (last es)) (JE_ResponseSHA256 (last es)) = (rq, rs)"
    by (cases "rollbackTerminalDigests step (JE_EntrySHA256 (last es)) (JE_ResponseSHA256 (last es))")
  obtain now w1 where clock: "read_clock env w = (now, w1)" by (cases "read_clock env w")
  let ?e = "newJournalEntry now (length es + 1) p a step rq rs (JE_EntrySHA256 (last es)) None"
  obtain err w2 where append: "journal_append env ?e w1 = (err, w2)" by (cases "journal_append env ?e w1")
  have "w' = w2"
    using assms digests clock append by (auto simp: appendRollbackTerminal_def Let_def split: option.splits if_splits)
  with read_clock_world [OF clock] journal_append_advance [OF append] advance_same show ?thesis
    by (blast intro: advance_trans)
qed

lemma ValidateAdapterResponse_binding:
  "ValidateAdapterResponse q r = None \<Longrightarrow> validateAdapterResponseBinding q r = None"
  by (cases "validateAdapterResponseBinding q r") (simp_all add: ValidateAdapterResponse_def)

lemma binding_fields:
  "validateAdapterResponseBinding q r = None \<longleftrightarrow>
     Rq_RequestSHA256 q = AdapterRequestSHA256 q \<and> Rs_SchemaVersion r = AdapterResponseVersion \<and>
     Rs_ProtocolVersion r = AdapterProtocolVersion \<and> Rs_OperationID r = Rq_OperationID q \<and> Rs_Step r = Rq_Step q \<and>
     Rs_RequestSHA256 r = Rq_RequestSHA256 q \<and> Rs_AdapterExecutableSHA256 r = Rq_AdapterExecutableSHA256 q \<and>
     validEvidence (Ev_Ref (Rs_Evidence r)) (Ev_SHA256 (Rs_Evidence r)) \<and> Rs_ResponseSHA256 r = AdapterResponseSHA256 r"
  by (simp add: validateAdapterResponseBinding_def)

lemma invoke_Answered:
  assumes "invoke adapter q w = (Answered r, w')"
  shows "ValidateAdapterResponse q r = None"
proof -
  obtain ad where "judgeRun ad q (Ad_Run ad (W_Calls w) q) = Answered r"
    using assms by (auto simp: invoke_def split: option.splits if_splits)
  then show ?thesis
    unfolding judgeRun_def by (auto split: option.splits if_splits)
qed

lemma recordedResponse_Answered:
  assumes "ValidateAdapterResponse q r = None"
  shows "recordedResponse q failure (Answered r) = (Rs_ResponseSHA256 r, Some r)"
proof -
  have "validateAdapterResponseBinding q r = None" using assms by (rule ValidateAdapterResponse_binding)
  moreover from this have "validSHA (Rs_ResponseSHA256 r)" by (simp add: binding_fields AdapterResponseSHA256_def)
  ultimately show ?thesis by (simp add: recordedResponse_def)
qed

lemma rollbackEntry_advance:
  assumes "holds w es" "rollback_request p a es (newRollbackRequest p a step (JE_EntrySHA256 (last es)))"
    and step: "step = ''rollback-safe-stop'' \<or> step = ''rollback-cleanup-requested''"
    and entry: "rollbackEntry env p a adapter es step failure w = ((result, e, err), w')"
  shows "advance w w'"
    "err = None \<Longrightarrow> holds w' (es @ [e]) \<and> entryExtends es e \<and> entryBound p a e \<and> JE_Step e = step"
    "result = Answered r \<Longrightarrow> rollbackResponseSucceeded p a (es @ [e]) (length es)"
proof -
  let ?q = "newRollbackRequest p a step (JE_EntrySHA256 (last es))"
  obtain result' w1 where call: "invoke adapter ?q w = (result', w1)" by (cases "invoke adapter ?q w")
  obtain rs response where recorded: "recordedResponse ?q failure result' = (rs, response)"
    by (cases "recordedResponse ?q failure result'")
  obtain now w2 where clock: "read_clock env w1 = (now, w2)" by (cases "read_clock env w1")
  let ?e = "newJournalEntry now (length es + 1) p a step (Rq_RequestSHA256 ?q) rs (JE_EntrySHA256 (last es)) response"
  obtain err' w3 where append: "journal_append env ?e w2 = (err', w3)" by (cases "journal_append env ?e w2")
  have eqs: "result' = result" "?e = e" "err' = err" "w3 = w'"
    using entry call recorded clock append by (auto simp: rollbackEntry_def Let_def)
  have "advance w w1"
    using assms(1,2) by (intro invoke_advance [OF call]) (auto intro: take_all_justified)
  moreover have "holds w2 es" "advance w1 w2"
    using assms(1) invoke_world(1) [OF call] read_clock_world [OF clock] advance_same by (auto simp: holds_def)
  ultimately show "advance w w'"
    using journal_append_advance [OF append] eqs by (blast intro: advance_trans)
  show "holds w' (es @ [e]) \<and> entryExtends es e \<and> entryBound p a e \<and> JE_Step e = step" if "err = None"
    using journal_append_None [OF append [unfolded eqs that] \<open>holds w2 es\<close>] eqs(2) by auto
  show "rollbackResponseSucceeded p a (es @ [e]) (length es)" if "result = Answered r"
  proof -
    have valid: "ValidateAdapterResponse ?q r = None" using invoke_Answered call eqs that by blast
    have "JE_Response e = Some r" "JE_Step e = step" "JE_RequestSHA256 e = Rq_RequestSHA256 ?q"
      using recordedResponse_Answered [OF valid] recorded eqs that by auto
    moreover have "es \<noteq> []" using assms(2) by (simp add: rollback_request_def)
    then have "(es @ [e]) ! (length es - 1) = last es" "1 \<le> length es"
      by (simp_all add: nth_append last_conv_nth Suc_le_eq)
    ultimately show ?thesis using valid step by (auto simp: rollbackResponseSucceeded_def Let_def)
  qed
qed

lemma continueRollbackCleanup_advance:
  assumes "holds w es" "ready p a es" "JE_Step (last es) = ''rollback-safe-stop''"
    "rollbackResponseSucceeded p a es (length es - 1)"
    and cleanup: "continueRollbackCleanup env p a adapter es w = (res, w')"
  shows "advance w w'"
proof -
  obtain result e err w1 where entry:
    "rollbackEntry env p a adapter es ''rollback-cleanup-requested'' ''adapter-execution-failed'' w = ((result, e, err), w1)"
    by (cases "rollbackEntry env p a adapter es ''rollback-cleanup-requested'' ''adapter-execution-failed'' w") auto
  have "rollback_request p a es (newRollbackRequest p a ''rollback-cleanup-requested'' (JE_EntrySHA256 (last es)))"
    using assms by (auto simp: rollback_request_def ready_def)
  from rollbackEntry_advance(1) [OF assms(1) this disjI2 [OF refl] entry]
  have "advance w w1" .
  moreover have "w' = w1 \<or> (\<exists>es' step. appendRollbackTerminal env p a es' step w1 = (res, w'))"
    using cleanup entry by (auto simp: continueRollbackCleanup_def split: option.splits)
  ultimately show ?thesis using appendRollbackTerminal_advance by (blast intro: advance_trans)
qed

lemma safe_stop_request:
  assumes "ready p a es" and "JE_Step (last es) \<notin> {''completed'', ''rolled-back'', ''rollback-failed'',
    ''rollback-safe-stop'', ''rollback-cleanup-requested''}"
  shows "rollback_request p a es (newRollbackRequest p a ''rollback-safe-stop'' (JE_EntrySHA256 (last es)))"
proof -
  have es: "es \<noteq> []" using assms(1) by (simp add: ready_def)
  have path: "journal_path (map JE_Step es)" using assms(1) by (intro chain_path) (simp_all add: ready_def)
  have last: "last (map JE_Step es) = JE_Step (last es)" using es by (simp add: last_map)
  consider k where "1 \<le> k" "k \<le> 13" "map JE_Step es = take k ApplySteps"
    | k t where "t \<in> set rollback_tails" "map JE_Step es = take k ApplySteps @ t"
    using path unfolding journal_path_def by blast
  then show ?thesis
  proof cases
    case 1
    have "length (map JE_Step es) = k" using 1 by (simp only: length_take ApplySteps_length)
    then have "length es = k" by simp
    moreover have "k \<noteq> 13" using 1 last_take_ApplySteps [of k] last assms(2) ApplySteps_12 by auto
    ultimately show ?thesis using 1 es assms(1) by (auto simp: rollback_request_def ready_def)
  next
    case 2
    then have "last (map JE_Step es) = last t" by (auto simp: rollback_tails_def)
    with 2(1) last assms(2) show ?thesis by (auto simp: rollback_tails_def)
  qed
qed

text \<open>The branches of a rollback.\<close>

lemma rollbackFrom_cases:
  assumes "rollbackFrom env p a adapter es w = (res, w')"
  obtains (over) "JE_Step (last es) \<in> {''completed'', ''rollback-failed''}" "res \<noteq> None" "w' = w"
  | (finished) "JE_Step (last es) = ''rolled-back''" "res = None" "w' = w"
  | (failed) "appendRollbackTerminal env p a es ''rollback-failed'' w = (res, w')"
  | (terminal) "JE_Step (last es) = ''rollback-cleanup-requested''" "rollbackResponseSucceeded p a es (length es - 1)"
      "appendRollbackTerminal env p a es ''rolled-back'' w = (res, w')"
  | (cleanup) "JE_Step (last es) = ''rollback-safe-stop''" "rollbackResponseSucceeded p a es (length es - 1)"
      "continueRollbackCleanup env p a adapter es w = (res, w')"
  | (stop) result e err w1 where "JE_Step (last es) \<notin> {''completed'', ''rolled-back'', ''rollback-failed'',
        ''rollback-safe-stop'', ''rollback-cleanup-requested''}"
      "rollbackEntry env p a adapter es ''rollback-safe-stop'' ''safe-stop-failed'' w = ((result, e, err), w1)"
      "err \<noteq> None \<and> res \<noteq> None \<and> w' = w1 \<or>
       err = None \<and> appendRollbackTerminal env p a (es @ [e]) ''rollback-failed'' w1 = (res, w') \<or>
       err = None \<and> (\<exists>r. result = Answered r) \<and> continueRollbackCleanup env p a adapter (es @ [e]) w1 = (res, w')"
proof -
  let ?step = "JE_Step (last es)"
  obtain result e err w1 where entry:
    "rollbackEntry env p a adapter es ''rollback-safe-stop'' ''safe-stop-failed'' w = ((result, e, err), w1)"
    by (cases "rollbackEntry env p a adapter es ''rollback-safe-stop'' ''safe-stop-failed'' w") auto
  consider "?step = ''completed''" | "?step = ''rolled-back''" | "?step = ''rollback-failed''"
    | "?step = ''rollback-safe-stop''" | "?step = ''rollback-cleanup-requested''"
    | "?step \<notin> {''completed'', ''rolled-back'', ''rollback-failed'', ''rollback-safe-stop'', ''rollback-cleanup-requested''}"
    by blast
  then show thesis
  proof cases
    case 1
    with assms over show thesis by (auto simp: rollbackFrom_def)
  next
    case 2
    with assms finished show thesis by (auto simp: rollbackFrom_def)
  next
    case 3
    with assms over show thesis by (auto simp: rollbackFrom_def)
  next
    case 4
    with assms failed cleanup show thesis by (auto simp: rollbackFrom_def split: if_splits)
  next
    case 5
    with assms failed terminal show thesis by (auto simp: rollbackFrom_def split: if_splits)
  next
    case 6
    then have "(case ((result, e, err), w1) of
           ((result, e, Some _), w) \<Rightarrow> (Some ''record backup drill rollback safe-stop'', w)
         | ((Failed _ _, e, None), w) \<Rightarrow> appendRollbackTerminal env p a (es @ [e]) ''rollback-failed'' w
         | ((Answered _, e, None), w) \<Rightarrow> continueRollbackCleanup env p a adapter (es @ [e]) w) = (res, w')"
      using assms entry by (simp add: rollbackFrom_def)
    then show thesis
      by (intro stop [OF 6 entry]) (cases err; cases result; auto)
  qed
qed

lemma rollbackFrom_advance:
  assumes "rollbackFrom env p a adapter es w = (res, w')" and "holds w es" and "ready p a es"
  shows "advance w w'"
  using assms(1)
proof (cases rule: rollbackFrom_cases)
  case cleanup
  with continueRollbackCleanup_advance [OF assms(2,3)] show ?thesis by blast
next
  case (stop result e err w1)
  note stopped = rollbackEntry_advance [OF assms(2) safe_stop_request [OF assms(3) stop(1)] disjI1 [OF refl] stop(2)]
  have "advance w1 w'" if "err = None" "result = Answered r" "continueRollbackCleanup env p a adapter (es @ [e]) w1 = (res, w')" for r
    using stopped(2) [OF that(1)] stopped(3) [OF that(2)] assms(3) ready_snoc
    by (intro continueRollbackCleanup_advance [OF _ _ _ _ that(3)]) auto
  with stop(3) stopped(1) appendRollbackTerminal_advance advance_refl show ?thesis by (blast intro: advance_trans)
qed (auto intro: appendRollbackTerminal_advance)

lemma Rollback_advance:
  assumes "Rollback env p a confirmation adapter w = (res, w')"
  shows "advance w w'"
proof -
  obtain now w1 where clock: "read_clock env w = (now, w1)" by (cases "read_clock env w")
  obtain out w2 where opened: "openBound env p a ''backup drill rollback journal is unavailable'' w1 = (out, w2)"
    by (cases "openBound env p a ''backup drill rollback journal is unavailable'' w1")
  have 1: "advance w w1" using read_clock_world [OF clock] by (intro advance_same) simp_all
  have 2: "advance w w2" using openBound_world [OF opened] by (intro advance_trans [OF 1] advance_same) simp_all
  have "w' = w1 \<or> w' = w2 \<or> (\<exists>es. out = Inr es \<and> rollbackFrom env p a adapter es w2 = (res, w'))"
    using assms clock opened by (cases out) (auto simp: Rollback_def Let_def split: option.splits)
  moreover have "advance w2 w'" if "out = Inr es" "rollbackFrom env p a adapter es w2 = (res, w')" for es
    using rollbackFrom_advance [OF that(2)] openBound_Inr [OF opened [unfolded that(1)]]
      verifyJournalBinding_ready(1) by blast
  ultimately show ?thesis using 1 2 by (blast intro: advance_trans)
qed

end
