(* ===== verification/Drill_Outcomes.thy ===== *)
theory Drill_Outcomes
  imports Drill_Runs
begin

text \<open>
  What the outcomes of the operations mean: what a receipt and a finished rollback
  say about the journal and the adapter's answers.
\<close>

subsection \<open>Sequences of operations\<close>

datatype DrillOp =
    OpApply Plan ApprovalReport string "Adapter option"
  | OpRecover Plan ApprovalReport string "Adapter option"
  | OpRollback Plan ApprovalReport string "Adapter option"

fun run_op :: "Environment \<Rightarrow> DrillOp \<Rightarrow> World \<Rightarrow> World" where
  "run_op env (OpApply p a c ad) w = snd (Apply env p a c ad w)"
| "run_op env (OpRecover p a c ad) w = snd (Recover env p a c ad w)"
| "run_op env (OpRollback p a c ad) w = snd (Rollback env p a c ad w)"

definition run_ops :: "Environment \<Rightarrow> DrillOp list \<Rightarrow> World \<Rightarrow> World" where
  "run_ops env ops w = fold (run_op env) ops w"

definition initial_world :: World where
  "initial_world = \<lparr>W_Journal = None, W_Calls = [], W_Tick = 0, W_Io = 0\<rparr>"

lemma run_op_advance: "advance w (run_op env op w)"
  by (cases op) (auto intro: Apply_advance Recover_advance Rollback_advance simp: prod_eq_iff)

interpretation drill: progress "run_op env" advance
  by unfold_locales (auto intro: advance_trans run_op_advance)

lemma run_ops_advance: "advance w (run_ops env ops w)"
  unfolding run_ops_def by (rule drill.run_le)

subsection \<open>Recorded responses\<close>

lemma has_prefix_rollback [simp]:
  "has_prefix ''rollback-'' ''rollback-safe-stop''" "has_prefix ''rollback-'' ''rollback-cleanup-requested''"
  by (simp_all add: has_prefix_def)

lemma verifyAdapterEntry_response:
  assumes "verifyAdapterEntry p a es i = None"
    and "\<not> (i + 1 < length es \<and> JE_Step (es ! (i + 1)) = ''rollback-failed'')"
    and "\<not> (i + 1 = length es \<and> has_prefix ''rollback-'' (JE_Step (es ! i)))"
  obtains r where "JE_Response (es ! i) = Some r" "JE_ResponseSHA256 (es ! i) = Rs_ResponseSHA256 r" "i \<noteq> 0"
    "JE_RequestSHA256 (es ! i) = Rq_RequestSHA256 (entryRequest p a (JE_Step (es ! i)) (JE_EntrySHA256 (es ! (i - 1))))"
    "ValidateAdapterResponse (entryRequest p a (JE_Step (es ! i)) (JE_EntrySHA256 (es ! (i - 1)))) r = None"
proof (cases "JE_Response (es ! i)")
  case None
  with assms show thesis unfolding verifyAdapterEntry_def Let_def by (simp split: if_splits)
next
  case (Some r)
  with assms show thesis unfolding verifyAdapterEntry_def Let_def by (intro that [of r]) (simp_all split: if_splits)
qed

lemma verifyEntry_adapter:
  assumes "verifyEntry p a es i = None"
    and "JE_Step (es ! i) \<notin> {''approval-consumed'', ''mutation-started'', ''completed'', ''rolled-back'', ''rollback-failed''}"
  shows "verifyAdapterEntry p a es i = None"
  using assms verifyEntry_bound [OF assms(1)] by (simp add: verifyEntry_def Let_def)

lemma ApplySteps_adapter:
  "2 \<le> k \<Longrightarrow> k \<le> 11 \<Longrightarrow> ApplySteps ! k \<notin> {''approval-consumed'', ''mutation-started'', ''completed'', ''rolled-back'', ''rollback-failed''}"
  using nth_eq_iff_index_eq [OF ApplySteps_distinct, of k 0] nth_eq_iff_index_eq [OF ApplySteps_distinct, of k 1]
    ApplySteps_plain [of k] by (auto simp: ApplySteps_0_1)

lemma nth_step: "map JE_Step es = ss \<Longrightarrow> i < length es \<Longrightarrow> JE_Step (es ! i) = ss ! i"
  by auto

text \<open>Every adapter step of a run that was not rolled back has a valid response to its request.\<close>

lemma recorded_step:
  assumes "verifyJournalBinding p a es = None" and "\<not> rollbackStarted es" and "2 \<le> k" "k \<le> 11" "k < length es"
  obtains r where "JE_Response (es ! k) = Some r"
    "ValidateAdapterResponse (newAdapterRequest p (Some a) ''apply'' (ApplySteps ! k) (JE_EntrySHA256 (es ! (k - 1)))) r = None"
proof -
  note verified = verifyJournalBinding_ready [OF assms(1)]
  note steps = ready_steps [OF verified(1) assms(2)]
  have step: "JE_Step (es ! i) = ApplySteps ! i" if "i < length es" for i
    using nth_step [OF steps(1) that] that steps(2) by simp
  have "verifyAdapterEntry p a es k = None"
    using verifyEntry_adapter verified(3) assms(3-5) step ApplySteps_adapter by metis
  moreover have "\<not> (k + 1 < length es \<and> JE_Step (es ! (k + 1)) = ''rollback-failed'')"
    using step [of "k + 1"] ApplySteps_plain(1) [of "k + 1"] assms(4) ApplySteps_12 by (cases "k = 11") auto
  moreover have "\<not> has_prefix ''rollback-'' (JE_Step (es ! k))"
    using step assms(4,5) ApplySteps_plain(2) [of k] by simp
  ultimately obtain r where "JE_Response (es ! k) = Some r"
    "ValidateAdapterResponse (entryRequest p a (JE_Step (es ! k)) (JE_EntrySHA256 (es ! (k - 1)))) r = None"
    by (elim verifyAdapterEntry_response) auto
  with that [of r] \<open>\<not> has_prefix ''rollback-'' (JE_Step (es ! k))\<close> step [OF assms(5)] show thesis
    by (simp add: entryRequest_def)
qed

text \<open>A rollback step that did not end the run succeeded.\<close>

lemma recorded_rollback:
  assumes "verifyJournalBinding p a es = None" and "i + 1 < length es"
    and "JE_Step (es ! i) \<in> {''rollback-safe-stop'', ''rollback-cleanup-requested''}"
    and "JE_Step (es ! (i + 1)) \<noteq> ''rollback-failed''"
  shows "rollbackResponseSucceeded p a es i"
proof -
  have "verifyEntry p a es i = None" using verifyJournalBinding_ready(3) [OF assms(1)] assms(2) by simp
  then have "verifyAdapterEntry p a es i = None"
    by (rule verifyEntry_adapter) (use assms(3) in auto)
  moreover have request: "entryRequest p a (JE_Step (es ! i)) v = newRollbackRequest p a (JE_Step (es ! i)) v" for v
    using assms(3) by (auto simp: entryRequest_def)
  ultimately obtain r where "JE_Response (es ! i) = Some r" "i \<noteq> 0"
    "JE_RequestSHA256 (es ! i) = Rq_RequestSHA256 (newRollbackRequest p a (JE_Step (es ! i)) (JE_EntrySHA256 (es ! (i - 1))))"
    "ValidateAdapterResponse (newRollbackRequest p a (JE_Step (es ! i)) (JE_EntrySHA256 (es ! (i - 1)))) r = None"
    using assms(2,4) by (elim verifyAdapterEntry_response) auto
  with assms(2,3) show ?thesis by (auto simp: rollbackResponseSucceeded_def Let_def)
qed

subsection \<open>Receipts\<close>

lemma ValidateReceipt_parts:
  assumes "ValidateReceipt p a r es = None"
  obtains evidence where "verifyJournalBinding p a es = None" "map JE_Step es = ApplySteps" "length es = 13"
    "JE_Response (es ! 11) = Some evidence" "receiptMatches p a r (es ! 12) evidence"
    "length (ER_Targets r) = length TargetKinds"
    "list_all targetProven (zip (zip TargetKinds (Pl_SourceBaselines p)) (ER_Targets r))"
    "validateApprovalBinding p a = None"
  using assms unfolding ValidateReceipt_def Let_def by (auto split: option.splits if_splits)

lemma issueReceipt_Inr:
  assumes "issueReceipt env p a w = (Inr r, w')"
  obtains es where "holds w es" "holds w' es" "ValidateReceipt p a r es = None" "length es = 13"
    "2 \<le> journal_size es" "journal_size es \<le> maxJournalBytes"
    "\<exists>evidence. recordedProof p (es ! 11) = Some evidence \<and> r = makeReceipt p a (es ! 12) evidence"
proof -
  obtain loaded w1 where load: "journal_load env w = (loaded, w1)" by (cases "journal_load env w")
  then obtain es where es: "loaded = Inr es" using assms by (cases loaded) (auto simp: issueReceipt_def)
  have parts: "w' = w1" "ValidateReceipt p a r es = None" "length es = 13"
    "\<exists>evidence. recordedProof p (es ! 11) = Some evidence \<and> r = makeReceipt p a (es ! 12) evidence"
    using assms load es by (auto simp: issueReceipt_def Let_def split: if_splits option.splits)
  with that journal_load_Inr [OF load [unfolded es]] show thesis by blast
qed

lemma finishApply_Inr:
  assumes "finishApply env p a es w = (Inr r, w')"
  obtains w1 where "issueReceipt env p a w1 = (Inr r, w')"
  using assms unfolding finishApply_def Let_def
  by (auto split: option.splits if_splits prod.splits)

lemma runApply_Inr:
  assumes "runApply env p a adapter w = (Inr r, w')"
  obtains w1 where "issueReceipt env p a w1 = (Inr r, w')"
  using assms that unfolding runApply_def
  by (auto split: option.splits if_splits prod.splits sum.splits elim!: finishApply_Inr)

lemma Apply_Inr:
  assumes "Apply env p a c adapter w = (Inr r, w')"
  obtains w1 now where "issueReceipt env p a w1 = (Inr r, w')" "validateExecutionInput p a c adapter now True = None"
  using assms that unfolding Apply_def Let_def
  by (auto split: option.splits if_splits prod.splits sum.splits elim!: runApply_Inr)

lemma Recover_Inr:
  assumes "Recover env p a c adapter w = (Inr r, w')"
  obtains w1 now where "issueReceipt env p a w1 = (Inr r, w')" "validateExecutionInput p a c adapter now False = None"
  using assms that unfolding Recover_def Let_def
  by (auto split: option.splits if_splits prod.splits sum.splits elim!: runApply_Inr)

lemma validateExecutionInput_parts:
  assumes "validateExecutionInput p a c adapter now fresh = None"
  shows "adapter \<noteq> None" "Adapter_IdentitySHA256 adapter = EI_ExecutableSHA256 (Pl_Adapter p)"
    "validateApprovalBinding p a = None" "c = AR_ApprovalTuple a"
proof -
  have "validateApprovalBinding p a = None" if "ValidateApproval p a now = None"
    using that by (cases "validateApprovalBinding p a") (auto simp: ValidateApproval_def)
  with assms show "adapter \<noteq> None" "Adapter_IdentitySHA256 adapter = EI_ExecutableSHA256 (Pl_Adapter p)"
    "validateApprovalBinding p a = None" "c = AR_ApprovalTuple a"
    by (auto simp: validateExecutionInput_def Let_def split: if_splits)
qed

text \<open>A run that gave a receipt, in one fact.\<close>

lemma receipt_cases:
  assumes "Apply env p a c adapter w = (Inr r, w') \<or> Recover env p a c adapter w = (Inr r, w')"
  obtains es now and fresh :: bool where "holds w' es" "ValidateReceipt p a r es = None" "length es = 13"
    "2 \<le> journal_size es" "journal_size es \<le> maxJournalBytes"
    "\<exists>evidence. recordedProof p (es ! 11) = Some evidence \<and> r = makeReceipt p a (es ! 12) evidence"
    "validateExecutionInput p a c adapter now fresh = None"
  using assms
proof
  assume "Apply env p a c adapter w = (Inr r, w')"
  then show thesis by (elim Apply_Inr issueReceipt_Inr) (rule that)
next
  assume "Recover env p a c adapter w = (Inr r, w')"
  then show thesis by (elim Recover_Inr issueReceipt_Inr) (rule that)
qed

subsection \<open>Finished rollbacks\<close>

definition rolled_back :: "Plan \<Rightarrow> ApprovalReport \<Rightarrow> JournalEntry list \<Rightarrow> bool" where
  "rolled_back p a es \<longleftrightarrow> (\<exists>k. 1 \<le> k \<and> k \<le> 12 \<and>
     map JE_Step es = take k ApplySteps @ [''rollback-safe-stop'', ''rollback-cleanup-requested'', ''rolled-back''] \<and>
     rollbackResponseSucceeded p a es k \<and> rollbackResponseSucceeded p a es (k + 1))"

lemma path_ending:
  assumes "journal_path (map JE_Step es)" and "JE_Step (last es) = s" and "es \<noteq> []"
    and "s \<in> {''rollback-safe-stop'', ''rollback-cleanup-requested'', ''rolled-back''}"
  obtains k where "1 \<le> k" "k \<le> 12" "map JE_Step es = take k ApplySteps @
    (if s = ''rollback-safe-stop'' then [''rollback-safe-stop'']
     else if s = ''rollback-cleanup-requested'' then [''rollback-safe-stop'', ''rollback-cleanup-requested'']
     else [''rollback-safe-stop'', ''rollback-cleanup-requested'', ''rolled-back''])"
proof -
  have last: "last (map JE_Step es) = s" using assms(2,3) by (simp add: last_map)
  consider k where "1 \<le> k" "k \<le> 13" "map JE_Step es = take k ApplySteps"
    | k t where "1 \<le> k" "k \<le> 12" "t \<in> set rollback_tails" "map JE_Step es = take k ApplySteps @ t"
    using assms(1) unfolding journal_path_def by blast
  then show thesis
  proof cases
    case 1
    then have "s = ApplySteps ! (k - 1)" using last last_take_ApplySteps by simp
    then show thesis using assms(4) ApplySteps_plain(1) [of "k - 1"] 1 ApplySteps_12 by (cases "k = 13") auto
  next
    case 2
    then have "last t = s" using last by (auto simp: rollback_tails_def)
    with 2(3) assms(4) have "t = (if s = ''rollback-safe-stop'' then [''rollback-safe-stop'']
     else if s = ''rollback-cleanup-requested'' then [''rollback-safe-stop'', ''rollback-cleanup-requested'']
     else [''rollback-safe-stop'', ''rollback-cleanup-requested'', ''rolled-back''])"
      unfolding rollback_tails_def by auto
    with 2 that show thesis by blast
  qed
qed

lemma rollbackResponseSucceeded_append:
  assumes "rollbackResponseSucceeded p a es i"
  shows "rollbackResponseSucceeded p a (es @ fs) i"
proof -
  have "1 \<le> i" "i < length es" using assms by (auto simp: rollbackResponseSucceeded_def split: if_splits)
  then have "(es @ fs) ! i = es ! i" "(es @ fs) ! (i - 1) = es ! (i - 1)" by (simp_all add: nth_append)
  moreover have "(i < 1 \<or> length es \<le> i) = False" "(i < 1 \<or> length (es @ fs) \<le> i) = False"
    using \<open>1 \<le> i\<close> \<open>i < length es\<close> by auto
  ultimately show ?thesis using assms unfolding rollbackResponseSucceeded_def by (simp only: if_False)
qed

lemma appendRollbackTerminal_None:
  assumes "appendRollbackTerminal env p a es step w = (None, w')" and "holds w es"
  obtains e where "holds w' (es @ [e])" "JE_Step e = step" "step \<noteq> ''rollback-failed''" "entryExtends es e"
proof -
  obtain rq rs where digests: "rollbackTerminalDigests step (JE_EntrySHA256 (last es)) (JE_ResponseSHA256 (last es)) = (rq, rs)"
    by (cases "rollbackTerminalDigests step (JE_EntrySHA256 (last es)) (JE_ResponseSHA256 (last es))")
  obtain now w1 where clock: "read_clock env w = (now, w1)" by (cases "read_clock env w")
  let ?e = "newJournalEntry now (length es + 1) p a step rq rs (JE_EntrySHA256 (last es)) None"
  obtain err w2 where append: "journal_append env ?e w1 = (err, w2)" by (cases "journal_append env ?e w1")
  have "err = None" "w' = w2" "step \<noteq> ''rollback-failed''"
    using assms(1) digests clock append by (auto simp: appendRollbackTerminal_def Let_def split: option.splits if_splits)
  moreover have "holds w1 es" using assms(2) read_clock_world [OF clock] by (simp add: holds_def)
  ultimately show thesis using that [of ?e] journal_append_None [OF append [unfolded \<open>err = None\<close>]] by simp
qed

text \<open>The last step of a rollback whose two adapter steps succeeded.\<close>

lemma terminal_rolled_back:
  assumes "appendRollbackTerminal env p a es step w = (None, w')" and "holds w es" and "ready p a es"
    and "step = ''rolled-back'' \<or> step = ''rollback-failed''"
    and "JE_Step (last es) = ''rollback-cleanup-requested''"
    and "rollbackResponseSucceeded p a es (length es - 2)" and "rollbackResponseSucceeded p a es (length es - 1)"
  shows "\<exists>es'. holds w' es' \<and> rolled_back p a es'"
proof -
  obtain e where e: "holds w' (es @ [e])" "JE_Step e = step" "step = ''rolled-back''"
    using appendRollbackTerminal_None [OF assms(1,2)] assms(4) by blast
  obtain k where k: "1 \<le> k" "k \<le> 12"
    "map JE_Step es = take k ApplySteps @ [''rollback-safe-stop'', ''rollback-cleanup-requested'']"
    using path_ending [OF chain_path assms(5)] assms(3) by (auto simp: ready_def)
  have "length (map JE_Step es) = k + 2" using k by (simp only: length_append length_take ApplySteps_length) simp
  then have "length es = k + 2" by simp
  with assms(6,7) rollbackResponseSucceeded_append e k show ?thesis
    by (intro exI [of _ "es @ [e]"]) (auto simp: rolled_back_def intro!: exI [of _ k])
qed

lemma continueRollbackCleanup_None:
  assumes "continueRollbackCleanup env p a adapter es w = (None, w')" and "holds w es" and "ready p a es"
    and "JE_Step (last es) = ''rollback-safe-stop''" and "rollbackResponseSucceeded p a es (length es - 1)"
  shows "\<exists>es'. holds w' es' \<and> rolled_back p a es'"
proof -
  obtain result e err w1 where entry:
    "rollbackEntry env p a adapter es ''rollback-cleanup-requested'' ''adapter-execution-failed'' w = ((result, e, err), w1)"
    by (cases "rollbackEntry env p a adapter es ''rollback-cleanup-requested'' ''adapter-execution-failed'' w") auto
  have "rollback_request p a es (newRollbackRequest p a ''rollback-cleanup-requested'' (JE_EntrySHA256 (last es)))"
    using assms by (auto simp: rollback_request_def ready_def)
  note requested = rollbackEntry_advance [OF assms(2) this disjI2 [OF refl] entry]
  let ?step = "case result of Answered _ \<Rightarrow> ''rolled-back'' | Failed _ _ \<Rightarrow> ''rollback-failed''"
  have err: "err = None" and terminal: "appendRollbackTerminal env p a (es @ [e]) ?step w1 = (None, w')"
    using assms(1) entry by (auto simp: continueRollbackCleanup_def split: option.splits)
  note e = requested(2) [OF err]
  have "?step \<noteq> ''rollback-failed''" using appendRollbackTerminal_None [OF terminal] e by blast
  then obtain r where r: "result = Answered r" by (cases result) auto
  show ?thesis
    using e ready_snoc [OF assms(3)] rollbackResponseSucceeded_append [OF assms(5)] requested(3) [OF r]
    by (intro terminal_rolled_back [OF terminal]) (auto split: InvokeResult.splits)
qed

lemma rollback_tail_recorded:
  assumes "verifyJournalBinding p a es = None" "k \<le> 12"
    and steps: "map JE_Step es = take k ApplySteps @ [''rollback-safe-stop'', ''rollback-cleanup-requested''] @ rest"
  shows "rest \<noteq> [''rollback-failed''] \<Longrightarrow> rollbackResponseSucceeded p a es k"
    "rest = [''rolled-back''] \<Longrightarrow> rollbackResponseSucceeded p a es (k + 1)" "length es = k + 2 + length rest"
proof -
  have "length (map JE_Step es) = k + 2 + length rest"
    unfolding steps using assms(2) by (simp only: length_append length_take ApplySteps_length) simp
  then show len: "length es = k + 2 + length rest" by simp
  have at: "JE_Step (es ! k) = ''rollback-safe-stop''" "JE_Step (es ! (k + 1)) = ''rollback-cleanup-requested''"
    using nth_step [OF steps] len assms(2) by (simp_all add: nth_append)
  show "rollbackResponseSucceeded p a es k"
    using at len by (intro recorded_rollback [OF assms(1)]) auto
  assume "rest = [''rolled-back'']"
  moreover from this have "JE_Step (es ! (k + 1 + 1)) = ''rolled-back''"
    using nth_step [OF steps, of "k + 2"] len assms(2) by (simp add: nth_append)
  ultimately show "rollbackResponseSucceeded p a es (k + 1)"
    using at len by (intro recorded_rollback [OF assms(1)]) auto
qed

lemma rollbackFrom_None:
  assumes "rollbackFrom env p a adapter es w = (None, w')" "holds w es" "verifyJournalBinding p a es = None"
  shows "\<exists>es. holds w' es \<and> rolled_back p a es"
proof -
  note ready = verifyJournalBinding_ready(1) [OF assms(3)]
  then have es: "es \<noteq> []" "journal_path (map JE_Step es)" by (auto simp: ready_def intro: chain_path)
  from assms(1) show ?thesis
  proof (cases rule: rollbackFrom_cases)
    case finished
    obtain k where k: "1 \<le> k" "k \<le> 12"
      "map JE_Step es = take k ApplySteps @ [''rollback-safe-stop'', ''rollback-cleanup-requested''] @ [''rolled-back'']"
      using path_ending [OF es(2) finished(1) es(1)] by auto
    note recorded = rollback_tail_recorded [OF assms(3) k(2,3)]
    with k assms(2) finished show ?thesis unfolding rolled_back_def by auto
  next
    case cleanup
    with continueRollbackCleanup_None assms(2) ready show ?thesis by blast
  next
    case failed
    then show ?thesis using appendRollbackTerminal_None [OF _ assms(2)] by blast
  next
    case terminal
    obtain k where k: "1 \<le> k" "k \<le> 12"
      "map JE_Step es = take k ApplySteps @ [''rollback-safe-stop'', ''rollback-cleanup-requested''] @ []"
      using path_ending [OF es(2) terminal(1) es(1)] by auto
    have "rollbackResponseSucceeded p a es (length es - 2)"
      using rollback_tail_recorded(1,3) [OF assms(3) k(2,3)] by simp
    with terminal terminal_rolled_back [OF terminal(3) assms(2) ready] show ?thesis by blast
  next
    case (stop result e err w3)
    note stopped = rollbackEntry_advance [OF assms(2) safe_stop_request [OF ready stop(1)] disjI1 [OF refl] stop(2)]
    have err: "err = None" using stop(3) by auto
    note e = stopped(2) [OF err]
    have "\<not> appendRollbackTerminal env p a (es @ [e]) ''rollback-failed'' w3 = (None, w')"
      using appendRollbackTerminal_None e by blast
    with stop(3) obtain r where "result = Answered r" "continueRollbackCleanup env p a adapter (es @ [e]) w3 = (None, w')"
      by auto
    with e ready_snoc [OF ready] stopped(3) show ?thesis
      by (intro continueRollbackCleanup_None [of env p a adapter "es @ [e]" w3]) auto
  qed simp
qed

lemma Rollback_None:
  assumes "Rollback env p a c adapter w = (None, w')"
  shows "\<exists>es. holds w' es \<and> rolled_back p a es"
proof -
  obtain now w1 where clock: "read_clock env w = (now, w1)" by (cases "read_clock env w")
  obtain out w2 where opened: "openBound env p a ''backup drill rollback journal is unavailable'' w1 = (out, w2)"
    by (cases "openBound env p a ''backup drill rollback journal is unavailable'' w1")
  obtain es where out: "out = Inr es" and body: "rollbackFrom env p a adapter es w2 = (None, w')"
    using assms clock opened by (cases out) (auto simp: Rollback_def Let_def split: option.splits)
  show ?thesis
    by (rule rollbackFrom_None [OF body]) (use openBound_Inr [OF opened [unfolded out]] in auto)
qed

lemma ApplySteps_not_rollback:
  assumes "map JE_Step es = ApplySteps"
  shows "\<not> rollbackStarted es"
proof -
  have "rollbackStarted es \<longleftrightarrow> list_ex (\<lambda>s. has_prefix ''rollback-'' s \<or> s = ''rolled-back'') (map JE_Step es)"
    by (simp add: rollbackStarted_def list_ex_iff)
  then show ?thesis unfolding assms by (simp add: ApplySteps_def has_prefix_def)
qed

lemma rolled_back_started: "rolled_back p a es \<Longrightarrow> rollbackStarted es"
proof -
  assume "rolled_back p a es"
  then obtain k where k: "map JE_Step es = take k ApplySteps @ [''rollback-safe-stop'', ''rollback-cleanup-requested'', ''rolled-back'']"
    unfolding rolled_back_def by blast
  have "''rolled-back'' \<in> set (map JE_Step es)" unfolding k by simp
  then show ?thesis by (auto simp: rollbackStarted_def list_ex_iff)
qed

lemma targetProven_checksums:
  assumes "length bs = length ks" "length ts = length ks" "list_all targetProven (zip (zip ks bs) ts)"
  shows "map TR_Kind ts = ks \<and> map TR_RestoredChecksumSHA256 ts = map BL_DataSHA256 bs"
  using assms by (induction bs ks arbitrary: ts rule: list_induct2) (auto simp: targetProven_def length_Suc_conv)

end
