(* ===== verification/Drill_Liveness.thy ===== *)
theory Drill_Liveness
  imports Drill_Outcomes
begin

text \<open>
  With an adapter that answers as the protocol asks, a clock that does not run
  backwards, and no failing access, recovery completes a run from wherever it stopped;
  and recovering a completed run gives the same receipt again.
\<close>

subsection \<open>Sizes\<close>

lemma last_nth:
  assumes "length es = Suc n"
  shows "last es = es ! n"
proof -
  have "es \<noteq> []" using assms by auto
  then show ?thesis using assms by (simp add: last_conv_nth)
qed

lemma length_escape_rune:
  assumes "r \<noteq> []"
  shows "length (escape_rune r) \<le> 6 * length r"
proof -
  have "length (escape_ascii c) \<le> 6" for c by (simp add: escape_ascii_def)
  moreover have "1 \<le> length r" using assms by (simp add: Suc_le_eq)
  ultimately show ?thesis by (auto simp: escape_rune_def)
qed

lemma length_json_escape: "length (json_escape s) \<le> 6 * length s"
proof -
  have "length (concat (map escape_rune rs)) \<le> 6 * length (concat rs)" if "\<forall>r \<in> set rs. r \<noteq> []" for rs
    using that by (induction rs) (auto dest: length_escape_rune)
  moreover have "\<forall>r \<in> set (runes s). r \<noteq> []" using runes_ok [of _ s] by (fastforce simp: rune_ok_def)
  ultimately show ?thesis unfolding json_escape_def by (metis concat_runes)
qed

lemma length_json_quote: "length (json_quote s) \<le> 6 * length s + 2"
  using length_json_escape [of s] by (simp add: json_quote_def)

lemma length_commas: "length (commas xs) \<le> sum_list (map (\<lambda>x. length x + 1) xs)"
  by (induction xs rule: commas.induct) auto

definition member_size :: "string \<times> json \<Rightarrow> nat" where
  "member_size m = 6 * length (fst m) + 4 + length (json_Marshal (snd m))"

lemma length_JObject: "length (json_Marshal (JObject ms)) \<le> 2 + sum_list (map member_size ms)"
proof -
  have one: "length (member m) + 1 \<le> member_size m" for m
    using length_json_quote [of "fst m"] by (cases m) (simp add: member_size_def)
  have "sum_list (map (\<lambda>x. length x + 1) (map member ms)) \<le> sum_list (map member_size ms)"
    unfolding map_map comp_def by (intro sum_list_mono one)
  with length_commas [of "map member ms"] show ?thesis by simp
qed

lemma length_JString: "length (json_Marshal (JString s)) \<le> 6 * length s + 2"
  using length_json_quote by simp

lemma length_itoa: "n < 100 \<Longrightarrow> length (itoa n) \<le> 2"
  by (subst itoa.simps, subst itoa.simps) auto

lemma length_trim: "length (trim_zeros s) \<le> length s"
  using length_dropWhile_le [of _ "rev s"] by (simp add: trim_zeros_def)

lemma length_Format:
  assumes "time_in_range t"
  shows "length (FormatRFC3339Nano t) \<le> 30"
proof -
  obtain y m d where civil: "civil_of_day (t div 1000000000 div 86400) = (y, m, d)"
    by (cases "civil_of_day (t div 1000000000 div 86400)") auto
  have "length (year_text y) = 4"
    using assms civil_of_day(1) [OF civil] by (simp add: time_in_range_def Let_def year_text_def)
  moreover have "length (fraction_text n) \<le> 10" for n
    using length_trim [of "pad 9 n"] by (simp add: fraction_text_def Let_def)
  ultimately show ?thesis using civil by (simp add: FormatRFC3339Nano_def Let_def)
qed

lemma ApplySteps_short: "s \<in> set ApplySteps \<Longrightarrow> length s \<le> 40"
  by (auto simp: ApplySteps_def)

lemma length_validSHA: "validSHA v \<Longrightarrow> length v = 64"
  by (simp add: validSHA_iff)

lemma length_digest [simp]: "length (digest v) = 64"
  by (rule length_validSHA) simp

lemma entry_size_new:
  assumes "time_in_range now" "n < 100" "length (Pl_OperationID p) \<le> 128" "validSHA (EI_ExecutableSHA256 (Pl_Adapter p))"
    "length step \<le> 40" "length rq = 64" "length rs = 64" "length prev \<le> 64"
    "\<forall>r. response = Some r \<longrightarrow> length (json_Marshal (json_AdapterResponse r)) \<le> 100000"
  shows "entry_size (newJournalEntry now n p a step rq rs prev response) \<le> 128 * 1024"
proof -
  define e where "e = newJournalEntry now n p a step rq rs prev response"
  have e: "length (JE_SchemaVersion e) = 39" "JE_Sequence e = int n" "length (JE_OperationID e) \<le> 128"
    "length (JE_PlanSHA256 e) = 64" "length (JE_ApprovalSHA256 e) = 64" "length (JE_ApprovalScopeSHA256 e) = 64"
    "length (JE_AdapterExecutableSHA256 e) = 64" "length (JE_Step e) \<le> 40" "length (JE_RequestSHA256 e) = 64"
    "length (JE_ResponseSHA256 e) = 64" "JE_Response e = response" "length (JE_PreviousEntrySHA256 e) \<le> 64"
    "length (JE_RecordedAt e) \<le> 30" "length (JE_EntrySHA256 e) = 64"
    using assms length_validSHA [OF assms(4)] length_Format [OF assms(1)]
    by (simp_all add: e_def newJournalEntry_def Let_def JournalEntryVersion_def PlanSHA256_def ApprovalSHA256_def
        ApprovalScopeSHA256_def JournalEntrySHA256_def)
  have string: "member_size (k, JString s) \<le> 6 * length k + 6 + 6 * length s" for k s
    using length_JString [of s] by (simp add: member_size_def)
  have "member_size (''sequence'', JInt (int n)) \<le> 60"
    using length_itoa [OF assms(2)] by (simp add: member_size_def JInt_def int_text_def)
  moreover have "sum_list (map member_size (omitempty_option ''response'' json_AdapterResponse response)) \<le> 100100"
    using assms(9) by (auto simp: omitempty_option_def member_size_def split: option.splits)
  moreover have "sum_list (map member_size (omitempty ''previousEntrySha256'' (JE_PreviousEntrySHA256 e))) \<le> 600"
    using string [of "''previousEntrySha256''" "JE_PreviousEntrySHA256 e"] e(12) by (simp add: omitempty_def)
  ultimately have "2 + sum_list (map member_size
      ([(''schemaVersion'', JString (JE_SchemaVersion e)), (''sequence'', JInt (JE_Sequence e)),
       (''operationId'', JString (JE_OperationID e)), (''planSha256'', JString (JE_PlanSHA256 e)),
       (''approvalSha256'', JString (JE_ApprovalSHA256 e)),
       (''approvalScopeSha256'', JString (JE_ApprovalScopeSHA256 e)),
       (''adapterExecutableSha256'', JString (JE_AdapterExecutableSHA256 e)),
       (''step'', JString (JE_Step e)), (''requestSha256'', JString (JE_RequestSHA256 e)),
       (''responseSha256'', JString (JE_ResponseSHA256 e))] @
      omitempty_option ''response'' json_AdapterResponse (JE_Response e) @
      omitempty ''previousEntrySha256'' (JE_PreviousEntrySHA256 e) @
      [(''recordedAt'', JString (JE_RecordedAt e)), (''entrySha256'', JString (JE_EntrySHA256 e))])) \<le> 120000"
    using string [of "''schemaVersion''" "JE_SchemaVersion e"] string [of "''operationId''" "JE_OperationID e"]
      string [of "''planSha256''" "JE_PlanSHA256 e"] string [of "''approvalSha256''" "JE_ApprovalSHA256 e"]
      string [of "''approvalScopeSha256''" "JE_ApprovalScopeSHA256 e"]
      string [of "''adapterExecutableSha256''" "JE_AdapterExecutableSHA256 e"] string [of "''step''" "JE_Step e"]
      string [of "''requestSha256''" "JE_RequestSHA256 e"] string [of "''responseSha256''" "JE_ResponseSHA256 e"]
      string [of "''recordedAt''" "JE_RecordedAt e"] string [of "''entrySha256''" "JE_EntrySHA256 e"] e
    by simp
  then have "length (json_Marshal (json_JournalEntry e)) \<le> 120000"
    using length_JObject unfolding json_JournalEntry_def by (rule order_trans [rotated])
  then show ?thesis by (simp add: entry_size_def e_def)
qed

subsection \<open>Entries that extend a journal\<close>

lemma chain_sequence: "validateChain [] es \<Longrightarrow> i < length es \<Longrightarrow> JE_Sequence (es ! i) = int i + 1"
proof (induction es arbitrary: i rule: rev_induct)
  case (snoc e es)
  then have chain: "validateChain [] es" "entryExtends es e" by (simp_all add: validateChain_snoc)
  show ?case
  proof (cases "i < length es")
    case True
    with snoc.IH chain show ?thesis by (simp add: nth_append)
  next
    case False
    with snoc.prems have i: "i = length es" by simp
    show ?thesis
    proof (cases "es = []")
      case True
      with chain i show ?thesis
        by (auto simp: entryExtends_def validateJournalEntry_def last_entry_def split: if_splits)
    next
      case False
      then have "JE_Sequence e = JE_Sequence (last es) + 1"
        using chain by (auto simp: entryExtends_def validateJournalEntry_def last_entry_def entryFollows_def split: if_splits)
      moreover have "JE_Sequence (last es) = int (length es - 1) + 1"
        using snoc.IH [OF chain(1), of "length es - 1"] False by (simp add: last_conv_nth)
      ultimately show ?thesis using i False by (simp add: of_nat_diff Suc_le_eq)
    qed
  qed
qed simp

lemma ApplySteps_validID: "s \<in> set ApplySteps \<Longrightarrow> validID s"
proof -
  have chars: "list_all (\<lambda>s. s \<noteq> [] \<and> drill_alnum (hd s) \<and> list_all (\<lambda>c. drill_alnum c \<or> c \<in> set ''._:-'') (tl s) \<and>
      length s \<le> 100) ApplySteps"
    by code_simp
  assume "s \<in> set ApplySteps"
  with chars have s: "s \<noteq> []" "drill_alnum (hd s)" "list_all (\<lambda>c. drill_alnum c \<or> c \<in> set ''._:-'') (tl s)" "length s \<le> 100"
    unfolding list_all_iff by blast+
  then show ?thesis
    unfolding validID_def idPattern_def MatchString_exact MatchString_one
    by (intro exI [of _ "hd s"] exI [of _ "tl s"]) simp
qed

lemma validTransition_next:
  assumes "ready p a es" "\<not> rollbackStarted es" "length es \<le> 12"
  shows "validTransition es (ApplySteps ! length es)"
proof -
  let ?n = "length es"
  note steps = ready_steps [OF assms(1,2)]
  have es: "es \<noteq> []" using assms(1) by (simp add: ready_def)
  have "JE_Step ` set es = set (take ?n ApplySteps)" using steps(1) by (metis list.set_map)
  moreover have "ApplySteps ! ?n \<notin> set (take ?n ApplySteps)"
    using ApplySteps_distinct assms(3) by (auto simp: in_set_conv_nth nth_eq_iff_index_eq)
  ultimately have new: "ApplySteps ! ?n \<notin> JE_Step ` set es" by simp
  have "last (map JE_Step es) = ApplySteps ! (?n - 1)"
    unfolding steps(1) using steps(3) assms(3) by (intro last_take_ApplySteps) auto
  then have last: "JE_Step (last es) = ApplySteps ! (?n - 1)" using es by (simp add: last_map)
  have "ApplySteps ! ?n \<notin> {''rolled-back'', ''rollback-failed'', ''rollback-safe-stop''}"
    using ApplySteps_plain(1) [of ?n] ApplySteps_12 assms(3) by (cases "?n = 12") auto
  with new last es assms(3) steps(3) ApplySteps_plain(1) [of "?n - 1"] show ?thesis
    by (simp add: validTransition_def Let_def)
qed

lemma newJournalEntry_sha [simp]:
  "JE_EntrySHA256 (newJournalEntry now n p a step rq rs prev r) = JournalEntrySHA256 (newJournalEntry now n p a step rq rs prev r)"
  by (simp add: newJournalEntry_def Let_def JournalEntrySHA256_def)

lemma entryExtends_new:
  assumes "ready p a es" "validTransition es step" "validID step"
    and plan: "validID (Pl_OperationID p)" "validSHA (EI_ExecutableSHA256 (Pl_Adapter p))"
    and time: "time_in_range now" "canonicalTime (JE_RecordedAt (last es)) = Some t" "t \<le> now"
    and shas: "validSHA rq" "validSHA rs"
    and response: "\<forall>r. response = Some r \<longrightarrow> Rs_ResponseSHA256 r = rs \<and> Rs_ResponseSHA256 r = AdapterResponseSHA256 r"
  shows "entryExtends es (newJournalEntry now (length es + 1) p a step rq rs (JE_EntrySHA256 (last es)) response)"
    (is "entryExtends es ?e")
proof -
  have es: "es \<noteq> []" and last: "entryBound p a (last es)" "JE_Sequence (last es) = int (length es)"
    using assms(1) chain_sequence [of es "length es - 1"] by (auto simp: ready_def last_conv_nth of_nat_diff Suc_le_eq)
  have "entryWellFormed ?e"
    using plan shas assms(3) by (simp add: entryWellFormed_def) (simp add: newJournalEntry_def Let_def PlanSHA256_def ApprovalSHA256_def
        ApprovalScopeSHA256_def)
  moreover have "responseHashBound ?e" using response by (auto simp: responseHashBound_def split: option.splits)
  moreover have now: "canonicalTime (JE_RecordedAt ?e) = Some now"
    using time(1) by (simp add: canonicalTime_def parse_canonical_time_Format)
  moreover have "entryFollows ?e (last es)"
    using now time last newJournalEntry_fields(8) [of p a now] by (auto simp: entryFollows_def entryBound_def)
  ultimately have "validateJournalEntry ?e (last_entry es) = None"
    using es by (simp add: validateJournalEntry_def last_entry_def)
  with assms(2) show ?thesis by (simp add: entryExtends_def)
qed

lemma verifyEntry_snoc:
  assumes "verifyEntry p a es i = None" "i < length es" "\<not> rollbackStarted es" "JE_Step e \<noteq> ''rollback-failed''"
  shows "verifyEntry p a (es @ [e]) i = None"
proof -
  have plain: "\<not> has_prefix ''rollback-'' (JE_Step (es ! j))" if "j < length es" for j
    using assms(3) that nth_mem [OF that] unfolding rollbackStarted_def list_ex_iff by blast
  have failed: "JE_Step (es ! j) \<noteq> ''rollback-failed''" if "j < length es" for j
    using plain [OF that] by (auto simp: has_prefix_def)
  have none: "(i + 1 < length es \<and> JE_Step (es ! (i + 1)) = ''rollback-failed'' \<or>
      i + 1 = length es \<and> has_prefix ''rollback-'' (JE_Step (es ! i))) = False"
    "(i + 1 < length (es @ [e]) \<and> JE_Step ((es @ [e]) ! (i + 1)) = ''rollback-failed'' \<or>
      i + 1 = length (es @ [e]) \<and> has_prefix ''rollback-'' (JE_Step (es ! i))) = False"
    using failed plain [OF assms(2)] assms(2,4) by (auto simp: nth_append less_Suc_eq)
  have nths: "(es @ [e]) ! i = es ! i" "(es @ [e]) ! (i - 1) = es ! (i - 1)"
    using assms(2) by (simp_all add: nth_append)
  have adapter: "verifyAdapterEntry p a (es @ [e]) i = verifyAdapterEntry p a es i"
    unfolding verifyAdapterEntry_def Let_def nths none by (rule refl)
  have "verifyEntry p a (es @ [e]) i = verifyEntry p a es i"
    unfolding verifyEntry_def Let_def nths adapter by (rule refl)
  with assms(1) show ?thesis by simp
qed

lemma verifyJournalBinding_snoc:
  assumes "verifyJournalBinding p a es = None" "\<not> rollbackStarted es" "entryExtends es e"
    "JE_Step e \<noteq> ''rollback-failed''" "verifyEntry p a (es @ [e]) (length es) = None"
  shows "verifyJournalBinding p a (es @ [e]) = None"
proof -
  note verified = verifyJournalBinding_ready [OF assms(1)]
  have chain: "validateChain [] (es @ [e])" using verified(1) assms(3) by (simp add: ready_def validateChain_snoc)
  then have "validateJournalEntries (es @ [e]) = None"
    using chain_length [OF chain] by (simp add: validateJournalEntries_None)
  moreover have "verifyEntry p a (es @ [e]) i = None" if "i < length (es @ [e])" for i
    using that verified(3) verifyEntry_snoc assms(2,4,5) by (cases "i = length es") auto
  ultimately show ?thesis by (simp add: verifyJournalBinding_def guards)
qed

subsection \<open>Calm runs\<close>

definition calm :: "Environment \<Rightarrow> bool" where
  "calm env \<longleftrightarrow> (\<forall>n. Env_IO env n = NoFault)"

definition steady_clock :: "Environment \<Rightarrow> bool" where
  "steady_clock env \<longleftrightarrow> (\<forall>n. Env_Clock env n \<le> Env_Clock env (Suc n) \<and> time_in_range (Env_Clock env n))"

text \<open>An adapter that answers every step of the plan as the protocol asks, within the size of an entry.\<close>

definition honest :: "Plan \<Rightarrow> Adapter \<Rightarrow> bool" where
  "honest p ad \<longleftrightarrow> (\<forall>calls a v. \<forall>step \<in> set ApplySteps.
     let q = newAdapterRequest p (Some a) ''apply'' step v in
     \<exists>r. judgeRun ad q (Ad_Run ad calls q) = Answered r \<and>
       (step = ''proof-assembled'' \<longrightarrow> validateProofResponse p r = None) \<and>
       length (json_Marshal (json_AdapterResponse r)) \<le> 100000)"

text \<open>A world in which the run can go on.\<close>

definition resumable :: "Environment \<Rightarrow> Plan \<Rightarrow> ApprovalReport \<Rightarrow> World \<Rightarrow> JournalEntry list \<Rightarrow> bool" where
  "resumable env p a w es \<longleftrightarrow> holds w es \<and> verifyJournalBinding p a es = None \<and> \<not> rollbackStarted es \<and>
     (\<forall>e \<in> set es. entry_size e \<le> 128 * 1024) \<and>
     (12 \<le> length es \<longrightarrow> recordedProof p (es ! 11) \<noteq> None) \<and>
     (\<exists>t. canonicalTime (JE_RecordedAt (last es)) = Some t \<and> t \<le> Env_Clock env (W_Tick w))"

lemma entry_size_pos: "2 \<le> entry_size e"
  using json_Marshal_hd(1) [OF json_ints_JournalEntry, of e] by (simp add: entry_size_def Suc_le_eq)

lemma ready_length: "ready p a es \<Longrightarrow> length es \<le> 15"
  by (simp add: ready_def chain_length)

lemma journal_size_bounds:
  assumes "es \<noteq> []" "length es \<le> 15" "\<forall>e \<in> set es. entry_size e \<le> 128 * 1024"
  shows "2 \<le> journal_size es" "journal_size es \<le> length es * (128 * 1024)" "journal_size es \<le> maxJournalBytes"
proof -
  show "2 \<le> journal_size es"
    using assms(1) entry_size_pos [of "hd es"] by (cases es) (auto simp: journal_size_def)
  have "sum_list (map entry_size es) \<le> sum_list (map (\<lambda>_. 128 * 1024) es)"
    using assms(3) by (intro sum_list_mono) auto
  then show le: "journal_size es \<le> length es * (128 * 1024)"
    by (simp add: journal_size_def sum_list_triv)
  also have "\<dots> \<le> 15 * (128 * 1024)" using assms(2) by simp
  finally show "journal_size es \<le> maxJournalBytes" by (simp add: maxJournalBytes_def)
qed

lemma calm_load:
  assumes "calm env" "holds w es" "validateJournalEntries es = None" "2 \<le> journal_size es" "journal_size es \<le> maxJournalBytes"
  obtains w' where "journal_load env w = (Inr es, w')" "W_Journal w' = W_Journal w" "W_Calls w' = W_Calls w" "W_Tick w' = W_Tick w"
  using assms by (auto simp: journal_load_def access_def calm_def holds_def decodeJournal_def)

lemma calm_open:
  assumes "calm env" "holds w es" "2 \<le> journal_size es" "journal_size es \<le> maxJournalBytes"
  obtains w' where "openJournalTransaction env w = (None, w')" "W_Journal w' = W_Journal w" "W_Calls w' = W_Calls w"
    "W_Tick w' = W_Tick w"
  using assms by (auto simp: openJournalTransaction_def access_def calm_def holds_def)

lemma calm_append:
  assumes "calm env" "holds w es" "validateJournalEntries es = None" "length es \<le> 14"
    "\<forall>x \<in> set es. entry_size x \<le> 128 * 1024" "entryExtends es e" "entry_size e \<le> 128 * 1024"
  obtains w' where "journal_append env e w = (None, w')" "holds w' (es @ [e])" "W_Tick w' = W_Tick w" "W_Calls w' = W_Calls w"
proof -
  have "es \<noteq> []" using assms(3) by (simp add: validateJournalEntries_None)
  note size = journal_size_bounds [OF this _ assms(5)]
  have load: "2 \<le> journal_size es" "journal_size es \<le> maxJournalBytes" "journal_size es \<le> length es * (128 * 1024)"
    using size assms(4) by auto
  then have total: "journal_size es + entry_size e \<le> maxJournalBytes"
    using assms(4,7) order_trans [OF load(3), of "14 * (128 * 1024)"] by (simp add: maxJournalBytes_def)
  obtain w1 where "journal_load env w = (Inr es, w1)" "W_Journal w1 = W_Journal w" "W_Calls w1 = W_Calls w" "W_Tick w1 = W_Tick w"
    using calm_load [OF assms(1-3) load(1,2)] .
  with assms(1,6,7) total that show thesis
    by (auto simp: journal_append_def write_entry_def access_def calm_def holds_def)
qed

lemma sealRequest_sha: "Rq_RequestSHA256 (sealRequest r) = AdapterRequestSHA256 (sealRequest r)"
  by (simp add: sealRequest_def Let_def AdapterRequestSHA256_def)

lemma newAdapterRequest_fields:
  "Rq_RequestSHA256 (newAdapterRequest p a m s v) = AdapterRequestSHA256 (newAdapterRequest p a m s v)"
  "Rq_Plan (newAdapterRequest p a m s v) = p"
  "Rq_AdapterExecutableSHA256 (newAdapterRequest p a m s v) = EI_ExecutableSHA256 (Pl_Adapter p)"
  by (simp add: newAdapterRequest_def sealRequest_sha) (simp_all add: newAdapterRequest_def sealRequest_def Let_def)

lemma honest_invoke:
  assumes "honest p ad" "Ad_Identity ad = EI_ExecutableSHA256 (Pl_Adapter p)" "step \<in> set ApplySteps"
  obtains r w' where "invoke (Some ad) (newAdapterRequest p (Some a) ''apply'' step v) w = (Answered r, w')"
    "W_Journal w' = W_Journal w" "W_Tick w' = W_Tick w" "step = ''proof-assembled'' \<longrightarrow> validateProofResponse p r = None"
    "length (json_Marshal (json_AdapterResponse r)) \<le> 100000"
    "ValidateAdapterResponse (newAdapterRequest p (Some a) ''apply'' step v) r = None"
proof -
  let ?q = "newAdapterRequest p (Some a) ''apply'' step v"
  have "\<exists>r. judgeRun ad ?q (Ad_Run ad (W_Calls w) ?q) = Answered r \<and>
      (step = ''proof-assembled'' \<longrightarrow> validateProofResponse p r = None) \<and>
      length (json_Marshal (json_AdapterResponse r)) \<le> 100000"
    using assms(1,3) unfolding honest_def Let_def by blast
  then obtain r where r: "judgeRun ad ?q (Ad_Run ad (W_Calls w) ?q) = Answered r"
    "step = ''proof-assembled'' \<longrightarrow> validateProofResponse p r = None" "length (json_Marshal (json_AdapterResponse r)) \<le> 100000"
    by blast
  have "invoke (Some ad) ?q w = (Answered r, w\<lparr>W_Calls := W_Calls w @ [?q]\<rparr>)"
    using assms(2) r(1) by (simp add: invoke_def newAdapterRequest_fields)
  with r that invoke_Answered show thesis by simp
qed

lemma response_shas:
  assumes "ValidateAdapterResponse q r = None"
  shows "validSHA (Rs_ResponseSHA256 r)" "Rs_ResponseSHA256 r = AdapterResponseSHA256 r" "validSHA (Rq_RequestSHA256 q)"
  using ValidateAdapterResponse_binding [OF assms]
  by (simp_all add: binding_fields AdapterResponseSHA256_def AdapterRequestSHA256_def)

text \<open>A written entry keeps the run resumable.\<close>

lemma resumable_written:
  assumes "steady_clock env" "resumable env p a w es" "length es \<le> 12"
    and clock: "read_clock env w = (now, w1)"
    and e: "e = newJournalEntry now (length es + 1) p a (ApplySteps ! length es) rq rs (JE_EntrySHA256 (last es)) response"
    and verified: "verifyEntry p a (es @ [e]) (length es) = None"
    and recorded: "length es = 11 \<longrightarrow> recordedProof p e \<noteq> None"
    and written: "entryExtends es e" "entry_size e \<le> 128 * 1024" "holds w2 (es @ [e])" "W_Tick w2 = W_Tick w1"
  shows "resumable env p a w2 (es @ [e])"
proof -
  have start: "verifyJournalBinding p a es = None" "\<not> rollbackStarted es"
      "\<forall>e \<in> set es. entry_size e \<le> 128 * 1024" "12 \<le> length es \<longrightarrow> recordedProof p (es ! 11) \<noteq> None"
    using assms(2) unfolding resumable_def by blast+
  have now: "now = Env_Clock env (W_Tick w)" "W_Tick w1 = Suc (W_Tick w)" "time_in_range now"
    using clock assms(1) by (auto simp: read_clock_def steady_clock_def)
  have step: "JE_Step e = ApplySteps ! length es" by (simp add: e)
  have "\<not> has_prefix ''rollback-'' (ApplySteps ! length es)" "ApplySteps ! length es \<noteq> ''rolled-back''"
    using ApplySteps_plain [of "length es"] ApplySteps_12 assms(3) by (cases "length es = 12"; simp add: has_prefix_def)+
  with step start(2) have plain: "JE_Step e \<noteq> ''rollback-failed''" "\<not> rollbackStarted (es @ [e])"
    by (auto simp: rollbackStarted_def has_prefix_def)
  have "verifyJournalBinding p a (es @ [e]) = None"
    using start plain written(1) verified by (intro verifyJournalBinding_snoc)
  moreover have "canonicalTime (JE_RecordedAt e) = Some now"
    using now(3) by (simp add: e canonicalTime_def parse_canonical_time_Format)
  moreover have "now \<le> Env_Clock env (W_Tick w2)"
    using assms(1) now written(4) by (simp add: steady_clock_def)
  moreover have "12 \<le> length (es @ [e]) \<longrightarrow> recordedProof p ((es @ [e]) ! 11) \<noteq> None"
    using start(4) recorded by (auto simp: nth_append less_Suc_eq_le)
  ultimately show ?thesis
    using written(2,3) plain(2) start(3) by (auto simp: resumable_def)
qed

text \<open>When no access fails, one more entry can be recorded, in an apply run and in a rollback.\<close>

definition recording :: "Environment \<Rightarrow> Plan \<Rightarrow> ApprovalReport \<Rightarrow> World \<Rightarrow> JournalEntry list \<Rightarrow> bool" where
  "recording env p a w es \<longleftrightarrow> holds w es \<and> ready p a es \<and> (\<forall>e \<in> set es. entry_size e \<le> 128 * 1024) \<and>
     (\<exists>t. canonicalTime (JE_RecordedAt (last es)) = Some t \<and> t \<le> Env_Clock env (W_Tick w))"

lemma resumable_recording: "resumable env p a w es \<Longrightarrow> recording env p a w es"
  by (auto simp: resumable_def recording_def intro: verifyJournalBinding_ready(1))

lemma record_entry:
  assumes "calm env" "steady_clock env" "recording env p a w es" "length es \<le> 14"
    and step: "validTransition es step" "validID step" "length step \<le> 40"
    and plan: "validID (Pl_OperationID p)" "validSHA (EI_ExecutableSHA256 (Pl_Adapter p))"
    and shas: "validSHA rq" "validSHA rs"
    and response: "\<forall>r. response = Some r \<longrightarrow> Rs_ResponseSHA256 r = rs \<and> Rs_ResponseSHA256 r = AdapterResponseSHA256 r \<and>
      length (json_Marshal (json_AdapterResponse r)) \<le> 100000"
    and clock: "read_clock env w = (now, w1)"
    and e: "e = newJournalEntry now (length es + 1) p a step rq rs (JE_EntrySHA256 (last es)) response"
  obtains w2 where "journal_append env e w1 = (None, w2)" "recording env p a w2 (es @ [e])" "W_Tick w2 = W_Tick w1"
    "entryExtends es e" "entry_size e \<le> 128 * 1024"
proof -
  obtain t where t: "canonicalTime (JE_RecordedAt (last es)) = Some t" "t \<le> Env_Clock env (W_Tick w)"
    and start: "holds w es" "ready p a es" "\<forall>e \<in> set es. entry_size e \<le> 128 * 1024"
    using assms(3) unfolding recording_def by blast
  have valid: "validateJournalEntries es = None"
    using start(2) chain_length [of es] by (auto simp: ready_def validateJournalEntries_None)
  have now: "now = Env_Clock env (W_Tick w)" "holds w1 es" "W_Tick w1 = Suc (W_Tick w)"
    using clock start(1) by (auto simp: read_clock_def holds_def)
  have range: "time_in_range now" using assms(2) now by (simp add: steady_clock_def)
  have extends: "entryExtends es e"
    unfolding e using t now shas response
    by (intro entryExtends_new [OF start(2) step(1,2) plan range t(1)]) auto
  have "length (Pl_OperationID p) \<le> 128"
    using plan(1) unfolding validID_def idPattern_def MatchString_exact MatchString_one by auto
  moreover have "length (JE_EntrySHA256 (last es)) \<le> 64"
    using start(2) chain_entry(1) [of "butlast es" "last es"]
    by (auto simp: ready_def entryWellFormed_def JournalEntrySHA256_def)
  ultimately have size: "entry_size e \<le> 128 * 1024"
    unfolding e using range plan shas step(3) response assms(4) by (intro entry_size_new) (auto simp: validSHA_iff)
  obtain w2 where w2: "journal_append env e w1 = (None, w2)" "holds w2 (es @ [e])" "W_Tick w2 = W_Tick w1"
    using calm_append [OF assms(1) now(2) valid assms(4) start(3) extends size] .
  have "canonicalTime (JE_RecordedAt e) = Some now"
    using range by (simp add: e canonicalTime_def parse_canonical_time_Format)
  moreover have "now \<le> Env_Clock env (W_Tick w2)" using assms(2) now w2(3) by (simp add: steady_clock_def)
  ultimately have "recording env p a w2 (es @ [e])"
    using w2(2) start(3) size ready_snoc [OF start(2) extends] by (auto simp: recording_def e)
  with that w2 extends size show thesis by blast
qed

lemma resumable_append:
  assumes "calm env" "steady_clock env" "resumable env p a w es" "length es \<le> 12"
    and plan: "validID (Pl_OperationID p)" "validSHA (EI_ExecutableSHA256 (Pl_Adapter p))"
    and shas: "validSHA rq" "validSHA rs"
    and response: "\<forall>r. response = Some r \<longrightarrow> Rs_ResponseSHA256 r = rs \<and> Rs_ResponseSHA256 r = AdapterResponseSHA256 r \<and>
      length (json_Marshal (json_AdapterResponse r)) \<le> 100000"
    and clock: "read_clock env w = (now, w1)"
    and e: "e = newJournalEntry now (length es + 1) p a (ApplySteps ! length es) rq rs (JE_EntrySHA256 (last es)) response"
    and verified: "verifyEntry p a (es @ [e]) (length es) = None"
    and recorded: "length es = 11 \<longrightarrow> recordedProof p e \<noteq> None"
  shows "\<exists>w2. journal_append env e w1 = (None, w2) \<and> resumable env p a w2 (es @ [e])"
proof -
  have start: "verifyJournalBinding p a es = None" "\<not> rollbackStarted es" using assms(3) unfolding resumable_def by blast+
  note next_step = validTransition_next [OF verifyJournalBinding_ready(1) [OF start(1)] start(2) assms(4)]
  have member: "ApplySteps ! length es \<in> set ApplySteps" using assms(4) by (intro nth_mem) simp
  have "length es \<le> 14" using assms(4) by simp
  then obtain w2 where w2: "journal_append env e w1 = (None, w2)" "recording env p a w2 (es @ [e])" "W_Tick w2 = W_Tick w1"
    "entryExtends es e" "entry_size e \<le> 128 * 1024"
    using record_entry [OF assms(1,2) resumable_recording [OF assms(3)] _ next_step ApplySteps_validID [OF member]
        ApplySteps_short [OF member] plan shas response clock e] by blast
  with resumable_written [OF assms(2-4) clock e verified recorded] show ?thesis
    by (auto simp: recording_def)
qed

text \<open>The three kinds of entries of an apply run are what \<^verbatim>\<open>verifyJournalBinding\<close> expects.\<close>

lemma ready_mutation_step:
  assumes "length es = 1" "mutationStartedDigests p (JE_EntrySHA256 (last es)) = (rq, rs)" "entryBound p a e"
    "JE_Step e = ApplySteps ! length es" "JE_RequestSHA256 e = rq" "JE_ResponseSHA256 e = rs" "JE_Response e = None"
  shows "verifyEntry p a (es @ [e]) (length es) = None"
proof -
  have "es \<noteq> []" using assms(1) by auto
  then have "(es @ [e]) ! length es = e" "(es @ [e]) ! (length es - 1) = last es"
    by (auto simp: nth_append last_conv_nth)
  moreover have "JE_Step e = ''mutation-started''" using assms(1,4) by (simp add: ApplySteps_0_1)
  ultimately show ?thesis using assms unfolding verifyEntry_def Let_def by (simp add: derivedEntry_def)
qed

lemma ready_completion:
  assumes "length es = 12" "JE_Step (es ! 11) = ''proof-assembled''" "JE_Response (es ! 11) = Some r"
    "JE_ResponseSHA256 (es ! 11) = Rs_ResponseSHA256 r"
    "completedDigests (Rs_ResponseSHA256 r) = (rq, rs)" "entryBound p a e"
    "JE_Step e = ApplySteps ! length es" "JE_RequestSHA256 e = rq" "JE_ResponseSHA256 e = rs" "JE_Response e = None"
  shows "verifyEntry p a (es @ [e]) (length es) = None"
proof -
  have "(es @ [e]) ! length es = e" "(es @ [e]) ! (length es - 1) = es ! 11"
    using assms(1) by (auto simp: nth_append)
  moreover have "JE_Step e = ''completed''" using assms(1,7) by (simp add: ApplySteps_12)
  ultimately show ?thesis using assms unfolding verifyEntry_def Let_def by (simp add: derivedEntry_def)
qed

lemma ready_adapter_step:
  assumes "2 \<le> n" "n \<le> 11" "JE_Step e = ApplySteps ! n" "n = length es" "entryBound p a e"
    "JE_RequestSHA256 e = Rq_RequestSHA256 (newAdapterRequest p (Some a) ''apply'' (ApplySteps ! n) (JE_EntrySHA256 (last es)))"
    "JE_Response e = Some r" "JE_ResponseSHA256 e = Rs_ResponseSHA256 r"
    "ValidateAdapterResponse (newAdapterRequest p (Some a) ''apply'' (ApplySteps ! n) (JE_EntrySHA256 (last es))) r = None"
  shows "verifyEntry p a (es @ [e]) n = None"
proof -
  have "es \<noteq> []" using assms(1,4) by auto
  then have nths: "(es @ [e]) ! n = e" "(es @ [e]) ! (n - 1) = last es"
    using assms(4) by (auto simp: nth_append last_conv_nth)
  have "entryRequest p a (JE_Step e) v = newAdapterRequest p (Some a) ''apply'' (ApplySteps ! n) v" for v
    using ApplySteps_plain(2) [of n] assms(2,3) by (simp add: entryRequest_def)
  then have "verifyAdapterEntry p a (es @ [e]) n = None"
    using assms \<open>es \<noteq> []\<close> ValidateAdapterResponse_binding [OF assms(9)] unfolding verifyAdapterEntry_def Let_def nths by simp
  moreover have "JE_Step e \<notin> {''approval-consumed'', ''mutation-started'', ''completed'', ''rolled-back'', ''rollback-failed''}"
    using ApplySteps_adapter [OF assms(1,2)] assms(3) by simp
  ultimately show ?thesis using assms(5) unfolding verifyEntry_def Let_def nths by simp
qed

lemma mutationStep_live:
  assumes "calm env" "steady_clock env" "resumable env p a w es" "length es = 1"
    and plan: "validID (Pl_OperationID p)" "validSHA (EI_ExecutableSHA256 (Pl_Adapter p))"
  shows "\<exists>e w'. applyStep env p a adapter es w = (Inr e, w') \<and> resumable env p a w' (es @ [e])"
proof -
  let ?step = "ApplySteps ! length es" and ?previous = "JE_EntrySHA256 (last es)"
  have mutation: "?step = ''mutation-started''" using assms(4) by (simp add: ApplySteps_0_1)
  obtain rq rs where digests: "mutationStartedDigests p ?previous = (rq, rs)"
    by (cases "mutationStartedDigests p ?previous")
  obtain now w1 where clock: "read_clock env w = (now, w1)" by (cases "read_clock env w")
  let ?e = "newJournalEntry now (length es + 1) p a ?step rq rs ?previous None"
  have "verifyEntry p a (es @ [?e]) (length es) = None"
    using assms(4) digests by (intro ready_mutation_step) simp_all
  moreover have "validSHA rq" "validSHA rs" using digests by (auto simp: mutationStartedDigests_def)
  ultimately have "\<exists>w2. journal_append env ?e w1 = (None, w2) \<and> resumable env p a w2 (es @ [?e])"
    using assms(4) by (intro resumable_append [OF assms(1-3) _ plan _ _ _ clock refl]) simp_all
  then obtain w2 where w2: "journal_append env ?e w1 = (None, w2)" "resumable env p a w2 (es @ [?e])" by blast
  then have "applyStep env p a adapter es w = (Inr ?e, w2)"
    using mutation digests clock by (simp add: applyStep_def)
  with w2(2) show ?thesis by blast
qed

lemma adapterStep_live:
  assumes "calm env" "steady_clock env" "resumable env p a w es" "2 \<le> length es" "length es \<le> 11" "honest p ad"
    and plan: "validID (Pl_OperationID p)" "validSHA (EI_ExecutableSHA256 (Pl_Adapter p))"
    and identity: "Ad_Identity ad = EI_ExecutableSHA256 (Pl_Adapter p)"
  shows "\<exists>e w'. applyStep env p a (Some ad) es w = (Inr e, w') \<and> resumable env p a w' (es @ [e])"
proof -
  let ?step = "ApplySteps ! length es" and ?previous = "JE_EntrySHA256 (last es)"
  have later: "?step \<noteq> ''mutation-started''" using ApplySteps_later assms(4,5) by simp
  let ?q = "newAdapterRequest p (Some a) ''apply'' ?step ?previous"
  have "?step \<in> set ApplySteps" using assms(5) by (intro nth_mem) simp
  then obtain r w1 where call: "invoke (Some ad) ?q w = (Answered r, w1)"
    "W_Journal w1 = W_Journal w" "W_Tick w1 = W_Tick w" "?step = ''proof-assembled'' \<longrightarrow> validateProofResponse p r = None"
    "length (json_Marshal (json_AdapterResponse r)) \<le> 100000" "ValidateAdapterResponse ?q r = None"
    using honest_invoke [OF assms(6) identity] by blast
  note shas = response_shas [OF call(6)]
  have w1: "resumable env p a w1 es" using assms(3) call(2,3) by (simp add: resumable_def holds_def)
  obtain now w2 where clock: "read_clock env w1 = (now, w2)" by (cases "read_clock env w1")
  let ?e = "newJournalEntry now (length es + 1) p a ?step (Rq_RequestSHA256 ?q) (Rs_ResponseSHA256 r) ?previous (Some r)"
  have "verifyEntry p a (es @ [?e]) (length es) = None"
    using assms(4,5) call(6) by (intro ready_adapter_step [where r = r]) simp_all
  moreover have "length es = 11 \<longrightarrow> recordedProof p ?e \<noteq> None"
    using call(4) by (auto simp: recordedProof_def ApplySteps_def)
  ultimately have "\<exists>w3. journal_append env ?e w2 = (None, w3) \<and> resumable env p a w3 (es @ [?e])"
    using assms(5) shas call(5) by (intro resumable_append [OF assms(1,2) w1 _ plan _ _ _ clock refl]) simp_all
  then obtain w3 where w3: "journal_append env ?e w2 = (None, w3)" "resumable env p a w3 (es @ [?e])" by blast
  have "stepResult p ?step (Answered r) = Inr r" using call(4) by (simp add: stepResult_def)
  then have "applyStep env p a (Some ad) es w = (Inr ?e, w3)"
    using later call(1) clock w3(1) by (simp add: applyStep_def Let_def)
  with w3(2) show ?thesis by blast
qed

lemma applyStep_live:
  assumes "calm env" "steady_clock env" "resumable env p a w es" "length es \<le> 11" "honest p ad"
    and plan: "validID (Pl_OperationID p)" "validSHA (EI_ExecutableSHA256 (Pl_Adapter p))"
    and identity: "Ad_Identity ad = EI_ExecutableSHA256 (Pl_Adapter p)"
  obtains e w' where "applyStep env p a (Some ad) es w = (Inr e, w')" "resumable env p a w' (es @ [e])"
proof -
  have start: "verifyJournalBinding p a es = None" "\<not> rollbackStarted es"
    using assms(3) by (auto simp: resumable_def)
  have "1 \<le> length es" by (rule ready_steps(3) [OF verifyJournalBinding_ready(1) [OF start(1)] start(2)])
  then consider "length es = 1" | "2 \<le> length es" by linarith
  then show thesis
    using that mutationStep_live [OF assms(1-3) _ plan, of "Some ad"]
      adapterStep_live [OF assms(1-3) _ assms(4,5) plan identity] by cases blast+
qed

lemma applyLoop_live:
  assumes "calm env" "steady_clock env" "honest p ad" "Ad_Identity ad = EI_ExecutableSHA256 (Pl_Adapter p)"
    and plan: "validID (Pl_OperationID p)" "validSHA (EI_ExecutableSHA256 (Pl_Adapter p))"
    and "resumable env p a w es"
  shows "\<exists>es' w'. applyLoop env p a (Some ad) es w = (Inr es', w') \<and> resumable env p a w' es' \<and> 12 \<le> length es'"
  using assms(7)
proof (induction "12 - length es" arbitrary: es w)
  case 0
  then show ?case by (subst applyLoop.simps) auto
next
  case (Suc n)
  then have "length es \<le> 11" by simp
  then obtain e w1 where step: "applyStep env p a (Some ad) es w = (Inr e, w1)" "resumable env p a w1 (es @ [e])"
    using applyStep_live [OF assms(1,2) Suc.prems _ assms(3) plan assms(4)] by blast
  have "\<exists>es' w'. applyLoop env p a (Some ad) (es @ [e]) w1 = (Inr es', w') \<and> resumable env p a w' es' \<and> 12 \<le> length es'"
    using Suc by (intro Suc.hyps(1) step(2)) simp
  with step(1) \<open>length es \<le> 11\<close> show ?case by (subst applyLoop.simps) simp
qed

subsection \<open>Receipts are issued\<close>

lemma recordedProof_Some:
  assumes "recordedProof p e = Some r"
  shows "JE_Response e = Some r" "validateProofResponse p r = None"
  using assms by (auto simp: recordedProof_def split: option.splits if_splits)

lemma validateProofResponse_parts:
  assumes "validateProofResponse p r = None"
  shows "Rs_IsolationEvidence r \<noteq> None" "Rs_CleanupEvidence r \<noteq> None" "length (Rs_Targets r) = length TargetKinds"
    "list_all targetProven (zip (zip TargetKinds (Pl_SourceBaselines p)) (Rs_Targets r))"
  using assms by (auto simp: validateProofResponse_def evidencePresent_def split: if_splits option.splits)

lemma receiptMatches_makeReceipt:
  assumes "validateProofResponse p r = None"
  shows "receiptMatches p a (makeReceipt p a e r) e r"
  using validateProofResponse_parts(1,2) [OF assms]
  by (auto simp: receiptMatches_def makeReceipt_def Let_def ExecutionReceiptSHA256_def)

lemma ValidateReceipt_makeReceipt:
  assumes "validateApprovalBinding p a = None" "verifyJournalBinding p a es = None" "\<not> rollbackStarted es" "length es = 13"
    "recordedProof p (es ! 11) = Some r"
  shows "ValidateReceipt p a (makeReceipt p a (es ! 12) r) es = None"
proof -
  note verified = verifyJournalBinding_ready [OF assms(2)]
  note steps = ready_steps [OF verified(1) assms(3)]
  note recorded = recordedProof_Some [OF assms(5)]
  have plan: "ValidatePlan p = None" using assms(1) by (auto simp: validateApprovalBinding_def split: option.splits)
  have all: "map JE_Step es = ApplySteps" using steps(1) assms(4) by simp
  have "JE_Step (es ! 12) = ''completed''" "JE_Step (es ! 11) = ''proof-assembled''"
    using nth_step [OF all] assms(4) by (simp_all add: ApplySteps_def)
  moreover have "canonicalTime (JE_RecordedAt (es ! 12)) \<noteq> None"
  proof -
    have "es \<noteq> []" "last es = es ! 12" using assms(4) by (auto intro: last_nth [of _ 12])
    then have "es = butlast es @ [es ! 12]" by (metis append_butlast_last_id)
    then have "validateChain [] (butlast es @ [es ! 12])" using verified(1) by (simp add: ready_def)
    then show ?thesis by (auto simp: validateChain_snoc entryExtends_def validateJournalEntry_def split: if_splits)
  qed
  moreover have "receiptMatches p a (makeReceipt p a (es ! 12) r) (es ! 12) r"
    using recorded(2) by (rule receiptMatches_makeReceipt)
  moreover have "ER_CompletedAt (makeReceipt p a (es ! 12) r) = JE_RecordedAt (es ! 12)"
    "ER_Targets (makeReceipt p a (es ! 12) r) = Rs_Targets r"
    by (simp_all add: makeReceipt_def Let_def)
  ultimately show ?thesis
    using assms plan verified(2) all recorded validateProofResponse_parts [OF recorded(2)]
    unfolding ValidateReceipt_def Let_def by simp
qed

lemma issueReceipt_live:
  assumes "calm env" "holds w es" "validateApprovalBinding p a = None" "verifyJournalBinding p a es = None"
    "\<not> rollbackStarted es" "length es = 13" "recordedProof p (es ! 11) = Some r" "2 \<le> journal_size es"
    "journal_size es \<le> maxJournalBytes"
  shows "\<exists>w'. issueReceipt env p a w = (Inr (makeReceipt p a (es ! 12) r), w') \<and> W_Journal w' = W_Journal w \<and>
    W_Calls w' = W_Calls w"
proof -
  obtain w1 where load: "journal_load env w = (Inr es, w1)" "W_Journal w1 = W_Journal w" "W_Calls w1 = W_Calls w"
    using calm_load [OF assms(1,2) verifyJournalBinding_ready(2) [OF assms(4)] assms(8,9)] .
  have "ValidateReceipt p a (makeReceipt p a (es ! 12) r) es = None"
    using assms by (intro ValidateReceipt_makeReceipt)
  with load assms(4,6,7) show ?thesis by (simp add: issueReceipt_def Let_def)
qed

text \<open>Recovery of a completed run issues the receipt of its journal and does nothing else.\<close>

lemma runApply_completed:
  assumes "calm env" "holds w es" "validateApprovalBinding p a = None" "verifyJournalBinding p a es = None"
    "\<not> rollbackStarted es" "length es = 13" "recordedProof p (es ! 11) = Some r" "2 \<le> journal_size es"
    "journal_size es \<le> maxJournalBytes"
  shows "\<exists>w'. runApply env p a adapter w = (Inr (makeReceipt p a (es ! 12) r), w') \<and> W_Journal w' = W_Journal w \<and>
    W_Calls w' = W_Calls w"
proof -
  note verified = verifyJournalBinding_ready [OF assms(4)]
  obtain w1 where load: "journal_load env w = (Inr es, w1)" "W_Journal w1 = W_Journal w" "W_Calls w1 = W_Calls w"
    using calm_load [OF assms(1,2) verified(2) assms(8,9)] .
  have "holds w1 es" using assms(2) load(2) by (simp add: holds_def)
  from issueReceipt_live [OF assms(1) this assms(3-9)] obtain w2 where
    issue: "issueReceipt env p a w1 = (Inr (makeReceipt p a (es ! 12) r), w2)" "W_Journal w2 = W_Journal w1" "W_Calls w2 = W_Calls w1"
    by blast
  have "JE_Step (es ! 12) = ''completed''"
    using ready_steps(1) [OF verified(1) assms(5)] nth_step [of es "take (length es) ApplySteps" 12] assms(6)
    by (simp add: ApplySteps_12)
  with issue(1) assms(6,7) have "finishApply env p a es w1 = (Inr (makeReceipt p a (es ! 12) r), w2)"
    by (simp add: finishApply_def)
  moreover have "applyLoop env p a adapter es w1 = (Inr es, w1)"
    using assms(6) by (subst applyLoop.simps) simp
  ultimately show ?thesis using load issue assms(4,5) by (simp add: runApply_def)
qed

text \<open>The proof that an apply run recorded, and the run's completion.\<close>

lemma proof_recorded:
  assumes "verifyJournalBinding p a es = None" "\<not> rollbackStarted es" "length es = 12" "recordedProof p (es ! 11) = Some r"
  shows "last es = es ! 11" "JE_Step (es ! 11) = ''proof-assembled''" "JE_Response (es ! 11) = Some r"
    "JE_ResponseSHA256 (es ! 11) = Rs_ResponseSHA256 r" "validSHA (Rs_ResponseSHA256 r)"
proof -
  note verified = verifyJournalBinding_ready [OF assms(1)]
  note steps = ready_steps [OF verified(1) assms(2)]
  show last: "last es = es ! 11" using assms(3) by (intro last_nth) simp
  show step: "JE_Step (es ! 11) = ''proof-assembled''"
    using nth_step [OF steps(1), of 11] assms(3) by (simp add: ApplySteps_def)
  show recorded: "JE_Response (es ! 11) = Some r" by (rule recordedProof_Some(1) [OF assms(4)])
  have "verifyEntry p a es 11 = None" using verified(3) assms(3) by simp
  then have "verifyAdapterEntry p a es 11 = None" by (rule verifyEntry_adapter) (simp add: step)
  then show sha: "JE_ResponseSHA256 (es ! 11) = Rs_ResponseSHA256 r"
    using recorded by (auto elim!: verifyAdapterEntry_response simp: step assms(3) has_prefix_def)
  have "es \<noteq> []" using assms(3) by auto
  then have "entryWellFormed (last es)"
    using verified(1) chain_entry(1) [of "butlast es" "last es"] by (simp add: ready_def)
  then show "validSHA (Rs_ResponseSHA256 r)" by (simp add: entryWellFormed_def last sha)
qed

lemma finishApply_live:
  assumes "calm env" "steady_clock env" "resumable env p a w es" "12 \<le> length es" "validateApprovalBinding p a = None"
    and plan: "validID (Pl_OperationID p)" "validSHA (EI_ExecutableSHA256 (Pl_Adapter p))"
  shows "\<exists>r w'. finishApply env p a es w = (Inr r, w')"
proof -
  have start: "holds w es" "verifyJournalBinding p a es = None" "\<not> rollbackStarted es"
    "\<forall>e \<in> set es. entry_size e \<le> 128 * 1024"
    using assms(3) by (auto simp: resumable_def)
  obtain r where r: "recordedProof p (es ! 11) = Some r" using assms(3,4) by (auto simp: resumable_def)
  note verified = verifyJournalBinding_ready [OF start(2)]
  note steps = ready_steps [OF verified(1) start(3)]
  have step: "JE_Step (es ! i) = ApplySteps ! i" if "i < length es" for i
    using nth_step [OF steps(1) that] that steps(2) by simp
  have receipt: "\<exists>r w'. issueReceipt env p a w1 = (Inr r, w')"
    if "holds w1 fs" "verifyJournalBinding p a fs = None" "\<not> rollbackStarted fs" "length fs = 13"
      "recordedProof p (fs ! 11) = Some r" "\<forall>e \<in> set fs. entry_size e \<le> 128 * 1024" for w1 fs
    using issueReceipt_live [OF assms(1) that(1) assms(5) that(2-5)] journal_size_bounds [OF _ _ that(6)] that(4) by fastforce
  show ?thesis
  proof (cases "length es = 12")
    case False
    then have "length es = 13" using steps(2) assms(4) by simp
    with start r receipt [of w es] step [of 12] show ?thesis by (simp add: finishApply_def ApplySteps_12)
  next
    case True
    obtain rq rs where digests: "completedDigests (Rs_ResponseSHA256 r) = (rq, rs)"
      by (cases "completedDigests (Rs_ResponseSHA256 r)")
    obtain now w1 where clock: "read_clock env w = (now, w1)" by (cases "read_clock env w")
    let ?e = "newJournalEntry now (length es + 1) p a (ApplySteps ! length es) rq rs (JE_EntrySHA256 (last es)) None"
    note evidence = proof_recorded [OF start(2,3) True r]
    have valid: "validSHA rq" "validSHA rs" using digests evidence(5) by (auto simp: completedDigests_def)
    have "verifyEntry p a (es @ [?e]) (length es) = None"
      using True digests evidence by (intro ready_completion [where r = r]) simp_all
    then have "\<exists>w2. journal_append env ?e w1 = (None, w2) \<and> resumable env p a w2 (es @ [?e])"
      using True valid by (intro resumable_append [OF assms(1-3) _ plan _ _ _ clock refl]) simp_all
    then obtain w2 where w2: "journal_append env ?e w1 = (None, w2)" "resumable env p a w2 (es @ [?e])" by blast
    have "\<exists>r w'. issueReceipt env p a w2 = (Inr r, w')"
      using w2(2) True r by (intro receipt [of w2 "es @ [?e]"]) (auto simp: resumable_def nth_append)
    with True digests clock w2(1) r evidence(2) show ?thesis
      by (simp add: finishApply_def Let_def ApplySteps_12)
  qed
qed

lemma validPlan_identity:
  assumes "validateApprovalBinding p a = None"
  shows "validID (Pl_OperationID p)" "validSHA (EI_ExecutableSHA256 (Pl_Adapter p))"
proof -
  have "ValidatePlan p = None" using assms by (auto simp: validateApprovalBinding_def split: option.splits)
  then show "validID (Pl_OperationID p)" "validSHA (EI_ExecutableSHA256 (Pl_Adapter p))"
    by (auto simp: ValidatePlan_def validPlanHeader_def split: if_splits)
qed

lemma Recover_open:
  assumes "calm env" "holds w es" "verifyJournalBinding p a es = None" "2 \<le> journal_size es" "journal_size es \<le> maxJournalBytes"
    "\<not> rollbackStarted es" "adapter \<noteq> None" "Adapter_IdentitySHA256 adapter = EI_ExecutableSHA256 (Pl_Adapter p)"
    "validateApprovalBinding p a = None" "c = AR_ApprovalTuple a"
  shows "\<exists>w1. Recover env p a c adapter w = runApply env p a adapter w1 \<and> W_Journal w1 = W_Journal w \<and>
    W_Calls w1 = W_Calls w \<and> W_Tick w1 = Suc (W_Tick w)"
proof -
  obtain now w1 where clock: "read_clock env w = (now, w1)" by (cases "read_clock env w")
  have w1: "W_Journal w1 = W_Journal w" "W_Calls w1 = W_Calls w" "W_Tick w1 = Suc (W_Tick w)" "holds w1 es"
    using clock assms(2) by (auto simp: read_clock_def holds_def)
  obtain w2 where w2: "openJournalTransaction env w1 = (None, w2)" "W_Journal w2 = W_Journal w1" "W_Calls w2 = W_Calls w1"
    "W_Tick w2 = W_Tick w1"
    using calm_open [OF assms(1) w1(4) assms(4,5)] .
  have "holds w2 es" using w1(4) w2(2) by (simp add: holds_def)
  obtain w3 where w3: "journal_load env w2 = (Inr es, w3)" "W_Journal w3 = W_Journal w2" "W_Calls w3 = W_Calls w2"
    "W_Tick w3 = W_Tick w2"
    using calm_load [OF assms(1) \<open>holds w2 es\<close> verifyJournalBinding_ready(2) [OF assms(3)] assms(4,5)] .
  have "validateExecutionInput p a c adapter now False = None"
    using assms(7-10) by (simp add: validateExecutionInput_def)
  with clock w1 w2 w3 assms(3,6) show ?thesis
    by (intro exI [of _ w3]) (simp add: Recover_def openBound_def)
qed

lemma runApply_live:
  assumes "calm env" "steady_clock env" "resumable env p a w es" "honest p ad"
    "Ad_Identity ad = EI_ExecutableSHA256 (Pl_Adapter p)" "validateApprovalBinding p a = None"
  shows "\<exists>r w'. runApply env p a (Some ad) w = (Inr r, w')"
proof -
  have start: "holds w es" "verifyJournalBinding p a es = None" "\<not> rollbackStarted es"
    "\<forall>e \<in> set es. entry_size e \<le> 128 * 1024"
    using assms(3) by (auto simp: resumable_def)
  note verified = verifyJournalBinding_ready [OF start(2)]
  note plan = validPlan_identity [OF assms(6)]
  have "es \<noteq> []" using verified(1) by (simp add: ready_def)
  note sizes = journal_size_bounds [OF this ready_length [OF verified(1)] start(4)]
  obtain w2 where w2: "journal_load env w = (Inr es, w2)" "W_Journal w2 = W_Journal w" "W_Tick w2 = W_Tick w"
    using calm_load [OF assms(1) start(1) verified(2) sizes(1,3)] .
  then have "resumable env p a w2 es" using assms(3) by (auto simp: resumable_def holds_def)
  then obtain es' w3 where loop: "applyLoop env p a (Some ad) es w2 = (Inr es', w3)" "resumable env p a w3 es'" "12 \<le> length es'"
    using applyLoop_live [OF assms(1,2,4,5) plan] by blast
  with finishApply_live [OF assms(1,2) loop(2,3) assms(6) plan] w2(1) start(2,3) show ?thesis
    by (simp add: runApply_def)
qed

lemma Recover_live:
  assumes "calm env" "steady_clock env" "resumable env p a w es" "honest p ad"
    "Ad_Identity ad = EI_ExecutableSHA256 (Pl_Adapter p)" "validateApprovalBinding p a = None"
  shows "\<exists>r w'. Recover env p a (AR_ApprovalTuple a) (Some ad) w = (Inr r, w')"
proof -
  have start: "holds w es" "verifyJournalBinding p a es = None" "\<not> rollbackStarted es"
    "\<forall>e \<in> set es. entry_size e \<le> 128 * 1024"
    using assms(3) by (auto simp: resumable_def)
  note verified = verifyJournalBinding_ready [OF start(2)]
  have "es \<noteq> []" using verified(1) by (simp add: ready_def)
  note sizes = journal_size_bounds [OF this ready_length [OF verified(1)] start(4)]
  obtain w1 where w1: "Recover env p a (AR_ApprovalTuple a) (Some ad) w = runApply env p a (Some ad) w1"
    "W_Journal w1 = W_Journal w" "W_Tick w1 = Suc (W_Tick w)"
    using Recover_open [OF assms(1) start(1,2) sizes(1,3) start(3), of "Some ad" "AR_ApprovalTuple a"] assms(5,6)
    by (auto simp: Adapter_IdentitySHA256_def)
  have "Env_Clock env (W_Tick w) \<le> Env_Clock env (W_Tick w1)"
    using assms(2) w1(3) by (simp add: steady_clock_def)
  then have "resumable env p a w1 es"
    using assms(3) w1(2) by (auto simp: resumable_def holds_def)
  with runApply_live [OF assms(1,2) _ assms(4-6)] w1(1) show ?thesis by metis
qed

subsection \<open>After the receipt\<close>

lemma receipt_journal:
  assumes "Apply env p a c adapter w = (Inr r, w') \<or> Recover env p a c adapter w = (Inr r, w')"
  obtains es evidence now and fresh :: bool where "holds w' es" "verifyJournalBinding p a es = None" "\<not> rollbackStarted es" "length es = 13"
    "map JE_Step es = ApplySteps" "2 \<le> journal_size es" "journal_size es \<le> maxJournalBytes"
    "recordedProof p (es ! 11) = Some evidence" "r = makeReceipt p a (es ! 12) evidence"
    "validateExecutionInput p a c adapter now fresh = None"
  using assms
proof (rule receipt_cases)
  fix es now and fresh :: bool
  assume es: "holds w' es" "ValidateReceipt p a r es = None" "length es = 13" "2 \<le> journal_size es"
    "journal_size es \<le> maxJournalBytes" "\<exists>evidence. recordedProof p (es ! 11) = Some evidence \<and> r = makeReceipt p a (es ! 12) evidence"
    "validateExecutionInput p a c adapter now fresh = None"
  have bound: "verifyJournalBinding p a es = None" "map JE_Step es = ApplySteps"
    using ValidateReceipt_parts [OF es(2)] by metis+
  have "\<not> rollbackStarted es" by (rule ApplySteps_not_rollback [OF bound(2)])
  with es bound that show thesis by blast
qed

lemma Recover_again:
  assumes "Apply env p a c adapter w = (Inr r, w') \<or> Recover env p a c adapter w = (Inr r, w')" and "calm env'"
  shows "\<exists>w2. Recover env' p a c adapter w' = (Inr r, w2) \<and> W_Journal w2 = W_Journal w' \<and> W_Calls w2 = W_Calls w'"
  using assms(1)
proof (rule receipt_journal)
  fix es evidence now and fresh :: bool
  assume es: "holds w' es" "verifyJournalBinding p a es = None" "\<not> rollbackStarted es" "length es = 13"
    "map JE_Step es = ApplySteps" "2 \<le> journal_size es" "journal_size es \<le> maxJournalBytes"
    "recordedProof p (es ! 11) = Some evidence" "r = makeReceipt p a (es ! 12) evidence"
    "validateExecutionInput p a c adapter now fresh = None"
  note input = validateExecutionInput_parts [OF es(10)]
  obtain w1 where w1: "Recover env' p a c adapter w' = runApply env' p a adapter w1" "W_Journal w1 = W_Journal w'" "W_Calls w1 = W_Calls w'"
    using Recover_open [OF assms(2) es(1,2,6,7,3) input] by blast
  have "holds w1 es" using es(1) w1(2) by (simp add: holds_def)
  with runApply_completed [OF assms(2) this input(3) es(2,3,4,8,6,7), of adapter] es(9) w1 show ?thesis by auto
qed

lemma Rollback_completed:
  assumes "Apply env p a c adapter w = (Inr r, w') \<or> Recover env p a c adapter w = (Inr r, w')"
  shows "\<exists>err w2. Rollback env' p a' c' adapter' w' = (Some err, w2) \<and> W_Journal w2 = W_Journal w' \<and> W_Calls w2 = W_Calls w'"
  using assms
proof (rule receipt_journal)
  fix es evidence now and fresh :: bool
  assume es: "holds w' es" "length es = 13" "map JE_Step es = ApplySteps"
  have "last es = es ! 12" using es(2) by (intro last_nth) simp
  then have last: "JE_Step (last es) = ''completed''" using nth_step [OF es(3), of 12] es(2) by (simp add: ApplySteps_12)
  obtain now w1 where clock: "read_clock env' w' = (now, w1)" by (cases "read_clock env' w'")
  note w1 = read_clock_world [OF clock]
  obtain out w2 where opened: "openBound env' p a' ''backup drill rollback journal is unavailable'' w1 = (out, w2)"
    by (cases "openBound env' p a' ''backup drill rollback journal is unavailable'' w1")
  have w2: "W_Journal w2 = W_Journal w1" "W_Calls w2 = W_Calls w1" using openBound_world [OF opened] by auto
  have "fs = es" if "out = Inr fs" for fs
    using openBound_Inr [OF opened [unfolded that]] w1 es(1) by (simp add: holds_def)
  then show ?thesis
    using clock opened last w1 w2 unfolding Rollback_def Let_def
    by (cases out) (auto simp: rollbackFrom_def split: option.splits)
qed

end
