(* ===== verification/Drill_Recovery.thy ===== *)
theory Drill_Recovery
  imports Drill_Liveness
begin

text \<open>
  Interrupted runs: whatever the adapter answered and whichever accesses failed, a
  journal that is still readable is one from which the run can be completed.
\<close>

definition intact :: "Environment \<Rightarrow> Plan \<Rightarrow> ApprovalReport \<Rightarrow> World \<Rightarrow> bool" where
  "intact env p a w \<longleftrightarrow> (\<forall>es. holds w es \<longrightarrow> resumable env p a w es)"

subsection \<open>The clock\<close>

lemma journal_load_tick: "journal_load env w = (res, w') \<Longrightarrow> W_Tick w' = W_Tick w"
  by (auto simp: journal_load_def access_def)

lemma open_tick: "openJournalTransaction env w = (res, w') \<Longrightarrow> W_Tick w' = W_Tick w"
  by (auto simp: openJournalTransaction_def access_def)

lemma invoke_tick: "invoke adapter q w = (res, w') \<Longrightarrow> W_Tick w' = W_Tick w"
  by (auto simp: invoke_def split: option.splits if_splits)

lemma journal_append_tick:
  assumes "journal_append env e w = (res, w')"
  shows "W_Tick w' = W_Tick w"
proof -
  obtain loaded w1 where load: "journal_load env w = (loaded, w1)" by (cases "journal_load env w")
  have "W_Tick w' = W_Tick w1"
    using assms load
    by (auto simp: journal_append_def write_entry_def access_def Let_def split: sum.splits if_splits fault.splits)
  with journal_load_tick [OF load] show ?thesis by simp
qed

lemma steady_clock_mono:
  assumes "steady_clock env" "m \<le> n"
  shows "Env_Clock env m \<le> Env_Clock env n"
  using assms(2)
proof (induction rule: dec_induct)
  case (step n)
  then show ?case using assms(1) order_trans by (auto simp: steady_clock_def)
qed simp

lemma resumable_later:
  assumes "steady_clock env" "resumable env p a w es" "W_Journal w' = W_Journal w" "W_Tick w \<le> W_Tick w'"
  shows "resumable env p a w' es"
  using assms(2,3) steady_clock_mono [OF assms(1,4)] by (force simp: resumable_def holds_def)

lemma intact_later:
  assumes "steady_clock env" "intact env p a w" "W_Journal w' = W_Journal w" "W_Tick w \<le> W_Tick w'"
  shows "intact env p a w'"
  using assms resumable_later [OF assms(1) _ assms(3,4)] by (auto simp: intact_def holds_def)

lemma resumable_intact: "resumable env p a w es \<Longrightarrow> intact env p a w"
  by (auto simp: intact_def resumable_def holds_def)

subsection \<open>Steps\<close>

lemma append_intact:
  assumes "steady_clock env" "resumable env p a w es" "length es \<le> 12"
    and clock: "read_clock env w = (now, w1)"
    and e: "e = newJournalEntry now (length es + 1) p a (ApplySteps ! length es) rq rs (JE_EntrySHA256 (last es)) response"
    and verified: "verifyEntry p a (es @ [e]) (length es) = None"
    and recorded: "length es = 11 \<longrightarrow> recordedProof p e \<noteq> None"
    and append: "journal_append env e w1 = (res, w2)"
  shows "intact env p a w2" "res = None \<Longrightarrow> resumable env p a w2 (es @ [e])"
proof -
  have w1: "W_Journal w1 = W_Journal w" "W_Tick w1 = Suc (W_Tick w)" "holds w1 es"
    using clock assms(2) by (auto simp: read_clock_def resumable_def holds_def)
  note tick = journal_append_tick [OF append]
  have "intact env p a w2 \<and> (res = None \<longrightarrow> resumable env p a w2 (es @ [e]))"
    using append
  proof (cases rule: journal_append_cases)
    case unchanged
    with w1 tick show ?thesis
      using resumable_intact [OF resumable_later [OF assms(1,2), of w2]] by auto
  next
    case torn
    then show ?thesis by (auto simp: intact_def holds_def)
  next
    case (written fs)
    then have "fs = es" using w1(3) by (simp add: holds_def)
    with written tick have "resumable env p a w2 (es @ [e])"
      by (intro resumable_written [OF assms(1-3) clock e verified recorded]) simp_all
    then show ?thesis using resumable_intact by blast
  qed
  then show "intact env p a w2" "res = None \<Longrightarrow> resumable env p a w2 (es @ [e])" by simp_all
qed

lemma mutationStep_intact:
  assumes "steady_clock env" "resumable env p a w es" "length es = 1"
    and run: "applyStep env p a adapter es w = (res, w')"
  shows "intact env p a w' \<and> (\<forall>e. res = Inr e \<longrightarrow> resumable env p a w' (es @ [e]))"
proof -
  let ?step = "ApplySteps ! length es" and ?previous = "JE_EntrySHA256 (last es)"
  have mutation: "?step = ''mutation-started''" using assms(3) by (simp add: ApplySteps_0_1)
  obtain rq rs where digests: "mutationStartedDigests p ?previous = (rq, rs)"
    by (cases "mutationStartedDigests p ?previous")
  obtain now w1 where clock: "read_clock env w = (now, w1)" by (cases "read_clock env w")
  let ?e = "newJournalEntry now (length es + 1) p a ?step rq rs ?previous None"
  obtain err w2 where append: "journal_append env ?e w1 = (err, w2)" by (cases "journal_append env ?e w1")
  have "verifyEntry p a (es @ [?e]) (length es) = None"
    using assms(3) digests by (intro ready_mutation_step) simp_all
  then have kept: "intact env p a w2" "err = None \<Longrightarrow> resumable env p a w2 (es @ [?e])"
    using append_intact [OF assms(1,2) _ clock refl _ _ append] assms(3) by simp_all
  have "res = (case err of None \<Rightarrow> Inr ?e | Some _ \<Rightarrow> Inl ''record backup drill mutation start'') \<and> w' = w2"
    using run mutation digests clock append by (cases err) (simp_all add: applyStep_def)
  with kept show ?thesis by (cases err) simp_all
qed

lemma adapterStep_intact:
  assumes "steady_clock env" "resumable env p a w es" "2 \<le> length es" "length es \<le> 11"
    and run: "applyStep env p a adapter es w = (res, w')"
  shows "intact env p a w' \<and> (\<forall>e. res = Inr e \<longrightarrow> resumable env p a w' (es @ [e]))"
proof -
  define step where "step = ApplySteps ! length es"
  define q where "q = newAdapterRequest p (Some a) ''apply'' step (JE_EntrySHA256 (last es))"
  have later: "step \<noteq> ''mutation-started''" using ApplySteps_later assms(3,4) by (simp add: step_def)
  obtain result w1 where call: "invoke adapter q w = (result, w1)" by (cases "invoke adapter q w")
  have w1: "resumable env p a w1 es"
    using invoke_world(1) [OF call] invoke_tick [OF call] by (intro resumable_later [OF assms(1,2)]) simp_all
  show ?thesis
  proof (cases "stepResult p step result")
    case (Inl err)
    then have "res = Inl err" "w' = w1"
      using run later call unfolding applyStep_def Let_def step_def [symmetric] q_def [symmetric] by simp_all
    with resumable_intact [OF w1] show ?thesis by simp
  next
    case (Inr r)
    then have result: "result = Answered r" "step = ''proof-assembled'' \<longrightarrow> validateProofResponse p r = None"
      by (auto simp: stepResult_def split: InvokeResult.splits if_splits option.splits)
    note valid = invoke_Answered [OF call [unfolded result(1)]]
    obtain now w2 where clock: "read_clock env w1 = (now, w2)" by (cases "read_clock env w1")
    define e where "e = newJournalEntry now (length es + 1) p a step (Rq_RequestSHA256 q) (Rs_ResponseSHA256 r)
      (JE_EntrySHA256 (last es)) (Some r)"
    obtain err w3 where append: "journal_append env e w2 = (err, w3)" by (cases "journal_append env e w2")
    have "verifyEntry p a (es @ [e]) (length es) = None"
      using assms(3,4) valid by (intro ready_adapter_step [where r = r]) (simp_all add: e_def q_def step_def)
    moreover have "length es = 11 \<longrightarrow> recordedProof p e \<noteq> None"
      using result(2) by (auto simp: recordedProof_def ApplySteps_def e_def step_def)
    moreover have "length es \<le> 12" using assms(4) by simp
    ultimately have kept: "intact env p a w3" "err = None \<Longrightarrow> resumable env p a w3 (es @ [e])"
      using append_intact [OF assms(1) w1 _ clock e_def [unfolded step_def] _ _ append] by blast+
    have "res = (case err of None \<Rightarrow> Inr e | Some _ \<Rightarrow> Inl ''append backup drill execution journal'') \<and> w' = w3"
      using run later call Inr clock append
      unfolding applyStep_def Let_def step_def [symmetric] q_def [symmetric] by (cases err) (simp_all add: e_def)
    with kept show ?thesis by (cases err) simp_all
  qed
qed

lemma applyStep_intact:
  assumes "steady_clock env" "resumable env p a w es" "length es \<le> 11"
    and run: "applyStep env p a adapter es w = (res, w')"
  shows "intact env p a w' \<and> (\<forall>e. res = Inr e \<longrightarrow> resumable env p a w' (es @ [e]))"
proof -
  have start: "verifyJournalBinding p a es = None" "\<not> rollbackStarted es"
    using assms(2) by (auto simp: resumable_def)
  have "1 \<le> length es" by (rule ready_steps(3) [OF verifyJournalBinding_ready(1) [OF start(1)] start(2)])
  then consider "length es = 1" | "2 \<le> length es" by linarith
  then show ?thesis
    using mutationStep_intact [OF assms(1,2) _ run] adapterStep_intact [OF assms(1,2) _ assms(3) run] by cases
qed

lemma applyLoop_intact:
  assumes "steady_clock env" "resumable env p a w es" "applyLoop env p a adapter es w = (res, w')"
  shows "intact env p a w' \<and> (\<forall>es'. res = Inr es' \<longrightarrow> resumable env p a w' es' \<and> 12 \<le> length es')"
  using assms(2,3)
proof (induction "12 - length es" arbitrary: es w)
  case 0
  then have "res = Inr es" "w' = w" by (auto simp: applyLoop.simps)
  with 0 resumable_intact show ?case by auto
next
  case (Suc n)
  then have len: "length es \<le> 11" by simp
  obtain out w1 where step: "applyStep env p a adapter es w = (out, w1)" by (cases "applyStep env p a adapter es w")
  note kept = applyStep_intact [OF assms(1) Suc.prems(1) len step]
  show ?case
  proof (cases out)
    case (Inl err)
    then have "res = Inl err" "w' = w1" using Suc.prems(2) len step by (auto simp: applyLoop.simps)
    with kept show ?thesis by simp
  next
    case (Inr e)
    then have "applyLoop env p a adapter (es @ [e]) w1 = (res, w')"
      using Suc.prems(2) len step by (subst (asm) applyLoop.simps) simp
    with Suc.hyps(2) kept Inr show ?thesis by (intro Suc.hyps(1) [of "es @ [e]"]) simp_all
  qed
qed

lemma issueReceipt_intact:
  assumes "steady_clock env" "intact env p a w" "issueReceipt env p a w = (res, w')"
  shows "intact env p a w'"
proof -
  obtain loaded w1 where load: "journal_load env w = (loaded, w1)" by (cases "journal_load env w")
  have "w' = w1"
    using assms(3) load by (auto simp: issueReceipt_def Let_def split: sum.splits if_splits option.splits)
  with journal_load_tick [OF load] journal_load_world [OF load] show ?thesis
    by (intro intact_later [OF assms(1,2)]) simp_all
qed

lemma finishApply_intact:
  assumes "steady_clock env" "resumable env p a w es" "12 \<le> length es" "finishApply env p a es w = (res, w')"
  shows "intact env p a w'"
proof -
  have start: "verifyJournalBinding p a es = None" "\<not> rollbackStarted es"
    using assms(2) by (auto simp: resumable_def)
  obtain r where r: "recordedProof p (es ! 11) = Some r" using assms(2,3) by (auto simp: resumable_def)
  note steps = ready_steps [OF verifyJournalBinding_ready(1) [OF start(1)] start(2)]
  show ?thesis
  proof (cases "length es = 12")
    case False
    then have len: "length es = 13" using steps(2) assms(3) by simp
    then have "JE_Step (es ! 12) = ''completed''" using nth_step [OF steps(1), of 12] by (simp add: ApplySteps_12)
    then have "issueReceipt env p a w = (res, w')" using assms(4) len r by (simp add: finishApply_def)
    then show ?thesis by (rule issueReceipt_intact [OF assms(1) resumable_intact [OF assms(2)]])
  next
    case True
    note evidence = proof_recorded [OF start True r]
    obtain rq rs where digests: "completedDigests (Rs_ResponseSHA256 r) = (rq, rs)"
      by (cases "completedDigests (Rs_ResponseSHA256 r)")
    obtain now w1 where clock: "read_clock env w = (now, w1)" by (cases "read_clock env w")
    let ?e = "newJournalEntry now (length es + 1) p a (ApplySteps ! length es) rq rs (JE_EntrySHA256 (last es)) None"
    obtain err w2 where append: "journal_append env ?e w1 = (err, w2)" by (cases "journal_append env ?e w1")
    have "verifyEntry p a (es @ [?e]) (length es) = None"
      using True digests evidence by (intro ready_completion [where r = r]) simp_all
    note kept = append_intact(1) [OF assms(1,2) _ clock refl this _ append]
    have "w' = w2 \<or> issueReceipt env p a w2 = (res, w')"
      using assms(4) True r digests clock append evidence(2)
      by (cases err) (simp_all add: finishApply_def Let_def ApplySteps_12)
    with kept True issueReceipt_intact [OF assms(1)] show ?thesis by auto
  qed
qed

subsection \<open>Operations\<close>

lemma runApply_intact:
  assumes "steady_clock env" "intact env p a w" "runApply env p a adapter w = (res, w')"
  shows "intact env p a w'"
proof -
  obtain loaded w1 where load: "journal_load env w = (loaded, w1)" by (cases "journal_load env w")
  have w1: "intact env p a w1"
    using journal_load_tick [OF load] journal_load_world [OF load] by (intro intact_later [OF assms(1,2)]) simp_all
  show ?thesis
  proof (cases "\<exists>es. loaded = Inr es \<and> verifyJournalBinding p a es = None \<and> \<not> rollbackStarted es")
    case False
    then have "w' = w1" using assms(3) load by (auto simp: runApply_def split: sum.splits if_splits)
    with w1 show ?thesis by simp
  next
    case True
    then obtain es where es: "loaded = Inr es" "verifyJournalBinding p a es = None" "\<not> rollbackStarted es" by blast
    have start: "resumable env p a w1 es" using w1 journal_load_Inr(2) [OF load [unfolded es(1)]] by (simp add: intact_def)
    obtain out w2 where loop: "applyLoop env p a adapter es w1 = (out, w2)" by (cases "applyLoop env p a adapter es w1")
    note kept = applyLoop_intact [OF assms(1) start loop]
    from assms(3) load es loop have "w' = w2 \<or> (\<exists>es'. out = Inr es' \<and> finishApply env p a es' w2 = (res, w'))"
      by (cases out) (auto simp: runApply_def)
    with kept finishApply_intact [OF assms(1)] show ?thesis by blast
  qed
qed

lemma Recover_intact:
  assumes "steady_clock env" "intact env p a w" "Recover env p a c adapter w = (res, w')"
  shows "intact env p a w'"
proof -
  obtain now w1 where clock: "read_clock env w = (now, w1)" by (cases "read_clock env w")
  obtain err w2 where opened: "openJournalTransaction env w1 = (err, w2)" by (cases "openJournalTransaction env w1")
  obtain loaded w3 where load: "journal_load env w2 = (loaded, w3)" by (cases "journal_load env w2")
  have w1: "intact env p a w1" using clock by (intro intact_later [OF assms(1,2)]) (auto simp: read_clock_def)
  then have w2: "intact env p a w2"
    using open_world [OF opened] open_tick [OF opened] by (intro intact_later [OF assms(1) w1]) simp_all
  then have w3: "intact env p a w3"
    using journal_load_tick [OF load] journal_load_world [OF load] by (intro intact_later [OF assms(1) w2]) simp_all
  have "w' \<in> {w1, w2, w3} \<or> runApply env p a adapter w3 = (res, w')"
    using assms(3) clock opened load
    by (auto simp: Recover_def openBound_def Let_def split: option.splits sum.splits if_splits)
  with w1 w2 w3 runApply_intact [OF assms(1) w3] show ?thesis by auto
qed

text \<open>The first entry.\<close>

lemma resumable_first:
  assumes "steady_clock env" "approvalConsumedDigests p a = (rq, rs)" "read_clock env w = (now, w1)"
    and e: "e = newJournalEntry now 1 p a (ApplySteps ! 0) rq rs [] None"
    and "validateJournalEntry e None = None" "holds w2 [e]" "W_Tick w2 = W_Tick w1"
  shows "resumable env p a w2 [e]"
proof -
  have now: "now = Env_Clock env (W_Tick w)" "W_Tick w1 = Suc (W_Tick w)" "time_in_range now"
    using assms(1,3) by (auto simp: read_clock_def steady_clock_def)
  have step: "JE_Step e = ''approval-consumed''" by (simp add: e ApplySteps_0_1)
  have "validateChain [] [e]"
    using assms(5) step by (simp add: entryExtends_def last_entry_def validTransition_def e ApplySteps_0_1)
  moreover have "verifyEntry p a [e] 0 = None"
    using assms(2) step by (simp add: verifyEntry_def Let_def derivedEntry_def e)
  ultimately have "verifyJournalBinding p a [e] = None"
    by (simp add: verifyJournalBinding_def validateJournalEntries_None guards)
  moreover have "\<not> rollbackStarted [e]" using step by (simp add: rollbackStarted_def has_prefix_def)
  moreover have "canonicalTime (JE_RecordedAt e) = Some now"
    using now(3) by (simp add: e canonicalTime_def parse_canonical_time_Format)
  moreover have "now \<le> Env_Clock env (W_Tick w2)" using now assms(1,7) by (simp add: steady_clock_def)
  moreover have "entry_size e \<le> 128 * 1024"
  proof -
    have "entryWellFormed e" using assms(5) by (auto simp: validateJournalEntry_def split: if_splits)
    then have valid: "validID (Pl_OperationID p)" "validSHA (EI_ExecutableSHA256 (Pl_Adapter p))" "validSHA rq" "validSHA rs"
      by (auto simp: e entryWellFormed_def newJournalEntry_def Let_def)
    then have "length (Pl_OperationID p) \<le> 128"
      unfolding validID_def idPattern_def MatchString_exact MatchString_one by auto
    with valid now(3) show ?thesis unfolding e by (intro entry_size_new) (auto simp: validSHA_iff ApplySteps_def)
  qed
  ultimately show ?thesis using assms(6) by (simp add: resumable_def)
qed

lemma CreateJournal_cases:
  assumes "CreateJournal env e w = (res, w')"
  obtains "W_Journal w' = W_Journal w" "W_Tick w' = W_Tick w"
  | "holds w' [e]" "W_Tick w' = W_Tick w" "validateJournalEntry e None = None"
  using assms
  by (auto simp: CreateJournal_def access_def holds_def Let_def split: if_splits option.splits fault.splits)

lemma Apply_intact:
  assumes "steady_clock env" "intact env p a w" "Apply env p a c adapter w = (res, w')"
  shows "intact env p a w'"
proof -
  obtain now w1 where clock: "read_clock env w = (now, w1)" by (cases "read_clock env w")
  obtain f w2 where access: "access env w1 = (f, w2)" by (cases "access env w1")
  obtain rq rs where digests: "approvalConsumedDigests p a = (rq, rs)" by (cases "approvalConsumedDigests p a")
  obtain now' w3 where clock': "read_clock env w2 = (now', w3)" by (cases "read_clock env w2")
  define e where "e = newJournalEntry now' 1 p a (ApplySteps ! 0) rq rs [] None"
  obtain err w4 where create: "CreateJournal env e w3 = (err, w4)" by (cases "CreateJournal env e w3")
  obtain err' w5 where opened: "openJournalTransaction env w4 = (err', w5)" by (cases "openJournalTransaction env w4")
  have w: "W_Journal w1 = W_Journal w" "W_Journal w2 = W_Journal w" "W_Journal w3 = W_Journal w"
    "W_Tick w \<le> W_Tick w1" "W_Tick w \<le> W_Tick w2" "W_Tick w \<le> W_Tick w3"
    using clock access clock' by (auto simp: read_clock_def access_def)
  then have early: "intact env p a w1" "intact env p a w2" "intact env p a w3"
    using intact_later [OF assms(1,2)] by blast+
  have w4: "intact env p a w4"
    using create
  proof (cases rule: CreateJournal_cases)
    case 1
    then show ?thesis by (intro intact_later [OF assms(1) early(3)]) simp_all
  next
    case 2
    then show ?thesis by (intro resumable_intact [OF resumable_first [OF assms(1) digests clock' e_def]])
  qed
  then have w5: "intact env p a w5"
    using open_world [OF opened] open_tick [OF opened] by (intro intact_later [OF assms(1) w4]) simp_all
  have "w' \<in> {w1, w2, w4, w5} \<or> runApply env p a adapter w5 = (res, w')"
    using assms(3) clock access digests clock' create opened unfolding e_def Apply_def
    by (auto split: option.splits if_splits)
  with early w4 w5 runApply_intact [OF assms(1) w5] show ?thesis by auto
qed

subsection \<open>Attempts\<close>

text \<open>One plan under one approval, tried and recovered any number of times, each time with its own adapter.\<close>

fun attempt_of :: "Plan \<Rightarrow> ApprovalReport \<Rightarrow> DrillOp \<Rightarrow> bool" where
  "attempt_of p a (OpApply p' a' c ad) \<longleftrightarrow> p' = p \<and> a' = a"
| "attempt_of p a (OpRecover p' a' c ad) \<longleftrightarrow> p' = p \<and> a' = a"
| "attempt_of p a (OpRollback p' a' c ad) \<longleftrightarrow> False"

lemma attempts_intact:
  assumes "steady_clock env" "list_all (attempt_of p a) ops" "intact env p a w"
  shows "intact env p a (run_ops env ops w)"
  using assms(2,3)
proof (induction ops arbitrary: w)
  case (Cons op ops)
  have "intact env p a (run_op env op w)"
    using Cons.prems Apply_intact [OF assms(1) _ surjective_pairing] Recover_intact [OF assms(1) _ surjective_pairing]
    by (cases op) simp_all
  with Cons show ?case by (simp add: run_ops_def)
qed (simp add: run_ops_def)

definition calmed :: "Environment \<Rightarrow> Environment" where
  "calmed env = env\<lparr>Env_IO := \<lambda>_. NoFault\<rparr>"

lemma calmed [simp]: "calm (calmed env)" "steady_clock (calmed env) \<longleftrightarrow> steady_clock env"
  "resumable (calmed env) p a w es \<longleftrightarrow> resumable env p a w es"
  by (simp_all add: calmed_def calm_def steady_clock_def resumable_def)

lemma attempts_recover:
  assumes "steady_clock env" "list_all (attempt_of p a) ops" "holds (run_ops env ops initial_world) es"
    "honest p ad" "Ad_Identity ad = EI_ExecutableSHA256 (Pl_Adapter p)" "validateApprovalBinding p a = None"
  shows "\<exists>r w. Recover (calmed env) p a (AR_ApprovalTuple a) (Some ad) (run_ops env ops initial_world) = (Inr r, w)"
proof -
  have "intact env p a initial_world" by (simp add: intact_def holds_def initial_world_def)
  then have "resumable env p a (run_ops env ops initial_world) es"
    using attempts_intact [OF assms(1,2)] assms(3) by (simp add: intact_def)
  then show ?thesis using Recover_live [OF _ _ _ assms(4-6)] assms(1) by simp
qed

subsection \<open>A fresh run\<close>

lemma first_entry_valid:
  assumes "validID (Pl_OperationID p)" "validSHA (EI_ExecutableSHA256 (Pl_Adapter p))" "time_in_range now"
    "approvalConsumedDigests p a = (rq, rs)" "validSHA (AR_PreflightResponseSHA256 a)"
  shows "validateJournalEntry (newJournalEntry now 1 p a (ApplySteps ! 0) rq rs [] None) None = None"
proof -
  have "validID (ApplySteps ! 0)" by code_simp
  moreover have "validSHA rq" "validSHA rs" using assms(4,5) by (auto simp: approvalConsumedDigests_def)
  ultimately show ?thesis
    using assms(1-3) by (simp add: validateJournalEntry_def entryWellFormed_def responseHashBound_def newJournalEntry_def Let_def
        JournalEntrySHA256_def PlanSHA256_def ApprovalSHA256_def ApprovalScopeSHA256_def canonicalTime_def parse_canonical_time_Format)
qed

lemma Apply_live:
  assumes "calm env" "steady_clock env" "W_Journal w = None" "honest p ad"
    "Ad_Identity ad = EI_ExecutableSHA256 (Pl_Adapter p)" "ValidateApproval p a (Env_Clock env (W_Tick w)) = None"
  shows "\<exists>r w'. Apply env p a (AR_ApprovalTuple a) (Some ad) w = (Inr r, w')"
proof -
  have approved: "validateApprovalBinding p a = None"
    using assms(6) by (cases "validateApprovalBinding p a") (auto simp: ValidateApproval_def)
  note plan = validPlan_identity [OF this]
  have sha: "validSHA (AR_PreflightResponseSHA256 a)"
    using approved by (auto simp: validateApprovalBinding_def approvalMatches_def split: option.splits if_splits)
  obtain rq rs where digests: "approvalConsumedDigests p a = (rq, rs)" by (cases "approvalConsumedDigests p a")
  define w2 where "w2 = w\<lparr>W_Tick := W_Tick w + 1, W_Io := W_Io w + 1\<rparr>"
  obtain now w3 where clock: "read_clock env w2 = (now, w3)" by (cases "read_clock env w2")
  define e where "e = newJournalEntry now 1 p a (ApplySteps ! 0) rq rs [] None"
  have now: "time_in_range now" "W_Journal w3 = None" using clock assms(2,3) by (auto simp: read_clock_def steady_clock_def w2_def)
  have valid: "validateJournalEntry e None = None" unfolding e_def by (rule first_entry_valid [OF plan now(1) digests sha])
  define w4 where "w4 = w3\<lparr>W_Io := W_Io w3 + 1, W_Journal := Some \<lparr>JF_Entries = [e], JF_Torn = False\<rparr>\<rparr>"
  have create: "CreateJournal env e w3 = (None, w4)"
    using valid now(2) assms(1) by (simp add: CreateJournal_def e_def access_def calm_def w4_def Let_def)
  have "resumable env p a w4 [e]"
    using resumable_first [OF assms(2) digests clock e_def valid] by (simp add: w4_def holds_def)
  moreover from this have sizes: "2 \<le> journal_size [e]" "journal_size [e] \<le> maxJournalBytes"
    using journal_size_bounds [of "[e]"] by (auto simp: resumable_def)
  moreover have "holds w4 [e]" by (simp add: w4_def holds_def)
  ultimately obtain w5 where opened: "openJournalTransaction env w4 = (None, w5)" and w5: "resumable env p a w5 [e]"
    using calm_open [OF assms(1), of w4 "[e]"] resumable_later [OF assms(2)] by (metis order_refl)
  have "Apply env p a (AR_ApprovalTuple a) (Some ad) w = runApply env p a (Some ad) w5"
    using assms digests clock create opened
    by (simp add: Apply_def validateExecutionInput_def Adapter_IdentitySHA256_def read_clock_def [of env w] access_def calm_def
        Let_def w2_def e_def)
  with runApply_live [OF assms(1,2) w5 assms(4,5) approved] show ?thesis by simp
qed

subsection \<open>Bounded work\<close>

text \<open>The requests an operation sends are few, whatever happens.\<close>

lemma invoke_calls: "invoke adapter q w = (res, w') \<Longrightarrow> length (W_Calls w') \<le> length (W_Calls w) + 1"
  using invoke_world(2) by fastforce

lemma journal_append_calls: "journal_append env e w = (res, w') \<Longrightarrow> W_Calls w' = W_Calls w"
  by (erule journal_append_cases) simp_all

lemma mutation_calls:
  assumes "applyStep env p a adapter es w = (res, w')" "ApplySteps ! length es = ''mutation-started''"
  shows "W_Calls w' = W_Calls w"
  using assms unfolding applyStep_def Let_def
  by (auto simp: read_clock_def dest!: journal_append_calls split: prod.splits option.splits)

lemma applyStep_calls:
  assumes "applyStep env p a adapter es w = (res, w')"
  shows "length (W_Calls w') \<le> length (W_Calls w) + (if length es = 1 then 0 else 1)"
proof -
  define step where "step = ApplySteps ! length es"
  define q where "q = newAdapterRequest p (Some a) ''apply'' step (JE_EntrySHA256 (last es))"
  obtain result w1 where call: "invoke adapter q w = (result, w1)" by (cases "invoke adapter q w")
  show ?thesis
  proof (cases "step = ''mutation-started''")
    case True
    then show ?thesis using mutation_calls [OF assms] by (simp add: step_def)
  next
    case False
    then have "length es \<noteq> 1" by (auto simp: step_def ApplySteps_0_1)
    moreover have "W_Calls w' = W_Calls w1"
      using assms False call unfolding applyStep_def Let_def step_def [symmetric] q_def [symmetric]
      by (auto simp: read_clock_def dest!: journal_append_calls split: prod.splits option.splits sum.splits)
    ultimately show ?thesis using invoke_calls [OF call] by simp
  qed
qed

lemma applyLoop_calls:
  assumes "applyLoop env p a adapter es w = (res, w')" "1 \<le> length es"
  shows "length (W_Calls w') \<le> length (W_Calls w) + (12 - max 2 (length es))"
  using assms
proof (induction "12 - length es" arbitrary: es w)
  case 0
  then show ?case by (simp add: applyLoop.simps)
next
  case (Suc n)
  then have len: "length es < 12" by simp
  obtain out w1 where step: "applyStep env p a adapter es w = (out, w1)" by (cases "applyStep env p a adapter es w")
  note calls = applyStep_calls [OF step]
  show ?case
  proof (cases out)
    case (Inl err)
    then have "w' = w1" using Suc.prems(1) len step by (simp add: applyLoop.simps)
    with calls len show ?thesis by (simp split: if_splits)
  next
    case (Inr e)
    then have "applyLoop env p a adapter (es @ [e]) w1 = (res, w')"
      using Suc.prems(1) len step by (subst (asm) applyLoop.simps) simp
    then have "length (W_Calls w') \<le> length (W_Calls w1) + (12 - max 2 (length (es @ [e])))"
      using Suc.hyps(2) by (intro Suc.hyps(1)) simp_all
    with calls len Suc.prems(2) show ?thesis by (simp split: if_splits)
  qed
qed

lemma finishApply_calls:
  assumes "finishApply env p a es w = (res, w')"
  shows "W_Calls w' = W_Calls w"
  using assms unfolding finishApply_def Let_def
  by (auto simp: read_clock_def dest!: journal_append_calls issueReceipt_world split: option.splits if_splits prod.splits)

lemma runApply_calls:
  assumes "runApply env p a adapter w = (res, w')"
  shows "length (W_Calls w') \<le> length (W_Calls w) + 10"
proof -
  obtain loaded w1 where load: "journal_load env w = (loaded, w1)" by (cases "journal_load env w")
  have w1: "W_Calls w1 = W_Calls w" using journal_load_world [OF load] by simp
  show ?thesis
  proof (cases "\<exists>es. loaded = Inr es \<and> verifyJournalBinding p a es = None \<and> \<not> rollbackStarted es")
    case False
    then have "w' = w1" using assms load by (auto simp: runApply_def split: sum.splits if_splits)
    with w1 show ?thesis by simp
  next
    case True
    then obtain es where es: "loaded = Inr es" "verifyJournalBinding p a es = None" "\<not> rollbackStarted es" by blast
    have "1 \<le> length es" by (rule ready_steps(3) [OF verifyJournalBinding_ready(1) [OF es(2)] es(3)])
    obtain out w2 where loop: "applyLoop env p a adapter es w1 = (out, w2)" by (cases "applyLoop env p a adapter es w1")
    note calls = applyLoop_calls [OF loop \<open>1 \<le> length es\<close>]
    have "w' = w2 \<or> (\<exists>es'. finishApply env p a es' w2 = (res, w'))"
      using assms load es loop by (cases out) (auto simp: runApply_def)
    then have "W_Calls w' = W_Calls w2" using finishApply_calls by auto
    with calls w1 show ?thesis by simp
  qed
qed

lemma rollbackEntry_calls:
  assumes "rollbackEntry env p a adapter es step failure w = (out, w')"
  shows "length (W_Calls w') \<le> length (W_Calls w) + 1"
  using assms unfolding rollbackEntry_def Let_def
  by (auto simp: read_clock_def dest!: journal_append_calls invoke_calls split: prod.splits)

lemma appendRollbackTerminal_calls:
  assumes "appendRollbackTerminal env p a es step w = (res, w')"
  shows "W_Calls w' = W_Calls w"
  using assms unfolding appendRollbackTerminal_def Let_def
  by (auto simp: read_clock_def dest!: journal_append_calls split: prod.splits option.splits if_splits)

lemma continueRollbackCleanup_calls:
  assumes "continueRollbackCleanup env p a adapter es w = (res, w')"
  shows "length (W_Calls w') \<le> length (W_Calls w) + 1"
  using assms unfolding continueRollbackCleanup_def
  by (auto dest!: rollbackEntry_calls appendRollbackTerminal_calls split: prod.splits option.splits)

lemma rollbackFrom_calls:
  assumes "rollbackFrom env p a adapter es w = (res, w')"
  shows "length (W_Calls w') \<le> length (W_Calls w) + 2"
  using assms
proof (cases rule: rollbackFrom_cases)
  case (stop result e err w1)
  note first = rollbackEntry_calls [OF stop(2)]
  have "w' = w1 \<or> W_Calls w' = W_Calls w1 \<or> length (W_Calls w') \<le> length (W_Calls w1) + 1"
    using stop(3) appendRollbackTerminal_calls continueRollbackCleanup_calls by blast
  with first show ?thesis by auto
qed (auto dest: appendRollbackTerminal_calls continueRollbackCleanup_calls)

lemma CreateJournal_calls: "CreateJournal env e w = (res, w') \<Longrightarrow> W_Calls w' = W_Calls w"
  by (auto simp: CreateJournal_def access_def Let_def split: if_splits option.splits fault.splits)

lemma run_op_calls: "length (W_Calls (run_op env op w)) \<le> length (W_Calls w) + 10"
proof (cases op)
  case (OpApply p a c ad)
  obtain res w' where run: "Apply env p a c ad w = (res, w')" by (cases "Apply env p a c ad w")
  obtain now w1 where clock: "read_clock env w = (now, w1)" by (cases "read_clock env w")
  obtain f w2 where access: "access env w1 = (f, w2)" by (cases "access env w1")
  obtain rq rs where digests: "approvalConsumedDigests p a = (rq, rs)" by (cases "approvalConsumedDigests p a")
  obtain now' w3 where clock': "read_clock env w2 = (now', w3)" by (cases "read_clock env w2")
  define e where "e = newJournalEntry now' 1 p a (ApplySteps ! 0) rq rs [] None"
  obtain err w4 where create: "CreateJournal env e w3 = (err, w4)" by (cases "CreateJournal env e w3")
  obtain err' w5 where opened: "openJournalTransaction env w4 = (err', w5)" by (cases "openJournalTransaction env w4")
  have "W_Calls w1 = W_Calls w" "W_Calls w2 = W_Calls w" "W_Calls w4 = W_Calls w" "W_Calls w5 = W_Calls w"
    using read_clock_world [OF clock] access_world [OF access] read_clock_world [OF clock'] CreateJournal_calls [OF create]
      open_world [OF opened] by simp_all
  moreover have "w' \<in> {w1, w2, w4, w5} \<or> runApply env p a ad w5 = (res, w')"
    using run clock access digests clock' create opened unfolding e_def Apply_def
    by (auto split: option.splits if_splits)
  ultimately show ?thesis using run OpApply runApply_calls [of env p a ad w5] by auto
next
  case (OpRecover p a c ad)
  obtain res w' where run: "Recover env p a c ad w = (res, w')" by (cases "Recover env p a c ad w")
  have "W_Calls w' = W_Calls w \<or> (\<exists>w5. W_Calls w5 = W_Calls w \<and> runApply env p a ad w5 = (res, w'))"
    using run unfolding Recover_def
    by (auto simp: read_clock_def dest!: openBound_world split: prod.splits option.splits sum.splits if_splits)
  with run OpRecover show ?thesis using runApply_calls by fastforce
next
  case (OpRollback p a c ad)
  obtain res w' where run: "Rollback env p a c ad w = (res, w')" by (cases "Rollback env p a c ad w")
  have "W_Calls w' = W_Calls w \<or> (\<exists>w5 es. W_Calls w5 = W_Calls w \<and> rollbackFrom env p a ad es w5 = (res, w'))"
    using run unfolding Rollback_def
    by (auto simp: read_clock_def dest!: openBound_world split: prod.splits option.splits sum.splits if_splits)
  with run OpRollback show ?thesis using rollbackFrom_calls by fastforce
qed

text \<open>A fresh run that gives a receipt sends exactly ten.\<close>

lemma invoke_Answered_calls: "invoke adapter q w = (Answered r, w') \<Longrightarrow> W_Calls w' = W_Calls w @ [q]"
  by (auto simp: invoke_def split: option.splits if_splits)

lemma applyStep_Inr_calls:
  assumes "applyStep env p a adapter es w = (Inr e, w')" "length es \<le> 11"
  shows "length (W_Calls w') = length (W_Calls w) + (if length es = 1 then 0 else 1)"
proof -
  define step where "step = ApplySteps ! length es"
  define q where "q = newAdapterRequest p (Some a) ''apply'' step (JE_EntrySHA256 (last es))"
  obtain result w1 where call: "invoke adapter q w = (result, w1)" by (cases "invoke adapter q w")
  show ?thesis
  proof (cases "length es = 1")
    case True
    then show ?thesis using mutation_calls [OF assms(1)] by (simp add: ApplySteps_0_1)
  next
    case False
    then have "step \<noteq> ''mutation-started''"
      using nth_eq_iff_index_eq [OF ApplySteps_distinct, of "length es" 1] assms(2) by (simp add: step_def ApplySteps_0_1)
    then have "W_Calls w' = W_Calls w1 \<and> (\<exists>r. result = Answered r)"
      using assms(1) call unfolding applyStep_def Let_def step_def [symmetric] q_def [symmetric]
      by (auto simp: read_clock_def stepResult_def dest!: journal_append_calls split: prod.splits option.splits sum.splits InvokeResult.splits)
    with False call invoke_Answered_calls show ?thesis by fastforce
  qed
qed

lemma applyLoop_Inr_calls:
  assumes "applyLoop env p a adapter es w = (Inr es', w')" "1 \<le> length es" "length es \<le> 12"
  shows "length (W_Calls w') = length (W_Calls w) + (12 - max 2 (length es))"
  using assms
proof (induction "12 - length es" arbitrary: es w)
  case 0
  then show ?case by (simp add: applyLoop.simps)
next
  case (Suc n)
  then have len: "length es < 12" by simp
  obtain out w1 where step: "applyStep env p a adapter es w = (out, w1)" by (cases "applyStep env p a adapter es w")
  obtain e where e: "out = Inr e" using Suc.prems(1) len step by (cases out) (auto simp: applyLoop.simps)
  have "applyLoop env p a adapter (es @ [e]) w1 = (Inr es', w')"
    using Suc.prems(1) len step e by (subst (asm) applyLoop.simps) simp
  then have "length (W_Calls w') = length (W_Calls w1) + (12 - max 2 (length (es @ [e])))"
    using Suc.hyps(2) len by (intro Suc.hyps(1)) simp_all
  with applyStep_Inr_calls [OF step [unfolded e]] len Suc.prems(2) show ?case by (simp split: if_splits)
qed

lemma Apply_Inr_calls:
  assumes "Apply env p a c adapter w = (Inr r, w')"
  shows "length (W_Calls w') = length (W_Calls w) + 10"
proof -
  obtain now w1 where clock: "read_clock env w = (now, w1)" by (cases "read_clock env w")
  obtain f w2 where access: "access env w1 = (f, w2)" by (cases "access env w1")
  obtain rq rs where digests: "approvalConsumedDigests p a = (rq, rs)" by (cases "approvalConsumedDigests p a")
  obtain now' w3 where clock': "read_clock env w2 = (now', w3)" by (cases "read_clock env w2")
  define e where "e = newJournalEntry now' 1 p a (ApplySteps ! 0) rq rs [] None"
  obtain err w4 where create: "CreateJournal env e w3 = (err, w4)" by (cases "CreateJournal env e w3")
  obtain err' w5 where opened: "openJournalTransaction env w4 = (err', w5)" by (cases "openJournalTransaction env w4")
  have run: "err = None" "runApply env p a adapter w5 = (Inr r, w')"
    using assms clock access digests clock' create opened unfolding e_def Apply_def by (auto split: option.splits if_splits)
  then have "holds w4 [e]"
    using create by (auto simp: CreateJournal_def access_def holds_def Let_def split: if_splits option.splits fault.splits)
  then have w5: "holds w5 [e]" "W_Calls w5 = W_Calls w"
    using read_clock_world [OF clock] access_world [OF access] read_clock_world [OF clock'] CreateJournal_calls [OF create]
      open_world [OF opened] by (simp_all add: holds_def)
  obtain loaded w6 where load: "journal_load env w5 = (loaded, w6)" by (cases "journal_load env w5")
  obtain es where es: "loaded = Inr es" using run(2) load by (cases loaded) (auto simp: runApply_def)
  have "es = [e]" using journal_load_Inr(1) [OF load [unfolded es]] w5(1) by (simp add: holds_def)
  obtain out w7 where loop: "applyLoop env p a adapter es w6 = (out, w7)" by (cases "applyLoop env p a adapter es w6")
  obtain es' where out: "out = Inr es'" "finishApply env p a es' w7 = (Inr r, w')"
    using run(2) load es loop by (cases out) (auto simp: runApply_def split: if_splits)
  have "length (W_Calls w7) = length (W_Calls w6) + 10"
    using applyLoop_Inr_calls [OF loop [unfolded out(1)]] \<open>es = [e]\<close> by simp
  with finishApply_calls [OF out(2)] journal_load_world [OF load] w5(2) show ?thesis by simp
qed

end
