(* ===== verification/Drill_Rollback.thy ===== *)
theory Drill_Rollback
  imports Drill_Recovery
begin

text \<open>
  A rollback of a run that can still be resumed ends in \<^verbatim>\<open>rolled-back\<close> when the
  adapter answers its two requests and no access fails.
\<close>

definition cooperative :: "Plan \<Rightarrow> Adapter \<Rightarrow> bool" where
  "cooperative p ad \<longleftrightarrow> (\<forall>calls a v. \<forall>step \<in> {''rollback-safe-stop'', ''rollback-cleanup-requested''}.
     let q = newRollbackRequest p a step v in
     \<exists>r. judgeRun ad q (Ad_Run ad calls q) = Answered r \<and> length (json_Marshal (json_AdapterResponse r)) \<le> 100000)"

lemma newRollbackRequest_fields:
  "Rq_RequestSHA256 (newRollbackRequest p a s v) = AdapterRequestSHA256 (newRollbackRequest p a s v)"
  "Rq_AdapterExecutableSHA256 (newRollbackRequest p a s v) = EI_ExecutableSHA256 (Pl_Adapter p)"
  "Rq_OperationID (newRollbackRequest p a s v) = Pl_OperationID p"
  by (simp_all add: newRollbackRequest_def Let_def newAdapterRequest_fields sealRequest_sha)
     (simp_all add: newAdapterRequest_def sealRequest_def Let_def)

lemma rollback_steps_valid:
  "validID ''rollback-safe-stop''" "validID ''rollback-cleanup-requested''" "validID ''rolled-back''"
  by code_simp+

lemma rollbackEntry_live:
  assumes "calm env" "steady_clock env" "recording env p a w es" "length es \<le> 14" "cooperative p ad"
    and step: "step \<in> {''rollback-safe-stop'', ''rollback-cleanup-requested''}" "validTransition es step"
    and plan: "validID (Pl_OperationID p)" "validSHA (EI_ExecutableSHA256 (Pl_Adapter p))"
    and identity: "Ad_Identity ad = EI_ExecutableSHA256 (Pl_Adapter p)"
  obtains r e w' where "rollbackEntry env p a (Some ad) es step failure w = ((Answered r, e, None), w')"
    "recording env p a w' (es @ [e])" "JE_Step e = step"
proof -
  define q where "q = newRollbackRequest p a step (JE_EntrySHA256 (last es))"
  obtain r where r: "judgeRun ad q (Ad_Run ad (W_Calls w) q) = Answered r" "length (json_Marshal (json_AdapterResponse r)) \<le> 100000"
    using assms(5) step(1) unfolding cooperative_def Let_def q_def by blast
  define w1 where "w1 = w\<lparr>W_Calls := W_Calls w @ [q]\<rparr>"
  have call: "invoke (Some ad) q w = (Answered r, w1)"
    using r(1) identity by (simp add: invoke_def q_def newRollbackRequest_fields w1_def)
  note valid = invoke_Answered [OF call]
  note shas = response_shas [OF valid]
  have w1: "recording env p a w1 es" using assms(3) by (simp add: recording_def holds_def w1_def)
  obtain now w2 where clock: "read_clock env w1 = (now, w2)" by (cases "read_clock env w1")
  define e where "e = newJournalEntry now (length es + 1) p a step (Rq_RequestSHA256 q) (Rs_ResponseSHA256 r)
    (JE_EntrySHA256 (last es)) (Some r)"
  have "validID step" "length step \<le> 40" using step(1) rollback_steps_valid by auto
  moreover have "\<forall>x. Some r = Some x \<longrightarrow> Rs_ResponseSHA256 x = Rs_ResponseSHA256 r \<and>
      Rs_ResponseSHA256 x = AdapterResponseSHA256 x \<and> length (json_Marshal (json_AdapterResponse x)) \<le> 100000"
    using r(2) shas(2) by simp
  ultimately obtain w3 where w3: "journal_append env e w2 = (None, w3)" "recording env p a w3 (es @ [e])"
    using record_entry [OF assms(1,2) w1 assms(4) step(2) _ _ plan shas(3,1) _ clock e_def] by blast
  have "rollbackEntry env p a (Some ad) es step failure w = ((Answered r, e, None), w3)"
    using call recordedResponse_Answered [OF valid] clock w3(1)
    unfolding rollbackEntry_def Let_def q_def [symmetric] by (simp add: e_def)
  with that w3(2) show thesis by (simp add: e_def)
qed

lemma validTransition_rollback:
  assumes "map JE_Step es = take (length es) ApplySteps" "1 \<le> length es" "length es \<le> 12"
  shows "validTransition es ''rollback-safe-stop''"
    "JE_Step e1 = ''rollback-safe-stop'' \<Longrightarrow> validTransition (es @ [e1]) ''rollback-cleanup-requested''"
    "JE_Step e1 = ''rollback-safe-stop'' \<Longrightarrow> JE_Step e2 = ''rollback-cleanup-requested'' \<Longrightarrow>
      validTransition (es @ [e1, e2]) ''rolled-back''"
    "JE_Step (last es) \<notin> {''completed'', ''rolled-back'', ''rollback-failed'', ''rollback-safe-stop'', ''rollback-cleanup-requested''}"
proof -
  have es: "es \<noteq> []" using assms(2) by auto
  have "JE_Step ` set es = set (take (length es) ApplySteps)" using assms(1) by (metis list.set_map)
  moreover have "set (take (length es) ApplySteps) \<subseteq> set ApplySteps" by (rule set_take_subset)
  ultimately have new: "''rollback-safe-stop'' \<notin> JE_Step ` set es" "''rollback-cleanup-requested'' \<notin> JE_Step ` set es"
    "''rolled-back'' \<notin> JE_Step ` set es"
    by (auto simp: ApplySteps_def)
  have "last (map JE_Step es) = ApplySteps ! (length es - 1)"
    unfolding assms(1) using assms(2,3) by (intro last_take_ApplySteps) auto
  then have "JE_Step (last es) = ApplySteps ! (length es - 1)" using es by (simp add: last_map)
  with ApplySteps_plain(1) [of "length es - 1"] assms(2,3)
  show last: "JE_Step (last es) \<notin> {''completed'', ''rolled-back'', ''rollback-failed'', ''rollback-safe-stop'', ''rollback-cleanup-requested''}"
    by auto
  show "validTransition es ''rollback-safe-stop''"
    using es new last by (simp add: validTransition_def Let_def)
  show "JE_Step e1 = ''rollback-safe-stop'' \<Longrightarrow> validTransition (es @ [e1]) ''rollback-cleanup-requested''"
    using new by (simp add: validTransition_def Let_def)
  show "JE_Step e1 = ''rollback-safe-stop'' \<Longrightarrow> JE_Step e2 = ''rollback-cleanup-requested'' \<Longrightarrow>
      validTransition (es @ [e1, e2]) ''rolled-back''"
    using new by (simp add: validTransition_def Let_def)
qed

lemma terminal_live:
  assumes "calm env" "steady_clock env" "recording env p a w es" "length es \<le> 14" "validTransition es ''rolled-back''"
    and plan: "validID (Pl_OperationID p)" "validSHA (EI_ExecutableSHA256 (Pl_Adapter p))"
  shows "\<exists>w'. appendRollbackTerminal env p a es ''rolled-back'' w = (None, w')"
proof -
  obtain rq rs where digests: "rollbackTerminalDigests ''rolled-back'' (JE_EntrySHA256 (last es)) (JE_ResponseSHA256 (last es)) = (rq, rs)"
    by (cases "rollbackTerminalDigests ''rolled-back'' (JE_EntrySHA256 (last es)) (JE_ResponseSHA256 (last es))")
  obtain now w1 where clock: "read_clock env w = (now, w1)" by (cases "read_clock env w")
  define e where "e = newJournalEntry now (length es + 1) p a ''rolled-back'' rq rs (JE_EntrySHA256 (last es)) None"
  have "ready p a es" using assms(3) by (simp add: recording_def)
  then have "entryWellFormed (last es)" using chain_entry(1) [of "butlast es" "last es"] by (simp add: ready_def)
  then have "validSHA (JE_ResponseSHA256 (last es))" by (simp add: entryWellFormed_def)
  then have shas: "validSHA rq" "validSHA rs" using digests by (auto simp: rollbackTerminalDigests_def)
  have short: "length ''rolled-back'' \<le> 40" by simp
  have none: "\<forall>r. None = Some r \<longrightarrow> Rs_ResponseSHA256 r = rs \<and> Rs_ResponseSHA256 r = AdapterResponseSHA256 r \<and>
      length (json_Marshal (json_AdapterResponse r)) \<le> 100000" by simp
  obtain w2 where w2: "journal_append env e w1 = (None, w2)"
    using record_entry [OF assms(1-5) rollback_steps_valid(3) short plan shas none clock e_def] by blast
  have "appendRollbackTerminal env p a es ''rolled-back'' w = (None, w2)"
    using digests clock w2 unfolding appendRollbackTerminal_def by (simp add: e_def)
  then show ?thesis by blast
qed

lemma Rollback_live:
  assumes "calm env" "steady_clock env" "resumable env p a w es" "length es \<le> 12" "cooperative p ad"
    and identity: "Ad_Identity ad = EI_ExecutableSHA256 (Pl_Adapter p)" and approved: "validateApprovalBinding p a = None"
  shows "\<exists>w'. Rollback env p a (AR_ApprovalTuple a) (Some ad) w = (None, w')"
proof -
  have start: "holds w es" "verifyJournalBinding p a es = None" "\<not> rollbackStarted es"
    "\<forall>e \<in> set es. entry_size e \<le> 128 * 1024"
    using assms(3) by (auto simp: resumable_def)
  note plan = validPlan_identity [OF approved]
  note verified = verifyJournalBinding_ready [OF start(2)]
  have "es \<noteq> []" using verified(1) by (simp add: ready_def)
  note sizes = journal_size_bounds [OF this ready_length [OF verified(1)] start(4)]
  note steps = ready_steps [OF verified(1) start(3)]
  note allowed = validTransition_rollback [OF steps(1,3) assms(4)]
  obtain now w1 where clock: "read_clock env w = (now, w1)" by (cases "read_clock env w")
  have w1: "holds w1 es" "W_Journal w1 = W_Journal w" "W_Tick w \<le> W_Tick w1"
    using clock start(1) by (auto simp: read_clock_def holds_def)
  obtain w2 where w2: "openJournalTransaction env w1 = (None, w2)" "W_Journal w2 = W_Journal w1" "W_Tick w2 = W_Tick w1"
    using calm_open [OF assms(1) w1(1) sizes(1,3)] by metis
  have "holds w2 es" using w1(1) w2(2) by (simp add: holds_def)
  obtain w3 where w3: "journal_load env w2 = (Inr es, w3)" "W_Journal w3 = W_Journal w2" "W_Tick w3 = W_Tick w2"
    using calm_load [OF assms(1) \<open>holds w2 es\<close> verified(2) sizes(1,3)] by metis
  have opened: "openBound env p a ''backup drill rollback journal is unavailable'' w1 = (Inr es, w3)"
    using w2(1) w3(1) start(2) by (simp add: openBound_def)
  have input: "validateExecutionInput p a (AR_ApprovalTuple a) (Some ad) now False = None"
    using identity approved by (simp add: validateExecutionInput_def Adapter_IdentitySHA256_def)
  have "recording env p a w3 es"
    using w1 w2 w3 by (intro resumable_recording resumable_later [OF assms(2,3)]) simp_all
  moreover have "length es \<le> 14" using assms(4) by simp
  ultimately obtain r1 e1 w4 where e1:
    "rollbackEntry env p a (Some ad) es ''rollback-safe-stop'' ''safe-stop-failed'' w3 = ((Answered r1, e1, None), w4)"
    "recording env p a w4 (es @ [e1])" "JE_Step e1 = ''rollback-safe-stop''"
    using rollbackEntry_live [OF assms(1,2) _ _ assms(5) _ allowed(1) plan identity] by blast
  have "length (es @ [e1]) \<le> 14" using assms(4) by simp
  then obtain r2 e2 w5 where e2:
    "rollbackEntry env p a (Some ad) (es @ [e1]) ''rollback-cleanup-requested'' ''adapter-execution-failed'' w4 = ((Answered r2, e2, None), w5)"
    "recording env p a w5 ((es @ [e1]) @ [e2])" "JE_Step e2 = ''rollback-cleanup-requested''"
    using rollbackEntry_live [OF assms(1,2) e1(2) _ assms(5) _ allowed(2) [OF e1(3)] plan identity] by blast
  have "length ((es @ [e1]) @ [e2]) \<le> 14" "validTransition ((es @ [e1]) @ [e2]) ''rolled-back''"
    using assms(4) allowed(3) [OF e1(3) e2(3)] by simp_all
  then obtain w6 where w6: "appendRollbackTerminal env p a ((es @ [e1]) @ [e2]) ''rolled-back'' w5 = (None, w6)"
    using terminal_live [OF assms(1,2) e2(2) _ _ plan] by blast
  have "continueRollbackCleanup env p a (Some ad) (es @ [e1]) w4 = (None, w6)"
    using e2(1) w6 by (simp add: continueRollbackCleanup_def)
  then have "rollbackFrom env p a (Some ad) es w3 = (None, w6)"
    using allowed(4) e1(1) by (simp add: rollbackFrom_def Let_def)
  with clock input opened show ?thesis by (simp add: Rollback_def)
qed

end
