(* ===== verification/Drill_Sample.thy ===== *)
theory Drill_Sample
  imports Drill_Rollback
begin

text \<open>
  A plan that passes validation, an approval for it and an adapter that answers every
  request as the protocol asks: the example on which the properties of the drill are
  instantiated.
\<close>

definition sha :: "char \<Rightarrow> string" where
  "sha c = replicate 64 c"

definition sample_object :: "string \<Rightarrow> string \<Rightarrow> char \<Rightarrow> ObjectIdentity" where
  "sample_object kind name c = \<lparr>OI_Kind = kind, OI_Namespace = [], OI_Name = name, OI_ScopeSHA256 = sha c\<rparr>"

definition sample_mapping :: "int \<Rightarrow> string \<Rightarrow> char \<Rightarrow> string \<Rightarrow> string \<Rightarrow> char \<Rightarrow> IsolatedNamespace" where
  "sample_mapping i restore scope source dest c =
     \<lparr>IN_RestoreIndex = i, IN_RestoreName = restore, IN_RestoreScopeSHA256 = sha scope, IN_SourceNamespace = source,
      IN_Destination = sample_object ''Namespace'' dest c\<rparr>"

definition sample_cleanup :: "string \<Rightarrow> string \<Rightarrow> CleanupTarget" where
  "sample_cleanup kind name =
     \<lparr>CT_Kind = kind, CT_Namespace = [], CT_Name = name, CT_PreconditionIdentitySHA256 = sha CHR ''f''\<rparr>"

definition sample_start :: gotime where
  "sample_start = 63900000000 * Second"

definition sample_plan :: Plan where
  "sample_plan =
     \<lparr>Pl_SchemaVersion = PlanSchemaVersion, Pl_OperationID = ''drill-1'', Pl_ProofID = ''proof-1'',
      Pl_InstallationID = ''cell-1'', Pl_AcceptedPublicSHA = replicate 40 CHR ''a'',
      Pl_AcceptedDownstreamSHA = replicate 40 CHR ''b'', Pl_ClusterIdentitySHA256 = sha CHR ''c'',
      Pl_BackupStorageLocation = \<lparr>SL_Name = ''store'', SL_UIDSHA256 = sha CHR ''d'', SL_Generation = 1,
        SL_ConfigSHA256 = sha CHR ''e''\<rparr>,
      Pl_ObjectStore = \<lparr>OS_Prefix = ''drills'', OS_MinimumRetentionDays = 30, OS_ObjectLockMode = ''compliance''\<rparr>,
      Pl_SourceBaselines = map (\<lambda>k. \<lparr>BL_Kind = k, BL_IdentitySHA256 = sha CHR ''1'', BL_StateSHA256 = sha CHR ''2'',
        BL_DataSHA256 = sha CHR ''3''\<rparr>) TargetKinds,
      Pl_Tool = \<lparr>EI_Name = ''cloudring-backup'', EI_ExecutableSHA256 = sha CHR ''4''\<rparr>,
      Pl_Adapter = \<lparr>EI_Name = ''adapter'', EI_ExecutableSHA256 = sha CHR ''5''\<rparr>,
      Pl_Backup = sample_object ''Backup'' ''backup'' CHR ''6'',
      Pl_Restores = [sample_object ''VirtualMachineClaim'' ''vm'' CHR ''a'', sample_object ''Volume'' ''volume'' CHR ''b'',
        sample_object ''Namespace'' ''platform'' CHR ''c'', sample_object ''KubernetesClusterClaim'' ''cluster'' CHR ''d''],
      Pl_IsolatedNamespaces = [sample_mapping 0 ''vm'' CHR ''a'' ''tenant-a'' ''drill-vm'' CHR ''1'',
        sample_mapping 1 ''volume'' CHR ''b'' ''tenant-a'' ''drill-volume'' CHR ''2'',
        sample_mapping 2 ''platform'' CHR ''c'' ''platform-system'' ''drill-platform'' CHR ''3'',
        sample_mapping 2 ''platform'' CHR ''c'' ''flux-system'' ''drill-flux'' CHR ''4'',
        sample_mapping 3 ''cluster'' CHR ''d'' ''tenant-a'' ''drill-cluster'' CHR ''5''],
      Pl_EtcdSandbox = sample_object ''EtcdSandbox'' ''sandbox'' CHR ''7'',
      Pl_CleanupTargets = [sample_cleanup ''Namespace'' ''drill-vm'', sample_cleanup ''Namespace'' ''drill-volume'',
        sample_cleanup ''Namespace'' ''drill-platform'', sample_cleanup ''Namespace'' ''drill-flux'',
        sample_cleanup ''Namespace'' ''drill-cluster'', sample_cleanup ''EtcdSandbox'' ''sandbox''],
      Pl_AggregateProofPathToken = ''proofs/aggregate'',
      Pl_IssuedAt = FormatRFC3339Nano sample_start, Pl_ExpiresAt = FormatRFC3339Nano (sample_start + 20 * Minute),
      Pl_RunNonceSHA256 = sha CHR ''8''\<rparr>"

lemma validSHA_sha [simp]: "validSHA (sha c) \<longleftrightarrow> is_hex c"
  by (simp add: validSHA_iff sha_def list_all_iff)

lemma sha_eq [simp]: "sha c = sha d \<longleftrightarrow> c = d"
  by (simp add: sha_def replicate_eq_replicate)

lemma sample_texts [simp]:
  "validName ''store''" "validName ''backup''" "validName ''vm''" "validName ''volume''" "validName ''platform''"
  "validName ''cluster''" "validName ''sandbox''" "validName ''tenant-a''" "validName ''platform-system''"
  "validName ''flux-system''" "validName ''drill-vm''" "validName ''drill-volume''" "validName ''drill-platform''"
  "validName ''drill-flux''" "validName ''drill-cluster''"
  "validID ''drill-1''" "validID ''proof-1''" "validID ''cell-1''" "validID ''adapter''"
  "validPathToken ''drills''" "validPathToken ''proofs/aggregate''"
  "MatchString kindPattern ''Namespace''" "MatchString kindPattern ''EtcdSandbox''"
  "MatchString gitSHAPattern (replicate 40 CHR ''a'')" "MatchString gitSHAPattern (replicate 40 CHR ''b'')"
  by code_simp+

lemma sample_hex_chars [simp]:
  "is_hex CHR ''1''" "is_hex CHR ''2''" "is_hex CHR ''3''" "is_hex CHR ''4''" "is_hex CHR ''5''" "is_hex CHR ''6''"
  "is_hex CHR ''7''" "is_hex CHR ''8''" "is_hex CHR ''a''" "is_hex CHR ''b''" "is_hex CHR ''c''" "is_hex CHR ''d''"
  "is_hex CHR ''e''" "is_hex CHR ''f''"
  by code_simp+

lemma sample_time_in_range [simp]:
  "time_in_range sample_start" "time_in_range (sample_start + Minute)" "time_in_range (sample_start + 20 * Minute)"
  by (simp_all add: time_in_range_def sample_start_def Minute_def Second_def year_of_day_def days_before_year_def)

lemma sample_times [simp]:
  "canonicalTime (FormatRFC3339Nano sample_start) = Some sample_start"
  "canonicalTime (FormatRFC3339Nano (sample_start + 20 * Minute)) = Some (sample_start + 20 * Minute)"
  by (simp_all add: canonicalTime_def parse_canonical_time_Format)

lemma sample_header: "validPlanHeader sample_plan"
proof -
  have "validWindow (FormatRFC3339Nano sample_start) (FormatRFC3339Nano (sample_start + 20 * Minute))"
    unfolding validWindow_def sample_times by (simp add: time_Sub_def duration_defs)
  then show ?thesis by (simp add: validPlanHeader_def sample_plan_def)
qed

lemma sample_mappings: "validateMappings sample_plan 0 (Pl_IsolatedNamespaces sample_plan) [] [] [] = None"
  by (simp add: sample_plan_def sample_mapping_def sample_object_def mappingRestoreIndexes_def validObject_def)

lemma sample_cleanups: "validateCleanup sample_plan 0 (Pl_CleanupTargets sample_plan) [] = None"
  by (simp add: sample_plan_def sample_mapping_def sample_object_def sample_cleanup_def cleanup_identity_def retainedKind_def)

lemma sample_plan_valid: "ValidatePlan sample_plan = None"
  unfolding ValidatePlan_def
  using sample_header sample_mappings sample_cleanups
  by (simp add: sample_plan_def validStorage_def sample_object_def validObject_def TargetKinds_def validBaseline_def
      restoreKinds_def)

subsection \<open>An adapter\<close>

definition sample_evidence :: Evidence where
  "sample_evidence = \<lparr>Ev_Ref = ''evidence'', Ev_SHA256 = sha CHR ''e''\<rparr>"

definition sample_observation :: "IsolatedNamespace \<Rightarrow> RestoreObservation" where
  "sample_observation m =
     \<lparr>RO_RestoreName = IN_RestoreName m, RO_RestoreScopeSHA256 = IN_RestoreScopeSHA256 m,
      RO_SourceNamespace = IN_SourceNamespace m, RO_DestinationNamespace = OI_Name (IN_Destination m),
      RO_DestinationScopeSHA256 = OI_ScopeSHA256 (IN_Destination m), RO_EvidenceRef = ''evidence'',
      RO_EvidenceSHA256 = sha CHR ''e''\<rparr>"

definition sample_target :: "Baseline \<Rightarrow> TargetResult" where
  "sample_target b =
     \<lparr>TR_Kind = BL_Kind b, TR_SourceChecksumSHA256 = BL_DataSHA256 b, TR_RestoredChecksumSHA256 = BL_DataSHA256 b,
      TR_EvidenceRef = ''evidence'', TR_EvidenceSHA256 = sha CHR ''e''\<rparr>"

definition sample_answer :: "AdapterRequest \<Rightarrow> AdapterResponse" where
  "sample_answer q =
     (let p = Rq_Plan q; proof_step = Rq_Step q = ''proof-assembled'';
          r = \<lparr>Rs_SchemaVersion = AdapterResponseVersion, Rs_ProtocolVersion = AdapterProtocolVersion,
        Rs_OperationID = Rq_OperationID q, Rs_Step = Rq_Step q, Rs_RequestSHA256 = Rq_RequestSHA256 q,
        Rs_AdapterExecutableSHA256 = Rq_AdapterExecutableSHA256 q,
        Rs_Status = (if Rq_Mode q = ''preflight'' then ''ready''
          else if Rq_Step q = ''rollback-safe-stop'' then ''safe-stopped'' else ''completed''),
        Rs_Mutated = (Rq_Step q \<in> set mutationSteps \<or> Rq_Step q = ''rollback-cleanup-requested''),
        Rs_Evidence = sample_evidence,
        Rs_RestoreObservations = (if Rq_Step q = ''restore-watch-create-observe-complete''
          then map sample_observation (Pl_IsolatedNamespaces p) else []),
        Rs_Targets = (if proof_step then map sample_target (Pl_SourceBaselines p) else []),
        Rs_IsolationEvidence = (if proof_step then Some sample_evidence else None),
        Rs_CleanupEvidence = (if proof_step then Some sample_evidence else None),
        Rs_ObjectLockDeleteDenialReceiptSHA256 = (if proof_step then sha CHR ''a'' else []),
        Rs_AggregateProofArtifactSHA256 = (if proof_step then sha CHR ''b'' else []),
        Rs_AggregateProofPathToken = (if proof_step then Pl_AggregateProofPathToken p else []), Rs_ResponseSHA256 = []\<rparr> in
      r\<lparr>Rs_ResponseSHA256 := AdapterResponseSHA256 r\<rparr>)"

definition sample_adapter :: Adapter where
  "sample_adapter = \<lparr>Ad_Identity = sha CHR ''5'', Ad_Environment = [],
     Ad_Run = \<lambda>calls q. Some \<lparr>Run_Stdout = [], Run_Stderr = [], Run_Response = Some (sample_answer q)\<rparr>\<rparr>"

lemma sample_evidence_valid [simp]: "validEvidence ''evidence'' (sha CHR ''e'')"
proof -
  have "validPathToken ''evidence''" by code_simp
  then show ?thesis by (simp add: validEvidence_def)
qed

lemma sample_answer_bound:
  assumes "Rq_RequestSHA256 q = AdapterRequestSHA256 q"
  shows "validateAdapterResponseBinding q (sample_answer q) = None"
  using assms by (simp add: binding_fields sample_answer_def Let_def AdapterResponseSHA256_def sample_evidence_def)

lemma mutationSteps_modes:
  "\<not> ''preflight'' \<in> set mutationSteps" "\<not> ''rollback-safe-stop'' \<in> set mutationSteps"
  by (simp_all add: mutationSteps_def)

lemma sample_answer_apply:
  assumes "step \<in> set ApplySteps"
  shows "ValidateAdapterResponse (newAdapterRequest p (Some a) ''apply'' step v)
    (sample_answer (newAdapterRequest p (Some a) ''apply'' step v)) = None"
proof -
  define q where "q = newAdapterRequest p (Some a) ''apply'' step v"
  have bound: "validateAdapterResponseBinding q (sample_answer q) = None"
    by (intro sample_answer_bound) (simp add: q_def newAdapterRequest_fields)
  have "list_all observationMatches (zip ms (map sample_observation ms))" for ms
    by (induction ms) (simp_all add: observationMatches_def sample_observation_def)
  moreover have "step \<noteq> ''rollback-safe-stop''" "step \<noteq> ''rollback-cleanup-requested''"
    using assms by (auto simp: ApplySteps_def)
  ultimately show ?thesis
    using bound unfolding q_def [symmetric]
    by (simp add: ValidateAdapterResponse_def sample_answer_def Let_def q_def newAdapterRequest_fields)
qed

lemma sample_answer_proof:
  "validateProofResponse sample_plan (sample_answer (newAdapterRequest sample_plan a ''apply'' ''proof-assembled'' v)) = None"
  by (simp add: validateProofResponse_def sample_answer_def Let_def newAdapterRequest_fields evidencePresent_def
      sample_evidence_def sample_plan_def TargetKinds_def targetProven_def sample_target_def)

text \<open>A bound on the length of an encoding that needs only the lengths of the strings in it.\<close>

fun json_bound :: "json \<Rightarrow> nat" where
  "json_bound JNull = 4"
| "json_bound (JBool b) = 5"
| "json_bound (JNumber n) = length n"
| "json_bound (JString s) = 6 * length s + 2"
| "json_bound (JArray vs) = 2 + sum_list (map (\<lambda>v. json_bound v + 1) vs)"
| "json_bound (JObject ms) = 2 + sum_list (map (\<lambda>(k, v). 6 * length k + 4 + json_bound v) ms)"

lemma length_json_bound: "length (json_Marshal j) \<le> json_bound j"
proof (induction j rule: json_bound.induct)
  case (4 s)
  then show ?case using length_JString [of s] by simp
next
  case (5 vs)
  then have "sum_list (map (\<lambda>v. length (json_Marshal v) + 1) vs) \<le> sum_list (map (\<lambda>v. json_bound v + 1) vs)"
    by (intro sum_list_mono) simp
  with length_commas [of "map json_Marshal vs"] show ?case by (simp add: comp_def)
next
  case (6 ms)
  then have "sum_list (map member_size ms) \<le> sum_list (map (\<lambda>(k, v). 6 * length k + 4 + json_bound v) ms)"
    by (intro sum_list_mono) (force simp: member_size_def)
  with length_JObject [of ms] show ?case by simp
qed simp_all

lemma length_sha [simp]: "length (sha c) = 64"
  by (simp add: sha_def)

lemma sample_answer_size:
  assumes "Rq_Plan q = sample_plan" "Rq_OperationID q = ''drill-1''" "length (Rq_Step q) \<le> 40" "length (Rq_RequestSHA256 q) = 64"
    "Rq_AdapterExecutableSHA256 q = sha CHR ''5''"
  shows "length (json_Marshal (json_AdapterResponse (sample_answer q))) \<le> 100000"
proof -
  have targets: "json_bound (JArray (map json_TargetResult (map sample_target (Pl_SourceBaselines sample_plan)))) \<le> 20000"
    by (simp add: sample_plan_def TargetKinds_def json_TargetResult_def sample_target_def)
  have observations: "json_bound (JArray (map json_RestoreObservation (map sample_observation (Pl_IsolatedNamespaces sample_plan)))) \<le> 20000"
    by (simp add: sample_plan_def sample_mapping_def sample_object_def json_RestoreObservation_def sample_observation_def)
  have token: "Pl_AggregateProofPathToken sample_plan = ''proofs/aggregate''" by (simp add: sample_plan_def)
  show ?thesis
    by (rule order_trans [OF length_json_bound])
       (use assms targets observations in \<open>simp add: sample_answer_def Let_def json_AdapterResponse_def token json_Evidence_def
          sample_evidence_def omitempty_list_def omitempty_option_def omitempty_def AdapterResponseVersion_def
          AdapterProtocolVersion_def AdapterResponseSHA256_def comp_assoc\<close>)
qed

lemma sample_apply_size:
  assumes "step \<in> set ApplySteps"
  shows "length (json_Marshal (json_AdapterResponse (sample_answer (newAdapterRequest sample_plan a ''apply'' step v)))) \<le> 100000"
  using ApplySteps_short [OF assms]
  by (intro sample_answer_size)
     (simp_all add: newAdapterRequest_fields AdapterRequestSHA256_def newAdapterRequest_def sealRequest_def Let_def sample_plan_def)

lemma sample_quiet [simp]: "\<not> containsSecretLookingMaterial []" "\<not> containsEnvironmentValue sample_adapter s"
  by code_simp (simp add: containsEnvironmentValue_def sample_adapter_def)

lemma sample_adapter_answers:
  assumes "ValidateAdapterResponse q (sample_answer q) = None"
  shows "judgeRun sample_adapter q (Ad_Run sample_adapter calls q) = Answered (sample_answer q)"
proof -
  have "Ad_Run sample_adapter calls q = Some \<lparr>Run_Stdout = [], Run_Stderr = [], Run_Response = Some (sample_answer q)\<rparr>"
    by (simp add: sample_adapter_def)
  with assms show ?thesis by (simp add: judgeRun_def)
qed

lemma sample_honest: "honest sample_plan sample_adapter"
  unfolding honest_def Let_def
  using sample_adapter_answers [OF sample_answer_apply] sample_answer_proof sample_apply_size by blast

lemma sample_answer_rollback:
  assumes "step = ''rollback-safe-stop'' \<or> step = ''rollback-cleanup-requested''"
  shows "ValidateAdapterResponse (newRollbackRequest p a step v) (sample_answer (newRollbackRequest p a step v)) = None"
proof -
  define q where "q = newRollbackRequest p a step v"
  have "validateAdapterResponseBinding q (sample_answer q) = None"
    by (intro sample_answer_bound) (simp add: q_def newRollbackRequest_fields)
  then show ?thesis
    using assms mutationSteps_modes unfolding q_def [symmetric]
    by (auto simp: ValidateAdapterResponse_def sample_answer_def Let_def q_def)
qed

lemma sample_rollback_size:
  assumes "step = ''rollback-safe-stop'' \<or> step = ''rollback-cleanup-requested''"
  shows "length (json_Marshal (json_AdapterResponse (sample_answer (newRollbackRequest sample_plan a step v)))) \<le> 100000"
proof (rule sample_answer_size)
  let ?q = "newRollbackRequest sample_plan a step v"
  show "length (Rq_Step ?q) \<le> 40" using assms by auto
  show "Rq_Plan ?q = sample_plan"
    by (simp add: newRollbackRequest_def Let_def sealRequest_def newAdapterRequest_def)
qed (simp_all add: newRollbackRequest_fields AdapterRequestSHA256_def, simp_all add: sample_plan_def)

lemma sample_cooperative: "cooperative sample_plan sample_adapter"
  unfolding cooperative_def Let_def
  using sample_adapter_answers [OF sample_answer_rollback] sample_rollback_size by blast

subsection \<open>An approval\<close>

definition sample_preflight :: AdapterRequest where
  "sample_preflight = newAdapterRequest sample_plan None ''preflight'' ''preflight'' []"

definition sample_approval :: ApprovalReport where
  "sample_approval = approvalFor sample_plan (sha CHR ''5'') sample_preflight (sample_answer sample_preflight)"

lemma sample_approval_valid: "validateApprovalBinding sample_plan sample_approval = None"
  by (simp add: validateApprovalBinding_def sample_plan_valid approvalMatches_def sample_approval_def approvalFor_def Let_def
      sample_preflight_def ApprovalReportSHA256_def sample_answer_def sample_evidence_def AdapterResponseSHA256_def)
     (simp add: sample_plan_def)

text \<open>A clock that stands still within the window of the plan.\<close>

definition sample_env :: "(nat \<Rightarrow> fault) \<Rightarrow> Environment" where
  "sample_env io = \<lparr>Env_Clock = \<lambda>_. sample_start + Minute, Env_IO = io\<rparr>"

lemma sample_env_steady: "steady_clock (sample_env io)"
  by (simp add: steady_clock_def sample_env_def)

lemma sample_identity: "Ad_Identity sample_adapter = EI_ExecutableSHA256 (Pl_Adapter sample_plan)"
  by (simp add: sample_adapter_def sample_plan_def)

lemma sample_approval_fresh: "ValidateApproval sample_plan sample_approval (sample_start + Minute) = None"
proof -
  have "AR_IssuedAt sample_approval = FormatRFC3339Nano sample_start"
    "AR_ExpiresAt sample_approval = FormatRFC3339Nano (sample_start + 20 * Minute)"
    by (simp_all add: sample_approval_def approvalFor_def Let_def sample_plan_def)
  then show ?thesis
    by (simp add: ValidateApproval_def sample_approval_valid) (simp add: Minute_def Second_def)
qed

subsection \<open>Runs\<close>

abbreviation sample_tuple :: string where
  "sample_tuple \<equiv> AR_ApprovalTuple sample_approval"

abbreviation quiet_env :: Environment where
  "quiet_env \<equiv> sample_env (\<lambda>_. NoFault)"

lemma quiet_env: "calm quiet_env" "steady_clock quiet_env"
  by (simp_all add: calm_def sample_env_def sample_env_steady [unfolded sample_env_def])

definition sample_completed :: World where
  "sample_completed = snd (Apply quiet_env sample_plan sample_approval sample_tuple (Some sample_adapter) initial_world)"

definition sample_receipt :: ExecutionReceipt where
  "sample_receipt =
     (case Apply quiet_env sample_plan sample_approval sample_tuple (Some sample_adapter) initial_world of
        (Inr r, w) \<Rightarrow> r | _ \<Rightarrow> undefined)"

lemma sample_apply:
  "Apply quiet_env sample_plan sample_approval sample_tuple (Some sample_adapter) initial_world = (Inr sample_receipt, sample_completed)"
proof -
  have "ValidateApproval sample_plan sample_approval (Env_Clock quiet_env (W_Tick initial_world)) = None"
    using sample_approval_fresh by (simp add: sample_env_def)
  moreover have "W_Journal initial_world = None" by (simp add: initial_world_def)
  ultimately obtain r w where run:
    "Apply quiet_env sample_plan sample_approval sample_tuple (Some sample_adapter) initial_world = (Inr r, w)"
    using Apply_live [OF quiet_env _ sample_honest sample_identity] by blast
  then show ?thesis by (simp add: sample_completed_def sample_receipt_def)
qed

definition sample_journal :: "JournalEntry list" where
  "sample_journal = entries sample_completed"

lemma sample_journal:
  "holds sample_completed sample_journal" "verifyJournalBinding sample_plan sample_approval sample_journal = None"
  "length sample_journal = 13" "map JE_Step sample_journal = ApplySteps" "\<not> rollbackStarted sample_journal"
  using receipt_journal [OF disjI1 [OF sample_apply]] unfolding sample_journal_def by (metis holds_entries)+

text \<open>A run that stops right after the journal was created, because the directory could not be synced.\<close>

definition crash_env :: Environment where
  "crash_env = sample_env (\<lambda>n. if n = 1 then FaultAfter else NoFault)"

definition sample_attempt :: DrillOp where
  "sample_attempt = OpApply sample_plan sample_approval sample_tuple (Some sample_adapter)"

definition sample_crashed :: World where
  "sample_crashed = run_ops crash_env [sample_attempt] initial_world"

lemma crash_env: "steady_clock crash_env"
  by (simp add: crash_env_def sample_env_steady)

lemma sample_crashed: "\<exists>e. holds sample_crashed [e]"
proof -
  obtain rq rs where digests: "approvalConsumedDigests sample_plan sample_approval = (rq, rs)"
    by (cases "approvalConsumedDigests sample_plan sample_approval")
  define e where "e = newJournalEntry (sample_start + Minute) 1 sample_plan sample_approval (ApplySteps ! 0) rq rs [] None"
  have "validSHA (AR_PreflightResponseSHA256 sample_approval)"
    using sample_approval_valid by (auto simp: validateApprovalBinding_def approvalMatches_def split: option.splits if_splits)
  then have valid: "validateJournalEntry e None = None"
    unfolding e_def by (intro first_entry_valid [OF validPlan_identity [OF sample_approval_valid] _ digests]) simp_all
  have "snd (Apply crash_env sample_plan sample_approval sample_tuple (Some sample_adapter) initial_world) =
    \<lparr>W_Journal = Some \<lparr>JF_Entries = [e], JF_Torn = False\<rparr>, W_Calls = [], W_Tick = 2, W_Io = 2\<rparr>"
    using valid digests sample_approval_fresh sample_identity
    by (simp add: Apply_def read_clock_def access_def crash_env_def sample_env_def initial_world_def validateExecutionInput_def
        Adapter_IdentitySHA256_def CreateJournal_def Let_def e_def)
  then show ?thesis by (auto simp: sample_crashed_def run_ops_def sample_attempt_def holds_def)
qed

lemma sample_crashed_resumable: "\<exists>e. resumable (calmed crash_env) sample_plan sample_approval sample_crashed [e]"
proof -
  have "intact crash_env sample_plan sample_approval sample_crashed"
    unfolding sample_crashed_def
    by (rule attempts_intact [OF crash_env]) (simp_all add: sample_attempt_def intact_def holds_def initial_world_def)
  with sample_crashed show ?thesis by (auto simp: intact_def)
qed

definition sample_rolled_back :: World where
  "sample_rolled_back = snd (Rollback (calmed crash_env) sample_plan sample_approval sample_tuple (Some sample_adapter) sample_crashed)"

lemma sample_rollback:
  "Rollback (calmed crash_env) sample_plan sample_approval sample_tuple (Some sample_adapter) sample_crashed = (None, sample_rolled_back)"
proof -
  obtain e where "resumable (calmed crash_env) sample_plan sample_approval sample_crashed [e]"
    using sample_crashed_resumable by blast
  then obtain w where
    "Rollback (calmed crash_env) sample_plan sample_approval sample_tuple (Some sample_adapter) sample_crashed = (None, w)"
    using Rollback_live [OF _ _ _ _ sample_cooperative sample_identity sample_approval_valid] crash_env by fastforce
  then show ?thesis by (simp add: sample_rolled_back_def)
qed

subsection \<open>A plan that restores over a source\<close>

text \<open>
  Nothing compares a destination with the sources: a plan that restores the platform
  onto itself, and lists the live namespace for deletion, is accepted.
\<close>

definition overlapping_plan :: Plan where
  "overlapping_plan = sample_plan
     \<lparr>Pl_IsolatedNamespaces := (Pl_IsolatedNamespaces sample_plan)
        [2 := sample_mapping 2 ''platform'' CHR ''c'' ''platform-system'' ''platform-system'' CHR ''3''],
      Pl_CleanupTargets := (Pl_CleanupTargets sample_plan)[2 := sample_cleanup ''Namespace'' ''platform-system'']\<rparr>"

lemma overlapping_plan_accepted:
  "ValidatePlan overlapping_plan = None" "IN_SourceNamespace (Pl_IsolatedNamespaces overlapping_plan ! 2) = ''platform-system''"
  "CT_Name (Pl_CleanupTargets overlapping_plan ! 2) = ''platform-system''"
proof -
  have "validPlanHeader overlapping_plan" using sample_header by (simp add: overlapping_plan_def validPlanHeader_def)
  moreover have "validateMappings overlapping_plan 0 (Pl_IsolatedNamespaces overlapping_plan) [] [] [] = None"
    by (simp add: overlapping_plan_def sample_plan_def sample_mapping_def sample_object_def mappingRestoreIndexes_def validObject_def)
  moreover have "validateCleanup overlapping_plan 0 (Pl_CleanupTargets overlapping_plan) [] = None"
    by (simp add: overlapping_plan_def sample_plan_def sample_mapping_def sample_object_def sample_cleanup_def cleanup_identity_def retainedKind_def)
  ultimately show "ValidatePlan overlapping_plan = None"
    unfolding ValidatePlan_def
    by (simp add: overlapping_plan_def sample_plan_def validStorage_def sample_object_def validObject_def TargetKinds_def
        validBaseline_def restoreKinds_def)
qed (simp_all add: overlapping_plan_def sample_plan_def sample_mapping_def sample_cleanup_def)

end
