(* ===== verification/Drill_Plans.thy ===== *)
theory Drill_Plans
  imports Drill_Validate
begin

text \<open>
  What the validation of a plan establishes about its namespace mappings and its
  cleanup targets.
\<close>

definition mapping_ok :: "Plan \<Rightarrow> nat \<Rightarrow> IsolatedNamespace \<Rightarrow> bool" where
  "mapping_ok p index m \<longleftrightarrow>
     (let restore = Pl_Restores p ! (mappingRestoreIndexes ! index) in
      IN_RestoreName m = OI_Name restore \<and> IN_RestoreScopeSHA256 m = OI_ScopeSHA256 restore \<and>
      OI_Kind (IN_Destination m) = ''Namespace'' \<and> OI_Namespace (IN_Destination m) = [] \<and>
      (index = 2 \<longrightarrow> IN_SourceNamespace m = ''platform-system'') \<and>
      (index = 3 \<longrightarrow> IN_SourceNamespace m = ''flux-system''))"

lemma validateMappings_None:
  assumes "validateMappings p index ms destinations scopes mappings = None"
  shows "distinct (map (OI_Name \<circ> IN_Destination) ms) \<and> set (map (OI_Name \<circ> IN_Destination) ms) \<inter> set destinations = {} \<and>
    distinct (map (OI_ScopeSHA256 \<circ> IN_Destination) ms) \<and> set (map (OI_ScopeSHA256 \<circ> IN_Destination) ms) \<inter> set scopes = {} \<and>
    (\<forall>k < length ms. mapping_ok p (index + k) (ms ! k))"
  using assms
proof (induction ms arbitrary: index destinations scopes mappings)
  case (Cons m ms)
  have "mapping_ok p index m" using Cons.prems by (auto simp: mapping_ok_def Let_def split: if_splits)
  moreover have "OI_Name (IN_Destination m) \<notin> set destinations" "OI_ScopeSHA256 (IN_Destination m) \<notin> set scopes"
    using Cons.prems by (auto simp: Let_def split: if_splits)
  moreover have "validateMappings p (index + 1) ms (OI_Name (IN_Destination m) # destinations)
      (OI_ScopeSHA256 (IN_Destination m) # scopes) ((IN_RestoreName m @ ''/'' @ IN_SourceNamespace m) # mappings) = None"
    using Cons.prems by (simp add: Let_def split: if_splits)
  note rest = Cons.IH [OF this]
  moreover have "\<forall>k < length (m # ms). mapping_ok p (index + k) ((m # ms) ! k)"
    using rest calculation(1) by (auto simp: less_Suc_eq_0_disj)
  ultimately show ?case by auto
qed simp

definition cleanup_key :: "CleanupTarget \<Rightarrow> string \<times> string \<times> string" where
  "cleanup_key t = (CT_Kind t, CT_Namespace t, CT_Name t)"

definition expected_cleanup :: "Plan \<Rightarrow> (string \<times> string \<times> string) list" where
  "expected_cleanup p = map (\<lambda>m. (''Namespace'', [], OI_Name (IN_Destination m))) (Pl_IsolatedNamespaces p) @
     [(''EtcdSandbox'', [], OI_Name (Pl_EtcdSandbox p))]"

lemma length_expected_cleanup: "length (expected_cleanup p) = length (Pl_IsolatedNamespaces p) + 1"
  by (simp add: expected_cleanup_def)

lemma validateCleanup_None:
  assumes "validateCleanup p index ts seen = None" "index + length ts = length (Pl_IsolatedNamespaces p) + 1"
  shows "map cleanup_key ts = drop index (expected_cleanup p)" "distinct (map cleanup_identity ts)"
    "set (map cleanup_identity ts) \<inter> set seen = {}"
proof -
  have "map cleanup_key ts = drop index (expected_cleanup p) \<and> distinct (map cleanup_identity ts) \<and>
    set (map cleanup_identity ts) \<inter> set seen = {}"
    using assms
  proof (induction ts arbitrary: index seen)
    case Nil
    then show ?case by (simp add: expected_cleanup_def)
  next
    case (Cons t ts)
    have len: "index \<le> length (Pl_IsolatedNamespaces p)" using Cons.prems(2) by simp
    have "cleanup_identity t \<notin> set seen" "validateCleanup p (index + 1) ts (cleanup_identity t # seen) = None"
      using Cons.prems(1) by (auto simp: Let_def split: if_splits)
    moreover have "cleanup_key t = expected_cleanup p ! index"
      using Cons.prems(1) len
      by (cases "index = length (Pl_IsolatedNamespaces p)")
         (auto simp: Let_def cleanup_key_def expected_cleanup_def nth_append split: if_splits)
    moreover have "drop index (expected_cleanup p) = expected_cleanup p ! index # drop (index + 1) (expected_cleanup p)"
      using len by (simp add: Cons_nth_drop_Suc length_expected_cleanup)
    ultimately show ?case using Cons.IH [of "index + 1" "cleanup_identity t # seen"] Cons.prems(2) by auto
  qed
  then show "map cleanup_key ts = drop index (expected_cleanup p)" "distinct (map cleanup_identity ts)"
    "set (map cleanup_identity ts) \<inter> set seen = {}" by auto
qed

lemma ValidatePlan_isolated:
  assumes "ValidatePlan p = None"
  shows "length (Pl_IsolatedNamespaces p) = 5" "validateMappings p 0 (Pl_IsolatedNamespaces p) [] [] [] = None"
    "length (Pl_CleanupTargets p) = 6" "validateCleanup p 0 (Pl_CleanupTargets p) [] = None"
  using assms unfolding ValidatePlan_def by (simp_all split: if_splits option.splits)

end
