(* ===== verification/Drill_Properties.thy ===== *)
theory Drill_Properties
  imports Drill_Sample Drill_Plans
begin

text \<open>The properties of the backup and restore drill.\<close>

text \<open>
  C2. Crash recovery completes: try a plan under one approval and recover it, any number
  of times, with any adapters and with accesses to the journal failing in any way. If
  the journal can still be read afterwards, then a recovery during which no access fails,
  with an adapter that answers as the protocol asks, returns a receipt. (The clock must
  not run backwards.)
\<close>

theorem crash_recovery_completes:
  assumes "steady_clock env" "list_all (attempt_of p a) ops" "holds (run_ops env ops initial_world) es"
    and "honest p ad" "Ad_Identity ad = EI_ExecutableSHA256 (Pl_Adapter p)" "validateApprovalBinding p a = None"
  shows "\<exists>r w. Recover (calmed env) p a (AR_ApprovalTuple a) (Some ad) (run_ops env ops initial_world) = (Inr r, w)"
  by (rule attempts_recover [OF assms])

theorem crash_recovery_completes_witness:
  "\<exists>r w. Recover (calmed crash_env) sample_plan sample_approval sample_tuple (Some sample_adapter) sample_crashed = (Inr r, w)"
proof -
  obtain e where "holds sample_crashed [e]" using sample_crashed by blast
  then show ?thesis
    using crash_recovery_completes [OF crash_env, of sample_plan sample_approval "[sample_attempt]" "[e]" sample_adapter]
      sample_honest sample_identity sample_approval_valid
    by (simp add: sample_crashed_def sample_attempt_def)
qed

text \<open>
  C5. A receipt means restored: when a run returns a receipt, the journal holds the
  thirteen phases in order, for every adapter phase a response that is valid for
  the request of that phase under this plan, approval and history, and the receipt
  names for each target kind the checksum of the plan's baseline as the restored one.
\<close>

theorem receipt_means_restored:
  assumes "Apply env p a c adapter w = (Inr r, w') \<or> Recover env p a c adapter w = (Inr r, w')"
  shows "\<exists>es. holds w' es \<and> map JE_Step es = ApplySteps \<and> ER_JournalHeadSHA256 r = JE_EntrySHA256 (last es) \<and>
    (\<forall>k \<in> {2..11}. \<exists>s. JE_Response (es ! k) = Some s \<and>
       ValidateAdapterResponse (newAdapterRequest p (Some a) ''apply'' (ApplySteps ! k) (JE_EntrySHA256 (es ! (k - 1)))) s = None) \<and>
    map TR_Kind (ER_Targets r) = TargetKinds \<and>
    map TR_RestoredChecksumSHA256 (ER_Targets r) = map BL_DataSHA256 (Pl_SourceBaselines p)"
  using assms
proof (rule receipt_cases)
  fix es now and fresh :: bool
  assume es: "holds w' es" "ValidateReceipt p a r es = None" "length es = 13"
  obtain evidence where parts: "verifyJournalBinding p a es = None" "map JE_Step es = ApplySteps"
    "receiptMatches p a r (es ! 12) evidence" "length (ER_Targets r) = length TargetKinds"
    "list_all targetProven (zip (zip TargetKinds (Pl_SourceBaselines p)) (ER_Targets r))" "validateApprovalBinding p a = None"
    using ValidateReceipt_parts [OF es(2)] by metis
  have "ValidatePlan p = None" using parts(6) by (auto simp: validateApprovalBinding_def split: option.splits)
  then have baselines: "length (Pl_SourceBaselines p) = length TargetKinds"
    unfolding ValidatePlan_def by (simp split: if_splits)
  have "last es = es ! 12" using es(3) by (intro last_nth) simp
  then have "ER_JournalHeadSHA256 r = JE_EntrySHA256 (last es)" using parts(3) by (simp add: receiptMatches_def)
  moreover have "\<not> rollbackStarted es" by (rule ApplySteps_not_rollback [OF parts(2)])
  then have "\<forall>k \<in> {2..11}. \<exists>s. JE_Response (es ! k) = Some s \<and>
      ValidateAdapterResponse (newAdapterRequest p (Some a) ''apply'' (ApplySteps ! k) (JE_EntrySHA256 (es ! (k - 1)))) s = None"
    by (auto intro: recorded_step [OF parts(1)] simp: es(3))
  moreover note targetProven_checksums [OF baselines parts(4,5)]
  ultimately show ?thesis using es(1) parts(2) by blast
qed

theorem receipt_means_restored_witness:
  "holds sample_completed sample_journal \<and> ER_JournalHeadSHA256 sample_receipt = JE_EntrySHA256 (last sample_journal) \<and>
   map TR_RestoredChecksumSHA256 (ER_Targets sample_receipt) = map BL_DataSHA256 (Pl_SourceBaselines sample_plan)"
  using receipt_means_restored [OF disjI1 [OF sample_apply]] sample_journal(1) by (auto simp: holds_def)

text \<open>
  C8. Write-ahead: over any sequence of operations, with any adapters and any failing
  accesses, every request that reached an adapter was called for by a prefix of the
  journal as it stands at the end. An apply request for a phase was sent only after all
  earlier phases were recorded; a cleanup request only after the recorded success of the
  safe stop.
\<close>

theorem requests_are_justified:
  assumes "q \<in> set (W_Calls (run_ops env ops initial_world))"
  shows "call_justified (entries (run_ops env ops initial_world)) q"
  using assms run_ops_advance [of initial_world env ops] by (auto simp: advance_def initial_world_def)

theorem requests_are_justified_witness:
  "\<exists>q. q \<in> set (W_Calls sample_completed) \<and> call_justified sample_journal q"
proof -
  have run: "run_ops quiet_env [sample_attempt] initial_world = sample_completed"
    using sample_apply by (simp add: run_ops_def sample_attempt_def)
  obtain q where q: "q \<in> set (W_Calls sample_completed)"
    using Apply_Inr_calls [OF sample_apply] by (cases "W_Calls sample_completed") auto
  then show ?thesis
    using requests_are_justified [of q quiet_env "[sample_attempt]"] run sample_journal(1) by auto
qed

text \<open>
  C14. The journal only grows, and what is in it is a valid chain after every sequence of
  operations: entries are never changed, dropped or reordered.
\<close>

theorem journal_only_grows:
  "validateChain [] (entries (run_ops env ops initial_world)) \<and>
   (\<exists>new. entries (run_ops env (ops @ later) initial_world) = entries (run_ops env ops initial_world) @ new)"
proof
  have "journal_ok (run_ops env ops initial_world)"
    using run_ops_advance [of initial_world env ops] by (auto simp: advance_def journal_ok_def initial_world_def)
  then show "validateChain [] (entries (run_ops env ops initial_world))"
    by (auto simp: journal_ok_def entries_def split: option.splits)
  show "\<exists>new. entries (run_ops env (ops @ later) initial_world) = entries (run_ops env ops initial_world) @ new"
    using drill.run_later [of env ops initial_world later] by (simp add: advance_def run_ops_def)
qed

lemma rollback_no_receipt:
  assumes "rollbackStarted (entries w)" "advance w w'"
  shows "Apply env p a c adapter w \<noteq> (Inr r, w')" "Recover env p a c adapter w \<noteq> (Inr r, w')"
proof -
  obtain new where new: "entries w' = entries w @ new" using assms(2) by (auto simp: advance_def)
  have "\<not> (Apply env p a c adapter w = (Inr r, w') \<or> Recover env p a c adapter w = (Inr r, w'))"
  proof
    assume "Apply env p a c adapter w = (Inr r, w') \<or> Recover env p a c adapter w = (Inr r, w')"
    then obtain es where "holds w' es" "\<not> rollbackStarted es" by (rule receipt_journal) blast
    then show False using rollbackStarted_append [OF assms(1), of new] new by simp
  qed
  then show "Apply env p a c adapter w \<noteq> (Inr r, w')" "Recover env p a c adapter w \<noteq> (Inr r, w')" by blast+
qed

text \<open>
  C15. Once a rollback has begun there is no way back to the plan: no operation returns a
  receipt any more, and all further requests to an adapter are rollback requests.
\<close>

theorem rollback_is_final:
  assumes "rollbackStarted (entries w)"
  shows "(\<exists>calls. W_Calls (run_op env op w) = W_Calls w @ calls \<and> (\<forall>q \<in> set calls. Rq_Mode q = ''rollback'')) \<and>
    fst (Apply env p a c adapter w) \<noteq> Inr r \<and> fst (Recover env p a c adapter w) \<noteq> Inr r"
proof (intro conjI)
  show "\<exists>calls. W_Calls (run_op env op w) = W_Calls w @ calls \<and> (\<forall>q \<in> set calls. Rq_Mode q = ''rollback'')"
    using run_op_advance [of w env op] assms by (auto simp: advance_def)
  show "fst (Apply env p a c adapter w) \<noteq> Inr r"
    using rollback_no_receipt [OF assms Apply_advance [OF surjective_pairing]] prod.collapse by metis
  show "fst (Recover env p a c adapter w) \<noteq> Inr r"
    using rollback_no_receipt [OF assms Recover_advance [OF surjective_pairing]] prod.collapse by metis
qed

theorem rollback_is_final_witness:
  "rollbackStarted (entries sample_rolled_back) \<and>
   fst (Recover quiet_env sample_plan sample_approval sample_tuple (Some sample_adapter) sample_rolled_back) \<noteq> Inr sample_receipt"
proof -
  have "rollbackStarted (entries sample_rolled_back)"
    using Rollback_None [OF sample_rollback] rolled_back_started by force
  then show ?thesis using rollback_is_final by blast
qed

text \<open>
  C17. A rollback that reports success has run to its end: the journal ends in the safe
  stop, the cleanup request and the rolled-back mark, and both adapter steps are recorded
  with responses that are valid for the requests of this plan and approval.
\<close>

theorem rollback_success_is_recorded:
  assumes "Rollback env p a c adapter w = (None, w')"
  shows "\<exists>es k. holds w' es \<and> 1 \<le> k \<and> k \<le> 12 \<and>
    map JE_Step es = take k ApplySteps @ [''rollback-safe-stop'', ''rollback-cleanup-requested'', ''rolled-back''] \<and>
    rollbackResponseSucceeded p a es k \<and> rollbackResponseSucceeded p a es (k + 1)"
  using Rollback_None [OF assms] unfolding rolled_back_def by blast

theorem rollback_success_is_recorded_witness:
  "\<exists>es. holds sample_rolled_back es \<and> JE_Step (last es) = ''rolled-back''"
proof -
  obtain es k where es: "holds sample_rolled_back es"
    "map JE_Step es = take k ApplySteps @ [''rollback-safe-stop'', ''rollback-cleanup-requested'', ''rolled-back'']"
    using rollback_success_is_recorded [OF sample_rollback] by blast
  then have "last (map JE_Step es) = ''rolled-back''" "es \<noteq> []" by auto
  with es(1) show ?thesis by (auto simp: last_map)
qed

text \<open>
  C19. Recovery is idempotent: after a run returned a receipt, recovering again (with no
  access failing) returns the same receipt, and a rollback is refused; neither touches the
  journal nor calls the adapter.
\<close>

theorem recovery_is_idempotent:
  assumes "Apply env p a c adapter w = (Inr r, w') \<or> Recover env p a c adapter w = (Inr r, w')" and "calm env'"
  shows "(\<exists>w2. Recover env' p a c adapter w' = (Inr r, w2) \<and> W_Journal w2 = W_Journal w' \<and> W_Calls w2 = W_Calls w') \<and>
    (\<exists>err w2. Rollback env' p a c adapter w' = (Some err, w2) \<and> W_Journal w2 = W_Journal w' \<and> W_Calls w2 = W_Calls w')"
  using Recover_again [OF assms] Rollback_completed [OF assms(1)] by blast

theorem recovery_is_idempotent_witness:
  "\<exists>w. Recover quiet_env sample_plan sample_approval sample_tuple (Some sample_adapter) sample_completed = (Inr sample_receipt, w)"
  using recovery_is_idempotent [OF disjI1 [OF sample_apply] quiet_env(1)] by blast

text \<open>
  C24. The head of a valid journal pins its history: two valid journals whose last
  entries carry the same digest encode entry by entry the same, unless two of their own
  entries collide under SHA-256.
\<close>

theorem journal_head_pins_history:
  assumes "validateJournalEntries es = None" "validateJournalEntries fs = None"
    and "JE_EntrySHA256 (last es) = JE_EntrySHA256 (last fs)"
  shows "map entry_preimage es = map entry_preimage fs \<or>
    (\<exists>x \<in> set es. \<exists>y \<in> set fs. entry_preimage x \<noteq> entry_preimage y \<and> Sum256 (entry_preimage x) = Sum256 (entry_preimage y))"
proof -
  have "es \<noteq> []" "fs \<noteq> []" "validateChain [] es" "validateChain [] fs" using assms(1,2) by (auto simp: validateJournalEntries_None)
  then show ?thesis
    using journal.chains_agree [of "butlast es" "last es" "butlast fs" "last fs"] assms(3)
    by (simp add: journal.collision_def)
qed

theorem journal_head_pins_history_witness:
  "validateJournalEntries sample_journal = None \<and>
   (map entry_preimage sample_journal = map entry_preimage sample_journal \<or>
    (\<exists>x \<in> set sample_journal. \<exists>y \<in> set sample_journal. entry_preimage x \<noteq> entry_preimage y \<and>
       Sum256 (entry_preimage x) = Sum256 (entry_preimage y)))"
  using journal_head_pins_history [of sample_journal sample_journal] verifyJournalBinding_ready(2) [OF sample_journal(2)] by simp

text \<open>
  C38. The phases of a valid journal: a non-empty initial part of the thirteen phases, or a
  proper initial part of them followed by one of the five rollback endings. So a journal
  has at most fifteen entries.
\<close>

theorem journal_phases:
  assumes "validateJournalEntries es = None"
  shows "((\<exists>k. 1 \<le> k \<and> k \<le> 13 \<and> map JE_Step es = take k ApplySteps) \<or>
     (\<exists>k t. 1 \<le> k \<and> k \<le> 12 \<and> t \<in> set rollback_tails \<and> map JE_Step es = take k ApplySteps @ t)) \<and> length es \<le> 15"
proof -
  have chain: "validateChain [] es" "es \<noteq> []" using assms by (auto simp: validateJournalEntries_None)
  from chain_path [OF chain] chain_length [OF chain(1)] show ?thesis unfolding journal_path_def by blast
qed

theorem journal_phases_witness: "length sample_journal = 13 \<and> length sample_journal \<le> 15"
  using journal_phases [OF verifyJournalBinding_ready(2) [OF sample_journal(2)]] sample_journal(3) by blast

text \<open>
  C39. Every operation ends after at most ten requests to the adapter, whatever the adapter
  answers, whichever accesses fail and whatever is in the journal; and a fresh run that
  returns a receipt has sent exactly ten.
\<close>

theorem operations_end_after_ten_requests:
  "length (W_Calls (run_op env op w)) \<le> length (W_Calls w) + 10 \<and>
   (Apply env p a c adapter w = (Inr r, w') \<longrightarrow> length (W_Calls w') = length (W_Calls w) + 10)"
  using run_op_calls Apply_Inr_calls by blast

theorem operations_end_after_ten_requests_witness: "length (W_Calls sample_completed) = 10"
  using operations_end_after_ten_requests [of quiet_env sample_attempt initial_world] sample_apply
  by (simp add: initial_world_def)

text \<open>
  A valid plan restores into five different namespaces, takes the two system
  namespaces as sources of the third and fourth, and lists for deletion exactly these five
  namespaces and the etcd sandbox, in order.
\<close>

theorem valid_plan_cleans_up_exactly:
  assumes "ValidatePlan p = None"
  shows "distinct (map (OI_Name \<circ> IN_Destination) (Pl_IsolatedNamespaces p)) \<and> length (Pl_IsolatedNamespaces p) = 5 \<and>
    IN_SourceNamespace (Pl_IsolatedNamespaces p ! 2) = ''platform-system'' \<and>
    IN_SourceNamespace (Pl_IsolatedNamespaces p ! 3) = ''flux-system'' \<and>
    map (\<lambda>t. (CT_Kind t, CT_Namespace t, CT_Name t)) (Pl_CleanupTargets p) =
      map (\<lambda>m. (''Namespace'', [], OI_Name (IN_Destination m))) (Pl_IsolatedNamespaces p) @
      [(''EtcdSandbox'', [], OI_Name (Pl_EtcdSandbox p))]"
proof -
  note parts = ValidatePlan_isolated [OF assms]
  note mappings = validateMappings_None [OF parts(2)]
  have "mapping_ok p 2 (Pl_IsolatedNamespaces p ! 2)" "mapping_ok p 3 (Pl_IsolatedNamespaces p ! 3)"
    using mappings parts(1) by force+
  then have "IN_SourceNamespace (Pl_IsolatedNamespaces p ! 2) = ''platform-system''"
    "IN_SourceNamespace (Pl_IsolatedNamespaces p ! 3) = ''flux-system''"
    by (auto simp: mapping_ok_def Let_def)
  moreover have "map cleanup_key (Pl_CleanupTargets p) = expected_cleanup p"
    using validateCleanup_None(1) [OF parts(4)] parts(1,3) by simp
  ultimately show ?thesis
    using mappings parts(1) by (simp add: cleanup_key_def [abs_def] expected_cleanup_def)
qed

theorem valid_plan_cleans_up_exactly_witness:
  "ValidatePlan sample_plan = None \<and> length (Pl_IsolatedNamespaces sample_plan) = 5"
  using valid_plan_cleans_up_exactly [OF sample_plan_valid] sample_plan_valid by blast

end
