(* ===== verification/Loss_Types.thy ===== *)
theory Loss_Types
  imports Go_Json Go_Sha256
begin

text \<open>
  Package \<^verbatim>\<open>pkg/resilience/oneserverloss\<close>, file \<^verbatim>\<open>types.go\<close>: the documents of the
  one-server-loss drill, their JSON encodings, and the digests over them of
  \<^verbatim>\<open>validate.go\<close>, \<^verbatim>\<open>observe.go\<close> and \<^verbatim>\<open>sample.go\<close>. Package \<^verbatim>\<open>pkg/kubeidentity\<close>: the
  hash of a node identity. The encoding of a structure lists its fields in declaration
  order, the encoding of a map its keys in ascending order. An empty list stands for an
  empty slice.
\<close>

subsection \<open>Constants\<close>

definition RequestSchemaVersion :: string where [go_consts]: "RequestSchemaVersion = ''cloudring.one-server-loss.observation-request/v1''"
definition ReadyMarkerSchemaVersion :: string where [go_consts]: "ReadyMarkerSchemaVersion = ''cloudring.one-server-loss.ready-marker/v1''"
definition LossReceiptSchemaVersion :: string where [go_consts]: "LossReceiptSchemaVersion = ''cloudring.one-server-loss.receipt/v1''"
definition ProbeRequestSchemaVersion :: string where [go_consts]: "ProbeRequestSchemaVersion = ''cloudring.one-server-loss.data-probe-request/v1''"
definition ProbeResponseSchemaVersion :: string where [go_consts]: "ProbeResponseSchemaVersion = ''cloudring.one-server-loss.data-probe-response/v1''"
definition ReadyMarkerStatus :: string where [go_consts]: "ReadyMarkerStatus = ''ready-for-fault''"
definition ReceiptStatus :: string where [go_consts]: "ReceiptStatus = ''completed''"
definition PhasePreLoss :: string where [go_consts]: "PhasePreLoss = ''pre-loss''"
definition PhaseLoss :: string where [go_consts]: "PhaseLoss = ''loss''"
definition PhaseRecovered :: string where [go_consts]: "PhaseRecovered = ''recovered''"
definition controlPlaneMemberSetDomain :: string where [go_consts]: "controlPlaneMemberSetDomain = ''cloudring.one-server-loss.control-plane-member-set/v1''"
definition NodeUIDHashAlgorithm :: string where [go_consts]: "NodeUIDHashAlgorithm = ''cloudring.kubernetes.node-uid-sha256/v1''"

subsection \<open>Documents\<close>

record WorkloadTarget =
  WT_ID :: string
  WT_Namespace :: string
  WT_MatchLabels :: "(string, string) gomap"
  WT_MinimumReadyPods :: int
  WT_MinimumDistinctReadyNodes :: int

record VMTarget =
  VT_ID :: string
  VT_Namespace :: string
  VT_Name :: string
  VT_RequirePreLossOnTarget :: bool
  VT_MaximumUnavailableDuration :: string

record DataProbeTarget =
  DT_ID :: string
  DT_QueryRef :: string
  DT_MinimumValidatedBytes :: int

record Request =
  LR_SchemaVersion :: string
  LR_RunNonceSHA256 :: string
  LR_TargetNodeName :: string
  LR_PollInterval :: string
  LR_FaultArrivalTimeout :: string
  LR_MinimumLossWindow :: string
  LR_RecoveryTimeout :: string
  LR_RecoveryStabilityWindow :: string
  LR_MinimumControlPlaneMembers :: int
  LR_Workloads :: "WorkloadTarget list"
  LR_VM :: VMTarget
  LR_DataProbe :: DataProbeTarget

record ReadyMarker =
  RM_SchemaVersion :: string
  RM_Status :: string
  RM_RequestSHA256 :: string
  RM_RunNonceSHA256 :: string
  RM_TargetNodeUIDSHA256 :: string
  RM_NodeUIDHashAlgorithm :: string
  RM_KubectlExecutableSHA256 :: string
  RM_ProbeAdapterSHA256 :: string
  RM_ControlPlaneMemberSetSHA256 :: string
  RM_BaselineControlPlaneNodes :: int
  RM_BaselineEtcdMembers :: int
  RM_BaselineAPIServerMembers :: int
  RM_ReadyAt :: string
  RM_MarkerSHA256 :: string

record LossBaseline =
  LB_ControlPlaneNodes :: int
  LB_EtcdMembers :: int
  LB_APIServerMembers :: int
  LB_VMUIDSHA256 :: string
  LB_DataSHA256 :: string
  LB_ValidatedBytes :: int
  LB_ControlPlaneMemberSetSHA256 :: string
  LB_BaselineSHA256 :: string

record WorkloadEvidence =
  WE_ID :: string
  WE_BindingSHA256 :: string
  WE_ReadyPods :: int
  WE_DistinctReadyNodes :: int
  WE_MinimumReadyPods :: int
  WE_MinimumReadyNodes :: int

record VMEvidence =
  VE_ID :: string
  VE_BindingSHA256 :: string
  VE_VMUIDSHA256 :: string
  VE_VMIUIDSHA256 :: string
  VE_VMReady :: bool
  VE_VMIReady :: bool
  VE_VMIOnTarget :: bool

record DataProbeEvidence =
  DE_ID :: string
  DE_BindingSHA256 :: string
  DE_Implementation :: string
  DE_Version :: string
  DE_RequestSHA256 :: string
  DE_AdapterExecutableSHA256 :: string
  DE_HashAlgorithm :: string
  DE_DataSHA256 :: string
  DE_ValidatedBytes :: int
  DE_StartedAt :: string
  DE_CompletedAt :: string

record SampleEvidence =
  SE_Sequence :: int
  SE_Phase :: string
  SE_StartedAt :: string
  SE_ObservedAt :: string
  SE_TargetNodePresent :: bool
  SE_TargetNodeReady :: bool
  SE_TargetNodeUIDSHA256 :: string
  SE_ReadyZPassed :: bool
  SE_ControlPlaneReadyNodes :: int
  SE_EtcdReadyMembers :: int
  SE_APIServerReadyMembers :: int
  SE_ControlPlaneMemberSetSHA256 :: string
  SE_TargetHostsEtcd :: bool
  SE_TargetHostsAPIServer :: bool
  SE_Workloads :: "WorkloadEvidence list"
  SE_VM :: VMEvidence
  SE_DataProbe :: DataProbeEvidence
  SE_SampleSHA256 :: string

record PhaseEvidence =
  PE_Phase :: string
  PE_StartedAt :: string
  PE_CompletedAt :: string
  PE_Samples :: "SampleEvidence list"
  PE_SamplesSHA256 :: string

record Receipt =
  Rc_SchemaVersion :: string
  Rc_Status :: string
  Rc_RequestSHA256 :: string
  Rc_RunNonceSHA256 :: string
  Rc_TargetNodeUIDSHA256 :: string
  Rc_NodeUIDHashAlgorithm :: string
  Rc_KubectlExecutableSHA256 :: string
  Rc_ProbeAdapterSHA256 :: string
  Rc_StartedAt :: string
  Rc_ReadyMarkerAt :: string
  Rc_CompletedAt :: string
  Rc_PollInterval :: string
  Rc_FaultArrivalTimeout :: string
  Rc_MinimumLossWindow :: string
  Rc_RecoveryTimeout :: string
  Rc_RecoveryStabilityWindow :: string
  Rc_MaximumVMUnavailable :: string
  Rc_MinimumControlPlane :: int
  Rc_Baseline :: LossBaseline
  Rc_PreLoss :: PhaseEvidence
  Rc_Loss :: PhaseEvidence
  Rc_Recovered :: PhaseEvidence
  Rc_ReceiptSHA256 :: string

record ProbeRequest =
  PQ_SchemaVersion :: string
  PQ_RunNonceSHA256 :: string
  PQ_ParentRequestSHA256 :: string
  PQ_Phase :: string
  PQ_Sequence :: int
  PQ_ProbeID :: string
  PQ_QueryRef :: string
  PQ_AdapterExecutableSHA256 :: string

record ProbeResponse =
  PR_SchemaVersion :: string
  PR_Implementation :: string
  PR_Version :: string
  PR_RequestSHA256 :: string
  PR_AdapterExecutableSHA256 :: string
  PR_HashAlgorithm :: string
  PR_DataSHA256 :: string
  PR_ValidatedBytes :: int
  PR_StartedAt :: string
  PR_CompletedAt :: string

subsection \<open>Encodings\<close>

definition json_labels :: "(string, string) gomap \<Rightarrow> json" where
  "json_labels m = JObject (map (\<lambda>(k, v). (k, JString v)) (sort_key fst m))"

definition json_WorkloadTarget :: "WorkloadTarget \<Rightarrow> json" where
  "json_WorkloadTarget x = JObject
    [(''id'', JString (WT_ID x)), (''namespace'', JString (WT_Namespace x)),
      (''matchLabels'', json_labels (WT_MatchLabels x)),
      (''minimumReadyPods'', JInt (WT_MinimumReadyPods x)),
      (''minimumDistinctReadyNodes'', JInt (WT_MinimumDistinctReadyNodes x))]"

definition json_VMTarget :: "VMTarget \<Rightarrow> json" where
  "json_VMTarget x = JObject
    [(''id'', JString (VT_ID x)), (''namespace'', JString (VT_Namespace x)),
      (''name'', JString (VT_Name x)),
      (''requirePreLossOnTarget'', JBool (VT_RequirePreLossOnTarget x)),
      (''maximumUnavailableDuration'', JString (VT_MaximumUnavailableDuration x))]"

definition json_DataProbeTarget :: "DataProbeTarget \<Rightarrow> json" where
  "json_DataProbeTarget x = JObject
    [(''id'', JString (DT_ID x)), (''queryRef'', JString (DT_QueryRef x)),
      (''minimumValidatedBytes'', JInt (DT_MinimumValidatedBytes x))]"

definition json_Request :: "Request \<Rightarrow> json" where
  "json_Request x = JObject
    [(''schemaVersion'', JString (LR_SchemaVersion x)),
      (''runNonceSha256'', JString (LR_RunNonceSHA256 x)),
      (''targetNodeName'', JString (LR_TargetNodeName x)),
      (''pollInterval'', JString (LR_PollInterval x)),
      (''faultArrivalTimeout'', JString (LR_FaultArrivalTimeout x)),
      (''minimumLossWindow'', JString (LR_MinimumLossWindow x)),
      (''recoveryTimeout'', JString (LR_RecoveryTimeout x)),
      (''recoveryStabilityWindow'', JString (LR_RecoveryStabilityWindow x)),
      (''minimumControlPlaneMembers'', JInt (LR_MinimumControlPlaneMembers x)),
      (''workloads'', JArray (map json_WorkloadTarget (LR_Workloads x))),
      (''vm'', json_VMTarget (LR_VM x)),
      (''dataProbe'', json_DataProbeTarget (LR_DataProbe x))]"

definition json_ReadyMarker :: "ReadyMarker \<Rightarrow> json" where
  "json_ReadyMarker x = JObject
    ([(''schemaVersion'', JString (RM_SchemaVersion x)), (''status'', JString (RM_Status x)),
      (''requestSha256'', JString (RM_RequestSHA256 x)),
      (''runNonceSha256'', JString (RM_RunNonceSHA256 x)),
      (''targetNodeUidSha256'', JString (RM_TargetNodeUIDSHA256 x))] @
     omitempty ''nodeUidHashAlgorithm'' (RM_NodeUIDHashAlgorithm x) @
     [(''kubectlExecutableSha256'', JString (RM_KubectlExecutableSHA256 x)),
      (''probeAdapterSha256'', JString (RM_ProbeAdapterSHA256 x))] @
     omitempty ''controlPlaneMemberSetSha256'' (RM_ControlPlaneMemberSetSHA256 x) @
     [(''baselineControlPlaneNodes'', JInt (RM_BaselineControlPlaneNodes x)),
      (''baselineEtcdMembers'', JInt (RM_BaselineEtcdMembers x)),
      (''baselineApiServerMembers'', JInt (RM_BaselineAPIServerMembers x)),
      (''readyAt'', JString (RM_ReadyAt x)), (''markerSha256'', JString (RM_MarkerSHA256 x))])"

definition json_LossBaseline :: "LossBaseline \<Rightarrow> json" where
  "json_LossBaseline x = JObject
    ([(''controlPlaneNodes'', JInt (LB_ControlPlaneNodes x)),
      (''etcdMembers'', JInt (LB_EtcdMembers x)),
      (''apiServerMembers'', JInt (LB_APIServerMembers x)),
      (''vmUidSha256'', JString (LB_VMUIDSHA256 x)),
      (''dataSha256'', JString (LB_DataSHA256 x)),
      (''validatedBytes'', JInt (LB_ValidatedBytes x))] @
     omitempty ''controlPlaneMemberSetSha256'' (LB_ControlPlaneMemberSetSHA256 x) @
     [(''baselineSha256'', JString (LB_BaselineSHA256 x))])"

definition json_WorkloadEvidence :: "WorkloadEvidence \<Rightarrow> json" where
  "json_WorkloadEvidence x = JObject
    [(''id'', JString (WE_ID x)), (''bindingSha256'', JString (WE_BindingSHA256 x)),
      (''readyPods'', JInt (WE_ReadyPods x)),
      (''distinctReadyNodes'', JInt (WE_DistinctReadyNodes x)),
      (''minimumReadyPods'', JInt (WE_MinimumReadyPods x)),
      (''minimumReadyNodes'', JInt (WE_MinimumReadyNodes x))]"

definition json_VMEvidence :: "VMEvidence \<Rightarrow> json" where
  "json_VMEvidence x = JObject
    ([(''id'', JString (VE_ID x)), (''bindingSha256'', JString (VE_BindingSHA256 x)),
      (''vmUidSha256'', JString (VE_VMUIDSHA256 x))] @
     omitempty ''vmiUidSha256'' (VE_VMIUIDSHA256 x) @
     [(''vmReady'', JBool (VE_VMReady x)), (''vmiReady'', JBool (VE_VMIReady x)),
      (''vmiOnTarget'', JBool (VE_VMIOnTarget x))])"

definition json_DataProbeEvidence :: "DataProbeEvidence \<Rightarrow> json" where
  "json_DataProbeEvidence x = JObject
    [(''id'', JString (DE_ID x)), (''bindingSha256'', JString (DE_BindingSHA256 x)),
      (''implementation'', JString (DE_Implementation x)),
      (''version'', JString (DE_Version x)), (''requestSha256'', JString (DE_RequestSHA256 x)),
      (''adapterExecutableSha256'', JString (DE_AdapterExecutableSHA256 x)),
      (''hashAlgorithm'', JString (DE_HashAlgorithm x)),
      (''dataSha256'', JString (DE_DataSHA256 x)),
      (''validatedBytes'', JInt (DE_ValidatedBytes x)),
      (''startedAt'', JString (DE_StartedAt x)), (''completedAt'', JString (DE_CompletedAt x))]"

definition json_SampleEvidence :: "SampleEvidence \<Rightarrow> json" where
  "json_SampleEvidence x = JObject
    ([(''sequence'', JInt (SE_Sequence x)), (''phase'', JString (SE_Phase x)),
      (''startedAt'', JString (SE_StartedAt x)), (''observedAt'', JString (SE_ObservedAt x)),
      (''targetNodePresent'', JBool (SE_TargetNodePresent x)),
      (''targetNodeReady'', JBool (SE_TargetNodeReady x))] @
     omitempty ''targetNodeUidSha256'' (SE_TargetNodeUIDSHA256 x) @
     [(''readyzPassed'', JBool (SE_ReadyZPassed x)),
      (''controlPlaneReadyNodes'', JInt (SE_ControlPlaneReadyNodes x)),
      (''etcdReadyMembers'', JInt (SE_EtcdReadyMembers x)),
      (''apiServerReadyMembers'', JInt (SE_APIServerReadyMembers x))] @
     omitempty ''controlPlaneMemberSetSha256'' (SE_ControlPlaneMemberSetSHA256 x) @
     [(''targetHostsEtcd'', JBool (SE_TargetHostsEtcd x)),
      (''targetHostsApiServer'', JBool (SE_TargetHostsAPIServer x)),
      (''workloads'', JArray (map json_WorkloadEvidence (SE_Workloads x))),
      (''vm'', json_VMEvidence (SE_VM x)),
      (''dataProbe'', json_DataProbeEvidence (SE_DataProbe x)),
      (''sampleSha256'', JString (SE_SampleSHA256 x))])"

definition json_PhaseEvidence :: "PhaseEvidence \<Rightarrow> json" where
  "json_PhaseEvidence x = JObject
    [(''phase'', JString (PE_Phase x)), (''startedAt'', JString (PE_StartedAt x)),
      (''completedAt'', JString (PE_CompletedAt x)),
      (''samples'', JArray (map json_SampleEvidence (PE_Samples x))),
      (''samplesSha256'', JString (PE_SamplesSHA256 x))]"

definition json_Receipt :: "Receipt \<Rightarrow> json" where
  "json_Receipt x = JObject
    ([(''schemaVersion'', JString (Rc_SchemaVersion x)), (''status'', JString (Rc_Status x)),
      (''requestSha256'', JString (Rc_RequestSHA256 x)),
      (''runNonceSha256'', JString (Rc_RunNonceSHA256 x)),
      (''targetNodeUidSha256'', JString (Rc_TargetNodeUIDSHA256 x))] @
     omitempty ''nodeUidHashAlgorithm'' (Rc_NodeUIDHashAlgorithm x) @
     [(''kubectlExecutableSha256'', JString (Rc_KubectlExecutableSHA256 x)),
      (''probeAdapterSha256'', JString (Rc_ProbeAdapterSHA256 x)),
      (''startedAt'', JString (Rc_StartedAt x)),
      (''readyMarkerAt'', JString (Rc_ReadyMarkerAt x)),
      (''completedAt'', JString (Rc_CompletedAt x)),
      (''pollInterval'', JString (Rc_PollInterval x)),
      (''faultArrivalTimeout'', JString (Rc_FaultArrivalTimeout x)),
      (''minimumLossWindow'', JString (Rc_MinimumLossWindow x)),
      (''recoveryTimeout'', JString (Rc_RecoveryTimeout x)),
      (''recoveryStabilityWindow'', JString (Rc_RecoveryStabilityWindow x)),
      (''maximumVmUnavailable'', JString (Rc_MaximumVMUnavailable x)),
      (''minimumControlPlane'', JInt (Rc_MinimumControlPlane x)),
      (''baseline'', json_LossBaseline (Rc_Baseline x)),
      (''preLoss'', json_PhaseEvidence (Rc_PreLoss x)),
      (''loss'', json_PhaseEvidence (Rc_Loss x)),
      (''recovered'', json_PhaseEvidence (Rc_Recovered x)),
      (''receiptSha256'', JString (Rc_ReceiptSHA256 x))])"

definition json_ProbeRequest :: "ProbeRequest \<Rightarrow> json" where
  "json_ProbeRequest x = JObject
    [(''schemaVersion'', JString (PQ_SchemaVersion x)),
      (''runNonceSha256'', JString (PQ_RunNonceSHA256 x)),
      (''parentRequestSha256'', JString (PQ_ParentRequestSHA256 x)),
      (''phase'', JString (PQ_Phase x)), (''sequence'', JInt (PQ_Sequence x)),
      (''probeId'', JString (PQ_ProbeID x)), (''queryRef'', JString (PQ_QueryRef x)),
      (''adapterExecutableSha256'', JString (PQ_AdapterExecutableSHA256 x))]"

subsection \<open>Digests\<close>

definition digestJSON :: "json \<Rightarrow> string" where
  "digestJSON v = SHA256Hex (json_Marshal v)"

definition sampleDigest :: "SampleEvidence \<Rightarrow> string" where
  "sampleDigest s = digestJSON (json_SampleEvidence (s\<lparr>SE_SampleSHA256 := []\<rparr>))"

definition samplesDigest :: "SampleEvidence list \<Rightarrow> string" where
  "samplesDigest ss = digestJSON (JArray (map json_SampleEvidence ss))"

definition baselineDigest :: "LossBaseline \<Rightarrow> string" where
  "baselineDigest b = digestJSON (json_LossBaseline (b\<lparr>LB_BaselineSHA256 := []\<rparr>))"

definition markerDigest :: "ReadyMarker \<Rightarrow> string" where
  "markerDigest m = digestJSON (json_ReadyMarker (m\<lparr>RM_MarkerSHA256 := []\<rparr>))"

definition lossReceiptDigest :: "Receipt \<Rightarrow> string" where
  "lossReceiptDigest r = digestJSON (json_Receipt (r\<lparr>Rc_ReceiptSHA256 := []\<rparr>))"

definition maximumNodeUIDBytes :: nat where "maximumNodeUIDBytes = 256"

definition NodeUIDSHA256 :: "string \<Rightarrow> string" where
  "NodeUIDSHA256 uid =
     (if uid = [] \<or> maximumNodeUIDBytes < length uid \<or> \<not> utf8_Valid uid then []
      else SHA256Hex (NodeUIDHashAlgorithm @ [CHR 0x00] @ uid))"

end
