(* ===== verification/Go_Duration.thy ===== *)
theory Go_Duration
  imports Go_Json Go_Time
begin

text \<open>
  Durations as text: \<^verbatim>\<open>time.ParseDuration\<close> and \<^verbatim>\<open>Duration.String\<close>. A duration is a
  sequence of decimal numbers, each with an optional fraction and a unit. The library
  multiplies a fraction by its unit in floating point; the model does so exactly and
  rounds down, which agrees with it on every text that \<^verbatim>\<open>Duration.String\<close> writes: there
  the fraction has no more digits than the unit has decimal places.
\<close>

subsection \<open>Reading\<close>

definition duration_unit :: "string \<Rightarrow> nat option" where
  "duration_unit u = map_of
     [(''ns'', 1), (''us'', 1000), ([CHR 0xC2, CHR 0xB5, CHR ''s''], 1000),
      ([CHR 0xCE, CHR 0xBC, CHR ''s''], 1000), (''ms'', 1000000), (''s'', 1000000000),
      (''m'', 60000000000), (''h'', 3600000000000)] u"

text \<open>\<^verbatim>\<open>leadingFraction\<close> ignores the digits that no longer fit into 63 bits.\<close>

fun leading_fraction :: "string \<Rightarrow> nat \<Rightarrow> nat \<Rightarrow> nat \<times> nat" where
  "leading_fraction [] x scale = (x, scale)"
| "leading_fraction (c # s) x scale =
     (let y = 10 * x + (of_char c - 48) in
      if (2 ^ 63 - 1) div 10 < x \<or> 2 ^ 63 < y then (x, scale) else leading_fraction s y (10 * scale))"

text \<open>
  One number with its unit, and the rest of the text. A value above \<open>2 ^ 63\<close> is an error.
\<close>

definition parse_duration_term :: "string \<Rightarrow> (nat \<times> string) option" where
  "parse_duration_term s =
     (let whole = takeWhile is_digit s; s1 = dropWhile is_digit s;
          point = s1 \<noteq> [] \<and> hd s1 = CHR ''.'';
          frac = (if point then takeWhile is_digit (tl s1) else []);
          s2 = (if point then dropWhile is_digit (tl s1) else s1);
          stop = (\<lambda>c. c = CHR ''.'' \<or> is_digit c);
          v = digits_value whole; (f, scale) = leading_fraction frac 0 1 in
      if whole = [] \<and> frac = [] \<or> 2 ^ 63 < v then None
      else case duration_unit (takeWhile (\<lambda>c. \<not> stop c) s2) of
        None \<Rightarrow> None
      | Some u \<Rightarrow>
          if 2 ^ 63 div u < v \<or> 2 ^ 63 < v * u + f * u div scale then None
          else Some (v * u + f * u div scale, dropWhile (\<lambda>c. \<not> stop c) s2))"

text \<open>Every number has at least one character, so that the length bounds the numbers.\<close>

fun parse_duration_terms :: "nat \<Rightarrow> string \<Rightarrow> nat \<Rightarrow> nat option" where
  "parse_duration_terms n [] d = Some d"
| "parse_duration_terms 0 s d = None"
| "parse_duration_terms (Suc n) s d =
     (case parse_duration_term s of
        None \<Rightarrow> None
      | Some (v, r) \<Rightarrow> if 2 ^ 63 < d + v then None else parse_duration_terms n r (d + v))"

definition ParseDuration :: "string \<Rightarrow> duration option" where
  "ParseDuration t =
     (let signed = t \<noteq> [] \<and> hd t \<in> {CHR ''-'', CHR ''+''}; neg = signed \<and> hd t = CHR ''-'';
          s = (if signed then tl t else t) in
      if s = ''0'' then Some 0
      else if s = [] then None
      else case parse_duration_terms (length s) s 0 of
        None \<Rightarrow> None
      | Some d \<Rightarrow> if neg then Some (- int d) else if d = 2 ^ 63 then None else Some (int d))"

subsection \<open>Writing\<close>

definition fmtFrac :: "nat \<Rightarrow> nat \<Rightarrow> string" where
  "fmtFrac prec n = (let f = trim_zeros (pad prec n) in if f = [] then [] else CHR ''.'' # f)"

definition duration_text :: "nat \<Rightarrow> string" where
  "duration_text u =
     (if u = 0 then ''0s''
      else if u < 1000 then itoa u @ ''ns''
      else if u < 1000000 then itoa (u div 1000) @ fmtFrac 3 u @ [CHR 0xC2, CHR 0xB5, CHR ''s'']
      else if u < 1000000000 then itoa (u div 1000000) @ fmtFrac 6 u @ ''ms''
      else let s = u div 1000000000; m = s div 60; h = m div 60 in
        (if h = 0 then [] else itoa h @ ''h'') @ (if m = 0 then [] else itoa (m mod 60) @ ''m'') @
        itoa (s mod 60) @ fmtFrac 9 u @ ''s'')"

definition Duration_String :: "duration \<Rightarrow> string" where
  "Duration_String d = (if d < 0 then CHR ''-'' # duration_text (nat (- d)) else duration_text (nat d))"

subsection \<open>Reading what was written\<close>

lemma digits_value_itoa: "digits_value (itoa n) = n"
proof (induction n rule: itoa.induct)
  case (1 n)
  then show ?case by (subst itoa.simps) (auto simp: digits_value_snoc of_char_of digits_value_def)
qed

lemma digits_value_pad_mod: "digits_value (pad k n) = n mod 10 ^ k"
proof (induction k arbitrary: n)
  case (Suc k)
  have "10 * (n div 10 mod 10 ^ k) + n mod 10 = n mod (10 * 10 ^ k)"
    by (simp add: mod_mult2_eq)
  with Suc show ?case by (simp add: digits_value_snoc of_char_of)
qed (simp add: digits_value_def)

lemma leading_fraction_digits:
  assumes "list_all is_digit s" and "digits_value t * 10 ^ length s + 10 ^ length s \<le> 10 ^ 18"
  shows "leading_fraction s (digits_value t) scale = (digits_value (t @ s), 10 ^ length s * scale)"
  using assms
proof (induction s arbitrary: t scale)
  case (Cons c s)
  define y where "y = digits_value (t @ [c])"
  have y: "y = 10 * digits_value t + (of_char c - 48)" by (simp add: y_def digits_value_snoc)
  have "of_char c - 48 \<le> (9 :: nat)" using Cons.prems(1) by (auto simp: is_digit_of_char)
  then have *: "y + 1 \<le> 10 * digits_value t + 10" using y by simp
  then have "(y + 1) * 10 ^ length s \<le> (10 * digits_value t + 10) * 10 ^ length s"
    by (rule mult_le_mono1)
  then have bound: "y * 10 ^ length s + 10 ^ length s \<le> 10 ^ 18"
    using Cons.prems(2) by (simp add: algebra_simps)
  have "digits_value t * 10 + 10 \<le> (digits_value t * 10 + 10) * 10 ^ length s" by simp
  then have "digits_value t * 10 + 10 \<le> 10 ^ 18"
    using Cons.prems(2) by (simp add: algebra_simps)
  then have "digits_value t \<le> (2 ^ 63 - 1) div 10" "y \<le> 2 ^ 63" using * by simp_all
  moreover have "leading_fraction s y (10 * scale) = (digits_value ((t @ [c]) @ s), 10 ^ length s * (10 * scale))"
    unfolding y_def by (rule Cons.IH) (use Cons.prems bound in \<open>simp_all add: y_def\<close>)
  ultimately show ?case by (simp add: Let_def y [symmetric] linorder_not_less)
qed simp

text \<open>The fraction of a number in a unit of \<open>10 ^ p\<close> nanoseconds.\<close>

lemma fmtFrac_read:
  assumes "p \<le> 9" and "fmtFrac p n = CHR ''.'' # f"
  shows "list_all is_digit f"
    and "leading_fraction f 0 1 = (digits_value f, 10 ^ length f)"
    and "digits_value f * 10 ^ p div 10 ^ length f = n mod 10 ^ p"
proof -
  obtain j where j: "pad p n = f @ replicate j (CHR ''0'')"
    using assms(2) trim_zeros_append [of "pad p n"] by (auto simp: fmtFrac_def Let_def split: if_splits)
  have len: "length f + j = p" using arg_cong [OF j, of length] by simp
  show digits: "list_all is_digit f" using is_digit_pad [of p n] j by (metis list_all_append)
  have "(10 :: nat) ^ length f \<le> 10 ^ 18" using len assms(1) by (intro power_increasing) simp_all
  then show "leading_fraction f 0 1 = (digits_value f, 10 ^ length f)"
    using leading_fraction_digits [of f "[]" 1] digits by (simp add: digits_value_def)
  have "digits_value (pad p n) = n mod 10 ^ p" by (rule digits_value_pad_mod)
  then have "n mod 10 ^ p = digits_value f * 10 ^ j" using j digits_value_zeros [of f j] by simp
  moreover have "(10 :: nat) ^ p = 10 ^ length f * 10 ^ j" using len by (simp add: power_add [symmetric])
  ultimately show "digits_value f * 10 ^ p div 10 ^ length f = n mod 10 ^ p" by simp
qed

lemma fmtFrac_cases:
  assumes "p \<le> 9"
  obtains (whole) "fmtFrac p n = []" "n mod 10 ^ p = 0"
  | (fraction) f where "fmtFrac p n = CHR ''.'' # f" "f \<noteq> []"
proof (cases "trim_zeros (pad p n) = []")
  case True
  obtain j where "pad p n = trim_zeros (pad p n) @ replicate j (CHR ''0'')"
    using trim_zeros_append by blast
  then have "digits_value (pad p n) = 0"
    using True digits_value_zeros [of "[]" j] by (simp add: digits_value_def)
  then show ?thesis using True whole by (simp add: fmtFrac_def digits_value_pad_mod)
next
  case False
  then show ?thesis using fraction by (simp add: fmtFrac_def)
qed

text \<open>One number, with the unit that its precision belongs to.\<close>

definition unit_name :: "string \<Rightarrow> bool" where
  "unit_name u \<longleftrightarrow> u \<noteq> [] \<and> list_all (\<lambda>c. c \<noteq> CHR ''.'' \<and> \<not> is_digit c) u"

lemma takeWhile_itoa:
  "r \<noteq> [] \<Longrightarrow> \<not> is_digit (hd r) \<Longrightarrow> takeWhile is_digit (itoa n @ r) = itoa n \<and> dropWhile is_digit (itoa n @ r) = r"
  using is_digit_itoa [of n] by (cases r) (force simp: list_all_iff)+

lemma takeWhile_unit:
  assumes "unit_name u" and "r = [] \<or> is_digit (hd r)"
  shows "takeWhile (\<lambda>c. \<not> (c = CHR ''.'' \<or> is_digit c)) (u @ r) = u"
    and "dropWhile (\<lambda>c. \<not> (c = CHR ''.'' \<or> is_digit c)) (u @ r) = r"
  using assms by (cases r; force simp: unit_name_def list_all_iff)+

lemma parse_duration_term_whole:
  assumes "unit_name u" and "duration_unit u = Some k" and "0 < k" and "r = [] \<or> is_digit (hd r)"
    and "w * k \<le> 2 ^ 63"
  shows "parse_duration_term (itoa w @ u @ r) = Some (w * k, r)"
proof -
  have "u @ r \<noteq> []" "hd (u @ r) \<noteq> CHR ''.''" "\<not> is_digit (hd (u @ r))"
    using assms(1) by (cases u; simp add: unit_name_def)+
  moreover have "w \<le> 2 ^ 63 div k" using assms(3,5) by (simp add: less_eq_div_iff_mult_less_eq)
  moreover have "w \<le> 2 ^ 63" using assms(3,5) by (metis dual_order.trans le_add1 mult.commute mult_le_mono1 mult_1 Suc_leI One_nat_def)
  ultimately show ?thesis
    using takeWhile_itoa [of "u @ r" w] takeWhile_unit [OF assms(1,4)] assms(2,5)
    by (simp add: parse_duration_term_def Let_def digits_value_itoa)
qed

lemma parse_duration_term_fraction:
  assumes "unit_name u" and "duration_unit u = Some (10 ^ p)" and "p \<le> 9" and "r = [] \<or> is_digit (hd r)"
    and "w * 10 ^ p + n mod 10 ^ p \<le> 2 ^ 63"
  shows "parse_duration_term (itoa w @ fmtFrac p n @ u @ r) = Some (w * 10 ^ p + n mod 10 ^ p, r)"
  using assms(3)
proof (cases rule: fmtFrac_cases [of p n])
  case whole
  then show ?thesis using parse_duration_term_whole [of u "10 ^ p" r w] assms by simp
next
  case (fraction f)
  note f = fmtFrac_read [OF assms(3) fraction(1)]
  have "\<not> is_digit (CHR ''.'')" by (simp add: is_digit_def less_eq_char_def)
  moreover have "takeWhile is_digit (f @ u @ r) = f" "dropWhile is_digit (f @ u @ r) = u @ r"
    using f(1) assms(1) by (cases u; force simp: unit_name_def list_all_iff)+
  moreover have "w \<le> 2 ^ 63 div 10 ^ p" using assms(5) by (simp add: less_eq_div_iff_mult_less_eq)
  moreover have "w \<le> 2 ^ 63" using assms(5)
    by (metis add_leD1 dual_order.trans le_square mult_le_mono2 mult.right_neutral one_le_power one_le_numeral)
  ultimately show ?thesis
    using takeWhile_itoa [of "(CHR ''.'') # f @ u @ r" w] takeWhile_unit [OF assms(1,4)] assms(2,5) f(2,3) fraction
    by (simp add: parse_duration_term_def Let_def digits_value_itoa)
qed

lemma unit_names: "unit_name ''ns''" "unit_name [CHR 0xC2, CHR 0xB5, CHR ''s'']" "unit_name ''ms''"
    "unit_name ''s''" "unit_name ''m''" "unit_name ''h''"
  by code_simp+

lemma parse_duration_terms_step:
  assumes "parse_duration_term (a @ r) = Some (v, r)" and "a \<noteq> []" and "length (a @ r) \<le> n"
    and "d + v \<le> 2 ^ 63" and "\<And>n. length r \<le> n \<Longrightarrow> parse_duration_terms n r (d + v) = t"
  shows "parse_duration_terms n (a @ r) d = t"
proof -
  obtain k where n: "n = Suc k" "length r \<le> k" using assms(2,3) by (cases n; cases a) simp_all
  obtain c s where "a @ r = c # s" using assms(2) by (cases a) simp_all
  then show ?thesis using assms(1,4) assms(5) [OF n(2)] by (simp add: n(1))
qed

lemma is_digit_hd_itoa: "is_digit (hd (itoa n))"
  using is_digit_itoa [of n] by (cases "itoa n") simp_all

text \<open>The three numbers of a duration of a second or more.\<close>

lemma parse_duration_seconds:
  assumes "u \<le> 2 ^ 63" and "1000000000 \<le> u"
  shows "parse_duration_terms (length (duration_text u)) (duration_text u) 0 = Some u"
proof -
  define s m h where "s = u div 1000000000" and "m = s div 60" and "h = m div 60"
  define S where "S = itoa (s mod 60) @ fmtFrac 9 u @ ''s''"
  define M where "M = (if m = 0 then [] else itoa (m mod 60) @ ''m'') @ S"
  define H where "H = (if h = 0 then [] else itoa h @ ''h'') @ M"
  define vs vm vh where "vs = s mod 60 * 1000000000 + u mod 1000000000"
    and "vm = m mod 60 * 60000000000" and "vh = h * 3600000000000"
  have u: "u = s * 1000000000 + u mod 1000000000" "s = m * 60 + s mod 60" "m = h * 60 + m mod 60"
    by (simp_all add: s_def m_def h_def)
  then have sum: "vh + vm + vs = u" by (simp add: vs_def vm_def vh_def)
  have eq: "duration_text u = H"
    using assms(2) by (simp add: duration_text_def Let_def H_def M_def S_def s_def m_def h_def)
  have tS: "parse_duration_term S = Some (vs, [])"
    using parse_duration_term_fraction [of "''s''" 9 "[]" "s mod 60" u] unit_names sum assms(1)
    by (simp add: S_def vs_def duration_unit_def)
  have digitS: "is_digit (hd S)" "S \<noteq> []" and digitM: "is_digit (hd M)" "M \<noteq> []"
    by (simp_all add: S_def M_def is_digit_hd_itoa)
  have S: "parse_duration_terms n S d = Some (d + vs)" if "length S \<le> n" "d + vs \<le> 2 ^ 63" for n d
    using that tS digitS parse_duration_terms_step [of S "[]" vs n d] by simp
  have M: "parse_duration_terms n M d = Some (d + vm + vs)" if "length M \<le> n" "d + vm + vs \<le> 2 ^ 63" for n d
  proof (cases "m = 0")
    case False
    then have M: "M = (itoa (m mod 60) @ ''m'') @ S" by (simp add: M_def)
    show ?thesis unfolding M
      by (rule parse_duration_terms_step [where v = vm])
        (use parse_duration_term_whole [of "''m''" 60000000000 S "m mod 60"] unit_names digitS that S in
          \<open>simp_all add: vm_def duration_unit_def M\<close>)
  qed (use that S in \<open>simp_all add: M_def vm_def\<close>)
  have H: "parse_duration_terms n H 0 = Some (vh + vm + vs)" if "length H \<le> n" for n
  proof (cases "h = 0")
    case False
    then have H: "H = (itoa h @ ''h'') @ M" by (simp add: H_def)
    show ?thesis unfolding H
      by (rule parse_duration_terms_step [where v = vh])
        (use parse_duration_term_whole [of "''h''" 3600000000000 M h] unit_names digitM that M sum assms(1) in
          \<open>simp_all add: vh_def duration_unit_def H\<close>)
  qed (use that M [of n 0] sum assms(1) in \<open>simp_all add: H_def vh_def\<close>)
  show ?thesis using H [of "length H"] eq sum by simp
qed

text \<open>A duration of less than a second is one number.\<close>

lemma parse_duration_one:
  assumes "parse_duration_term s = Some (u, [])" and "u \<le> 2 ^ 63" and "s \<noteq> []"
  shows "parse_duration_terms (length s) s 0 = Some u"
  using assms by (cases s) simp_all

lemma parse_duration_terms_text:
  assumes "0 < u" and "u \<le> 2 ^ 63"
  shows "parse_duration_terms (length (duration_text u)) (duration_text u) 0 = Some u"
proof -
  consider "u < 1000" | "1000 \<le> u" "u < 1000000" | "1000000 \<le> u" "u < 1000000000" | "1000000000 \<le> u"
    by linarith
  then show ?thesis
  proof cases
    case 1
    then show ?thesis
      using parse_duration_term_whole [of "''ns''" 1 "[]" u] unit_names assms
      by (intro parse_duration_one) (simp_all add: duration_text_def duration_unit_def)
  next
    case 2
    then show ?thesis
      using parse_duration_term_fraction [of "[CHR 0xC2, CHR 0xB5, CHR ''s'']" 3 "[]" "u div 1000" u] unit_names assms
      by (intro parse_duration_one) (simp_all add: duration_text_def duration_unit_def)
  next
    case 3
    then show ?thesis
      using parse_duration_term_fraction [of "''ms''" 6 "[]" "u div 1000000" u] unit_names assms
      by (intro parse_duration_one) (simp_all add: duration_text_def duration_unit_def)
  qed (use assms in \<open>simp add: parse_duration_seconds\<close>)
qed

lemma duration_text_shape:
  assumes "0 < u"
  shows "\<exists>k s. duration_text u = itoa k @ s \<and> s \<noteq> []"
proof -
  define shape where "shape t \<longleftrightarrow> (\<exists>k s. t = itoa k @ s \<and> s \<noteq> [])" for t
  have last: "shape (itoa k @ f @ c # s)" for k c and f s :: string
    unfolding shape_def by (intro exI [of _ k] exI [of _ "f @ c # s"]) simp
  have more: "shape ((if b then [] else itoa k @ [c]) @ t)" if "shape t" for b k c t
    using that last [of k "[]" c t] by simp
  have "shape (duration_text u)"
    unfolding duration_text_def Let_def using assms last last [where f = "[]"]
    by (simp add: more)
  then show ?thesis by (simp add: shape_def)
qed

lemma duration_text_hd:
  assumes "0 < u"
  shows "is_digit (hd (duration_text u))" and "2 \<le> length (duration_text u)"
proof -
  obtain k s where ks: "duration_text u = itoa k @ s" "s \<noteq> []"
    using duration_text_shape [OF assms] by blast
  then show "is_digit (hd (duration_text u))" by (simp add: is_digit_hd_itoa)
  have "0 < length (itoa k)" "0 < length s" using ks(2) by simp_all
  then show "2 \<le> length (duration_text u)" unfolding ks(1) length_append by linarith
qed

theorem ParseDuration_String:
  assumes "0 \<le> d" and "d \<le> maxDuration"
  shows "ParseDuration (Duration_String d) = Some d"
proof (cases "d = 0")
  case True
  have "itoa 0 @ ''s'' = ''0s''" by code_simp
  then have "parse_duration_terms (length ''0s'') ''0s'' 0 = Some 0"
    using parse_duration_term_whole [of "''s''" 1000000000 "[]" 0] unit_names
    by (intro parse_duration_one) (simp_all add: duration_unit_def)
  with True show ?thesis by (simp add: ParseDuration_def Duration_String_def duration_text_def)
next
  case False
  define u where "u = nat d"
  have u: "0 < u" "int u = d" "u < 2 ^ 63" using assms False by (auto simp: u_def maxDuration_def)
  note hd = duration_text_hd [OF u(1)]
  have "duration_text u \<noteq> ''0''" "duration_text u \<noteq> []" using hd(2) by auto
  moreover have "hd (duration_text u) \<noteq> CHR ''-''" "hd (duration_text u) \<noteq> CHR ''+''"
    using hd(1) by (auto simp: is_digit_def less_eq_char_def)
  ultimately show ?thesis
    using parse_duration_terms_text [of u] u assms(1)
    by (simp add: ParseDuration_def Duration_String_def u_def [symmetric])
qed

subsection \<open>Whole seconds\<close>

lemma pad_zeros: "n mod 10 ^ k = 0 \<Longrightarrow> pad k n = replicate k (CHR ''0'')"
proof (induction k arbitrary: n)
  case (Suc k)
  have "10 dvd n" using Suc.prems dvd_mult_left [of 10 "10 ^ k" n] by (simp add: mod_eq_0_iff_dvd)
  moreover have "n div 10 mod 10 ^ k = 0" using Suc.prems by (simp add: mod_mult2_eq)
  moreover have "char_of (48 :: nat) = CHR ''0''" by (simp add: char_of_eq_iff)
  ultimately show ?case using Suc.IH [of "n div 10"] by (simp add: replicate_append_same)
qed simp

lemma fmtFrac_whole: "n mod 10 ^ p = 0 \<Longrightarrow> fmtFrac p n = []"
  by (simp add: fmtFrac_def trim_zeros_def pad_zeros)

lemma Duration_String_seconds:
  assumes "0 < s"
  shows "Duration_String (int s * Second) = (let m = s div 60; h = m div 60 in
    (if h = 0 then [] else itoa h @ ''h'') @ (if m = 0 then [] else itoa (m mod 60) @ ''m'') @ itoa (s mod 60) @ ''s'')"
proof -
  have "nat (int s * Second) = s * 1000000000" by (simp add: Second_def nat_mult_distrib)
  then show ?thesis using assms
    by (simp add: Duration_String_def duration_text_def Second_def fmtFrac_whole Let_def)
qed

end
