(* ===== verification/Loss_Validate.thy ===== *)
theory Loss_Validate
  imports Loss_Types Go_Duration Go_Regexp
begin

text \<open>
  Package \<^verbatim>\<open>pkg/resilience/oneserverloss\<close>, file \<^verbatim>\<open>validate.go\<close>: the checks of the private
  request, of the marker that releases the fault procedure, and of the receipt. A check
  returns the text of its error, or nothing. Where the source dereferences a time that an
  earlier check has found to be well-formed, the model reads it with \<open>mustTimestamp\<close>.
\<close>

subsection \<open>Lexical checks\<close>

definition minimumPollInterval :: duration where "minimumPollInterval = Second"
definition maximumPollInterval :: duration where "maximumPollInterval = 30 * Second"
definition maximumPhaseTimeout :: duration where "maximumPhaseTimeout = Hour"
definition maximumSamples :: int where "maximumSamples = 4096"
definition maximumReceiptBytes :: int where "maximumReceiptBytes = 7340032"

definition lower_alnum :: "char \<Rightarrow> bool" where
  "lower_alnum c \<longleftrightarrow> is_lower c \<or> is_digit c"

definition alnum :: "char \<Rightarrow> bool" where
  "alnum c \<longleftrightarrow> is_upper c \<or> is_lower c \<or> is_digit c"

text \<open>
  \<^verbatim>\<open>^[a](?:[b]{0,n}[a])?$\<close>: one character, or two with at most \<open>n\<close> in between. The
  alternatives of a pattern are separate sequences.
\<close>

definition enclosed :: "(char \<Rightarrow> bool) \<Rightarrow> string \<Rightarrow> nat \<Rightarrow> rep list list" where
  "enclosed P extra n = [[Rep P 1 (Some 1)],
     [Rep P 1 (Some 1), Rep (\<lambda>c. P c \<or> c \<in> set extra) 0 (Some n), Rep P 1 (Some 1)]]"

definition MatchAny :: "rep list list \<Rightarrow> string \<Rightarrow> bool" where
  "MatchAny ps v \<longleftrightarrow> list_ex (\<lambda>p. MatchString p v) ps"

definition safeIDPattern :: "rep list list" where "safeIDPattern = enclosed lower_alnum ''.-'' 61"
definition dnsNamePattern :: "rep list list" where "dnsNamePattern = enclosed lower_alnum ''-.'' 251"

definition labelKeyPattern :: "rep list list" where
  "labelKeyPattern = (let name = enclosed alnum ''-_.'' 61 in
     name @ concat (map (\<lambda>p. map (\<lambda>n. p @ [Rep (\<lambda>c. c = CHR ''/'') 1 (Some 1)] @ n) name) dnsNamePattern))"

definition labelValuePattern :: "rep list list" where
  "labelValuePattern = [] # enclosed alnum ''-_.'' 61"

definition versionPattern :: "rep list" where
  "versionPattern = [Rep alnum 1 (Some 1), Rep (\<lambda>c. alnum c \<or> c \<in> set ''-+._'') 0 (Some 62)]"

definition validSHA256 :: "string \<Rightarrow> bool" where
  "validSHA256 v \<longleftrightarrow> length v = 64 \<and> \<not> list_ex is_upper v \<and> hex_decodes v"

definition validSafeID :: "string \<Rightarrow> bool" where
  "validSafeID v \<longleftrightarrow> MatchAny safeIDPattern v"

fun split_dots :: "string \<Rightarrow> string list" where
  "split_dots [] = [[]]"
| "split_dots (c # s) =
     (if c = CHR ''.'' then [] # split_dots s else (c # hd (split_dots s)) # tl (split_dots s))"

definition validDNSName :: "string \<Rightarrow> bool" where
  "validDNSName v \<longleftrightarrow> v \<noteq> [] \<and> length v \<le> 253 \<and> MatchAny dnsNamePattern v \<and> \<not> Contains v ''..'' \<and>
     list_all (\<lambda>l. l \<noteq> [] \<and> length l \<le> 63) (split_dots v)"

definition canonicalDuration :: "string \<Rightarrow> duration \<Rightarrow> duration \<Rightarrow> duration option" where
  "canonicalDuration v minimum maximum =
     (case ParseDuration v of
        None \<Rightarrow> None
      | Some d \<Rightarrow> if d < minimum \<or> maximum < d \<or> Duration_String d \<noteq> v then None else Some d)"

definition canonicalTimestamp :: "string \<Rightarrow> gotime option" where
  "canonicalTimestamp v = parse_canonical_time v"

definition mustTimestamp :: "string \<Rightarrow> gotime" where
  "mustTimestamp v = (case canonicalTimestamp v of None \<Rightarrow> 0 | Some t \<Rightarrow> t)"

definition timestamp :: "string \<Rightarrow> bool" where
  "timestamp v \<longleftrightarrow> canonicalTimestamp v \<noteq> None"

definition canonicalSelector :: "(string, string) gomap \<Rightarrow> string" where
  "canonicalSelector labels = commas (map (\<lambda>(k, v). k @ ''='' @ v) (sort_key fst labels))"

subsection \<open>Requests\<close>

record parsedRequest =
  P_poll :: duration
  P_faultTimeout :: duration
  P_lossWindow :: duration
  P_recoveryTimeout :: duration
  P_recoveryStability :: duration
  P_vmUnavailable :: duration
  P_requestSHA256 :: string
  P_workloadBindings :: "(string, string) gomap"
  P_vmBinding :: string
  P_probeBinding :: string

definition validTarget :: "string \<Rightarrow> WorkloadTarget \<Rightarrow> bool" where
  "validTarget previousID t \<longleftrightarrow> validSafeID (WT_ID t) \<and> previousID < WT_ID t \<and> validDNSName (WT_Namespace t) \<and>
     WT_MatchLabels t \<noteq> [] \<and> length (WT_MatchLabels t) \<le> 16 \<and> 1 \<le> WT_MinimumReadyPods t \<and>
     WT_MinimumReadyPods t \<le> 10000 \<and> 1 \<le> WT_MinimumDistinctReadyNodes t \<and>
     WT_MinimumDistinctReadyNodes t \<le> WT_MinimumReadyPods t"

definition validLabels :: "(string, string) gomap \<Rightarrow> bool" where
  "validLabels m \<longleftrightarrow> list_all (\<lambda>(k, v). MatchAny labelKeyPattern k \<and> MatchAny labelValuePattern v) m"

fun validateTargets :: "string \<Rightarrow> (string, string) gomap \<Rightarrow> WorkloadTarget list \<Rightarrow> string + (string, string) gomap" where
  "validateTargets previousID bindings [] = Inr bindings"
| "validateTargets previousID bindings (t # ts) =
     (if \<not> validTarget previousID t then Inl ''one-server-loss workload target is invalid''
      else if \<not> validLabels (WT_MatchLabels t) then Inl ''one-server-loss workload label binding is invalid''
      else validateTargets (WT_ID t) (map_put (WT_ID t) (digestJSON (json_WorkloadTarget t)) bindings) ts)"

definition estimatedSamples :: "duration \<Rightarrow> duration \<Rightarrow> duration \<Rightarrow> int" where
  "estimatedSamples poll faultTimeout recoveryTimeout = go_quot (faultTimeout + recoveryTimeout) poll + 8"

definition validateRequest :: "Request \<Rightarrow> string + parsedRequest" where
  "validateRequest r =
     (if LR_SchemaVersion r \<noteq> RequestSchemaVersion \<or> \<not> validSHA256 (LR_RunNonceSHA256 r) \<or>
        \<not> validDNSName (LR_TargetNodeName r) \<or> LR_MinimumControlPlaneMembers r < 3 \<or>
        99 < LR_MinimumControlPlaneMembers r \<or> LR_Workloads r = [] \<or> 32 < length (LR_Workloads r)
      then Inl ''one-server-loss request is invalid''
      else case canonicalDuration (LR_PollInterval r) minimumPollInterval maximumPollInterval of
        None \<Rightarrow> Inl ''one-server-loss poll interval is invalid''
      | Some poll \<Rightarrow> case canonicalDuration (LR_FaultArrivalTimeout r) (2 * poll) maximumPhaseTimeout of
        None \<Rightarrow> Inl ''one-server-loss fault timeout is invalid''
      | Some faultTimeout \<Rightarrow> case canonicalDuration (LR_MinimumLossWindow r) (2 * poll) maximumPhaseTimeout of
        None \<Rightarrow> Inl ''one-server-loss loss window is invalid''
      | Some lossWindow \<Rightarrow>
          case canonicalDuration (LR_RecoveryTimeout r) (lossWindow + 2 * poll) maximumPhaseTimeout of
        None \<Rightarrow> Inl ''one-server-loss recovery timeout is invalid''
      | Some recoveryTimeout \<Rightarrow>
          case canonicalDuration (LR_RecoveryStabilityWindow r) (2 * poll) recoveryTimeout of
        None \<Rightarrow> Inl ''one-server-loss recovery stability window is invalid''
      | Some recoveryStability \<Rightarrow>
          case canonicalDuration (VT_MaximumUnavailableDuration (LR_VM r)) poll recoveryTimeout of
        None \<Rightarrow> Inl ''one-server-loss VM timeout is invalid''
      | Some vmUnavailable \<Rightarrow>
          let samples = estimatedSamples poll faultTimeout recoveryTimeout;
              bytes = 2048 + int (length (LR_Workloads r)) * 512 in
          if maximumSamples < samples \<or> maximumReceiptBytes < samples * bytes
          then Inl ''one-server-loss request can exceed the evidence bound''
          else case validateTargets [] [] (LR_Workloads r) of
            Inl e \<Rightarrow> Inl e
          | Inr bindings \<Rightarrow>
              if \<not> validSafeID (VT_ID (LR_VM r)) \<or> \<not> validDNSName (VT_Namespace (LR_VM r)) \<or>
                \<not> validDNSName (VT_Name (LR_VM r)) \<or> \<not> VT_RequirePreLossOnTarget (LR_VM r)
              then Inl ''one-server-loss VM target is invalid''
              else if \<not> validSafeID (DT_ID (LR_DataProbe r)) \<or> \<not> validSafeID (DT_QueryRef (LR_DataProbe r)) \<or>
                DT_MinimumValidatedBytes (LR_DataProbe r) < 1
              then Inl ''one-server-loss data probe target is invalid''
              else Inr \<lparr>P_poll = poll, P_faultTimeout = faultTimeout, P_lossWindow = lossWindow,
                P_recoveryTimeout = recoveryTimeout, P_recoveryStability = recoveryStability,
                P_vmUnavailable = vmUnavailable, P_requestSHA256 = digestJSON (json_Request r),
                P_workloadBindings = bindings, P_vmBinding = digestJSON (json_VMTarget (LR_VM r)),
                P_probeBinding = digestJSON (json_DataProbeTarget (LR_DataProbe r))\<rparr>)"

subsection \<open>Ready markers\<close>

definition ValidateReadyMarker :: "ReadyMarker \<Rightarrow> string option" where
  "ValidateReadyMarker m =
     (if RM_SchemaVersion m \<noteq> ReadyMarkerSchemaVersion \<or> RM_Status m \<noteq> ReadyMarkerStatus \<or>
        \<not> validSHA256 (RM_RequestSHA256 m) \<or> \<not> validSHA256 (RM_RunNonceSHA256 m) \<or>
        \<not> validSHA256 (RM_TargetNodeUIDSHA256 m) \<or> \<not> validSHA256 (RM_KubectlExecutableSHA256 m) \<or>
        \<not> validSHA256 (RM_ProbeAdapterSHA256 m) \<or> RM_BaselineControlPlaneNodes m < 3 \<or>
        RM_BaselineEtcdMembers m < 3 \<or> RM_BaselineAPIServerMembers m < 3 \<or>
        \<not> timestamp (RM_ReadyAt m) \<or> \<not> validSHA256 (RM_MarkerSHA256 m)
      then Some ''one-server-loss ready marker is invalid''
      else if RM_NodeUIDHashAlgorithm m \<noteq> [] \<and> RM_NodeUIDHashAlgorithm m \<noteq> NodeUIDHashAlgorithm \<or>
        (RM_NodeUIDHashAlgorithm m = []) \<noteq> (RM_ControlPlaneMemberSetSHA256 m = []) \<or>
        RM_ControlPlaneMemberSetSHA256 m \<noteq> [] \<and> \<not> validSHA256 (RM_ControlPlaneMemberSetSHA256 m)
      then Some ''one-server-loss ready marker member set is invalid''
      else if markerDigest m \<noteq> RM_MarkerSHA256 m
      then Some ''one-server-loss ready marker digest is invalid''
      else None)"

definition ValidateReadyMarkerFreshness ::
    "ReadyMarker \<Rightarrow> gotime \<Rightarrow> duration \<Rightarrow> duration \<Rightarrow> string option" where
  "ValidateReadyMarkerFreshness m now maximumAge maximumFutureSkew =
     (case ValidateReadyMarker m of
        Some e \<Rightarrow> Some e
      | None \<Rightarrow>
          if IsZero now \<or> maximumAge \<le> 0 \<or> maximumFutureSkew < 0
          then Some ''one-server-loss ready marker freshness policy is invalid''
          else if mustTimestamp (RM_ReadyAt m) < time_Add now (- maximumAge)
          then Some ''one-server-loss ready marker is stale''
          else if time_Add now maximumFutureSkew < mustTimestamp (RM_ReadyAt m)
          then Some ''one-server-loss ready marker is from the future''
          else None)"

subsection \<open>Member sets\<close>

definition canonical_members :: "string list \<Rightarrow> bool" where
  "canonical_members uids \<longleftrightarrow> list_all validSHA256 uids \<and> distinct_adj uids"

definition ControlPlaneMemberSetSHA256 :: "string list \<Rightarrow> string" where
  "ControlPlaneMemberSetSHA256 uids =
     (if length uids < 1 \<or> 10000 < length uids then []
      else let canonical = sort uids in
        if \<not> canonical_members canonical then []
        else digestJSON (JObject [(''domain'', JString controlPlaneMemberSetDomain),
          (''memberUidSha256'', JArray (map JString canonical))]))"

subsection \<open>Samples\<close>

definition vmReadyOffTarget :: "SampleEvidence \<Rightarrow> bool" where
  "vmReadyOffTarget s \<longleftrightarrow> VE_VMReady (SE_VM s) \<and> VE_VMIReady (SE_VM s) \<and> \<not> VE_VMIOnTarget (SE_VM s)"

fun sameWorkloadShape :: "WorkloadEvidence list \<Rightarrow> WorkloadEvidence list \<Rightarrow> bool" where
  "sameWorkloadShape [] [] = True"
| "sameWorkloadShape (l # ls) (r # rs) =
     (WE_ID l = WE_ID r \<and> WE_BindingSHA256 l = WE_BindingSHA256 r \<and>
      WE_MinimumReadyPods l = WE_MinimumReadyPods r \<and> WE_MinimumReadyNodes l = WE_MinimumReadyNodes r \<and>
      sameWorkloadShape ls rs)"
| "sameWorkloadShape _ _ = False"

definition validWorkload :: "string \<Rightarrow> WorkloadEvidence \<Rightarrow> bool" where
  "validWorkload previousID w \<longleftrightarrow> validSafeID (WE_ID w) \<and> previousID < WE_ID w \<and> validSHA256 (WE_BindingSHA256 w) \<and>
     0 \<le> WE_ReadyPods w \<and> WE_ReadyPods w \<le> 10000 \<and> 0 \<le> WE_DistinctReadyNodes w \<and>
     WE_DistinctReadyNodes w \<le> WE_ReadyPods w \<and> 1 \<le> WE_MinimumReadyPods w \<and> 1 \<le> WE_MinimumReadyNodes w \<and>
     WE_MinimumReadyNodes w \<le> WE_MinimumReadyPods w"

fun validateWorkloads :: "string \<Rightarrow> WorkloadEvidence list \<Rightarrow> string option" where
  "validateWorkloads previousID [] = None"
| "validateWorkloads previousID (w # ws) =
     (if \<not> validWorkload previousID w then Some ''one-server-loss workload evidence is invalid''
      else validateWorkloads (WE_ID w) ws)"

definition safeNode :: "SampleEvidence \<Rightarrow> bool" where
  "safeNode s \<longleftrightarrow> SE_Phase s \<in> {PhasePreLoss, PhaseLoss, PhaseRecovered} \<and> SE_ReadyZPassed s \<and>
     SE_Workloads s \<noteq> [] \<and> length (SE_Workloads s) \<le> 32 \<and>
     (SE_TargetNodePresent s \<longrightarrow> validSHA256 (SE_TargetNodeUIDSHA256 s)) \<and>
     (\<not> SE_TargetNodePresent s \<longrightarrow> SE_TargetNodeUIDSHA256 s = []) \<and>
     (SE_TargetNodeReady s \<longrightarrow> SE_TargetNodePresent s) \<and>
     0 \<le> SE_ControlPlaneReadyNodes s \<and> SE_ControlPlaneReadyNodes s \<le> 10000 \<and>
     0 \<le> SE_EtcdReadyMembers s \<and> SE_EtcdReadyMembers s \<le> 10000 \<and>
     0 \<le> SE_APIServerReadyMembers s \<and> SE_APIServerReadyMembers s \<le> 10000"

definition safeVM :: "VMEvidence \<Rightarrow> bool" where
  "safeVM v \<longleftrightarrow> validSafeID (VE_ID v) \<and> validSHA256 (VE_BindingSHA256 v) \<and> validSHA256 (VE_VMUIDSHA256 v) \<and>
     (VE_VMIUIDSHA256 v \<noteq> [] \<longrightarrow> validSHA256 (VE_VMIUIDSHA256 v)) \<and>
     (VE_VMIReady v \<longrightarrow> VE_VMIUIDSHA256 v \<noteq> []) \<and> (VE_VMIOnTarget v \<longrightarrow> VE_VMIUIDSHA256 v \<noteq> [])"

definition safeProbe :: "Receipt \<Rightarrow> DataProbeEvidence \<Rightarrow> bool" where
  "safeProbe r d \<longleftrightarrow> validSafeID (DE_ID d) \<and> validSHA256 (DE_BindingSHA256 d) \<and>
     MatchString versionPattern (DE_Implementation d) \<and> MatchString versionPattern (DE_Version d) \<and>
     validSHA256 (DE_RequestSHA256 d) \<and> DE_AdapterExecutableSHA256 d = Rc_ProbeAdapterSHA256 r \<and>
     DE_HashAlgorithm d = ''sha256'' \<and> validSHA256 (DE_DataSHA256 d) \<and> 1 \<le> DE_ValidatedBytes d"

text \<open>The sample is complete: its probe ran within the time of the sample.\<close>

definition safeTimes :: "SampleEvidence \<Rightarrow> bool" where
  "safeTimes s \<longleftrightarrow>
     (case (canonicalTimestamp (SE_StartedAt s), canonicalTimestamp (SE_ObservedAt s),
            canonicalTimestamp (DE_StartedAt (SE_DataProbe s)), canonicalTimestamp (DE_CompletedAt (SE_DataProbe s))) of
        (Some started, Some observed, Some probeStarted, Some probeCompleted) \<Rightarrow>
          probeStarted \<le> probeCompleted \<and> started \<le> probeStarted \<and> probeCompleted \<le> observed
      | _ \<Rightarrow> False)"

definition validateSafeSample :: "Receipt \<Rightarrow> SampleEvidence \<Rightarrow> string option" where
  "validateSafeSample r s =
     (if \<not> safeNode s \<or> \<not> safeVM (SE_VM s) \<or> \<not> safeProbe r (SE_DataProbe s) \<or> \<not> safeTimes s
      then Some ''one-server-loss sample contains invalid safe evidence''
      else if SE_ControlPlaneMemberSetSHA256 s \<noteq> [] \<and> \<not> validSHA256 (SE_ControlPlaneMemberSetSHA256 s)
      then Some ''one-server-loss sample member set is invalid''
      else validateWorkloads [] (SE_Workloads s))"

text \<open>
  The loop over all samples. \<open>previous\<close> is the time of the last observation and \<open>first\<close> the
  first sample, both absent at the first sample; \<open>probeRequests\<close> are the requests seen.
\<close>

definition sameBinding :: "SampleEvidence \<Rightarrow> SampleEvidence \<Rightarrow> bool" where
  "sameBinding f s \<longleftrightarrow> sameWorkloadShape (SE_Workloads f) (SE_Workloads s) \<and>
     VE_BindingSHA256 (SE_VM s) = VE_BindingSHA256 (SE_VM f) \<and>
     DE_BindingSHA256 (SE_DataProbe s) = DE_BindingSHA256 (SE_DataProbe f) \<and>
     DE_Implementation (SE_DataProbe s) = DE_Implementation (SE_DataProbe f) \<and>
     DE_Version (SE_DataProbe s) = DE_Version (SE_DataProbe f)"

fun validateSampleSequence :: "duration \<Rightarrow> Receipt \<Rightarrow> int \<Rightarrow> (gotime \<times> SampleEvidence) option \<Rightarrow> string list \<Rightarrow>
    SampleEvidence list \<Rightarrow> string option" where
  "validateSampleSequence poll r index seen probeRequests [] = None"
| "validateSampleSequence poll r index seen probeRequests (s # ss) =
     (let started = mustTimestamp (SE_StartedAt s); observed = mustTimestamp (SE_ObservedAt s);
          request = DE_RequestSHA256 (SE_DataProbe s) in
      if SE_Sequence s \<noteq> index + 1 \<or> \<not> timestamp (SE_StartedAt s) \<or> \<not> timestamp (SE_ObservedAt s) \<or>
        observed < started \<or> \<not> validSHA256 (SE_SampleSHA256 s)
      then Some ''one-server-loss sample sequence is invalid''
      else if sampleDigest s \<noteq> SE_SampleSHA256 s then Some ''one-server-loss sample digest is invalid''
      else if (case seen of None \<Rightarrow> False | Some (previous, first) \<Rightarrow>
        started < previous \<or> observed < previous \<or> 2 * poll < time_Sub started previous)
      then Some ''one-server-loss observation gap is invalid''
      else case validateSafeSample r s of
        Some e \<Rightarrow> Some e
      | None \<Rightarrow>
          if request \<in> set probeRequests then Some ''one-server-loss data-probe request was replayed''
          else if (case seen of None \<Rightarrow> False | Some (previous, first) \<Rightarrow> \<not> sameBinding first s)
          then Some ''one-server-loss sample binding changed''
          else validateSampleSequence poll r (index + 1)
            (Some (observed, case seen of None \<Rightarrow> s | Some (previous, first) \<Rightarrow> first)) (request # probeRequests) ss)"

subsection \<open>Phases\<close>

definition validateBaseline :: "LossBaseline \<Rightarrow> int \<Rightarrow> string option" where
  "validateBaseline b minimum =
     (if LB_ControlPlaneNodes b < minimum \<or> 10000 < LB_ControlPlaneNodes b \<or> LB_EtcdMembers b < 3 \<or>
        10000 < LB_EtcdMembers b \<or> LB_APIServerMembers b < 3 \<or> 10000 < LB_APIServerMembers b \<or>
        \<not> validSHA256 (LB_VMUIDSHA256 b) \<or> \<not> validSHA256 (LB_DataSHA256 b) \<or> LB_ValidatedBytes b < 1 \<or>
        \<not> validSHA256 (LB_BaselineSHA256 b)
      then Some ''one-server-loss baseline is invalid''
      else if LB_ControlPlaneMemberSetSHA256 b \<noteq> [] \<and> \<not> validSHA256 (LB_ControlPlaneMemberSetSHA256 b)
      then Some ''one-server-loss baseline member set is invalid''
      else if baselineDigest b \<noteq> LB_BaselineSHA256 b then Some ''one-server-loss baseline digest is invalid''
      else None)"

definition validatePhase :: "string \<Rightarrow> PhaseEvidence \<Rightarrow> string option" where
  "validatePhase expected p =
     (if PE_Phase p \<noteq> expected \<or> PE_Samples p = [] \<or> \<not> validSHA256 (PE_SamplesSHA256 p) \<or>
        \<not> timestamp (PE_StartedAt p) \<or> \<not> timestamp (PE_CompletedAt p)
      then Some ''one-server-loss phase evidence is invalid''
      else if samplesDigest (PE_Samples p) \<noteq> PE_SamplesSHA256 p
      then Some ''one-server-loss phase sample digest is invalid''
      else None)"

definition workloadsHealthy :: "SampleEvidence \<Rightarrow> bool" where
  "workloadsHealthy s \<longleftrightarrow> list_all (\<lambda>w. WE_MinimumReadyPods w \<le> WE_ReadyPods w \<and>
     WE_MinimumReadyNodes w \<le> WE_DistinctReadyNodes w) (SE_Workloads s)"

definition memberSetBound :: "Receipt \<Rightarrow> bool" where
  "memberSetBound r \<longleftrightarrow> LB_ControlPlaneMemberSetSHA256 (Rc_Baseline r) \<noteq> []"

text \<open>The node, the members and the machine in the phases with the server.\<close>

definition healthyWithTarget :: "Receipt \<Rightarrow> SampleEvidence \<Rightarrow> bool" where
  "healthyWithTarget r s \<longleftrightarrow> (let b = Rc_Baseline r in
     SE_TargetNodePresent s \<and> SE_TargetNodeReady s \<and> SE_TargetNodeUIDSHA256 s = Rc_TargetNodeUIDSHA256 r \<and>
     (memberSetBound r \<longrightarrow> SE_ControlPlaneMemberSetSHA256 s = LB_ControlPlaneMemberSetSHA256 b) \<and>
     LB_ControlPlaneNodes b \<le> SE_ControlPlaneReadyNodes s \<and> LB_EtcdMembers b \<le> SE_EtcdReadyMembers s \<and>
     LB_APIServerMembers b \<le> SE_APIServerReadyMembers s \<and> SE_TargetHostsEtcd s \<and> SE_TargetHostsAPIServer s \<and>
     VE_VMReady (SE_VM s) \<and> VE_VMIReady (SE_VM s))"

definition exactLoss :: "Receipt \<Rightarrow> SampleEvidence \<Rightarrow> bool" where
  "exactLoss r s \<longleftrightarrow> (let b = Rc_Baseline r in
     \<not> SE_TargetNodeReady s \<and> (SE_TargetNodePresent s \<longrightarrow> SE_TargetNodeUIDSHA256 s = Rc_TargetNodeUIDSHA256 r) \<and>
     (memberSetBound r \<longrightarrow> SE_ControlPlaneMemberSetSHA256 s \<noteq> LB_ControlPlaneMemberSetSHA256 b) \<and>
     SE_ControlPlaneReadyNodes s = LB_ControlPlaneNodes b - 1 \<and> SE_EtcdReadyMembers s = LB_EtcdMembers b - 1 \<and>
     SE_APIServerReadyMembers s = LB_APIServerMembers b - 1)"

definition continuous :: "string \<Rightarrow> Receipt \<Rightarrow> SampleEvidence \<Rightarrow> bool" where
  "continuous phase r s \<longleftrightarrow> (let b = Rc_Baseline r in
     SE_Phase s = phase \<and> VE_VMUIDSHA256 (SE_VM s) = LB_VMUIDSHA256 b \<and>
     DE_DataSHA256 (SE_DataProbe s) = LB_DataSHA256 b \<and> DE_ValidatedBytes (SE_DataProbe s) = LB_ValidatedBytes b \<and>
     memberSetBound r = (SE_ControlPlaneMemberSetSHA256 s \<noteq> []))"

fun phaseHealth :: "string \<Rightarrow> Receipt \<Rightarrow> duration \<Rightarrow> bool \<Rightarrow> SampleEvidence list \<Rightarrow> string + bool" where
  "phaseHealth phase r vmUnavailable recovered [] = Inr recovered"
| "phaseHealth phase r vmUnavailable recovered (s # ss) =
     (if \<not> continuous phase r s then Inl ''one-server-loss identity or data continuity failed''
      else if \<not> workloadsHealthy s then Inl ''one-server-loss workload continuity failed''
      else if phase = PhasePreLoss then
        (if \<not> healthyWithTarget r s \<or> \<not> VE_VMIOnTarget (SE_VM s) then Inl ''one-server-loss pre-loss health failed''
         else phaseHealth phase r vmUnavailable recovered ss)
      else if phase = PhaseLoss then
        (if \<not> exactLoss r s then Inl ''one-server-loss exact loss envelope failed''
         else let recovered' = recovered \<or> vmReadyOffTarget s in
           if \<not> recovered' \<and>
             vmUnavailable < time_Sub (mustTimestamp (SE_ObservedAt s)) (mustTimestamp (PE_StartedAt (Rc_Loss r)))
           then Inl ''one-server-loss VM continuity SLO failed''
           else phaseHealth phase r vmUnavailable recovered' ss)
      else if phase = PhaseRecovered then
        (if \<not> healthyWithTarget r s then Inl ''one-server-loss recovery health failed''
         else phaseHealth phase r vmUnavailable recovered ss)
      else phaseHealth phase r vmUnavailable recovered ss)"

definition validatePhaseHealth :: "SampleEvidence list \<Rightarrow> string \<Rightarrow> Receipt \<Rightarrow> duration \<Rightarrow> string option" where
  "validatePhaseHealth samples phase r vmUnavailable =
     (case phaseHealth phase r vmUnavailable False samples of
        Inl e \<Rightarrow> Some e
      | Inr recovered \<Rightarrow>
          if phase = PhaseLoss \<and> (\<not> recovered \<or> \<not> vmReadyOffTarget (last samples))
          then Some ''one-server-loss VM did not recover away from failed node''
          else None)"

subsection \<open>Receipts\<close>

definition validReceiptHeader :: "Receipt \<Rightarrow> bool" where
  "validReceiptHeader r \<longleftrightarrow> Rc_SchemaVersion r = LossReceiptSchemaVersion \<and> Rc_Status r = ReceiptStatus \<and>
     validSHA256 (Rc_RequestSHA256 r) \<and> validSHA256 (Rc_RunNonceSHA256 r) \<and> validSHA256 (Rc_TargetNodeUIDSHA256 r) \<and>
     validSHA256 (Rc_KubectlExecutableSHA256 r) \<and> validSHA256 (Rc_ProbeAdapterSHA256 r) \<and>
     3 \<le> Rc_MinimumControlPlane r \<and> Rc_MinimumControlPlane r \<le> 99 \<and> timestamp (Rc_StartedAt r) \<and>
     timestamp (Rc_ReadyMarkerAt r) \<and> timestamp (Rc_CompletedAt r) \<and> validSHA256 (Rc_ReceiptSHA256 r)"

definition allSamples :: "Receipt \<Rightarrow> SampleEvidence list" where
  "allSamples r = PE_Samples (Rc_PreLoss r) @ PE_Samples (Rc_Loss r) @ PE_Samples (Rc_Recovered r)"

definition validTimeline :: "Receipt \<Rightarrow> duration \<Rightarrow> duration \<Rightarrow> duration \<Rightarrow> duration \<Rightarrow> duration \<Rightarrow> bool" where
  "validTimeline r poll faultTimeout lossWindow recoveryTimeout recoveryStability \<longleftrightarrow>
     (let pre = Rc_PreLoss r; loss = Rc_Loss r; rec = Rc_Recovered r;
          start = mustTimestamp (Rc_StartedAt r); ready = mustTimestamp (Rc_ReadyMarkerAt r);
          complete = mustTimestamp (Rc_CompletedAt r);
          preStart = mustTimestamp (PE_StartedAt pre); preComplete = mustTimestamp (PE_CompletedAt pre);
          lossStart = mustTimestamp (PE_StartedAt loss); lossComplete = mustTimestamp (PE_CompletedAt loss);
          recoveryStart = mustTimestamp (PE_StartedAt rec); recoveryComplete = mustTimestamp (PE_CompletedAt rec);
          firstPreStarted = mustTimestamp (SE_StartedAt (hd (PE_Samples pre)));
          firstPreObserved = mustTimestamp (SE_ObservedAt (hd (PE_Samples pre)));
          firstLossObserved = mustTimestamp (SE_ObservedAt (hd (PE_Samples loss)));
          firstRecoveryObserved = mustTimestamp (SE_ObservedAt (hd (PE_Samples rec)));
          lastRecoveryObserved = mustTimestamp (SE_ObservedAt (last (PE_Samples rec))) in
      start = preStart \<and> preComplete = lossStart \<and> lossComplete = recoveryStart \<and> complete = recoveryComplete \<and>
      preStart = firstPreStarted \<and> preComplete = firstLossObserved \<and> lossStart = firstLossObserved \<and>
      lossComplete = firstRecoveryObserved \<and> recoveryStart = firstRecoveryObserved \<and>
      recoveryComplete = lastRecoveryObserved \<and>
      list_ex (\<lambda>s. canonicalTimestamp (SE_ObservedAt s) = Some ready) (PE_Samples pre) \<and>
      time_Add firstPreObserved (2 * poll) \<le> ready \<and> ready \<le> lossStart \<and>
      time_Sub lossStart ready \<le> faultTimeout \<and> lossWindow \<le> time_Sub lossComplete lossStart \<and>
      time_Sub recoveryComplete lossStart \<le> recoveryTimeout \<and>
      recoveryStability \<le> time_Sub recoveryComplete recoveryStart)"

definition validSampleTimes :: "Receipt \<Rightarrow> bool" where
  "validSampleTimes r \<longleftrightarrow> timestamp (SE_StartedAt (hd (PE_Samples (Rc_PreLoss r)))) \<and>
     timestamp (SE_ObservedAt (hd (PE_Samples (Rc_PreLoss r)))) \<and>
     timestamp (SE_ObservedAt (hd (PE_Samples (Rc_Loss r)))) \<and>
     timestamp (SE_ObservedAt (hd (PE_Samples (Rc_Recovered r)))) \<and>
     timestamp (SE_ObservedAt (last (PE_Samples (Rc_Recovered r))))"

text \<open>The checks of the evidence, after the durations have been read.\<close>

definition validateEvidence :: "Receipt \<Rightarrow> duration \<Rightarrow> duration \<Rightarrow> duration \<Rightarrow> duration \<Rightarrow> duration \<Rightarrow> duration \<Rightarrow>
    string option" where
  "validateEvidence r poll faultTimeout lossWindow recoveryTimeout recoveryStability vmUnavailable =
     (case validateBaseline (Rc_Baseline r) (Rc_MinimumControlPlane r) of Some e \<Rightarrow> Some e | None \<Rightarrow>
      if (Rc_NodeUIDHashAlgorithm r = []) \<noteq> (LB_ControlPlaneMemberSetSHA256 (Rc_Baseline r) = [])
      then Some ''one-server-loss receipt member-set hash algorithm binding is invalid''
      else case validatePhase PhasePreLoss (Rc_PreLoss r) of Some e \<Rightarrow> Some e | None \<Rightarrow>
      case validatePhase PhaseLoss (Rc_Loss r) of Some e \<Rightarrow> Some e | None \<Rightarrow>
      case validatePhase PhaseRecovered (Rc_Recovered r) of Some e \<Rightarrow> Some e | None \<Rightarrow>
      if length (allSamples r) < 7 \<or> maximumSamples < int (length (allSamples r))
      then Some ''one-server-loss receipt sample count is invalid''
      else if \<not> validSampleTimes r then Some ''one-server-loss receipt sample timeline is invalid''
      else if \<not> validTimeline r poll faultTimeout lossWindow recoveryTimeout recoveryStability
      then Some ''one-server-loss receipt phase timeline is invalid''
      else case validateSampleSequence poll r 0 None [] (allSamples r) of Some e \<Rightarrow> Some e | None \<Rightarrow>
      case validatePhaseHealth (PE_Samples (Rc_PreLoss r)) PhasePreLoss r vmUnavailable of Some e \<Rightarrow> Some e | None \<Rightarrow>
      case validatePhaseHealth (PE_Samples (Rc_Loss r)) PhaseLoss r vmUnavailable of Some e \<Rightarrow> Some e | None \<Rightarrow>
      case validatePhaseHealth (PE_Samples (Rc_Recovered r)) PhaseRecovered r vmUnavailable of Some e \<Rightarrow> Some e | None \<Rightarrow>
      if lossReceiptDigest r \<noteq> Rc_ReceiptSHA256 r then Some ''one-server-loss receipt digest is invalid'' else None)"

definition ValidateLossReceipt :: "Receipt \<Rightarrow> string option" where
  "ValidateLossReceipt r =
     (if \<not> validReceiptHeader r then Some ''one-server-loss receipt is invalid''
      else if Rc_NodeUIDHashAlgorithm r \<noteq> [] \<and> Rc_NodeUIDHashAlgorithm r \<noteq> NodeUIDHashAlgorithm
      then Some ''one-server-loss receipt Node UID hash algorithm is invalid''
      else case canonicalDuration (Rc_PollInterval r) minimumPollInterval maximumPollInterval of
        None \<Rightarrow> Some ''one-server-loss receipt poll interval is invalid''
      | Some poll \<Rightarrow> case canonicalDuration (Rc_FaultArrivalTimeout r) (2 * poll) maximumPhaseTimeout of
        None \<Rightarrow> Some ''one-server-loss receipt fault timeout is invalid''
      | Some faultTimeout \<Rightarrow> case canonicalDuration (Rc_MinimumLossWindow r) (2 * poll) maximumPhaseTimeout of
        None \<Rightarrow> Some ''one-server-loss receipt loss window is invalid''
      | Some lossWindow \<Rightarrow>
          case canonicalDuration (Rc_RecoveryTimeout r) (lossWindow + 2 * poll) maximumPhaseTimeout of
        None \<Rightarrow> Some ''one-server-loss receipt recovery timeout is invalid''
      | Some recoveryTimeout \<Rightarrow>
          case canonicalDuration (Rc_RecoveryStabilityWindow r) (2 * poll) recoveryTimeout of
        None \<Rightarrow> Some ''one-server-loss receipt recovery stability window is invalid''
      | Some recoveryStability \<Rightarrow>
          case canonicalDuration (Rc_MaximumVMUnavailable r) poll recoveryTimeout of
        None \<Rightarrow> Some ''one-server-loss receipt VM timeout is invalid''
      | Some vmUnavailable \<Rightarrow>
          validateEvidence r poll faultTimeout lossWindow recoveryTimeout recoveryStability vmUnavailable)"

end
