(* ===== verification/Strict_Json.thy ===== *)
theory Strict_Json
  imports Go_Json
begin

text \<open>
  Package \<^verbatim>\<open>internal/strictjson\<close>: the structural check of an untrusted document, and the
  decoding of a checked document into a structure. A member is assigned to the field with
  exactly its name, or else to the field that differs from it in case only, where the
  Kelvin sign and the long s count as forms of \<^verbatim>\<open>k\<close> and \<^verbatim>\<open>s\<close>; a \<^verbatim>\<open>null\<close> leaves a field as it is or clears a
  list, a map or a pointer. A document that names one list twice in different case is
  taken to hold its last occurrence.
\<close>

subsection \<open>Structure\<close>

definition MaxDocumentBytes :: nat where "MaxDocumentBytes = 8388608"
definition maxDepth :: nat where "maxDepth = 64"

datatype json_error = ErrInvalid | ErrDuplicate | ErrTooLarge

text \<open>Whether an object repeats a key, or nothing when the document is too deep.\<close>

fun inspectValue :: "nat \<Rightarrow> json \<Rightarrow> bool option"
  and inspectMembers :: "nat \<Rightarrow> string list \<Rightarrow> (string \<times> json) list \<Rightarrow> bool option"
  and inspectElements :: "nat \<Rightarrow> json list \<Rightarrow> bool option"
where
  "inspectValue depth v =
     (if maxDepth < depth then None
      else case v of
        JObject ms \<Rightarrow> inspectMembers (depth + 1) [] ms
      | JArray vs \<Rightarrow> inspectElements (depth + 1) vs
      | _ \<Rightarrow> Some False)"
| "inspectMembers depth seen [] = Some False"
| "inspectMembers depth seen ((k, v) # ms) =
     (if k \<in> set seen then Some True
      else case inspectValue depth v of
        Some False \<Rightarrow> inspectMembers depth (k # seen) ms
      | r \<Rightarrow> r)"
| "inspectElements depth [] = Some False"
| "inspectElements depth (v # vs) =
     (case inspectValue depth v of
        Some False \<Rightarrow> inspectElements depth vs
      | r \<Rightarrow> r)"

definition json_check :: "string \<Rightarrow> json_error + json" where
  "json_check data =
     (if MaxDocumentBytes < length data then Inl ErrTooLarge
      else if data = [] then Inl ErrInvalid
      else case json_Parse data of
        None \<Rightarrow> Inl ErrInvalid
      | Some v \<Rightarrow>
          (case inspectValue 0 v of
             None \<Rightarrow> Inl ErrInvalid
           | Some duplicate \<Rightarrow> if duplicate then Inl ErrDuplicate else Inr v))"

definition Validate :: "string \<Rightarrow> json_error option" where
  "Validate data = (case json_check data of Inl e \<Rightarrow> Some e | Inr v \<Rightarrow> None)"

text \<open>What a reader delivers, or nothing when it fails.\<close>

definition Read :: "string option \<Rightarrow> json_error + string" where
  "Read input =
     (case input of
        None \<Rightarrow> Inl ErrInvalid
      | Some all \<Rightarrow>
          let data = take (MaxDocumentBytes + 1) all in
          if MaxDocumentBytes < length data then Inl ErrTooLarge
          else case Validate data of Some e \<Rightarrow> Inl e | None \<Rightarrow> Inr data)"

subsection \<open>Structures\<close>

type_synonym 'a decoder = "json \<Rightarrow> 'a \<Rightarrow> 'a option"

definition fold_rune :: "string \<Rightarrow> string" where
  "fold_rune r =
     (if r = [CHR 0xE2, CHR 0x84, CHR 0xAA] then ''K''
      else if r = [CHR 0xC5, CHR 0xBF] then ''S''
      else case r of
        [c] \<Rightarrow> if is_lower c then [char_of (of_char c - 32 :: nat)] else r
      | _ \<Rightarrow> r)"

definition fold_name :: "string \<Rightarrow> string" where
  "fold_name s = concat (map fold_rune (runes s))"

definition field_decoder :: "(string \<times> 'a decoder) list \<Rightarrow> string \<Rightarrow> 'a decoder option" where
  "field_decoder fs k =
     (case map_of fs k of
        Some d \<Rightarrow> Some d
      | None \<Rightarrow> map_option snd (find (\<lambda>(n, d). fold_name n = fold_name k) fs))"

fun decode_members :: "(string \<times> 'a decoder) list \<Rightarrow> (string \<times> json) list \<Rightarrow> 'a \<Rightarrow> 'a option" where
  "decode_members fs [] x = Some x"
| "decode_members fs ((k, v) # ms) x =
     (case field_decoder fs k of
        None \<Rightarrow> decode_members fs ms x
      | Some d \<Rightarrow> (case d v x of None \<Rightarrow> None | Some y \<Rightarrow> decode_members fs ms y))"

definition decode_struct :: "(string \<times> 'a decoder) list \<Rightarrow> 'a decoder" where
  "decode_struct fs v x =
     (case v of JNull \<Rightarrow> Some x | JObject ms \<Rightarrow> decode_members fs ms x | _ \<Rightarrow> None)"

definition decode_string :: "string decoder" where
  "decode_string v x = (case v of JNull \<Rightarrow> Some x | JString s \<Rightarrow> Some s | _ \<Rightarrow> None)"

definition decode_bool :: "bool decoder" where
  "decode_bool v x = (case v of JNull \<Rightarrow> Some x | JBool b \<Rightarrow> Some b | _ \<Rightarrow> None)"

definition decode_string_pointer :: "string option decoder" where
  "decode_string_pointer v x = (case v of JNull \<Rightarrow> Some None | JString s \<Rightarrow> Some (Some s) | _ \<Rightarrow> None)"

fun decode_string_map :: "(string \<times> json) list \<Rightarrow> (string, string) gomap \<Rightarrow> (string, string) gomap option" where
  "decode_string_map [] m = Some m"
| "decode_string_map ((k, v) # ms) m =
     (case decode_string v [] of None \<Rightarrow> None | Some s \<Rightarrow> decode_string_map ms (map_put k s m))"

definition decode_labels :: "(string, string) gomap decoder" where
  "decode_labels v m =
     (case v of JNull \<Rightarrow> Some [] | JObject ms \<Rightarrow> decode_string_map ms m | _ \<Rightarrow> None)"

fun decode_elements :: "'a decoder \<Rightarrow> 'a \<Rightarrow> json list \<Rightarrow> 'a list option" where
  "decode_elements d zero [] = Some []"
| "decode_elements d zero (v # vs) =
     (case d v zero of
        None \<Rightarrow> None
      | Some x \<Rightarrow> map_option ((#) x) (decode_elements d zero vs))"

definition decode_list :: "'a decoder \<Rightarrow> 'a \<Rightarrow> 'a list decoder" where
  "decode_list d zero v xs =
     (case v of JNull \<Rightarrow> Some [] | JArray vs \<Rightarrow> decode_elements d zero vs | _ \<Rightarrow> None)"

text \<open>The decoder of a field, from the decoder of its value and the update of the structure.\<close>

definition into :: "('r \<Rightarrow> 'a) \<Rightarrow> ('a \<Rightarrow> 'r \<Rightarrow> 'r) \<Rightarrow> 'a decoder \<Rightarrow> 'r decoder" where
  "into get put d v r = map_option (\<lambda>x. put x r) (d v (get r))"

definition Decode :: "'a decoder \<Rightarrow> 'a \<Rightarrow> string \<Rightarrow> json_error + 'a" where
  "Decode d zero data =
     (case json_check data of
        Inl e \<Rightarrow> Inl e
      | Inr v \<Rightarrow> (case d v zero of None \<Rightarrow> Inl ErrInvalid | Some x \<Rightarrow> Inr x))"

end
