(* ===== verification/Loss_Reader.thy ===== *)
theory Loss_Reader
  imports Loss_Validate Strict_Json
begin

text \<open>
  Package \<^verbatim>\<open>pkg/resilience/oneserverloss\<close>, the interfaces of \<^verbatim>\<open>types.go\<close> and the file
  \<^verbatim>\<open>decode.go\<close>: the environment the observer runs in, the Kubernetes objects it reads, and
  the reading of a complete list page by page. Each operation of the environment takes the
  state of the outside world and returns it changed. The raw bytes of a list item are kept
  as the value they hold; the erasing of buffers is not modelled.
\<close>

subsection \<open>Resources and the environment\<close>

record Resource =
  R_Group :: string
  R_Version :: string
  R_Resource :: string
  R_ListKind :: string
  R_Kind :: string

datatype GetResult = Found string | NotFound | Failed

record 'w LossEnv =
  Env_ReaderIdentity :: string
  Env_ListPage :: "Resource \<Rightarrow> string \<Rightarrow> string \<Rightarrow> string \<Rightarrow> nat \<Rightarrow> 'w \<Rightarrow> string option \<times> 'w"
  Env_Get :: "Resource \<Rightarrow> string \<Rightarrow> string \<Rightarrow> 'w \<Rightarrow> GetResult \<times> 'w"
  Env_ReadyZ :: "'w \<Rightarrow> bool \<times> 'w"
  Env_ProbeIdentity :: string
  Env_Observe :: "ProbeRequest \<Rightarrow> 'w \<Rightarrow> ProbeResponse option \<times> 'w"
  Env_ReadyForFault :: "ReadyMarker \<Rightarrow> 'w \<Rightarrow> bool \<times> 'w"
  Env_Now :: "'w \<Rightarrow> gotime \<times> 'w"
  Env_Sleep :: "duration \<Rightarrow> 'w \<Rightarrow> bool \<times> 'w"

text \<open>An operation that may fail, and what follows it when it does not.\<close>

definition and_then :: "('e + 'a) \<times> 'w \<Rightarrow> ('a \<Rightarrow> 'w \<Rightarrow> ('e + 'b) \<times> 'w) \<Rightarrow> ('e + 'b) \<times> 'w" where
  "and_then x f = (case x of (Inl e, w) \<Rightarrow> (Inl e, w) | (Inr a, w) \<Rightarrow> f a w)"

lemma and_then_Inr:
  "and_then x f = (Inr b, w') \<longleftrightarrow> (\<exists>a w. x = (Inr a, w) \<and> f a w = (Inr b, w'))"
  by (auto simp: and_then_def split: prod.splits sum.splits)

lemma snd_and_then:
  "snd (and_then x f) = (case fst x of Inl e \<Rightarrow> snd x | Inr a \<Rightarrow> snd (f a (snd x)))"
  by (auto simp: and_then_def split: prod.splits sum.splits)

subsection \<open>Objects\<close>

record objectMetadata =
  OM_Name :: string
  OM_Namespace :: string
  OM_UID :: string
  OM_ResourceVersion :: string
  OM_Labels :: "(string, string) gomap"
  OM_DeletionTimestamp :: "string option"

record kube_condition =
  C_Type :: string
  C_Status :: string

record nodeObject =
  N_APIVersion :: string
  N_Kind :: string
  N_Metadata :: objectMetadata
  N_Conditions :: "kube_condition list"

record podObject =
  Pod_APIVersion :: string
  Pod_Kind :: string
  Pod_Metadata :: objectMetadata
  Pod_NodeName :: string
  Pod_Phase :: string
  Pod_Conditions :: "kube_condition list"

record vmObject =
  VM_APIVersion :: string
  VM_Kind :: string
  VM_Metadata :: objectMetadata
  VM_Ready :: bool

record vmiObject =
  VMI_APIVersion :: string
  VMI_Kind :: string
  VMI_Metadata :: objectMetadata
  VMI_Phase :: string
  VMI_NodeName :: string
  VMI_Conditions :: "kube_condition list"

record listEnvelope =
  L_APIVersion :: string
  L_Kind :: string
  L_ResourceVersion :: string
  L_Continue :: string
  L_Items :: "json list"

record objectEnvelope =
  O_APIVersion :: string
  O_Kind :: string
  O_Metadata :: objectMetadata

definition zero_metadata :: objectMetadata where
  "zero_metadata = \<lparr>OM_Name = [], OM_Namespace = [], OM_UID = [], OM_ResourceVersion = [], OM_Labels = [],
     OM_DeletionTimestamp = None\<rparr>"

definition metadata_decoder :: "objectMetadata decoder" where
  "metadata_decoder = decode_struct
     [(''name'', into OM_Name (\<lambda>x r. r\<lparr>OM_Name := x\<rparr>) decode_string),
      (''namespace'', into OM_Namespace (\<lambda>x r. r\<lparr>OM_Namespace := x\<rparr>) decode_string),
      (''uid'', into OM_UID (\<lambda>x r. r\<lparr>OM_UID := x\<rparr>) decode_string),
      (''resourceVersion'', into OM_ResourceVersion (\<lambda>x r. r\<lparr>OM_ResourceVersion := x\<rparr>) decode_string),
      (''labels'', into OM_Labels (\<lambda>x r. r\<lparr>OM_Labels := x\<rparr>) decode_labels),
      (''deletionTimestamp'', into OM_DeletionTimestamp (\<lambda>x r. r\<lparr>OM_DeletionTimestamp := x\<rparr>) decode_string_pointer)]"

definition condition_decoder :: "kube_condition decoder" where
  "condition_decoder = decode_struct
     [(''type'', into C_Type (\<lambda>x r. r\<lparr>C_Type := x\<rparr>) decode_string),
      (''status'', into C_Status (\<lambda>x r. r\<lparr>C_Status := x\<rparr>) decode_string)]"

definition conditions_decoder :: "kube_condition list decoder" where
  "conditions_decoder = decode_list condition_decoder \<lparr>C_Type = [], C_Status = []\<rparr>"

definition node_decoder :: "nodeObject decoder" where
  "node_decoder = decode_struct
     [(''apiVersion'', into N_APIVersion (\<lambda>x r. r\<lparr>N_APIVersion := x\<rparr>) decode_string),
      (''kind'', into N_Kind (\<lambda>x r. r\<lparr>N_Kind := x\<rparr>) decode_string),
      (''metadata'', into N_Metadata (\<lambda>x r. r\<lparr>N_Metadata := x\<rparr>) metadata_decoder),
      (''status'', decode_struct
         [(''conditions'', into N_Conditions (\<lambda>x r. r\<lparr>N_Conditions := x\<rparr>) conditions_decoder)])]"

definition pod_decoder :: "podObject decoder" where
  "pod_decoder = decode_struct
     [(''apiVersion'', into Pod_APIVersion (\<lambda>x r. r\<lparr>Pod_APIVersion := x\<rparr>) decode_string),
      (''kind'', into Pod_Kind (\<lambda>x r. r\<lparr>Pod_Kind := x\<rparr>) decode_string),
      (''metadata'', into Pod_Metadata (\<lambda>x r. r\<lparr>Pod_Metadata := x\<rparr>) metadata_decoder),
      (''spec'', decode_struct
         [(''nodeName'', into Pod_NodeName (\<lambda>x r. r\<lparr>Pod_NodeName := x\<rparr>) decode_string)]),
      (''status'', decode_struct
         [(''phase'', into Pod_Phase (\<lambda>x r. r\<lparr>Pod_Phase := x\<rparr>) decode_string),
          (''conditions'', into Pod_Conditions (\<lambda>x r. r\<lparr>Pod_Conditions := x\<rparr>) conditions_decoder)])]"

definition vm_decoder :: "vmObject decoder" where
  "vm_decoder = decode_struct
     [(''apiVersion'', into VM_APIVersion (\<lambda>x r. r\<lparr>VM_APIVersion := x\<rparr>) decode_string),
      (''kind'', into VM_Kind (\<lambda>x r. r\<lparr>VM_Kind := x\<rparr>) decode_string),
      (''metadata'', into VM_Metadata (\<lambda>x r. r\<lparr>VM_Metadata := x\<rparr>) metadata_decoder),
      (''status'', decode_struct [(''ready'', into VM_Ready (\<lambda>x r. r\<lparr>VM_Ready := x\<rparr>) decode_bool)])]"

definition vmi_decoder :: "vmiObject decoder" where
  "vmi_decoder = decode_struct
     [(''apiVersion'', into VMI_APIVersion (\<lambda>x r. r\<lparr>VMI_APIVersion := x\<rparr>) decode_string),
      (''kind'', into VMI_Kind (\<lambda>x r. r\<lparr>VMI_Kind := x\<rparr>) decode_string),
      (''metadata'', into VMI_Metadata (\<lambda>x r. r\<lparr>VMI_Metadata := x\<rparr>) metadata_decoder),
      (''status'', decode_struct
         [(''phase'', into VMI_Phase (\<lambda>x r. r\<lparr>VMI_Phase := x\<rparr>) decode_string),
          (''nodeName'', into VMI_NodeName (\<lambda>x r. r\<lparr>VMI_NodeName := x\<rparr>) decode_string),
          (''conditions'', into VMI_Conditions (\<lambda>x r. r\<lparr>VMI_Conditions := x\<rparr>) conditions_decoder)])]"

definition list_decoder :: "listEnvelope decoder" where
  "list_decoder = decode_struct
     [(''apiVersion'', into L_APIVersion (\<lambda>x r. r\<lparr>L_APIVersion := x\<rparr>) decode_string),
      (''kind'', into L_Kind (\<lambda>x r. r\<lparr>L_Kind := x\<rparr>) decode_string),
      (''metadata'', decode_struct
         [(''resourceVersion'', into L_ResourceVersion (\<lambda>x r. r\<lparr>L_ResourceVersion := x\<rparr>) decode_string),
          (''continue'', into L_Continue (\<lambda>x r. r\<lparr>L_Continue := x\<rparr>) decode_string)]),
      (''items'', into L_Items (\<lambda>x r. r\<lparr>L_Items := x\<rparr>) (decode_list (\<lambda>v x. Some v) JNull))]"

definition object_decoder :: "objectEnvelope decoder" where
  "object_decoder = decode_struct
     [(''apiVersion'', into O_APIVersion (\<lambda>x r. r\<lparr>O_APIVersion := x\<rparr>) decode_string),
      (''kind'', into O_Kind (\<lambda>x r. r\<lparr>O_Kind := x\<rparr>) decode_string),
      (''metadata'', into O_Metadata (\<lambda>x r. r\<lparr>O_Metadata := x\<rparr>) metadata_decoder)]"

definition zero_node :: nodeObject where
  "zero_node = \<lparr>N_APIVersion = [], N_Kind = [], N_Metadata = zero_metadata, N_Conditions = []\<rparr>"

definition zero_pod :: podObject where
  "zero_pod = \<lparr>Pod_APIVersion = [], Pod_Kind = [], Pod_Metadata = zero_metadata, Pod_NodeName = [], Pod_Phase = [],
     Pod_Conditions = []\<rparr>"

definition zero_vm :: vmObject where
  "zero_vm = \<lparr>VM_APIVersion = [], VM_Kind = [], VM_Metadata = zero_metadata, VM_Ready = False\<rparr>"

definition zero_vmi :: vmiObject where
  "zero_vmi = \<lparr>VMI_APIVersion = [], VMI_Kind = [], VMI_Metadata = zero_metadata, VMI_Phase = [], VMI_NodeName = [],
     VMI_Conditions = []\<rparr>"

definition zero_list :: listEnvelope where
  "zero_list = \<lparr>L_APIVersion = [], L_Kind = [], L_ResourceVersion = [], L_Continue = [], L_Items = []\<rparr>"

definition zero_object :: objectEnvelope where
  "zero_object = \<lparr>O_APIVersion = [], O_Kind = [], O_Metadata = zero_metadata\<rparr>"

subsection \<open>Checked objects\<close>

definition validObjectMetadata :: "objectMetadata \<Rightarrow> string \<Rightarrow> bool" where
  "validObjectMetadata m namespace \<longleftrightarrow> validDNSName (OM_Name m) \<and> OM_UID m \<noteq> [] \<and> length (OM_UID m) \<le> 256 \<and>
     OM_ResourceVersion m \<noteq> [] \<and> length (OM_ResourceVersion m) \<le> 256 \<and>
     (case OM_DeletionTimestamp m of None \<Rightarrow> True | Some t \<Rightarrow> canonicalTimestamp t \<noteq> None) \<and>
     (namespace = [] \<or> OM_Namespace m = namespace)"

definition objectTerminating :: "objectMetadata \<Rightarrow> bool" where
  "objectTerminating m \<longleftrightarrow> OM_DeletionTimestamp m \<noteq> None"

fun condition_loop :: "bool \<Rightarrow> kube_condition list \<Rightarrow> string \<Rightarrow> bool" where
  "condition_loop found [] expected = found"
| "condition_loop found (c # cs) expected =
     (if C_Type c \<noteq> expected then condition_loop found cs expected
      else if found \<or> C_Status c \<noteq> ''True'' then False
      else condition_loop True cs expected)"

definition conditionTrue :: "kube_condition list \<Rightarrow> string \<Rightarrow> bool" where
  "conditionTrue cs expected = condition_loop False cs expected"

definition resource_apiVersion :: "Resource \<Rightarrow> string" where
  "resource_apiVersion r = (if R_Group r = [] then R_Version r else R_Group r @ ''/'' @ R_Version r)"

definition nodeResource :: Resource where
  "nodeResource = \<lparr>R_Group = [], R_Version = ''v1'', R_Resource = ''nodes'', R_ListKind = ''NodeList'', R_Kind = ''Node''\<rparr>"

definition podResource :: Resource where
  "podResource = \<lparr>R_Group = [], R_Version = ''v1'', R_Resource = ''pods'', R_ListKind = ''PodList'', R_Kind = ''Pod''\<rparr>"

definition vmResource :: Resource where
  "vmResource = \<lparr>R_Group = ''kubevirt.io'', R_Version = ''v1'', R_Resource = ''virtualmachines'',
     R_ListKind = ''VirtualMachineList'', R_Kind = ''VirtualMachine''\<rparr>"

definition vmiResource :: Resource where
  "vmiResource = \<lparr>R_Group = ''kubevirt.io'', R_Version = ''v1'', R_Resource = ''virtualmachineinstances'',
     R_ListKind = ''VirtualMachineInstanceList'', R_Kind = ''VirtualMachineInstance''\<rparr>"

definition decodeNode :: "json \<Rightarrow> string + nodeObject" where
  "decodeNode v =
     (case node_decoder v zero_node of
        Some n \<Rightarrow>
          if N_APIVersion n \<noteq> ''v1'' \<or> N_Kind n \<noteq> ''Node'' \<or> \<not> validObjectMetadata (N_Metadata n) []
          then Inl ''decode Kubernetes Node'' else Inr n
      | None \<Rightarrow> Inl ''decode Kubernetes Node'')"

definition decodePod :: "json \<Rightarrow> string \<Rightarrow> string + podObject" where
  "decodePod v namespace =
     (case pod_decoder v zero_pod of
        Some p \<Rightarrow>
          if Pod_APIVersion p \<noteq> ''v1'' \<or> Pod_Kind p \<noteq> ''Pod'' \<or> \<not> validObjectMetadata (Pod_Metadata p) namespace
          then Inl ''decode Kubernetes Pod'' else Inr p
      | None \<Rightarrow> Inl ''decode Kubernetes Pod'')"

definition decodeVM :: "string \<Rightarrow> string \<Rightarrow> string \<Rightarrow> string + vmObject" where
  "decodeVM raw namespace name =
     (case Decode vm_decoder zero_vm raw of
        Inr m \<Rightarrow>
          if VM_APIVersion m \<noteq> ''kubevirt.io/v1'' \<or> VM_Kind m \<noteq> ''VirtualMachine'' \<or>
            \<not> validObjectMetadata (VM_Metadata m) namespace \<or> OM_Name (VM_Metadata m) \<noteq> name
          then Inl ''decode KubeVirt VirtualMachine'' else Inr m
      | Inl e \<Rightarrow> Inl ''decode KubeVirt VirtualMachine'')"

definition decodeVMI :: "string \<Rightarrow> string \<Rightarrow> string \<Rightarrow> string + vmiObject" where
  "decodeVMI raw namespace name =
     (case Decode vmi_decoder zero_vmi raw of
        Inr m \<Rightarrow>
          if VMI_APIVersion m \<noteq> ''kubevirt.io/v1'' \<or> VMI_Kind m \<noteq> ''VirtualMachineInstance'' \<or>
            \<not> validObjectMetadata (VMI_Metadata m) namespace \<or> OM_Name (VMI_Metadata m) \<noteq> name
          then Inl ''decode KubeVirt VirtualMachineInstance'' else Inr m
      | Inl e \<Rightarrow> Inl ''decode KubeVirt VirtualMachineInstance'')"

subsection \<open>Lists\<close>

definition maximumAggregateListBytes :: nat where "maximumAggregateListBytes = 33554432"

definition object_identity :: "objectEnvelope \<Rightarrow> string" where
  "object_identity obj = OM_Namespace (O_Metadata obj) @ [CHR 0x00] @ OM_Name (O_Metadata obj) @ [CHR 0x00] @ OM_UID (O_Metadata obj)"

definition objectSortIdentity :: "json \<Rightarrow> string" where
  "objectSortIdentity v = (case object_decoder v zero_object of None \<Rightarrow> [] | Some obj \<Rightarrow> object_identity obj)"

definition listed_object :: "Resource \<Rightarrow> string \<Rightarrow> json \<Rightarrow> objectEnvelope option" where
  "listed_object res namespace v =
     (case object_decoder v zero_object of
        None \<Rightarrow> None
      | Some obj \<Rightarrow>
          if O_APIVersion obj \<noteq> resource_apiVersion res \<or> O_Kind obj \<noteq> R_Kind res \<or>
            \<not> validObjectMetadata (O_Metadata obj) namespace
          then None else Some obj)"

fun collect_items :: "Resource \<Rightarrow> string \<Rightarrow> json list \<Rightarrow> json list \<Rightarrow> string list \<Rightarrow> string + json list \<times> string list" where
  "collect_items res namespace [] items identities = Inr (items, identities)"
| "collect_items res namespace (v # vs) items identities =
     (case listed_object res namespace v of
        None \<Rightarrow> Inl ''decode Kubernetes list item''
      | Some obj \<Rightarrow>
          if object_identity obj \<in> set identities then Inl ''Kubernetes list contains duplicate identity''
          else if 10000 < length items + 1 then Inl ''Kubernetes list exceeds object bound''
          else collect_items res namespace vs (items @ [v]) (object_identity obj # identities))"

record list_state =
  LS_Continuation :: string
  LS_ResourceVersion :: string
  LS_Seen :: "string list"
  LS_Items :: "json list"
  LS_Identities :: "string list"
  LS_Bytes :: nat

definition list_start :: list_state where
  "list_start = \<lparr>LS_Continuation = [], LS_ResourceVersion = [], LS_Seen = [], LS_Items = [], LS_Identities = [],
     LS_Bytes = 0\<rparr>"

text \<open>One page: the finished list, or the state for the next page.\<close>

definition list_page :: "Resource \<Rightarrow> string \<Rightarrow> string \<Rightarrow> list_state \<Rightarrow> string + json list + list_state" where
  "list_page res namespace payload st =
     (if maximumAggregateListBytes < LS_Bytes st + length payload then Inl ''Kubernetes list exceeds byte bound''
      else case Decode list_decoder zero_list payload of
        Inl e \<Rightarrow> Inl ''decode Kubernetes list page''
      | Inr page \<Rightarrow>
          if L_APIVersion page \<noteq> resource_apiVersion res \<or> L_Kind page \<noteq> R_ListKind res \<or> L_ResourceVersion page = []
          then Inl ''decode Kubernetes list page''
          else if LS_ResourceVersion st \<noteq> [] \<and> LS_ResourceVersion st \<noteq> L_ResourceVersion page
          then Inl ''Kubernetes list snapshot changed across pages''
          else case collect_items res namespace (L_Items page) (LS_Items st) (LS_Identities st) of
            Inl e \<Rightarrow> Inl e
          | Inr (items, identities) \<Rightarrow>
              if L_Continue page = [] then Inr (Inl (sort_key objectSortIdentity items))
              else if 8192 < length (L_Continue page) then Inl ''Kubernetes continuation token is invalid''
              else if L_Continue page \<in> set (LS_Seen st) then Inl ''Kubernetes continuation cycle''
              else Inr (Inr \<lparr>LS_Continuation = L_Continue page, LS_ResourceVersion = L_ResourceVersion page,
                LS_Seen = L_Continue page # LS_Seen st, LS_Items = items, LS_Identities = identities,
                LS_Bytes = LS_Bytes st + length payload\<rparr>))"

fun list_pages :: "'w LossEnv \<Rightarrow> nat \<Rightarrow> Resource \<Rightarrow> string \<Rightarrow> string \<Rightarrow> list_state \<Rightarrow> 'w \<Rightarrow> (string + json list) \<times> 'w" where
  "list_pages env 0 res namespace selector st w = (Inl ''Kubernetes list exceeds page bound'', w)"
| "list_pages env (Suc n) res namespace selector st w =
     (case Env_ListPage env res namespace selector (LS_Continuation st) 500 w of
        (None, w') \<Rightarrow> (Inl ''read Kubernetes list page'', w')
      | (Some payload, w') \<Rightarrow>
          (case list_page res namespace payload st of
             Inl e \<Rightarrow> (Inl e, w')
           | Inr (Inl items) \<Rightarrow> (Inr items, w')
           | Inr (Inr st') \<Rightarrow> list_pages env n res namespace selector st' w'))"

definition listAll :: "'w LossEnv \<Rightarrow> Resource \<Rightarrow> string \<Rightarrow> string \<Rightarrow> 'w \<Rightarrow> (string + json list) \<times> 'w" where
  "listAll env res namespace selector w = list_pages env 20 res namespace selector list_start w"

end
