(* ===== verification/Loss_Sampler.thy ===== *)
theory Loss_Sampler
  imports Loss_Reader
begin

text \<open>
  Package \<^verbatim>\<open>pkg/resilience/oneserverloss\<close>, file \<^verbatim>\<open>sample.go\<close>: one observation of the
  cluster, the machine and the data. A Go set is the list of its elements.
\<close>

subsection \<open>Nodes\<close>

record node_scan =
  NS_ControlPlane :: "string list"
  NS_ReadyNames :: "string list"
  NS_ReadyControlPlane :: "string list"
  NS_TargetPresent :: bool
  NS_TargetReady :: bool
  NS_TargetUID :: string

definition scan_start :: node_scan where
  "scan_start = \<lparr>NS_ControlPlane = [], NS_ReadyNames = [], NS_ReadyControlPlane = [], NS_TargetPresent = False,
     NS_TargetReady = False, NS_TargetUID = []\<rparr>"

definition node_ready :: "nodeObject \<Rightarrow> bool" where
  "node_ready n \<longleftrightarrow> \<not> objectTerminating (N_Metadata n) \<and> conditionTrue (N_Conditions n) ''Ready''"

definition node_control_plane :: "nodeObject \<Rightarrow> bool" where
  "node_control_plane n \<longleftrightarrow> map_of (OM_Labels (N_Metadata n)) ''node-role.kubernetes.io/control-plane'' \<noteq> None"

definition scan_node :: "string \<Rightarrow> nodeObject \<Rightarrow> node_scan \<Rightarrow> node_scan" where
  "scan_node target n st =
     (let name = OM_Name (N_Metadata n); uid = OM_UID (N_Metadata n); ready = node_ready n;
          st1 = (if ready then st\<lparr>NS_ReadyNames := List.insert name (NS_ReadyNames st)\<rparr> else st);
          st2 = (if ready \<and> node_control_plane n
            then st1\<lparr>NS_ControlPlane := List.insert uid (NS_ControlPlane st1),
              NS_ReadyControlPlane := List.insert name (NS_ReadyControlPlane st1)\<rparr>
            else st1) in
      if name = target
      then st2\<lparr>NS_TargetPresent := True, NS_TargetReady := ready, NS_TargetUID := NodeUIDSHA256 uid\<rparr>
      else st2)"

fun scan_nodes :: "string \<Rightarrow> json list \<Rightarrow> node_scan \<Rightarrow> string + node_scan" where
  "scan_nodes target [] st = Inr st"
| "scan_nodes target (v # vs) st =
     (case decodeNode v of
        Inl e \<Rightarrow> Inl e
      | Inr n \<Rightarrow> scan_nodes target vs (scan_node target n st))"

subsection \<open>Pods\<close>

definition label_value :: "(string, string) gomap \<Rightarrow> string \<Rightarrow> string" where
  "label_value m k = (case map_of m k of None \<Rightarrow> [] | Some v \<Rightarrow> v)"

definition labelsMatch :: "(string, string) gomap \<Rightarrow> (string, string) gomap \<Rightarrow> bool" where
  "labelsMatch actual expected \<longleftrightarrow> list_all (\<lambda>(k, v). label_value actual k = v) expected"

definition pod_ready :: "string list \<Rightarrow> podObject \<Rightarrow> bool" where
  "pod_ready nodes p \<longleftrightarrow> Pod_NodeName p \<in> set nodes \<and> \<not> objectTerminating (Pod_Metadata p) \<and>
     Pod_Phase p = ''Running'' \<and> Pod_NodeName p \<noteq> [] \<and> conditionTrue (Pod_Conditions p) ''Ready''"

fun control_plane_loop :: "string \<Rightarrow> string \<Rightarrow> string list \<Rightarrow> json list \<Rightarrow> string list \<Rightarrow> bool \<Rightarrow>
    string + string list \<times> bool" where
  "control_plane_loop target component ready [] nodes found = Inr (nodes, found)"
| "control_plane_loop target component ready (v # vs) nodes found =
     (case decodePod v ''kube-system'' of
        Inl e \<Rightarrow> Inl e
      | Inr p \<Rightarrow>
          if label_value (OM_Labels (Pod_Metadata p)) ''component'' \<noteq> component
          then Inl ''Kubernetes control-plane list violated its selector''
          else if \<not> pod_ready ready p then control_plane_loop target component ready vs nodes found
          else control_plane_loop target component ready vs (List.insert (Pod_NodeName p) nodes)
            (found \<or> Pod_NodeName p = target))"

definition controlPlanePods :: "'w LossEnv \<Rightarrow> Request \<Rightarrow> string \<Rightarrow> string list \<Rightarrow> 'w \<Rightarrow> (string + int \<times> bool) \<times> 'w" where
  "controlPlanePods env req component ready w =
     and_then (listAll env podResource ''kube-system'' (''component='' @ component) w) (\<lambda>payloads w.
       (case control_plane_loop (LR_TargetNodeName req) component ready payloads [] False of
          Inl e \<Rightarrow> (Inl e, w)
        | Inr (nodes, found) \<Rightarrow> (Inr (int (length nodes), found), w)))"

fun workload_loop :: "WorkloadTarget \<Rightarrow> string list \<Rightarrow> json list \<Rightarrow> nat \<Rightarrow> string list \<Rightarrow> string + nat \<times> string list" where
  "workload_loop t ready [] pods nodes = Inr (pods, nodes)"
| "workload_loop t ready (v # vs) pods nodes =
     (case decodePod v (WT_Namespace t) of
        Inl e \<Rightarrow> Inl e
      | Inr p \<Rightarrow>
          if \<not> labelsMatch (OM_Labels (Pod_Metadata p)) (WT_MatchLabels t)
          then Inl ''Kubernetes workload list violated its selector''
          else if pod_ready ready p then workload_loop t ready vs (pods + 1) (List.insert (Pod_NodeName p) nodes)
          else workload_loop t ready vs pods nodes)"

fun sample_workloads :: "'w LossEnv \<Rightarrow> (string, string) gomap \<Rightarrow> string list \<Rightarrow> WorkloadTarget list \<Rightarrow> 'w \<Rightarrow>
    (string + WorkloadEvidence list) \<times> 'w" where
  "sample_workloads env bindings ready [] w = (Inr [], w)"
| "sample_workloads env bindings ready (t # ts) w =
     and_then (listAll env podResource (WT_Namespace t) (canonicalSelector (WT_MatchLabels t)) w) (\<lambda>payloads w.
       (case workload_loop t ready payloads 0 [] of
          Inl e \<Rightarrow> (Inl e, w)
        | Inr (pods, nodes) \<Rightarrow>
            and_then (sample_workloads env bindings ready ts w) (\<lambda>ws w.
              (Inr (\<lparr>WE_ID = WT_ID t, WE_BindingSHA256 = label_value bindings (WT_ID t), WE_ReadyPods = int pods,
                 WE_DistinctReadyNodes = int (length nodes), WE_MinimumReadyPods = WT_MinimumReadyPods t,
                 WE_MinimumReadyNodes = WT_MinimumDistinctReadyNodes t\<rparr> # ws), w))))"

subsection \<open>The machine\<close>

definition sample_vm :: "'w LossEnv \<Rightarrow> Request \<Rightarrow> parsedRequest \<Rightarrow> string list \<Rightarrow> 'w \<Rightarrow> (string + VMEvidence) \<times> 'w" where
  "sample_vm env req parsed ready w =
     (let namespace = VT_Namespace (LR_VM req); name = VT_Name (LR_VM req) in
      case Env_Get env vmResource namespace name w of
        (Found payload, w1) \<Rightarrow>
          (case decodeVM payload namespace name of
             Inl e \<Rightarrow> (Inl e, w1)
           | Inr vm \<Rightarrow>
               let ev = \<lparr>VE_ID = VT_ID (LR_VM req), VE_BindingSHA256 = P_vmBinding parsed,
                     VE_VMUIDSHA256 = digestJSON (JString (OM_UID (VM_Metadata vm))), VE_VMIUIDSHA256 = [],
                     VE_VMReady = (\<not> objectTerminating (VM_Metadata vm) \<and> VM_Ready vm), VE_VMIReady = False,
                     VE_VMIOnTarget = False\<rparr> in
               (case Env_Get env vmiResource namespace name w1 of
                  (Found payload, w2) \<Rightarrow>
                    (case decodeVMI payload namespace name of
                       Inl e \<Rightarrow> (Inl e, w2)
                     | Inr vmi \<Rightarrow>
                         if objectTerminating (VMI_Metadata vmi) then (Inr ev, w2)
                         else (Inr (ev\<lparr>VE_VMIUIDSHA256 := digestJSON (JString (OM_UID (VMI_Metadata vmi))),
                           VE_VMIReady := VMI_NodeName vmi \<in> set ready \<and> VMI_Phase vmi = ''Running'' \<and>
                             conditionTrue (VMI_Conditions vmi) ''Ready'',
                           VE_VMIOnTarget := (VMI_NodeName vmi = LR_TargetNodeName req)\<rparr>), w2))
                | (NotFound, w2) \<Rightarrow> (Inr ev, w2)
                | (Failed, w2) \<Rightarrow> (Inl ''read exact VirtualMachineInstance'', w2)))
      | (_, w1) \<Rightarrow> (Inl ''read exact VirtualMachine'', w1))"

subsection \<open>The data\<close>

definition validateProbeResponse :: "ProbeRequest \<Rightarrow> ProbeResponse \<Rightarrow> int \<Rightarrow> string option" where
  "validateProbeResponse q p minimumBytes =
     (if PR_SchemaVersion p \<noteq> ProbeResponseSchemaVersion \<or> \<not> MatchString versionPattern (PR_Implementation p) \<or>
        \<not> MatchString versionPattern (PR_Version p) \<or> PR_RequestSHA256 p \<noteq> digestJSON (json_ProbeRequest q) \<or>
        PR_AdapterExecutableSHA256 p \<noteq> PQ_AdapterExecutableSHA256 q \<or> \<not> validSHA256 (PR_AdapterExecutableSHA256 p) \<or>
        PR_HashAlgorithm p \<noteq> ''sha256'' \<or> \<not> validSHA256 (PR_DataSHA256 p) \<or> PR_ValidatedBytes p < minimumBytes \<or>
        (case (canonicalTimestamp (PR_StartedAt p), canonicalTimestamp (PR_CompletedAt p)) of
           (Some started, Some completed) \<Rightarrow> completed < started
         | _ \<Rightarrow> True)
      then Some ''data continuity probe response is invalid''
      else None)"

definition sample_probe :: "'w LossEnv \<Rightarrow> Request \<Rightarrow> parsedRequest \<Rightarrow> int \<Rightarrow> string \<Rightarrow> 'w \<Rightarrow>
    (string + DataProbeEvidence) \<times> 'w" where
  "sample_probe env req parsed sequence phase w =
     (let q = \<lparr>PQ_SchemaVersion = ProbeRequestSchemaVersion, PQ_RunNonceSHA256 = LR_RunNonceSHA256 req,
            PQ_ParentRequestSHA256 = P_requestSHA256 parsed, PQ_Phase = phase, PQ_Sequence = sequence,
            PQ_ProbeID = DT_ID (LR_DataProbe req), PQ_QueryRef = DT_QueryRef (LR_DataProbe req),
            PQ_AdapterExecutableSHA256 = Env_ProbeIdentity env\<rparr> in
      case Env_Observe env q w of
        (None, w') \<Rightarrow> (Inl ''data continuity probe failed'', w')
      | (Some p, w') \<Rightarrow>
          (case validateProbeResponse q p (DT_MinimumValidatedBytes (LR_DataProbe req)) of
             Some e \<Rightarrow> (Inl e, w')
           | None \<Rightarrow>
               (Inr \<lparr>DE_ID = DT_ID (LR_DataProbe req), DE_BindingSHA256 = P_probeBinding parsed,
                 DE_Implementation = PR_Implementation p, DE_Version = PR_Version p,
                 DE_RequestSHA256 = PR_RequestSHA256 p, DE_AdapterExecutableSHA256 = PR_AdapterExecutableSHA256 p,
                 DE_HashAlgorithm = PR_HashAlgorithm p, DE_DataSHA256 = PR_DataSHA256 p,
                 DE_ValidatedBytes = PR_ValidatedBytes p, DE_StartedAt = PR_StartedAt p,
                 DE_CompletedAt = PR_CompletedAt p\<rparr>, w')))"

subsection \<open>Samples\<close>

definition next_phase :: "string \<Rightarrow> bool \<Rightarrow> string" where
  "next_phase phase ready =
     (if phase = PhasePreLoss \<and> \<not> ready then PhaseLoss
      else if phase = PhaseLoss \<and> ready then PhaseRecovered
      else phase)"

definition read_nodes :: "'w LossEnv \<Rightarrow> Request \<Rightarrow> 'w \<Rightarrow> (string + node_scan \<times> string) \<times> 'w" where
  "read_nodes env req w =
     (case Env_ReadyZ env w of
        (False, w) \<Rightarrow> (Inl ''Kubernetes readyz failed'', w)
      | (True, w) \<Rightarrow>
          and_then (listAll env nodeResource [] [] w) (\<lambda>payloads w.
            (case scan_nodes (LR_TargetNodeName req) payloads scan_start of
               Inl e \<Rightarrow> (Inl e, w)
             | Inr scan \<Rightarrow>
                 let members = ControlPlaneMemberSetSHA256 (map NodeUIDSHA256 (NS_ControlPlane scan)) in
                 if members = [] then (Inl ''control-plane member identity set is invalid'', w)
                 else (Inr (scan, members), w))))"

definition sampler_next :: "'w LossEnv \<Rightarrow> Request \<Rightarrow> parsedRequest \<Rightarrow> int \<Rightarrow> string \<Rightarrow> 'w \<Rightarrow>
    (string + SampleEvidence) \<times> 'w" where
  "sampler_next env req parsed previous phase w =
     (let sequence = previous + 1; (started, w) = Env_Now env w in
      and_then (read_nodes env req w) (\<lambda>(scan, members) w.
      let phase' = next_phase phase (NS_TargetReady scan) in
      and_then (controlPlanePods env req ''etcd'' (NS_ReadyControlPlane scan) w) (\<lambda>(etcd, hostsEtcd) w.
      and_then (controlPlanePods env req ''kube-apiserver'' (NS_ReadyControlPlane scan) w) (\<lambda>(api, hostsAPI) w.
      and_then (sample_workloads env (P_workloadBindings parsed) (NS_ReadyNames scan) (LR_Workloads req) w) (\<lambda>ws w.
      and_then (sample_vm env req parsed (NS_ReadyNames scan) w) (\<lambda>vm w.
      and_then (sample_probe env req parsed sequence phase' w) (\<lambda>probe w.
      let (observed, w) = Env_Now env w;
          s = \<lparr>SE_Sequence = sequence, SE_Phase = phase', SE_StartedAt = FormatRFC3339Nano started,
            SE_ObservedAt = FormatRFC3339Nano observed, SE_TargetNodePresent = NS_TargetPresent scan,
            SE_TargetNodeReady = NS_TargetReady scan, SE_TargetNodeUIDSHA256 = NS_TargetUID scan,
            SE_ReadyZPassed = True, SE_ControlPlaneReadyNodes = int (length (NS_ControlPlane scan)),
            SE_EtcdReadyMembers = etcd, SE_APIServerReadyMembers = api, SE_ControlPlaneMemberSetSHA256 = members,
            SE_TargetHostsEtcd = hostsEtcd, SE_TargetHostsAPIServer = hostsAPI, SE_Workloads = ws, SE_VM = vm,
            SE_DataProbe = probe, SE_SampleSHA256 = []\<rparr> in
      (Inr (s\<lparr>SE_SampleSHA256 := sampleDigest s\<rparr>), w))))))))"

end
