(* ===== verification/Loss_Observer.thy ===== *)
theory Loss_Observer
  imports Loss_Sampler
begin

text \<open>
  Package \<^verbatim>\<open>pkg/resilience/oneserverloss\<close>, file \<^verbatim>\<open>observe.go\<close>: the observer. Its four
  loops poll the cluster until a phase of the drill is over. A loop is the repetition of
  its body, which stops with an error, goes round again, or leaves the loop; a loop that
  never ends has no result.
\<close>

subsection \<open>Loops\<close>

datatype 's turn = Stop string | Again 's | Done 's

partial_function (option) repeatedly ::
    "('s \<Rightarrow> 'w \<Rightarrow> 's turn \<times> 'w) \<Rightarrow> 's \<Rightarrow> 'w \<Rightarrow> ((string + 's) \<times> 'w) option" where
  "repeatedly body s w =
     (case body s w of
        (Stop e, w') \<Rightarrow> Some (Inl e, w')
      | (Done s', w') \<Rightarrow> Some (Inr s', w')
      | (Again s', w') \<Rightarrow> repeatedly body s' w')"

declare repeatedly.simps [code]

definition after :: "((string + 'a) \<times> 'w) option \<Rightarrow> ('a \<Rightarrow> 'w \<Rightarrow> ((string + 'b) \<times> 'w) option) \<Rightarrow>
    ((string + 'b) \<times> 'w) option" where
  "after x f =
     (case x of
        None \<Rightarrow> None
      | Some (Inl e, w) \<Rightarrow> Some (Inl e, w)
      | Some (Inr a, w) \<Rightarrow> f a w)"

subsection \<open>Samples\<close>

definition sample_preloss_healthy :: "SampleEvidence \<Rightarrow> LossBaseline \<Rightarrow> string \<Rightarrow> bool" where
  "sample_preloss_healthy s b targetUID \<longleftrightarrow> SE_TargetNodePresent s \<and> SE_TargetNodeReady s \<and>
     SE_TargetNodeUIDSHA256 s = targetUID \<and> LB_ControlPlaneNodes b \<le> SE_ControlPlaneReadyNodes s \<and>
     SE_ControlPlaneMemberSetSHA256 s = LB_ControlPlaneMemberSetSHA256 b \<and>
     LB_EtcdMembers b \<le> SE_EtcdReadyMembers s \<and> LB_APIServerMembers b \<le> SE_APIServerReadyMembers s \<and>
     SE_TargetHostsEtcd s \<and> SE_TargetHostsAPIServer s \<and> VE_VMReady (SE_VM s) \<and> VE_VMIReady (SE_VM s)"

text \<open>A loss that has not begun is \<open>0\<close>, the zero time.\<close>

definition sampleHealth :: "SampleEvidence \<Rightarrow> string \<Rightarrow> int \<Rightarrow> LossBaseline \<Rightarrow> string \<Rightarrow> duration \<Rightarrow> gotime \<Rightarrow>
    string option" where
  "sampleHealth s phase minimum b targetUID vmUnavailable lossStarted =
     (if SE_Phase s \<noteq> phase \<or> \<not> SE_ReadyZPassed s \<or> VE_VMUIDSHA256 (SE_VM s) \<noteq> LB_VMUIDSHA256 b \<or>
        DE_DataSHA256 (SE_DataProbe s) \<noteq> LB_DataSHA256 b \<or> DE_ValidatedBytes (SE_DataProbe s) \<noteq> LB_ValidatedBytes b \<or>
        SE_ControlPlaneMemberSetSHA256 s = []
      then Some ''one-server-loss identity or data continuity failed''
      else if \<not> workloadsHealthy s then Some ''one-server-loss workload continuity failed''
      else if phase = PhasePreLoss then
        (if \<not> sample_preloss_healthy s b targetUID \<or> \<not> VE_VMIOnTarget (SE_VM s) \<or> LB_ControlPlaneNodes b < minimum \<or>
           LB_EtcdMembers b < 3 \<or> LB_APIServerMembers b < 3
         then Some ''one-server-loss pre-state health failed'' else None)
      else if phase = PhaseLoss then
        (if SE_TargetNodeReady s \<or> SE_TargetNodePresent s \<and> SE_TargetNodeUIDSHA256 s \<noteq> targetUID \<or>
           SE_ControlPlaneMemberSetSHA256 s = LB_ControlPlaneMemberSetSHA256 b \<or>
           SE_ControlPlaneReadyNodes s \<noteq> LB_ControlPlaneNodes b - 1 \<or> SE_EtcdReadyMembers s \<noteq> LB_EtcdMembers b - 1 \<or>
           SE_APIServerReadyMembers s \<noteq> LB_APIServerMembers b - 1 \<or>
           \<not> IsZero lossStarted \<and> \<not> vmReadyOffTarget s \<and>
             vmUnavailable < time_Sub (mustTimestamp (SE_ObservedAt s)) lossStarted
         then Some ''one-server-loss loss-state health failed'' else None)
      else if phase = PhaseRecovered then
        (if \<not> sample_preloss_healthy s b targetUID
         then Some ''one-server-loss recovery-state health failed'' else None)
      else None)"

definition observationGap :: "SampleEvidence \<Rightarrow> SampleEvidence \<Rightarrow> duration \<Rightarrow> bool" where
  "observationGap previous current poll \<longleftrightarrow>
     (let left = mustTimestamp (SE_ObservedAt previous); right = mustTimestamp (SE_StartedAt current) in
      right < left \<or> 2 * poll < time_Sub right left)"

definition phaseEvidence :: "string \<Rightarrow> string \<Rightarrow> string \<Rightarrow> SampleEvidence list \<Rightarrow> PhaseEvidence" where
  "phaseEvidence phase startedAt completedAt samples = \<lparr>PE_Phase = phase, PE_StartedAt = startedAt,
     PE_CompletedAt = completedAt, PE_Samples = samples, PE_SamplesSHA256 = samplesDigest samples\<rparr>"

definition baseline_of :: "SampleEvidence \<Rightarrow> LossBaseline" where
  "baseline_of first =
     (let b = \<lparr>LB_ControlPlaneNodes = SE_ControlPlaneReadyNodes first, LB_EtcdMembers = SE_EtcdReadyMembers first,
        LB_APIServerMembers = SE_APIServerReadyMembers first, LB_VMUIDSHA256 = VE_VMUIDSHA256 (SE_VM first),
        LB_DataSHA256 = DE_DataSHA256 (SE_DataProbe first), LB_ValidatedBytes = DE_ValidatedBytes (SE_DataProbe first),
        LB_ControlPlaneMemberSetSHA256 = SE_ControlPlaneMemberSetSHA256 first, LB_BaselineSHA256 = []\<rparr>
      in b\<lparr>LB_BaselineSHA256 := baselineDigest b\<rparr>)"

subsection \<open>The bodies of the loops\<close>

text \<open>
  What stays fixed during a run: the request, what was read from it, and the first sample.
  The sampler counts its samples.
\<close>

record run =
  Run_Request :: Request
  Run_Parsed :: parsedRequest
  Run_First :: SampleEvidence

definition run_health :: "run \<Rightarrow> SampleEvidence \<Rightarrow> string \<Rightarrow> gotime \<Rightarrow> string option" where
  "run_health run s phase lossStarted =
     sampleHealth s phase (LR_MinimumControlPlaneMembers (Run_Request run)) (baseline_of (Run_First run))
       (SE_TargetNodeUIDSHA256 (Run_First run)) (P_vmUnavailable (Run_Parsed run)) lossStarted"

definition run_poll :: "run \<Rightarrow> duration" where
  "run_poll run = P_poll (Run_Parsed run)"

text \<open>Sleep for a poll interval and take the next sample.\<close>

definition poll_sample :: "'w LossEnv \<Rightarrow> run \<Rightarrow> string \<Rightarrow> int \<Rightarrow> string \<Rightarrow> 'w \<Rightarrow> (string + (string + SampleEvidence)) \<times> 'w" where
  "poll_sample env run interrupted sequence phase w =
     (case Env_Sleep env (run_poll run) w of
        (False, w) \<Rightarrow> (Inl interrupted, w)
      | (True, w) \<Rightarrow>
          (case sampler_next env (Run_Request run) (Run_Parsed run) sequence phase w of (r, w) \<Rightarrow> (Inr r, w)))"

record polled =
  Po_Sequence :: int
  Po_Pre :: "SampleEvidence list"
  Po_Loss :: "SampleEvidence list"
  Po_Recovered :: "SampleEvidence list"
  Po_VMRecovered :: bool

definition pre_body :: "'w LossEnv \<Rightarrow> run \<Rightarrow> polled \<Rightarrow> 'w \<Rightarrow> polled turn \<times> 'w" where
  "pre_body env run st w =
     (if 2 * run_poll run \<le>
        time_Sub (mustTimestamp (SE_ObservedAt (last (Po_Pre st)))) (mustTimestamp (SE_ObservedAt (Run_First run)))
      then (Done st, w)
      else case poll_sample env run ''one-server-loss pre-state observation interrupted'' (Po_Sequence st) PhasePreLoss w of
        (Inl e, w) \<Rightarrow> (Stop e, w)
      | (Inr (Inl e), w) \<Rightarrow> (Stop ''one-server-loss pre-state did not remain stable'', w)
      | (Inr (Inr s), w) \<Rightarrow>
          if SE_Phase s \<noteq> PhasePreLoss then (Stop ''one-server-loss pre-state did not remain stable'', w)
          else case run_health run s PhasePreLoss 0 of
            Some e \<Rightarrow> (Stop e, w)
          | None \<Rightarrow>
              if observationGap (last (Po_Pre st)) s (run_poll run)
              then (Stop ''one-server-loss pre-state observation gap'', w)
              else (Again (st\<lparr>Po_Sequence := Po_Sequence st + 1, Po_Pre := Po_Pre st @ [s]\<rparr>), w))"

definition fault_body :: "'w LossEnv \<Rightarrow> run \<Rightarrow> gotime \<Rightarrow> polled \<Rightarrow> 'w \<Rightarrow> polled turn \<times> 'w" where
  "fault_body env run faultDeadline st w =
     (if Po_Loss st \<noteq> [] then (Done st, w)
      else case poll_sample env run ''one-server-loss fault observation interrupted'' (Po_Sequence st) PhasePreLoss w of
        (Inl e, w) \<Rightarrow> (Stop e, w)
      | (Inr (Inl e), w) \<Rightarrow> (Stop e, w)
      | (Inr (Inr s), w) \<Rightarrow>
          let st = st\<lparr>Po_Sequence := Po_Sequence st + 1\<rparr>; late = faultDeadline < mustTimestamp (SE_ObservedAt s) in
          if observationGap (last (Po_Pre st)) s (run_poll run)
          then (Stop ''one-server-loss fault arrival observation gap'', w)
          else if SE_Phase s = PhasePreLoss then
            (if late then (Stop ''one-server-loss fault did not arrive before timeout'', w)
             else case run_health run s PhasePreLoss 0 of
               Some e \<Rightarrow> (Stop e, w)
             | None \<Rightarrow> (Again (st\<lparr>Po_Pre := Po_Pre st @ [s]\<rparr>), w))
          else if SE_Phase s \<noteq> PhaseLoss \<or> late then (Stop ''one-server-loss fault transition is invalid'', w)
          else (Again (st\<lparr>Po_Loss := [s]\<rparr>), w))"

definition loss_started :: "polled \<Rightarrow> gotime" where
  "loss_started st = mustTimestamp (SE_ObservedAt (hd (Po_Loss st)))"

definition loss_body :: "'w LossEnv \<Rightarrow> run \<Rightarrow> polled \<Rightarrow> 'w \<Rightarrow> polled turn \<times> 'w" where
  "loss_body env run st w =
     (if Po_Recovered st \<noteq> [] then (Done st, w)
      else case poll_sample env run ''one-server-loss loss observation interrupted'' (Po_Sequence st) PhaseLoss w of
        (Inl e, w) \<Rightarrow> (Stop e, w)
      | (Inr (Inl e), w) \<Rightarrow> (Stop e, w)
      | (Inr (Inr s), w) \<Rightarrow>
          let st = st\<lparr>Po_Sequence := Po_Sequence st + 1\<rparr>; started = loss_started st;
              observed = mustTimestamp (SE_ObservedAt s); p = Run_Parsed run in
          if observationGap (last (Po_Loss st)) s (run_poll run)
          then (Stop ''one-server-loss loss observation gap'', w)
          else if time_Add started (P_recoveryTimeout p) < observed
          then (Stop ''one-server-loss recovery timed out'', w)
          else if SE_Phase s = PhaseLoss then
            (case run_health run s PhaseLoss started of
               Some e \<Rightarrow> (Stop e, w)
             | None \<Rightarrow>
                 let recovered = Po_VMRecovered st \<or> vmReadyOffTarget s in
                 if \<not> recovered \<and> P_vmUnavailable p < time_Sub observed started
                 then (Stop ''one-server-loss VM recovery exceeded SLO'', w)
                 else (Again (st\<lparr>Po_Loss := Po_Loss st @ [s], Po_VMRecovered := recovered\<rparr>), w))
          else if SE_Phase s \<noteq> PhaseRecovered \<or> time_Sub observed started < P_lossWindow p \<or> \<not> Po_VMRecovered st
          then (Stop ''one-server-loss loss window is invalid'', w)
          else case run_health run s PhaseRecovered started of
            Some e \<Rightarrow> (Stop e, w)
          | None \<Rightarrow> (Again (st\<lparr>Po_Recovered := [s]\<rparr>), w))"

definition recovery_body :: "'w LossEnv \<Rightarrow> run \<Rightarrow> polled \<Rightarrow> 'w \<Rightarrow> polled turn \<times> 'w" where
  "recovery_body env run st w =
     (let p = Run_Parsed run in
      if P_recoveryStability p \<le> time_Sub (mustTimestamp (SE_ObservedAt (last (Po_Recovered st))))
        (mustTimestamp (SE_ObservedAt (hd (Po_Recovered st))))
      then (Done st, w)
      else case poll_sample env run ''one-server-loss recovery observation interrupted'' (Po_Sequence st) PhaseRecovered w of
        (Inl e, w) \<Rightarrow> (Stop e, w)
      | (Inr (Inl e), w) \<Rightarrow> (Stop ''one-server-loss recovery did not remain stable'', w)
      | (Inr (Inr s), w) \<Rightarrow>
          if SE_Phase s \<noteq> PhaseRecovered then (Stop ''one-server-loss recovery did not remain stable'', w)
          else if observationGap (last (Po_Recovered st)) s (run_poll run) \<or>
            time_Add (loss_started st) (P_recoveryTimeout p) < mustTimestamp (SE_ObservedAt s)
          then (Stop ''one-server-loss recovery observation gap or timeout'', w)
          else case run_health run s PhaseRecovered (loss_started st) of
            Some e \<Rightarrow> (Stop e, w)
          | None \<Rightarrow> (Again (st\<lparr>Po_Sequence := Po_Sequence st + 1, Po_Recovered := Po_Recovered st @ [s]\<rparr>), w))"

subsection \<open>The observer\<close>

definition ready_marker :: "'w LossEnv \<Rightarrow> run \<Rightarrow> string \<Rightarrow> ReadyMarker" where
  "ready_marker env run readyAt =
     (let b = baseline_of (Run_First run);
          m = \<lparr>RM_SchemaVersion = ReadyMarkerSchemaVersion, RM_Status = ReadyMarkerStatus,
            RM_RequestSHA256 = P_requestSHA256 (Run_Parsed run), RM_RunNonceSHA256 = LR_RunNonceSHA256 (Run_Request run),
            RM_TargetNodeUIDSHA256 = SE_TargetNodeUIDSHA256 (Run_First run), RM_NodeUIDHashAlgorithm = NodeUIDHashAlgorithm,
            RM_KubectlExecutableSHA256 = Env_ReaderIdentity env, RM_ProbeAdapterSHA256 = Env_ProbeIdentity env,
            RM_ControlPlaneMemberSetSHA256 = LB_ControlPlaneMemberSetSHA256 b,
            RM_BaselineControlPlaneNodes = LB_ControlPlaneNodes b, RM_BaselineEtcdMembers = LB_EtcdMembers b,
            RM_BaselineAPIServerMembers = LB_APIServerMembers b, RM_ReadyAt = readyAt, RM_MarkerSHA256 = []\<rparr>
      in m\<lparr>RM_MarkerSHA256 := markerDigest m\<rparr>)"

definition run_receipt :: "'w LossEnv \<Rightarrow> run \<Rightarrow> string \<Rightarrow> polled \<Rightarrow> Receipt" where
  "run_receipt env run readyAt st =
     (let req = Run_Request run; first = Run_First run;
          lossAt = SE_ObservedAt (hd (Po_Loss st)); recoveredAt = SE_ObservedAt (hd (Po_Recovered st));
          completedAt = SE_ObservedAt (last (Po_Recovered st));
          r = \<lparr>Rc_SchemaVersion = LossReceiptSchemaVersion, Rc_Status = ReceiptStatus,
            Rc_RequestSHA256 = P_requestSHA256 (Run_Parsed run), Rc_RunNonceSHA256 = LR_RunNonceSHA256 req,
            Rc_TargetNodeUIDSHA256 = SE_TargetNodeUIDSHA256 first, Rc_NodeUIDHashAlgorithm = NodeUIDHashAlgorithm,
            Rc_KubectlExecutableSHA256 = Env_ReaderIdentity env, Rc_ProbeAdapterSHA256 = Env_ProbeIdentity env,
            Rc_StartedAt = SE_StartedAt first, Rc_ReadyMarkerAt = readyAt, Rc_CompletedAt = completedAt,
            Rc_PollInterval = LR_PollInterval req, Rc_FaultArrivalTimeout = LR_FaultArrivalTimeout req,
            Rc_MinimumLossWindow = LR_MinimumLossWindow req, Rc_RecoveryTimeout = LR_RecoveryTimeout req,
            Rc_RecoveryStabilityWindow = LR_RecoveryStabilityWindow req,
            Rc_MaximumVMUnavailable = VT_MaximumUnavailableDuration (LR_VM req),
            Rc_MinimumControlPlane = LR_MinimumControlPlaneMembers req, Rc_Baseline = baseline_of first,
            Rc_PreLoss = phaseEvidence PhasePreLoss (SE_StartedAt first) lossAt (Po_Pre st),
            Rc_Loss = phaseEvidence PhaseLoss lossAt recoveredAt (Po_Loss st),
            Rc_Recovered = phaseEvidence PhaseRecovered recoveredAt completedAt (Po_Recovered st),
            Rc_ReceiptSHA256 = []\<rparr>
      in r\<lparr>Rc_ReceiptSHA256 := lossReceiptDigest r\<rparr>)"

text \<open>From the healthy state before the loss to the published marker.\<close>

definition observe_ready :: "'w LossEnv \<Rightarrow> run \<Rightarrow> polled \<Rightarrow> 'w \<Rightarrow> (string + polled) \<times> 'w" where
  "observe_ready env run st w =
     (let marker = ready_marker env run (SE_ObservedAt (last (Po_Pre st))) in
      case ValidateReadyMarker marker of
        Some e \<Rightarrow> (Inl e, w)
      | None \<Rightarrow>
          (case Env_ReadyForFault env marker w of
             (False, w) \<Rightarrow> (Inl ''publish one-server-loss ready marker'', w)
           | (True, w) \<Rightarrow> (Inr st, w)))"

definition observe_loss :: "'w LossEnv \<Rightarrow> run \<Rightarrow> polled \<Rightarrow> 'w \<Rightarrow> ((string + polled) \<times> 'w) option" where
  "observe_loss env run st w =
     (case run_health run (hd (Po_Loss st)) PhaseLoss (loss_started st) of
        Some e \<Rightarrow> Some (Inl e, w)
      | None \<Rightarrow> repeatedly (loss_body env run) (st\<lparr>Po_VMRecovered := vmReadyOffTarget (hd (Po_Loss st))\<rparr>) w)"

definition finish_run :: "'w LossEnv \<Rightarrow> run \<Rightarrow> string \<Rightarrow> polled \<Rightarrow> 'w \<Rightarrow> ((string + Receipt) \<times> 'w) option" where
  "finish_run env run readyAt st w =
     (let r = run_receipt env run readyAt st in
      case ValidateLossReceipt r of Some e \<Rightarrow> Some (Inl e, w) | None \<Rightarrow> Some (Inr r, w))"

definition observe_run :: "'w LossEnv \<Rightarrow> run \<Rightarrow> 'w \<Rightarrow> ((string + Receipt) \<times> 'w) option" where
  "observe_run env run w =
     after (repeatedly (pre_body env run)
       \<lparr>Po_Sequence = 1, Po_Pre = [Run_First run], Po_Loss = [], Po_Recovered = [], Po_VMRecovered = False\<rparr> w) (\<lambda>st w.
     let readyAt = SE_ObservedAt (last (Po_Pre st));
         faultDeadline = time_Add (mustTimestamp readyAt) (P_faultTimeout (Run_Parsed run)) in
     after (Some (observe_ready env run st w)) (\<lambda>st w.
     after (repeatedly (fault_body env run faultDeadline) st w) (\<lambda>st w.
     after (observe_loss env run st w) (\<lambda>st w.
     after (repeatedly (recovery_body env run) st w) (finish_run env run readyAt)))))"

definition Observe :: "'w LossEnv \<Rightarrow> Request \<Rightarrow> 'w \<Rightarrow> ((string + Receipt) \<times> 'w) option" where
  "Observe env req w =
     (case validateRequest req of
        Inl e \<Rightarrow> Some (Inl e, w)
      | Inr parsed \<Rightarrow>
          if \<not> validSHA256 (Env_ReaderIdentity env) \<or> \<not> validSHA256 (Env_ProbeIdentity env)
          then Some (Inl ''one-server-loss observer dependency is invalid'', w)
          else case sampler_next env req parsed 0 PhasePreLoss w of
            (Inl e, w) \<Rightarrow> Some (Inl ''one-server-loss healthy pre-state is unavailable'', w)
          | (Inr first, w) \<Rightarrow>
              if SE_Phase first \<noteq> PhasePreLoss
              then Some (Inl ''one-server-loss healthy pre-state is unavailable'', w)
              else let run = \<lparr>Run_Request = req, Run_Parsed = parsed, Run_First = first\<rparr> in
                case run_health run first PhasePreLoss 0 of
                  Some e \<Rightarrow> Some (Inl e, w)
                | None \<Rightarrow> observe_run env run w)"

end
