(* ===== verification/Loss_Receipts.thy ===== *)
theory Loss_Receipts
  imports Loss_Validate
begin

text \<open>
  What a valid receipt of the one-server-loss drill says about the run it describes: the
  parts of the check as conditions, the observation without gaps, and the health of every
  sample.
\<close>

subsection \<open>Durations and times\<close>

definition durationOf :: "string \<Rightarrow> duration" where
  "durationOf v = (case ParseDuration v of None \<Rightarrow> 0 | Some d \<Rightarrow> d)"

lemma canonicalDuration_Some:
  "canonicalDuration v lo hi = Some d \<longleftrightarrow>
     ParseDuration v = Some d \<and> lo \<le> d \<and> d \<le> hi \<and> Duration_String d = v"
  by (auto simp: canonicalDuration_def split: option.splits)

lemma canonicalDuration_iff:
  assumes "0 \<le> lo" and "hi \<le> maxDuration"
  shows "canonicalDuration v lo hi = Some d \<longleftrightarrow> v = Duration_String d \<and> lo \<le> d \<and> d \<le> hi"
  using assms ParseDuration_String [of d] by (auto simp: canonicalDuration_Some)

lemma durationOf_canonical: "canonicalDuration v lo hi = Some d \<Longrightarrow> durationOf v = d \<and> lo \<le> d \<and> d \<le> hi"
  by (simp add: canonicalDuration_Some durationOf_def)

lemmas loss_bounds = minimumPollInterval_def maximumPollInterval_def maximumPhaseTimeout_def

abbreviation startedAt :: "SampleEvidence \<Rightarrow> gotime" where
  "startedAt s \<equiv> mustTimestamp (SE_StartedAt s)"

abbreviation observedAt :: "SampleEvidence \<Rightarrow> gotime" where
  "observedAt s \<equiv> mustTimestamp (SE_ObservedAt s)"

lemma validSHA256_iff: "validSHA256 v \<longleftrightarrow> length v = 64 \<and> list_all is_hex v"
proof -
  have "is_hex c \<longleftrightarrow> \<not> is_upper c \<and> hex_value c \<noteq> None" for c
    by (auto simp: is_upper_def hex_value_def is_hex_def is_digit_def between_def less_eq_char_def less_char_def)
  then have "list_all is_hex v \<longleftrightarrow> \<not> list_ex is_upper v \<and> list_all (\<lambda>c. hex_value c \<noteq> None) v"
    unfolding list_all_iff list_ex_iff by blast
  then show ?thesis by (auto simp: validSHA256_def hex_decodes_def)
qed

lemma validSHA256_SHA256Hex [simp]: "validSHA256 (SHA256Hex m)"
  by (simp add: validSHA256_iff SHA256Hex_def is_hex_encode)

lemma validSHA256_digest [simp]: "validSHA256 (digestJSON v)"
  by (simp add: digestJSON_def)

lemma digestJSON_not_Nil [simp]: "digestJSON v \<noteq> []"
  using validSHA256_digest [of v] unfolding validSHA256_iff by auto

lemma mustTimestamp_Format [simp]:
  assumes "time_in_range t"
  shows "mustTimestamp (FormatRFC3339Nano t) = t" and "timestamp (FormatRFC3339Nano t)"
    and "canonicalTimestamp (FormatRFC3339Nano t) = Some t"
  using assms by (simp_all add: mustTimestamp_def timestamp_def canonicalTimestamp_def parse_canonical_time_Format)

lemma digests_of_sealed [simp]:
  "sampleDigest (s\<lparr>SE_SampleSHA256 := x\<rparr>) = sampleDigest s"
  "baselineDigest (b\<lparr>LB_BaselineSHA256 := x\<rparr>) = baselineDigest b"
  "markerDigest (m\<lparr>RM_MarkerSHA256 := x\<rparr>) = markerDigest m"
  "lossReceiptDigest (r\<lparr>Rc_ReceiptSHA256 := x\<rparr>) = lossReceiptDigest r"
  by (simp_all add: sampleDigest_def baselineDigest_def markerDigest_def lossReceiptDigest_def)

lemma validSHA256_digests [simp]:
  "validSHA256 (sampleDigest s)" "validSHA256 (baselineDigest b)" "validSHA256 (markerDigest m)"
  "validSHA256 (lossReceiptDigest r)" "validSHA256 (samplesDigest ss)"
  by (simp_all add: sampleDigest_def baselineDigest_def markerDigest_def lossReceiptDigest_def samplesDigest_def)

subsection \<open>The sequence of samples\<close>

text \<open>Each sample starts at most two poll intervals after the one before it was complete.\<close>

fun gapless :: "duration \<Rightarrow> gotime \<Rightarrow> SampleEvidence list \<Rightarrow> bool" where
  "gapless poll previous [] = True"
| "gapless poll previous (s # ss) =
     (previous \<le> startedAt s \<and> startedAt s \<le> previous + 2 * poll \<and> startedAt s \<le> observedAt s \<and>
      gapless poll (observedAt s) ss)"

lemma gapless_covers:
  assumes "gapless poll p ss" and "p \<le> t" and "ss \<noteq> []" and "t \<le> observedAt (last ss)"
  shows "\<exists>s \<in> set ss. startedAt s - 2 * poll \<le> t \<and> t \<le> observedAt s"
  using assms
proof (induction ss arbitrary: p)
  case (Cons s ss)
  show ?case
  proof (cases "t \<le> observedAt s")
    case True
    with Cons.prems show ?thesis by auto
  next
    case False
    with Cons.prems Cons.IH [of "observedAt s"] show ?thesis by (cases "ss = []") auto
  qed
qed simp

lemma gapless_after: "gapless poll p ss \<Longrightarrow> s \<in> set ss \<Longrightarrow> p \<le> startedAt s \<and> startedAt s \<le> observedAt s"
  by (induction ss arbitrary: p) fastforce+

lemma gapless_append:
  "gapless poll p (xs @ ys) \<longleftrightarrow>
     gapless poll p xs \<and> gapless poll (if xs = [] then p else observedAt (last xs)) ys"
  by (induction xs arbitrary: p) auto

text \<open>The sequence check, as a condition on its parts.\<close>

definition goodSample :: "Receipt \<Rightarrow> SampleEvidence \<Rightarrow> bool" where
  "goodSample r s \<longleftrightarrow> timestamp (SE_StartedAt s) \<and> timestamp (SE_ObservedAt s) \<and>
     sampleDigest s = SE_SampleSHA256 s \<and> validateSafeSample r s = None"

lemma sequence_tail:
  assumes "validateSampleSequence poll r i (Some (p, f)) reqs ss = None" and "0 \<le> poll" and "poll \<le> maximumPollInterval"
  shows "gapless poll p ss" and "list_all (goodSample r) ss" and "list_all (sameBinding f) ss"
    and "map SE_Sequence ss = map (\<lambda>k. i + 1 + int k) [0 ..< length ss]"
    and "distinct (map (\<lambda>s. DE_RequestSHA256 (SE_DataProbe s)) ss)"
    and "set reqs \<inter> (\<lambda>s. DE_RequestSHA256 (SE_DataProbe s)) ` set ss = {}"
proof -
  let ?q = "\<lambda>s. DE_RequestSHA256 (SE_DataProbe s)"
  have "gapless poll p ss \<and> list_all (goodSample r) ss \<and> list_all (sameBinding f) ss \<and>
      map SE_Sequence ss = map (\<lambda>k. i + 1 + int k) [0 ..< length ss] \<and>
      distinct (map ?q ss) \<and> set reqs \<inter> ?q ` set ss = {}"
    using assms(1)
  proof (induction ss arbitrary: i p reqs)
    case (Cons s ss)
    have s: "SE_Sequence s = i + 1" "goodSample r s" "startedAt s \<le> observedAt s" "p \<le> startedAt s"
      "time_Sub (startedAt s) p \<le> 2 * poll" "?q s \<notin> set reqs" "sameBinding f s"
      and rest: "validateSampleSequence poll r (i + 1) (Some (observedAt s, f)) (?q s # reqs) ss = None"
      using Cons.prems by (auto simp: Let_def guards goodSample_def)
    have "startedAt s \<le> p + 2 * poll"
      using s(5) assms(2,3) time_Sub_le_iff [of "2 * poll" "startedAt s" p]
      by (simp add: loss_bounds duration_defs)
    moreover have "map (\<lambda>k. i + 1 + int k) [0 ..< length (s # ss)] =
        (i + 1) # map (\<lambda>k. i + 1 + 1 + int k) [0 ..< length ss]"
      by (simp add: upt_conv_Cons map_Suc_upt [symmetric] del: upt_Suc)
    ultimately show ?case using s Cons.IH [OF rest] by auto
  qed simp
  then show "gapless poll p ss" and "list_all (goodSample r) ss" and "list_all (sameBinding f) ss"
    and "map SE_Sequence ss = map (\<lambda>k. i + 1 + int k) [0 ..< length ss]"
    and "distinct (map ?q ss)" and "set reqs \<inter> ?q ` set ss = {}"
    by blast+
qed

lemma sequence_valid:
  assumes "validateSampleSequence poll r 0 None [] (s # ss) = None" and "0 \<le> poll" and "poll \<le> maximumPollInterval"
  shows "startedAt s \<le> observedAt s" and "gapless poll (observedAt s) ss" and "list_all (goodSample r) (s # ss)"
    and "list_all (sameBinding s) ss" and "map SE_Sequence (s # ss) = map int [1 ..< Suc (length (s # ss))]"
    and "distinct (map (\<lambda>s. DE_RequestSHA256 (SE_DataProbe s)) (s # ss))"
proof -
  let ?q = "\<lambda>s. DE_RequestSHA256 (SE_DataProbe s)"
  have s: "SE_Sequence s = 1" "goodSample r s"
    and rest: "validateSampleSequence poll r 1 (Some (observedAt s, s)) [?q s] ss = None"
    and "startedAt s \<le> observedAt s"
    using assms(1) by (auto simp: Let_def guards goodSample_def)
  note tail = sequence_tail [OF rest assms(2,3)]
  show "startedAt s \<le> observedAt s" "gapless poll (observedAt s) ss" "list_all (sameBinding s) ss"
    "list_all (goodSample r) (s # ss)" "distinct (map ?q (s # ss))"
    using \<open>startedAt s \<le> observedAt s\<close> s tail by auto
  have "map int [1 ..< Suc (length (s # ss))] = 1 # map (\<lambda>k. 1 + 1 + int k) [0 ..< length ss]"
    by (simp add: upt_conv_Cons map_Suc_upt [symmetric] del: upt_Suc)
  then show "map SE_Sequence (s # ss) = map int [1 ..< Suc (length (s # ss))]"
    using s(1) tail(4) by simp
qed

subsection \<open>Health of the phases\<close>

lemma phase_names:
  "PhasePreLoss \<noteq> PhaseLoss" "PhasePreLoss \<noteq> PhaseRecovered" "PhaseLoss \<noteq> PhaseRecovered"
  "PhaseLoss \<noteq> PhasePreLoss" "PhaseRecovered \<noteq> PhasePreLoss" "PhaseRecovered \<noteq> PhaseLoss"
  by (simp_all add: go_consts)

definition healthyIn :: "string \<Rightarrow> Receipt \<Rightarrow> SampleEvidence \<Rightarrow> bool" where
  "healthyIn phase r s \<longleftrightarrow> continuous phase r s \<and> workloadsHealthy s \<and>
     (phase = PhasePreLoss \<longrightarrow> healthyWithTarget r s \<and> VE_VMIOnTarget (SE_VM s)) \<and>
     (phase = PhaseLoss \<longrightarrow> exactLoss r s) \<and>
     (phase = PhaseRecovered \<longrightarrow> healthyWithTarget r s)"

lemma phaseHealth_healthy:
  "phaseHealth phase r vm b ss = Inr b' \<Longrightarrow> list_all (healthyIn phase r) ss"
proof (induction ss arbitrary: b)
  case (Cons s ss)
  then obtain b'' where "phaseHealth phase r vm b'' ss = Inr b'" "healthyIn phase r s"
    by (auto simp: healthyIn_def phase_names Let_def split: if_splits)
  with Cons.IH show ?case by simp
qed simp

text \<open>Until the machine runs elsewhere, every sample of the loss is within its limit.\<close>

lemma phaseHealth_vm:
  assumes "phaseHealth PhaseLoss r vm False ss = Inr b'" and "b'"
  shows "\<exists>xs s ys. ss = xs @ s # ys \<and> vmReadyOffTarget s \<and>
    (\<forall>x \<in> set xs. time_Sub (observedAt x) (mustTimestamp (PE_StartedAt (Rc_Loss r))) \<le> vm)"
  using assms(1)
proof (induction ss)
  case Nil
  with assms(2) show ?case by simp
next
  case (Cons s ss)
  show ?case
  proof (cases "vmReadyOffTarget s")
    case True
    then have "s # ss = [] @ s # ss \<and> vmReadyOffTarget s" by simp
    then show ?thesis by (metis empty_iff empty_set)
  next
    case False
    then have "phaseHealth PhaseLoss r vm False ss = Inr b'"
      and le: "time_Sub (observedAt s) (mustTimestamp (PE_StartedAt (Rc_Loss r))) \<le> vm"
      using Cons.prems by (auto simp: phase_names split: if_splits)
    then obtain xs y ys where "ss = xs @ y # ys" "vmReadyOffTarget y"
      "\<forall>x \<in> set xs. time_Sub (observedAt x) (mustTimestamp (PE_StartedAt (Rc_Loss r))) \<le> vm"
      using Cons.IH by blast
    with le have "s # ss = (s # xs) @ y # ys \<and> vmReadyOffTarget y \<and>
      (\<forall>x \<in> set (s # xs). time_Sub (observedAt x) (mustTimestamp (PE_StartedAt (Rc_Loss r))) \<le> vm)" by simp
    then show ?thesis by blast
  qed
qed

lemma validatePhaseHealth_None:
  "validatePhaseHealth ss phase r vm = None \<longleftrightarrow>
     (\<exists>b. phaseHealth phase r vm False ss = Inr b \<and> (phase = PhaseLoss \<longrightarrow> b \<and> vmReadyOffTarget (last ss)))"
  by (auto simp: validatePhaseHealth_def split: sum.splits)

subsection \<open>Receipts\<close>

text \<open>The parts of a valid receipt, with its durations read.\<close>

definition evidence_of :: "Receipt \<Rightarrow> string option" where
  "evidence_of r = validateEvidence r (durationOf (Rc_PollInterval r)) (durationOf (Rc_FaultArrivalTimeout r))
     (durationOf (Rc_MinimumLossWindow r)) (durationOf (Rc_RecoveryTimeout r))
     (durationOf (Rc_RecoveryStabilityWindow r)) (durationOf (Rc_MaximumVMUnavailable r))"

lemma valid_receipt_evidence:
  assumes "ValidateLossReceipt r = None"
  shows "evidence_of r = None" and "validReceiptHeader r"
    and "Second \<le> durationOf (Rc_PollInterval r)" and "durationOf (Rc_PollInterval r) \<le> maximumPollInterval"
    and "2 * durationOf (Rc_PollInterval r) \<le> durationOf (Rc_MinimumLossWindow r)"
    and "2 * durationOf (Rc_PollInterval r) \<le> durationOf (Rc_RecoveryStabilityWindow r)"
    and "durationOf (Rc_FaultArrivalTimeout r) \<le> Hour" and "durationOf (Rc_RecoveryTimeout r) \<le> Hour"
    and "durationOf (Rc_MaximumVMUnavailable r) \<le> durationOf (Rc_RecoveryTimeout r)"
    and "durationOf (Rc_PollInterval r) \<le> durationOf (Rc_MaximumVMUnavailable r)"
proof -
  obtain poll fault lossw rect recs vm where d:
    "canonicalDuration (Rc_PollInterval r) minimumPollInterval maximumPollInterval = Some poll"
    "canonicalDuration (Rc_FaultArrivalTimeout r) (2 * poll) maximumPhaseTimeout = Some fault"
    "canonicalDuration (Rc_MinimumLossWindow r) (2 * poll) maximumPhaseTimeout = Some lossw"
    "canonicalDuration (Rc_RecoveryTimeout r) (lossw + 2 * poll) maximumPhaseTimeout = Some rect"
    "canonicalDuration (Rc_RecoveryStabilityWindow r) (2 * poll) rect = Some recs"
    "canonicalDuration (Rc_MaximumVMUnavailable r) poll rect = Some vm"
    and ev: "validateEvidence r poll fault lossw rect recs vm = None" "validReceiptHeader r"
    using assms unfolding ValidateLossReceipt_def guards by blast
  note v = d [THEN durationOf_canonical]
  show "evidence_of r = None" "validReceiptHeader r"
    using v ev by (simp_all add: evidence_of_def)
  show "Second \<le> durationOf (Rc_PollInterval r)" "durationOf (Rc_PollInterval r) \<le> maximumPollInterval"
    "2 * durationOf (Rc_PollInterval r) \<le> durationOf (Rc_MinimumLossWindow r)"
    "2 * durationOf (Rc_PollInterval r) \<le> durationOf (Rc_RecoveryStabilityWindow r)"
    "durationOf (Rc_FaultArrivalTimeout r) \<le> Hour" "durationOf (Rc_RecoveryTimeout r) \<le> Hour"
    "durationOf (Rc_MaximumVMUnavailable r) \<le> durationOf (Rc_RecoveryTimeout r)"
    "durationOf (Rc_PollInterval r) \<le> durationOf (Rc_MaximumVMUnavailable r)"
    using v by (auto simp: loss_bounds)
qed

lemma evidence_None:
  assumes "evidence_of r = None"
  shows "validateBaseline (Rc_Baseline r) (Rc_MinimumControlPlane r) = None"
    and "validatePhase PhasePreLoss (Rc_PreLoss r) = None" and "validatePhase PhaseLoss (Rc_Loss r) = None"
    and "validatePhase PhaseRecovered (Rc_Recovered r) = None" and "7 \<le> length (allSamples r)"
    and "int (length (allSamples r)) \<le> maximumSamples"
    and "validTimeline r (durationOf (Rc_PollInterval r)) (durationOf (Rc_FaultArrivalTimeout r))
      (durationOf (Rc_MinimumLossWindow r)) (durationOf (Rc_RecoveryTimeout r)) (durationOf (Rc_RecoveryStabilityWindow r))"
    and "validateSampleSequence (durationOf (Rc_PollInterval r)) r 0 None [] (allSamples r) = None"
    and "validatePhaseHealth (PE_Samples (Rc_PreLoss r)) PhasePreLoss r (durationOf (Rc_MaximumVMUnavailable r)) = None"
    and "validatePhaseHealth (PE_Samples (Rc_Loss r)) PhaseLoss r (durationOf (Rc_MaximumVMUnavailable r)) = None"
    and "validatePhaseHealth (PE_Samples (Rc_Recovered r)) PhaseRecovered r (durationOf (Rc_MaximumVMUnavailable r)) = None"
    and "lossReceiptDigest r = Rc_ReceiptSHA256 r"
  using assms unfolding evidence_of_def validateEvidence_def guards by auto

lemma validatePhase_None:
  "validatePhase phase p = None \<longleftrightarrow> PE_Phase p = phase \<and> PE_Samples p \<noteq> [] \<and> validSHA256 (PE_SamplesSHA256 p) \<and>
     timestamp (PE_StartedAt p) \<and> timestamp (PE_CompletedAt p) \<and> samplesDigest (PE_Samples p) = PE_SamplesSHA256 p"
  by (auto simp: validatePhase_def)

end
