(* ===== verification/Loss_World.thy ===== *)
theory Loss_World
  imports Loss_Observer Loss_Receipts
begin

text \<open>
  What one sample does to the world around the observer. A relation that every read of the
  environment respects is respected by a whole sample; it is used for the time, which does
  not go back, and for the markers that have been published, which a sample leaves alone.
\<close>

text \<open>The steps of a successful sample.\<close>

lemma sampler_next_Inr:
  assumes "sampler_next env req parsed n phase w = (Inr s, w')"
  obtains started w0 scan members w1 etcd hostsEtcd w2 api hostsAPI w3 ws w4 vm w5 probe w6 observed
  where "Env_Now env w = (started, w0)" and "read_nodes env req w0 = (Inr (scan, members), w1)"
    and "controlPlanePods env req ''etcd'' (NS_ReadyControlPlane scan) w1 = (Inr (etcd, hostsEtcd), w2)"
    and "controlPlanePods env req ''kube-apiserver'' (NS_ReadyControlPlane scan) w2 = (Inr (api, hostsAPI), w3)"
    and "sample_workloads env (P_workloadBindings parsed) (NS_ReadyNames scan) (LR_Workloads req) w3 = (Inr ws, w4)"
    and "sample_vm env req parsed (NS_ReadyNames scan) w4 = (Inr vm, w5)"
    and "sample_probe env req parsed (n + 1) (next_phase phase (NS_TargetReady scan)) w5 = (Inr probe, w6)"
    and "Env_Now env w6 = (observed, w')"
    and "SE_Sequence s = n + 1" and "SE_Phase s = next_phase phase (NS_TargetReady scan)"
    and "SE_StartedAt s = FormatRFC3339Nano started" and "SE_ObservedAt s = FormatRFC3339Nano observed"
    and "SE_TargetNodePresent s = NS_TargetPresent scan" and "SE_TargetNodeReady s = NS_TargetReady scan"
    and "SE_TargetNodeUIDSHA256 s = NS_TargetUID scan" and "SE_ReadyZPassed s"
    and "SE_ControlPlaneReadyNodes s = int (length (NS_ControlPlane scan))" and "SE_EtcdReadyMembers s = etcd"
    and "SE_APIServerReadyMembers s = api" and "SE_ControlPlaneMemberSetSHA256 s = members"
    and "SE_TargetHostsEtcd s = hostsEtcd" and "SE_TargetHostsAPIServer s = hostsAPI" and "SE_Workloads s = ws"
    and "SE_VM s = vm" and "SE_DataProbe s = probe" and "sampleDigest s = SE_SampleSHA256 s"
proof -
  obtain started w0 where now: "Env_Now env w = (started, w0)" by fastforce
  from assms obtain scan members w1 etcd hostsEtcd w2 api hostsAPI w3 ws w4 vm w5 probe w6 where steps:
    "read_nodes env req w0 = (Inr (scan, members), w1)"
    "controlPlanePods env req ''etcd'' (NS_ReadyControlPlane scan) w1 = (Inr (etcd, hostsEtcd), w2)"
    "controlPlanePods env req ''kube-apiserver'' (NS_ReadyControlPlane scan) w2 = (Inr (api, hostsAPI), w3)"
    "sample_workloads env (P_workloadBindings parsed) (NS_ReadyNames scan) (LR_Workloads req) w3 = (Inr ws, w4)"
    "sample_vm env req parsed (NS_ReadyNames scan) w4 = (Inr vm, w5)"
    "sample_probe env req parsed (n + 1) (next_phase phase (NS_TargetReady scan)) w5 = (Inr probe, w6)"
    unfolding sampler_next_def now Let_def prod.case by (auto simp: and_then_Inr)
  obtain observed v where v: "Env_Now env w6 = (observed, v)" by fastforce
  define t where "t = \<lparr>SE_Sequence = n + 1, SE_Phase = next_phase phase (NS_TargetReady scan),
      SE_StartedAt = FormatRFC3339Nano started, SE_ObservedAt = FormatRFC3339Nano observed,
      SE_TargetNodePresent = NS_TargetPresent scan, SE_TargetNodeReady = NS_TargetReady scan,
      SE_TargetNodeUIDSHA256 = NS_TargetUID scan, SE_ReadyZPassed = True,
      SE_ControlPlaneReadyNodes = int (length (NS_ControlPlane scan)), SE_EtcdReadyMembers = etcd,
      SE_APIServerReadyMembers = api, SE_ControlPlaneMemberSetSHA256 = members, SE_TargetHostsEtcd = hostsEtcd,
      SE_TargetHostsAPIServer = hostsAPI, SE_Workloads = ws, SE_VM = vm, SE_DataProbe = probe, SE_SampleSHA256 = []\<rparr>"
  have "s = t\<lparr>SE_SampleSHA256 := sampleDigest t\<rparr>" "v = w'"
    using assms unfolding sampler_next_def now Let_def prod.case and_then_def steps v sum.case t_def [symmetric] by simp_all
  then show thesis
    using that [OF now steps] v digests_of_sealed(1) [where s = t] by (simp add: t_def)
qed

subsection \<open>Relations between worlds\<close>

locale observer_world =
  fixes env :: "'w LossEnv" and R :: "'w \<Rightarrow> 'w \<Rightarrow> bool"
  assumes refl: "R w w"
    and trans: "R u v \<Longrightarrow> R v w \<Longrightarrow> R u w"
    and now: "R w (snd (Env_Now env w))"
    and readyz: "R w (snd (Env_ReadyZ env w))"
    and list_one: "R w (snd (Env_ListPage env res ns sel cont n w))"
    and get: "R w (snd (Env_Get env res ns name w))"
    and observe: "R w (snd (Env_Observe env q w))"
begin

lemma after_and_then:
  assumes "R u (snd x)" and "\<And>a v. x = (Inr a, v) \<Longrightarrow> R v (snd (f a v))"
  shows "R u (snd (and_then x f))"
  using assms by (cases x; cases "fst x") (auto simp: and_then_def intro: trans)

lemma list_pages: "R w (snd (list_pages env n res ns sel st w))"
proof (induction n arbitrary: st w)
  case 0
  then show ?case by (simp add: refl)
next
  case (Suc n)
  obtain p w' where p: "Env_ListPage env res ns sel (LS_Continuation st) 500 w = (p, w')" by fastforce
  then have R: "R w w'" using list_one [of w res ns sel "LS_Continuation st" 500] by simp
  show ?case
  proof (cases p)
    case None
    then show ?thesis using p R by simp
  next
    case (Some payload)
    then show ?thesis using p R Suc.IH [THEN trans [OF R]] by (auto split: sum.splits)
  qed
qed

lemma listAll: "R w (snd (listAll env res ns sel w))"
  by (simp add: listAll_def list_pages)

lemma controlPlanePods: "R w (snd (controlPlanePods env req component ready w))"
  unfolding controlPlanePods_def
  by (rule after_and_then [OF listAll]) (auto simp: refl split: sum.splits)

lemma sample_workloads: "R w (snd (sample_workloads env bindings ready ts w))"
proof (induction ts arbitrary: w)
  case Nil
  then show ?case by (simp add: refl)
next
  case (Cons t ts)
  show ?case
    unfolding sample_workloads.simps
    by (rule after_and_then [OF listAll])
      (auto simp: refl split: sum.splits intro!: after_and_then [OF Cons.IH])
qed

lemma sample_vm: "R w (snd (sample_vm env req parsed ready w))"
proof -
  obtain a w1 where a: "Env_Get env vmResource (VT_Namespace (LR_VM req)) (VT_Name (LR_VM req)) w = (a, w1)" by fastforce
  obtain b w2 where b: "Env_Get env vmiResource (VT_Namespace (LR_VM req)) (VT_Name (LR_VM req)) w1 = (b, w2)" by fastforce
  have R: "R w w1" "R w w2"
    using get [of w vmResource] get [of w1 vmiResource] a b by (metis snd_conv trans)+
  show ?thesis unfolding sample_vm_def Let_def a using R
    by (cases a; cases b) (auto simp: b split: sum.splits)
qed

lemma sample_probe: "R w (snd (sample_probe env req parsed n phase w))"
  unfolding sample_probe_def Let_def
  using observe [of w] by (auto split: prod.splits option.splits) (metis snd_conv)+

lemma read_nodes: "R w (snd (read_nodes env req w))"
proof -
  obtain b w' where b: "Env_ReadyZ env w = (b, w')" by fastforce
  then have R: "R w w'" using readyz [of w] by simp
  have "R w' (snd (and_then (listAll env nodeResource [] [] w') f))"
    if "\<And>a v. R v (snd (f a v))" for f :: "json list \<Rightarrow> 'w \<Rightarrow> (string + node_scan \<times> string) \<times> 'w"
    by (rule after_and_then [OF listAll that])
  then show ?thesis using R unfolding read_nodes_def b
    by (cases b) (auto simp: refl Let_def intro!: trans [OF R] split: sum.splits)
qed

lemma sampler_next:
  assumes "sampler_next env req parsed n phase w = (Inr s, w')"
  shows "\<exists>started w0 observed w6. Env_Now env w = (started, w0) \<and> R w0 w6 \<and> Env_Now env w6 = (observed, w') \<and>
    SE_StartedAt s = FormatRFC3339Nano started \<and> SE_ObservedAt s = FormatRFC3339Nano observed"
  using assms
proof (rule sampler_next_Inr)
  fix started w0 scan members w1 etcd hostsEtcd w2 api hostsAPI w3 ws w4 vm w5 probe w6 observed
  assume "Env_Now env w = (started, w0)" "Env_Now env w6 = (observed, w')"
    "SE_StartedAt s = FormatRFC3339Nano started" "SE_ObservedAt s = FormatRFC3339Nano observed"
  moreover assume "read_nodes env req w0 = (Inr (scan, members), w1)"
    "controlPlanePods env req ''etcd'' (NS_ReadyControlPlane scan) w1 = (Inr (etcd, hostsEtcd), w2)"
    "controlPlanePods env req ''kube-apiserver'' (NS_ReadyControlPlane scan) w2 = (Inr (api, hostsAPI), w3)"
    "sample_workloads env (P_workloadBindings parsed) (NS_ReadyNames scan) (LR_Workloads req) w3 = (Inr ws, w4)"
    "sample_vm env req parsed (NS_ReadyNames scan) w4 = (Inr vm, w5)"
    "sample_probe env req parsed (n + 1) (next_phase phase (NS_TargetReady scan)) w5 = (Inr probe, w6)"
  then have "R w0 w1" "R w1 w2" "R w2 w3" "R w3 w4" "R w4 w5" "R w5 w6"
    using read_nodes [of w0 req] controlPlanePods [of w1 req] controlPlanePods [of w2 req]
      sample_workloads [of w3] sample_vm [of w4] sample_probe [of w5] by (metis snd_conv)+
  then have "R w0 w6" by (metis trans)
  ultimately show ?thesis by blast
qed

lemma sampler_next_world: "R w (snd (sampler_next env req parsed n phase w))"
proof -
  obtain started w0 where n0: "Env_Now env w = (started, w0)" by fastforce
  then have R: "R w w0" using now [of w] by simp
  show ?thesis
    unfolding sampler_next_def n0 Let_def prod.case split_beta
    by (intro trans [OF R] after_and_then read_nodes controlPlanePods sample_workloads sample_vm sample_probe)
      (simp_all add: now read_nodes)
qed

end

end
