(* ===== verification/Loss_Loops.thy ===== *)
theory Loss_Loops
  imports Loss_World
begin

text \<open>
  The loops of the observer: rules for the repetition of a body, the time that every round
  takes, and that each loop ends when the clock moves on.
\<close>

subsection \<open>Repetition\<close>

lemma repeatedly_total:
  fixes m :: "'s \<Rightarrow> nat"
  assumes "I s w"
    and step: "\<And>s w s' w'. I s w \<Longrightarrow> body s w = (Again s', w') \<Longrightarrow> I s' w' \<and> m s' < m s"
    and stop: "\<And>s w s' w'. I s w \<Longrightarrow> body s w = (Done s', w') \<Longrightarrow> Q s' w'"
  shows "\<exists>r w'. repeatedly body s w = Some (r, w') \<and> (\<forall>s'. r = Inr s' \<longrightarrow> Q s' w')"
  using assms(1)
proof (induction "m s" arbitrary: s w rule: less_induct)
  case less
  obtain t v where b: "body s w = (t, v)" by fastforce
  show ?case
  proof (cases t)
    case (Again s')
    with b step [OF less.prems] have "I s' v" "m s' < m s" by auto
    with less.hyps [of s' v] Again b show ?thesis by (subst repeatedly.simps) simp
  qed (use b stop [OF less.prems] in \<open>subst repeatedly.simps; simp\<close>)+
qed

lemma repeatedly_induct:
  assumes "repeatedly body s w = Some (r, w')"
    and "I s w"
    and step: "\<And>s w s' w'. I s w \<Longrightarrow> body s w = (Again s', w') \<Longrightarrow> I s' w'"
    and stop: "\<And>s w s' w'. I s w \<Longrightarrow> body s w = (Done s', w') \<Longrightarrow> Q (Inr s') w'"
    and fail: "\<And>s w e w'. I s w \<Longrightarrow> body s w = (Stop e, w') \<Longrightarrow> Q (Inl e) w'"
  shows "Q r w'"
proof -
  have "body = b \<longrightarrow> I s w \<longrightarrow> Q (fst x) (snd x)" if "repeatedly b s w = Some x" for b s w x
  proof (rule repeatedly.raw_induct [where P = "\<lambda>b s w x. body = b \<longrightarrow> I s w \<longrightarrow> Q (fst x) (snd x)", OF _ that])
    fix f and b :: "'a \<Rightarrow> 'b \<Rightarrow> 'a turn \<times> 'b" and s w x
    assume IH: "\<And>b s w x. f b s w = Some x \<Longrightarrow> body = b \<longrightarrow> I s w \<longrightarrow> Q (fst x) (snd x)"
      and eq: "(case b s w of (Stop e, w') \<Rightarrow> Some (Inl e, w') | (Again s', w') \<Rightarrow> f b s' w'
        | (Done s', w') \<Rightarrow> Some (Inr s', w')) = Some x"
    show "body = b \<longrightarrow> I s w \<longrightarrow> Q (fst x) (snd x)"
      using eq IH step stop fail by (auto split: prod.splits turn.splits)
  qed
  from this [OF assms(1)] assms(2) show ?thesis by simp
qed

lemma after_Some:
  "after x f = Some y \<longleftrightarrow>
     (\<exists>e w. x = Some (Inl e, w) \<and> y = (Inl e, w)) \<or> (\<exists>a w. x = Some (Inr a, w) \<and> f a w = Some y)"
  by (auto simp: after_def split: option.splits prod.splits sum.splits)

lemma after_total:
  assumes "\<exists>r w'. x = Some (r, w') \<and> (\<forall>a. r = Inr a \<longrightarrow> P a w')"
    and "\<And>a w. P a w \<Longrightarrow> \<exists>r w'. f a w = Some (r, w') \<and> (\<forall>b. r = Inr b \<longrightarrow> Q b w')"
  shows "\<exists>r w'. after x f = Some (r, w') \<and> (\<forall>b. r = Inr b \<longrightarrow> Q b w')"
  using assms by (auto simp: after_def split: sum.splits)

subsection \<open>Rounds\<close>

definition polled_all :: "polled \<Rightarrow> SampleEvidence list" where
  "polled_all st = Po_Pre st @ Po_Loss st @ Po_Recovered st"

definition last_time :: "polled \<Rightarrow> gotime" where
  "last_time st = observedAt (last (polled_all st))"

text \<open>A round takes one sample and appends it.\<close>

definition round_of :: "'w LossEnv \<Rightarrow> run \<Rightarrow> polled \<Rightarrow> 'w \<Rightarrow> polled \<Rightarrow> 'w \<Rightarrow> SampleEvidence \<Rightarrow> bool" where
  "round_of env run st w st' w' s \<longleftrightarrow>
     (\<exists>msg phase. poll_sample env run msg (Po_Sequence st) phase w = (Inr (Inr s), w')) \<and>
     polled_all st' = polled_all st @ [s] \<and> Po_Pre st' \<noteq> []"

lemma pre_body_Again:
  assumes "pre_body env run st w = (Again st', w')" and "Po_Loss st = []" and "Po_Recovered st = []"
  obtains s where "round_of env run st w st' w' s" and "Po_Pre st' = Po_Pre st @ [s]"
    and "run_health run s PhasePreLoss 0 = None" and "\<not> observationGap (last (Po_Pre st)) s (run_poll run)"
    and "Po_Loss st' = []" and "Po_Recovered st' = []" and "Po_Sequence st' = Po_Sequence st + 1"
    and "time_Sub (observedAt (last (Po_Pre st))) (observedAt (Run_First run)) < 2 * run_poll run"
  using assms
  by (auto simp: pre_body_def round_of_def polled_all_def Let_def
      split: if_splits prod.splits sum.splits option.splits; blast)

lemma fault_body_Again:
  assumes "fault_body env run deadline st w = (Again st', w')" and "Po_Recovered st = []" and "Po_Pre st \<noteq> []"
  obtains s where "round_of env run st w st' w' s" and "observedAt s \<le> deadline" and "Po_Recovered st' = []"
    and "Po_Loss st = []"
    and "Po_Loss st' = [] \<and> Po_Pre st' = Po_Pre st @ [s] \<and> run_health run s PhasePreLoss 0 = None \<or>
      Po_Loss st' = [s] \<and> Po_Pre st' = Po_Pre st"
  using assms
  by (auto simp: fault_body_def round_of_def polled_all_def Let_def
      split: if_splits prod.splits sum.splits option.splits; blast)

lemma loss_body_Again:
  assumes "loss_body env run st w = (Again st', w')" and "Po_Loss st \<noteq> []" and "Po_Pre st \<noteq> []"
  obtains s where "round_of env run st w st' w' s" and "Po_Recovered st = []"
    and "observedAt s \<le> loss_started st + P_recoveryTimeout (Run_Parsed run)" and "Po_Pre st' = Po_Pre st"
    and "Po_Loss st' \<noteq> []" and "hd (Po_Loss st') = hd (Po_Loss st)"
  using assms
  by (auto simp: loss_body_def round_of_def polled_all_def Let_def time_Add_def loss_started_def
      split: if_splits prod.splits sum.splits option.splits; blast)

lemma recovery_body_Again:
  assumes "recovery_body env run st w = (Again st', w')" and "Po_Pre st \<noteq> []"
  obtains s where "round_of env run st w st' w' s"
    and "observedAt s \<le> loss_started st + P_recoveryTimeout (Run_Parsed run)" and "Po_Pre st' = Po_Pre st"
    and "Po_Loss st' = Po_Loss st" and "Po_Recovered st' \<noteq> []"
  using assms
  by (auto simp: recovery_body_def round_of_def polled_all_def Let_def time_Add_def
      split: if_splits prod.splits sum.splits option.splits; blast)

lemma body_Done:
  "pre_body env run st w = (Done st', w') \<Longrightarrow> st' = st \<and> w' = w"
  "fault_body env run deadline st w = (Done st', w') \<Longrightarrow> st' = st \<and> w' = w \<and> Po_Loss st \<noteq> []"
  "loss_body env run st w = (Done st', w') \<Longrightarrow> st' = st \<and> w' = w \<and> Po_Recovered st \<noteq> []"
  "recovery_body env run st w = (Done st', w') \<Longrightarrow> st' = st \<and> w' = w"
  by (auto simp: pre_body_def fault_body_def loss_body_def recovery_body_def Let_def
      split: if_splits prod.splits sum.splits option.splits)

subsection \<open>The clock\<close>

text \<open>
  A clock that never goes back, on which a completed sleep takes at least as long as was
  asked, and whose times have four-digit years.
\<close>

definition steady_clock :: "'w LossEnv \<Rightarrow> ('w \<Rightarrow> gotime) \<Rightarrow> bool" where
  "steady_clock env clock \<longleftrightarrow>
     observer_world env (\<lambda>w w'. clock w \<le> clock w') \<and>
     (\<forall>w. clock w \<le> fst (Env_Now env w) \<and> fst (Env_Now env w) \<le> clock (snd (Env_Now env w)) \<and>
        time_in_range (fst (Env_Now env w))) \<and>
     (\<forall>d w. fst (Env_Sleep env d w) \<longrightarrow> clock w + d \<le> clock (snd (Env_Sleep env d w))) \<and>
     (\<forall>m w. clock w \<le> clock (snd (Env_ReadyForFault env m w)))"

lemma steady_sample:
  assumes "steady_clock env clock" and "sampler_next env req parsed n phase w = (Inr s, w')"
  shows "clock w \<le> startedAt s \<and> startedAt s \<le> observedAt s \<and> observedAt s \<le> clock w'"
proof -
  have world: "observer_world env (\<lambda>w w'. clock w \<le> clock w')"
    and now: "\<And>w. clock w \<le> fst (Env_Now env w) \<and> fst (Env_Now env w) \<le> clock (snd (Env_Now env w)) \<and>
      time_in_range (fst (Env_Now env w))"
    using assms(1) by (simp_all add: steady_clock_def)
  obtain started w0 observed w6 where "Env_Now env w = (started, w0)" "clock w0 \<le> clock w6"
    "Env_Now env w6 = (observed, w')" "SE_StartedAt s = FormatRFC3339Nano started"
    "SE_ObservedAt s = FormatRFC3339Nano observed"
    using observer_world.sampler_next [OF world assms(2)] by blast
  with now [of w] now [of w6] show ?thesis by simp
qed

lemma steady_round:
  assumes "steady_clock env clock" and "round_of env run st w st' w' s"
  shows "clock w + run_poll run \<le> startedAt s \<and> startedAt s \<le> observedAt s \<and> last_time st' = observedAt s \<and>
    last_time st' \<le> clock w' \<and> length (polled_all st') = length (polled_all st) + 1"
proof -
  obtain msg phase where "poll_sample env run msg (Po_Sequence st) phase w = (Inr (Inr s), w')"
    using assms(2) by (auto simp: round_of_def)
  then obtain w0 where w0: "Env_Sleep env (run_poll run) w = (True, w0)"
    "sampler_next env (Run_Request run) (Run_Parsed run) (Po_Sequence st) phase w0 = (Inr s, w')"
    by (auto simp: poll_sample_def split: prod.splits bool.splits)
  have "clock w + run_poll run \<le> clock w0"
    using assms(1) w0(1) unfolding steady_clock_def by (metis fst_conv snd_conv)
  then show ?thesis
    using steady_sample [OF assms(1) w0(2)] assms(2) by (auto simp: round_of_def last_time_def)
qed

subsection \<open>The number of samples and the end of the loops\<close>

text \<open>
  Of the samples so far all but three fit, a poll interval apart, between a time \<open>c\<close> and the
  last sample, which is no later than a deadline \<open>T\<close>.
\<close>

definition paced :: "('w \<Rightarrow> gotime) \<Rightarrow> run \<Rightarrow> gotime \<Rightarrow> gotime \<Rightarrow> polled \<Rightarrow> 'w \<Rightarrow> bool" where
  "paced clock run c T st w \<longleftrightarrow> Po_Pre st \<noteq> [] \<and> last_time st \<le> clock w \<and> last_time st \<le> T \<and>
     (int (length (polled_all st)) - 3) * run_poll run \<le> last_time st - c"

lemma paced_round:
  assumes "steady_clock env clock" and "round_of env run st w st' w' s" and "paced clock run c T st w"
    and "observedAt s \<le> T" and "0 < run_poll run"
  shows "paced clock run c T st' w'" and "nat (T - last_time st') < nat (T - last_time st)"
proof -
  note r = steady_round [OF assms(1,2)]
  have p: "last_time st \<le> clock w" "(int (length (polled_all st)) - 3) * run_poll run \<le> last_time st - c"
    using assms(3) by (simp_all add: paced_def)
  then have "last_time st + run_poll run \<le> last_time st'" using r by linarith
  moreover have "(int (length (polled_all st')) - 3) * run_poll run =
      (int (length (polled_all st)) - 3) * run_poll run + run_poll run"
    using r by (simp add: algebra_simps)
  ultimately have "(int (length (polled_all st')) - 3) * run_poll run \<le> last_time st' - c"
    using p(2) by linarith
  then show "paced clock run c T st' w'"
    using r assms(2,4) by (simp add: paced_def round_of_def)
  show "nat (T - last_time st') < nat (T - last_time st)"
    using \<open>last_time st + run_poll run \<le> last_time st'\<close> assms(4,5) r by linarith
qed

lemma time_Sub_less: "time_Sub t u < d \<Longrightarrow> d \<le> maxDuration \<Longrightarrow> t - u < d"
  by (auto simp: time_Sub_def)

definition few :: "('w \<Rightarrow> gotime) \<Rightarrow> run \<Rightarrow> polled \<Rightarrow> 'w \<Rightarrow> bool" where
  "few clock run st w \<longleftrightarrow> Po_Pre st \<noteq> [] \<and> Po_Loss st = [] \<and> Po_Recovered st = [] \<and> length (polled_all st) \<le> 3 \<and>
     last_time st \<le> clock w \<and>
     (int (length (polled_all st)) - 1) * run_poll run \<le> last_time st - observedAt (Run_First run)"

lemma pre_loop:
  assumes "steady_clock env clock" and "few clock run st w" and "0 < run_poll run" and "run_poll run \<le> maximumPollInterval"
  shows "\<exists>r w'. repeatedly (pre_body env run) st w = Some (r, w') \<and> (\<forall>st'. r = Inr st' \<longrightarrow> few clock run st' w')"
proof (rule repeatedly_total [where I = "few clock run" and m = "\<lambda>st. nat (2 * run_poll run - (last_time st - observedAt (Run_First run)))"])
  show "few clock run st w" by (rule assms(2))
next
  fix st w st' w'
  assume few: "few clock run st w" and again: "pre_body env run st w = (Again st', w')"
  from few have empty: "Po_Loss st = []" "Po_Recovered st = []" by (simp_all add: few_def)
  from pre_body_Again [OF again empty] obtain s where s: "round_of env run st w st' w' s" "Po_Pre st' = Po_Pre st @ [s]"
    "Po_Loss st' = []" "Po_Recovered st' = []"
    "time_Sub (observedAt (last (Po_Pre st))) (observedAt (Run_First run)) < 2 * run_poll run"
    by metis
  note r = steady_round [OF assms(1) s(1)]
  have "last_time st - observedAt (Run_First run) < 2 * run_poll run"
    using time_Sub_less [OF s(5)] assms(4) empty
    by (simp add: last_time_def polled_all_def loss_bounds duration_defs)
  moreover from this few have "(int (length (polled_all st)) - 1) * run_poll run < 2 * run_poll run"
    by (simp add: few_def)
  then have "int (length (polled_all st)) < 3" using assms(3) by simp
  moreover have "last_time st + run_poll run \<le> last_time st'" using r few by (simp add: few_def)
  moreover have "(int (length (polled_all st')) - 1) * run_poll run =
      (int (length (polled_all st)) - 1) * run_poll run + run_poll run"
    using r by (simp add: algebra_simps)
  ultimately show "few clock run st' w' \<and> nat (2 * run_poll run - (last_time st' - observedAt (Run_First run))) <
      nat (2 * run_poll run - (last_time st - observedAt (Run_First run)))"
    using few r s(2-4) assms(3) by (simp add: few_def)
qed (use assms(2) in \<open>auto dest: body_Done(1)\<close>)

definition paced_in :: "('w \<Rightarrow> gotime) \<Rightarrow> run \<Rightarrow> gotime \<Rightarrow> gotime \<Rightarrow> (polled \<Rightarrow> bool) \<Rightarrow> polled \<Rightarrow> 'w \<Rightarrow> bool" where
  "paced_in clock run c T S st w \<longleftrightarrow> paced clock run c T st w \<and> S st"

text \<open>A loop whose every round ends by the deadline.\<close>

lemma paced_loop:
  assumes "steady_clock env clock" and "0 < run_poll run" and "paced_in clock run c T S st w"
    and "\<And>st w st' w'. paced_in clock run c T S st w \<Longrightarrow> body st w = (Again st', w') \<Longrightarrow>
      \<exists>s. round_of env run st w st' w' s \<and> observedAt s \<le> T \<and> S st'"
    and "\<And>st w st' w'. body st w = (Done st', w') \<Longrightarrow> st' = st \<and> w' = w \<and> D st"
  shows "\<exists>r w'. repeatedly body st w = Some (r, w') \<and> (\<forall>st'. r = Inr st' \<longrightarrow> paced_in clock run c T S st' w' \<and> D st')"
proof (rule repeatedly_total [where I = "paced_in clock run c T S" and m = "\<lambda>st. nat (T - last_time st)"])
  fix st w st' w'
  assume p: "paced_in clock run c T S st w" and "body st w = (Again st', w')"
  then obtain s where s: "round_of env run st w st' w' s" "observedAt s \<le> T" "S st'" using assms(4) by blast
  from p have "paced clock run c T st w" by (simp add: paced_in_def)
  from paced_round [OF assms(1) s(1) this s(2) assms(2)] s(3)
  show "paced_in clock run c T S st' w' \<and> nat (T - last_time st') < nat (T - last_time st)"
    by (simp add: paced_in_def)
qed (use assms(3,5) in \<open>auto dest: assms(5)\<close>)

lemma fault_loop:
  assumes "steady_clock env clock" and "0 < run_poll run"
    and "paced_in clock run c T (\<lambda>st. Po_Recovered st = [] \<and> length (Po_Loss st) \<le> 1) st w"
  shows "\<exists>r w'. repeatedly (fault_body env run T) st w = Some (r, w') \<and>
    (\<forall>st'. r = Inr st' \<longrightarrow> paced_in clock run c T (\<lambda>st. Po_Recovered st = [] \<and> length (Po_Loss st) \<le> 1) st' w' \<and>
      Po_Loss st' \<noteq> [])"
  by (rule paced_loop [OF assms])
    (auto simp: paced_in_def paced_def dest: body_Done(2) elim!: fault_body_Again)

lemma loss_loop:
  assumes "steady_clock env clock" and "0 < run_poll run" and "T = t + P_recoveryTimeout (Run_Parsed run)"
    and "paced_in clock run c T (\<lambda>st. Po_Loss st \<noteq> [] \<and> loss_started st = t) st w"
  shows "\<exists>r w'. repeatedly (loss_body env run) st w = Some (r, w') \<and>
    (\<forall>st'. r = Inr st' \<longrightarrow> paced_in clock run c T (\<lambda>st. Po_Loss st \<noteq> [] \<and> loss_started st = t) st' w' \<and>
      Po_Recovered st' \<noteq> [])"
proof (rule paced_loop [OF assms(1,2,4)])
  fix st w st' w'
  assume p: "paced_in clock run c T (\<lambda>st. Po_Loss st \<noteq> [] \<and> loss_started st = t) st w"
    and again: "loss_body env run st w = (Again st', w')"
  then have "Po_Loss st \<noteq> []" "Po_Pre st \<noteq> []" by (simp_all add: paced_in_def paced_def)
  from loss_body_Again [OF again this] p
  show "\<exists>s. round_of env run st w st' w' s \<and> observedAt s \<le> T \<and> Po_Loss st' \<noteq> [] \<and> loss_started st' = t"
    unfolding paced_in_def assms(3) loss_started_def by metis
qed (auto dest: body_Done(3))

lemma recovery_loop:
  assumes "steady_clock env clock" and "0 < run_poll run" and "T = t + P_recoveryTimeout (Run_Parsed run)"
    and "paced_in clock run c T (\<lambda>st. loss_started st = t) st w"
  shows "\<exists>r w'. repeatedly (recovery_body env run) st w = Some (r, w') \<and>
    (\<forall>st'. r = Inr st' \<longrightarrow> paced_in clock run c T (\<lambda>st. loss_started st = t) st' w' \<and> True)"
proof (rule paced_loop [OF assms(1,2,4)])
  fix st w st' w'
  assume p: "paced_in clock run c T (\<lambda>st. loss_started st = t) st w"
    and again: "recovery_body env run st w = (Again st', w')"
  then have "Po_Pre st \<noteq> []" by (simp add: paced_in_def paced_def)
  from recovery_body_Again [OF again this] p
  show "\<exists>s. round_of env run st w st' w' s \<and> observedAt s \<le> T \<and> loss_started st' = t"
    unfolding paced_in_def assms(3) loss_started_def by metis
qed (auto dest: body_Done(4))

subsection \<open>The whole run\<close>

lemma allSamples_run_receipt: "allSamples (run_receipt env run readyAt st) = polled_all st"
  by (simp add: allSamples_def run_receipt_def phaseEvidence_def polled_all_def Let_def)

text \<open>The loss and the recovery, from a run that has just seen the fault.\<close>

lemma loss_started_last:
  "Po_Recovered st = [] \<Longrightarrow> length (Po_Loss st) \<le> 1 \<Longrightarrow> Po_Loss st \<noteq> [] \<Longrightarrow> loss_started st = last_time st"
  by (cases "Po_Loss st") (simp_all add: loss_started_def last_time_def polled_all_def)

lemma observe_loss_total:
  assumes "steady_clock env clock" and "0 < run_poll run" and "0 \<le> P_recoveryTimeout (Run_Parsed run)"
    and "Po_Loss st \<noteq> []" and "paced clock run c (loss_started st) st w" and "last_time st = loss_started st"
  shows "\<exists>r w'. observe_loss env run st w = Some (r, w') \<and>
    (\<forall>st'. r = Inr st' \<longrightarrow>
      paced_in clock run c (loss_started st + P_recoveryTimeout (Run_Parsed run)) (\<lambda>s. loss_started s = loss_started st) st' w')"
proof -
  let ?st = "st\<lparr>Po_VMRecovered := vmReadyOffTarget (hd (Po_Loss st))\<rparr>"
  let ?T = "loss_started st + P_recoveryTimeout (Run_Parsed run)"
  have same: "polled_all ?st = polled_all st" "loss_started ?st = loss_started st" "last_time ?st = last_time st"
    by (simp_all add: polled_all_def loss_started_def last_time_def)
  have "paced_in clock run c ?T (\<lambda>s. Po_Loss s \<noteq> [] \<and> loss_started s = loss_started st) ?st w"
    using assms same by (simp add: paced_in_def paced_def)
  from loss_loop [OF assms(1,2) HOL.refl this] show ?thesis
    by (auto simp: observe_loss_def paced_in_def split: option.splits)
qed

text \<open>The end of the run, and a bound on the samples of its receipt.\<close>

definition sample_bound :: "run \<Rightarrow> Receipt \<Rightarrow> bool" where
  "sample_bound run rc \<longleftrightarrow> (int (length (allSamples rc)) - 3) * run_poll run \<le>
     P_faultTimeout (Run_Parsed run) + P_recoveryTimeout (Run_Parsed run)"

lemma finish_run_total:
  assumes "paced clock run (t - P_faultTimeout (Run_Parsed run)) (t + P_recoveryTimeout (Run_Parsed run)) st w"
  shows "\<exists>r w'. finish_run env run readyAt st w = Some (r, w') \<and> (\<forall>rc. r = Inr rc \<longrightarrow> sample_bound run rc)"
  using assms
  by (auto simp: finish_run_def Let_def sample_bound_def allSamples_run_receipt paced_def split: option.splits)

lemma loss_run_total:
  assumes clock: "steady_clock env clock" and poll: "0 < run_poll run"
    and times: "0 \<le> P_recoveryTimeout (Run_Parsed run)"
    and st: "Po_Loss st \<noteq> []" "last_time st = loss_started st"
      "paced clock run (loss_started st - P_faultTimeout (Run_Parsed run)) (loss_started st) st w"
  shows "\<exists>r w'. after (observe_loss env run st w) (\<lambda>st w. after (repeatedly (recovery_body env run) st w)
    (finish_run env run readyAt)) = Some (r, w') \<and> (\<forall>rc. r = Inr rc \<longrightarrow> sample_bound run rc)"
proof (rule after_total, rule observe_loss_total [OF clock poll times st(1) st(3) st(2)])
  fix st' w
  assume "paced_in clock run (loss_started st - P_faultTimeout (Run_Parsed run))
    (loss_started st + P_recoveryTimeout (Run_Parsed run)) (\<lambda>s. loss_started s = loss_started st) st' w"
  from recovery_loop [OF clock poll HOL.refl this]
  show "\<exists>r w'. after (repeatedly (recovery_body env run) st' w) (finish_run env run readyAt) = Some (r, w') \<and>
      (\<forall>rc. r = Inr rc \<longrightarrow> sample_bound run rc)"
    by (rule after_total) (rule finish_run_total [where clock = clock and t = "loss_started st"], simp add: paced_in_def)
qed

lemma observe_ready_total:
  assumes "steady_clock env clock" and "paced_in clock run c T S st w"
  shows "\<exists>r w'. Some (observe_ready env run st w) = Some (r, w') \<and> (\<forall>st'. r = Inr st' \<longrightarrow> paced_in clock run c T S st' w')"
proof -
  have "clock w \<le> clock (snd (Env_ReadyForFault env m w))" for m
    using assms(1) by (simp add: steady_clock_def)
  then have "paced_in clock run c T S st w'" if "Env_ReadyForFault env m w = (b, w')" for m b w'
    using assms(2) that by (metis (no_types, lifting) order_trans paced_def paced_in_def snd_conv)
  then show ?thesis
    by (auto simp: observe_ready_def Let_def split: option.splits prod.splits bool.splits)
qed

lemma observe_run_total:
  assumes clock: "steady_clock env clock" and poll: "0 < run_poll run" "run_poll run \<le> maximumPollInterval"
    and times: "0 \<le> P_faultTimeout (Run_Parsed run)" "0 \<le> P_recoveryTimeout (Run_Parsed run)"
    and first: "observedAt (Run_First run) \<le> clock w"
  shows "\<exists>r w'. observe_run env run w = Some (r, w') \<and> (\<forall>rc. r = Inr rc \<longrightarrow> sample_bound run rc)"
  unfolding observe_run_def
proof (rule after_total [where P = "few clock run"], rule pre_loop [OF clock _ poll])
  show "few clock run \<lparr>Po_Sequence = 1, Po_Pre = [Run_First run], Po_Loss = [], Po_Recovered = [], Po_VMRecovered = False\<rparr> w"
    using first by (simp add: few_def polled_all_def last_time_def)
next
  fix st w assume few: "few clock run st w"
  let ?ready = "SE_ObservedAt (last (Po_Pre st))" and ?f = "P_faultTimeout (Run_Parsed run)"
    and ?S = "\<lambda>st. Po_Recovered st = [] \<and> length (Po_Loss st) \<le> 1"
  define c where "c = last_time st"
  have c: "mustTimestamp ?ready = c" using few by (simp add: c_def few_def last_time_def polled_all_def)
  have start: "paced_in clock run c (c + ?f) ?S st w"
    using few times(1) poll(1) by (simp add: few_def paced_in_def paced_def c_def mult_nonpos_nonneg)
  have loss: "\<exists>r w'. after (observe_loss env run st w) (\<lambda>st w. after (repeatedly (recovery_body env run) st w)
      (finish_run env run ?ready)) = Some (r, w') \<and> (\<forall>rc. r = Inr rc \<longrightarrow> sample_bound run rc)"
    if "paced_in clock run c (c + ?f) ?S st w \<and> Po_Loss st \<noteq> []" for st w ready
    using that loss_started_last [of st]
    by (intro loss_run_total [OF clock poll(1) times(2)]) (auto simp: paced_in_def paced_def)
  show "\<exists>r w'. (let readyAt = ?ready; faultDeadline = time_Add (mustTimestamp readyAt) ?f in
      after (Some (observe_ready env run st w)) (\<lambda>st w.
      after (repeatedly (fault_body env run faultDeadline) st w) (\<lambda>st w.
      after (observe_loss env run st w) (\<lambda>st w.
      after (repeatedly (recovery_body env run) st w) (finish_run env run readyAt))))) = Some (r, w') \<and>
    (\<forall>rc. r = Inr rc \<longrightarrow> sample_bound run rc)"
    unfolding Let_def time_Add_def c
    by (rule after_total [OF observe_ready_total [OF clock start]],
        rule after_total [OF fault_loop [OF clock poll(1)]], assumption, rule loss)
qed

end
