(* ===== verification/Loss_Runs.thy ===== *)
theory Loss_Runs
  imports Loss_Loops "HOL-Library.Sublist"
begin

text \<open>
  Runs of the observer: what a valid request fixes, that the observer returns and how many
  samples its receipt has, and when the marker that releases the fault is published.
\<close>

subsection \<open>Valid requests\<close>

lemma validateRequest_Inr:
  assumes "validateRequest req = Inr p"
  shows "P_poll p = durationOf (LR_PollInterval req)"
    and "P_faultTimeout p = durationOf (LR_FaultArrivalTimeout req)"
    and "P_recoveryTimeout p = durationOf (LR_RecoveryTimeout req)"
    and "P_requestSHA256 p = digestJSON (json_Request req)"
    and "Second \<le> P_poll p" and "P_poll p \<le> maximumPollInterval"
    and "2 * P_poll p \<le> P_faultTimeout p" and "4 * P_poll p \<le> P_recoveryTimeout p"
    and "estimatedSamples (P_poll p) (P_faultTimeout p) (P_recoveryTimeout p) \<le> maximumSamples"
    and "3 \<le> LR_MinimumControlPlaneMembers req"
proof -
  obtain poll fault lossw rect recs vm b where d:
    "canonicalDuration (LR_PollInterval req) minimumPollInterval maximumPollInterval = Some poll"
    "canonicalDuration (LR_FaultArrivalTimeout req) (2 * poll) maximumPhaseTimeout = Some fault"
    "canonicalDuration (LR_MinimumLossWindow req) (2 * poll) maximumPhaseTimeout = Some lossw"
    "canonicalDuration (LR_RecoveryTimeout req) (lossw + 2 * poll) maximumPhaseTimeout = Some rect"
    and p: "P_poll p = poll" "P_faultTimeout p = fault" "P_recoveryTimeout p = rect"
      "P_requestSHA256 p = digestJSON (json_Request req)" "estimatedSamples poll fault rect \<le> maximumSamples"
      "3 \<le> LR_MinimumControlPlaneMembers req"
    using assms
    by (auto simp: validateRequest_def Let_def split: if_splits option.splits sum.splits)
  note v = d [THEN durationOf_canonical]
  show "P_poll p = durationOf (LR_PollInterval req)" "P_faultTimeout p = durationOf (LR_FaultArrivalTimeout req)"
    "P_recoveryTimeout p = durationOf (LR_RecoveryTimeout req)" "P_requestSHA256 p = digestJSON (json_Request req)"
    "Second \<le> P_poll p" "P_poll p \<le> maximumPollInterval" "2 * P_poll p \<le> P_faultTimeout p"
    "4 * P_poll p \<le> P_recoveryTimeout p" "3 \<le> LR_MinimumControlPlaneMembers req"
    "estimatedSamples (P_poll p) (P_faultTimeout p) (P_recoveryTimeout p) \<le> maximumSamples"
    using v p by (auto simp: loss_bounds)
qed

text \<open>The start of a run that gets past its first sample.\<close>

lemma Observe_cases:
  assumes "Observe env req w = x"
  obtains (early) e w' where "x = Some (Inl e, w')" "w' = w \<or> (\<exists>p. w' = snd (sampler_next env req p 0 PhasePreLoss w))"
  | (run) p first w0 where "validateRequest req = Inr p"
      and "sampler_next env req p 0 PhasePreLoss w = (Inr first, w0)"
      and "run_health \<lparr>Run_Request = req, Run_Parsed = p, Run_First = first\<rparr> first PhasePreLoss 0 = None"
      and "observe_run env \<lparr>Run_Request = req, Run_Parsed = p, Run_First = first\<rparr> w0 = x"
  using assms unfolding Observe_def Let_def
  by (auto split: sum.splits if_splits prod.splits option.splits) (metis snd_conv)+

lemma sample_bound_estimated:
  assumes "validateRequest req = Inr p" and "sample_bound \<lparr>Run_Request = req, Run_Parsed = p, Run_First = f\<rparr> rc"
  shows "int (length (allSamples rc)) \<le> estimatedSamples (P_poll p) (P_faultTimeout p) (P_recoveryTimeout p)"
proof -
  note v = validateRequest_Inr [OF assms(1)]
  have poll: "0 < P_poll p" using v(5) by (simp add: Second_def)
  have "(int (length (allSamples rc)) - 3) * P_poll p \<le> P_faultTimeout p + P_recoveryTimeout p"
    using assms(2) by (simp add: sample_bound_def run_poll_def)
  then have "int (length (allSamples rc)) - 3 \<le> (P_faultTimeout p + P_recoveryTimeout p) div P_poll p"
    using poll by (simp add: int_le_div_iff)
  moreover have "go_quot (P_faultTimeout p + P_recoveryTimeout p) (P_poll p) =
      (P_faultTimeout p + P_recoveryTimeout p) div P_poll p"
    using v(7,8) poll by (intro go_quot_pos) auto
  ultimately show ?thesis by (simp add: estimatedSamples_def)
qed

lemma Observe_total:
  assumes "steady_clock env clock"
  shows "\<exists>r w'. Observe env req w = Some (r, w') \<and>
    (\<forall>rc. r = Inr rc \<longrightarrow> (\<exists>p. validateRequest req = Inr p \<and>
      int (length (allSamples rc)) \<le> estimatedSamples (P_poll p) (P_faultTimeout p) (P_recoveryTimeout p)))"
  using HOL.refl [of "Observe env req w"]
proof (cases rule: Observe_cases)
  case (early e w')
  then show ?thesis by simp
next
  case (run p first w0)
  let ?run = "\<lparr>Run_Request = req, Run_Parsed = p, Run_First = first\<rparr>"
  note v = validateRequest_Inr [OF run(1)]
  have "observedAt first \<le> clock w0" using steady_sample [OF assms run(2)] by simp
  then obtain r w' where "observe_run env ?run w0 = Some (r, w')" "\<forall>rc. r = Inr rc \<longrightarrow> sample_bound ?run rc"
    using observe_run_total [OF assms, of ?run w0] v(5-8) by (auto simp: run_poll_def Second_def)
  then show ?thesis using run(1,4) sample_bound_estimated [OF run(1)] by auto
qed

subsection \<open>Published markers\<close>

text \<open>The environment that also records every marker it is asked to publish.\<close>

definition lifted :: "('w \<Rightarrow> 'a \<times> 'w) \<Rightarrow> 'w \<times> 'l \<Rightarrow> 'a \<times> 'w \<times> 'l" where
  "lifted f u = (case f (fst u) of (a, w) \<Rightarrow> (a, w, snd u))"

definition recording :: "'w LossEnv \<Rightarrow> ('w \<times> ReadyMarker list) LossEnv" where
  "recording env =
     \<lparr>Env_ReaderIdentity = Env_ReaderIdentity env,
      Env_ListPage = (\<lambda>res ns sel cont n. lifted (Env_ListPage env res ns sel cont n)),
      Env_Get = (\<lambda>res ns name. lifted (Env_Get env res ns name)),
      Env_ReadyZ = lifted (Env_ReadyZ env),
      Env_ProbeIdentity = Env_ProbeIdentity env,
      Env_Observe = (\<lambda>q. lifted (Env_Observe env q)),
      Env_ReadyForFault = (\<lambda>m u. case Env_ReadyForFault env m (fst u) of (b, w) \<Rightarrow> (b, w, snd u @ [m])),
      Env_Now = lifted (Env_Now env),
      Env_Sleep = (\<lambda>d. lifted (Env_Sleep env d))\<rparr>"

lemma snd_lifted [simp]: "snd (snd (lifted f u)) = snd u"
  by (simp add: lifted_def split: prod.splits)

interpretation recorded: observer_world "recording env" "\<lambda>u v. snd u = snd v" for env
  by unfold_locales (auto simp: recording_def)

lemma poll_sample_log:
  assumes "poll_sample (recording env) run msg n phase u = (x, v)"
  shows "snd v = snd u"
proof -
  obtain b v0 where b: "Env_Sleep (recording env) (run_poll run) u = (b, v0)" by (rule prod.exhaust)
  have "snd v0 = snd u" using b snd_lifted [of "Env_Sleep env (run_poll run)" u] by (simp add: recording_def)
  then show ?thesis
    using assms recorded.sampler_next_world [of v0 env "Run_Request run" "Run_Parsed run" n phase]
    by (auto simp: poll_sample_def b split: bool.splits prod.splits)
qed

lemma pre_body_log: "pre_body (recording env) run st u = (t, v) \<Longrightarrow> snd v = snd u"
  by (auto simp: pre_body_def Let_def dest!: poll_sample_log split: if_splits prod.splits sum.splits option.splits)

lemma fault_body_log: "fault_body (recording env) run deadline st u = (t, v) \<Longrightarrow> snd v = snd u"
  by (auto simp: fault_body_def Let_def dest!: poll_sample_log split: if_splits prod.splits sum.splits option.splits)

lemma loss_body_log: "loss_body (recording env) run st u = (t, v) \<Longrightarrow> snd v = snd u"
  by (auto simp: loss_body_def Let_def dest!: poll_sample_log split: if_splits prod.splits sum.splits option.splits)

lemma recovery_body_log: "recovery_body (recording env) run st u = (t, v) \<Longrightarrow> snd v = snd u"
  by (auto simp: recovery_body_def Let_def dest!: poll_sample_log split: if_splits prod.splits sum.splits option.splits)

lemma loop_log:
  assumes "repeatedly body st u = Some (r, v)" and "\<And>st u t v. body st u = (t, v) \<Longrightarrow> snd v = snd u"
  shows "snd v = snd u"
  by (rule repeatedly_induct [where I = "\<lambda>st w. snd w = snd u" and Q = "\<lambda>r w. snd w = snd u", OF assms(1)])
    (auto dest!: assms(2))

text \<open>
  The samples that a run takes from a world on while it waits for the loss: the first at
  once, each other one after a sleep of a poll interval, numbered in order.
\<close>

inductive series :: "'w LossEnv \<Rightarrow> Request \<Rightarrow> parsedRequest \<Rightarrow> 'w \<Rightarrow> SampleEvidence list \<Rightarrow> 'w \<Rightarrow> bool"
  for env req p w where
  first: "series env req p w [s] w'" if "sampler_next env req p 0 PhasePreLoss w = (Inr s, w')"
| later: "series env req p w (ss @ [s]) w3" if "series env req p w ss w1" and "Env_Sleep env (P_poll p) w1 = (True, w2)"
    and "sampler_next env req p (int (length ss)) PhasePreLoss w2 = (Inr s, w3)"

lemma series_not_Nil: "series env req p w ss w' \<Longrightarrow> ss \<noteq> []"
  by (induction rule: series.induct) auto

text \<open>The state of a run before its marker is published.\<close>

definition settled :: "run \<Rightarrow> polled \<Rightarrow> bool" where
  "settled run st \<longleftrightarrow> Po_Pre st \<noteq> [] \<and> hd (Po_Pre st) = Run_First run \<and> Po_Loss st = [] \<and> Po_Recovered st = [] \<and>
     successively (\<lambda>x y. \<not> observationGap x y (run_poll run)) (Po_Pre st) \<and>
     (\<forall>s \<in> set (Po_Pre st). run_health run s PhasePreLoss 0 = None)"

lemma settled_round:
  assumes "settled run st" and "pre_body env run st w = (Again st', w')"
  shows "settled run st'"
proof -
  have "Po_Loss st = []" "Po_Recovered st = []" using assms(1) by (simp_all add: settled_def)
  from pre_body_Again [OF assms(2) this] obtain s where "Po_Pre st' = Po_Pre st @ [s]" "Po_Loss st' = []"
    "Po_Recovered st' = []" "run_health run s PhasePreLoss 0 = None" "\<not> observationGap (last (Po_Pre st)) s (run_poll run)"
    by metis
  then show ?thesis using assms(1) by (simp add: settled_def successively_append_iff)
qed

lemma pre_body_Done:
  "pre_body env run st w = (Done st', w') \<Longrightarrow>
     st' = st \<and> 2 * run_poll run \<le> time_Sub (observedAt (last (Po_Pre st))) (observedAt (Run_First run))"
  by (auto simp: pre_body_def split: if_splits prod.splits sum.splits option.splits)

lemma pre_loop_settled:
  assumes "repeatedly (pre_body env run) st w = Some (Inr st', w')" and "settled run st"
  shows "settled run st'" and
    "2 * run_poll run \<le> time_Sub (observedAt (last (Po_Pre st'))) (observedAt (Run_First run))"
proof -
  let ?P = "\<lambda>s. settled run s \<and> 2 * run_poll run \<le> time_Sub (observedAt (last (Po_Pre s))) (observedAt (Run_First run))"
  have "\<forall>s. Inr st' = (Inr s :: string + polled) \<longrightarrow> ?P s"
    by (rule repeatedly_induct [where I = "\<lambda>st w. settled run st" and Q = "\<lambda>r w. \<forall>s. r = Inr s \<longrightarrow> ?P s", OF assms])
      (auto dest: settled_round pre_body_Done)
  then show "settled run st'" "2 * run_poll run \<le> time_Sub (observedAt (last (Po_Pre st'))) (observedAt (Run_First run))"
    by simp_all
qed

definition sampled :: "'w LossEnv \<Rightarrow> run \<Rightarrow> 'w \<Rightarrow> polled \<Rightarrow> 'w \<Rightarrow> bool" where
  "sampled env run w st u \<longleftrightarrow> series env (Run_Request run) (Run_Parsed run) w (Po_Pre st) u \<and>
     Po_Sequence st = int (length (Po_Pre st))"

lemma sampled_round:
  assumes "sampled env run w st u" and "pre_body env run st u = (Again st', u')"
  shows "sampled env run w st' u'"
proof -
  obtain s v where "Env_Sleep env (P_poll (Run_Parsed run)) u = (True, v)"
    "sampler_next env (Run_Request run) (Run_Parsed run) (Po_Sequence st) PhasePreLoss v = (Inr s, u')"
    "Po_Pre st' = Po_Pre st @ [s]" "Po_Sequence st' = Po_Sequence st + 1"
    using assms(2)
    by (auto simp: pre_body_def poll_sample_def run_poll_def split: if_splits prod.splits sum.splits option.splits bool.splits)
  with assms(1) show ?thesis by (auto simp: sampled_def intro: series.later)
qed

lemma pre_loop_sampled:
  assumes "repeatedly (pre_body env run) st u = Some (Inr st', u')" and "sampled env run w st u"
  shows "sampled env run w st' u'"
proof -
  have "\<forall>s. Inr st' = (Inr s :: string + polled) \<longrightarrow> sampled env run w s u'"
    by (rule repeatedly_induct [where I = "sampled env run w" and Q = "\<lambda>r u. \<forall>s. r = Inr s \<longrightarrow> sampled env run w s u",
        OF assms]) (auto dest: sampled_round body_Done(1))
  then show ?thesis by simp
qed

lemma observe_ready_log:
  assumes "observe_ready (recording env) run st u = (r, v)"
  obtains (unpublished) e where "r = Inl e" and "v = u"
  | (published) m b where "m = ready_marker (recording env) run (SE_ObservedAt (last (Po_Pre st)))"
      and "ValidateReadyMarker m = None" and "Env_ReadyForFault (recording env) m u = (b, v)" and "snd v = snd u @ [m]"
      and "b \<and> r = Inr st \<or> \<not> b \<and> (\<exists>e. r = Inl e)"
proof -
  let ?m = "ready_marker (recording env) run (SE_ObservedAt (last (Po_Pre st)))"
  have log: "snd (snd (Env_ReadyForFault (recording env) ?m u)) = snd u @ [?m]"
    by (simp add: recording_def split: prod.splits)
  show thesis
  proof (cases "ValidateReadyMarker ?m")
    case None
    obtain b v' where b: "Env_ReadyForFault (recording env) ?m u = (b, v')" by (rule prod.exhaust)
    then have "v' = v" "b \<and> r = Inr st \<or> \<not> b \<and> (\<exists>e. r = Inl e)"
      using assms None by (auto simp: observe_ready_def Let_def split: bool.splits)
    then show thesis using published [of ?m b] None b log by simp
  next
    case (Some e)
    then show thesis using unpublished [of e] assms by (simp add: observe_ready_def Let_def)
  qed
qed

text \<open>After the marker nothing is published any more, and a receipt names the marker's time.\<close>

definition rest_of_run :: "'w LossEnv \<Rightarrow> run \<Rightarrow> string \<Rightarrow> polled \<Rightarrow> 'w \<Rightarrow> ((string + Receipt) \<times> 'w) option" where
  "rest_of_run env run readyAt st w =
     after (repeatedly (fault_body env run (time_Add (mustTimestamp readyAt) (P_faultTimeout (Run_Parsed run)))) st w)
       (\<lambda>st w. after (observe_loss env run st w) (\<lambda>st w.
        after (repeatedly (recovery_body env run) st w) (finish_run env run readyAt)))"

lemma loops_log:
  "repeatedly (pre_body (recording env) run) st u = Some (r, v) \<Longrightarrow> snd v = snd u"
  "repeatedly (fault_body (recording env) run deadline) st u = Some (r, v) \<Longrightarrow> snd v = snd u"
  "repeatedly (loss_body (recording env) run) st u = Some (r, v) \<Longrightarrow> snd v = snd u"
  "repeatedly (recovery_body (recording env) run) st u = Some (r, v) \<Longrightarrow> snd v = snd u"
  by (erule loop_log, erule pre_body_log fault_body_log loss_body_log recovery_body_log)+

lemma observe_loss_log:
  "observe_loss (recording env) run st u = Some (r, v) \<Longrightarrow> snd v = snd u"
  by (auto simp: observe_loss_def dest: loops_log(3) split: option.splits)

text \<open>The samples taken before the loss stay in the record of the run.\<close>

lemma loop_prefix:
  fixes st st' :: polled
  assumes "repeatedly body st u = Some (Inr st', v)"
    and "\<And>st u st' v. body st u = (Again st', v) \<Longrightarrow> prefix (Po_Pre st) (Po_Pre st')"
    and "\<And>st u st' v. body st u = (Done st', v) \<Longrightarrow> st' = st"
  shows "prefix (Po_Pre st) (Po_Pre st')"
proof -
  have "\<forall>s. Inr st' = (Inr s :: string + polled) \<longrightarrow> prefix (Po_Pre st) (Po_Pre s)"
    by (rule repeatedly_induct [where I = "\<lambda>s w. prefix (Po_Pre st) (Po_Pre s)"
        and Q = "\<lambda>r w. \<forall>s. r = Inr s \<longrightarrow> prefix (Po_Pre st) (Po_Pre s)", OF assms(1)])
      (auto dest: assms(2,3) prefix_order.trans)
  then show ?thesis by simp
qed

lemma loops_prefix:
  "repeatedly (fault_body env run deadline) st u = Some (Inr st', v) \<Longrightarrow> prefix (Po_Pre st) (Po_Pre st')"
  "repeatedly (loss_body env run) st u = Some (Inr st', v) \<Longrightarrow> prefix (Po_Pre st) (Po_Pre st')"
  "repeatedly (recovery_body env run) st u = Some (Inr st', v) \<Longrightarrow> prefix (Po_Pre st) (Po_Pre st')"
  by (erule loop_prefix; auto simp: fault_body_def loss_body_def recovery_body_def Let_def dest: body_Done
      split: if_splits prod.splits sum.splits option.splits)+

lemma observe_loss_prefix:
  "observe_loss env run st u = Some (Inr st', v) \<Longrightarrow> prefix (Po_Pre st) (Po_Pre st')"
  by (auto simp: observe_loss_def dest: loops_prefix(2) split: option.splits)

lemma rest_of_run_log:
  assumes "rest_of_run (recording env) run readyAt st u = Some (r, v)"
  shows "snd v = snd u"
  using assms unfolding rest_of_run_def after_Some
  by (auto simp: finish_run_def Let_def dest!: loops_log observe_loss_log split: option.splits)

lemma rest_of_run_receipt:
  assumes "rest_of_run env run readyAt st u = Some (Inr rc, v)"
  obtains st' where "rc = run_receipt env run readyAt st'" and "ValidateLossReceipt rc = None"
    and "prefix (Po_Pre st) (Po_Pre st')"
proof -
  obtain st1 u1 st2 u2 st' u3 where
    loops: "repeatedly (fault_body env run (time_Add (mustTimestamp readyAt) (P_faultTimeout (Run_Parsed run)))) st u = Some (Inr st1, u1)"
      "observe_loss env run st1 u1 = Some (Inr st2, u2)" "repeatedly (recovery_body env run) st2 u2 = Some (Inr st', u3)"
    and "finish_run env run readyAt st' u3 = Some (Inr rc, v)"
    using assms unfolding rest_of_run_def after_Some by auto
  then have "rc = run_receipt env run readyAt st'" "ValidateLossReceipt rc = None"
    by (auto simp: finish_run_def Let_def split: option.splits)
  moreover have "prefix (Po_Pre st) (Po_Pre st')"
    using loops_prefix(1) [OF loops(1)] observe_loss_prefix [OF loops(2)] loops_prefix(3) [OF loops(3)]
    by (blast intro: prefix_order.trans)
  ultimately show thesis by (rule that)
qed

text \<open>
  A run either ends before it publishes a marker, or publishes one in the world that its
  samples have led to.
\<close>

lemma observe_run_log:
  assumes "observe_run (recording env) run u = Some (r, v)" and "run_health run (Run_First run) PhasePreLoss 0 = None"
    and "sampler_next (recording env) (Run_Request run) (Run_Parsed run) 0 PhasePreLoss w = (Inr (Run_First run), u)"
  obtains (unpublished) e where "r = Inl e" and "snd v = snd u"
  | (published) st m v0 b v1 where "settled run st" and "sampled (recording env) run w st v0"
      and "2 * run_poll run \<le> time_Sub (observedAt (last (Po_Pre st))) (observedAt (Run_First run))"
      and "m = ready_marker (recording env) run (SE_ObservedAt (last (Po_Pre st)))" and "ValidateReadyMarker m = None"
      and "Env_ReadyForFault (recording env) m v0 = (b, v1)" and "snd v0 = snd u" and "snd v = snd u @ [m]"
      and "\<not> b \<Longrightarrow> v = v1 \<and> (\<exists>e. r = Inl e)"
      and "b \<Longrightarrow> rest_of_run (recording env) run (RM_ReadyAt m) st v1 = Some (r, v)"
proof -
  let ?st = "\<lparr>Po_Sequence = 1, Po_Pre = [Run_First run], Po_Loss = [], Po_Recovered = [], Po_VMRecovered = False\<rparr>"
  have start: "settled run ?st" "sampled (recording env) run w ?st u"
    using assms(2,3) by (simp_all add: settled_def sampled_def series.first)
  obtain r0 v0 where pre: "repeatedly (pre_body (recording env) run) ?st u = Some (r0, v0)"
    using assms(1) unfolding observe_run_def after_Some by auto
  have log0: "snd v0 = snd u" using loops_log(1) [OF pre] .
  show thesis
  proof (cases r0)
    case (Inl e)
    then show thesis using unpublished [of e] assms(1) pre log0 unfolding observe_run_def after_def by auto
  next
    case (Inr st)
    let ?ready = "SE_ObservedAt (last (Po_Pre st))"
    note s = pre_loop_settled [OF pre [unfolded Inr] start(1)] pre_loop_sampled [OF pre [unfolded Inr] start(2)]
    obtain r1 v1 where r1: "observe_ready (recording env) run st v0 = (r1, v1)" by (rule prod.exhaust)
    have run: "after (Some (r1, v1)) (rest_of_run (recording env) run ?ready) = Some (r, v)"
      using assms(1) pre Inr r1 unfolding observe_run_def after_Some rest_of_run_def Let_def by auto
    from r1 show thesis
    proof (cases rule: observe_ready_log)
      case (unpublished e)
      then show thesis using that(1) [of e] run log0 by (auto simp: after_def)
    next
      case (published m b)
      then have at: "RM_ReadyAt m = ?ready" by (simp add: ready_marker_def Let_def)
      show thesis
      proof (cases b)
        case True
        then have "rest_of_run (recording env) run ?ready st v1 = Some (r, v)" using run published(5) by (simp add: after_def)
        with published s log0 rest_of_run_log [OF this] True at show thesis by (intro that(2) [of st v0 m b v1]) simp_all
      next
        case False
        then have "v = v1 \<and> (\<exists>e. r = Inl e)" using run published(5) by (auto simp: after_def)
        with published s log0 False show thesis by (intro that(2) [of st v0 m b v1]) simp_all
      qed
    qed
  qed
qed

end
