(* ===== verification/Loss_Example.thy ===== *)
theory Loss_Example
  imports Loss_Receipts
begin

text \<open>
  A receipt of a drill that passes verification: three samples before the loss, three
  during it and two after it. The machine is seen on another server only thirty seconds
  after the loss, although its limit is ten seconds.
\<close>

definition hex64 :: "char \<Rightarrow> string" where
  "hex64 c = replicate 64 c"

definition loss_at :: "int \<Rightarrow> gotime" where
  "loss_at k = (63900000000 + k) * Second"

definition example_workload :: WorkloadEvidence where
  "example_workload = \<lparr>WE_ID = ''web'', WE_BindingSHA256 = hex64 CHR ''1'', WE_ReadyPods = 3,
     WE_DistinctReadyNodes = 2, WE_MinimumReadyPods = 2, WE_MinimumReadyNodes = 2\<rparr>"

definition example_vm :: "bool \<Rightarrow> bool \<Rightarrow> VMEvidence" where
  "example_vm ready on = \<lparr>VE_ID = ''vm'', VE_BindingSHA256 = hex64 CHR ''2'', VE_VMUIDSHA256 = hex64 CHR ''3'',
     VE_VMIUIDSHA256 = hex64 CHR ''4'', VE_VMReady = ready, VE_VMIReady = ready, VE_VMIOnTarget = on\<rparr>"

definition example_probe :: "char \<Rightarrow> int \<Rightarrow> DataProbeEvidence" where
  "example_probe c k = \<lparr>DE_ID = ''data'', DE_BindingSHA256 = hex64 CHR ''5'', DE_Implementation = ''probe'',
     DE_Version = ''v1'', DE_RequestSHA256 = hex64 c, DE_AdapterExecutableSHA256 = hex64 CHR ''6'',
     DE_HashAlgorithm = ''sha256'', DE_DataSHA256 = hex64 CHR ''7'', DE_ValidatedBytes = 100,
     DE_StartedAt = FormatRFC3339Nano (loss_at k), DE_CompletedAt = FormatRFC3339Nano (loss_at k)\<rparr>"

definition example_sample :: "int \<Rightarrow> char \<Rightarrow> string \<Rightarrow> int \<Rightarrow> bool \<Rightarrow> bool \<Rightarrow> SampleEvidence" where
  "example_sample n c phase k up ready =
     (let s = \<lparr>SE_Sequence = n, SE_Phase = phase, SE_StartedAt = FormatRFC3339Nano (loss_at k),
        SE_ObservedAt = FormatRFC3339Nano (loss_at k), SE_TargetNodePresent = True, SE_TargetNodeReady = up,
        SE_TargetNodeUIDSHA256 = hex64 CHR ''8'', SE_ReadyZPassed = True,
        SE_ControlPlaneReadyNodes = (if up then 3 else 2), SE_EtcdReadyMembers = (if up then 3 else 2),
        SE_APIServerReadyMembers = (if up then 3 else 2),
        SE_ControlPlaneMemberSetSHA256 = hex64 (if up then CHR ''9'' else CHR ''0''), SE_TargetHostsEtcd = up,
        SE_TargetHostsAPIServer = up, SE_Workloads = [example_workload],
        SE_VM = example_vm ready (phase = PhasePreLoss), SE_DataProbe = example_probe c k, SE_SampleSHA256 = []\<rparr>
      in s\<lparr>SE_SampleSHA256 := sampleDigest s\<rparr>)"

definition example_phase :: "string \<Rightarrow> int \<Rightarrow> int \<Rightarrow> SampleEvidence list \<Rightarrow> PhaseEvidence" where
  "example_phase phase a b ss = \<lparr>PE_Phase = phase, PE_StartedAt = FormatRFC3339Nano (loss_at a),
     PE_CompletedAt = FormatRFC3339Nano (loss_at b), PE_Samples = ss, PE_SamplesSHA256 = samplesDigest ss\<rparr>"

definition example_baseline :: LossBaseline where
  "example_baseline =
     (let b = \<lparr>LB_ControlPlaneNodes = 3, LB_EtcdMembers = 3, LB_APIServerMembers = 3, LB_VMUIDSHA256 = hex64 CHR ''3'',
        LB_DataSHA256 = hex64 CHR ''7'', LB_ValidatedBytes = 100, LB_ControlPlaneMemberSetSHA256 = hex64 CHR ''9'',
        LB_BaselineSHA256 = []\<rparr>
      in b\<lparr>LB_BaselineSHA256 := baselineDigest b\<rparr>)"

definition example_receipt :: Receipt where
  "example_receipt =
     (let r = \<lparr>Rc_SchemaVersion = LossReceiptSchemaVersion, Rc_Status = ReceiptStatus,
        Rc_RequestSHA256 = hex64 CHR ''a'', Rc_RunNonceSHA256 = hex64 CHR ''b'',
        Rc_TargetNodeUIDSHA256 = hex64 CHR ''8'', Rc_NodeUIDHashAlgorithm = NodeUIDHashAlgorithm,
        Rc_KubectlExecutableSHA256 = hex64 CHR ''c'', Rc_ProbeAdapterSHA256 = hex64 CHR ''6'',
        Rc_StartedAt = FormatRFC3339Nano (loss_at 0), Rc_ReadyMarkerAt = FormatRFC3339Nano (loss_at 20),
        Rc_CompletedAt = FormatRFC3339Nano (loss_at 90), Rc_PollInterval = ''10s'', Rc_FaultArrivalTimeout = ''1m0s'',
        Rc_MinimumLossWindow = ''20s'', Rc_RecoveryTimeout = ''5m0s'', Rc_RecoveryStabilityWindow = ''20s'',
        Rc_MaximumVMUnavailable = ''10s'', Rc_MinimumControlPlane = 3, Rc_Baseline = example_baseline,
        Rc_PreLoss = example_phase PhasePreLoss 0 30
          [example_sample 1 CHR ''0'' PhasePreLoss 0 True True, example_sample 2 CHR ''1'' PhasePreLoss 10 True True,
           example_sample 3 CHR ''2'' PhasePreLoss 20 True True],
        Rc_Loss = example_phase PhaseLoss 30 70
          [example_sample 4 CHR ''3'' PhaseLoss 30 False False, example_sample 5 CHR ''4'' PhaseLoss 40 False False,
           example_sample 6 CHR ''5'' PhaseLoss 60 False True],
        Rc_Recovered = example_phase PhaseRecovered 70 90
          [example_sample 7 CHR ''6'' PhaseRecovered 70 True True, example_sample 8 CHR ''7'' PhaseRecovered 90 True True],
        Rc_ReceiptSHA256 = []\<rparr>
      in r\<lparr>Rc_ReceiptSHA256 := lossReceiptDigest r\<rparr>)"

lemma validSHA256_hex64 [simp]: "validSHA256 (hex64 c) \<longleftrightarrow> is_hex c"
  by (simp add: validSHA256_iff hex64_def list_all_iff)

lemma hex64_simps [simp]: "hex64 c = hex64 d \<longleftrightarrow> c = d" "hex64 c \<noteq> []" "[] \<noteq> hex64 c"
  by (simp_all add: hex64_def replicate_eq_replicate)

lemma example_hex [simp]:
  "is_hex CHR ''0''" "is_hex CHR ''1''" "is_hex CHR ''2''" "is_hex CHR ''3''" "is_hex CHR ''4''" "is_hex CHR ''5''"
  "is_hex CHR ''6''" "is_hex CHR ''7''" "is_hex CHR ''8''" "is_hex CHR ''9''" "is_hex CHR ''a''" "is_hex CHR ''b''"
  "is_hex CHR ''c''"
  by code_simp+

lemma example_texts [simp]:
  "validSafeID ''web''" "validSafeID ''vm''" "validSafeID ''data''" "MatchString versionPattern ''probe''"
  "MatchString versionPattern ''v1''"
  by code_simp+

lemma loss_at_in_range [simp]: "0 \<le> k \<Longrightarrow> k \<le> 1000 \<Longrightarrow> time_in_range (loss_at k)"
proof -
  assume "0 \<le> k" "k \<le> 1000"
  then have "(63900000000 + k) div 86400 = 739583" by simp
  then show ?thesis by (simp add: time_in_range_def loss_at_def duration_defs year_of_day_def days_before_year_def)
qed

lemma example_duration_texts:
  "Duration_String (10 * Second) = ''10s''" "Duration_String (60 * Second) = ''1m0s''"
  "Duration_String (20 * Second) = ''20s''" "Duration_String (300 * Second) = ''5m0s''"
  using Duration_String_seconds [of 10] Duration_String_seconds [of 60] Duration_String_seconds [of 20]
    Duration_String_seconds [of 300]
  by (simp_all add: itoa.simps char_of_eq_iff)

lemma example_durations:
  "ParseDuration ''10s'' = Some (10 * Second)" "ParseDuration ''1m0s'' = Some (60 * Second)"
  "ParseDuration ''20s'' = Some (20 * Second)" "ParseDuration ''5m0s'' = Some (300 * Second)"
  using ParseDuration_String [of "10 * Second"] ParseDuration_String [of "60 * Second"]
    ParseDuration_String [of "20 * Second"] ParseDuration_String [of "300 * Second"]
  by (simp_all add: example_duration_texts) (simp_all add: duration_defs)

lemma example_sample_fields [simp]:
  "SE_Sequence (example_sample n c phase k up ready) = n" "SE_Phase (example_sample n c phase k up ready) = phase"
  "SE_StartedAt (example_sample n c phase k up ready) = FormatRFC3339Nano (loss_at k)"
  "SE_ObservedAt (example_sample n c phase k up ready) = FormatRFC3339Nano (loss_at k)"
  "SE_DataProbe (example_sample n c phase k up ready) = example_probe c k"
  "SE_VM (example_sample n c phase k up ready) = example_vm ready (phase = PhasePreLoss)"
  "SE_Workloads (example_sample n c phase k up ready) = [example_workload]"
  "SE_TargetNodePresent (example_sample n c phase k up ready)"
  "SE_TargetNodeReady (example_sample n c phase k up ready) = up"
  "SE_TargetNodeUIDSHA256 (example_sample n c phase k up ready) = hex64 CHR ''8''"
  "SE_ReadyZPassed (example_sample n c phase k up ready)"
  "SE_ControlPlaneReadyNodes (example_sample n c phase k up ready) = (if up then 3 else 2)"
  "SE_EtcdReadyMembers (example_sample n c phase k up ready) = (if up then 3 else 2)"
  "SE_APIServerReadyMembers (example_sample n c phase k up ready) = (if up then 3 else 2)"
  "SE_ControlPlaneMemberSetSHA256 (example_sample n c phase k up ready) = hex64 (if up then CHR ''9'' else CHR ''0'')"
  "SE_TargetHostsEtcd (example_sample n c phase k up ready) = up"
  "SE_TargetHostsAPIServer (example_sample n c phase k up ready) = up"
  by (simp_all add: example_sample_def Let_def)

lemma example_sample_digest [simp]:
  "sampleDigest (example_sample n c phase k up ready) = SE_SampleSHA256 (example_sample n c phase k up ready)"
  "validSHA256 (SE_SampleSHA256 (example_sample n c phase k up ready))"
  unfolding example_sample_def Let_def digests_of_sealed by simp_all

lemma example_receipt_fields [simp]:
  "Rc_ProbeAdapterSHA256 example_receipt = hex64 CHR ''6''" "Rc_Baseline example_receipt = example_baseline"
  "Rc_TargetNodeUIDSHA256 example_receipt = hex64 CHR ''8''"
  "PE_StartedAt (Rc_Loss example_receipt) = FormatRFC3339Nano (loss_at 30)"
  by (simp_all add: example_receipt_def Let_def example_phase_def)

lemma example_sample_safe:
  assumes "phase \<in> {PhasePreLoss, PhaseLoss, PhaseRecovered}" and "0 \<le> k" and "k \<le> 1000" and "is_hex c"
  shows "validateSafeSample example_receipt (example_sample n c phase k up ready) = None"
  using assms
  by (auto simp: validateSafeSample_def safeNode_def safeVM_def safeProbe_def safeTimes_def example_vm_def example_probe_def
      example_workload_def validWorkload_def)

lemma example_binding: "sameBinding (example_sample n c phase k up ready) (example_sample n' c' phase' k' up' ready')"
  by (simp add: sameBinding_def example_vm_def example_probe_def)

lemma example_header: "validReceiptHeader example_receipt"
  by (simp add: validReceiptHeader_def example_receipt_def Let_def)

lemma example_canonical [simp]:
  "canonicalDuration ''10s'' lo hi = (if lo \<le> 10 * Second \<and> 10 * Second \<le> hi then Some (10 * Second) else None)"
  "canonicalDuration ''20s'' lo hi = (if lo \<le> 20 * Second \<and> 20 * Second \<le> hi then Some (20 * Second) else None)"
  "canonicalDuration ''1m0s'' lo hi = (if lo \<le> 60 * Second \<and> 60 * Second \<le> hi then Some (60 * Second) else None)"
  "canonicalDuration ''5m0s'' lo hi = (if lo \<le> 300 * Second \<and> 300 * Second \<le> hi then Some (300 * Second) else None)"
  by (auto simp: canonicalDuration_def example_durations example_duration_texts)

lemma example_times:
  "time_Sub (loss_at a) (loss_at b) = (if \<bar>a - b\<bar> \<le> 1000 then (a - b) * Second else time_Sub (loss_at a) (loss_at b))"
  "loss_at a < loss_at b \<longleftrightarrow> a < b" "loss_at a \<le> loss_at b \<longleftrightarrow> a \<le> b"
  by (simp_all add: time_Sub_def loss_at_def duration_defs)

lemma example_samples:
  "PE_Samples (Rc_PreLoss example_receipt) = [example_sample 1 CHR ''0'' PhasePreLoss 0 True True,
     example_sample 2 CHR ''1'' PhasePreLoss 10 True True, example_sample 3 CHR ''2'' PhasePreLoss 20 True True]"
  "PE_Samples (Rc_Loss example_receipt) = [example_sample 4 CHR ''3'' PhaseLoss 30 False False,
     example_sample 5 CHR ''4'' PhaseLoss 40 False False, example_sample 6 CHR ''5'' PhaseLoss 60 False True]"
  "PE_Samples (Rc_Recovered example_receipt) = [example_sample 7 CHR ''6'' PhaseRecovered 70 True True,
     example_sample 8 CHR ''7'' PhaseRecovered 90 True True]"
  by (simp_all add: example_receipt_def Let_def example_phase_def)

lemma example_sequence:
  "validateSampleSequence (10 * Second) example_receipt 0 None [] (allSamples example_receipt) = None"
proof -
  have "DE_RequestSHA256 (example_probe c k) = hex64 c" for c k by (simp add: example_probe_def)
  moreover have "time_Sub (loss_at 10) (loss_at 0) = 10 * Second" "time_Sub (loss_at 20) (loss_at 10) = 10 * Second"
    "time_Sub (loss_at 30) (loss_at 20) = 10 * Second" "time_Sub (loss_at 40) (loss_at 30) = 10 * Second"
    "time_Sub (loss_at 60) (loss_at 40) = 20 * Second" "time_Sub (loss_at 70) (loss_at 60) = 10 * Second"
    "time_Sub (loss_at 90) (loss_at 70) = 20 * Second"
    by (simp_all add: time_Sub_def loss_at_def duration_defs)
  ultimately show ?thesis
    by (simp add: allSamples_def example_samples example_sample_safe example_binding example_times Second_def)
qed

lemma example_baseline_valid: "validateBaseline example_baseline 3 = None"
proof -
  have "baselineDigest example_baseline = LB_BaselineSHA256 example_baseline"
    "validSHA256 (LB_BaselineSHA256 example_baseline)"
    unfolding example_baseline_def Let_def digests_of_sealed by simp_all
  then show ?thesis by (simp add: validateBaseline_def) (simp add: example_baseline_def Let_def)
qed

lemma example_phases:
  "phaseHealth PhasePreLoss example_receipt (10 * Second) False (PE_Samples (Rc_PreLoss example_receipt)) = Inr False"
  "phaseHealth PhaseLoss example_receipt (10 * Second) False (PE_Samples (Rc_Loss example_receipt)) = Inr True"
  "phaseHealth PhaseRecovered example_receipt (10 * Second) False (PE_Samples (Rc_Recovered example_receipt)) = Inr False"
proof -
  have b: "LB_ControlPlaneNodes example_baseline = 3" "LB_EtcdMembers example_baseline = 3"
    "LB_APIServerMembers example_baseline = 3" "LB_VMUIDSHA256 example_baseline = hex64 CHR ''3''"
    "LB_DataSHA256 example_baseline = hex64 CHR ''7''" "LB_ValidatedBytes example_baseline = 100"
    "LB_ControlPlaneMemberSetSHA256 example_baseline = hex64 CHR ''9''"
    by (simp_all add: example_baseline_def Let_def)
  have t: "time_Sub (loss_at 30) (loss_at 30) = 0" "time_Sub (loss_at 40) (loss_at 30) = 10 * Second"
    by (simp_all add: time_Sub_def loss_at_def duration_defs)
  note defs = continuous_def memberSetBound_def workloadsHealthy_def healthyWithTarget_def exactLoss_def Let_def
    vmReadyOffTarget_def example_vm_def example_probe_def example_workload_def phase_names b t
  show "phaseHealth PhasePreLoss example_receipt (10 * Second) False (PE_Samples (Rc_PreLoss example_receipt)) = Inr False"
    "phaseHealth PhaseLoss example_receipt (10 * Second) False (PE_Samples (Rc_Loss example_receipt)) = Inr True"
    "phaseHealth PhaseRecovered example_receipt (10 * Second) False (PE_Samples (Rc_Recovered example_receipt)) = Inr False"
    unfolding example_samples by (simp_all add: defs Second_def)
qed

lemma example_receipt_valid: "ValidateLossReceipt example_receipt = None"
proof -
  have phases: "validatePhase PhasePreLoss (Rc_PreLoss example_receipt) = None"
    "validatePhase PhaseLoss (Rc_Loss example_receipt) = None"
    "validatePhase PhaseRecovered (Rc_Recovered example_receipt) = None"
    by (simp_all add: validatePhase_None example_receipt_def Let_def example_phase_def)
  have "validTimeline example_receipt (10 * Second) (60 * Second) (20 * Second) (300 * Second) (20 * Second)"
    unfolding validTimeline_def Let_def example_samples
    by (simp add: example_receipt_def Let_def example_phase_def) (simp add: time_Sub_def time_Add_def loss_at_def duration_defs)
  moreover have "validSampleTimes example_receipt"
    unfolding validSampleTimes_def example_samples by simp
  moreover have "lossReceiptDigest example_receipt = Rc_ReceiptSHA256 example_receipt"
    unfolding example_receipt_def Let_def digests_of_sealed by simp
  moreover have "Rc_MinimumControlPlane example_receipt = 3" "Rc_NodeUIDHashAlgorithm example_receipt = NodeUIDHashAlgorithm"
    "LB_ControlPlaneMemberSetSHA256 example_baseline = hex64 CHR ''9''" "NodeUIDHashAlgorithm \<noteq> []"
    by (simp_all add: example_receipt_def Let_def example_baseline_def go_consts)
  moreover have "7 \<le> length (allSamples example_receipt)" "int (length (allSamples example_receipt)) \<le> maximumSamples"
    by (simp_all add: allSamples_def example_samples maximumSamples_def)
  ultimately have "validateEvidence example_receipt (10 * Second) (60 * Second) (20 * Second) (300 * Second)
      (20 * Second) (10 * Second) = None"
    unfolding validateEvidence_def guards validatePhaseHealth_None example_samples
    using phases example_sequence example_baseline_valid example_phases
    by (auto simp: example_samples phase_names vmReadyOffTarget_def example_vm_def)
  then show ?thesis unfolding ValidateLossReceipt_def guards using example_header
    by (simp add: example_receipt_def Let_def) (simp add: loss_bounds duration_defs)
qed

text \<open>
  The receipt verifies although no sample of the loss phase finds the machine ready
  elsewhere earlier than thirty seconds after the loss, three times its limit.
\<close>

lemma late_vm_recovery_accepted:
  "ValidateLossReceipt example_receipt = None" "durationOf (Rc_MaximumVMUnavailable example_receipt) = 10 * Second"
  "\<forall>s \<in> set (PE_Samples (Rc_Loss example_receipt)). vmReadyOffTarget s \<longrightarrow>
     observedAt s - mustTimestamp (PE_StartedAt (Rc_Loss example_receipt)) = 30 * Second"
proof -
  show "ValidateLossReceipt example_receipt = None" by (rule example_receipt_valid)
  show "durationOf (Rc_MaximumVMUnavailable example_receipt) = 10 * Second"
    by (simp add: example_receipt_def Let_def durationOf_def example_durations)
  have "loss_at 60 - loss_at 30 = 30 * Second" by (simp add: loss_at_def)
  then show "\<forall>s \<in> set (PE_Samples (Rc_Loss example_receipt)). vmReadyOffTarget s \<longrightarrow>
     observedAt s - mustTimestamp (PE_StartedAt (Rc_Loss example_receipt)) = 30 * Second"
    by (simp add: example_samples vmReadyOffTarget_def example_vm_def)
qed

end
