(* ===== verification/Loss_Cluster.thy ===== *)
theory Loss_Cluster
  imports Loss_Runs Loss_Example
begin

text \<open>
  A cluster with a single server, as an environment for the observer: its objects are
  served as JSON text, its clock moves on when the observer sleeps. The observer takes a
  complete sample of it and then refuses to start the drill, because one member of the
  control plane is not enough.
\<close>

subsection \<open>Objects\<close>

definition text_members :: "(string \<times> string) list \<Rightarrow> json" where
  "text_members ms = JObject (map (\<lambda>(k, v). (k, JString v)) ms)"

definition object_json :: "string \<Rightarrow> string \<Rightarrow> string \<Rightarrow> string \<Rightarrow> string \<Rightarrow> (string \<times> string) list \<Rightarrow> (string \<times> json) list \<Rightarrow> json" where
  "object_json version kind name namespace uid labels rest = JObject
     ([(''apiVersion'', JString version), (''kind'', JString kind),
       (''metadata'', JObject [(''name'', JString name), (''namespace'', JString namespace), (''uid'', JString uid),
          (''resourceVersion'', JString ''5''), (''labels'', text_members labels)])] @ rest)"

definition ready_json :: json where
  "ready_json = JArray [text_members [(''type'', ''Ready''), (''status'', ''True'')]]"

definition cluster_node :: json where
  "cluster_node = object_json ''v1'' ''Node'' ''server-1'' [] ''u-1'' [(''node-role.kubernetes.io/control-plane'', [])]
     [(''status'', JObject [(''conditions'', ready_json)])]"

definition cluster_pod :: "string \<Rightarrow> string \<Rightarrow> string \<Rightarrow> string \<Rightarrow> json" where
  "cluster_pod name namespace key val = object_json ''v1'' ''Pod'' name namespace ''u-2'' [(key, val)]
     [(''spec'', text_members [(''nodeName'', ''server-1'')]),
      (''status'', JObject [(''phase'', JString ''Running''), (''conditions'', ready_json)])]"

definition cluster_vm :: json where
  "cluster_vm = object_json ''kubevirt.io/v1'' ''VirtualMachine'' ''vm'' ''tenant'' ''u-3'' []
     [(''status'', JObject [(''ready'', JBool True)])]"

definition cluster_vmi :: json where
  "cluster_vmi = object_json ''kubevirt.io/v1'' ''VirtualMachineInstance'' ''vm'' ''tenant'' ''u-4'' []
     [(''status'', JObject [(''phase'', JString ''Running''), (''nodeName'', JString ''server-1''), (''conditions'', ready_json)])]"

definition cluster_list :: "string \<Rightarrow> json list \<Rightarrow> json" where
  "cluster_list kind items = JObject
     [(''apiVersion'', JString ''v1''), (''kind'', JString kind),
      (''metadata'', text_members [(''resourceVersion'', ''7''), (''continue'', [])]), (''items'', JArray items)]"

subsection \<open>The environment\<close>

definition last_instant :: gotime where
  "last_instant = loss_at 1000"

definition in_day :: "int \<Rightarrow> gotime" where
  "in_day t = max (loss_at 0) (min last_instant t)"

definition cluster_page :: "string \<Rightarrow> string \<Rightarrow> string" where
  "cluster_page resource selector = json_Marshal
     (if resource = ''nodes'' then cluster_list ''NodeList'' [cluster_node]
      else if selector = ''component=etcd'' then
        cluster_list ''PodList'' [cluster_pod ''etcd'' ''kube-system'' ''component'' ''etcd'']
      else if selector = ''component=kube-apiserver'' then
        cluster_list ''PodList'' [cluster_pod ''api'' ''kube-system'' ''component'' ''kube-apiserver'']
      else cluster_list ''PodList'' [cluster_pod ''web'' ''tenant'' ''app'' ''web''])"

definition cluster_probe :: "ProbeRequest \<Rightarrow> gotime \<Rightarrow> ProbeResponse" where
  "cluster_probe q t = \<lparr>PR_SchemaVersion = ProbeResponseSchemaVersion, PR_Implementation = ''probe'', PR_Version = ''v1'',
     PR_RequestSHA256 = digestJSON (json_ProbeRequest q), PR_AdapterExecutableSHA256 = PQ_AdapterExecutableSHA256 q,
     PR_HashAlgorithm = ''sha256'', PR_DataSHA256 = hex64 CHR ''7'', PR_ValidatedBytes = 100,
     PR_StartedAt = FormatRFC3339Nano t, PR_CompletedAt = FormatRFC3339Nano t\<rparr>"

definition cluster_env :: "int LossEnv" where
  "cluster_env =
     \<lparr>Env_ReaderIdentity = hex64 CHR ''c'',
      Env_ListPage = (\<lambda>res ns sel cont n t. (Some (cluster_page (R_Resource res) sel), t)),
      Env_Get = (\<lambda>res ns name t. (Found (json_Marshal (if R_Kind res = ''VirtualMachine'' then cluster_vm else cluster_vmi)), t)),
      Env_ReadyZ = (\<lambda>t. (True, t)),
      Env_ProbeIdentity = hex64 CHR ''6'',
      Env_Observe = (\<lambda>q t. (Some (cluster_probe q (in_day t)), t)),
      Env_ReadyForFault = (\<lambda>m t. (True, t)),
      Env_Now = (\<lambda>t. (in_day t, t)),
      Env_Sleep = (\<lambda>d t. if in_day t + d \<le> last_instant then (True, in_day t + max 0 d) else (False, t))\<rparr>"

definition cluster_request :: Request where
  "cluster_request = \<lparr>LR_SchemaVersion = RequestSchemaVersion, LR_RunNonceSHA256 = hex64 CHR ''b'',
     LR_TargetNodeName = ''server-1'', LR_PollInterval = ''10s'', LR_FaultArrivalTimeout = ''1m0s'',
     LR_MinimumLossWindow = ''20s'', LR_RecoveryTimeout = ''5m0s'', LR_RecoveryStabilityWindow = ''20s'',
     LR_MinimumControlPlaneMembers = 3,
     LR_Workloads = [\<lparr>WT_ID = ''web'', WT_Namespace = ''tenant'', WT_MatchLabels = [(''app'', ''web'')],
       WT_MinimumReadyPods = 1, WT_MinimumDistinctReadyNodes = 1\<rparr>],
     LR_VM = \<lparr>VT_ID = ''vm'', VT_Namespace = ''tenant'', VT_Name = ''vm'', VT_RequirePreLossOnTarget = True,
       VT_MaximumUnavailableDuration = ''20s''\<rparr>,
     LR_DataProbe = \<lparr>DT_ID = ''data'', DT_QueryRef = ''query'', DT_MinimumValidatedBytes = 1\<rparr>\<rparr>"

lemma in_day_range [simp]: "time_in_range (in_day t)"
proof -
  define k where "k = in_day t"
  have "loss_at 0 \<le> k" "k \<le> loss_at 1000"
    by (auto simp: k_def in_day_def last_instant_def loss_at_def duration_defs)
  then have "k div 1000000000 div 86400 = 739583" by (simp add: loss_at_def duration_defs)
  then show ?thesis
    by (simp add: k_def [symmetric] time_in_range_def year_of_day_def days_before_year_def)
qed

lemma in_day_id: "loss_at 0 \<le> t \<Longrightarrow> t \<le> last_instant \<Longrightarrow> in_day t = t"
  by (simp add: in_day_def)

lemma in_day_bounds: "loss_at 0 \<le> in_day t" "in_day t \<le> last_instant"
  by (simp_all add: in_day_def last_instant_def loss_at_def duration_defs)

lemma cluster_clock: "steady_clock cluster_env in_day"
proof -
  have "in_day t + d \<le> in_day (in_day t + max 0 d)" if "in_day t + d \<le> last_instant" for t d
    using that in_day_bounds [of t] by (subst in_day_id) auto
  then show ?thesis
    unfolding steady_clock_def by (intro conjI allI impI, unfold_locales) (auto simp: cluster_env_def split: if_splits)
qed

subsection \<open>One sample\<close>

lemma json_check_Marshal:
  assumes "json_ints v" and "json_fix v = v" and "inspectValue 0 v = Some False" and "length (json_Marshal v) \<le> MaxDocumentBytes"
  shows "json_check (json_Marshal v) = Inr v"
  using assms json_roundtrip [of v] json_Marshal_hd(1) [of v] by (simp add: json_check_def)

lemma cluster_documents:
  assumes "v \<in> {cluster_list ''NodeList'' [cluster_node], cluster_list ''PodList'' [cluster_pod ''etcd'' ''kube-system'' ''component'' ''etcd''],
      cluster_list ''PodList'' [cluster_pod ''api'' ''kube-system'' ''component'' ''kube-apiserver''],
      cluster_list ''PodList'' [cluster_pod ''web'' ''tenant'' ''app'' ''web''], cluster_vm, cluster_vmi}"
  shows "json_check (json_Marshal v) = Inr v" and "length (json_Marshal v) \<le> 1000"
proof -
  let ?vs = "[cluster_list ''NodeList'' [cluster_node], cluster_list ''PodList'' [cluster_pod ''etcd'' ''kube-system'' ''component'' ''etcd''],
      cluster_list ''PodList'' [cluster_pod ''api'' ''kube-system'' ''component'' ''kube-apiserver''],
      cluster_list ''PodList'' [cluster_pod ''web'' ''tenant'' ''app'' ''web''], cluster_vm, cluster_vmi]"
  have "list_all (\<lambda>v. json_fix v = v) ?vs" by code_simp
  moreover have "list_all (\<lambda>v. inspectValue 0 v = Some False) ?vs" by code_simp
  moreover have len: "list_all (\<lambda>v. length (json_Marshal v) \<le> 1000) ?vs" by code_simp
  moreover have "list_all json_ints ?vs"
    by (simp add: cluster_list_def cluster_node_def cluster_pod_def cluster_vm_def cluster_vmi_def object_json_def
        text_members_def ready_json_def)
  ultimately show "json_check (json_Marshal v) = Inr v" "length (json_Marshal v) \<le> 1000"
    using assms json_check_Marshal [of v] by (auto simp: MaxDocumentBytes_def list_all_iff)
qed

lemmas decoding = decode_struct_def field_decoder_def into_def decode_string_def decode_bool_def decode_labels_def
  decode_list_def decode_string_pointer_def

lemma decode_elements_raw: "decode_elements (\<lambda>v x. Some v) d vs = Some vs"
  by (induction vs) simp_all

lemma cluster_list_decoded:
  "list_decoder (cluster_list kind items) zero_list =
     Some \<lparr>L_APIVersion = ''v1'', L_Kind = kind, L_ResourceVersion = ''7'', L_Continue = [], L_Items = items\<rparr>"
  by (simp add: list_decoder_def cluster_list_def zero_list_def decoding text_members_def decode_elements_raw)

text \<open>A list that is served as one page.\<close>

lemma listAll_page:
  assumes "Env_ListPage env res ns sel [] 500 w = (Some (json_Marshal (cluster_list (R_ListKind res) items)), w')"
    and "json_check (json_Marshal (cluster_list (R_ListKind res) items)) = Inr (cluster_list (R_ListKind res) items)"
    and "length (json_Marshal (cluster_list (R_ListKind res) items)) \<le> 10000"
    and "resource_apiVersion res = ''v1''" and "\<exists>ids. collect_items res ns items [] [] = Inr (items, ids)"
    and "sort_key objectSortIdentity items = items"
  shows "listAll env res ns sel w = (Inr items, w')"
proof -
  have "Decode list_decoder zero_list (json_Marshal (cluster_list (R_ListKind res) items)) =
      Inr \<lparr>L_APIVersion = ''v1'', L_Kind = R_ListKind res, L_ResourceVersion = ''7'', L_Continue = [], L_Items = items\<rparr>"
    using assms(2) by (simp add: Decode_def cluster_list_decoded)
  then have "list_page res ns (json_Marshal (cluster_list (R_ListKind res) items)) list_start = Inr (Inl items)"
    using assms(3-6) by (auto simp: list_page_def list_start_def maximumAggregateListBytes_def)
  moreover have "LS_Continuation list_start = []" by (simp add: list_start_def)
  moreover have "(20 :: nat) = Suc 19" by simp
  ultimately show ?thesis using assms(1) by (simp only: listAll_def list_pages.simps) simp
qed

lemma listAll_single:
  assumes "Env_ListPage env res ns sel [] 500 w = (Some (json_Marshal (cluster_list (R_ListKind res) [item])), w')"
    and "json_check (json_Marshal (cluster_list (R_ListKind res) [item])) = Inr (cluster_list (R_ListKind res) [item])"
    and "length (json_Marshal (cluster_list (R_ListKind res) [item])) \<le> 1000"
    and "resource_apiVersion res = ''v1''" and "listed_object res ns item \<noteq> None"
  shows "listAll env res ns sel w = (Inr [item], w')"
  by (rule listAll_page [OF assms(1,2) _ assms(4)]) (use assms(3,5) in auto)

lemma cluster_listed:
  "listed_object nodeResource [] cluster_node \<noteq> None"
  "listed_object podResource ''kube-system'' (cluster_pod ''etcd'' ''kube-system'' ''component'' ''etcd'') \<noteq> None"
  "listed_object podResource ''kube-system'' (cluster_pod ''api'' ''kube-system'' ''component'' ''kube-apiserver'') \<noteq> None"
  "listed_object podResource ''tenant'' (cluster_pod ''web'' ''tenant'' ''app'' ''web'') \<noteq> None"
  by code_simp+

lemma cluster_reads:
  "listAll (recording cluster_env) nodeResource [] [] u = (Inr [cluster_node], u)"
  "listAll (recording cluster_env) podResource ''kube-system'' ''component=etcd'' u =
     (Inr [cluster_pod ''etcd'' ''kube-system'' ''component'' ''etcd''], u)"
  "listAll (recording cluster_env) podResource ''kube-system'' ''component=kube-apiserver'' u =
     (Inr [cluster_pod ''api'' ''kube-system'' ''component'' ''kube-apiserver''], u)"
  "listAll (recording cluster_env) podResource ''tenant'' ''app=web'' u = (Inr [cluster_pod ''web'' ''tenant'' ''app'' ''web''], u)"
  using cluster_listed cluster_documents
  by (intro listAll_single;
      simp add: recording_def lifted_def cluster_env_def cluster_page_def nodeResource_def podResource_def resource_apiVersion_def)+

definition ready_conditions :: "kube_condition list" where
  "ready_conditions = [\<lparr>C_Type = ''Ready'', C_Status = ''True''\<rparr>]"

definition cluster_metadata :: "string \<Rightarrow> string \<Rightarrow> string \<Rightarrow> (string \<times> string) list \<Rightarrow> objectMetadata" where
  "cluster_metadata name namespace uid labels = \<lparr>OM_Name = name, OM_Namespace = namespace, OM_UID = uid,
     OM_ResourceVersion = ''5'', OM_Labels = labels, OM_DeletionTimestamp = None\<rparr>"

lemma cluster_objects:
  "decodeNode cluster_node = Inr \<lparr>N_APIVersion = ''v1'', N_Kind = ''Node'',
     N_Metadata = cluster_metadata ''server-1'' [] ''u-1'' [(''node-role.kubernetes.io/control-plane'', [])],
     N_Conditions = ready_conditions\<rparr>"
  "decodePod (cluster_pod ''etcd'' ''kube-system'' ''component'' ''etcd'') ''kube-system'' = Inr \<lparr>Pod_APIVersion = ''v1'',
     Pod_Kind = ''Pod'', Pod_Metadata = cluster_metadata ''etcd'' ''kube-system'' ''u-2'' [(''component'', ''etcd'')],
     Pod_NodeName = ''server-1'', Pod_Phase = ''Running'', Pod_Conditions = ready_conditions\<rparr>"
  "decodePod (cluster_pod ''api'' ''kube-system'' ''component'' ''kube-apiserver'') ''kube-system'' = Inr \<lparr>Pod_APIVersion = ''v1'',
     Pod_Kind = ''Pod'', Pod_Metadata = cluster_metadata ''api'' ''kube-system'' ''u-2'' [(''component'', ''kube-apiserver'')],
     Pod_NodeName = ''server-1'', Pod_Phase = ''Running'', Pod_Conditions = ready_conditions\<rparr>"
  "decodePod (cluster_pod ''web'' ''tenant'' ''app'' ''web'') ''tenant'' = Inr \<lparr>Pod_APIVersion = ''v1'',
     Pod_Kind = ''Pod'', Pod_Metadata = cluster_metadata ''web'' ''tenant'' ''u-2'' [(''app'', ''web'')],
     Pod_NodeName = ''server-1'', Pod_Phase = ''Running'', Pod_Conditions = ready_conditions\<rparr>"
  by code_simp+

lemma cluster_machines:
  "decodeVM (json_Marshal cluster_vm) ''tenant'' ''vm'' = Inr \<lparr>VM_APIVersion = ''kubevirt.io/v1'', VM_Kind = ''VirtualMachine'',
     VM_Metadata = cluster_metadata ''vm'' ''tenant'' ''u-3'' [], VM_Ready = True\<rparr>"
  "decodeVMI (json_Marshal cluster_vmi) ''tenant'' ''vm'' = Inr \<lparr>VMI_APIVersion = ''kubevirt.io/v1'',
     VMI_Kind = ''VirtualMachineInstance'', VMI_Metadata = cluster_metadata ''vm'' ''tenant'' ''u-4'' [],
     VMI_Phase = ''Running'', VMI_NodeName = ''server-1'', VMI_Conditions = ready_conditions\<rparr>"
proof -
  have vm: "vm_decoder cluster_vm zero_vm = Some \<lparr>VM_APIVersion = ''kubevirt.io/v1'', VM_Kind = ''VirtualMachine'',
      VM_Metadata = cluster_metadata ''vm'' ''tenant'' ''u-3'' [], VM_Ready = True\<rparr>" by code_simp
  have vmi: "vmi_decoder cluster_vmi zero_vmi = Some \<lparr>VMI_APIVersion = ''kubevirt.io/v1'',
      VMI_Kind = ''VirtualMachineInstance'', VMI_Metadata = cluster_metadata ''vm'' ''tenant'' ''u-4'' [],
      VMI_Phase = ''Running'', VMI_NodeName = ''server-1'', VMI_Conditions = ready_conditions\<rparr>" by code_simp
  have valid: "validObjectMetadata (cluster_metadata ''vm'' ''tenant'' ''u-3'' []) ''tenant''"
    "validObjectMetadata (cluster_metadata ''vm'' ''tenant'' ''u-4'' []) ''tenant''" by code_simp+
  have "OM_Name (cluster_metadata n ns u l) = n" for n ns u l by (simp add: cluster_metadata_def)
  then show "decodeVM (json_Marshal cluster_vm) ''tenant'' ''vm'' = Inr \<lparr>VM_APIVersion = ''kubevirt.io/v1'',
      VM_Kind = ''VirtualMachine'', VM_Metadata = cluster_metadata ''vm'' ''tenant'' ''u-3'' [], VM_Ready = True\<rparr>"
    "decodeVMI (json_Marshal cluster_vmi) ''tenant'' ''vm'' = Inr \<lparr>VMI_APIVersion = ''kubevirt.io/v1'',
      VMI_Kind = ''VirtualMachineInstance'', VMI_Metadata = cluster_metadata ''vm'' ''tenant'' ''u-4'' [],
      VMI_Phase = ''Running'', VMI_NodeName = ''server-1'', VMI_Conditions = ready_conditions\<rparr>"
    using cluster_documents [of cluster_vm] cluster_documents [of cluster_vmi] vm vmi valid
    by (simp_all add: decodeVM_def decodeVMI_def Decode_def)
qed

lemma ready_condition_true [simp]: "conditionTrue ready_conditions ''Ready''"
  by code_simp

lemma not_terminating [simp]: "\<not> objectTerminating (cluster_metadata name namespace uid labels)"
  by (simp add: objectTerminating_def cluster_metadata_def)

lemma cluster_scan:
  "scan_nodes ''server-1'' [cluster_node] scan_start = Inr \<lparr>NS_ControlPlane = [''u-1''], NS_ReadyNames = [''server-1''],
     NS_ReadyControlPlane = [''server-1''], NS_TargetPresent = True, NS_TargetReady = True, NS_TargetUID = NodeUIDSHA256 ''u-1''\<rparr>"
  by (simp add: cluster_objects scan_node_def node_ready_def node_control_plane_def scan_start_def Let_def)
    (simp add: cluster_metadata_def List.insert_def)

lemma cluster_pods:
  "control_plane_loop ''server-1'' ''etcd'' [''server-1''] [cluster_pod ''etcd'' ''kube-system'' ''component'' ''etcd''] [] False =
     Inr ([''server-1''], True)"
  "control_plane_loop ''server-1'' ''kube-apiserver'' [''server-1'']
     [cluster_pod ''api'' ''kube-system'' ''component'' ''kube-apiserver''] [] False = Inr ([''server-1''], True)"
  by (simp_all add: cluster_objects pod_ready_def) (simp_all add: cluster_metadata_def label_value_def List.insert_def)

lemma cluster_request_fields:
  "LR_SchemaVersion cluster_request = RequestSchemaVersion" "LR_RunNonceSHA256 cluster_request = hex64 CHR ''b''"
  "LR_PollInterval cluster_request = ''10s''" "LR_FaultArrivalTimeout cluster_request = ''1m0s''"
  "LR_MinimumLossWindow cluster_request = ''20s''" "LR_RecoveryTimeout cluster_request = ''5m0s''"
  "LR_RecoveryStabilityWindow cluster_request = ''20s''" "LR_MinimumControlPlaneMembers cluster_request = 3"
  "LR_TargetNodeName cluster_request = ''server-1''"
  "LR_VM cluster_request = \<lparr>VT_ID = ''vm'', VT_Namespace = ''tenant'', VT_Name = ''vm'', VT_RequirePreLossOnTarget = True,
     VT_MaximumUnavailableDuration = ''20s''\<rparr>"
  "LR_DataProbe cluster_request = \<lparr>DT_ID = ''data'', DT_QueryRef = ''query'', DT_MinimumValidatedBytes = 1\<rparr>"
  by (simp_all add: cluster_request_def)

lemma cluster_target_valid: "\<exists>b. validateTargets [] [] (LR_Workloads cluster_request) = Inr b"
proof -
  have "list_all (validTarget []) (LR_Workloads cluster_request)" by code_simp
  moreover have "validLabels [(''app'', ''web'')]" by code_simp
  ultimately show ?thesis by (simp add: cluster_request_def)
qed

lemma cluster_request_valid: "\<exists>p. validateRequest cluster_request = Inr p"
proof -
  obtain b where "validateTargets [] [] (LR_Workloads cluster_request) = Inr b" using cluster_target_valid by blast
  moreover have "validSHA256 (hex64 CHR ''b'')" "validDNSName ''server-1''" "validDNSName ''tenant''" "validDNSName ''vm''"
    "validSafeID ''vm''" "validSafeID ''data''" "validSafeID ''query''" by code_simp+
  moreover have "LR_Workloads cluster_request \<noteq> []" "length (LR_Workloads cluster_request) = 1" by (simp_all add: cluster_request_def)
  moreover have "estimatedSamples (10 * Second) (60 * Second) (300 * Second) = 44"
    by (simp add: estimatedSamples_def go_quot_def Second_def)
  ultimately show ?thesis
    by (simp add: validateRequest_def Let_def cluster_request_fields minimumPollInterval_def maximumPollInterval_def
        maximumPhaseTimeout_def maximumSamples_def maximumReceiptBytes_def duration_defs)
qed

lemma cluster_members: "ControlPlaneMemberSetSHA256 [NodeUIDSHA256 ''u-1''] \<noteq> []"
proof -
  have "utf8_Valid ''u-1''" by code_simp
  then have "validSHA256 (NodeUIDSHA256 ''u-1'')" by (simp add: NodeUIDSHA256_def maximumNodeUIDBytes_def)
  then show ?thesis by (simp add: ControlPlaneMemberSetSHA256_def canonical_members_def Let_def)
qed

lemma cluster_read_nodes:
  "read_nodes (recording cluster_env) cluster_request u = (Inr (\<lparr>NS_ControlPlane = [''u-1''], NS_ReadyNames = [''server-1''],
     NS_ReadyControlPlane = [''server-1''], NS_TargetPresent = True, NS_TargetReady = True,
     NS_TargetUID = NodeUIDSHA256 ''u-1''\<rparr>, ControlPlaneMemberSetSHA256 [NodeUIDSHA256 ''u-1'']), u)"
proof -
  have "Env_ReadyZ (recording cluster_env) u = (True, u)"
    by (simp add: recording_def lifted_def cluster_env_def)
  then show ?thesis
    using cluster_members cluster_scan
    by (simp add: read_nodes_def and_then_def cluster_reads cluster_request_fields del: scan_nodes.simps)
qed

lemma cluster_control_plane:
  "controlPlanePods (recording cluster_env) cluster_request ''etcd'' [''server-1''] u = (Inr (1, True), u)"
  "controlPlanePods (recording cluster_env) cluster_request ''kube-apiserver'' [''server-1''] u = (Inr (1, True), u)"
  using cluster_pods cluster_reads(2,3)
  by (simp_all add: controlPlanePods_def and_then_def cluster_request_fields del: control_plane_loop.simps)

lemma cluster_workloads:
  "\<exists>ws. sample_workloads (recording cluster_env) bindings [''server-1''] (LR_Workloads cluster_request) u = (Inr ws, u)"
proof -
  have "canonicalSelector [(''app'', ''web'')] = ''app=web''" by code_simp
  then show ?thesis
    by (simp add: cluster_request_def and_then_def cluster_objects cluster_reads labelsMatch_def pod_ready_def)
      (simp add: cluster_metadata_def label_value_def)
qed

lemma cluster_vm_sample:
  "\<exists>vm. sample_vm (recording cluster_env) cluster_request p [''server-1''] u = (Inr vm, u)"
proof -
  have "Env_Get (recording cluster_env) vmResource ns name u = (Found (json_Marshal cluster_vm), u)"
    "Env_Get (recording cluster_env) vmiResource ns name u = (Found (json_Marshal cluster_vmi), u)" for ns name
    by (simp_all add: recording_def lifted_def cluster_env_def vmResource_def vmiResource_def)
  then show ?thesis by (simp add: sample_vm_def Let_def cluster_request_fields cluster_machines)
qed

lemma cluster_probe_sample:
  "\<exists>d. sample_probe (recording cluster_env) cluster_request p n phase u = (Inr d, u)"
proof -
  have "Env_Observe (recording cluster_env) q u = (Some (cluster_probe q (in_day (fst u))), u)" for q
    by (simp add: recording_def lifted_def cluster_env_def)
  moreover have "Env_ProbeIdentity (recording cluster_env) = hex64 CHR ''6''" by (simp add: recording_def cluster_env_def)
  moreover have "MatchString versionPattern ''probe''" "MatchString versionPattern ''v1''" by code_simp+
  moreover have "validSHA256 (hex64 CHR ''6'')" "validSHA256 (hex64 CHR ''7'')" by code_simp+
  ultimately show ?thesis
    by (simp add: sample_probe_def cluster_request_fields validateProbeResponse_def cluster_probe_def)
qed

lemma cluster_sample:
  obtains s where "sampler_next (recording cluster_env) cluster_request p n PhasePreLoss u = (Inr s, u)"
    and "SE_Phase s = PhasePreLoss" and "SE_ControlPlaneReadyNodes s = 1"
proof -
  obtain ws vm d where
    "sample_workloads (recording cluster_env) (P_workloadBindings p) [''server-1''] (LR_Workloads cluster_request) u = (Inr ws, u)"
    "sample_vm (recording cluster_env) cluster_request p [''server-1''] u = (Inr vm, u)"
    "sample_probe (recording cluster_env) cluster_request p (n + 1) (next_phase PhasePreLoss True) u = (Inr d, u)"
    using cluster_workloads cluster_vm_sample cluster_probe_sample by blast
  moreover have "Env_Now (recording cluster_env) u = (in_day (fst u), u)" by (simp add: recording_def lifted_def cluster_env_def)
  ultimately show thesis
    using that
    by (simp add: sampler_next_def Let_def and_then_def cluster_read_nodes cluster_control_plane next_phase_def go_consts)
qed

text \<open>The control plane has one member, a drill needs three.\<close>

lemma cluster_refused:
  "\<exists>e. Observe (recording cluster_env) cluster_request (t, []) = Some (Inl e, (t, []))"
proof -
  obtain p where p: "validateRequest cluster_request = Inr p" using cluster_request_valid by blast
  obtain s where s: "sampler_next (recording cluster_env) cluster_request p 0 PhasePreLoss (t, []) = (Inr s, (t, []))"
    "SE_Phase s = PhasePreLoss" "SE_ControlPlaneReadyNodes s = 1" by (rule cluster_sample)
  have "validSHA256 (hex64 CHR ''c'')" "validSHA256 (hex64 CHR ''6'')" by code_simp+
  moreover have "Env_ReaderIdentity (recording cluster_env) = hex64 CHR ''c''" "Env_ProbeIdentity (recording cluster_env) = hex64 CHR ''6''"
    by (simp_all add: recording_def cluster_env_def)
  ultimately show ?thesis
    using p s by (simp add: Observe_def Let_def run_health_def sampleHealth_def baseline_of_def cluster_request_fields)
qed

end
