(* ===== verification/Loss_Readings.thy ===== *)
theory Loss_Readings
  imports Loss_Observer Loss_Receipts
begin

text \<open>
  What the readings of the observer mean: the structure of an accepted document, the items
  of a list that was read page by page, and the counts of a sample.
\<close>

subsection \<open>Documents\<close>

fun json_depth :: "json \<Rightarrow> nat" where
  "json_depth (JObject ms) = (if ms = [] then 0 else Suc (Max (set (map (\<lambda>(k, v). json_depth v) ms))))"
| "json_depth (JArray vs) = (if vs = [] then 0 else Suc (Max (set (map json_depth vs))))"
| "json_depth v = 0"

fun unique_keys :: "json \<Rightarrow> bool" where
  "unique_keys (JObject ms) \<longleftrightarrow> distinct (map fst ms) \<and> list_all (\<lambda>(k, v). unique_keys v) ms"
| "unique_keys (JArray vs) \<longleftrightarrow> list_all unique_keys vs"
| "unique_keys v \<longleftrightarrow> True"

definition sound_below :: "nat \<Rightarrow> json \<Rightarrow> bool" where
  "sound_below depth v \<longleftrightarrow> unique_keys v \<and> depth + json_depth v \<le> maxDepth"

lemma sound_below_simps:
  "sound_below d (JObject ms) \<longleftrightarrow> d \<le> maxDepth \<and> distinct (map fst ms) \<and> (\<forall>(k, v) \<in> set ms. sound_below (d + 1) v)"
  "sound_below d (JArray vs) \<longleftrightarrow> d \<le> maxDepth \<and> (\<forall>v \<in> set vs. sound_below (d + 1) v)"
  "sound_below d JNull \<longleftrightarrow> d \<le> maxDepth" "sound_below d (JBool b) \<longleftrightarrow> d \<le> maxDepth"
  "sound_below d (JNumber s) \<longleftrightarrow> d \<le> maxDepth" "sound_below d (JString s) \<longleftrightarrow> d \<le> maxDepth"
proof -
  have bound: "Suc (d + Max (set (map f xs))) \<le> m \<longleftrightarrow> (\<forall>x \<in> set xs. Suc (d + f x) \<le> m)" if "xs \<noteq> []"
    for f :: "'b \<Rightarrow> nat" and xs m
  proof -
    have "Suc (d + Max (set (map f xs))) \<le> m \<longleftrightarrow> Suc d \<le> m \<and> Max (f ` set xs) \<le> m - Suc d" by auto
    also have "\<dots> \<longleftrightarrow> Suc d \<le> m \<and> (\<forall>x \<in> set xs. f x \<le> m - Suc d)" using that by simp
    also have "\<dots> \<longleftrightarrow> (\<forall>x \<in> set xs. Suc (d + f x) \<le> m)" using that by (cases xs) auto
    finally show ?thesis .
  qed
  show "sound_below d (JObject ms) \<longleftrightarrow> d \<le> maxDepth \<and> distinct (map fst ms) \<and> (\<forall>(k, v) \<in> set ms. sound_below (d + 1) v)"
    using bound [of ms "\<lambda>(k, v). json_depth v" maxDepth]
    by (cases ms) (auto simp: sound_below_def list_all_iff split_beta)
  show "sound_below d (JArray vs) \<longleftrightarrow> d \<le> maxDepth \<and> (\<forall>v \<in> set vs. sound_below (d + 1) v)"
    using bound [of vs json_depth maxDepth] by (cases vs) (auto simp: sound_below_def list_all_iff)
qed (simp_all add: sound_below_def)

lemma inspect_sound:
  "inspectValue d v = Some False \<longleftrightarrow> sound_below d v"
  "inspectMembers d seen ms = Some False \<longleftrightarrow>
     distinct (map fst ms) \<and> set (map fst ms) \<inter> set seen = {} \<and> (\<forall>(k, v) \<in> set ms. sound_below d v)"
  "inspectElements d vs = Some False \<longleftrightarrow> (\<forall>v \<in> set vs. sound_below d v)"
proof (induction d v and d seen ms and d vs rule: inspectValue_inspectMembers_inspectElements.induct)
  case (1 depth v)
  then show ?case by (cases v) (auto simp: sound_below_simps)
next
  case (3 depth seen k v ms)
  then show ?case by (cases "inspectValue depth v = Some False") (auto split: option.splits bool.splits)
next
  case (5 depth v vs)
  then show ?case by (cases "inspectValue depth v = Some False") (auto split: option.splits bool.splits)
qed simp_all

subsection \<open>Lists\<close>

definition well_listed :: "Resource \<Rightarrow> string \<Rightarrow> json list \<Rightarrow> string list \<Rightarrow> bool" where
  "well_listed res namespace items identities \<longleftrightarrow>
     length items \<le> 10000 \<and> list_all (\<lambda>v. listed_object res namespace v \<noteq> None) items \<and>
     distinct (map objectSortIdentity items) \<and> set identities = set (map objectSortIdentity items)"

lemma listed_identity: "listed_object res namespace v = Some obj \<Longrightarrow> objectSortIdentity v = object_identity obj"
  by (auto simp: listed_object_def objectSortIdentity_def split: option.splits if_splits)

lemma collect_items_well_listed:
  assumes "collect_items res namespace vs items identities = Inr (items', identities')"
    and "well_listed res namespace items identities"
  shows "well_listed res namespace items' identities'"
  using assms
proof (induction vs arbitrary: items identities)
  case (Cons v vs)
  then obtain obj where "listed_object res namespace v = Some obj" "object_identity obj \<notin> set identities"
    "length items < 10000" "collect_items res namespace vs (items @ [v]) (object_identity obj # identities) = Inr (items', identities')"
    by (auto split: option.splits if_splits)
  moreover from this have "well_listed res namespace (items @ [v]) (object_identity obj # identities)"
    using Cons.prems(2) listed_identity [of res namespace v] by (auto simp: well_listed_def)
  ultimately show ?case using Cons.IH by blast
qed simp

lemma collect_items_elements:
  assumes "collect_items res namespace vs items identities = Inr (items', identities')"
  shows "items' = items @ vs"
  using assms
proof (induction vs arbitrary: items identities)
  case (Cons v vs)
  then have "items' = (items @ [v]) @ vs" by (auto simp del: append_assoc split: option.splits if_splits)
  then show ?case by simp
qed simp

text \<open>The pages of a list, each read with the continuation of the one before it.\<close>

inductive follows :: "'w LossEnv \<Rightarrow> Resource \<Rightarrow> string \<Rightarrow> string \<Rightarrow> string \<Rightarrow> 'w \<Rightarrow> listEnvelope list \<Rightarrow> 'w \<Rightarrow> bool"
  for env res namespace selector where
  last_page: "Env_ListPage env res namespace selector token 500 w = (Some payload, w') \<Longrightarrow>
    Decode list_decoder zero_list payload = Inr page \<Longrightarrow> L_Continue page = [] \<Longrightarrow>
    follows env res namespace selector token w [page] w'"
| next_page: "Env_ListPage env res namespace selector token 500 w = (Some payload, w') \<Longrightarrow>
    Decode list_decoder zero_list payload = Inr page \<Longrightarrow> L_Continue page \<noteq> [] \<Longrightarrow>
    follows env res namespace selector (L_Continue page) w' pages w'' \<Longrightarrow>
    follows env res namespace selector token w (page # pages) w''"

text \<open>A page that belongs to the same version of the list as the pages before it.\<close>

definition page_of :: "Resource \<Rightarrow> string \<Rightarrow> listEnvelope \<Rightarrow> bool" where
  "page_of res version page \<longleftrightarrow> L_APIVersion page = resource_apiVersion res \<and> L_Kind page = R_ListKind res \<and>
     L_ResourceVersion page \<noteq> [] \<and> (version = [] \<or> L_ResourceVersion page = version)"

lemma list_page_finished:
  assumes "list_page res namespace payload st = Inr (Inl items)"
  obtains page items' identities where "Decode list_decoder zero_list payload = Inr page" and "L_Continue page = []"
    and "page_of res (LS_ResourceVersion st) page"
    and "collect_items res namespace (L_Items page) (LS_Items st) (LS_Identities st) = Inr (items', identities)"
    and "items = sort_key objectSortIdentity items'"
  using assms by (fastforce simp: list_page_def page_of_def split: if_splits sum.splits)

lemma list_page_continued:
  assumes "list_page res namespace payload st = Inr (Inr st')"
  obtains page where "Decode list_decoder zero_list payload = Inr page" and "L_Continue page \<noteq> []"
    and "LS_Continuation st' = L_Continue page" and "page_of res (LS_ResourceVersion st) page"
    and "LS_ResourceVersion st' = L_ResourceVersion page"
    and "collect_items res namespace (L_Items page) (LS_Items st) (LS_Identities st) = Inr (LS_Items st', LS_Identities st')"
  using assms by (fastforce simp: list_page_def page_of_def split: if_splits sum.splits)

lemma well_listed_sort:
  "well_listed res namespace (sort_key objectSortIdentity items) identities \<longleftrightarrow> well_listed res namespace items identities"
  by (auto simp: well_listed_def list_all_iff distinct_map)

definition list_result :: "'w LossEnv \<Rightarrow> Resource \<Rightarrow> string \<Rightarrow> string \<Rightarrow> list_state \<Rightarrow> 'w \<Rightarrow> nat \<Rightarrow> json list \<Rightarrow> 'w \<Rightarrow> bool" where
  "list_result env res namespace selector st w n items w' \<longleftrightarrow>
     (\<exists>pages version identities. follows env res namespace selector (LS_Continuation st) w pages w' \<and> length pages \<le> n \<and>
       items = sort_key objectSortIdentity (LS_Items st @ concat (map L_Items pages)) \<and>
       version \<noteq> [] \<and> LS_ResourceVersion st \<in> {[], version} \<and> (\<forall>page \<in> set pages. page_of res version page) \<and>
       well_listed res namespace items identities)"

lemma list_result_last:
  assumes "Env_ListPage env res namespace selector (LS_Continuation st) 500 w = (Some payload, w')"
    and "list_page res namespace payload st = Inr (Inl items)"
    and "well_listed res namespace (LS_Items st) (LS_Identities st)"
  shows "list_result env res namespace selector st w (Suc n) items w'"
  using assms(2)
proof (rule list_page_finished)
  fix page items' identities
  assume page: "Decode list_decoder zero_list payload = Inr page" "L_Continue page = []" "page_of res (LS_ResourceVersion st) page"
    and items: "collect_items res namespace (L_Items page) (LS_Items st) (LS_Identities st) = Inr (items', identities)"
      "items = sort_key objectSortIdentity items'"
  have "follows env res namespace selector (LS_Continuation st) w [page] w'" using assms(1) page by (blast intro: last_page)
  moreover have "well_listed res namespace items identities"
    using collect_items_well_listed [OF items(1) assms(3)] by (simp add: items(2) well_listed_sort)
  ultimately show ?thesis
    using page(3) collect_items_elements [OF items(1)] unfolding list_result_def page_of_def
    by (intro exI [of _ "[page]"] exI [of _ "L_ResourceVersion page"] exI [of _ identities]) (auto simp: items(2))
qed

lemma list_result_next:
  assumes "Env_ListPage env res namespace selector (LS_Continuation st) 500 w = (Some payload, u)"
    and "list_page res namespace payload st = Inr (Inr st')" and "list_result env res namespace selector st' u n items w'"
  shows "list_result env res namespace selector st w (Suc n) items w'"
  using assms(2)
proof (rule list_page_continued)
  fix page
  assume page: "Decode list_decoder zero_list payload = Inr page" "L_Continue page \<noteq> []" "LS_Continuation st' = L_Continue page"
    "page_of res (LS_ResourceVersion st) page" "LS_ResourceVersion st' = L_ResourceVersion page"
    and items: "collect_items res namespace (L_Items page) (LS_Items st) (LS_Identities st) = Inr (LS_Items st', LS_Identities st')"
  obtain pages version identities where r: "follows env res namespace selector (LS_Continuation st') u pages w'" "length pages \<le> n"
    "items = sort_key objectSortIdentity (LS_Items st' @ concat (map L_Items pages))" "version \<noteq> []" "LS_ResourceVersion st' \<in> {[], version}"
    "\<forall>page \<in> set pages. page_of res version page" "well_listed res namespace items identities"
    using assms(3) by (auto simp: list_result_def)
  have "follows env res namespace selector (LS_Continuation st) w (page # pages) w'"
    using next_page [OF assms(1) page(1,2) r(1) [unfolded page(3)]] .
  moreover have "page_of res version page" "LS_ResourceVersion st \<in> {[], version}"
    using page(4,5) r(5) by (auto simp: page_of_def)
  ultimately show ?thesis
    using r(2-4,6,7) collect_items_elements [OF items] unfolding list_result_def
    by (intro exI [of _ "page # pages"] exI [of _ version] exI [of _ identities]) simp
qed

lemma list_pages_result:
  assumes "list_pages env n res namespace selector st w = (Inr items, w')"
    and "well_listed res namespace (LS_Items st) (LS_Identities st)"
  shows "list_result env res namespace selector st w n items w'"
  using assms
proof (induction n arbitrary: st w)
  case (Suc n)
  obtain payload u where page: "Env_ListPage env res namespace selector (LS_Continuation st) 500 w = (Some payload, u)"
    using Suc.prems(1) by (auto split: prod.splits option.splits)
  with Suc.prems(1) consider "list_page res namespace payload st = Inr (Inl items)" "u = w'"
    | st' where "list_page res namespace payload st = Inr (Inr st')" "list_pages env n res namespace selector st' u = (Inr items, w')"
    by (auto split: sum.splits)
  then show ?case
  proof cases
    case 1
    then show ?thesis using list_result_last [OF page _ Suc.prems(2)] by blast
  next
    case 2
    have "well_listed res namespace (LS_Items st') (LS_Identities st')"
      using 2(1) Suc.prems(2) by (auto elim!: list_page_continued dest: collect_items_well_listed)
    then show ?thesis using list_result_next [OF page 2(1)] Suc.IH [OF 2(2)] by blast
  qed
qed simp

lemma listAll_result:
  assumes "listAll env res namespace selector w = (Inr items, w')"
  shows "list_result env res namespace selector list_start w 20 items w'"
  using assms list_pages_result [of env 20 res namespace selector list_start w items w']
  by (simp add: listAll_def list_start_def well_listed_def del: list_pages.simps)

subsection \<open>Nodes and pods\<close>

abbreviation node_name :: "nodeObject \<Rightarrow> string" where "node_name n \<equiv> OM_Name (N_Metadata n)"
abbreviation node_uid :: "nodeObject \<Rightarrow> string" where "node_uid n \<equiv> OM_UID (N_Metadata n)"

lemma scan_nodes_fold:
  assumes "scan_nodes target vs st = Inr st'"
  shows "\<exists>ns. map decodeNode vs = map Inr ns \<and> st' = fold (scan_node target) ns st"
  using assms
proof (induction vs arbitrary: st)
  case (Cons v vs)
  then obtain n where n: "decodeNode v = Inr n" "scan_nodes target vs (scan_node target n st) = Inr st'"
    by (auto split: sum.splits)
  then obtain ns where "map decodeNode vs = map Inr ns" "st' = fold (scan_node target) ns (scan_node target n st)"
    using Cons.IH by blast
  with n(1) show ?case by (intro exI [of _ "n # ns"]) simp
qed simp

definition ready_members :: "nodeObject list \<Rightarrow> nodeObject set" where
  "ready_members ns = {n \<in> set ns. node_ready n \<and> node_control_plane n}"

lemma scan_fold:
  fixes ns and target :: string
  defines "st \<equiv> fold (scan_node target) ns scan_start"
  shows "distinct (NS_ControlPlane st) \<and> set (NS_ControlPlane st) = node_uid ` ready_members ns"
    and "distinct (NS_ReadyControlPlane st) \<and> set (NS_ReadyControlPlane st) = node_name ` ready_members ns"
    and "NS_TargetPresent st \<longleftrightarrow> (\<exists>n \<in> set ns. node_name n = target)"
    and "NS_TargetReady st \<Longrightarrow> \<exists>n \<in> set ns. node_name n = target \<and> node_ready n \<and> NS_TargetUID st = NodeUIDSHA256 (node_uid n)"
  unfolding st_def
  by (induction ns rule: rev_induct)
    (auto simp: scan_start_def scan_node_def Let_def ready_members_def split: if_splits)

lemma control_plane_loop_exact:
  assumes "control_plane_loop target component ready vs nodes found = Inr (nodes', found')" and "distinct nodes"
  shows "\<exists>ps. map (\<lambda>v. decodePod v ''kube-system'') vs = map Inr ps \<and> distinct nodes' \<and>
    set nodes' = set nodes \<union> Pod_NodeName ` {p \<in> set ps. pod_ready ready p} \<and>
    (found' \<longleftrightarrow> found \<or> target \<in> Pod_NodeName ` {p \<in> set ps. pod_ready ready p})"
  using assms
proof (induction vs arbitrary: nodes found)
  case (Cons v vs)
  from Cons.prems(1) obtain p where p: "decodePod v ''kube-system'' = Inr p" by (auto split: sum.splits)
  define nodes1 where "nodes1 = (if pod_ready ready p then List.insert (Pod_NodeName p) nodes else nodes)"
  define found1 where "found1 \<longleftrightarrow> found \<or> pod_ready ready p \<and> Pod_NodeName p = target"
  have "control_plane_loop target component ready vs nodes1 found1 = Inr (nodes', found')"
    using Cons.prems(1) p by (cases "pod_ready ready p") (auto simp: nodes1_def found1_def split: if_splits)
  moreover have "distinct nodes1" using Cons.prems(2) by (simp add: nodes1_def)
  ultimately obtain ps where ps: "map (\<lambda>v. decodePod v ''kube-system'') vs = map Inr ps" "distinct nodes'"
    "set nodes' = set nodes1 \<union> Pod_NodeName ` {p \<in> set ps. pod_ready ready p}"
    "found' \<longleftrightarrow> found1 \<or> target \<in> Pod_NodeName ` {p \<in> set ps. pod_ready ready p}"
    using Cons.IH by blast
  have ready: "Pod_NodeName ` {q \<in> set (p # ps). pod_ready ready q} =
      (if pod_ready ready p then {Pod_NodeName p} else {}) \<union> Pod_NodeName ` {q \<in> set ps. pod_ready ready q}"
    by auto
  have "set nodes1 = set nodes \<union> (if pod_ready ready p then {Pod_NodeName p} else {})"
    "found1 \<longleftrightarrow> found \<or> target \<in> (if pod_ready ready p then {Pod_NodeName p} else {})"
    by (auto simp: nodes1_def found1_def)
  with p ps show ?case by (intro exI [of _ "p # ps"]) (simp only: ready Un_assoc Un_iff disj_assoc list.map simp_thms)
qed simp

text \<open>
  The servers that host a component of the control plane: of the given servers, those with
  a pod of the list that is running, ready and not being deleted.
\<close>

definition hosts_component :: "podObject list \<Rightarrow> string set \<Rightarrow> string set" where
  "hosts_component ps nodes = Pod_NodeName ` {p \<in> set ps. Pod_NodeName p \<in> nodes \<and> Pod_NodeName p \<noteq> [] \<and>
     Pod_Phase p = ''Running'' \<and> conditionTrue (Pod_Conditions p) ''Ready'' \<and> \<not> objectTerminating (Pod_Metadata p)}"

definition counts_hosts :: "'w LossEnv \<Rightarrow> string \<Rightarrow> string set \<Rightarrow> string \<Rightarrow> int \<Rightarrow> bool \<Rightarrow> bool" where
  "counts_hosts env component nodes target count onTarget \<longleftrightarrow>
     (\<exists>u v vs ps. listAll env podResource ''kube-system'' (''component='' @ component) u = (Inr vs, v) \<and>
       map (\<lambda>v. decodePod v ''kube-system'') vs = map Inr ps \<and> count = int (card (hosts_component ps nodes)) \<and>
       (onTarget \<longleftrightarrow> target \<in> hosts_component ps nodes))"

lemma controlPlanePods_counts:
  assumes "controlPlanePods env req component ready w = (Inr (count, found), w')"
  shows "counts_hosts env component (set ready) (LR_TargetNodeName req) count found"
proof -
  obtain vs u where list: "listAll env podResource ''kube-system'' (''component='' @ component) w = (Inr vs, u)"
    and c: "(case control_plane_loop (LR_TargetNodeName req) component ready vs [] False of
      Inl e \<Rightarrow> (Inl e, u) | Inr (nodes, found) \<Rightarrow> (Inr (int (length nodes), found), u)) = (Inr (count, found), w')"
    using assms unfolding controlPlanePods_def and_then_Inr by blast
  obtain nodes where vs: "listAll env podResource ''kube-system'' (''component='' @ component) w = (Inr vs, w')"
    and loop: "control_plane_loop (LR_TargetNodeName req) component ready vs [] False = Inr (nodes, found)" "count = int (length nodes)"
    using list c by (auto split: sum.splits)
  obtain ps where ps: "map (\<lambda>v. decodePod v ''kube-system'') vs = map Inr ps" "distinct nodes"
    "set nodes = Pod_NodeName ` {p \<in> set ps. pod_ready ready p}"
    "found \<longleftrightarrow> LR_TargetNodeName req \<in> Pod_NodeName ` {p \<in> set ps. pod_ready ready p}"
    using control_plane_loop_exact [OF loop(1)] by auto
  moreover have "Pod_NodeName ` {p \<in> set ps. pod_ready ready p} = hosts_component ps (set ready)"
    by (auto simp: hosts_component_def pod_ready_def)
  ultimately have "count = int (card (hosts_component ps (set ready)))" "found \<longleftrightarrow> LR_TargetNodeName req \<in> hosts_component ps (set ready)"
    using distinct_card [of nodes] loop(2) by simp_all
  with vs ps(1) show ?thesis unfolding counts_hosts_def by blast
qed

lemma read_nodes_counts:
  assumes "read_nodes env req w = (Inr (scan, members), w')"
  obtains u v vs ns where "listAll env nodeResource [] [] u = (Inr vs, v)" and "map decodeNode vs = map Inr ns"
    and "scan = fold (scan_node (LR_TargetNodeName req)) ns scan_start"
    and "members = ControlPlaneMemberSetSHA256 (map NodeUIDSHA256 (NS_ControlPlane scan))" and "members \<noteq> []"
proof -
  obtain u where "and_then (listAll env nodeResource [] [] u) (\<lambda>payloads w.
      (case scan_nodes (LR_TargetNodeName req) payloads scan_start of
         Inl e \<Rightarrow> (Inl e, w)
       | Inr scan \<Rightarrow>
           let members = ControlPlaneMemberSetSHA256 (map NodeUIDSHA256 (NS_ControlPlane scan)) in
           if members = [] then (Inl ''control-plane member identity set is invalid'', w)
           else (Inr (scan, members), w))) = (Inr (scan, members), w')"
    using assms unfolding read_nodes_def by (auto split: prod.splits bool.splits)
  then obtain vs v where vs: "listAll env nodeResource [] [] u = (Inr vs, v)"
    and c: "(case scan_nodes (LR_TargetNodeName req) vs scan_start of
      Inl e \<Rightarrow> (Inl e, v)
    | Inr scan \<Rightarrow>
        let members = ControlPlaneMemberSetSHA256 (map NodeUIDSHA256 (NS_ControlPlane scan)) in
        if members = [] then (Inl ''control-plane member identity set is invalid'', v)
        else (Inr (scan, members), v)) = (Inr (scan, members), w')"
    unfolding and_then_Inr by blast
  have "scan_nodes (LR_TargetNodeName req) vs scan_start = Inr scan"
    "members = ControlPlaneMemberSetSHA256 (map NodeUIDSHA256 (NS_ControlPlane scan))" "members \<noteq> []"
    using c by (auto simp: Let_def split: sum.splits if_splits)
  with that vs scan_nodes_fold show thesis by metis
qed

subsection \<open>Member sets\<close>

lemma sort_distinct_adj: "distinct_adj (sort xs) \<longleftrightarrow> distinct xs" for xs :: "'b :: linorder list"
proof -
  have "distinct_adj ys \<longleftrightarrow> distinct ys" if "sorted ys" for ys :: "'b list"
    using that
  proof (induction ys rule: induct_list012)
    case (3 x y zs)
    then show ?case by auto
  qed auto
  then show ?thesis by (metis distinct_sort sorted_sort)
qed

lemma digestJSON_eq: "digestJSON v = digestJSON w \<longleftrightarrow> Sum256 (json_Marshal v) = Sum256 (json_Marshal w)"
  by (simp add: digestJSON_def SHA256Hex_def hex_EncodeToString_inj)

definition member_preimage :: "string list \<Rightarrow> string" where
  "member_preimage uids = json_Marshal (JObject [(''domain'', JString controlPlaneMemberSetDomain),
     (''memberUidSha256'', JArray (map JString (sort uids)))])"

lemma ControlPlaneMemberSetSHA256_not_Nil:
  "ControlPlaneMemberSetSHA256 uids \<noteq> [] \<longleftrightarrow>
     uids \<noteq> [] \<and> length uids \<le> 10000 \<and> distinct uids \<and> list_all validSHA256 uids"
  by (auto simp: ControlPlaneMemberSetSHA256_def canonical_members_def Let_def sort_distinct_adj list_all_iff Suc_le_eq)

lemma member_preimage_inj:
  assumes "member_preimage us = member_preimage vs" and "list_all validSHA256 us" and "list_all validSHA256 vs"
  shows "sort us = sort vs"
proof -
  have fix_sorted: "map (json_fix \<circ> JString) (sort xs) = map JString (sort xs)" if "list_all validSHA256 xs" for xs
    using that by (auto simp: list_all_iff validSHA256_iff hex_ascii intro!: utf8_fix_id utf8_Valid_ascii)
  have "json_fix (JArray (map JString (sort us))) = json_fix (JArray (map JString (sort vs)))"
    using json_Marshal_inj [OF _ _ assms(1) [unfolded member_preimage_def]] by (simp add: list_all_iff)
  then have "map JString (sort us) = map JString (sort vs)"
    using fix_sorted [OF assms(2)] fix_sorted [OF assms(3)] by simp
  moreover have "inj JString" by (simp add: inj_def)
  ultimately show ?thesis by (simp only: inj_map_eq_map)
qed

end
