(* ===== verification/Loss_Samples.thy ===== *)
theory Loss_Samples
  imports Loss_Readings Loss_Runs
begin

text \<open>
  What every sample of a run satisfies by the way it is taken: the part of the checks on a
  receipt that does not depend on the state of the cluster.
\<close>

subsection \<open>Requests\<close>

lemma request_parts:
  assumes "validateRequest req = Inr p"
  shows "LR_Workloads req \<noteq> []" and "length (LR_Workloads req) \<le> 32"
    and "validateTargets [] [] (LR_Workloads req) = Inr (P_workloadBindings p)"
    and "validSafeID (VT_ID (LR_VM req))" and "validSafeID (DT_ID (LR_DataProbe req))"
    and "1 \<le> DT_MinimumValidatedBytes (LR_DataProbe req)" and "LR_MinimumControlPlaneMembers req \<le> 99"
    and "P_vmBinding p = digestJSON (json_VMTarget (LR_VM req))"
    and "P_probeBinding p = digestJSON (json_DataProbeTarget (LR_DataProbe req))"
    and "validSHA256 (LR_RunNonceSHA256 req)"
  using assms by (auto simp: validateRequest_def Let_def split: if_splits option.splits sum.splits)

lemma request_durations:
  assumes "validateRequest req = Inr p"
  shows "canonicalDuration (LR_PollInterval req) minimumPollInterval maximumPollInterval = Some (P_poll p)"
    and "canonicalDuration (LR_FaultArrivalTimeout req) (2 * P_poll p) maximumPhaseTimeout = Some (P_faultTimeout p)"
    and "canonicalDuration (LR_MinimumLossWindow req) (2 * P_poll p) maximumPhaseTimeout = Some (P_lossWindow p)"
    and "canonicalDuration (LR_RecoveryTimeout req) (P_lossWindow p + 2 * P_poll p) maximumPhaseTimeout = Some (P_recoveryTimeout p)"
    and "canonicalDuration (LR_RecoveryStabilityWindow req) (2 * P_poll p) (P_recoveryTimeout p) = Some (P_recoveryStability p)"
    and "canonicalDuration (VT_MaximumUnavailableDuration (LR_VM req)) (P_poll p) (P_recoveryTimeout p) = Some (P_vmUnavailable p)"
  using assms by (auto simp: validateRequest_def Let_def split: if_splits option.splits sum.splits)

definition digest_bound :: "(string, string) gomap \<Rightarrow> string \<Rightarrow> bool" where
  "digest_bound m k \<longleftrightarrow> (\<exists>v. map_of m k = Some (digestJSON v))"

lemma digest_bound_put: "digest_bound (map_put k (digestJSON v) m) j \<longleftrightarrow> j = k \<or> digest_bound m j"
  by (auto simp: digest_bound_def)

lemma validateTargets_bound:
  assumes "validateTargets previous m ts = Inr b"
    and "digest_bound m k \<or> k \<in> WT_ID ` set ts"
  shows "digest_bound b k"
  using assms
proof (induction ts arbitrary: previous m)
  case (Cons t ts)
  have "validateTargets (WT_ID t) (map_put (WT_ID t) (digestJSON (json_WorkloadTarget t)) m) ts = Inr b"
    using Cons.prems(1) by (simp split: if_splits)
  then show ?case by (rule Cons.IH) (use Cons.prems(2) in \<open>auto simp: digest_bound_put\<close>)
qed simp

lemma digest_bound_valid: "digest_bound m k \<Longrightarrow> validSHA256 (label_value m k)"
  by (auto simp: digest_bound_def label_value_def)

subsection \<open>Workloads\<close>

definition evidence_for :: "(string, string) gomap \<Rightarrow> WorkloadTarget \<Rightarrow> WorkloadEvidence \<Rightarrow> bool" where
  "evidence_for bindings t e \<longleftrightarrow> WE_ID e = WT_ID t \<and> WE_BindingSHA256 e = label_value bindings (WT_ID t) \<and>
     WE_MinimumReadyPods e = WT_MinimumReadyPods t \<and> WE_MinimumReadyNodes e = WT_MinimumDistinctReadyNodes t \<and>
     0 \<le> WE_DistinctReadyNodes e \<and> WE_DistinctReadyNodes e \<le> WE_ReadyPods e \<and> WE_ReadyPods e \<le> 10000"

lemma workload_loop_counts:
  assumes "workload_loop t ready vs pods nodes = Inr (pods', nodes')" and "length nodes \<le> pods"
  shows "length nodes' \<le> pods' \<and> pods' \<le> pods + length vs"
  using assms
proof (induction vs arbitrary: pods nodes)
  case (Cons v vs)
  have "length (List.insert x nodes) \<le> pods + 1" for x
    using Cons.prems(2) by (simp add: List.insert_def)
  with Cons show ?case
    by (auto split: sum.splits if_splits) fastforce+
qed simp

lemma listAll_length: "listAll env res namespace selector w = (Inr vs, w') \<Longrightarrow> length vs \<le> 10000"
  by (auto dest!: listAll_result simp: list_result_def well_listed_def)

lemma sample_workloads_evidence:
  assumes "sample_workloads env bindings ready ts w = (Inr ws, w')"
  shows "list_all2 (evidence_for bindings) ts ws"
  using assms
proof (induction ts arbitrary: w ws w')
  case (Cons t ts)
  obtain vs u where list: "listAll env podResource (WT_Namespace t) (canonicalSelector (WT_MatchLabels t)) w = (Inr vs, u)"
    and rest: "(case workload_loop t ready vs 0 [] of
      Inl e \<Rightarrow> (Inl e, u)
    | Inr (pods, nodes) \<Rightarrow>
        and_then (sample_workloads env bindings ready ts u) (\<lambda>ws w.
          (Inr (\<lparr>WE_ID = WT_ID t, WE_BindingSHA256 = label_value bindings (WT_ID t), WE_ReadyPods = int pods,
             WE_DistinctReadyNodes = int (length nodes), WE_MinimumReadyPods = WT_MinimumReadyPods t,
             WE_MinimumReadyNodes = WT_MinimumDistinctReadyNodes t\<rparr> # ws), w))) = (Inr ws, w')"
    using Cons.prems unfolding sample_workloads.simps and_then_Inr by blast
  then obtain pods nodes where loop: "workload_loop t ready vs 0 [] = Inr (pods, nodes)" by (auto split: sum.splits)
  from rest [unfolded loop sum.case prod.case and_then_Inr] obtain es v where
    "sample_workloads env bindings ready ts u = (Inr es, v)"
    "ws = \<lparr>WE_ID = WT_ID t, WE_BindingSHA256 = label_value bindings (WT_ID t), WE_ReadyPods = int pods,
       WE_DistinctReadyNodes = int (length nodes), WE_MinimumReadyPods = WT_MinimumReadyPods t,
       WE_MinimumReadyNodes = WT_MinimumDistinctReadyNodes t\<rparr> # es"
    by auto
  moreover have "length nodes \<le> pods" "pods \<le> 10000"
    using workload_loop_counts [OF loop] listAll_length [OF list] by auto
  ultimately show ?case using Cons.IH by (simp add: evidence_for_def)
qed simp

lemma workloads_valid:
  assumes "validateTargets previous m ts = Inr b" and "list_all2 (evidence_for bindings) ts ws"
    and "\<And>t. t \<in> set ts \<Longrightarrow> validSHA256 (label_value bindings (WT_ID t))"
  shows "validateWorkloads previous ws = None"
  using assms(2,1,3)
proof (induction ts ws arbitrary: previous m rule: list_all2_induct)
  case (Cons t ts e ws)
  then show ?case
    by (auto simp: evidence_for_def validWorkload_def validTarget_def split: if_splits)
qed simp

lemma sample_workloads_valid:
  assumes "validateRequest req = Inr p" and "sample_workloads env (P_workloadBindings p) ready (LR_Workloads req) w = (Inr ws, w')"
  shows "validateWorkloads [] ws = None" and "ws \<noteq> []" and "length ws \<le> 32"
proof -
  note r = request_parts [OF assms(1)]
  note e = sample_workloads_evidence [OF assms(2)]
  have "validSHA256 (label_value (P_workloadBindings p) (WT_ID t))" if "t \<in> set (LR_Workloads req)" for t
    using validateTargets_bound [OF r(3), of "WT_ID t"] that by (auto intro: digest_bound_valid)
  then show "validateWorkloads [] ws = None" by (rule workloads_valid [OF r(3) e])
  show "ws \<noteq> []" "length ws \<le> 32" using r(1,2) list_all2_lengthD [OF e] by auto
qed

lemma same_shape:
  "list_all2 (evidence_for bindings) ts us \<Longrightarrow> list_all2 (evidence_for bindings) ts vs \<Longrightarrow> sameWorkloadShape us vs"
proof (induction ts us arbitrary: vs rule: list_all2_induct)
  case (Cons t ts u us)
  then show ?case by (cases vs) (auto simp: evidence_for_def)
qed simp

subsection \<open>Nodes\<close>

lemma scan_target:
  fixes ns and target :: string
  defines "st \<equiv> fold (scan_node target) ns scan_start"
  shows "NS_TargetReady st \<Longrightarrow> NS_TargetPresent st" and "\<not> NS_TargetPresent st \<Longrightarrow> NS_TargetUID st = []"
  unfolding st_def
  by (induction ns rule: rev_induct) (auto simp: scan_start_def scan_node_def Let_def split: if_splits)

lemma read_nodes_valid:
  assumes "read_nodes env req w = (Inr (scan, members), w')"
  shows "length (NS_ControlPlane scan) \<le> 10000" and "NS_TargetReady scan \<Longrightarrow> NS_TargetPresent scan"
    and "\<not> NS_TargetPresent scan \<Longrightarrow> NS_TargetUID scan = []" and "validSHA256 members"
proof -
  from assms obtain u v vs ns where ns: "listAll env nodeResource [] [] u = (Inr vs, v)" "map decodeNode vs = map Inr ns"
    "scan = fold (scan_node (LR_TargetNodeName req)) ns scan_start"
    "members = ControlPlaneMemberSetSHA256 (map NodeUIDSHA256 (NS_ControlPlane scan))" "members \<noteq> []"
    by (rule read_nodes_counts)
  have "length ns \<le> 10000" using listAll_length [OF ns(1)] map_eq_imp_length_eq [OF ns(2)] by simp
  moreover have "length (NS_ControlPlane scan) = card (node_uid ` ready_members ns)"
    using scan_fold(1) [of "LR_TargetNodeName req" ns] distinct_card [of "NS_ControlPlane scan"] by (simp add: ns(3))
  moreover have "node_uid ` ready_members ns \<subseteq> set (map node_uid ns)" by (auto simp: ready_members_def)
  then have "card (node_uid ` ready_members ns) \<le> length ns"
    by (metis List.finite_set card_length card_mono length_map order_trans)
  ultimately show "length (NS_ControlPlane scan) \<le> 10000" by simp
  show "NS_TargetReady scan \<Longrightarrow> NS_TargetPresent scan" "\<not> NS_TargetPresent scan \<Longrightarrow> NS_TargetUID scan = []"
    using scan_target [where ns = ns and target = "LR_TargetNodeName req"] by (simp_all add: ns(3))
  show "validSHA256 members"
    using ns(4,5) by (auto simp: ControlPlaneMemberSetSHA256_def Let_def split: if_splits)
qed

lemma controlPlanePods_valid:
  assumes "controlPlanePods env req component ready w = (Inr (count, found), w')"
  shows "0 \<le> count" and "count \<le> 10000"
proof -
  obtain u v vs ps where ps: "listAll env podResource ''kube-system'' (''component='' @ component) u = (Inr vs, v)"
    "map (\<lambda>v. decodePod v ''kube-system'') vs = map Inr ps" "count = int (card (hosts_component ps (set ready)))"
    using controlPlanePods_counts [OF assms] by (auto simp: counts_hosts_def)
  have "hosts_component ps (set ready) \<subseteq> set (map Pod_NodeName ps)" by (auto simp: hosts_component_def)
  then have "card (hosts_component ps (set ready)) \<le> length ps"
    by (metis List.finite_set card_length card_mono length_map order_trans)
  then show "0 \<le> count" "count \<le> 10000"
    using listAll_length [OF ps(1)] map_eq_imp_length_eq [OF ps(2)] ps(3) by simp_all
qed

subsection \<open>The machine and the data\<close>

lemma sample_vm_safe:
  assumes "validateRequest req = Inr p" and "sample_vm env req p ready w = (Inr vm, w')"
  shows "safeVM vm" and "VE_BindingSHA256 vm = P_vmBinding p"
  using assms(2) request_parts(4,8) [OF assms(1)]
  by (auto simp: sample_vm_def Let_def safeVM_def split: prod.splits GetResult.splits sum.splits if_splits)

definition probe_request :: "'w LossEnv \<Rightarrow> Request \<Rightarrow> parsedRequest \<Rightarrow> int \<Rightarrow> string \<Rightarrow> ProbeRequest" where
  "probe_request env req p sequence phase = \<lparr>PQ_SchemaVersion = ProbeRequestSchemaVersion,
     PQ_RunNonceSHA256 = LR_RunNonceSHA256 req, PQ_ParentRequestSHA256 = P_requestSHA256 p, PQ_Phase = phase,
     PQ_Sequence = sequence, PQ_ProbeID = DT_ID (LR_DataProbe req), PQ_QueryRef = DT_QueryRef (LR_DataProbe req),
     PQ_AdapterExecutableSHA256 = Env_ProbeIdentity env\<rparr>"

text \<open>
  A probe of one implementation that reads the time on the clock of the observer, while it
  is asked.
\<close>

definition timely_probe :: "'w LossEnv \<Rightarrow> ('w \<Rightarrow> gotime) \<Rightarrow> string \<Rightarrow> string \<Rightarrow> bool" where
  "timely_probe env clock implementation version \<longleftrightarrow>
     (\<forall>q w a w'. Env_Observe env q w = (Some a, w') \<longrightarrow>
       clock w \<le> mustTimestamp (PR_StartedAt a) \<and> mustTimestamp (PR_CompletedAt a) \<le> clock w' \<and>
       PR_Implementation a = implementation \<and> PR_Version a = version)"

lemma sample_probe_safe:
  assumes "validateRequest req = Inr p" and "sample_probe env req p n phase w = (Inr d, w')"
    and "timely_probe env clock implementation version"
  shows "Rc_ProbeAdapterSHA256 r = Env_ProbeIdentity env \<Longrightarrow> safeProbe r d"
    and "DE_BindingSHA256 d = P_probeBinding p" and "DE_Implementation d = implementation" and "DE_Version d = version"
    and "DE_RequestSHA256 d = digestJSON (json_ProbeRequest (probe_request env req p n phase))"
    and "\<exists>a b. canonicalTimestamp (DE_StartedAt d) = Some a \<and> canonicalTimestamp (DE_CompletedAt d) = Some b \<and>
      a \<le> b \<and> clock w \<le> a \<and> b \<le> clock w'"
proof -
  let ?q = "probe_request env req p n phase"
  obtain a where a: "Env_Observe env ?q w = (Some a, w')"
    "validateProbeResponse ?q a (DT_MinimumValidatedBytes (LR_DataProbe req)) = None"
    and d: "d = \<lparr>DE_ID = DT_ID (LR_DataProbe req), DE_BindingSHA256 = P_probeBinding p,
                 DE_Implementation = PR_Implementation a, DE_Version = PR_Version a,
                 DE_RequestSHA256 = PR_RequestSHA256 a, DE_AdapterExecutableSHA256 = PR_AdapterExecutableSHA256 a,
                 DE_HashAlgorithm = PR_HashAlgorithm a, DE_DataSHA256 = PR_DataSHA256 a,
                 DE_ValidatedBytes = PR_ValidatedBytes a, DE_StartedAt = PR_StartedAt a,
                 DE_CompletedAt = PR_CompletedAt a\<rparr>"
    using assms(2) unfolding sample_probe_def Let_def probe_request_def
    by (auto split: prod.splits option.splits)
  note v = a(2) [unfolded validateProbeResponse_def]
  note t = assms(3) [unfolded timely_probe_def, rule_format, OF a(1)]
  have adapter: "PQ_AdapterExecutableSHA256 ?q = Env_ProbeIdentity env" by (simp add: probe_request_def)
  show "Rc_ProbeAdapterSHA256 r = Env_ProbeIdentity env \<Longrightarrow> safeProbe r d"
    using v adapter request_parts(5,6,9) [OF assms(1)] by (auto simp: safeProbe_def d split: if_splits)
  show "DE_BindingSHA256 d = P_probeBinding p" "DE_Implementation d = implementation" "DE_Version d = version"
    using t by (simp_all add: d)
  show "DE_RequestSHA256 d = digestJSON (json_ProbeRequest ?q)" using v by (auto simp: d split: if_splits)
  show "\<exists>a b. canonicalTimestamp (DE_StartedAt d) = Some a \<and> canonicalTimestamp (DE_CompletedAt d) = Some b \<and>
      a \<le> b \<and> clock w \<le> a \<and> b \<le> clock w'"
    using v t by (auto simp: d mustTimestamp_def split: if_splits option.splits)
qed

subsection \<open>Samples\<close>

text \<open>
  What a sample satisfies in every phase. The identity of the selected server is left out:
  it is compared with the first sample.
\<close>

definition taken :: "'w LossEnv \<Rightarrow> Request \<Rightarrow> parsedRequest \<Rightarrow> string \<Rightarrow> string \<Rightarrow> SampleEvidence \<Rightarrow> bool" where
  "taken env req p implementation version s \<longleftrightarrow>
     timestamp (SE_StartedAt s) \<and> timestamp (SE_ObservedAt s) \<and> startedAt s \<le> observedAt s \<and>
     sampleDigest s = SE_SampleSHA256 s \<and> SE_ReadyZPassed s \<and>
     list_all2 (evidence_for (P_workloadBindings p)) (LR_Workloads req) (SE_Workloads s) \<and>
     validateWorkloads [] (SE_Workloads s) = None \<and> SE_Workloads s \<noteq> [] \<and> length (SE_Workloads s) \<le> 32 \<and>
     (SE_TargetNodeReady s \<longrightarrow> SE_TargetNodePresent s) \<and> (\<not> SE_TargetNodePresent s \<longrightarrow> SE_TargetNodeUIDSHA256 s = []) \<and>
     0 \<le> SE_ControlPlaneReadyNodes s \<and> SE_ControlPlaneReadyNodes s \<le> 10000 \<and> 0 \<le> SE_EtcdReadyMembers s \<and>
     SE_EtcdReadyMembers s \<le> 10000 \<and> 0 \<le> SE_APIServerReadyMembers s \<and> SE_APIServerReadyMembers s \<le> 10000 \<and>
     validSHA256 (SE_ControlPlaneMemberSetSHA256 s) \<and> safeVM (SE_VM s) \<and> VE_BindingSHA256 (SE_VM s) = P_vmBinding p \<and>
     (\<forall>r. Rc_ProbeAdapterSHA256 r = Env_ProbeIdentity env \<longrightarrow> safeProbe r (SE_DataProbe s)) \<and>
     DE_BindingSHA256 (SE_DataProbe s) = P_probeBinding p \<and> DE_Implementation (SE_DataProbe s) = implementation \<and>
     DE_Version (SE_DataProbe s) = version \<and> safeTimes s \<and>
     DE_RequestSHA256 (SE_DataProbe s) =
       digestJSON (json_ProbeRequest (probe_request env req p (SE_Sequence s) (SE_Phase s)))"

lemma safeTimes_from:
  assumes "timestamp (SE_StartedAt s)" and "timestamp (SE_ObservedAt s)"
    and "canonicalTimestamp (DE_StartedAt (SE_DataProbe s)) = Some a" and "canonicalTimestamp (DE_CompletedAt (SE_DataProbe s)) = Some b"
    and "startedAt s \<le> a" and "a \<le> b" and "b \<le> observedAt s"
  shows "safeTimes s"
  using assms by (auto simp: safeTimes_def timestamp_def mustTimestamp_def split: option.splits)

lemma sample_taken:
  assumes "steady_clock env clock" and "timely_probe env clock implementation version" and "validateRequest req = Inr p"
    and "sampler_next env req p n phase w = (Inr s, w')"
  shows "taken env req p implementation version s \<and> SE_Sequence s = n + 1"
  using assms(4)
proof (rule sampler_next_Inr)
  fix started w0 scan members w1 etcd hostsEtcd w2 api hostsAPI w3 ws w4 vm w5 probe w6 observed
  assume now: "Env_Now env w = (started, w0)" "Env_Now env w6 = (observed, w')"
    and nodes: "read_nodes env req w0 = (Inr (scan, members), w1)"
    and etcd: "controlPlanePods env req ''etcd'' (NS_ReadyControlPlane scan) w1 = (Inr (etcd, hostsEtcd), w2)"
    and api: "controlPlanePods env req ''kube-apiserver'' (NS_ReadyControlPlane scan) w2 = (Inr (api, hostsAPI), w3)"
    and ws: "sample_workloads env (P_workloadBindings p) (NS_ReadyNames scan) (LR_Workloads req) w3 = (Inr ws, w4)"
    and vm: "sample_vm env req p (NS_ReadyNames scan) w4 = (Inr vm, w5)"
    and probe: "sample_probe env req p (n + 1) (next_phase phase (NS_TargetReady scan)) w5 = (Inr probe, w6)"
    and s: "SE_Sequence s = n + 1" "SE_Phase s = next_phase phase (NS_TargetReady scan)"
      "SE_StartedAt s = FormatRFC3339Nano started" "SE_ObservedAt s = FormatRFC3339Nano observed"
      "SE_TargetNodePresent s = NS_TargetPresent scan" "SE_TargetNodeReady s = NS_TargetReady scan"
      "SE_TargetNodeUIDSHA256 s = NS_TargetUID scan" "SE_ReadyZPassed s"
      "SE_ControlPlaneReadyNodes s = int (length (NS_ControlPlane scan))" "SE_EtcdReadyMembers s = etcd"
      "SE_APIServerReadyMembers s = api" "SE_ControlPlaneMemberSetSHA256 s = members" "SE_Workloads s = ws"
      "SE_VM s = vm" "SE_DataProbe s = probe" "sampleDigest s = SE_SampleSHA256 s"
  have world: "observer_world env (\<lambda>w w'. clock w \<le> clock w')"
    and clock: "\<And>w. clock w \<le> fst (Env_Now env w) \<and> fst (Env_Now env w) \<le> clock (snd (Env_Now env w)) \<and>
      time_in_range (fst (Env_Now env w))"
    using assms(1) by (simp_all add: steady_clock_def)
  have "clock w0 \<le> clock w1" "clock w1 \<le> clock w2" "clock w2 \<le> clock w3" "clock w3 \<le> clock w4" "clock w4 \<le> clock w5"
    using observer_world.read_nodes [OF world, of w0 req] observer_world.controlPlanePods [OF world, of w1 req "''etcd''"]
      observer_world.controlPlanePods [OF world, of w2 req "''kube-apiserver''"] observer_world.sample_workloads [OF world, of w3]
      observer_world.sample_vm [OF world, of w4 req p] nodes etcd api ws vm by (metis snd_conv)+
  moreover have t: "time_in_range started" "time_in_range observed" "started \<le> clock w0" "clock w6 \<le> observed"
    using clock [of w] clock [of w6] now by simp_all
  moreover note q = sample_probe_safe [OF assms(3) probe assms(2)]
  obtain a b where ab: "canonicalTimestamp (DE_StartedAt probe) = Some a" "canonicalTimestamp (DE_CompletedAt probe) = Some b"
    "a \<le> b" "clock w5 \<le> a" "b \<le> clock w6"
    using q(6) by blast
  ultimately have times: "safeTimes s" "startedAt s \<le> observedAt s"
    by (auto intro!: safeTimes_from [of s a b] simp: s)
  have wl: "list_all2 (evidence_for (P_workloadBindings p)) (LR_Workloads req) ws" "validateWorkloads [] ws = None" "ws \<noteq> []"
    "length ws \<le> 32"
    using sample_workloads_evidence [OF ws] sample_workloads_valid [OF assms(3) ws] by simp_all
  show ?thesis
    unfolding taken_def
    using times t(1,2) s wl read_nodes_valid [OF nodes] controlPlanePods_valid [OF etcd] controlPlanePods_valid [OF api]
      sample_vm_safe [OF assms(3) vm] q(1-5)
    by simp
qed

end
