(* ===== verification/Loss_Complete.thy ===== *)
theory Loss_Complete
  imports Loss_Samples
begin

text \<open>
  What a run has collected when its loops are done, and that the receipt made from it passes
  the checks on receipts.
\<close>

subsection \<open>Rounds\<close>

definition chained :: "'w LossEnv \<Rightarrow> run \<Rightarrow> string \<Rightarrow> string \<Rightarrow> polled \<Rightarrow> bool" where
  "chained env run implementation version st \<longleftrightarrow>
     list_all (taken env (Run_Request run) (Run_Parsed run) implementation version) (polled_all st) \<and>
     map SE_Sequence (polled_all st) = map int [1 ..< Suc (length (polled_all st))] \<and>
     Po_Sequence st = int (length (polled_all st)) \<and>
     successively (\<lambda>x y. \<not> observationGap x y (run_poll run)) (polled_all st)"

definition next_round :: "'w LossEnv \<Rightarrow> run \<Rightarrow> polled \<Rightarrow> 'w \<Rightarrow> polled \<Rightarrow> 'w \<Rightarrow> SampleEvidence \<Rightarrow> bool" where
  "next_round env run st w st' w' s \<longleftrightarrow> round_of env run st w st' w' s \<and> Po_Sequence st' = Po_Sequence st + 1 \<and>
     \<not> observationGap (last (polled_all st)) s (run_poll run)"

lemma chained_round:
  assumes "steady_clock env clock" and "timely_probe env clock implementation version"
    and "validateRequest (Run_Request run) = Inr (Run_Parsed run)"
    and "chained env run implementation version st" and "next_round env run st w st' w' s" and "polled_all st \<noteq> []"
  shows "chained env run implementation version st'"
proof -
  obtain msg phase where "poll_sample env run msg (Po_Sequence st) phase w = (Inr (Inr s), w')"
    and all: "polled_all st' = polled_all st @ [s]"
    using assms(5) by (auto simp: next_round_def round_of_def)
  then obtain w0 where "sampler_next env (Run_Request run) (Run_Parsed run) (Po_Sequence st) phase w0 = (Inr s, w')"
    by (auto simp: poll_sample_def split: prod.splits bool.splits)
  from sample_taken [OF assms(1-3) this] assms(4-6) show ?thesis
    by (simp add: chained_def all next_round_def successively_append_iff)
qed

lemma pre_body_round:
  assumes "pre_body env run st w = (Again st', w')" and "Po_Loss st = []" and "Po_Recovered st = []"
  shows "\<exists>s. next_round env run st w st' w' s"
proof -
  from assms obtain s where "round_of env run st w st' w' s" "\<not> observationGap (last (Po_Pre st)) s (run_poll run)"
    "Po_Sequence st' = Po_Sequence st + 1" by (rule pre_body_Again)
  with assms(2,3) show ?thesis by (auto simp: next_round_def polled_all_def)
qed

lemma fault_body_round:
  assumes "fault_body env run deadline st w = (Again st', w')" and "Po_Recovered st = []" and "Po_Pre st \<noteq> []"
  obtains s where "next_round env run st w st' w' s" and "Po_Loss st = []" and "Po_Recovered st' = []" and "observedAt s \<le> deadline"
    and "Po_Loss st' = [] \<and> Po_Pre st' = Po_Pre st @ [s] \<and> run_health run s PhasePreLoss 0 = None \<or>
      Po_Loss st' = [s] \<and> Po_Pre st' = Po_Pre st"
  using assms
  by (auto simp: fault_body_def next_round_def round_of_def polled_all_def Let_def
      split: if_splits prod.splits sum.splits option.splits; blast)

text \<open>The phase of the loss goes on with a healthy sample, or ends with a sample of the recovery.\<close>

definition loss_goes_on :: "run \<Rightarrow> polled \<Rightarrow> polled \<Rightarrow> SampleEvidence \<Rightarrow> bool" where
  "loss_goes_on run st st' s \<longleftrightarrow> Po_Loss st' = Po_Loss st @ [s] \<and> Po_Recovered st' = [] \<and>
     run_health run s PhaseLoss (loss_started st) = None \<and>
     Po_VMRecovered st' = (Po_VMRecovered st \<or> vmReadyOffTarget s) \<and>
     (Po_VMRecovered st' \<or> time_Sub (observedAt s) (loss_started st) \<le> P_vmUnavailable (Run_Parsed run))"

definition loss_ends :: "run \<Rightarrow> polled \<Rightarrow> polled \<Rightarrow> SampleEvidence \<Rightarrow> bool" where
  "loss_ends run st st' s \<longleftrightarrow> Po_Loss st' = Po_Loss st \<and> Po_Recovered st' = [s] \<and>
     run_health run s PhaseRecovered (loss_started st) = None \<and> Po_VMRecovered st' = Po_VMRecovered st \<and> Po_VMRecovered st \<and>
     P_lossWindow (Run_Parsed run) \<le> time_Sub (observedAt s) (loss_started st)"

lemma loss_body_round:
  assumes "loss_body env run st w = (Again st', w')" and "Po_Loss st \<noteq> []" and "Po_Pre st \<noteq> []"
  obtains s where "next_round env run st w st' w' s" and "Po_Recovered st = []" and "Po_Pre st' = Po_Pre st"
    and "observedAt s \<le> loss_started st + P_recoveryTimeout (Run_Parsed run)"
    and "loss_goes_on run st st' s \<or> loss_ends run st st' s"
  using assms
  by (auto simp: loss_body_def next_round_def round_of_def polled_all_def Let_def time_Add_def loss_goes_on_def loss_ends_def
      loss_started_def split: if_splits prod.splits sum.splits option.splits; blast)

lemma recovery_body_round:
  assumes "recovery_body env run st w = (Again st', w')" and "Po_Recovered st \<noteq> []" and "Po_Pre st \<noteq> []"
  obtains s where "next_round env run st w st' w' s" and "Po_Pre st' = Po_Pre st" and "Po_Loss st' = Po_Loss st"
    and "Po_Recovered st' = Po_Recovered st @ [s]" and "Po_VMRecovered st' = Po_VMRecovered st"
    and "observedAt s \<le> loss_started st + P_recoveryTimeout (Run_Parsed run)"
    and "run_health run s PhaseRecovered (loss_started st) = None"
proof -
  obtain s where "poll_sample env run ''one-server-loss recovery observation interrupted'' (Po_Sequence st) PhaseRecovered w = (Inr (Inr s), w')"
    "\<not> observationGap (last (Po_Recovered st)) s (run_poll run)"
    "observedAt s \<le> loss_started st + P_recoveryTimeout (Run_Parsed run)"
    "run_health run s PhaseRecovered (loss_started st) = None"
    and st': "st' = st\<lparr>Po_Sequence := Po_Sequence st + 1, Po_Recovered := Po_Recovered st @ [s]\<rparr>"
    using assms(1)
    by (auto simp: recovery_body_def Let_def time_Add_def split: if_splits prod.splits sum.splits option.splits)
  then show thesis
    using that [of s] assms(2,3) by (auto simp: next_round_def round_of_def polled_all_def)
qed

lemma recovery_body_Done:
  "recovery_body env run st w = (Done st', w') \<Longrightarrow> st' = st \<and> P_recoveryStability (Run_Parsed run) \<le>
     time_Sub (observedAt (last (Po_Recovered st))) (observedAt (hd (Po_Recovered st)))"
  by (auto simp: recovery_body_def Let_def split: if_splits prod.splits sum.splits option.splits)

subsection \<open>Health\<close>

text \<open>A receipt with the baseline and the server of a run, whose loss starts at a given time.\<close>

definition receipt_of :: "run \<Rightarrow> gotime \<Rightarrow> Receipt \<Rightarrow> bool" where
  "receipt_of run t r \<longleftrightarrow> Rc_Baseline r = baseline_of (Run_First run) \<and>
     Rc_TargetNodeUIDSHA256 r = SE_TargetNodeUIDSHA256 (Run_First run) \<and> mustTimestamp (PE_StartedAt (Rc_Loss r)) = t"

lemma baseline_of_fields [simp]:
  "LB_ControlPlaneNodes (baseline_of s) = SE_ControlPlaneReadyNodes s" "LB_EtcdMembers (baseline_of s) = SE_EtcdReadyMembers s"
  "LB_APIServerMembers (baseline_of s) = SE_APIServerReadyMembers s" "LB_VMUIDSHA256 (baseline_of s) = VE_VMUIDSHA256 (SE_VM s)"
  "LB_DataSHA256 (baseline_of s) = DE_DataSHA256 (SE_DataProbe s)"
  "LB_ValidatedBytes (baseline_of s) = DE_ValidatedBytes (SE_DataProbe s)"
  "LB_ControlPlaneMemberSetSHA256 (baseline_of s) = SE_ControlPlaneMemberSetSHA256 s"
  by (simp_all add: baseline_of_def Let_def)

lemma run_health_healthy:
  assumes "receipt_of run t r" and "run_health run s phase u = None" and "SE_ControlPlaneMemberSetSHA256 (Run_First run) \<noteq> []"
  shows "healthyIn phase r s"
  using assms
  by (auto simp: receipt_of_def run_health_def sampleHealth_def healthyIn_def continuous_def memberSetBound_def
      healthyWithTarget_def exactLoss_def sample_preloss_healthy_def Let_def phase_names split: if_splits)

lemma phaseHealth_steady:
  assumes "phase \<noteq> PhaseLoss" and "list_all (healthyIn phase r) ss"
  shows "phaseHealth phase r vm b ss = Inr b"
  using assms by (induction ss) (auto simp: healthyIn_def phase_names)

lemma phaseHealth_snoc:
  assumes "phaseHealth PhaseLoss r vm b ss = Inr b'" and "healthyIn PhaseLoss r s" and "b'' = (b' \<or> vmReadyOffTarget s)"
    and "b'' \<or> time_Sub (observedAt s) (mustTimestamp (PE_StartedAt (Rc_Loss r))) \<le> vm"
  shows "phaseHealth PhaseLoss r vm b (ss @ [s]) = Inr b''"
  using assms(1)
proof (induction ss arbitrary: b)
  case Nil
  then show ?case using assms(2-4) by (auto simp: healthyIn_def phase_names)
next
  case (Cons x ss)
  then show ?case by (auto simp: phase_names Let_def split: if_splits)
qed

subsection \<open>Before the loss\<close>

definition pre_collected :: "run \<Rightarrow> string \<Rightarrow> polled \<Rightarrow> bool" where
  "pre_collected run readyAt st \<longleftrightarrow> Po_Pre st \<noteq> [] \<and> hd (Po_Pre st) = Run_First run \<and>
     (\<forall>s \<in> set (Po_Pre st). run_health run s PhasePreLoss 0 = None) \<and> (\<exists>s \<in> set (Po_Pre st). SE_ObservedAt s = readyAt)"

definition awaiting :: "'w LossEnv \<Rightarrow> run \<Rightarrow> string \<Rightarrow> string \<Rightarrow> string \<Rightarrow> polled \<Rightarrow> bool" where
  "awaiting env run implementation version readyAt st \<longleftrightarrow> chained env run implementation version st \<and>
     pre_collected run readyAt st \<and> Po_Recovered st = [] \<and> length (Po_Loss st) \<le> 1 \<and>
     (\<forall>s \<in> set (Po_Loss st). observedAt s \<le> mustTimestamp readyAt + P_faultTimeout (Run_Parsed run))"

lemma pre_loop_chained:
  assumes "steady_clock env clock" and "timely_probe env clock implementation version"
    and "validateRequest (Run_Request run) = Inr (Run_Parsed run)"
    and "repeatedly (pre_body env run) st w = Some (Inr st', w')" and "settled run st" and "chained env run implementation version st"
  shows "awaiting env run implementation version (SE_ObservedAt (last (Po_Pre st'))) st'"
proof -
  let ?I = "\<lambda>st w. settled run st \<and> chained env run implementation version st"
  have "\<forall>x. Inr st' = (Inr x :: string + polled) \<longrightarrow> settled run x \<and> chained env run implementation version x"
  proof (rule repeatedly_induct [where I = ?I and
        Q = "\<lambda>r w. \<forall>x. r = Inr x \<longrightarrow> settled run x \<and> chained env run implementation version x", OF assms(4)])
    fix s w s' w'
    assume I: "?I s w" and again: "pre_body env run s w = (Again s', w')"
    from I have "Po_Loss s = []" "Po_Recovered s = []" "polled_all s \<noteq> []" by (simp_all add: settled_def polled_all_def)
    then obtain x where "next_round env run s w s' w' x" using pre_body_round [OF again] by blast
    with I settled_round [OF _ again] chained_round [OF assms(1-3)] \<open>polled_all s \<noteq> []\<close> show "?I s' w'" by blast
  qed (use assms(5,6) in \<open>auto dest: body_Done(1)\<close>)
  then show ?thesis
    by (auto simp: awaiting_def pre_collected_def settled_def intro: bexI [of _ "last (Po_Pre st')"])
qed

lemma fault_loop_awaiting:
  assumes "steady_clock env clock" and "timely_probe env clock implementation version"
    and "validateRequest (Run_Request run) = Inr (Run_Parsed run)"
    and "repeatedly (fault_body env run (mustTimestamp readyAt + P_faultTimeout (Run_Parsed run))) st w = Some (Inr st', w')"
    and "awaiting env run implementation version readyAt st"
  shows "awaiting env run implementation version readyAt st' \<and> Po_Loss st' \<noteq> []"
proof -
  let ?I = "awaiting env run implementation version readyAt"
  have "\<forall>x. Inr st' = (Inr x :: string + polled) \<longrightarrow> ?I x \<and> Po_Loss x \<noteq> []"
  proof (rule repeatedly_induct [where I = "\<lambda>st w. ?I st" and Q = "\<lambda>r w. \<forall>x. r = Inr x \<longrightarrow> ?I x \<and> Po_Loss x \<noteq> []", OF assms(4)])
    fix s w s' w'
    assume I: "?I s" and again: "fault_body env run (mustTimestamp readyAt + P_faultTimeout (Run_Parsed run)) s w = (Again s', w')"
    from I have pre: "Po_Recovered s = []" "Po_Pre s \<noteq> []" "polled_all s \<noteq> []"
      by (simp_all add: awaiting_def pre_collected_def polled_all_def)
    from again pre(1,2) obtain x where x: "next_round env run s w s' w' x" "Po_Recovered s' = []"
      "observedAt x \<le> mustTimestamp readyAt + P_faultTimeout (Run_Parsed run)"
      "Po_Loss s' = [] \<and> Po_Pre s' = Po_Pre s @ [x] \<and> run_health run x PhasePreLoss 0 = None \<or> Po_Loss s' = [x] \<and> Po_Pre s' = Po_Pre s"
      by (rule fault_body_round)
    have "chained env run implementation version s'"
      using chained_round [OF assms(1-3) _ x(1) pre(3)] I by (simp add: awaiting_def)
    with I x(2-4) show "?I s'" by (auto simp: awaiting_def pre_collected_def)
  qed (use assms(5) in \<open>auto dest: body_Done(2)\<close>)
  then show ?thesis by simp
qed

subsection \<open>The loss and the recovery\<close>

definition collected :: "'w LossEnv \<Rightarrow> run \<Rightarrow> string \<Rightarrow> string \<Rightarrow> string \<Rightarrow> polled \<Rightarrow> bool" where
  "collected env run implementation version readyAt st \<longleftrightarrow> chained env run implementation version st \<and>
     pre_collected run readyAt st \<and> Po_Loss st \<noteq> [] \<and>
     loss_started st \<le> mustTimestamp readyAt + P_faultTimeout (Run_Parsed run) \<and>
     (\<forall>r. receipt_of run (loss_started st) r \<longrightarrow>
       phaseHealth PhaseLoss r (P_vmUnavailable (Run_Parsed run)) False (Po_Loss st) = Inr (Po_VMRecovered st)) \<and>
     (\<forall>s \<in> set (Po_Recovered st). run_health run s PhaseRecovered (loss_started st) = None \<and>
       observedAt s \<le> loss_started st + P_recoveryTimeout (Run_Parsed run)) \<and>
     (Po_Recovered st \<noteq> [] \<longrightarrow> Po_VMRecovered st \<and>
       P_lossWindow (Run_Parsed run) \<le> time_Sub (observedAt (hd (Po_Recovered st))) (loss_started st))"

lemma members_known: "chained env run implementation version st \<Longrightarrow> pre_collected run readyAt st \<Longrightarrow>
    taken env (Run_Request run) (Run_Parsed run) implementation version (Run_First run)"
  unfolding chained_def pre_collected_def polled_all_def list_all_iff by (metis Un_iff hd_in_set set_append)

lemma taken_members: "taken env req p implementation version s \<Longrightarrow> SE_ControlPlaneMemberSetSHA256 s \<noteq> []"
  by (auto simp: taken_def validSHA256_iff)

lemma loss_goes_on_collected:
  assumes "collected env run implementation version readyAt st" and "chained env run implementation version st'"
    and "Po_Pre st' = Po_Pre st" and "loss_goes_on run st st' s" and "Po_Recovered st = []"
  shows "collected env run implementation version readyAt st'"
proof -
  note c = assms(1) [unfolded collected_def]
  have start: "loss_started st' = loss_started st" using c assms(4) by (auto simp: loss_goes_on_def loss_started_def)
  have "SE_ControlPlaneMemberSetSHA256 (Run_First run) \<noteq> []" using c members_known taken_members by blast
  then have "phaseHealth PhaseLoss r (P_vmUnavailable (Run_Parsed run)) False (Po_Loss st @ [s]) = Inr (Po_VMRecovered st')"
    if "receipt_of run (loss_started st) r" for r
    using that c assms(4) run_health_healthy [OF that, of s PhaseLoss]
    by (intro phaseHealth_snoc) (auto simp: loss_goes_on_def receipt_of_def)
  then show ?thesis
    using c assms start by (auto simp: collected_def loss_goes_on_def pre_collected_def)
qed

lemma loss_ends_collected:
  assumes "collected env run implementation version readyAt st" and "chained env run implementation version st'"
    and "Po_Pre st' = Po_Pre st" and "loss_ends run st st' s"
    and "observedAt s \<le> loss_started st + P_recoveryTimeout (Run_Parsed run)"
  shows "collected env run implementation version readyAt st'"
proof -
  have "loss_started st' = loss_started st" using assms(4) by (simp add: loss_ends_def loss_started_def)
  then show ?thesis using assms by (auto simp: collected_def loss_ends_def pre_collected_def)
qed

lemma loss_loop_collected:
  assumes "steady_clock env clock" and "timely_probe env clock implementation version"
    and "validateRequest (Run_Request run) = Inr (Run_Parsed run)"
    and "repeatedly (loss_body env run) st w = Some (Inr st', w')" and "collected env run implementation version readyAt st"
  shows "collected env run implementation version readyAt st' \<and> Po_Recovered st' \<noteq> []"
proof -
  let ?I = "collected env run implementation version readyAt"
  have "\<forall>x. Inr st' = (Inr x :: string + polled) \<longrightarrow> ?I x \<and> Po_Recovered x \<noteq> []"
  proof (rule repeatedly_induct [where I = "\<lambda>st w. ?I st" and Q = "\<lambda>r w. \<forall>x. r = Inr x \<longrightarrow> ?I x \<and> Po_Recovered x \<noteq> []", OF assms(4)])
    fix s w s' w'
    assume I: "?I s" and again: "loss_body env run s w = (Again s', w')"
    from I have pre: "Po_Loss s \<noteq> []" "Po_Pre s \<noteq> []" "polled_all s \<noteq> []" "chained env run implementation version s"
      by (simp_all add: collected_def pre_collected_def polled_all_def)
    from again pre(1,2) obtain x where x: "next_round env run s w s' w' x" "Po_Recovered s = []" "Po_Pre s' = Po_Pre s"
      "observedAt x \<le> loss_started s + P_recoveryTimeout (Run_Parsed run)" "loss_goes_on run s s' x \<or> loss_ends run s s' x"
      by (rule loss_body_round)
    have "chained env run implementation version s'" using chained_round [OF assms(1-3) pre(4) x(1) pre(3)] .
    with x(5) show "?I s'"
      using loss_goes_on_collected [OF I _ x(3) _ x(2)] loss_ends_collected [OF I _ x(3) _ x(4)] by blast
  qed (use assms(5) in \<open>auto dest: body_Done(3)\<close>)
  then show ?thesis by simp
qed

lemma recovery_loop_collected:
  assumes "steady_clock env clock" and "timely_probe env clock implementation version"
    and "validateRequest (Run_Request run) = Inr (Run_Parsed run)"
    and "repeatedly (recovery_body env run) st w = Some (Inr st', w')" and "collected env run implementation version readyAt st"
    and "Po_Recovered st \<noteq> []"
  shows "collected env run implementation version readyAt st' \<and> Po_Recovered st' \<noteq> [] \<and>
    P_recoveryStability (Run_Parsed run) \<le> time_Sub (observedAt (last (Po_Recovered st'))) (observedAt (hd (Po_Recovered st')))"
proof -
  let ?I = "\<lambda>st. collected env run implementation version readyAt st \<and> Po_Recovered st \<noteq> []"
  let ?Q = "\<lambda>st. ?I st \<and> P_recoveryStability (Run_Parsed run) \<le> time_Sub (observedAt (last (Po_Recovered st))) (observedAt (hd (Po_Recovered st)))"
  have "\<forall>x. Inr st' = (Inr x :: string + polled) \<longrightarrow> ?Q x"
  proof (rule repeatedly_induct [where I = "\<lambda>st w. ?I st" and Q = "\<lambda>r w. \<forall>x. r = Inr x \<longrightarrow> ?Q x", OF assms(4)])
    fix s w s' w'
    assume I: "?I s" and again: "recovery_body env run s w = (Again s', w')"
    from I have pre: "Po_Recovered s \<noteq> []" "Po_Pre s \<noteq> []" "polled_all s \<noteq> []" "chained env run implementation version s"
      by (simp_all add: collected_def pre_collected_def polled_all_def)
    from again pre(1,2) obtain x where x: "next_round env run s w s' w' x" "Po_Pre s' = Po_Pre s" "Po_Loss s' = Po_Loss s"
      "Po_Recovered s' = Po_Recovered s @ [x]" "Po_VMRecovered s' = Po_VMRecovered s"
      "observedAt x \<le> loss_started s + P_recoveryTimeout (Run_Parsed run)"
      "run_health run x PhaseRecovered (loss_started s) = None"
      by (rule recovery_body_round)
    have "chained env run implementation version s'" using chained_round [OF assms(1-3) pre(4) x(1) pre(3)] .
    moreover have "loss_started s' = loss_started s" by (simp add: loss_started_def x(3))
    ultimately show "?I s'" using I x(2-7) by (auto simp: collected_def pre_collected_def)
  qed (use assms(5,6) in \<open>auto dest: recovery_body_Done\<close>)
  then show ?thesis by simp
qed

subsection \<open>The sequence of samples\<close>

lemma gapless_successively:
  assumes "successively (\<lambda>x y. \<not> observationGap x y poll) (s # ss)" and "0 \<le> poll" and "poll \<le> maximumPollInterval"
    and "\<And>x. x \<in> set ss \<Longrightarrow> startedAt x \<le> observedAt x"
  shows "gapless poll (observedAt s) ss"
  using assms(1,4)
proof (induction ss arbitrary: s)
  case (Cons x ss)
  have "observedAt s \<le> startedAt x" "time_Sub (startedAt x) (observedAt s) \<le> 2 * poll"
    using Cons.prems(1) by (auto simp: observationGap_def Let_def)
  moreover from this(2) have "startedAt x - observedAt s \<le> 2 * poll"
    using time_Sub_le_iff [of "2 * poll" "startedAt x" "observedAt s"] assms(2,3) by (simp add: loss_bounds duration_defs)
  moreover have "gapless poll (observedAt x) ss" using Cons.prems by (intro Cons.IH) auto
  ultimately show ?case using Cons.prems(2) by simp
qed simp

lemma sequence_tail_holds:
  assumes "gapless poll p ss" and "list_all (goodSample r) ss" and "list_all (sameBinding f) ss"
    and "map SE_Sequence ss = map (\<lambda>k. i + 1 + int k) [0 ..< length ss]"
    and "distinct (map (\<lambda>s. DE_RequestSHA256 (SE_DataProbe s)) ss)"
    and "set reqs \<inter> (\<lambda>s. DE_RequestSHA256 (SE_DataProbe s)) ` set ss = {}" and "0 \<le> poll" and "poll \<le> maximumPollInterval"
  shows "validateSampleSequence poll r i (Some (p, f)) reqs ss = None"
  using assms(1-6)
proof (induction ss arbitrary: i p reqs)
  case (Cons s ss)
  have seq: "map (\<lambda>k. i + 1 + int k) [0 ..< length (s # ss)] = (i + 1) # map (\<lambda>k. i + 1 + 1 + int k) [0 ..< length ss]"
    by (simp add: upt_conv_Cons map_Suc_upt [symmetric] del: upt_Suc)
  have "time_Sub (startedAt s) p \<le> 2 * poll"
    using Cons.prems(1) assms(7,8) time_Sub_le_iff [of "2 * poll" "startedAt s" p] by (simp add: loss_bounds duration_defs)
  moreover have "validSHA256 (SE_SampleSHA256 s)" using Cons.prems(2) by (auto simp: goodSample_def) (metis validSHA256_digests(1))
  moreover have "validateSampleSequence poll r (i + 1) (Some (observedAt s, f)) (DE_RequestSHA256 (SE_DataProbe s) # reqs) ss = None"
    using Cons.prems seq by (intro Cons.IH) auto
  ultimately show ?case using Cons.prems seq by (simp add: goodSample_def Let_def not_less)
qed simp

lemma sequence_holds:
  assumes "gapless poll (observedAt s) ss" and "startedAt s \<le> observedAt s" and "list_all (goodSample r) (s # ss)"
    and "list_all (sameBinding s) ss" and "map SE_Sequence (s # ss) = map int [1 ..< Suc (length (s # ss))]"
    and "distinct (map (\<lambda>s. DE_RequestSHA256 (SE_DataProbe s)) (s # ss))" and "0 \<le> poll" and "poll \<le> maximumPollInterval"
  shows "validateSampleSequence poll r 0 None [] (s # ss) = None"
proof -
  have seq: "map int [1 ..< Suc (length (s # ss))] = 1 # map (\<lambda>k. 1 + 1 + int k) [0 ..< length ss]"
    by (simp add: upt_conv_Cons map_Suc_upt [symmetric] del: upt_Suc)
  have "validateSampleSequence poll r 1 (Some (observedAt s, s)) [DE_RequestSHA256 (SE_DataProbe s)] ss = None"
    using assms seq by (intro sequence_tail_holds) auto
  moreover have "validSHA256 (SE_SampleSHA256 s)" using assms(3) by (auto simp: goodSample_def) (metis validSHA256_digests(1))
  moreover have "SE_Sequence s = 1" using assms(5) unfolding seq by simp
  ultimately show ?thesis using assms(2,3) by (simp add: goodSample_def Let_def)
qed

lemma taken_binding:
  "taken env req p implementation version x \<Longrightarrow> taken env req p implementation version y \<Longrightarrow> sameBinding x y"
  by (auto simp: taken_def sameBinding_def intro: same_shape)

text \<open>A sample is safe when the server in it, if present, has the identity of the receipt.\<close>

lemma taken_good:
  assumes "taken env req p implementation version s" and "SE_Phase s \<in> {PhasePreLoss, PhaseLoss, PhaseRecovered}"
    and "SE_TargetNodePresent s \<longrightarrow> validSHA256 (SE_TargetNodeUIDSHA256 s)" and "Rc_ProbeAdapterSHA256 r = Env_ProbeIdentity env"
  shows "goodSample r s"
  using assms by (simp add: taken_def goodSample_def validateSafeSample_def safeNode_def)

lemma run_health_target:
  assumes "run_health run s phase t = None" and "phase \<in> {PhasePreLoss, PhaseLoss, PhaseRecovered}"
  shows "SE_Phase s = phase" and "SE_TargetNodePresent s \<Longrightarrow> SE_TargetNodeUIDSHA256 s = SE_TargetNodeUIDSHA256 (Run_First run)"
  using assms
  by (auto simp: run_health_def sampleHealth_def sample_preloss_healthy_def phase_names split: if_splits)

subsection \<open>The receipt\<close>

lemma run_receipt_sel [simp]:
  "Rc_SchemaVersion (run_receipt env run readyAt st) = LossReceiptSchemaVersion"
  "Rc_Status (run_receipt env run readyAt st) = ReceiptStatus"
  "Rc_RequestSHA256 (run_receipt env run readyAt st) = P_requestSHA256 (Run_Parsed run)"
  "Rc_RunNonceSHA256 (run_receipt env run readyAt st) = LR_RunNonceSHA256 (Run_Request run)"
  "Rc_TargetNodeUIDSHA256 (run_receipt env run readyAt st) = SE_TargetNodeUIDSHA256 (Run_First run)"
  "Rc_NodeUIDHashAlgorithm (run_receipt env run readyAt st) = NodeUIDHashAlgorithm"
  "Rc_KubectlExecutableSHA256 (run_receipt env run readyAt st) = Env_ReaderIdentity env"
  "Rc_ProbeAdapterSHA256 (run_receipt env run readyAt st) = Env_ProbeIdentity env"
  "Rc_StartedAt (run_receipt env run readyAt st) = SE_StartedAt (Run_First run)"
  "Rc_ReadyMarkerAt (run_receipt env run readyAt st) = readyAt"
  "Rc_CompletedAt (run_receipt env run readyAt st) = SE_ObservedAt (last (Po_Recovered st))"
  "Rc_PollInterval (run_receipt env run readyAt st) = LR_PollInterval (Run_Request run)"
  "Rc_FaultArrivalTimeout (run_receipt env run readyAt st) = LR_FaultArrivalTimeout (Run_Request run)"
  "Rc_MinimumLossWindow (run_receipt env run readyAt st) = LR_MinimumLossWindow (Run_Request run)"
  "Rc_RecoveryTimeout (run_receipt env run readyAt st) = LR_RecoveryTimeout (Run_Request run)"
  "Rc_RecoveryStabilityWindow (run_receipt env run readyAt st) = LR_RecoveryStabilityWindow (Run_Request run)"
  "Rc_MaximumVMUnavailable (run_receipt env run readyAt st) = VT_MaximumUnavailableDuration (LR_VM (Run_Request run))"
  "Rc_MinimumControlPlane (run_receipt env run readyAt st) = LR_MinimumControlPlaneMembers (Run_Request run)"
  "Rc_Baseline (run_receipt env run readyAt st) = baseline_of (Run_First run)"
  "Rc_PreLoss (run_receipt env run readyAt st) = phaseEvidence PhasePreLoss (SE_StartedAt (Run_First run)) (SE_ObservedAt (hd (Po_Loss st))) (Po_Pre st)"
  "Rc_Loss (run_receipt env run readyAt st) = phaseEvidence PhaseLoss (SE_ObservedAt (hd (Po_Loss st))) (SE_ObservedAt (hd (Po_Recovered st))) (Po_Loss st)"
  "Rc_Recovered (run_receipt env run readyAt st) = phaseEvidence PhaseRecovered (SE_ObservedAt (hd (Po_Recovered st))) (SE_ObservedAt (last (Po_Recovered st))) (Po_Recovered st)"
  by (simp_all add: run_receipt_def Let_def)

lemma run_receipt_sealed: "lossReceiptDigest (run_receipt env run readyAt st) = Rc_ReceiptSHA256 (run_receipt env run readyAt st)"
  unfolding run_receipt_def Let_def digests_of_sealed by simp

lemma phaseEvidence_sel [simp]:
  "PE_Phase (phaseEvidence phase a b ss) = phase" "PE_StartedAt (phaseEvidence phase a b ss) = a"
  "PE_CompletedAt (phaseEvidence phase a b ss) = b" "PE_Samples (phaseEvidence phase a b ss) = ss"
  "PE_SamplesSHA256 (phaseEvidence phase a b ss) = samplesDigest ss"
  by (simp_all add: phaseEvidence_def)

text \<open>A run that is done.\<close>

definition finished :: "'w LossEnv \<Rightarrow> run \<Rightarrow> string \<Rightarrow> string \<Rightarrow> string \<Rightarrow> polled \<Rightarrow> bool" where
  "finished env run implementation version readyAt st \<longleftrightarrow> validateRequest (Run_Request run) = Inr (Run_Parsed run) \<and>
     collected env run implementation version readyAt st \<and> Po_Recovered st \<noteq> [] \<and>
     P_recoveryStability (Run_Parsed run) \<le> time_Sub (observedAt (last (Po_Recovered st))) (observedAt (hd (Po_Recovered st))) \<and>
     2 * run_poll run \<le> time_Sub (mustTimestamp readyAt) (observedAt (Run_First run)) \<and>
     ValidateReadyMarker (ready_marker env run readyAt) = None"

lemma finished_taken:
  assumes "finished env run implementation version readyAt st" and "s \<in> set (polled_all st)"
  shows "taken env (Run_Request run) (Run_Parsed run) implementation version s"
  using assms by (simp add: finished_def collected_def chained_def list_all_iff)

lemma finished_samples:
  assumes "finished env run implementation version readyAt st"
  shows "Po_Pre st \<noteq> []" and "Po_Loss st \<noteq> []" and "Po_Recovered st \<noteq> []" and "hd (Po_Pre st) = Run_First run"
    and "s \<in> set (Po_Pre st) \<Longrightarrow> run_health run s PhasePreLoss 0 = None"
    and "s \<in> set (Po_Loss st) \<Longrightarrow> healthyIn PhaseLoss (run_receipt env run readyAt st) s"
    and "s \<in> set (Po_Recovered st) \<Longrightarrow> run_health run s PhaseRecovered (loss_started st) = None"
    and "receipt_of run (loss_started st) (run_receipt env run readyAt st)"
    and "taken env (Run_Request run) (Run_Parsed run) implementation version (Run_First run)"
proof -
  note f = assms [unfolded finished_def collected_def pre_collected_def]
  show rc: "receipt_of run (loss_started st) (run_receipt env run readyAt st)" by (simp add: receipt_of_def loss_started_def)
  show "Po_Pre st \<noteq> []" "Po_Loss st \<noteq> []" "Po_Recovered st \<noteq> []" "hd (Po_Pre st) = Run_First run" using f by simp_all
  show "s \<in> set (Po_Pre st) \<Longrightarrow> run_health run s PhasePreLoss 0 = None"
    "s \<in> set (Po_Recovered st) \<Longrightarrow> run_health run s PhaseRecovered (loss_started st) = None" using f by blast+
  show "healthyIn PhaseLoss (run_receipt env run readyAt st) s" if "s \<in> set (Po_Loss st)"
  proof -
    have "phaseHealth PhaseLoss (run_receipt env run readyAt st) (P_vmUnavailable (Run_Parsed run)) False (Po_Loss st) =
        Inr (Po_VMRecovered st)" using f rc by blast
    from phaseHealth_healthy [OF this] that show ?thesis by (simp add: list_all_iff)
  qed
  show "taken env (Run_Request run) (Run_Parsed run) implementation version (Run_First run)"
    using f members_known [of env run implementation version st readyAt] by (simp add: pre_collected_def)
qed

lemma finished_target:
  assumes "finished env run implementation version readyAt st"
  shows "validSHA256 (SE_TargetNodeUIDSHA256 (Run_First run))" and "validSHA256 (Env_ReaderIdentity env)"
    and "validSHA256 (Env_ProbeIdentity env)" and "timestamp readyAt"
  using assms
  by (auto simp: finished_def ValidateReadyMarker_def ready_marker_def Let_def split: if_splits)

lemma finished_good:
  assumes "finished env run implementation version readyAt st"
  shows "list_all (goodSample (run_receipt env run readyAt st)) (polled_all st)"
  unfolding list_all_iff
proof
  fix s assume s: "s \<in> set (polled_all st)"
  note f = finished_samples [OF assms]
  note first = finished_target(1) [OF assms]
  have "SE_Phase s \<in> {PhasePreLoss, PhaseLoss, PhaseRecovered} \<and>
      (SE_TargetNodePresent s \<longrightarrow> SE_TargetNodeUIDSHA256 s = SE_TargetNodeUIDSHA256 (Run_First run))"
    using s f(5,7) [of s] f(6) [of s] run_health_target [of run s PhasePreLoss] run_health_target [of run s PhaseRecovered]
    by (auto simp: polled_all_def healthyIn_def continuous_def exactLoss_def Let_def)
  then show "goodSample (run_receipt env run readyAt st) s"
    using first finished_taken [OF assms s] by (intro taken_good) auto
qed

lemma finished_header:
  assumes "finished env run implementation version readyAt st"
  shows "validReceiptHeader (run_receipt env run readyAt st)"
proof -
  have req: "validateRequest (Run_Request run) = Inr (Run_Parsed run)" using assms by (simp add: finished_def)
  have "last (Po_Recovered st) \<in> set (polled_all st)" using finished_samples(3) [OF assms] by (simp add: polled_all_def)
  from finished_taken [OF assms this] finished_samples(9) [OF assms]
  have "timestamp (SE_StartedAt (Run_First run))" "timestamp (SE_ObservedAt (last (Po_Recovered st)))" by (simp_all add: taken_def)
  then show ?thesis
    using finished_target [OF assms] validateRequest_Inr(4,10) [OF req] request_parts(7,10) [OF req]
      validSHA256_digests(4) [of "run_receipt env run readyAt st"]
    by (simp add: validReceiptHeader_def run_receipt_sealed)
qed

lemma finished_baseline:
  assumes "finished env run implementation version readyAt st"
  shows "validateBaseline (baseline_of (Run_First run)) (LR_MinimumControlPlaneMembers (Run_Request run)) = None"
proof -
  have "run_health run (Run_First run) PhasePreLoss 0 = None"
    using finished_samples(1,4,5) [OF assms] hd_in_set by metis
  moreover note t = finished_samples(9) [OF assms, unfolded taken_def safeVM_def]
  moreover have "safeProbe (run_receipt env run readyAt st) (SE_DataProbe (Run_First run))" using t by simp
  moreover have "baselineDigest (baseline_of (Run_First run)) = LB_BaselineSHA256 (baseline_of (Run_First run))"
    unfolding baseline_of_def Let_def digests_of_sealed by simp
  ultimately show ?thesis
    using validSHA256_digests(2) [of "baseline_of (Run_First run)"]
    by (auto simp: validateBaseline_def safeProbe_def run_health_def sampleHealth_def phase_names split: if_splits)
qed

lemma gapless_last: "gapless poll p ss \<Longrightarrow> s \<in> set ss \<Longrightarrow> observedAt s \<le> observedAt (last ss)"
proof (induction ss arbitrary: p)
  case (Cons x ss)
  then show ?case using gapless_after [of poll "observedAt x" ss "last ss"] by (cases "ss = []") fastforce+
qed simp

lemma finished_gapless:
  assumes "finished env run implementation version readyAt st"
  shows "gapless (run_poll run) (startedAt (Run_First run)) (polled_all st)"
proof -
  have req: "validateRequest (Run_Request run) = Inr (Run_Parsed run)" using assms by (simp add: finished_def)
  have poll: "0 \<le> run_poll run" "run_poll run \<le> maximumPollInterval"
    using validateRequest_Inr(5,6) [OF req] by (simp_all add: run_poll_def Second_def)
  obtain ss where ss: "polled_all st = Run_First run # ss"
    using finished_samples(1,4) [OF assms] by (cases "Po_Pre st") (auto simp: polled_all_def)
  have order: "startedAt x \<le> observedAt x" if "x \<in> set (polled_all st)" for x
    using finished_taken [OF assms that] by (simp add: taken_def)
  have "successively (\<lambda>x y. \<not> observationGap x y (run_poll run)) (Run_First run # ss)"
    using assms ss by (simp add: finished_def collected_def chained_def)
  then have "gapless (run_poll run) (observedAt (Run_First run)) ss"
    by (rule gapless_successively [OF _ poll]) (simp add: order ss)
  then show ?thesis using order [of "Run_First run"] poll(1) by (simp add: ss)
qed

lemma finished_order:
  assumes "finished env run implementation version readyAt st" and "s \<in> set (Po_Pre st)"
  shows "observedAt s \<le> loss_started st"
proof -
  note f = finished_samples [OF assms(1)]
  have g: "gapless (run_poll run) (startedAt (Run_First run)) (Po_Pre st)"
    "gapless (run_poll run) (observedAt (last (Po_Pre st))) (Po_Loss st)"
    using finished_gapless [OF assms(1)] f(1) by (simp_all add: polled_all_def gapless_append)
  have "observedAt (last (Po_Pre st)) \<le> observedAt (hd (Po_Loss st))"
    using gapless_after [OF g(2), of "hd (Po_Loss st)"] f(2) by simp
  with gapless_last [OF g(1) assms(2)] show ?thesis by (simp add: loss_started_def)
qed

lemma finished_timestamps:
  assumes "finished env run implementation version readyAt st" and "s \<in> set (polled_all st)"
  shows "timestamp (SE_StartedAt s)" and "timestamp (SE_ObservedAt s)"
  using finished_taken [OF assms] by (simp_all add: taken_def)

lemma finished_phases:
  assumes "finished env run implementation version readyAt st"
  shows "validatePhase PhasePreLoss (Rc_PreLoss (run_receipt env run readyAt st)) = None"
    and "validatePhase PhaseLoss (Rc_Loss (run_receipt env run readyAt st)) = None"
    and "validatePhase PhaseRecovered (Rc_Recovered (run_receipt env run readyAt st)) = None"
    and "validSampleTimes (run_receipt env run readyAt st)"
proof -
  note f = finished_samples(1-4) [OF assms]
  have "{hd (Po_Pre st), hd (Po_Loss st), hd (Po_Recovered st), last (Po_Recovered st)} \<subseteq> set (polled_all st)"
    using f(1-3) by (simp add: polled_all_def)
  then have "timestamp (SE_StartedAt (Run_First run))" "timestamp (SE_ObservedAt (Run_First run))" "timestamp (SE_ObservedAt (hd (Po_Loss st)))"
    "timestamp (SE_ObservedAt (hd (Po_Recovered st)))" "timestamp (SE_ObservedAt (last (Po_Recovered st)))"
    using finished_timestamps [OF assms] f(4) by auto
  then show "validatePhase PhasePreLoss (Rc_PreLoss (run_receipt env run readyAt st)) = None"
    "validatePhase PhaseLoss (Rc_Loss (run_receipt env run readyAt st)) = None"
    "validatePhase PhaseRecovered (Rc_Recovered (run_receipt env run readyAt st)) = None"
    "validSampleTimes (run_receipt env run readyAt st)"
    using f by (simp_all add: validatePhase_None validSampleTimes_def)
qed

lemma finished_timeline:
  assumes "finished env run implementation version readyAt st"
  shows "validTimeline (run_receipt env run readyAt st) (P_poll (Run_Parsed run)) (P_faultTimeout (Run_Parsed run))
    (P_lossWindow (Run_Parsed run)) (P_recoveryTimeout (Run_Parsed run)) (P_recoveryStability (Run_Parsed run))"
proof -
  let ?p = "Run_Parsed run"
  note d = assms [unfolded finished_def collected_def pre_collected_def]
  note f = finished_samples(1-4) [OF assms]
  have req: "validateRequest (Run_Request run) = Inr ?p" using d by simp
  note v = request_durations [OF req, THEN durationOf_canonical]
  have poll: "0 \<le> P_poll ?p" "P_poll ?p \<le> maximumPollInterval" "0 \<le> P_faultTimeout ?p" "P_faultTimeout ?p \<le> Hour"
    "0 \<le> P_recoveryTimeout ?p" "P_recoveryTimeout ?p \<le> Hour"
    using v by (auto simp: loss_bounds duration_defs)
  obtain x where x: "x \<in> set (Po_Pre st)" "SE_ObservedAt x = readyAt" using d by blast
  have ready: "canonicalTimestamp readyAt = Some (mustTimestamp readyAt)"
    using finished_target(4) [OF assms] by (auto simp: timestamp_def mustTimestamp_def)
  have "mustTimestamp readyAt \<le> loss_started st" using finished_order [OF assms x(1)] by (simp add: x(2))
  moreover have "observedAt (Run_First run) + 2 * P_poll ?p \<le> mustTimestamp readyAt"
    using time_Sub_geD [of "2 * run_poll run" "mustTimestamp readyAt" "observedAt (Run_First run)"] d poll(1)
    by (simp add: run_poll_def duration_defs)
  moreover have "time_Sub (loss_started st) (mustTimestamp readyAt) \<le> P_faultTimeout ?p"
    using d poll(3,4) by (simp add: time_Sub_le_iff duration_defs)
  moreover have "observedAt (last (Po_Recovered st)) \<le> loss_started st + P_recoveryTimeout ?p"
    using d last_in_set [OF f(3)] by blast
  then have "time_Sub (observedAt (last (Po_Recovered st))) (loss_started st) \<le> P_recoveryTimeout ?p"
    using poll(5,6) by (simp add: time_Sub_le_iff duration_defs)
  moreover have "list_ex (\<lambda>s. canonicalTimestamp (SE_ObservedAt s) = Some (mustTimestamp readyAt)) (Po_Pre st)"
    using x ready by (auto simp: list_ex_iff)
  ultimately show ?thesis
    using d f by (simp add: validTimeline_def time_Add_def loss_started_def)
qed

lemma finished_sequence:
  assumes "finished env run implementation version readyAt st"
    and "distinct (map (\<lambda>s. DE_RequestSHA256 (SE_DataProbe s)) (polled_all st))"
  shows "validateSampleSequence (P_poll (Run_Parsed run)) (run_receipt env run readyAt st) 0 None [] (polled_all st) = None"
proof -
  obtain s ss where ss: "polled_all st = s # ss" using finished_samples(1) [OF assms(1)] by (cases "polled_all st") (auto simp: polled_all_def)
  have req: "validateRequest (Run_Request run) = Inr (Run_Parsed run)" using assms(1) by (simp add: finished_def)
  have poll: "0 \<le> P_poll (Run_Parsed run)" "P_poll (Run_Parsed run) \<le> maximumPollInterval"
    using validateRequest_Inr(5,6) [OF req] by (simp_all add: Second_def)
  have "sameBinding s x" if "x \<in> set ss" for x
    using finished_taken [OF assms(1), of s] finished_taken [OF assms(1), of x] that taken_binding by (auto simp: ss)
  moreover have "map SE_Sequence (s # ss) = map int [1 ..< Suc (length (s # ss))]"
    using assms(1) by (simp add: finished_def collected_def chained_def ss)
  ultimately show ?thesis
    using finished_gapless [OF assms(1)] finished_good [OF assms(1)] assms(2) poll unfolding ss run_poll_def
    by (intro sequence_holds) (auto simp: list_all_iff)
qed

lemma finished_health:
  assumes "finished env run implementation version readyAt st" and "vmReadyOffTarget (last (Po_Loss st))"
  shows "validatePhaseHealth (Po_Pre st) PhasePreLoss (run_receipt env run readyAt st) vm = None"
    and "validatePhaseHealth (Po_Loss st) PhaseLoss (run_receipt env run readyAt st) (P_vmUnavailable (Run_Parsed run)) = None"
    and "validatePhaseHealth (Po_Recovered st) PhaseRecovered (run_receipt env run readyAt st) vm = None"
proof -
  note f = finished_samples [OF assms(1)]
  note healthy = run_health_healthy [OF f(8) _ taken_members [OF f(9)]]
  have "list_all (healthyIn PhasePreLoss (run_receipt env run readyAt st)) (Po_Pre st)"
    "list_all (healthyIn PhaseRecovered (run_receipt env run readyAt st)) (Po_Recovered st)"
    using healthy [of _ _ 0] healthy [of _ _ "loss_started st"] f(5,7) by (auto simp: list_all_iff)
  then show "validatePhaseHealth (Po_Pre st) PhasePreLoss (run_receipt env run readyAt st) vm = None"
    "validatePhaseHealth (Po_Recovered st) PhaseRecovered (run_receipt env run readyAt st) vm = None"
    by (auto simp: validatePhaseHealth_None phaseHealth_steady phase_names)
  show "validatePhaseHealth (Po_Loss st) PhaseLoss (run_receipt env run readyAt st) (P_vmUnavailable (Run_Parsed run)) = None"
    using assms f(8) by (auto simp: validatePhaseHealth_None finished_def collected_def)
qed

lemma finished_validate:
  assumes "finished env run implementation version readyAt st"
  shows "ValidateLossReceipt (run_receipt env run readyAt st) =
    validateEvidence (run_receipt env run readyAt st) (P_poll (Run_Parsed run)) (P_faultTimeout (Run_Parsed run))
      (P_lossWindow (Run_Parsed run)) (P_recoveryTimeout (Run_Parsed run)) (P_recoveryStability (Run_Parsed run))
      (P_vmUnavailable (Run_Parsed run))"
    and "SE_ControlPlaneMemberSetSHA256 (Run_First run) \<noteq> []"
proof -
  have "validateRequest (Run_Request run) = Inr (Run_Parsed run)" using assms by (simp add: finished_def)
  then show "ValidateLossReceipt (run_receipt env run readyAt st) =
      validateEvidence (run_receipt env run readyAt st) (P_poll (Run_Parsed run)) (P_faultTimeout (Run_Parsed run))
        (P_lossWindow (Run_Parsed run)) (P_recoveryTimeout (Run_Parsed run)) (P_recoveryStability (Run_Parsed run))
        (P_vmUnavailable (Run_Parsed run))"
    using finished_header [OF assms] request_durations by (simp add: ValidateLossReceipt_def)
  show "SE_ControlPlaneMemberSetSHA256 (Run_First run) \<noteq> []" using taken_members [OF finished_samples(9) [OF assms]] .
qed

lemma finished_receipt_valid:
  assumes "finished env run implementation version readyAt st" and "vmReadyOffTarget (last (Po_Loss st))"
    and "7 \<le> length (polled_all st)" and "int (length (polled_all st)) \<le> maximumSamples"
    and "distinct (map (\<lambda>s. DE_RequestSHA256 (SE_DataProbe s)) (polled_all st))"
  shows "ValidateLossReceipt (run_receipt env run readyAt st) = None"
  using assms(3,4) finished_validate(2) [OF assms(1)] finished_baseline [OF assms(1)] finished_phases [OF assms(1)]
    finished_timeline [OF assms(1)] finished_sequence [OF assms(1,5)] finished_health [OF assms(1,2)]
    run_receipt_sealed [of env run readyAt st]
  unfolding finished_validate(1) [OF assms(1)] validateEvidence_def allSamples_run_receipt by (simp add: NodeUIDHashAlgorithm_def)

text \<open>The receipt of a finished run with too few samples is refused.\<close>

lemma finished_receipt_short:
  assumes "finished env run implementation version readyAt st" and "length (polled_all st) < 7"
  shows "ValidateLossReceipt (run_receipt env run readyAt st) = Some ''one-server-loss receipt sample count is invalid''"
  using assms(2) finished_validate(2) [OF assms(1)] finished_baseline [OF assms(1)] finished_phases [OF assms(1)]
  unfolding finished_validate(1) [OF assms(1)] validateEvidence_def allSamples_run_receipt by (simp add: NodeUIDHashAlgorithm_def)

subsection \<open>The whole run\<close>

text \<open>The observer up to the point where it makes the receipt.\<close>

definition observe_loops :: "'w LossEnv \<Rightarrow> run \<Rightarrow> 'w \<Rightarrow> ((string + string \<times> polled) \<times> 'w) option" where
  "observe_loops env run w =
     after (repeatedly (pre_body env run)
       \<lparr>Po_Sequence = 1, Po_Pre = [Run_First run], Po_Loss = [], Po_Recovered = [], Po_VMRecovered = False\<rparr> w) (\<lambda>st w.
     let readyAt = SE_ObservedAt (last (Po_Pre st));
         faultDeadline = time_Add (mustTimestamp readyAt) (P_faultTimeout (Run_Parsed run)) in
     after (Some (observe_ready env run st w)) (\<lambda>st w.
     after (repeatedly (fault_body env run faultDeadline) st w) (\<lambda>st w.
     after (observe_loss env run st w) (\<lambda>st w.
     after (repeatedly (recovery_body env run) st w) (\<lambda>st w. Some (Inr (readyAt, st), w))))))"

lemma after_assoc: "after (after x f) g = after x (\<lambda>a w. after (f a w) g)"
  by (auto simp: after_def split: option.splits prod.splits sum.splits)

lemma observe_run_loops:
  "observe_run env run w = after (observe_loops env run w) (\<lambda>(readyAt, st). finish_run env run readyAt st)"
  by (simp add: observe_run_def observe_loops_def after_assoc Let_def) (simp add: after_def)

definition completes :: "'w LossEnv \<Rightarrow> Request \<Rightarrow> 'w \<Rightarrow> run \<Rightarrow> string \<Rightarrow> polled \<Rightarrow> 'w \<Rightarrow> bool" where
  "completes env req w run readyAt st w' \<longleftrightarrow> Run_Request run = req \<and> validateRequest req = Inr (Run_Parsed run) \<and>
     validSHA256 (Env_ReaderIdentity env) \<and> validSHA256 (Env_ProbeIdentity env) \<and>
     (\<exists>w0. sampler_next env req (Run_Parsed run) 0 PhasePreLoss w = (Inr (Run_First run), w0) \<and>
       SE_Phase (Run_First run) = PhasePreLoss \<and> run_health run (Run_First run) PhasePreLoss 0 = None \<and>
       observe_loops env run w0 = Some (Inr (readyAt, st), w'))"

lemma completes_Observe:
  assumes "completes env req w run readyAt st w'"
  shows "Observe env req w = finish_run env run readyAt st w'"
proof -
  obtain w0 where c: "Run_Request run = req" "validateRequest req = Inr (Run_Parsed run)"
    "validSHA256 (Env_ReaderIdentity env)" "validSHA256 (Env_ProbeIdentity env)"
    "sampler_next env req (Run_Parsed run) 0 PhasePreLoss w = (Inr (Run_First run), w0)"
    "SE_Phase (Run_First run) = PhasePreLoss" "run_health run (Run_First run) PhasePreLoss 0 = None"
    "observe_loops env run w0 = Some (Inr (readyAt, st), w')"
    using assms by (auto simp: completes_def)
  have run: "\<lparr>Run_Request = req, Run_Parsed = Run_Parsed run, Run_First = Run_First run\<rparr> = run" using c(1) by auto
  have "observe_run env run w0 = finish_run env run readyAt st w'"
    using c(8) by (simp add: observe_run_loops after_def)
  with c(2-7) show ?thesis by (simp add: Observe_def Let_def run)
qed

lemma after_Inr: "after x f = Some (Inr b, w') \<longleftrightarrow> (\<exists>a w. x = Some (Inr a, w) \<and> f a w = Some (Inr b, w'))"
  by (auto simp: after_Some)

lemma observe_ready_Inr:
  assumes "observe_ready env run st w = (Inr st', w')"
  shows "st' = st \<and> ValidateReadyMarker (ready_marker env run (SE_ObservedAt (last (Po_Pre st)))) = None"
  using assms by (auto simp: observe_ready_def Let_def split: option.splits prod.splits bool.splits)

lemma observe_loops_Inr:
  assumes "observe_loops env run w = Some (Inr (readyAt, st), w')"
  obtains st1 w1 w2 st2 w3 st3 w4 where
    "repeatedly (pre_body env run)
      \<lparr>Po_Sequence = 1, Po_Pre = [Run_First run], Po_Loss = [], Po_Recovered = [], Po_VMRecovered = False\<rparr> w = Some (Inr st1, w1)"
    and "readyAt = SE_ObservedAt (last (Po_Pre st1))" and "observe_ready env run st1 w1 = (Inr st1, w2)"
    and "repeatedly (fault_body env run (mustTimestamp readyAt + P_faultTimeout (Run_Parsed run))) st1 w2 = Some (Inr st2, w3)"
    and "observe_loss env run st2 w3 = Some (Inr st3, w4)" and "repeatedly (recovery_body env run) st3 w4 = Some (Inr st, w')"
  using assms observe_ready_Inr unfolding observe_loops_def after_Inr Let_def time_Add_def by fastforce

lemma observe_loss_collected:
  assumes "steady_clock env clock" and "timely_probe env clock implementation version"
    and "validateRequest (Run_Request run) = Inr (Run_Parsed run)"
    and "observe_loss env run st w = Some (Inr st', w')" and "awaiting env run implementation version readyAt st" and "Po_Loss st \<noteq> []"
  shows "collected env run implementation version readyAt st' \<and> Po_Recovered st' \<noteq> []"
proof -
  let ?st = "st\<lparr>Po_VMRecovered := vmReadyOffTarget (hd (Po_Loss st))\<rparr>"
  note a = assms(5) [unfolded awaiting_def]
  have all: "polled_all ?st = polled_all st" by (simp add: polled_all_def)
  obtain s where s: "Po_Loss st = [s]" using a assms(6) by (cases "Po_Loss st") auto
  have health: "run_health run s PhaseLoss (loss_started st) = None"
    and loop: "repeatedly (loss_body env run) ?st w = Some (Inr st', w')"
    using assms(4) by (auto simp: observe_loss_def s split: option.splits)
  have members: "SE_ControlPlaneMemberSetSHA256 (Run_First run) \<noteq> []" using a members_known taken_members by blast
  have "0 \<le> P_vmUnavailable (Run_Parsed run)"
    using request_durations(1,6) [OF assms(3), THEN durationOf_canonical] by (auto simp: loss_bounds duration_defs)
  then have "phaseHealth PhaseLoss r (P_vmUnavailable (Run_Parsed run)) False ([] @ [s]) = Inr (vmReadyOffTarget s)"
    if "receipt_of run (loss_started st) r" for r
    using that run_health_healthy [OF that health members]
    by (intro phaseHealth_snoc) (auto simp: receipt_of_def loss_started_def s time_Sub_def duration_defs)
  moreover have "chained env run implementation version ?st" "pre_collected run readyAt ?st" "loss_started ?st = loss_started st"
    using a all by (simp_all add: chained_def pre_collected_def loss_started_def del: upt_Suc)
  moreover have "loss_started st \<le> mustTimestamp readyAt + P_faultTimeout (Run_Parsed run)"
    using a by (simp add: loss_started_def s)
  ultimately have "collected env run implementation version readyAt ?st"
    using a by (simp add: collected_def s del: phaseHealth.simps)
  then show ?thesis by (rule loss_loop_collected [OF assms(1-3) loop])
qed

lemma completes_finished:
  assumes "steady_clock env clock" and "timely_probe env clock implementation version" and "completes env req w run readyAt st w'"
  shows "finished env run implementation version readyAt st"
proof -
  let ?start = "\<lparr>Po_Sequence = 1, Po_Pre = [Run_First run], Po_Loss = [], Po_Recovered = [], Po_VMRecovered = False\<rparr>"
  obtain w0 where req: "validateRequest (Run_Request run) = Inr (Run_Parsed run)"
    and first: "sampler_next env (Run_Request run) (Run_Parsed run) 0 PhasePreLoss w = (Inr (Run_First run), w0)"
      "run_health run (Run_First run) PhasePreLoss 0 = None"
    and loops: "observe_loops env run w0 = Some (Inr (readyAt, st), w')"
    using assms(3) by (auto simp: completes_def)
  from loops obtain st1 w1 w2 st2 w3 st3 w4 where l: "repeatedly (pre_body env run) ?start w0 = Some (Inr st1, w1)"
    "readyAt = SE_ObservedAt (last (Po_Pre st1))" "observe_ready env run st1 w1 = (Inr st1, w2)"
    "repeatedly (fault_body env run (mustTimestamp readyAt + P_faultTimeout (Run_Parsed run))) st1 w2 = Some (Inr st2, w3)"
    "observe_loss env run st2 w3 = Some (Inr st3, w4)" "repeatedly (recovery_body env run) st3 w4 = Some (Inr st, w')"
    by (rule observe_loops_Inr)
  have start: "settled run ?start" "chained env run implementation version ?start"
    using first(2) sample_taken [OF assms(1,2) req first(1)] by (simp_all add: settled_def chained_def polled_all_def)
  have "awaiting env run implementation version readyAt st1"
    using pre_loop_chained [OF assms(1,2) req l(1) start] l(2) by simp
  from fault_loop_awaiting [OF assms(1,2) req l(4) this]
  have "awaiting env run implementation version readyAt st2" "Po_Loss st2 \<noteq> []" by simp_all
  from observe_loss_collected [OF assms(1,2) req l(5) this]
  have "collected env run implementation version readyAt st3" "Po_Recovered st3 \<noteq> []" by simp_all
  from recovery_loop_collected [OF assms(1,2) req l(6) this]
  show ?thesis
    using req l(2) observe_ready_Inr [OF l(3)] pre_loop_settled(2) [OF l(1) start(1)] by (simp add: finished_def)
qed

lemma total_result: "\<exists>r w'. x = Some (r, w') \<and> (\<forall>a. r = Inr a \<longrightarrow> P a w') \<Longrightarrow> x = Some (Inr a, w') \<Longrightarrow> P a w'"
  by auto

lemma completes_bound:
  assumes clock: "steady_clock env clock" and "completes env req w run readyAt st w'"
  shows "int (length (polled_all st)) \<le> maximumSamples"
proof -
  let ?start = "\<lparr>Po_Sequence = 1, Po_Pre = [Run_First run], Po_Loss = [], Po_Recovered = [], Po_VMRecovered = False\<rparr>"
  let ?p = "Run_Parsed run" and ?S = "\<lambda>st. Po_Recovered st = [] \<and> length (Po_Loss st) \<le> 1"
  obtain w0 where req: "validateRequest (Run_Request run) = Inr ?p"
    and first: "sampler_next env (Run_Request run) ?p 0 PhasePreLoss w = (Inr (Run_First run), w0)"
    and loops: "observe_loops env run w0 = Some (Inr (readyAt, st), w')"
    using assms(2) by (auto simp: completes_def)
  from loops obtain st1 w1 w2 st2 w3 st3 w4 where l: "repeatedly (pre_body env run) ?start w0 = Some (Inr st1, w1)"
    "readyAt = SE_ObservedAt (last (Po_Pre st1))" "observe_ready env run st1 w1 = (Inr st1, w2)"
    "repeatedly (fault_body env run (mustTimestamp readyAt + P_faultTimeout ?p)) st1 w2 = Some (Inr st2, w3)"
    "observe_loss env run st2 w3 = Some (Inr st3, w4)" "repeatedly (recovery_body env run) st3 w4 = Some (Inr st, w')"
    by (rule observe_loops_Inr)
  note v = validateRequest_Inr [OF req]
  have poll: "0 < run_poll run" "run_poll run \<le> maximumPollInterval" and times: "0 \<le> P_faultTimeout ?p" "0 \<le> P_recoveryTimeout ?p"
    using v(5-8) by (auto simp: run_poll_def Second_def)
  have "few clock run ?start w0"
    using steady_sample [OF clock first] by (simp add: few_def polled_all_def last_time_def)
  from total_result [OF pre_loop [OF clock this poll] l(1)] have few: "few clock run st1 w1" .
  define c where "c = last_time st1"
  have c: "mustTimestamp readyAt = c" using few l(2) by (simp add: c_def few_def last_time_def polled_all_def)
  have "paced_in clock run c (c + P_faultTimeout ?p) ?S st1 w1"
    using few times(1) poll(1) by (simp add: few_def paced_in_def paced_def c_def mult_nonpos_nonneg)
  from total_result [OF observe_ready_total [OF clock this]] l(3)
  have "paced_in clock run c (c + P_faultTimeout ?p) ?S st1 w2" by blast
  from total_result [OF fault_loop [OF clock poll(1) this] l(4) [unfolded c]]
  have st2: "paced_in clock run c (c + P_faultTimeout ?p) ?S st2 w3" "Po_Loss st2 \<noteq> []" by blast+
  have last: "last_time st2 = loss_started st2" using st2 loss_started_last [of st2] by (simp add: paced_in_def)
  have "paced clock run (loss_started st2 - P_faultTimeout ?p) (loss_started st2) st2 w3"
    using st2 last by (auto simp: paced_in_def paced_def)
  from total_result [OF observe_loss_total [OF clock poll(1) times(2) st2(2) this last] l(5)]
  have "paced_in clock run (loss_started st2 - P_faultTimeout ?p) (loss_started st2 + P_recoveryTimeout ?p)
      (\<lambda>s. loss_started s = loss_started st2) st3 w4" .
  from total_result [OF recovery_loop [OF clock poll(1) HOL.refl this] l(6)]
  have "sample_bound run (run_receipt env run readyAt st)"
    by (auto simp: paced_in_def paced_def sample_bound_def allSamples_run_receipt)
  then have "sample_bound \<lparr>Run_Request = Run_Request run, Run_Parsed = ?p, Run_First = Run_First run\<rparr> (run_receipt env run readyAt st)"
    by (simp add: sample_bound_def run_poll_def)
  from sample_bound_estimated [OF req this] v(9) show ?thesis by (simp add: allSamples_run_receipt)
qed

subsection \<open>Probe requests\<close>

definition probe_text :: "'w LossEnv \<Rightarrow> Request \<Rightarrow> parsedRequest \<Rightarrow> SampleEvidence \<Rightarrow> string" where
  "probe_text env req p s = json_Marshal (json_ProbeRequest (probe_request env req p (SE_Sequence s) (SE_Phase s)))"

lemma int_text_inj: "int_text i = int_text j \<Longrightarrow> 0 \<le> i \<Longrightarrow> 0 \<le> j \<Longrightarrow> i = j"
  unfolding int_text_def by (metis digits_value_itoa eq_nat_nat_iff not_less)

lemma probe_text_sequence:
  assumes "probe_text env req p x = probe_text env req p y" and "0 \<le> SE_Sequence x" and "0 \<le> SE_Sequence y"
  shows "SE_Sequence x = SE_Sequence y"
proof -
  let ?q = "\<lambda>s. json_ProbeRequest (probe_request env req p (SE_Sequence s) (SE_Phase s))"
  have "json_ints (?q s)" for s by (auto simp: json_ProbeRequest_def JInt_def)
  then have "json_fix (?q x) = json_fix (?q y)" using json_Marshal_inj assms(1) unfolding probe_text_def by blast
  then have "int_text (SE_Sequence x) = int_text (SE_Sequence y)"
    by (simp add: json_ProbeRequest_def probe_request_def JInt_def)
  then show ?thesis using assms(2,3) int_text_inj by blast
qed

lemma finished_requests:
  assumes "finished env run implementation version readyAt st"
  shows "distinct (map (\<lambda>s. DE_RequestSHA256 (SE_DataProbe s)) (polled_all st)) \<or>
    (\<exists>x y. {x, y} \<subseteq> set (polled_all st) \<and>
      probe_text env (Run_Request run) (Run_Parsed run) x \<noteq> probe_text env (Run_Request run) (Run_Parsed run) y \<and>
      Sum256 (probe_text env (Run_Request run) (Run_Parsed run) x) = Sum256 (probe_text env (Run_Request run) (Run_Parsed run) y))"
proof (rule disjCI)
  let ?t = "probe_text env (Run_Request run) (Run_Parsed run)"
  assume none: "\<not> (\<exists>x y. {x, y} \<subseteq> set (polled_all st) \<and> ?t x \<noteq> ?t y \<and> Sum256 (?t x) = Sum256 (?t y))"
  have seq: "map SE_Sequence (polled_all st) = map int [1 ..< Suc (length (polled_all st))]"
    using assms by (simp add: finished_def collected_def chained_def)
  have "distinct (map int [1 ..< Suc (length (polled_all st))])" by (simp add: distinct_map)
  then have inj: "distinct (polled_all st)" "inj_on SE_Sequence (set (polled_all st))"
    unfolding seq [symmetric] by (simp_all add: distinct_map)
  have "set (map SE_Sequence (polled_all st)) \<subseteq> {i. 0 \<le> i}" unfolding seq by auto
  then have pos: "0 \<le> SE_Sequence s" if "s \<in> set (polled_all st)" for s using that by auto
  have digest: "DE_RequestSHA256 (SE_DataProbe s) = digestJSON (json_ProbeRequest (probe_request env (Run_Request run)
      (Run_Parsed run) (SE_Sequence s) (SE_Phase s)))" if "s \<in> set (polled_all st)" for s
    using finished_taken [OF assms that] by (simp add: taken_def)
  have "x = y" if "x \<in> set (polled_all st)" "y \<in> set (polled_all st)"
    "DE_RequestSHA256 (SE_DataProbe x) = DE_RequestSHA256 (SE_DataProbe y)" for x y
  proof -
    have "Sum256 (?t x) = Sum256 (?t y)"
      using that(3) digest [OF that(1)] digest [OF that(2)] by (simp add: digestJSON_eq probe_text_def)
    then have "?t x = ?t y" using none that(1,2) by auto
    from probe_text_sequence [OF this pos [OF that(1)] pos [OF that(2)]] show ?thesis
      using inj(2) that(1,2) by (auto dest: inj_onD)
  qed
  then show "distinct (map (\<lambda>s. DE_RequestSHA256 (SE_DataProbe s)) (polled_all st))"
    using inj(1) by (auto simp: distinct_map intro: inj_onI)
qed

text \<open>
  A drill whose loops are done is certified: with at least seven samples and the machine off
  the selected server in the last sample of the loss, the observer returns its receipt,
  unless two of its requests to the probe collide under SHA-256.
\<close>

theorem completed_drill_is_certified:
  assumes "steady_clock env clock" and "timely_probe env clock implementation version"
    and "completes env req w run readyAt st w'" and "7 \<le> length (polled_all st)" and "vmReadyOffTarget (last (Po_Loss st))"
  shows "Observe env req w = Some (Inr (run_receipt env run readyAt st), w') \<or>
    (\<exists>x y. {x, y} \<subseteq> set (polled_all st) \<and> probe_text env req (Run_Parsed run) x \<noteq> probe_text env req (Run_Parsed run) y \<and>
      Sum256 (probe_text env req (Run_Parsed run) x) = Sum256 (probe_text env req (Run_Parsed run) y))"
proof -
  note f = completes_finished [OF assms(1-3)]
  have req: "Run_Request run = req" using assms(3) by (simp add: completes_def)
  have "Observe env req w = Some (Inr (run_receipt env run readyAt st), w')"
    if "distinct (map (\<lambda>s. DE_RequestSHA256 (SE_DataProbe s)) (polled_all st))"
    using completes_Observe [OF assms(3)] finished_receipt_valid [OF f assms(5,4) completes_bound [OF assms(1,3)] that]
    by (simp add: finish_run_def Let_def)
  with finished_requests [OF f] show ?thesis unfolding req by blast
qed

text \<open>A drill that is done after fewer than seven samples is refused, whatever it has shown.\<close>

theorem short_drill_is_refused:
  assumes "steady_clock env clock" and "timely_probe env clock implementation version"
    and "completes env req w run readyAt st w'" and "length (polled_all st) < 7"
  shows "Observe env req w = Some (Inl ''one-server-loss receipt sample count is invalid'', w')"
  using completes_Observe [OF assms(3)] finished_receipt_short [OF completes_finished [OF assms(1-3)] assms(4)]
  by (simp add: finish_run_def Let_def)

end
