(* ===== verification/Sha256_Bits.thy ===== *)
theory Sha256_Bits
  imports Go_Sha256
begin

text \<open>
  SHA-256 evaluated on the bits of its words, lowest bit first. The digest of a concrete
  message is computed this way; the equality with \<^const>\<open>Sum256\<close> is proved for all messages.
\<close>

subsection \<open>Words as lists of bits\<close>

definition word_bits :: "u32 \<Rightarrow> bool list" where
  "word_bits w = map (bit w) [0 ..< 32]"

fun bits_add :: "bool \<Rightarrow> bool list \<Rightarrow> bool list \<Rightarrow> bool list" where
  "bits_add c (x # xs) (y # ys) =
     (if x then (if y then c # bits_add True xs ys else if c then False # bits_add True xs ys else True # bits_add False xs ys)
      else if y then (if c then False # bits_add True xs ys else True # bits_add False xs ys)
      else c # bits_add False xs ys)"
| "bits_add c _ _ = []"

fun bits_xor :: "bool list \<Rightarrow> bool list \<Rightarrow> bool list" where
  "bits_xor (x # xs) (y # ys) = (if x then \<not> y else y) # bits_xor xs ys"
| "bits_xor _ _ = []"

fun bits_ch :: "bool list \<Rightarrow> bool list \<Rightarrow> bool list \<Rightarrow> bool list" where
  "bits_ch (x # xs) (y # ys) (z # zs) = (if x then y else z) # bits_ch xs ys zs"
| "bits_ch _ _ _ = []"

fun bits_maj :: "bool list \<Rightarrow> bool list \<Rightarrow> bool list \<Rightarrow> bool list" where
  "bits_maj (x # xs) (y # ys) (z # zs) = (if x then (if y then True else z) else if y then z else False) # bits_maj xs ys zs"
| "bits_maj _ _ _ = []"

definition bits_rotate :: "nat \<Rightarrow> bool list \<Rightarrow> bool list" where
  "bits_rotate n xs = drop n xs @ take n xs"

definition bits_shift :: "nat \<Rightarrow> bool list \<Rightarrow> bool list" where
  "bits_shift n xs = drop n xs @ replicate n False"

lemma length_word_bits [simp]: "length (word_bits w) = 32"
  by (simp add: word_bits_def)

lemma nth_word_bits [simp]: "i < 32 \<Longrightarrow> word_bits w ! i \<longleftrightarrow> bit w i"
  by (simp add: word_bits_def)

lemma word_bits_xor: "word_bits (v XOR w) = bits_xor (word_bits v) (word_bits w)"
proof -
  have "bits_xor (map f is) (map g is) = map (\<lambda>i. f i \<noteq> g i) is" for f g :: "nat \<Rightarrow> bool" and "is"
    by (induction "is") auto
  then show ?thesis by (simp add: word_bits_def bit_simps)
qed

lemma word_bits_ch: "word_bits ((u AND v) XOR (NOT u AND w)) = bits_ch (word_bits u) (word_bits v) (word_bits w)"
proof -
  have "bits_ch (map f is) (map g is) (map h is) = map (\<lambda>i. if f i then g i else h i) is" for f g h :: "nat \<Rightarrow> bool" and "is"
    by (induction "is") auto
  then show ?thesis by (auto simp: word_bits_def bit_simps)
qed

lemma word_bits_maj: "word_bits ((u AND v) XOR (u AND w) XOR (v AND w)) = bits_maj (word_bits u) (word_bits v) (word_bits w)"
proof -
  have "bits_maj (map f is) (map g is) (map h is) = map (\<lambda>i. if f i then g i \<or> h i else g i \<and> h i) is"
    for f g h :: "nat \<Rightarrow> bool" and "is"
    by (induction "is") auto
  then show ?thesis by (auto simp: word_bits_def bit_simps)
qed

lemma word_bits_rotate: "n \<le> 32 \<Longrightarrow> word_bits (rotateRight n w) = bits_rotate n (word_bits w)"
  by (rule nth_equalityI)
    (auto simp: rotateRight_def bits_rotate_def bit_simps nth_append min_def dest: bit_imp_le_length split: if_splits)

lemma word_bits_shift: "n \<le> 32 \<Longrightarrow> word_bits (drop_bit n w) = bits_shift n (word_bits w)"
  by (rule nth_equalityI) (auto simp: bits_shift_def bit_simps nth_append dest: bit_imp_le_length)

text \<open>The value of a list of bits. The carry out of the highest bit is dropped.\<close>

definition bits_word :: "bool list \<Rightarrow> u32" where
  "bits_word = horner_sum of_bool 2"

lemma bits_word_Cons: "bits_word (x # xs) = of_bool x + 2 * bits_word xs"
  by (simp add: bits_word_def)

lemma bits_word_bits: "bits_word (word_bits w) = w"
proof -
  have "bits_word (word_bits w) = take_bit 32 w" unfolding bits_word_def word_bits_def by (rule horner_sum_bit_eq_take_bit)
  then show ?thesis by (simp add: take_bit_word_eq_self)
qed

lemma word_bits_word: "length xs = 32 \<Longrightarrow> word_bits (bits_word xs) = xs"
  by (rule nth_equalityI) (simp_all add: bits_word_def bit_horner_sum_bit_iff)

lemma length_bits_add: "length xs = length ys \<Longrightarrow> length (bits_add c xs ys) = length xs"
  by (induction c xs ys rule: bits_add.induct) auto

lemma carry_step:
  fixes x :: u32
  assumes "a + b + d = r + e * k" and "x + y + c = q + 2 * d"
  shows "(x + 2 * a) + (y + 2 * b) + c = q + 2 * r + 2 * e * k"
proof -
  have "(x + 2 * a) + (y + 2 * b) + c = (x + y + c) + 2 * (a + b)" by (simp add: distrib_left ac_simps)
  also have "\<dots> = q + 2 * (a + b + d)" unfolding assms(2) by (simp add: distrib_left ac_simps)
  also have "\<dots> = q + 2 * r + 2 * e * k" unfolding assms(1) by (simp add: distrib_left ac_simps)
  finally show ?thesis .
qed

lemma bits_add_value:
  "length xs = length ys \<Longrightarrow>
     \<exists>k. bits_word xs + bits_word ys + of_bool c = bits_word (bits_add c xs ys) + 2 ^ length xs * k"
proof (induction c xs ys rule: bits_add.induct)
  case (1 c x xs y ys)
  define d where "d \<longleftrightarrow> (if x then y \<or> c else y \<and> c)"
  have eq: "bits_add c (x # xs) (y # ys) = (x = (y = c)) # bits_add d xs ys" by (auto simp: d_def)
  obtain k where k: "bits_word xs + bits_word ys + of_bool d = bits_word (bits_add d xs ys) + 2 ^ length xs * k"
    using 1 by (cases x; cases y; cases c) (auto simp: d_def)
  have "(of_bool x + of_bool y + of_bool c :: u32) = of_bool (x = (y = c)) + 2 * of_bool d"
    by (cases x; cases y; cases c) (simp_all add: d_def)
  from carry_step [OF k this] show ?case unfolding eq bits_word_Cons by auto
qed (auto simp: bits_word_def)

lemma word_bits_add: "word_bits (v + w) = bits_add False (word_bits v) (word_bits w)"
proof -
  obtain k :: u32 where "v + w = bits_word (bits_add False (word_bits v) (word_bits w)) + 2 ^ 32 * k"
    using bits_add_value [of "word_bits v" "word_bits w" False] by (auto simp: bits_word_bits)
  moreover have "(2 :: u32) ^ 32 = 0" by simp
  ultimately have "v + w = bits_word (bits_add False (word_bits v) (word_bits w))" by (simp only: mult_zero_left add_0_right)
  then show ?thesis by (simp add: word_bits_word length_bits_add)
qed

subsection \<open>Numbers and characters as lists of bits\<close>

definition int_bits :: "int \<Rightarrow> bool list" where
  "int_bits k = map (bit k) [0 ..< 32]"

lemma word_bits_of_int: "word_bits (word_of_int k) = int_bits k"
  by (simp add: word_bits_def int_bits_def bit_word_of_int_iff)

fun num_bits :: "num \<Rightarrow> bool list" where
  "num_bits num.One = [True]"
| "num_bits (num.Bit0 n) = False # num_bits n"
| "num_bits (num.Bit1 n) = True # num_bits n"

lemma bit_num_bits: "bit (numeral n :: int) i \<longleftrightarrow> i < length (num_bits n) \<and> num_bits n ! i"
proof (induction n arbitrary: i)
  case One
  then show ?case by (cases i) (simp_all add: bit_1_iff)
next
  case (Bit0 n)
  then show ?case by (cases i) (simp_all add: bit_Suc)
next
  case (Bit1 n)
  then show ?case by (cases i) (simp_all add: bit_Suc)
qed

lemma int_bits_code [code]: "int_bits (Int.Pos n) = take 32 (num_bits n @ replicate 32 False)"
  by (rule nth_equalityI) (auto simp: int_bits_def bit_num_bits nth_append)

fun char_bits :: "char \<Rightarrow> bool list" where
  "char_bits (Char a b c d e f g h) = [a, b, c, d, e, f, g, h]"

fun bits_words :: "string \<Rightarrow> bool list list" where
  "bits_words (a # b # c # d # m) = (char_bits d @ char_bits c @ char_bits b @ char_bits a) # bits_words m"
| "bits_words _ = []"

lemma bits_word_char: "bits_word (char_bits c @ xs) = of_char c + 256 * bits_word xs"
proof (cases c)
  case (Char b0 b1 b2 b3 b4 b5 b6 b7)
  then have c: "of_char c = bits_word (char_bits c)" by (simp add: bits_word_def)
  have "length (char_bits c) = 8" by (simp add: Char)
  then show ?thesis unfolding c by (simp add: bits_word_def horner_sum_append)
qed

lemma word_bits_words: "map word_bits (sha256_words m) = bits_words m"
proof (induction m rule: sha256_words.induct)
  case (1 a b c d m)
  let ?bs = "char_bits d @ char_bits c @ char_bits b @ char_bits a"
  have "bits_word ?bs = ((of_char a * 256 + of_char b) * 256 + of_char c) * 256 + of_char d"
    using bits_word_char [of a "[]"] by (simp add: bits_word_char algebra_simps) (simp add: bits_word_def)
  moreover have "length (char_bits x) = 8" for x by (cases x) simp
  ultimately show ?case using word_bits_word [of ?bs] 1 by simp
qed auto

fun bits_bytes :: "bool list \<Rightarrow> string" where
  "bits_bytes (a # b # c # d # e # f # g # h # xs) = bits_bytes xs @ [Char a b c d e f g h]"
| "bits_bytes _ = []"

lemma upt_32: "[0 ..< 32] = [0, 1, 2, 3, 4, 5, 6, 7, 8, 9, 10, 11, 12, 13, 14, 15, 16, 17, 18, 19, 20, 21, 22, 23, 24, 25, 26, 27,
    28, 29, 30, 31]"
  by code_simp

lemma word_bytes_bits: "word_bytes w = bits_bytes (word_bits w)"
  unfolding word_bytes_def word_bits_def upt_32
  by (simp add: char_of_def bit_uint_iff bit_drop_bit_eq flip: numeral_2_eq_2)

subsection \<open>The compression\<close>

fun bits_extend :: "nat \<Rightarrow> bool list list \<Rightarrow> bool list list" where
  "bits_extend 0 w = w"
| "bits_extend (Suc n) w =
     (let x = w ! 14; y = w ! 1;
          s0 = bits_xor (bits_rotate 7 x) (bits_xor (bits_rotate 18 x) (bits_shift 3 x));
          s1 = bits_xor (bits_rotate 17 y) (bits_xor (bits_rotate 19 y) (bits_shift 10 y)) in
      bits_extend n (bits_add False (bits_add False (bits_add False (w ! 15) s0) (w ! 6)) s1 # w))"

fun bits_rounds :: "bool list list \<Rightarrow> bool list list \<Rightarrow> bool list list \<Rightarrow> bool list list" where
  "bits_rounds (k # ks) (w # ws) [a, b, c, d, e, f, g, h] =
     (let s1 = bits_xor (bits_rotate 6 e) (bits_xor (bits_rotate 11 e) (bits_rotate 25 e));
          t1 = bits_add False (bits_add False (bits_add False (bits_add False h s1) (bits_ch e f g)) k) w;
          s0 = bits_xor (bits_rotate 2 a) (bits_xor (bits_rotate 13 a) (bits_rotate 22 a));
          t2 = bits_add False s0 (bits_maj a b c) in
      bits_rounds ks ws [bits_add False t1 t2, a, b, c, bits_add False d t1, e, f, g])"
| "bits_rounds _ _ s = s"

definition state_bits :: "sha_state \<Rightarrow> bool list list" where
  "state_bits s = map word_bits [Sha_a s, Sha_b s, Sha_c s, Sha_d s, Sha_e s, Sha_f s, Sha_g s, Sha_h s]"

definition bits_block :: "bool list list \<Rightarrow> string \<Rightarrow> bool list list" where
  "bits_block s block = map2 (bits_add False) s
     (bits_rounds (map int_bits sha256_constants) (rev (bits_extend 48 (rev (bits_words block)))) s)"

fun bits_blocks :: "nat \<Rightarrow> string \<Rightarrow> bool list list \<Rightarrow> bool list list" where
  "bits_blocks 0 m s = s"
| "bits_blocks (Suc n) m s = bits_blocks n (drop 64 m) (bits_block s (take 64 m))"

definition bits_Sum256 :: "string \<Rightarrow> string" where
  "bits_Sum256 m =
     (let p = sha256_pad m in
      concat (map bits_bytes (bits_blocks (length p div 64) p (map int_bits [1779033703, 3144134277, 1013904242, 2773480762,
        1359893119, 2600822924, 528734635, 1541459225]))))"

lemma word_bits_extend: "16 \<le> length w \<Longrightarrow> map word_bits (sha256_extend n w) = bits_extend n (map word_bits w)"
proof (induction n arbitrary: w)
  case (Suc n)
  then show ?case by (simp add: Let_def word_bits_add word_bits_xor word_bits_rotate word_bits_shift)
qed simp

lemma word_bits_rounds: "state_bits (sha256_rounds ks ws s) = bits_rounds (map word_bits ks) (map word_bits ws) (state_bits s)"
proof (induction ks ws s rule: sha256_rounds.induct)
  case (1 k ks w ws s)
  have "bits_rounds (word_bits k # ks') (word_bits w # ws') (state_bits s) =
      bits_rounds ks' ws' (state_bits (sha256_round s k w))" for ks' ws'
    by (simp add: state_bits_def sha256_round_def Let_def word_bits_add word_bits_ch word_bits_maj)
      (simp add: word_bits_xor word_bits_rotate)
  with 1 show ?case by simp
qed (simp_all add: state_bits_def)

lemma length_sha256_words: "length (sha256_words m) = length m div 4"
  by (induction m rule: sha256_words.induct) auto

lemma word_bits_block:
  assumes "length block = 64"
  shows "state_bits (sha256_block s block) = bits_block (state_bits s) block"
proof -
  have "map word_bits (rev (sha256_extend 48 (rev (sha256_words block)))) = rev (bits_extend 48 (rev (bits_words block)))"
    using assms word_bits_extend [of "rev (sha256_words block)" 48]
    by (simp add: rev_map [symmetric] length_sha256_words word_bits_words)
  moreover have "map word_bits sha256_K = map int_bits sha256_constants"
    by (simp add: sha256_K_def word_bits_of_int)
  moreover define t where "t = sha256_rounds sha256_K (rev (sha256_extend 48 (rev (sha256_words block)))) s"
  ultimately have "state_bits t =
      bits_rounds (map int_bits sha256_constants) (rev (bits_extend 48 (rev (bits_words block)))) (state_bits s)"
    by (simp only: word_bits_rounds)
  moreover have "state_bits (sha256_block s block) = map2 (bits_add False) (state_bits s) (state_bits t)"
    by (simp add: sha256_block_def Let_def t_def [symmetric] state_bits_def word_bits_add)
  ultimately show ?thesis by (simp only: bits_block_def)
qed

lemma word_bits_blocks:
  "length m = 64 * n \<Longrightarrow> state_bits (sha256_blocks n m s) = bits_blocks n m (state_bits s)"
  by (induction n arbitrary: m s) (simp_all add: word_bits_block)

lemma Sum256_bits: "Sum256 m = bits_Sum256 m"
proof -
  have "length (sha256_pad m) = 64 * (length (sha256_pad m) div 64)"
    using sha256_pad_blocks [of m] by (metis mult.commute add_0_right div_mult_mod_eq)
  note word_bits_blocks [OF this, of sha256_init]
  moreover have "sha256_digest s = concat (map bits_bytes (state_bits s))" for s
    by (simp add: sha256_digest_def state_bits_def word_bytes_bits)
  moreover have "state_bits sha256_init = map int_bits [1779033703, 3144134277, 1013904242, 2773480762,
      1359893119, 2600822924, 528734635, 1541459225]"
    by (simp add: state_bits_def sha256_init_def word_bits_of_int [symmetric])
  ultimately show ?thesis by (simp add: Sum256_def bits_Sum256_def Let_def)
qed

text \<open>The digest of the one-block message of the standard.\<close>

lemma SHA256Hex_abc: "SHA256Hex ''abc'' = ''ba7816bf8f01cfea414140de5dae2223b00361a396177a9cb410ff61f20015ad''"
  unfolding SHA256Hex_def Sum256_bits by code_simp

end
