(* ===== verification/Loss_Drill.thy ===== *)
theory Loss_Drill
  imports Loss_Cluster Loss_Complete Sha256_Bits
begin

text \<open>
  A cluster with three servers that loses one of them for twenty seconds and gets it back,
  with the machine restarted on another server. The probe takes a given number of seconds
  for an answer. The observer carries out the whole drill on it.
\<close>

subsection \<open>The cluster\<close>

definition conditions_json :: "bool \<Rightarrow> json" where
  "conditions_json ready = JArray [text_members [(''type'', ''Ready''), (''status'', if ready then ''True'' else ''False'')]]"

definition drill_node :: "string \<Rightarrow> string \<Rightarrow> bool \<Rightarrow> json" where
  "drill_node name uid ready = object_json ''v1'' ''Node'' name [] uid [(''node-role.kubernetes.io/control-plane'', [])]
     [(''status'', JObject [(''conditions'', conditions_json ready)])]"

definition drill_nodes :: "bool \<Rightarrow> json list" where
  "drill_nodes ready = [drill_node ''server-1'' ''u-1'' ready, drill_node ''server-2'' ''u-2'' True,
     drill_node ''server-3'' ''u-3'' True]"

definition drill_pod :: "string \<Rightarrow> string \<Rightarrow> string \<Rightarrow> string \<Rightarrow> string \<Rightarrow> json" where
  "drill_pod name namespace key val host = object_json ''v1'' ''Pod'' name namespace name [(key, val)]
     [(''spec'', text_members [(''nodeName'', host)]),
      (''status'', JObject [(''phase'', JString ''Running''), (''conditions'', conditions_json True)])]"

definition drill_members :: "string \<Rightarrow> json list" where
  "drill_members component =
     [drill_pod (component @ ''-1'') ''kube-system'' ''component'' component ''server-1'',
      drill_pod (component @ ''-2'') ''kube-system'' ''component'' component ''server-2'',
      drill_pod (component @ ''-3'') ''kube-system'' ''component'' component ''server-3'']"

definition drill_web :: "json list" where
  "drill_web = [drill_pod ''web'' ''tenant'' ''app'' ''web'' ''server-2'']"

definition drill_vmi :: "string \<Rightarrow> json" where
  "drill_vmi host = object_json ''kubevirt.io/v1'' ''VirtualMachineInstance'' ''vm'' ''tenant'' ''u-4'' []
     [(''status'', JObject [(''phase'', JString ''Running''), (''nodeName'', JString host), (''conditions'', conditions_json True)])]"

text \<open>The first server is lost from second 25 on and back at second 45.\<close>

definition lost :: "int \<Rightarrow> bool" where
  "lost t \<longleftrightarrow> loss_at 25 \<le> t \<and> t < loss_at 45"

definition vm_host :: "int \<Rightarrow> string" where
  "vm_host t = (if t < loss_at 25 then ''server-1'' else ''server-2'')"

definition drill_list :: "int \<Rightarrow> string \<Rightarrow> string \<Rightarrow> json" where
  "drill_list t resource selector =
     (if resource = ''nodes'' then cluster_list ''NodeList'' (drill_nodes (\<not> lost t))
      else if selector = ''component=etcd'' then cluster_list ''PodList'' (drill_members ''etcd'')
      else if selector = ''component=kube-apiserver'' then cluster_list ''PodList'' (drill_members ''kube-apiserver'')
      else cluster_list ''PodList'' drill_web)"

definition drill_env :: "duration \<Rightarrow> int LossEnv" where
  "drill_env d = cluster_env
     \<lparr>Env_ListPage := (\<lambda>res ns sel cont n t. (Some (json_Marshal (drill_list t (R_Resource res) sel)), t)),
      Env_Get := (\<lambda>res ns name t.
        (Found (json_Marshal (if R_Kind res = ''VirtualMachine'' then cluster_vm else drill_vmi (vm_host t))), t)),
      Env_Observe := (\<lambda>q t. (Some (cluster_probe q (in_day t)), t + d))\<rparr>"

abbreviation drill_world :: "duration \<Rightarrow> (int \<times> ReadyMarker list) LossEnv" where
  "drill_world d \<equiv> recording (drill_env d)"

lemma drill_world_parts:
  "Env_ReaderIdentity (drill_world d) = hex64 CHR ''c''"
  "Env_ListPage (drill_world d) res ns sel cont n u = (Some (json_Marshal (drill_list (fst u) (R_Resource res) sel)), u)"
  "Env_Get (drill_world d) res ns name u =
     (Found (json_Marshal (if R_Kind res = ''VirtualMachine'' then cluster_vm else drill_vmi (vm_host (fst u)))), u)"
  "Env_ReadyZ (drill_world d) u = (True, u)"
  "Env_ProbeIdentity (drill_world d) = hex64 CHR ''6''"
  "Env_Observe (drill_world d) q u = (Some (cluster_probe q (in_day (fst u))), (fst u + d, snd u))"
  "Env_ReadyForFault (drill_world d) m u = (True, (fst u, snd u @ [m]))"
  "Env_Now (drill_world d) u = (in_day (fst u), u)"
  "Env_Sleep (drill_world d) t u =
     (if in_day (fst u) + t \<le> last_instant then (True, (in_day (fst u) + max 0 t, snd u)) else (False, u))"
  by (simp_all add: recording_def lifted_def drill_env_def cluster_env_def)

lemma in_day_mono: "t \<le> u \<Longrightarrow> in_day t \<le> in_day u"
  by (auto simp: in_day_def)

lemma in_day_sleep: "in_day t + k \<le> last_instant \<Longrightarrow> in_day t + k \<le> in_day (in_day t + max 0 k)"
  using in_day_bounds [of t] by (subst in_day_id) auto

lemma drill_clock:
  assumes "0 \<le> d"
  shows "steady_clock (drill_world d) (\<lambda>u. in_day (fst u))"
  unfolding steady_clock_def
proof (intro conjI allI impI)
  show "observer_world (drill_world d) (\<lambda>w w'. in_day (fst w) \<le> in_day (fst w'))"
    by unfold_locales (use assms in \<open>auto simp: drill_world_parts intro: in_day_mono\<close>)
qed (auto simp: drill_world_parts in_day_sleep split: if_splits)

lemma drill_probe_timely:
  assumes "0 \<le> d"
  shows "timely_probe (drill_world d) (\<lambda>u. in_day (fst u)) ''probe'' ''v1''"
  using assms unfolding timely_probe_def by (auto simp: drill_world_parts cluster_probe_def intro: in_day_mono)

subsection \<open>Readings\<close>

definition drill_documents :: "json list" where
  "drill_documents = [cluster_list ''NodeList'' (drill_nodes True), cluster_list ''NodeList'' (drill_nodes False),
     cluster_list ''PodList'' (drill_members ''etcd''), cluster_list ''PodList'' (drill_members ''kube-apiserver''),
     cluster_list ''PodList'' drill_web, cluster_vm, drill_vmi ''server-1'', drill_vmi ''server-2'']"

lemma drill_documents_read:
  assumes "v \<in> set drill_documents"
  shows "json_check (json_Marshal v) = Inr v" and "length (json_Marshal v) \<le> 10000"
proof -
  have "list_all (\<lambda>v. json_fix v = v) drill_documents" by code_simp
  moreover have "list_all (\<lambda>v. inspectValue 0 v = Some False) drill_documents" by code_simp
  moreover have "list_all (\<lambda>v. length (json_Marshal v) \<le> 2000) drill_documents" by code_simp
  moreover have "list_all json_ints drill_documents"
    by (simp add: drill_documents_def cluster_list_def drill_nodes_def drill_node_def drill_members_def drill_web_def
        drill_pod_def cluster_vm_def drill_vmi_def object_json_def text_members_def conditions_json_def)
  ultimately show "json_check (json_Marshal v) = Inr v" "length (json_Marshal v) \<le> 10000"
    using assms json_check_Marshal [of v] by (auto simp: MaxDocumentBytes_def list_all_iff)
qed

text \<open>The objects are decoded for any names; only the checks on names are evaluated.\<close>

definition drill_conditions :: "bool \<Rightarrow> kube_condition list" where
  "drill_conditions ready = [\<lparr>C_Type = ''Ready'', C_Status = if ready then ''True'' else ''False''\<rparr>]"

lemma conditionTrue_drill [simp]: "conditionTrue (drill_conditions ready) ''Ready'' \<longleftrightarrow> ready"
  by (simp add: drill_conditions_def conditionTrue_def)

lemma drill_metadata_decoded:
  "metadata_decoder (JObject [(''name'', JString name), (''namespace'', JString namespace), (''uid'', JString uid),
     (''resourceVersion'', JString ''5''), (''labels'', text_members [(k, v)])]) zero_metadata =
   Some (cluster_metadata name namespace uid [(k, v)])"
  by (simp add: metadata_decoder_def zero_metadata_def cluster_metadata_def text_members_def decoding)

lemma drill_conditions_decoded: "conditions_decoder (conditions_json ready) [] = Some (drill_conditions ready)"
  by (simp add: conditions_decoder_def condition_decoder_def conditions_json_def drill_conditions_def text_members_def decoding)

lemma drill_node_decoded:
  "node_decoder (drill_node name uid ready) zero_node = Some \<lparr>N_APIVersion = ''v1'', N_Kind = ''Node'',
     N_Metadata = cluster_metadata name [] uid [(''node-role.kubernetes.io/control-plane'', [])],
     N_Conditions = drill_conditions ready\<rparr>"
  by (simp add: node_decoder_def drill_node_def object_json_def zero_node_def decode_struct_def field_decoder_def into_def
      decode_string_def drill_metadata_decoded drill_conditions_decoded)

lemma drill_pod_decoded:
  "pod_decoder (drill_pod name namespace k v host) zero_pod = Some \<lparr>Pod_APIVersion = ''v1'', Pod_Kind = ''Pod'',
     Pod_Metadata = cluster_metadata name namespace name [(k, v)], Pod_NodeName = host, Pod_Phase = ''Running'',
     Pod_Conditions = drill_conditions True\<rparr>"
  by (simp add: pod_decoder_def drill_pod_def object_json_def zero_pod_def decode_struct_def field_decoder_def into_def
      decode_string_def drill_metadata_decoded drill_conditions_decoded text_members_def [of "[(''nodeName'', host)]"])

lemma object_names:
  "list_all (\<lambda>n. list_all (\<lambda>k. fold_name k \<noteq> fold_name n) [''apiVersion'', ''kind'', ''metadata'']) [''spec'', ''status'']"
  by code_simp

lemma drill_object_decoded:
  "object_decoder (drill_node name uid ready) zero_object = Some \<lparr>O_APIVersion = ''v1'', O_Kind = ''Node'',
     O_Metadata = cluster_metadata name [] uid [(''node-role.kubernetes.io/control-plane'', [])]\<rparr>"
  "object_decoder (drill_pod name namespace k v host) zero_object = Some \<lparr>O_APIVersion = ''v1'', O_Kind = ''Pod'',
     O_Metadata = cluster_metadata name namespace name [(k, v)]\<rparr>"
  using object_names
  by (simp_all add: object_decoder_def drill_node_def drill_pod_def object_json_def zero_object_def decode_struct_def
      field_decoder_def into_def decode_string_def drill_metadata_decoded)

subsection \<open>Lists\<close>

lemma drill_names:
  "list_all validDNSName [''server-1'', ''server-2'', ''server-3'', ''etcd-1'', ''etcd-2'', ''etcd-3'', ''kube-apiserver-1'',
     ''kube-apiserver-2'', ''kube-apiserver-3'', ''web'']"
  by code_simp

lemma drill_metadata_valid:
  assumes "validDNSName name" and "uid \<noteq> []" and "length uid \<le> 256"
  shows "validObjectMetadata (cluster_metadata name namespace uid labels) namespace"
  using assms by (simp add: validObjectMetadata_def cluster_metadata_def)

lemma drill_decoded:
  "validDNSName name \<Longrightarrow> uid \<noteq> [] \<Longrightarrow> length uid \<le> 256 \<Longrightarrow>
     decodeNode (drill_node name uid ready) = Inr \<lparr>N_APIVersion = ''v1'', N_Kind = ''Node'',
       N_Metadata = cluster_metadata name [] uid [(''node-role.kubernetes.io/control-plane'', [])],
       N_Conditions = drill_conditions ready\<rparr>"
  "validDNSName name \<Longrightarrow> name \<noteq> [] \<Longrightarrow> length name \<le> 256 \<Longrightarrow>
     decodePod (drill_pod name namespace k v host) namespace = Inr \<lparr>Pod_APIVersion = ''v1'', Pod_Kind = ''Pod'',
       Pod_Metadata = cluster_metadata name namespace name [(k, v)], Pod_NodeName = host, Pod_Phase = ''Running'',
       Pod_Conditions = drill_conditions True\<rparr>"
  by (simp_all add: decodeNode_def decodePod_def drill_node_decoded drill_pod_decoded drill_metadata_valid)

lemma drill_listed:
  "validDNSName name \<Longrightarrow> uid \<noteq> [] \<Longrightarrow> length uid \<le> 256 \<Longrightarrow>
     listed_object nodeResource [] (drill_node name uid ready) = Some \<lparr>O_APIVersion = ''v1'', O_Kind = ''Node'',
       O_Metadata = cluster_metadata name [] uid [(''node-role.kubernetes.io/control-plane'', [])]\<rparr>"
  "validDNSName name \<Longrightarrow> name \<noteq> [] \<Longrightarrow> length name \<le> 256 \<Longrightarrow>
     listed_object podResource namespace (drill_pod name namespace k v host) = Some \<lparr>O_APIVersion = ''v1'', O_Kind = ''Pod'',
       O_Metadata = cluster_metadata name namespace name [(k, v)]\<rparr>"
  by (simp_all add: listed_object_def drill_object_decoded drill_metadata_valid nodeResource_def podResource_def
      resource_apiVersion_def)

lemma drill_identity:
  "objectSortIdentity (drill_node name uid ready) = [CHR 0x00] @ name @ [CHR 0x00] @ uid"
  "objectSortIdentity (drill_pod name namespace k v host) = namespace @ [CHR 0x00] @ name @ [CHR 0x00] @ name"
  by (simp_all add: objectSortIdentity_def drill_object_decoded object_identity_def cluster_metadata_def)

lemma drill_identities_sorted:
  "sorted (map objectSortIdentity (drill_nodes ready))" "sorted (map objectSortIdentity (drill_members ''etcd''))"
  "sorted (map objectSortIdentity (drill_members ''kube-apiserver''))" "sorted (map objectSortIdentity drill_web)"
  by (simp_all add: drill_nodes_def drill_members_def drill_web_def drill_identity)

lemma drill_collected:
  "\<exists>ids. collect_items nodeResource [] (drill_nodes ready) [] [] = Inr (drill_nodes ready, ids)"
  "\<exists>ids. collect_items podResource ''kube-system'' (drill_members ''etcd'') [] [] = Inr (drill_members ''etcd'', ids)"
  "\<exists>ids. collect_items podResource ''kube-system'' (drill_members ''kube-apiserver'') [] [] =
     Inr (drill_members ''kube-apiserver'', ids)"
  "\<exists>ids. collect_items podResource ''tenant'' drill_web [] [] = Inr (drill_web, ids)"
  using drill_names
  by (simp_all add: drill_nodes_def drill_members_def drill_web_def drill_listed object_identity_def cluster_metadata_def)

lemma drill_reads:
  "listAll (drill_world d) nodeResource [] [] u = (Inr (drill_nodes (\<not> lost (fst u))), u)"
  "listAll (drill_world d) podResource ''kube-system'' ''component=etcd'' u = (Inr (drill_members ''etcd''), u)"
  "listAll (drill_world d) podResource ''kube-system'' ''component=kube-apiserver'' u = (Inr (drill_members ''kube-apiserver''), u)"
  "listAll (drill_world d) podResource ''tenant'' ''app=web'' u = (Inr drill_web, u)"
proof -
  have "cluster_list ''NodeList'' (drill_nodes r) \<in> set drill_documents" for r
    by (cases r) (simp_all add: drill_documents_def)
  note nodes = drill_documents_read [OF this]
  have "cluster_list ''PodList'' items \<in> set drill_documents"
    if "items \<in> {drill_members ''etcd'', drill_members ''kube-apiserver'', drill_web}" for items
    using that by (auto simp: drill_documents_def)
  note pods = drill_documents_read [OF this]
  have kinds: "R_ListKind nodeResource = ''NodeList''" "R_ListKind podResource = ''PodList''" "R_Resource nodeResource = ''nodes''"
    "R_Resource podResource = ''pods''" "resource_apiVersion nodeResource = ''v1''" "resource_apiVersion podResource = ''v1''"
    by (simp_all add: nodeResource_def podResource_def resource_apiVersion_def)
  note page = listAll_page [OF _ _ _ _ drill_collected(1) sort_key_id_if_sorted [OF drill_identities_sorted(1)]]
    listAll_page [OF _ _ _ _ drill_collected(2) sort_key_id_if_sorted [OF drill_identities_sorted(2)]]
    listAll_page [OF _ _ _ _ drill_collected(3) sort_key_id_if_sorted [OF drill_identities_sorted(3)]]
    listAll_page [OF _ _ _ _ drill_collected(4) sort_key_id_if_sorted [OF drill_identities_sorted(4)]]
  show "listAll (drill_world d) nodeResource [] [] u = (Inr (drill_nodes (\<not> lost (fst u))), u)"
    by (rule page(1)) (use nodes in \<open>simp_all add: drill_world_parts drill_list_def kinds\<close>)
  show "listAll (drill_world d) podResource ''kube-system'' ''component=etcd'' u = (Inr (drill_members ''etcd''), u)"
    by (rule page(2)) (use pods in \<open>simp_all add: drill_world_parts drill_list_def kinds\<close>)
  show "listAll (drill_world d) podResource ''kube-system'' ''component=kube-apiserver'' u = (Inr (drill_members ''kube-apiserver''), u)"
    by (rule page(3)) (use pods in \<open>simp_all add: drill_world_parts drill_list_def kinds\<close>)
  show "listAll (drill_world d) podResource ''tenant'' ''app=web'' u = (Inr drill_web, u)"
    by (rule page(4)) (use pods in \<open>simp_all add: drill_world_parts drill_list_def kinds\<close>)
qed

subsection \<open>One sample\<close>

definition drill_scan :: "bool \<Rightarrow> node_scan" where
  "drill_scan up = \<lparr>NS_ControlPlane = [''u-3'', ''u-2''] @ (if up then [''u-1''] else []),
     NS_ReadyNames = [''server-3'', ''server-2''] @ (if up then [''server-1''] else []),
     NS_ReadyControlPlane = [''server-3'', ''server-2''] @ (if up then [''server-1''] else []),
     NS_TargetPresent = True, NS_TargetReady = up, NS_TargetUID = NodeUIDSHA256 ''u-1''\<rparr>"

lemma scan_drill_node:
  "scan_node target \<lparr>N_APIVersion = ''v1'', N_Kind = ''Node'',
     N_Metadata = cluster_metadata name [] uid [(''node-role.kubernetes.io/control-plane'', [])],
     N_Conditions = drill_conditions ready\<rparr>
     \<lparr>NS_ControlPlane = us, NS_ReadyNames = ns, NS_ReadyControlPlane = cs, NS_TargetPresent = p, NS_TargetReady = r, NS_TargetUID = h\<rparr> =
   \<lparr>NS_ControlPlane = if ready then List.insert uid us else us, NS_ReadyNames = if ready then List.insert name ns else ns,
     NS_ReadyControlPlane = if ready then List.insert name cs else cs, NS_TargetPresent = p \<or> name = target,
     NS_TargetReady = if name = target then ready else r, NS_TargetUID = if name = target then NodeUIDSHA256 uid else h\<rparr>"
  by (cases ready)
    (simp_all add: scan_node_def node_ready_def node_control_plane_def objectTerminating_def cluster_metadata_def Let_def)

lemma drill_scanned: "scan_nodes ''server-1'' (drill_nodes up) scan_start = Inr (drill_scan up)"
  using drill_names
  by (cases up) (simp_all add: drill_nodes_def drill_decoded scan_start_def scan_drill_node drill_scan_def List.insert_def)

lemma drill_pods_scanned:
  assumes "component \<in> {''etcd'', ''kube-apiserver''}"
  shows "\<exists>nodes. control_plane_loop ''server-1'' component (NS_ReadyControlPlane (drill_scan up)) (drill_members component) [] False =
    Inr (nodes, up) \<and> length nodes = (if up then 3 else 2)"
  using assms drill_names
  by (cases up)
    (auto simp: drill_members_def drill_decoded pod_ready_def drill_scan_def objectTerminating_def cluster_metadata_def
      label_value_def List.insert_def)

definition drill_set :: "bool \<Rightarrow> string" where
  "drill_set up = ControlPlaneMemberSetSHA256 (map NodeUIDSHA256 (NS_ControlPlane (drill_scan up)))"

lemma drill_read_nodes:
  assumes "drill_set (\<not> lost (fst u)) \<noteq> []"
  shows "read_nodes (drill_world d) cluster_request u = (Inr (drill_scan (\<not> lost (fst u)), drill_set (\<not> lost (fst u))), u)"
  using assms
  by (simp add: read_nodes_def and_then_def drill_world_parts drill_reads cluster_request_fields drill_scanned drill_set_def)

lemma drill_control_plane:
  assumes "component \<in> {''etcd'', ''kube-apiserver''}"
  shows "controlPlanePods (drill_world d) cluster_request component (NS_ReadyControlPlane (drill_scan up)) u =
    (Inr (if up then 3 else 2, up), u)"
proof -
  have "listAll (drill_world d) podResource ''kube-system'' (''component='' @ component) u = (Inr (drill_members component), u)"
    using assms by (auto simp: drill_reads)
  then show ?thesis
    using drill_pods_scanned [OF assms, of up] by (auto simp: controlPlanePods_def and_then_def cluster_request_fields)
qed

definition drill_workloads :: "parsedRequest \<Rightarrow> WorkloadEvidence list" where
  "drill_workloads p = [\<lparr>WE_ID = ''web'', WE_BindingSHA256 = label_value (P_workloadBindings p) ''web'', WE_ReadyPods = 1,
     WE_DistinctReadyNodes = 1, WE_MinimumReadyPods = 1, WE_MinimumReadyNodes = 1\<rparr>]"

lemma drill_workloads_sampled:
  "sample_workloads (drill_world d) (P_workloadBindings p) (NS_ReadyNames (drill_scan up)) (LR_Workloads cluster_request) u =
     (Inr (drill_workloads p), u)"
proof -
  have "canonicalSelector [(''app'', ''web'')] = ''app=web''" by code_simp
  then show ?thesis
    using drill_names
    by (simp add: cluster_request_def and_then_def drill_reads drill_web_def drill_decoded labelsMatch_def pod_ready_def
        drill_workloads_def drill_scan_def)
      (simp add: cluster_metadata_def label_value_def objectTerminating_def)
qed

lemma drill_vmi_decoded:
  "vmi_decoder (drill_vmi host) zero_vmi = Some \<lparr>VMI_APIVersion = ''kubevirt.io/v1'', VMI_Kind = ''VirtualMachineInstance'',
     VMI_Metadata = cluster_metadata ''vm'' ''tenant'' ''u-4'' [], VMI_Phase = ''Running'', VMI_NodeName = host,
     VMI_Conditions = drill_conditions True\<rparr>"
proof -
  have "metadata_decoder (JObject [(''name'', JString ''vm''), (''namespace'', JString ''tenant''), (''uid'', JString ''u-4''),
      (''resourceVersion'', JString ''5''), (''labels'', text_members [])]) zero_metadata = Some (cluster_metadata ''vm'' ''tenant'' ''u-4'' [])"
    by (simp add: metadata_decoder_def zero_metadata_def cluster_metadata_def text_members_def decoding)
  then show ?thesis
    by (simp add: vmi_decoder_def drill_vmi_def object_json_def zero_vmi_def decode_struct_def field_decoder_def into_def
        decode_string_def drill_conditions_decoded)
qed

definition drill_vm :: "parsedRequest \<Rightarrow> int \<Rightarrow> VMEvidence" where
  "drill_vm p t = \<lparr>VE_ID = ''vm'', VE_BindingSHA256 = P_vmBinding p, VE_VMUIDSHA256 = digestJSON (JString ''u-3''),
     VE_VMIUIDSHA256 = digestJSON (JString ''u-4''), VE_VMReady = True, VE_VMIReady = True, VE_VMIOnTarget = (t < loss_at 25)\<rparr>"

lemma drill_vm_sampled:
  "sample_vm (drill_world d) cluster_request p (NS_ReadyNames (drill_scan (\<not> lost (fst u)))) u = (Inr (drill_vm p (fst u)), u)"
proof -
  have "validDNSName ''vm''" by code_simp
  then have "validObjectMetadata (cluster_metadata ''vm'' ''tenant'' ''u-4'' []) ''tenant''" by (simp add: drill_metadata_valid)
  moreover have "drill_vmi (vm_host t) \<in> set drill_documents" for t by (simp add: vm_host_def drill_documents_def)
  then have "json_check (json_Marshal (drill_vmi (vm_host t))) = Inr (drill_vmi (vm_host t))" for t
    using drill_documents_read(1) by blast
  moreover have "OM_Name (cluster_metadata ''vm'' ''tenant'' ''u-4'' []) = ''vm''" by (simp add: cluster_metadata_def)
  ultimately have vmi: "decodeVMI (json_Marshal (drill_vmi (vm_host t))) ''tenant'' ''vm'' = Inr \<lparr>VMI_APIVersion = ''kubevirt.io/v1'',
      VMI_Kind = ''VirtualMachineInstance'', VMI_Metadata = cluster_metadata ''vm'' ''tenant'' ''u-4'' [], VMI_Phase = ''Running'',
      VMI_NodeName = vm_host t, VMI_Conditions = drill_conditions True\<rparr>" for t
    by (simp add: decodeVMI_def Decode_def drill_vmi_decoded)
  have "vm_host t \<in> set (NS_ReadyNames (drill_scan (\<not> lost t)))" "vm_host t = ''server-1'' \<longleftrightarrow> t < loss_at 25" for t
    by (auto simp: vm_host_def drill_scan_def lost_def)
  moreover have "R_Kind vmResource = ''VirtualMachine''" "R_Kind vmiResource = ''VirtualMachineInstance''"
    by (simp_all add: vmResource_def vmiResource_def)
  ultimately show ?thesis
    by (simp add: sample_vm_def Let_def drill_world_parts cluster_request_fields cluster_machines(1) vmi drill_vm_def)
      (simp add: cluster_metadata_def)
qed

definition drill_probe :: "duration \<Rightarrow> parsedRequest \<Rightarrow> int \<Rightarrow> string \<Rightarrow> int \<Rightarrow> DataProbeEvidence" where
  "drill_probe d p n phase t =
     (let a = cluster_probe (probe_request (drill_world d) cluster_request p n phase) (in_day t) in
      \<lparr>DE_ID = ''data'', DE_BindingSHA256 = P_probeBinding p, DE_Implementation = ''probe'', DE_Version = ''v1'',
       DE_RequestSHA256 = PR_RequestSHA256 a, DE_AdapterExecutableSHA256 = hex64 CHR ''6'', DE_HashAlgorithm = ''sha256'',
       DE_DataSHA256 = hex64 CHR ''7'', DE_ValidatedBytes = 100, DE_StartedAt = FormatRFC3339Nano (in_day t),
       DE_CompletedAt = FormatRFC3339Nano (in_day t)\<rparr>)"

lemma drill_probe_sampled:
  "sample_probe (drill_world d) cluster_request p n phase u = (Inr (drill_probe d p n phase (fst u)), (fst u + d, snd u))"
proof -
  have "MatchString versionPattern ''probe''" "MatchString versionPattern ''v1''" by code_simp+
  moreover have "validSHA256 (hex64 CHR ''6'')" "validSHA256 (hex64 CHR ''7'')" by code_simp+
  ultimately show ?thesis
    by (simp add: sample_probe_def cluster_request_fields validateProbeResponse_def cluster_probe_def drill_world_parts
        drill_probe_def probe_request_def)
qed

text \<open>The identities of the servers, and what tells the member sets apart.\<close>

definition uid_1 :: string where
  "uid_1 = ''c45b962ecdbe8aa1157d61e8b34cf37f3b0a85fde52387764242bdffc812d146''"

definition uid_2 :: string where
  "uid_2 = ''56578c95e9facc9741aadf9026043c71255e1bf94ddbfaf74781e5b4aaee30cf''"

definition uid_3 :: string where
  "uid_3 = ''6cb537e184d3628022deca2cc1a9774241102cfa8ebca7bb14a7922117e48ff6''"

lemma drill_uid_1: "NodeUIDSHA256 ''u-1'' = uid_1"
  unfolding NodeUIDSHA256_def SHA256Hex_def Sum256_bits by code_simp

lemma drill_uid_2: "NodeUIDSHA256 ''u-2'' = uid_2"
  unfolding NodeUIDSHA256_def SHA256Hex_def Sum256_bits by code_simp

lemma drill_uid_3: "NodeUIDSHA256 ''u-3'' = uid_3"
  unfolding NodeUIDSHA256_def SHA256Hex_def Sum256_bits by code_simp

lemmas drill_uids = drill_uid_1 drill_uid_2 drill_uid_3

lemma drill_set_complete:
  "ControlPlaneMemberSetSHA256 [uid_3, uid_2, uid_1] = ''3855a66d8d400db515de66a5b5b1d90ed4daf49f4620858a33ee8e2206f1ae06''"
  unfolding ControlPlaneMemberSetSHA256_def digestJSON_def SHA256Hex_def Sum256_bits by code_simp

lemma drill_set_reduced:
  "ControlPlaneMemberSetSHA256 [uid_3, uid_2] = ''f69a3a6b6383bc3552c920a44ad8d69dac76b4c5c0a59a30628f526e0ca6ac21''"
  unfolding ControlPlaneMemberSetSHA256_def digestJSON_def SHA256Hex_def Sum256_bits by code_simp

lemma drill_set_facts: "drill_set up \<noteq> []" "drill_set True \<noteq> drill_set False"
  by (cases up) (simp_all add: drill_set_def drill_scan_def drill_uids drill_set_complete drill_set_reduced)

text \<open>The sample that is taken from an instant on.\<close>

definition drill_sample :: "duration \<Rightarrow> parsedRequest \<Rightarrow> int \<Rightarrow> string \<Rightarrow> int \<Rightarrow> SampleEvidence" where
  "drill_sample d p n phase t =
     (let up = \<not> lost t; members = if up then 3 else 2;
          s = \<lparr>SE_Sequence = n, SE_Phase = phase, SE_StartedAt = FormatRFC3339Nano (in_day t),
            SE_ObservedAt = FormatRFC3339Nano (in_day (t + d)), SE_TargetNodePresent = True, SE_TargetNodeReady = up,
            SE_TargetNodeUIDSHA256 = uid_1, SE_ReadyZPassed = True, SE_ControlPlaneReadyNodes = members,
            SE_EtcdReadyMembers = members, SE_APIServerReadyMembers = members, SE_ControlPlaneMemberSetSHA256 = drill_set up,
            SE_TargetHostsEtcd = up, SE_TargetHostsAPIServer = up, SE_Workloads = drill_workloads p, SE_VM = drill_vm p t,
            SE_DataProbe = drill_probe d p n phase t, SE_SampleSHA256 = []\<rparr>
      in s\<lparr>SE_SampleSHA256 := sampleDigest s\<rparr>)"

lemma drill_sampled:
  "sampler_next (drill_world d) cluster_request p n phase u =
     (Inr (drill_sample d p (n + 1) (next_phase phase (\<not> lost (fst u))) (fst u)), (fst u + d, snd u))"
proof -
  let ?up = "\<not> lost (fst u)"
  have scan: "NS_TargetReady (drill_scan ?up) = ?up" "NS_TargetPresent (drill_scan ?up)" "NS_TargetUID (drill_scan ?up) = uid_1"
    "int (length (NS_ControlPlane (drill_scan ?up))) = (if ?up then 3 else 2)"
    by (simp_all add: drill_scan_def drill_uids)
  show ?thesis
    using drill_set_facts(1)
    by (simp add: sampler_next_def Let_def and_then_def drill_world_parts drill_read_nodes drill_control_plane
        drill_workloads_sampled drill_vm_sampled drill_probe_sampled scan drill_sample_def cong: if_cong)
qed

end
