(* ===== verification/Loss_Drill_Run.thy ===== *)
theory Loss_Drill_Run
  imports Loss_Drill
begin

text \<open>
  The observer on the cluster with three servers, second by second: with a probe that answers
  at once the drill has eight samples; with a probe that takes ten seconds it has five.
\<close>

subsection \<open>Times\<close>

definition drill_duration :: "int \<Rightarrow> duration" where
  "drill_duration d = d * Second"

definition drill_parsed :: parsedRequest where
  "drill_parsed = projr (validateRequest cluster_request)"

lemma drill_request_valid: "validateRequest cluster_request = Inr drill_parsed"
  using cluster_request_valid by (auto simp: drill_parsed_def)

abbreviation drill_at :: "int \<Rightarrow> int \<Rightarrow> string \<Rightarrow> int \<Rightarrow> SampleEvidence" where
  "drill_at d n phase a \<equiv> drill_sample (drill_duration d) drill_parsed n phase (loss_at a)"

definition drill_run :: "int \<Rightarrow> run" where
  "drill_run d = \<lparr>Run_Request = cluster_request, Run_Parsed = drill_parsed, Run_First = drill_at d 1 PhasePreLoss 0\<rparr>"

lemma drill_run_parts [simp]:
  "Run_Request (drill_run d) = cluster_request" "Run_Parsed (drill_run d) = drill_parsed"
  "Run_First (drill_run d) = drill_at d 1 PhasePreLoss 0"
  by (simp_all add: drill_run_def)

lemma loss_at_iff [simp]: "loss_at a \<le> loss_at b \<longleftrightarrow> a \<le> b" "loss_at a < loss_at b \<longleftrightarrow> a < b"
  by (simp_all add: loss_at_def Second_def duration_defs)

lemma Second_iff [simp]: "a * Second \<le> b * Second \<longleftrightarrow> a \<le> b" "a * Second < b * Second \<longleftrightarrow> a < b"
  by (simp_all add: Second_def duration_defs)

lemma loss_at_Add: "time_Add (loss_at a) (b * Second) = loss_at (a + b)"
  by (simp add: time_Add_def loss_at_def algebra_simps)

lemma loss_at_plus: "loss_at a + drill_duration d = loss_at (a + d)"
  by (simp add: loss_at_def drill_duration_def algebra_simps)

lemma in_day_loss_at: "0 \<le> a \<Longrightarrow> a \<le> 1000 \<Longrightarrow> in_day (loss_at a) = loss_at a"
  by (simp add: in_day_id last_instant_def)

lemma lost_loss_at [simp]: "lost (loss_at a) \<longleftrightarrow> 25 \<le> a \<and> a < 45"
  by (simp add: lost_def)

lemma drill_times:
  assumes "0 \<le> a" and "a \<le> 500" and "0 \<le> d" and "d \<le> 500"
  shows "startedAt (drill_at d n phase a) = loss_at a" and "observedAt (drill_at d n phase a) = loss_at (a + d)"
    and "timestamp (SE_ObservedAt (drill_at d n phase a))"
  using assms by (simp_all add: drill_sample_def Let_def loss_at_plus in_day_loss_at)

lemma loss_at_Sub: "\<bar>a - b\<bar> \<le> 1000 \<Longrightarrow> time_Sub (loss_at a) (loss_at b) = (a - b) * Second"
  by (auto simp: time_Sub_def loss_at_def duration_defs algebra_simps)

subsection \<open>Rounds\<close>

lemma drill_request_parsed:
  "P_poll drill_parsed = 10 * Second" "P_faultTimeout drill_parsed = 60 * Second" "P_lossWindow drill_parsed = 20 * Second"
  "P_recoveryTimeout drill_parsed = 300 * Second" "P_recoveryStability drill_parsed = 20 * Second"
  "P_vmUnavailable drill_parsed = 20 * Second"
  using request_durations [OF drill_request_valid] by (simp_all add: cluster_request_fields split: if_splits)

lemma drill_poll:
  assumes "0 \<le> b" and "b \<le> 500"
  shows "poll_sample (drill_world (drill_duration d)) (drill_run d) msg n phase (loss_at b, l) =
    (Inr (Inr (drill_at d (n + 1) (next_phase phase (\<not> (25 \<le> b + 10 \<and> b + 10 < 45))) (b + 10))), (loss_at (b + 10 + d), l))"
proof -
  have "loss_at b + 10 * Second = loss_at (b + 10)" by (simp add: loss_at_def algebra_simps)
  moreover have "max 0 (10 * Second) = 10 * Second" by (simp add: Second_def duration_defs)
  ultimately have "Env_Sleep (drill_world (drill_duration d)) (10 * Second) (loss_at b, l) = (True, (loss_at (b + 10), l))"
    using assms by (simp add: drill_world_parts in_day_loss_at last_instant_def)
  then show ?thesis
    by (simp add: poll_sample_def run_poll_def drill_request_parsed drill_sampled loss_at_plus)
qed

lemma drill_gap:
  assumes "0 \<le> a" and "a \<le> 500" and "0 \<le> b" and "b \<le> 500" and "0 \<le> d" and "d \<le> 500"
  shows "observationGap (drill_at d n phase a) (drill_at d m phase' b) (10 * Second) \<longleftrightarrow> b < a + d \<or> a + d + 20 < b"
  using assms by (auto simp: observationGap_def Let_def drill_times loss_at_Sub)

lemma drill_fields:
  "SE_Sequence (drill_sample e p n phase t) = n" "SE_Phase (drill_sample e p n phase t) = phase"
  "SE_TargetNodePresent (drill_sample e p n phase t)" "SE_TargetNodeReady (drill_sample e p n phase t) \<longleftrightarrow> \<not> lost t"
  "SE_TargetNodeUIDSHA256 (drill_sample e p n phase t) = uid_1" "SE_ReadyZPassed (drill_sample e p n phase t)"
  "SE_ControlPlaneReadyNodes (drill_sample e p n phase t) = (if lost t then 2 else 3)"
  "SE_EtcdReadyMembers (drill_sample e p n phase t) = (if lost t then 2 else 3)"
  "SE_APIServerReadyMembers (drill_sample e p n phase t) = (if lost t then 2 else 3)"
  "SE_ControlPlaneMemberSetSHA256 (drill_sample e p n phase t) = drill_set (\<not> lost t)"
  "SE_TargetHostsEtcd (drill_sample e p n phase t) \<longleftrightarrow> \<not> lost t"
  "SE_TargetHostsAPIServer (drill_sample e p n phase t) \<longleftrightarrow> \<not> lost t"
  "SE_Workloads (drill_sample e p n phase t) = drill_workloads p" "SE_VM (drill_sample e p n phase t) = drill_vm p t"
  "SE_DataProbe (drill_sample e p n phase t) = drill_probe e p n phase t"
  by (simp_all add: drill_sample_def Let_def)

lemma drill_machine_fields:
  "VE_VMUIDSHA256 (drill_vm p t) = digestJSON (JString ''u-3'')" "VE_VMReady (drill_vm p t)" "VE_VMIReady (drill_vm p t)"
  "VE_VMIOnTarget (drill_vm p t) \<longleftrightarrow> t < loss_at 25" "DE_DataSHA256 (drill_probe e p n phase t) = hex64 CHR ''7''"
  "DE_ValidatedBytes (drill_probe e p n phase t) = 100"
  by (simp_all add: drill_vm_def drill_probe_def Let_def)

lemma drill_phases: "PhasePreLoss \<noteq> PhaseLoss" "PhasePreLoss \<noteq> PhaseRecovered" "PhaseLoss \<noteq> PhaseRecovered"
  by (simp_all add: go_consts)

lemma drill_next_phase [simp]:
  "next_phase PhasePreLoss False = PhaseLoss" "next_phase PhaseLoss True = PhaseRecovered"
  "next_phase PhasePreLoss True = PhasePreLoss" "next_phase PhaseLoss False = PhaseLoss" "next_phase PhaseRecovered b = PhaseRecovered"
  using drill_phases by (simp_all add: next_phase_def)

lemma drill_healthy:
  assumes "phase = PhasePreLoss \<and> a < 25 \<or> phase = PhaseLoss \<and> 25 \<le> a \<and> a < 45 \<or> phase = PhaseRecovered \<and> 45 \<le> a"
  shows "run_health (drill_run d) (drill_at d n phase a) phase started = None"
proof -
  have "workloadsHealthy (drill_at d n phase a)"
    by (simp add: workloadsHealthy_def drill_fields drill_workloads_def)
  moreover have "drill_set True \<noteq> []" "drill_set False \<noteq> []" "drill_set False \<noteq> drill_set True"
    using drill_set_facts(1) [of True] drill_set_facts(1) [of False] drill_set_facts(2) by auto
  ultimately show ?thesis
    using assms drill_phases drill_phases [symmetric]
    by (elim disjE conjE)
      (simp_all add: run_health_def sampleHealth_def sample_preloss_healthy_def baseline_of_def drill_fields drill_machine_fields
        vmReadyOffTarget_def cluster_request_fields Let_def)
qed

lemma drill_off_target: "vmReadyOffTarget (drill_at d n phase a) \<longleftrightarrow> 25 \<le> a"
  by (auto simp: vmReadyOffTarget_def drill_fields drill_machine_fields)

text \<open>A round of each loop.\<close>

lemmas drill_rules = drill_poll run_poll_def drill_request_parsed drill_times loss_at_Sub loss_at_Add drill_fields drill_healthy
  drill_gap drill_off_target loss_started_def Let_def

lemma drill_pre_again:
  assumes "0 \<le> d" and "d \<le> 100" and "last (Po_Pre st) = drill_at d k PhasePreLoss a" and "0 \<le> a" and "a < 20" and "a + d + 10 < 25"
  shows "pre_body (drill_world (drill_duration d)) (drill_run d) st (loss_at (a + d), l) =
    (Again (st\<lparr>Po_Sequence := Po_Sequence st + 1,
       Po_Pre := Po_Pre st @ [drill_at d (Po_Sequence st + 1) PhasePreLoss (a + d + 10)]\<rparr>), (loss_at (a + d + 10 + d), l))"
  using assms by (simp add: pre_body_def drill_rules)

lemma drill_pre_done:
  assumes "0 \<le> d" and "d \<le> 100" and "last (Po_Pre st) = drill_at d k PhasePreLoss a" and "20 \<le> a" and "a \<le> 100"
  shows "pre_body (drill_world (drill_duration d)) (drill_run d) st u = (Done st, u)"
  using assms by (simp add: pre_body_def drill_rules)

lemma drill_fault_again:
  assumes "0 \<le> d" and "d \<le> 100" and "last (Po_Pre st) = drill_at d k PhasePreLoss a" and "Po_Loss st = []" and "0 \<le> a"
    and "25 \<le> a + d + 10" and "a + d + 10 < 45" and "a + 2 * d + 10 \<le> deadline"
  shows "fault_body (drill_world (drill_duration d)) (drill_run d) (loss_at deadline) st (loss_at (a + d), l) =
    (Again (st\<lparr>Po_Sequence := Po_Sequence st + 1, Po_Loss := [drill_at d (Po_Sequence st + 1) PhaseLoss (a + d + 10)]\<rparr>),
     (loss_at (a + d + 10 + d), l))"
  using assms drill_phases by (simp add: fault_body_def drill_rules)

lemma drill_loss_again:
  assumes "0 \<le> d" and "d \<le> 100" and "last (Po_Loss st) = drill_at d k PhaseLoss a" and "hd (Po_Loss st) = drill_at d j PhaseLoss c"
    and "Po_Recovered st = []" and "25 \<le> c" and "c \<le> a" and "a + d + 10 < 45"
  shows "loss_body (drill_world (drill_duration d)) (drill_run d) st (loss_at (a + d), l) =
    (Again (st\<lparr>Po_Sequence := Po_Sequence st + 1, Po_Loss := Po_Loss st @ [drill_at d (Po_Sequence st + 1) PhaseLoss (a + d + 10)],
       Po_VMRecovered := True\<rparr>), (loss_at (a + d + 10 + d), l))"
  using assms by (simp add: loss_body_def drill_rules)

lemma drill_loss_recovered:
  assumes "0 \<le> d" and "d \<le> 100" and "last (Po_Loss st) = drill_at d k PhaseLoss a" and "hd (Po_Loss st) = drill_at d j PhaseLoss c"
    and "Po_Recovered st = []" and "Po_VMRecovered st" and "25 \<le> c" and "c \<le> a" and "a \<le> 100" and "45 \<le> a + d + 10"
    and "c + 20 \<le> a + d + 10"
  shows "loss_body (drill_world (drill_duration d)) (drill_run d) st (loss_at (a + d), l) =
    (Again (st\<lparr>Po_Sequence := Po_Sequence st + 1, Po_Recovered := [drill_at d (Po_Sequence st + 1) PhaseRecovered (a + d + 10)]\<rparr>),
     (loss_at (a + d + 10 + d), l))"
  using assms drill_phases by (simp add: loss_body_def drill_rules)

lemma drill_recovery_again:
  assumes "0 \<le> d" and "d \<le> 100" and "last (Po_Recovered st) = drill_at d k PhaseRecovered a"
    and "hd (Po_Recovered st) = drill_at d j PhaseRecovered b" and "hd (Po_Loss st) = drill_at d i PhaseLoss c"
    and "0 \<le> c" and "c \<le> 100" and "45 \<le> a" and "a < b + 20" and "0 \<le> b" and "b \<le> a" and "a \<le> 100"
  shows "recovery_body (drill_world (drill_duration d)) (drill_run d) st (loss_at (a + d), l) =
    (Again (st\<lparr>Po_Sequence := Po_Sequence st + 1,
       Po_Recovered := Po_Recovered st @ [drill_at d (Po_Sequence st + 1) PhaseRecovered (a + d + 10)]\<rparr>),
     (loss_at (a + d + 10 + d), l))"
  using assms by (simp add: recovery_body_def drill_rules)

lemma drill_recovery_done:
  assumes "0 \<le> d" and "d \<le> 100" and "last (Po_Recovered st) = drill_at d k PhaseRecovered a"
    and "hd (Po_Recovered st) = drill_at d j PhaseRecovered b" and "0 \<le> b" and "b + 20 \<le> a" and "a \<le> 200"
  shows "recovery_body (drill_world (drill_duration d)) (drill_run d) st u = (Done st, u)"
  using assms by (simp add: recovery_body_def drill_rules)

subsection \<open>Runs\<close>

lemma repeatedly_Again: "body s w = (Again s', w') \<Longrightarrow> repeatedly body s w = repeatedly body s' w'"
  by (subst repeatedly.simps) simp

lemma repeatedly_Done: "body s w = (Done s', w') \<Longrightarrow> repeatedly body s w = Some (Inr s', w')"
  by (subst repeatedly.simps) simp

lemma loops_left:
  "Po_Loss st \<noteq> [] \<Longrightarrow> fault_body env run deadline st w = (Done st, w)"
  "Po_Recovered st \<noteq> [] \<Longrightarrow> loss_body env run st w = (Done st, w)"
  by (simp_all add: fault_body_def loss_body_def)

definition drill_marker :: "int \<Rightarrow> int \<Rightarrow> ReadyMarker" where
  "drill_marker d a = ready_marker (drill_world (drill_duration d)) (drill_run d) (SE_ObservedAt (drill_at d 1 PhasePreLoss a))"

lemma drill_marker_valid:
  assumes "0 \<le> d" and "d \<le> 100" and "0 \<le> a" and "a \<le> 100"
  shows "ValidateReadyMarker (drill_marker d a) = None"
proof -
  have "validSHA256 (hex64 CHR ''b'')" "validSHA256 (hex64 CHR ''c'')" "validSHA256 (hex64 CHR ''6'')" "validSHA256 uid_1"
    by code_simp+
  moreover have "validSHA256 (drill_set True)"
    using drill_set_facts(1) [of True] by (auto simp: drill_set_def ControlPlaneMemberSetSHA256_def Let_def split: if_splits)
  moreover have "P_requestSHA256 drill_parsed = digestJSON (json_Request cluster_request)"
    using validateRequest_Inr(4) [OF drill_request_valid] .
  ultimately show ?thesis
    using assms drill_set_facts(1) [of True] drill_times(3)
    by (simp add: ValidateReadyMarker_def drill_marker_def ready_marker_def Let_def drill_world_parts cluster_request_fields
        baseline_of_def drill_fields NodeUIDHashAlgorithm_def markerDigest_def)
qed

lemma drill_ready:
  assumes "0 \<le> d" and "d \<le> 100" and "0 \<le> a" and "a \<le> 100" and "last (Po_Pre st) = drill_at d k PhasePreLoss a"
  shows "observe_ready (drill_world (drill_duration d)) (drill_run d) st (t, l) = (Inr st, (t, l @ [drill_marker d a]))"
proof -
  have "SE_ObservedAt (drill_at d k PhasePreLoss a) = SE_ObservedAt (drill_at d 1 PhasePreLoss a)"
    by (simp add: drill_sample_def Let_def)
  then show ?thesis
    using drill_marker_valid [OF assms(1-4)]
    by (simp add: observe_ready_def Let_def assms(5) drill_marker_def [symmetric] drill_world_parts)
qed

text \<open>A probe that answers at once.\<close>

definition quick_drill :: polled where
  "quick_drill = \<lparr>Po_Sequence = 8,
     Po_Pre = [drill_at 0 1 PhasePreLoss 0, drill_at 0 2 PhasePreLoss 10, drill_at 0 3 PhasePreLoss 20],
     Po_Loss = [drill_at 0 4 PhaseLoss 30, drill_at 0 5 PhaseLoss 40],
     Po_Recovered = [drill_at 0 6 PhaseRecovered 50, drill_at 0 7 PhaseRecovered 60, drill_at 0 8 PhaseRecovered 70],
     Po_VMRecovered = True\<rparr>"

lemma quick_loops:
  "observe_loops (drill_world (drill_duration 0)) (drill_run 0) (loss_at 0, []) =
     Some (Inr (SE_ObservedAt (drill_at 0 3 PhasePreLoss 20), quick_drill), (loss_at 70, [drill_marker 0 20]))"
proof -
  let ?env = "drill_world (drill_duration 0)" and ?run = "drill_run 0" and ?s = "drill_at 0"
  let ?pre = "[?s 1 PhasePreLoss 0, ?s 2 PhasePreLoss 10, ?s 3 PhasePreLoss 20]"
  have pre: "repeatedly (pre_body ?env ?run)
      \<lparr>Po_Sequence = 1, Po_Pre = [?s 1 PhasePreLoss 0], Po_Loss = [], Po_Recovered = [], Po_VMRecovered = False\<rparr> (loss_at 0, []) =
    Some (Inr \<lparr>Po_Sequence = 3, Po_Pre = ?pre, Po_Loss = [], Po_Recovered = [], Po_VMRecovered = False\<rparr>, (loss_at 20, []))"
    using drill_pre_again [of 0 _ _ 0] drill_pre_again [of 0 _ _ 10]
    by (simp add: repeatedly_Again repeatedly_Done drill_pre_done [of 0 _ _ 20])
  have fault: "repeatedly (fault_body ?env ?run (loss_at 80))
      \<lparr>Po_Sequence = 3, Po_Pre = ?pre, Po_Loss = [], Po_Recovered = [], Po_VMRecovered = False\<rparr> (loss_at 20, l) =
    Some (Inr \<lparr>Po_Sequence = 4, Po_Pre = ?pre, Po_Loss = [?s 4 PhaseLoss 30], Po_Recovered = [], Po_VMRecovered = False\<rparr>, (loss_at 30, l))" for l
    using drill_fault_again [of 0 _ 3 20]
    by (simp add: repeatedly_Again repeatedly_Done loops_left)
  have loss: "observe_loss ?env ?run
      \<lparr>Po_Sequence = 4, Po_Pre = ?pre, Po_Loss = [?s 4 PhaseLoss 30], Po_Recovered = [], Po_VMRecovered = False\<rparr> (loss_at 30, l) =
    Some (Inr \<lparr>Po_Sequence = 6, Po_Pre = ?pre, Po_Loss = [?s 4 PhaseLoss 30, ?s 5 PhaseLoss 40],
      Po_Recovered = [?s 6 PhaseRecovered 50], Po_VMRecovered = True\<rparr>, (loss_at 50, l))" for l
    using drill_loss_again [of 0 _ 4 30 4 30] drill_loss_recovered [of 0 _ 5 40 4 30]
    by (simp add: observe_loss_def drill_healthy drill_off_target repeatedly_Again repeatedly_Done loops_left)
  have recovery: "repeatedly (recovery_body ?env ?run) \<lparr>Po_Sequence = 6, Po_Pre = ?pre,
      Po_Loss = [?s 4 PhaseLoss 30, ?s 5 PhaseLoss 40], Po_Recovered = [?s 6 PhaseRecovered 50], Po_VMRecovered = True\<rparr> (loss_at 50, l) =
    Some (Inr quick_drill, (loss_at 70, l))" for l
    using drill_recovery_again [of 0 _ 6 50 6 50 4 30] drill_recovery_again [of 0 _ 7 60 6 50 4 30]
    by (simp add: quick_drill_def repeatedly_Again repeatedly_Done drill_recovery_done [of 0 _ 8 70 6 50])
  have "time_Add (observedAt (?s 3 PhasePreLoss 20)) (P_faultTimeout drill_parsed) = loss_at 80"
    by (simp add: drill_times drill_request_parsed loss_at_Add)
  then show ?thesis
    by (simp add: observe_loops_def pre fault loss recovery drill_ready [of 0 20 _ 3] after_def Let_def)
qed

text \<open>A probe that takes as long as the poll interval.\<close>

definition slow_drill :: polled where
  "slow_drill = \<lparr>Po_Sequence = 5, Po_Pre = [drill_at 10 1 PhasePreLoss 0, drill_at 10 2 PhasePreLoss 20],
     Po_Loss = [drill_at 10 3 PhaseLoss 40],
     Po_Recovered = [drill_at 10 4 PhaseRecovered 60, drill_at 10 5 PhaseRecovered 80], Po_VMRecovered = True\<rparr>"

lemma slow_loops:
  "observe_loops (drill_world (drill_duration 10)) (drill_run 10) (loss_at 10, []) =
     Some (Inr (SE_ObservedAt (drill_at 10 2 PhasePreLoss 20), slow_drill), (loss_at 90, [drill_marker 10 20]))"
proof -
  let ?env = "drill_world (drill_duration 10)" and ?run = "drill_run 10" and ?s = "drill_at 10"
  let ?pre = "[?s 1 PhasePreLoss 0, ?s 2 PhasePreLoss 20]"
  have pre: "repeatedly (pre_body ?env ?run)
      \<lparr>Po_Sequence = 1, Po_Pre = [?s 1 PhasePreLoss 0], Po_Loss = [], Po_Recovered = [], Po_VMRecovered = False\<rparr> (loss_at 10, []) =
    Some (Inr \<lparr>Po_Sequence = 2, Po_Pre = ?pre, Po_Loss = [], Po_Recovered = [], Po_VMRecovered = False\<rparr>, (loss_at 30, []))"
    using drill_pre_again [of 10 _ _ 0]
    by (simp add: repeatedly_Again repeatedly_Done drill_pre_done [of 10 _ _ 20])
  have fault: "repeatedly (fault_body ?env ?run (loss_at 90))
      \<lparr>Po_Sequence = 2, Po_Pre = ?pre, Po_Loss = [], Po_Recovered = [], Po_VMRecovered = False\<rparr> (loss_at 30, l) =
    Some (Inr \<lparr>Po_Sequence = 3, Po_Pre = ?pre, Po_Loss = [?s 3 PhaseLoss 40], Po_Recovered = [], Po_VMRecovered = False\<rparr>, (loss_at 50, l))" for l
    using drill_fault_again [of 10 _ 2 20]
    by (simp add: repeatedly_Again repeatedly_Done loops_left)
  have loss: "observe_loss ?env ?run
      \<lparr>Po_Sequence = 3, Po_Pre = ?pre, Po_Loss = [?s 3 PhaseLoss 40], Po_Recovered = [], Po_VMRecovered = False\<rparr> (loss_at 50, l) =
    Some (Inr \<lparr>Po_Sequence = 4, Po_Pre = ?pre, Po_Loss = [?s 3 PhaseLoss 40], Po_Recovered = [?s 4 PhaseRecovered 60],
      Po_VMRecovered = True\<rparr>, (loss_at 70, l))" for l
    using drill_loss_recovered [of 10 _ 3 40 3 40]
    by (simp add: observe_loss_def drill_healthy drill_off_target repeatedly_Again repeatedly_Done loops_left)
  have recovery: "repeatedly (recovery_body ?env ?run) \<lparr>Po_Sequence = 4, Po_Pre = ?pre, Po_Loss = [?s 3 PhaseLoss 40],
      Po_Recovered = [?s 4 PhaseRecovered 60], Po_VMRecovered = True\<rparr> (loss_at 70, l) = Some (Inr slow_drill, (loss_at 90, l))" for l
    using drill_recovery_again [of 10 _ 4 60 4 60 3 40]
    by (simp add: slow_drill_def repeatedly_Again repeatedly_Done drill_recovery_done [of 10 _ 5 80 4 60])
  have "time_Add (observedAt (?s 2 PhasePreLoss 20)) (P_faultTimeout drill_parsed) = loss_at 90"
    by (simp add: drill_times drill_request_parsed loss_at_Add)
  then show ?thesis
    by (simp add: observe_loops_def pre fault loss recovery drill_ready [of 10 20 _ 2] after_def Let_def)
qed

lemma drill_completes:
  assumes "0 \<le> d" and "observe_loops (drill_world (drill_duration d)) (drill_run d) (loss_at d, []) = Some (Inr (readyAt, st), w')"
  shows "completes (drill_world (drill_duration d)) cluster_request (loss_at 0, []) (drill_run d) readyAt st w'"
proof -
  have "validSHA256 (hex64 CHR ''c'')" "validSHA256 (hex64 CHR ''6'')" by code_simp+
  then show ?thesis
    using assms drill_request_valid drill_healthy [of PhasePreLoss 0 d 1 0]
    by (simp add: completes_def drill_world_parts drill_sampled loss_at_plus drill_fields)
qed

lemma quick_drill_samples: "length (polled_all quick_drill) = 8" "vmReadyOffTarget (last (Po_Loss quick_drill))"
  by (simp_all add: quick_drill_def polled_all_def drill_off_target)

lemma slow_drill_samples: "length (polled_all slow_drill) = 5"
  by (simp add: slow_drill_def polled_all_def)

text \<open>The slow drill shows all that is asked for, and its receipt is refused for the number of its samples.\<close>

lemma slow_drill_refused:
  "Observe (drill_world (drill_duration 10)) cluster_request (loss_at 0, []) =
     Some (Inl ''one-server-loss receipt sample count is invalid'', (loss_at 90, [drill_marker 10 20]))"
proof -
  have "0 \<le> drill_duration 10" by (simp add: drill_duration_def Second_def duration_defs)
  from short_drill_is_refused [OF drill_clock [OF this] drill_probe_timely [OF this] drill_completes [OF _ slow_loops]]
  show ?thesis by (simp add: slow_drill_samples)
qed

text \<open>The quick drill ends in the world of its last sample, with one marker published.\<close>

lemma quick_drill_observed:
  "\<exists>r. Observe (drill_world (drill_duration 0)) cluster_request (loss_at 0, []) = Some (r, (loss_at 70, [drill_marker 0 20]))"
  using completes_Observe [OF drill_completes [OF _ quick_loops]]
  by (auto simp: finish_run_def Let_def split: option.splits)

text \<open>It is certified, unless two of its requests to the probe collide.\<close>

lemma quick_drill_certified:
  "Observe (drill_world (drill_duration 0)) cluster_request (loss_at 0, []) =
     Some (Inr (run_receipt (drill_world (drill_duration 0)) (drill_run 0) (SE_ObservedAt (drill_at 0 3 PhasePreLoss 20)) quick_drill),
       (loss_at 70, [drill_marker 0 20])) \<or>
   (\<exists>x y. {x, y} \<subseteq> set (polled_all quick_drill) \<and>
     probe_text (drill_world (drill_duration 0)) cluster_request drill_parsed x \<noteq>
       probe_text (drill_world (drill_duration 0)) cluster_request drill_parsed y \<and>
     Sum256 (probe_text (drill_world (drill_duration 0)) cluster_request drill_parsed x) =
       Sum256 (probe_text (drill_world (drill_duration 0)) cluster_request drill_parsed y))"
proof -
  have "0 \<le> drill_duration 0" by (simp add: drill_duration_def)
  from completed_drill_is_certified [OF drill_clock [OF this] drill_probe_timely [OF this] drill_completes [OF _ quick_loops]]
  show ?thesis by (simp add: quick_drill_samples)
qed

end
