(* ===== verification/Loss_Properties.thy ===== *)
theory Loss_Properties
  imports Loss_Drill_Run
begin

text \<open>
  The properties of the one-server-loss drill: what a valid receipt proves, what a run of
  the observer does, and what its readings mean.
\<close>

subsection \<open>Receipts\<close>

lemma receipt_samples:
  assumes "ValidateLossReceipt r = None"
  obtains s ss where "allSamples r = s # ss" and "gapless (durationOf (Rc_PollInterval r)) (observedAt s) ss"
    and "startedAt s \<le> observedAt s" and "mustTimestamp (Rc_StartedAt r) = startedAt s"
    and "mustTimestamp (Rc_CompletedAt r) = observedAt (last (allSamples r))"
    and "list_all (goodSample r) (allSamples r)"
proof -
  note v = valid_receipt_evidence [OF assms]
  note e = evidence_None [OF v(1)]
  obtain s ss where ss: "allSamples r = s # ss" using e(5) by (cases "allSamples r") auto
  have "0 \<le> durationOf (Rc_PollInterval r)" using v(3) by (simp add: Second_def)
  note q = sequence_valid [OF e(8) [unfolded ss] this v(4)]
  have ne: "PE_Samples (Rc_PreLoss r) \<noteq> []" "PE_Samples (Rc_Recovered r) \<noteq> []"
    using e(2,4) by (simp_all add: validatePhase_None)
  then have "hd (PE_Samples (Rc_PreLoss r)) = hd (allSamples r)"
    "last (PE_Samples (Rc_Recovered r)) = last (allSamples r)"
    by (simp_all add: allSamples_def)
  then have "hd (PE_Samples (Rc_PreLoss r)) = s" "last (PE_Samples (Rc_Recovered r)) = last (allSamples r)"
    using ss by simp_all
  then have "mustTimestamp (Rc_StartedAt r) = startedAt s"
    "mustTimestamp (Rc_CompletedAt r) = observedAt (last (allSamples r))"
    using e(7) by (simp_all add: validTimeline_def Let_def)
  with that ss q show thesis by simp
qed

lemma receipt_health:
  assumes "ValidateLossReceipt r = None"
  shows "s \<in> set (PE_Samples (Rc_PreLoss r)) \<Longrightarrow> healthyIn PhasePreLoss r s"
    and "s \<in> set (PE_Samples (Rc_Loss r)) \<Longrightarrow> healthyIn PhaseLoss r s"
    and "s \<in> set (PE_Samples (Rc_Recovered r)) \<Longrightarrow> healthyIn PhaseRecovered r s"
  using evidence_None(9-11) [OF valid_receipt_evidence(1) [OF assms]]
  by (auto simp: validatePhaseHealth_None list_all_iff dest!: phaseHealth_healthy)

lemma receipt_sample_continuous:
  assumes "ValidateLossReceipt r = None" and "s \<in> set (allSamples r)"
  shows "SE_ReadyZPassed s \<and> workloadsHealthy s \<and> VE_VMUIDSHA256 (SE_VM s) = LB_VMUIDSHA256 (Rc_Baseline r) \<and>
    DE_DataSHA256 (SE_DataProbe s) = LB_DataSHA256 (Rc_Baseline r) \<and>
    DE_ValidatedBytes (SE_DataProbe s) = LB_ValidatedBytes (Rc_Baseline r)"
proof -
  have "list_all (goodSample r) (allSamples r)" using receipt_samples [OF assms(1)] .
  then have "SE_ReadyZPassed s"
    using assms(2) by (auto simp: list_all_iff goodSample_def validateSafeSample_def guards safeNode_def)
  moreover obtain p where "healthyIn p r s"
    using assms(2) receipt_health [OF assms(1), of s] by (auto simp: allSamples_def)
  ultimately show ?thesis by (simp add: healthyIn_def continuous_def Let_def)
qed

text \<open>
  C3. A valid receipt has no blind spot: every instant between the start and the
  completion of the run lies within a sample, or at most two poll intervals before the
  start of one, and that sample saw a ready control plane, every workload at its minimum,
  and the machine and the data of the baseline.
\<close>

theorem receipt_has_no_blind_spot:
  assumes "ValidateLossReceipt r = None"
    and "mustTimestamp (Rc_StartedAt r) \<le> t" and "t \<le> mustTimestamp (Rc_CompletedAt r)"
  shows "\<exists>s \<in> set (allSamples r).
    mustTimestamp (SE_StartedAt s) - 2 * durationOf (Rc_PollInterval r) \<le> t \<and> t \<le> mustTimestamp (SE_ObservedAt s) \<and>
    SE_ReadyZPassed s \<and> workloadsHealthy s \<and> VE_VMUIDSHA256 (SE_VM s) = LB_VMUIDSHA256 (Rc_Baseline r) \<and>
    DE_DataSHA256 (SE_DataProbe s) = LB_DataSHA256 (Rc_Baseline r) \<and>
    DE_ValidatedBytes (SE_DataProbe s) = LB_ValidatedBytes (Rc_Baseline r)"
proof -
  obtain s ss where ss: "allSamples r = s # ss" "gapless (durationOf (Rc_PollInterval r)) (observedAt s) ss"
    "startedAt s \<le> observedAt s" "mustTimestamp (Rc_StartedAt r) = startedAt s"
    "mustTimestamp (Rc_CompletedAt r) = observedAt (last (allSamples r))"
    using receipt_samples [OF assms(1)] .
  have "0 \<le> durationOf (Rc_PollInterval r)"
    using valid_receipt_evidence(3) [OF assms(1)] by (simp add: Second_def)
  then have "gapless (durationOf (Rc_PollInterval r)) (startedAt s) (allSamples r)" using ss by simp
  then have "\<exists>s \<in> set (allSamples r). startedAt s - 2 * durationOf (Rc_PollInterval r) \<le> t \<and> t \<le> observedAt s"
    by (rule gapless_covers) (use assms(2,3) ss in simp_all)
  then show ?thesis using receipt_sample_continuous [OF assms(1)] by blast
qed

theorem receipt_has_no_blind_spot_witness:
  "\<exists>s \<in> set (allSamples example_receipt).
    mustTimestamp (SE_StartedAt s) - 20 * Second \<le> loss_at 50 \<and> loss_at 50 \<le> mustTimestamp (SE_ObservedAt s) \<and>
    SE_ReadyZPassed s \<and> workloadsHealthy s"
proof -
  have "mustTimestamp (Rc_StartedAt example_receipt) \<le> loss_at 50" "loss_at 50 \<le> mustTimestamp (Rc_CompletedAt example_receipt)"
    "durationOf (Rc_PollInterval example_receipt) = 10 * Second"
    by (simp_all add: example_receipt_def Let_def example_times durationOf_def example_durations)
  with receipt_has_no_blind_spot [OF example_receipt_valid, of "loss_at 50"] show ?thesis by auto
qed

text \<open>
  C10. A valid receipt proves the loss of exactly one server. In every sample of the loss
  phase the selected node is not ready, one member of the control plane, of etcd and of the
  API servers is missing, and those that remain are a majority; the phase lasts at least the
  requested window, of two poll intervals or more. Every sample before and after it has the
  node back under the same identity with the full membership, for at least the stability
  window.
\<close>

theorem receipt_proves_one_server_loss:
  assumes "ValidateLossReceipt r = None"
  shows "(\<forall>s \<in> set (PE_Samples (Rc_Loss r)). \<not> SE_TargetNodeReady s \<and>
        SE_ControlPlaneReadyNodes s = LB_ControlPlaneNodes (Rc_Baseline r) - 1 \<and>
        SE_EtcdReadyMembers s = LB_EtcdMembers (Rc_Baseline r) - 1 \<and>
        SE_APIServerReadyMembers s = LB_APIServerMembers (Rc_Baseline r) - 1 \<and>
        LB_ControlPlaneNodes (Rc_Baseline r) < 2 * SE_ControlPlaneReadyNodes s \<and>
        LB_EtcdMembers (Rc_Baseline r) < 2 * SE_EtcdReadyMembers s \<and>
        LB_APIServerMembers (Rc_Baseline r) < 2 * SE_APIServerReadyMembers s) \<and>
      PE_Samples (Rc_Loss r) \<noteq> [] \<and> 2 * durationOf (Rc_PollInterval r) \<le> durationOf (Rc_MinimumLossWindow r) \<and>
      durationOf (Rc_MinimumLossWindow r) \<le>
        mustTimestamp (PE_CompletedAt (Rc_Loss r)) - mustTimestamp (PE_StartedAt (Rc_Loss r)) \<and>
      (\<forall>s \<in> set (PE_Samples (Rc_PreLoss r)) \<union> set (PE_Samples (Rc_Recovered r)). SE_TargetNodeReady s \<and>
        SE_TargetNodeUIDSHA256 s = Rc_TargetNodeUIDSHA256 r \<and>
        LB_ControlPlaneNodes (Rc_Baseline r) \<le> SE_ControlPlaneReadyNodes s \<and>
        LB_EtcdMembers (Rc_Baseline r) \<le> SE_EtcdReadyMembers s \<and>
        LB_APIServerMembers (Rc_Baseline r) \<le> SE_APIServerReadyMembers s) \<and>
      durationOf (Rc_RecoveryStabilityWindow r) \<le>
        mustTimestamp (Rc_CompletedAt r) - mustTimestamp (PE_StartedAt (Rc_Recovered r))"
proof -
  note v = valid_receipt_evidence [OF assms]
  note e = evidence_None [OF v(1)]
  have b: "3 \<le> LB_ControlPlaneNodes (Rc_Baseline r)" "3 \<le> LB_EtcdMembers (Rc_Baseline r)"
    "3 \<le> LB_APIServerMembers (Rc_Baseline r)"
    using e(1) v(2) by (auto simp: validateBaseline_def guards validReceiptHeader_def)
  have "exactLoss r s" if "s \<in> set (PE_Samples (Rc_Loss r))" for s
    using receipt_health(2) [OF assms that] by (simp add: healthyIn_def)
  moreover have "healthyWithTarget r s" if "s \<in> set (PE_Samples (Rc_PreLoss r)) \<union> set (PE_Samples (Rc_Recovered r))" for s
    using that receipt_health(1,3) [OF assms] by (auto simp: healthyIn_def)
  moreover have "durationOf (Rc_MinimumLossWindow r) \<le>
      mustTimestamp (PE_CompletedAt (Rc_Loss r)) - mustTimestamp (PE_StartedAt (Rc_Loss r))"
    "durationOf (Rc_RecoveryStabilityWindow r) \<le>
      mustTimestamp (Rc_CompletedAt r) - mustTimestamp (PE_StartedAt (Rc_Recovered r))"
    using e(7) v(3,5,6) by (auto simp: validTimeline_def Let_def intro!: time_Sub_geD simp: duration_defs)
  moreover have "PE_Samples (Rc_Loss r) \<noteq> []" using e(3) by (simp add: validatePhase_None)
  ultimately show ?thesis using b v(5) by (auto simp: exactLoss_def healthyWithTarget_def Let_def)
qed

theorem receipt_proves_one_server_loss_witness:
  "\<not> SE_TargetNodeReady (hd (PE_Samples (Rc_Loss example_receipt))) \<and>
   SE_EtcdReadyMembers (hd (PE_Samples (Rc_Loss example_receipt))) = 2 \<and>
   20 * Second \<le> mustTimestamp (PE_CompletedAt (Rc_Loss example_receipt)) -
     mustTimestamp (PE_StartedAt (Rc_Loss example_receipt))"
proof -
  have "durationOf (Rc_MinimumLossWindow example_receipt) = 20 * Second"
    by (simp add: example_receipt_def Let_def durationOf_def example_durations)
  moreover have "LB_EtcdMembers (Rc_Baseline example_receipt) = 3" by (simp add: example_baseline_def Let_def)
  ultimately show ?thesis
    using receipt_proves_one_server_loss [OF example_receipt_valid] by (auto simp: example_samples)
qed

text \<open>
  C23. In a valid receipt the machine keeps its identity, runs on the selected server
  before the loss, and is seen ready on another one by a sample of the loss phase that
  starts no later than its limit and two poll intervals after the loss; the last sample of
  the loss phase still finds it there.
\<close>

theorem receipt_proves_vm_recovery:
  assumes "ValidateLossReceipt r = None"
  shows "(\<exists>s \<in> set (PE_Samples (Rc_Loss r)). vmReadyOffTarget s \<and>
        mustTimestamp (SE_StartedAt s) \<le> mustTimestamp (PE_StartedAt (Rc_Loss r)) +
          durationOf (Rc_MaximumVMUnavailable r) + 2 * durationOf (Rc_PollInterval r)) \<and>
      vmReadyOffTarget (last (PE_Samples (Rc_Loss r))) \<and>
      (\<forall>s \<in> set (PE_Samples (Rc_PreLoss r)). VE_VMIReady (SE_VM s) \<and> VE_VMIOnTarget (SE_VM s)) \<and>
      (\<forall>s \<in> set (allSamples r). VE_VMUIDSHA256 (SE_VM s) = LB_VMUIDSHA256 (Rc_Baseline r))"
proof -
  note v = valid_receipt_evidence [OF assms]
  note e = evidence_None [OF v(1)]
  obtain f ss where f: "allSamples r = f # ss" "gapless (durationOf (Rc_PollInterval r)) (observedAt f) ss"
    "startedAt f \<le> observedAt f" using receipt_samples [OF assms] .
  have poll: "0 \<le> durationOf (Rc_PollInterval r)" using v(3) by (simp add: Second_def)
  then have "gapless (durationOf (Rc_PollInterval r)) (startedAt f) (allSamples r)" using f by simp
  then have g: "gapless (durationOf (Rc_PollInterval r))
      (observedAt (last (PE_Samples (Rc_PreLoss r)))) (PE_Samples (Rc_Loss r))"
    using e(2) by (auto simp: allSamples_def gapless_append validatePhase_None)
  obtain b where b: "phaseHealth PhaseLoss r (durationOf (Rc_MaximumVMUnavailable r)) False (PE_Samples (Rc_Loss r)) = Inr b"
    "b" and last: "vmReadyOffTarget (last (PE_Samples (Rc_Loss r)))"
    using e(10) unfolding validatePhaseHealth_None by auto
  obtain xs s ys where s: "PE_Samples (Rc_Loss r) = xs @ s # ys" "vmReadyOffTarget s"
    "\<forall>x \<in> set xs. time_Sub (observedAt x) (mustTimestamp (PE_StartedAt (Rc_Loss r))) \<le> durationOf (Rc_MaximumVMUnavailable r)"
    using phaseHealth_vm [OF b] by blast
  have start: "mustTimestamp (PE_StartedAt (Rc_Loss r)) = observedAt (hd (PE_Samples (Rc_Loss r)))"
    using e(7) by (simp add: validTimeline_def Let_def)
  have vm: "0 \<le> durationOf (Rc_MaximumVMUnavailable r)" "durationOf (Rc_MaximumVMUnavailable r) < maxDuration"
    using v(3,8-10) by (simp_all add: duration_defs)
  have "startedAt s \<le> mustTimestamp (PE_StartedAt (Rc_Loss r)) + durationOf (Rc_MaximumVMUnavailable r) +
      2 * durationOf (Rc_PollInterval r)"
  proof (cases "xs = []")
    case True
    then show ?thesis using start g s(1) vm(1) poll by simp
  next
    case False
    then have "startedAt s \<le> observedAt (last xs) + 2 * durationOf (Rc_PollInterval r)"
      using g s(1) by (simp add: gapless_append)
    moreover have "observedAt (last xs) - mustTimestamp (PE_StartedAt (Rc_Loss r)) \<le> durationOf (Rc_MaximumVMUnavailable r)"
      using s(3) False vm time_Sub_le_iff [of "durationOf (Rc_MaximumVMUnavailable r)"]
      by (simp add: duration_defs)
    ultimately show ?thesis by simp
  qed
  then show ?thesis
    using s(1,2) last receipt_health(1) [OF assms] receipt_sample_continuous [OF assms]
    by (auto simp: healthyIn_def healthyWithTarget_def Let_def)
qed

theorem receipt_proves_vm_recovery_witness:
  "\<exists>s \<in> set (PE_Samples (Rc_Loss example_receipt)). vmReadyOffTarget s \<and> mustTimestamp (SE_StartedAt s) \<le> loss_at 60"
proof -
  have "durationOf (Rc_MaximumVMUnavailable example_receipt) = 10 * Second"
    "durationOf (Rc_PollInterval example_receipt) = 10 * Second"
    by (simp_all add: example_receipt_def Let_def durationOf_def example_durations)
  moreover have "loss_at 60 = loss_at 30 + 10 * Second + 2 * (10 * Second)" by (simp add: loss_at_def)
  ultimately show ?thesis
    using receipt_proves_vm_recovery [OF example_receipt_valid] by auto
qed

subsection \<open>Runs\<close>

text \<open>
  C11. The observer returns: under a clock that never goes back, and sleeps that last as
  long as they were asked to, a run ends, with an error or with a receipt. The receipt holds at most
  the samples that the request was checked for, hence at most \<open>maximumSamples\<close>.
\<close>

theorem observer_returns_within_bound:
  assumes "steady_clock env clock"
  shows "\<exists>r w'. Observe env req w = Some (r, w') \<and>
    (\<forall>rc. r = Inr rc \<longrightarrow> (\<exists>p. validateRequest req = Inr p \<and>
      int (length (allSamples rc)) \<le> estimatedSamples (P_poll p) (P_faultTimeout p) (P_recoveryTimeout p) \<and>
      int (length (allSamples rc)) \<le> maximumSamples))"
  using Observe_total [OF assms, of req w] validateRequest_Inr(9) by (meson order_trans)

theorem observer_returns_within_bound_witness:
  "steady_clock cluster_env in_day \<and> (\<exists>r w'. Observe cluster_env cluster_request 0 = Some (r, w'))"
  using observer_returns_within_bound [OF cluster_clock, of cluster_request 0] cluster_clock by blast

text \<open>
  A sample of a cluster that the drill may disturb: it agrees with the marker on the selected
  server and the members, with the first sample on the machine and the data, and everything
  that the drill watches is up.
\<close>

definition fit_for_fault :: "Request \<Rightarrow> ReadyMarker \<Rightarrow> SampleEvidence \<Rightarrow> SampleEvidence \<Rightarrow> bool" where
  "fit_for_fault req m first s \<longleftrightarrow> SE_Phase s = PhasePreLoss \<and> SE_ReadyZPassed s \<and> workloadsHealthy s \<and>
     SE_TargetNodePresent s \<and> SE_TargetNodeReady s \<and> SE_TargetNodeUIDSHA256 s = RM_TargetNodeUIDSHA256 m \<and>
     SE_ControlPlaneMemberSetSHA256 s = RM_ControlPlaneMemberSetSHA256 m \<and> SE_ControlPlaneMemberSetSHA256 s \<noteq> [] \<and>
     LR_MinimumControlPlaneMembers req \<le> RM_BaselineControlPlaneNodes m \<and>
     RM_BaselineControlPlaneNodes m \<le> SE_ControlPlaneReadyNodes s \<and>
     3 \<le> RM_BaselineEtcdMembers m \<and> RM_BaselineEtcdMembers m \<le> SE_EtcdReadyMembers s \<and>
     3 \<le> RM_BaselineAPIServerMembers m \<and> RM_BaselineAPIServerMembers m \<le> SE_APIServerReadyMembers s \<and>
     SE_TargetHostsEtcd s \<and> SE_TargetHostsAPIServer s \<and>
     VE_VMReady (SE_VM s) \<and> VE_VMIReady (SE_VM s) \<and> VE_VMIOnTarget (SE_VM s) \<and>
     VE_VMUIDSHA256 (SE_VM s) = VE_VMUIDSHA256 (SE_VM first) \<and>
     DE_DataSHA256 (SE_DataProbe s) = DE_DataSHA256 (SE_DataProbe first) \<and>
     DE_ValidatedBytes (SE_DataProbe s) = DE_ValidatedBytes (SE_DataProbe first)"

lemma healthy_fit_for_fault:
  assumes "run_health run s PhasePreLoss 0 = None"
  shows "fit_for_fault (Run_Request run) (ready_marker env run readyAt) (Run_First run) s"
  using assms
  by (auto simp: fit_for_fault_def run_health_def sampleHealth_def sample_preloss_healthy_def baseline_of_def
      ready_marker_def Let_def split: if_splits)

lemma ready_marker_fields:
  "RM_RequestSHA256 (ready_marker env run readyAt) = P_requestSHA256 (Run_Parsed run)"
  "RM_RunNonceSHA256 (ready_marker env run readyAt) = LR_RunNonceSHA256 (Run_Request run)"
  "RM_TargetNodeUIDSHA256 (ready_marker env run readyAt) = SE_TargetNodeUIDSHA256 (Run_First run)"
  "RM_ReadyAt (ready_marker env run readyAt) = readyAt"
  by (simp_all add: ready_marker_def Let_def)

lemma run_receipt_fields:
  "Rc_ReadyMarkerAt (run_receipt env run readyAt st) = readyAt"
  "Rc_RequestSHA256 (run_receipt env run readyAt st) = P_requestSHA256 (Run_Parsed run)"
  "Rc_TargetNodeUIDSHA256 (run_receipt env run readyAt st) = SE_TargetNodeUIDSHA256 (Run_First run)"
  "PE_Samples (Rc_PreLoss (run_receipt env run readyAt st)) = Po_Pre st"
  by (simp_all add: run_receipt_def phaseEvidence_def Let_def)

lemma released_receipt:
  assumes "rest_of_run env run readyAt st u = Some (Inr rc, v)"
  shows "ValidateLossReceipt rc = None \<and> prefix (Po_Pre st) (PE_Samples (Rc_PreLoss rc)) \<and> Rc_ReadyMarkerAt rc = readyAt \<and>
    Rc_RequestSHA256 rc = P_requestSHA256 (Run_Parsed run) \<and> Rc_TargetNodeUIDSHA256 rc = SE_TargetNodeUIDSHA256 (Run_First run)"
  using assms by (rule rest_of_run_receipt) (simp add: run_receipt_fields)

text \<open>
  C6. The fault is released at most once, and only into a cluster that the run itself has
  seen healthy. A run publishes no marker and ends with an error, or it publishes exactly one,
  in the world that its own samples have led to: the series begins with the first sample of
  the run, each other sample is taken after a sleep of one poll interval, there is no gap
  between two of them, and they span two poll intervals. The marker is valid, bound to the
  request and its run, and as old as the last sample of the series. In every sample of it
  the selected server, the control plane with all its members, the workloads, the machine on
  the selected server and the data are as the drill demands. When the marker is refused,
  the run ends there with an error. A receipt that is returned is valid, begins with the
  samples of the series, and names the time, the request and the server of the marker.
\<close>

theorem fault_is_released_once:
  assumes "Observe (recording env) req (w, []) = Some (r, (w', ms))"
  shows "ms = [] \<and> (\<exists>e. r = Inl e) \<or>
    (\<exists>m p pre u b v. ms = [m] \<and> validateRequest req = Inr p \<and>
      series (recording env) req p (w, []) pre (u, []) \<and> Env_ReadyForFault env m u = (b, v) \<and>
      ValidateReadyMarker m = None \<and> RM_RequestSHA256 m = digestJSON (json_Request req) \<and>
      RM_RunNonceSHA256 m = LR_RunNonceSHA256 req \<and> RM_ReadyAt m = SE_ObservedAt (last pre) \<and>
      2 * durationOf (LR_PollInterval req) \<le> time_Sub (observedAt (last pre)) (observedAt (hd pre)) \<and>
      successively (\<lambda>x y. \<not> observationGap x y (durationOf (LR_PollInterval req))) pre \<and>
      list_all (fit_for_fault req m (hd pre)) pre \<and>
      (\<not> b \<longrightarrow> w' = v \<and> (\<exists>e. r = Inl e)) \<and>
      (\<forall>rc. r = Inr rc \<longrightarrow> ValidateLossReceipt rc = None \<and> prefix pre (PE_Samples (Rc_PreLoss rc)) \<and>
        Rc_ReadyMarkerAt rc = RM_ReadyAt m \<and> Rc_RequestSHA256 rc = RM_RequestSHA256 m \<and>
        Rc_TargetNodeUIDSHA256 rc = RM_TargetNodeUIDSHA256 m))"
  using assms
proof (cases rule: Observe_cases)
  case (early e v)
  then have "snd v = []"
    using recorded.sampler_next_world [of "(w, [])" env req _ 0 PhasePreLoss] by auto
  moreover have "v = (w', ms)" "r = Inl e" using early(1) by simp_all
  ultimately show ?thesis by simp
next
  case (run p first u)
  define run where "run = \<lparr>Run_Request = req, Run_Parsed = p, Run_First = first\<rparr>"
  have sel: "Run_Request run = req" "Run_Parsed run = p" "Run_First run = first" by (simp_all add: run_def)
  have log: "snd u = []" using run(2) recorded.sampler_next_world [of "(w, [])" env req p 0 PhasePreLoss] by simp
  have poll: "run_poll run = durationOf (LR_PollInterval req)" "P_requestSHA256 p = digestJSON (json_Request req)"
    using validateRequest_Inr(1,4) [OF run(1)] by (simp_all add: run_poll_def sel)
  have first: "run_health run (Run_First run) PhasePreLoss 0 = None"
    "sampler_next (recording env) (Run_Request run) (Run_Parsed run) 0 PhasePreLoss (w, []) = (Inr (Run_First run), u)"
    using run(2,3) by (simp_all add: run_def)
  show ?thesis
  proof (cases rule: observe_run_log [OF run(4) [folded run_def] first, case_names unpublished published])
    case (unpublished e)
    then show ?thesis using log by simp
  next
    case (published st m v0 b v1)
    have v0: "v0 = (fst v0, [])" using published(7) log by (simp add: prod_eq_iff)
    obtain v where v: "Env_ReadyForFault env m (fst v0) = (b, v)" "fst v1 = v"
      using published(6) by (auto simp: recording_def split: prod.splits)
    have pre: "series (recording env) req p (w, []) (Po_Pre st) (fst v0, [])"
      using published(2) v0 by (simp add: sampled_def sel)
    have st: "hd (Po_Pre st) = first" "successively (\<lambda>x y. \<not> observationGap x y (run_poll run)) (Po_Pre st)"
      "list_all (fit_for_fault req m first) (Po_Pre st)"
      using published(1,4) healthy_fit_for_fault [of run _ "recording env"] by (auto simp: settled_def list_all_iff sel)
    have "ValidateLossReceipt rc = None \<and> prefix (Po_Pre st) (PE_Samples (Rc_PreLoss rc)) \<and>
        Rc_ReadyMarkerAt rc = RM_ReadyAt m \<and> Rc_RequestSHA256 rc = RM_RequestSHA256 m \<and>
        Rc_TargetNodeUIDSHA256 rc = RM_TargetNodeUIDSHA256 m" if "r = Inr rc" for rc
      using published(9,10) that released_receipt [of "recording env" run "RM_ReadyAt m" st v1 rc]
      by (cases b) (auto simp: published(4) ready_marker_fields)
    moreover have "\<not> b \<Longrightarrow> w' = v \<and> (\<exists>e. r = Inl e)" using published(9) v(2) by auto
    ultimately show ?thesis
      using published(3-5,8) st pre v(1) run(1) log
      by (intro disjI2 exI [of _ m] exI [of _ p] exI [of _ "Po_Pre st"] exI [of _ "fst v0"] exI [of _ b] exI [of _ v])
        (simp add: ready_marker_fields sel poll)
  qed
qed

theorem fault_is_released_once_witness:
  "\<exists>r m p pre u b v. Observe (recording (drill_env 0)) cluster_request (loss_at 0, []) = Some (r, (loss_at 70, [m])) \<and>
    validateRequest cluster_request = Inr p \<and> series (recording (drill_env 0)) cluster_request p (loss_at 0, []) pre (u, []) \<and>
    Env_ReadyForFault (drill_env 0) m u = (b, v) \<and> ValidateReadyMarker m = None \<and> RM_ReadyAt m = SE_ObservedAt (last pre) \<and>
    20 * Second \<le> time_Sub (observedAt (last pre)) (observedAt (hd pre)) \<and>
    list_all (fit_for_fault cluster_request m (hd pre)) pre"
proof -
  obtain r where r: "Observe (recording (drill_env 0)) cluster_request (loss_at 0, []) = Some (r, (loss_at 70, [drill_marker 0 20]))"
    using quick_drill_observed by (auto simp: drill_duration_def)
  have poll: "durationOf (LR_PollInterval cluster_request) = 10 * Second"
    by (simp add: cluster_request_fields durationOf_def example_durations)
  from fault_is_released_once [OF r] obtain p pre u b v where
    "validateRequest cluster_request = Inr p" "series (recording (drill_env 0)) cluster_request p (loss_at 0, []) pre (u, [])"
    "Env_ReadyForFault (drill_env 0) (drill_marker 0 20) u = (b, v)" "ValidateReadyMarker (drill_marker 0 20) = None"
    "RM_ReadyAt (drill_marker 0 20) = SE_ObservedAt (last pre)"
    "2 * (10 * Second) \<le> time_Sub (observedAt (last pre)) (observedAt (hd pre))"
    "list_all (fit_for_fault cluster_request (drill_marker 0 20) (hd pre)) pre"
    unfolding poll by blast
  with r show ?thesis by auto
qed

subsection \<open>Readings\<close>

text \<open>
  C20. The counts of a sample are the truth about the lists it was read from. The members of the
  control plane are the ready nodes of the role, told apart by identity; the etcd
  and API server members are the servers among them with a running and ready pod of that
  component; the selected server is present when a node has its name, and ready only if such
  a node is.
\<close>

theorem sample_counts_are_true:
  assumes "sampler_next env req parsed n phase w = (Inr s, w')"
  shows "\<exists>u v vs ns. listAll env nodeResource [] [] u = (Inr vs, v) \<and> map decodeNode vs = map Inr ns \<and>
    SE_ControlPlaneReadyNodes s = int (card (node_uid ` ready_members ns)) \<and>
    (SE_TargetNodePresent s \<longleftrightarrow> (\<exists>n \<in> set ns. node_name n = LR_TargetNodeName req)) \<and>
    (SE_TargetNodeReady s \<longrightarrow> (\<exists>n \<in> set ns. node_name n = LR_TargetNodeName req \<and> node_ready n \<and>
      SE_TargetNodeUIDSHA256 s = NodeUIDSHA256 (node_uid n))) \<and>
    counts_hosts env ''etcd'' (node_name ` ready_members ns) (LR_TargetNodeName req) (SE_EtcdReadyMembers s) (SE_TargetHostsEtcd s) \<and>
    counts_hosts env ''kube-apiserver'' (node_name ` ready_members ns) (LR_TargetNodeName req)
      (SE_APIServerReadyMembers s) (SE_TargetHostsAPIServer s)"
  using assms
proof (rule sampler_next_Inr)
  fix w0 scan members w1 etcd hostsEtcd w2 api hostsAPI w3
  assume "read_nodes env req w0 = (Inr (scan, members), w1)"
    and pods: "controlPlanePods env req ''etcd'' (NS_ReadyControlPlane scan) w1 = (Inr (etcd, hostsEtcd), w2)"
      "controlPlanePods env req ''kube-apiserver'' (NS_ReadyControlPlane scan) w2 = (Inr (api, hostsAPI), w3)"
    and s: "SE_TargetNodePresent s = NS_TargetPresent scan" "SE_TargetNodeReady s = NS_TargetReady scan"
      "SE_TargetNodeUIDSHA256 s = NS_TargetUID scan" "SE_ControlPlaneReadyNodes s = int (length (NS_ControlPlane scan))"
      "SE_EtcdReadyMembers s = etcd" "SE_APIServerReadyMembers s = api" "SE_TargetHostsEtcd s = hostsEtcd"
      "SE_TargetHostsAPIServer s = hostsAPI"
  then obtain u v vs ns where ns: "listAll env nodeResource [] [] u = (Inr vs, v)" "map decodeNode vs = map Inr ns"
    "scan = fold (scan_node (LR_TargetNodeName req)) ns scan_start"
    by (blast elim: read_nodes_counts)
  note f = scan_fold [of "LR_TargetNodeName req" ns, folded ns(3)]
  have "SE_ControlPlaneReadyNodes s = int (card (node_uid ` ready_members ns))"
    using f(1) distinct_card [of "NS_ControlPlane scan"] s(4) by simp
  moreover have "counts_hosts env ''etcd'' (node_name ` ready_members ns) (LR_TargetNodeName req) etcd hostsEtcd"
    "counts_hosts env ''kube-apiserver'' (node_name ` ready_members ns) (LR_TargetNodeName req) api hostsAPI"
    using pods [THEN controlPlanePods_counts] f(2) by simp_all
  ultimately show ?thesis
    using ns(1,2) f(3,4) by (intro exI [of _ u] exI [of _ v] exI [of _ vs] exI [of _ ns]) (simp add: s)
qed

theorem sample_counts_are_true_witness:
  "\<exists>p s u v vs ns. validateRequest cluster_request = Inr p \<and>
    sampler_next (recording cluster_env) cluster_request p 0 PhasePreLoss (0, []) = (Inr s, (0, [])) \<and>
    listAll (recording cluster_env) nodeResource [] [] u = (Inr vs, v) \<and> map decodeNode vs = map Inr ns \<and>
    SE_ControlPlaneReadyNodes s = 1 \<and> card (node_uid ` ready_members ns) = 1"
proof -
  obtain p where p: "validateRequest cluster_request = Inr p" using cluster_request_valid by blast
  obtain s where s: "sampler_next (recording cluster_env) cluster_request p 0 PhasePreLoss (0, []) = (Inr s, (0, []))"
    "SE_ControlPlaneReadyNodes s = 1" by (rule cluster_sample)
  obtain u v vs ns where "listAll (recording cluster_env) nodeResource [] [] u = (Inr vs, v)" "map decodeNode vs = map Inr ns"
    "SE_ControlPlaneReadyNodes s = int (card (node_uid ` ready_members ns))"
    using sample_counts_are_true [OF s(1)] by blast
  with p s show ?thesis by (metis of_nat_eq_1_iff)
qed

text \<open>
  C21. A list is read completely and from one version of the collection: when a list is
  returned, it is the sorted content of at most twenty pages, each read with the
  continuation of the one before and the last without a continuation, all of the same kind and version. It holds at most 10000
  objects of the requested kind and namespace, no two of the same identity.
\<close>

theorem lists_are_complete_snapshots:
  assumes "listAll env res namespace selector w = (Inr items, w')"
  shows "\<exists>pages version. follows env res namespace selector [] w pages w' \<and> length pages \<le> 20 \<and>
    items = sort_key objectSortIdentity (concat (map L_Items pages)) \<and>
    version \<noteq> [] \<and> list_all (page_of res version) pages \<and> length items \<le> 10000 \<and>
    list_all (\<lambda>v. listed_object res namespace v \<noteq> None) items \<and> distinct (map objectSortIdentity items)"
  using listAll_result [OF assms] unfolding list_result_def well_listed_def list_start_def list_all_iff by auto

theorem lists_are_complete_snapshots_witness:
  "listAll (recording cluster_env) nodeResource [] [] (0, []) = (Inr [cluster_node], (0, [])) \<and>
    (\<exists>pages version. follows (recording cluster_env) nodeResource [] [] [] (0, []) pages (0, []) \<and>
      [cluster_node] = sort_key objectSortIdentity (concat (map L_Items pages)) \<and>
      version \<noteq> [] \<and> list_all (page_of nodeResource version) pages)"
  using lists_are_complete_snapshots [OF cluster_reads(1) [of "(0, [])"]] cluster_reads(1) [of "(0, [])"] by blast

text \<open>
  C40. A member set is identified by its digest: reordered members have the same digest, and
  a list with the digest of another one names the same members, each once, unless the two
  encodings collide under SHA-256.
\<close>

theorem member_set_digest_identifies:
  assumes "ControlPlaneMemberSetSHA256 us \<noteq> []"
  shows "(distinct vs \<and> set vs = set us \<longrightarrow> ControlPlaneMemberSetSHA256 vs = ControlPlaneMemberSetSHA256 us) \<and>
    (ControlPlaneMemberSetSHA256 vs = ControlPlaneMemberSetSHA256 us \<longrightarrow>
      distinct us \<and> distinct vs \<and> (set vs = set us \<or>
        member_preimage vs \<noteq> member_preimage us \<and> Sum256 (member_preimage vs) = Sum256 (member_preimage us)))"
proof -
  note valid = ControlPlaneMemberSetSHA256_not_Nil
  have digest: "ControlPlaneMemberSetSHA256 xs = SHA256Hex (member_preimage xs)" if "ControlPlaneMemberSetSHA256 xs \<noteq> []" for xs
    using that by (auto simp: ControlPlaneMemberSetSHA256_def Let_def member_preimage_def digestJSON_def split: if_splits)
  have "ControlPlaneMemberSetSHA256 vs = ControlPlaneMemberSetSHA256 us" if "distinct vs" "set vs = set us"
  proof -
    have "sort vs = sort us" using that assms by (metis distinct_sort set_sort sorted_distinct_set_unique sorted_sort valid)
    moreover have "length vs = length us" using that assms by (metis distinct_card valid)
    ultimately show ?thesis by (simp add: ControlPlaneMemberSetSHA256_def)
  qed
  moreover have "distinct us \<and> distinct vs \<and> (set vs = set us \<or>
      member_preimage vs \<noteq> member_preimage us \<and> Sum256 (member_preimage vs) = Sum256 (member_preimage us))"
    if eq: "ControlPlaneMemberSetSHA256 vs = ControlPlaneMemberSetSHA256 us"
  proof -
    have v: "ControlPlaneMemberSetSHA256 vs \<noteq> []" using eq assms by simp
    have "Sum256 (member_preimage vs) = Sum256 (member_preimage us)"
      using eq digest [OF v] digest [OF assms] by (simp add: SHA256Hex_def hex_EncodeToString_inj)
    moreover have "member_preimage vs = member_preimage us \<Longrightarrow> set vs = set us"
      using member_preimage_inj v assms unfolding valid by (metis set_sort)
    ultimately show ?thesis using v assms unfolding valid by blast
  qed
  ultimately show ?thesis by blast
qed

theorem member_set_digest_identifies_witness:
  "ControlPlaneMemberSetSHA256 [hex64 CHR ''a'', hex64 CHR ''b''] = ControlPlaneMemberSetSHA256 [hex64 CHR ''b'', hex64 CHR ''a''] \<and>
    ControlPlaneMemberSetSHA256 [hex64 CHR ''b'', hex64 CHR ''a''] \<noteq> []"
proof -
  have "list_all validSHA256 [hex64 CHR ''b'', hex64 CHR ''a'']" "distinct [hex64 CHR ''b'', hex64 CHR ''a'']" by code_simp+
  then have "ControlPlaneMemberSetSHA256 [hex64 CHR ''b'', hex64 CHR ''a''] \<noteq> []"
    by (simp add: ControlPlaneMemberSetSHA256_not_Nil)
  with member_set_digest_identifies [OF this, of "[hex64 CHR ''a'', hex64 CHR ''b'']"]
    \<open>distinct [hex64 CHR ''b'', hex64 CHR ''a'']\<close> show ?thesis by auto
qed

text \<open>
  C25. The structural check accepts a document exactly when it is not too large, parses as one JSON value, no
  object in it repeats a key at any level, and it is nested at most 64 deep.
\<close>

theorem strict_validation_exact:
  "Validate data = None \<longleftrightarrow> length data \<le> MaxDocumentBytes \<and>
     (\<exists>v. json_Parse data = Some v \<and> unique_keys v \<and> json_depth v \<le> maxDepth)"
proof -
  have "json_Parse [] = None" by code_simp
  moreover have "unique_keys v \<and> json_depth v \<le> maxDepth \<longleftrightarrow> inspectValue 0 v = Some False" for v
    by (simp only: inspect_sound sound_below_def add_0)
  ultimately show ?thesis
    by (auto simp: Validate_def json_check_def simp del: inspectValue.simps split: option.splits sum.splits if_splits)
qed

end
