(* ===== verification/Spec2Isabelle.thy ===== *)
theory Spec2Isabelle
  imports Iam_Properties Provider_Properties Registry_Properties Drill_Properties
    Loss_Properties
begin

text \<open>
  Verification of CloudRING, a Go repository with the building blocks of a cloud control
  plane. Five of its packages are modelled and verified here: the authorization engine
  (\<^verbatim>\<open>pkg/iam\<close>), the contract between control plane and provider adapters
  (\<^verbatim>\<open>pkg/providerports\<close>), the validation of the module registry (\<^verbatim>\<open>pkg/registry\<close>),
  the crash-safe backup and restore drill (\<^verbatim>\<open>pkg/backup/drill\<close>) and the observer of the
  one-server-loss drill (\<^verbatim>\<open>pkg/resilience/oneserverloss\<close>, with the packages
  \<^verbatim>\<open>internal/strictjson\<close> and \<^verbatim>\<open>pkg/kubeidentity\<close> it calls). The five do not
  call one another; they share the Go standard library and the same habits: closed error
  sets, canonical encodings under SHA-256, and refusal by default.

  \<^bold>\<open>The Go library.\<close> \<^verbatim>\<open>Go_Base\<close> is the prelude: maps as association lists,
  times and saturating durations, validators as chains of early returns and the rules
  that turn them into conditions (collections \<open>guards\<close>, \<open>go_simps\<close>, \<open>go_consts\<close>).
  \<^verbatim>\<open>Go_Strings\<close> has the functions of package \<^verbatim>\<open>strings\<close>, \<^verbatim>\<open>Go_Regexp\<close> the class
  of regular expressions the packages use (sequences of bounded repetitions of character
  classes), \<^verbatim>\<open>Go_Path\<close> the algorithm of \<^verbatim>\<open>path.Clean\<close>, \<^verbatim>\<open>Go_Sha256\<close> SHA-256
  itself (\<^verbatim>\<open>Sha256_Bits\<close> evaluates it on the bits of its words and is proved equal; the
  digest of the standard's one-block message comes out), \<^verbatim>\<open>Go_Json\<close> the encoder of \<^verbatim>\<open>encoding/json\<close> with its escapes and its
  replacement of invalid UTF-8, a parser, and the proof that the parser inverts the
  encoder, \<^verbatim>\<open>Go_Time\<close> the calendar with the canonical RFC 3339 form and the
  proof that parsing inverts printing, and \<^verbatim>\<open>Go_Duration\<close> the same for the text of a
  duration. \<^verbatim>\<open>Hash_Chain\<close> has the two interfaces used by
  the drill: locale \<open>hash_chain\<close> (entries that name the digest of their predecessor)
  and locale \<open>progress\<close> (operations that follow a preorder).

  \<^bold>\<open>Authorization.\<close> \<^verbatim>\<open>Iam_Types\<close>, \<^verbatim>\<open>Iam_Rules\<close> and \<^verbatim>\<open>Iam_Audit\<close> follow
  \<^verbatim>\<open>types.go\<close>, \<^verbatim>\<open>rules.go\<close> and \<^verbatim>\<open>audit.go\<close>; \<^verbatim>\<open>Iam_Policy\<close> follows
  \<^verbatim>\<open>policy.go\<close> and \<^verbatim>\<open>audit_event.go\<close> (\<^verbatim>\<open>AuthorizeContext\<close> with everything below
  it), \<^verbatim>\<open>Iam_State\<close> follows \<^verbatim>\<open>state_loader.go\<close>. The credential verifier and the
  audit sink are interfaces in the code and record fields in the model; the contract of a
  sink is locale \<open>audit_log\<close>, interpreted on the in-memory and the failing sink.
  \<^verbatim>\<open>Iam_Authorize\<close> states when a request is permitted and shows that the engine
  decides exactly that. The properties: the engine refines the specification, tenants
  are isolated, every allow is recorded, second factors, break-glass and tokens are
  confined, evidence is fresh, the last owner stays, and a loaded policy is sound.

  \<^bold>\<open>Provider ports.\<close> \<^verbatim>\<open>Provider_Ports\<close>, \<^verbatim>\<open>Provider_Adapter\<close> and
  \<^verbatim>\<open>Provider_Conformance\<close> follow \<^verbatim>\<open>ports.go\<close>: requests, receipts and digests, the
  in-memory adapter as a record of its three maps with a step relation, and the
  conformance suite. Locale \<open>provider_contract\<close> is what the suite relies on; it is
  interpreted on the in-memory adapter. The properties: the adapter passes the suite,
  replays are stable, tenants stay isolated, receipts validate and bind, failures change
  nothing. Where a property depends on digests it names the two encodings that would
  have to collide.

  \<^bold>\<open>Module registry.\<close> \<^verbatim>\<open>Module_Registry\<close> follows \<^verbatim>\<open>registry.go\<close>. The
  depth-first search for dependency cycles is modelled with its two sets, proved to
  terminate, and to accept exactly the acyclic graphs; a valid registry has an
  installation order.

  \<^bold>\<open>Backup drill.\<close> \<^verbatim>\<open>Drill_Types\<close> (\<^verbatim>\<open>types.go\<close>, \<^verbatim>\<open>digest.go\<close>) has the documents
  and their encodings, \<^verbatim>\<open>Drill_Validate\<close> (\<^verbatim>\<open>validate.go\<close>) their validation,
  \<^verbatim>\<open>Drill_Journal\<close> the chain checks of \<^verbatim>\<open>journal.go\<close> and \<^verbatim>\<open>engine.go\<close>, and
  \<^verbatim>\<open>Drill_Engine\<close> the adapter, the journal file and the operations \<^verbatim>\<open>Preflight\<close>,
  \<^verbatim>\<open>Apply\<close>, \<^verbatim>\<open>Recover\<close> and \<^verbatim>\<open>Rollback\<close>. The state is a record of the
  journal file, the requests sent so far and two counters; an environment decides what
  the clock shows and which file accesses fail before, during or after a write, and the
  adapter may answer anything. \<^verbatim>\<open>Drill_History\<close> shows what a valid journal looks
  like (and interprets \<open>hash_chain\<close>), \<^verbatim>\<open>Drill_Runs\<close> what an operation can do to the
  world, \<^verbatim>\<open>Drill_Outcomes\<close> what receipts and finished rollbacks mean (and interprets
  \<open>progress\<close>), \<^verbatim>\<open>Drill_Liveness\<close>, \<^verbatim>\<open>Drill_Recovery\<close> and \<^verbatim>\<open>Drill_Rollback\<close>
  that runs, interrupted runs and rollbacks can be completed, \<^verbatim>\<open>Drill_Plans\<close> what a
  valid plan is. \<^verbatim>\<open>Drill_Sample\<close> has a concrete plan, approval and adapter with
  complete, interrupted and rolled-back runs, on which the properties are instantiated.

  \<^bold>\<open>One-server-loss drill.\<close> \<^verbatim>\<open>Loss_Types\<close> (\<^verbatim>\<open>types.go\<close>, \<^verbatim>\<open>hash.go\<close>) has the
  documents and their encodings, \<^verbatim>\<open>Loss_Validate\<close> (\<^verbatim>\<open>validate.go\<close>) the checks of requests,
  markers and receipts, \<^verbatim>\<open>Strict_Json\<close> (\<^verbatim>\<open>strictjson.go\<close>) the check and decoding of
  untrusted documents, \<^verbatim>\<open>Loss_Reader\<close> (\<^verbatim>\<open>decode.go\<close>) the Kubernetes objects and paged lists,
  \<^verbatim>\<open>Loss_Sampler\<close> (\<^verbatim>\<open>sample.go\<close>) one sample, \<^verbatim>\<open>Loss_Observer\<close> (\<^verbatim>\<open>observe.go\<close>) the run
  with its four loops. The interfaces to cluster, data probe, fault barrier and clock are
  the fields of a record \<open>LossEnv\<close> over an arbitrary state of the world, which every
  operation passes on. \<^verbatim>\<open>Loss_World\<close> has locale \<open>observer_world\<close>: what every reading
  preserves, a run's readings preserve. \<^verbatim>\<open>Loss_Loops\<close> shows that the loops end,
  \<^verbatim>\<open>Loss_Runs\<close> what a run publishes and after which samples (it interprets
  \<open>observer_world\<close> on an environment that records the published markers; \<open>series\<close> is the
  sequence of samples from the start of a run), \<^verbatim>\<open>Loss_Receipts\<close> what the checks of a
  receipt mean sample by sample, and \<^verbatim>\<open>Loss_Readings\<close> what an accepted document, a list and
  the counts of a sample are. \<^verbatim>\<open>Loss_Samples\<close> and \<^verbatim>\<open>Loss_Complete\<close> show the converse of
  the checks: under a clock that does not go back and a probe that answers in time, the receipt of a
  run whose loops are done passes every check when it has seven samples and the machine ends
  the loss on another server, unless two probe requests collide; with fewer samples it
  is refused. \<^verbatim>\<open>Loss_Example\<close> has a concrete receipt, \<^verbatim>\<open>Loss_Cluster\<close> a
  cluster of one server that serves its objects as JSON text, \<^verbatim>\<open>Loss_Drill\<close> a cluster of
  three that loses one of them, and \<^verbatim>\<open>Loss_Drill_Run\<close> the observer's run on it from the first
  sample to the last. The properties: a valid receipt has no blind spot
  and proves the loss of exactly one server and the recovery of the machine; a run ends, and
  it releases the fault at most once and only after its own samples have found the cluster
  healthy; samples count
  truly, lists are complete, and the document check is exact.

  \<^bold>\<open>Fuel and bounds.\<close> The JSON parser has fuel, twice
  the length of its input plus one; the round trip shows this is enough for every encoded
  document. The loop over the pages of a list has the twenty rounds of the code. The loops of the
  observer may run forever in the code, so they are an iterator in the option monad; that they
  return is proved, under a clock that does not go back and sleeps that last as
  long as asked, with a bound on the number of samples. All other recursions are structural or
  have a termination proof: the
  dependency search descends in the number of modules not yet visited, the apply loop in
  the number of phases left. Integers that are compared or encoded are \<^typ>\<open>int\<close>; the
  arithmetic on them stays far inside 64 bits except for the difference of two times,
  whose saturation is modelled.

  \<^bold>\<open>Taken as parameters.\<close> The credential verifier and foreign audit sinks of the
  engine; the executable behind a drill adapter, with what the strict JSON decoder makes
  of its output; the cluster, the data probe and the fault barrier of the observer; the
  clock; the order in which a map is iterated. The liveness properties
  of the backup drill assume a clock that does not run backwards and an adapter that answers
  as the protocol document asks; both are satisfied by the sample.

  \<^bold>\<open>Not modelled.\<close> Mutexes and file locks: an operation is one step. Owners,
  permissions and paths of the journal file. Nil pointers handed to an operation, and the overwriting of
  used buffers. Decoding of JSON into the structures of the registry and of adapter
  responses (\<^verbatim>\<open>registry.Parse\<close>, \<^verbatim>\<open>strictjson.DecodeExact\<close>); a document that
  names one list twice in different case is taken to hold its last occurrence. The demonstration harness of
  \<^verbatim>\<open>pkg/iam\<close>. The remaining packages drive clusters, databases, processes and HTTP
  servers, check rendered deployment text, or validate documents that have not been
  translated.
\<close>

end
